(* ===== verification/Js_Prelude.thy ===== *)
theory Js_Prelude
  imports Complex_Main "HOL-Library.AList" "HOL-Library.Sublist"
begin

text \<open>
  The prelude of the development: the collections of rewrite rules the component theories
  share, the result type of operations that may throw, and the parts of the ECMAScript
  string library the panel uses (splitting, trimming, joining, case conversion).

  A JavaScript string is a sequence of UTF-16 code units. It is modelled as a HOL
  \<^typ>\<open>string\<close>, whose characters are the code units below 256; the operations below
  distinguish ASCII characters and the no-break space only. \<open>ToUpper\<close> leaves the two
  characters whose upper case lies above 255 (the micro sign and y-diaeresis) unchanged.
\<close>

named_theorems path_laws "laws of reading and writing a JSON object by a path"
named_theorems table_facts "facts about the field tables"

subsection \<open>Operations that may throw\<close>

datatype js_error = JsTypeError | JsSyntaxError | JsError string

type_synonym 'a res = "js_error + 'a"

definition bind_res :: "'a res \<Rightarrow> ('a \<Rightarrow> 'b res) \<Rightarrow> 'b res" where
  "bind_res m f = (case m of Inl e \<Rightarrow> Inl e | Inr a \<Rightarrow> f a)"

lemma bind_res_simps [simp]:
  "bind_res (Inl e) f = Inl e"
  "bind_res (Inr a) f = f a"
  by (simp_all add: bind_res_def)

lemma bind_res_eq_Inr:
  "bind_res m f = Inr b \<longleftrightarrow> (\<exists>a. m = Inr a \<and> f a = Inr b)"
  by (cases m) auto

subsection \<open>Characters\<close>

abbreviation code_of :: "char \<Rightarrow> nat" where
  "code_of c \<equiv> of_char c"

definition is_digit :: "char \<Rightarrow> bool" where
  "is_digit c \<longleftrightarrow> 48 \<le> code_of c \<and> code_of c \<le> 57"

definition digit_of :: "char \<Rightarrow> nat" where
  "digit_of c = code_of c - 48"

definition is_hex :: "char \<Rightarrow> bool" where
  "is_hex c \<longleftrightarrow> is_digit c \<or> (65 \<le> code_of c \<and> code_of c \<le> 70) \<or> (97 \<le> code_of c \<and> code_of c \<le> 102)"

definition hex_of :: "char \<Rightarrow> nat" where
  "hex_of c = (if is_digit c then digit_of c
     else if code_of c \<le> 70 then code_of c - 55 else code_of c - 87)"

text \<open>White space and line terminators, as \<open>String.prototype.trim\<close> removes them.\<close>

definition is_ws :: "char \<Rightarrow> bool" where
  "is_ws c \<longleftrightarrow> code_of c \<in> {9, 10, 11, 12, 13, 32, 160}"

definition upper_char :: "char \<Rightarrow> string" where
  "upper_char c = (if 97 \<le> code_of c \<and> code_of c \<le> 122 then [char_of (code_of c - 32)]
     else if code_of c = 223 then ''SS''
     else if 224 \<le> code_of c \<and> code_of c \<le> 254 \<and> code_of c \<noteq> 247 then [char_of (code_of c - 32)]
     else [c])"

definition lower_char :: "char \<Rightarrow> char" where
  "lower_char c = (if 65 \<le> code_of c \<and> code_of c \<le> 90 then char_of (code_of c + 32)
     else if 192 \<le> code_of c \<and> code_of c \<le> 222 \<and> code_of c \<noteq> 215 then char_of (code_of c + 32)
     else c)"

subsection \<open>Strings\<close>

definition js_trimStart :: "string \<Rightarrow> string" where
  "js_trimStart s = dropWhile is_ws s"

definition js_trim :: "string \<Rightarrow> string" where
  "js_trim s = rev (dropWhile is_ws (rev (js_trimStart s)))"

definition toUpperCase :: "string \<Rightarrow> string" where
  "toUpperCase s = concat (map upper_char s)"

definition toLowerCase :: "string \<Rightarrow> string" where
  "toLowerCase s = map lower_char s"

text \<open>\<open>s.split(re)\<close> for a regular expression that matches one character.\<close>

fun js_split :: "(char \<Rightarrow> bool) \<Rightarrow> string \<Rightarrow> string list" where
  "js_split P [] = [[]]"
| "js_split P (c # cs) =
     (if P c then [] # js_split P cs
      else (case js_split P cs of [] \<Rightarrow> [[c]] | t # ts \<Rightarrow> (c # t) # ts))"

fun js_join :: "string \<Rightarrow> string list \<Rightarrow> string" where
  "js_join sep [] = []"
| "js_join sep [s] = s"
| "js_join sep (s # t # ts) = s @ sep @ js_join sep (t # ts)"

definition js_startsWith :: "string \<Rightarrow> string \<Rightarrow> bool" where
  "js_startsWith p s \<longleftrightarrow> take (length p) s = p"

fun js_includes :: "string \<Rightarrow> string \<Rightarrow> bool" where
  "js_includes t [] \<longleftrightarrow> t = []"
| "js_includes t (c # cs) \<longleftrightarrow> js_startsWith t (c # cs) \<or> js_includes t cs"

text \<open>\<open>[...new Set(xs)]\<close>: the distinct elements in the order of their first occurrence.\<close>

fun js_unique :: "'a list \<Rightarrow> 'a list" where
  "js_unique [] = []"
| "js_unique (x # xs) = x # filter (\<lambda>y. y \<noteq> x) (js_unique xs)"

subsection \<open>Lemmas on strings and lists\<close>

lemma js_split_not_Nil [simp]: "js_split P s \<noteq> []"
  by (induction s) (auto split: list.splits)

lemma js_split_no_sep: "t \<in> set (js_split P s) \<Longrightarrow> c \<in> set t \<Longrightarrow> \<not> P c"
proof (induction s arbitrary: t)
  case Nil
  then show ?case by simp
next
  case (Cons d s)
  obtain u us where u: "js_split P s = u # us"
    by (meson js_split_not_Nil neq_Nil_conv)
  show ?case
    using Cons.prems Cons.IH u by (fastforce split: if_splits)
qed

lemma js_split_id: "\<forall>c\<in>set s. \<not> P c \<Longrightarrow> js_split P s = [s]"
  by (induction s) auto

lemma js_split_append_sep:
  "\<forall>c\<in>set s. \<not> P c \<Longrightarrow> P d \<Longrightarrow> js_split P (s @ d # r) = s # js_split P r"
  by (induction s) auto

lemma js_split_join:
  assumes "xs \<noteq> []" and "P d" and "\<forall>x\<in>set xs. \<forall>c\<in>set x. \<not> P c"
  shows "js_split P (js_join [d] xs) = xs"
  using assms
proof (induction "[d]" xs rule: js_join.induct)
  case 1
  then show ?case by simp
next
  case (2 s)
  then show ?case by (simp add: js_split_id)
next
  case (3 s t ts)
  then show ?case by (simp add: js_split_append_sep)
qed

lemma js_join_split: "js_join [d] (js_split (\<lambda>c. c = d) s) = s"
proof (induction s)
  case Nil
  then show ?case by simp
next
  case (Cons c s)
  obtain u us where u: "js_split (\<lambda>c. c = d) s = u # us"
    by (meson js_split_not_Nil neq_Nil_conv)
  with Cons show ?case by (cases us) auto
qed

lemma dropWhile_id: "(s = [] \<or> \<not> P (hd s)) \<Longrightarrow> dropWhile P s = s"
  by (cases s) auto

lemma js_trim_id:
  assumes "s \<noteq> []" and "\<not> is_ws (hd s)" and "\<not> is_ws (last s)"
  shows "js_trim s = s"
  using assms by (simp add: js_trim_def js_trimStart_def dropWhile_id hd_rev)

lemma js_trim_hd: "js_trim s \<noteq> [] \<Longrightarrow> \<not> is_ws (hd (js_trim s))"
proof -
  assume ne: "js_trim s \<noteq> []"
  let ?u = "dropWhile is_ws s"
  have "js_trim s = rev (dropWhile is_ws (rev ?u))"
    by (simp add: js_trim_def js_trimStart_def)
  then obtain w where w: "?u = js_trim s @ w"
    by (metis rev_rev_ident rev_append takeWhile_dropWhile_id)
  with ne have "hd (js_trim s) = hd ?u" and "?u \<noteq> []" by auto
  then show ?thesis by (metis hd_dropWhile)
qed

lemma js_trim_last: "js_trim s \<noteq> [] \<Longrightarrow> \<not> is_ws (last (js_trim s))"
  by (metis hd_dropWhile js_trim_def last_rev rev_is_Nil_conv)

lemma js_trim_trim [simp]: "js_trim (js_trim s) = js_trim s"
  by (cases "js_trim s = []")
     (auto simp: js_trim_id js_trim_hd js_trim_last, simp add: js_trim_def js_trimStart_def)

lemma set_js_trim: "set (js_trim s) \<subseteq> set s"
  by (auto simp: js_trim_def js_trimStart_def dest!: set_dropWhileD)

lemma set_js_unique [simp]: "set (js_unique xs) = set xs"
  by (induction xs) auto

lemma distinct_js_unique [simp]: "distinct (js_unique xs)"
  by (induction xs) auto

lemma js_unique_id: "distinct xs \<Longrightarrow> js_unique xs = xs"
  by (induction xs) (auto simp: filter_id_conv)

subsection \<open>Lists indexed by position\<close>

text \<open>\<open>xs.filter((_, i) => i !== index)\<close>; an index out of range removes nothing.\<close>

definition remove_at :: "nat \<Rightarrow> 'a list \<Rightarrow> 'a list" where
  "remove_at i xs = take i xs @ drop (Suc i) xs"

lemma length_remove_at: "length (remove_at i xs) = (if i < length xs then length xs - 1 else length xs)"
  by (auto simp: remove_at_def)

lemma map_remove_at: "map f (remove_at i xs) = remove_at i (map f xs)"
  by (simp add: remove_at_def take_map drop_map)

lemma nth_remove_at:
  "j < length (remove_at i xs) \<Longrightarrow> remove_at i xs ! j = (if j < i then xs ! j else xs ! Suc j)"
  by (auto simp: remove_at_def nth_append min_def)

end
