(* ===== verification/Js_Number.thy ===== *)
theory Js_Number
  imports Js_Prelude
begin

text \<open>
  The \<open>Number\<close> type: IEEE 754 binary64 values. A finite non-zero value is the rational it
  denotes, the two zeros are kept apart because \<open>Object.is\<close> separates them.
  \<open>round_double\<close> is the conversion of a mathematical value to the nearest double (ties to
  even, overflow to an infinity), \<open>string_to_number\<close> the conversion \<open>Number(s)\<close> of a
  string, \<open>number_to_string\<close> the conversion \<open>String(x)\<close>, which prints the fewest
  decimal digits that read back as \<open>x\<close>.

  The last section shows that decimal text is exact on the safe integers: reading the digits
  of a natural number gives a safe integer exactly when the number is at most
  \<open>Number.MAX_SAFE_INTEGER\<close>, and then it gives the number itself.
\<close>

datatype jsnum = Fin rat | NegZero | PosInf | NegInf | NaN

definition num_isFinite :: "jsnum \<Rightarrow> bool" where
  "num_isFinite x \<longleftrightarrow> (case x of Fin _ \<Rightarrow> True | NegZero \<Rightarrow> True | _ \<Rightarrow> False)"

definition max_safe :: rat where
  "max_safe = 9007199254740991"

definition rat_is_int :: "rat \<Rightarrow> bool" where
  "rat_is_int r \<longleftrightarrow> of_int \<lfloor>r\<rfloor> = r"

definition num_isInteger :: "jsnum \<Rightarrow> bool" where
  "num_isInteger x \<longleftrightarrow> (case x of Fin r \<Rightarrow> rat_is_int r | NegZero \<Rightarrow> True | _ \<Rightarrow> False)"

definition num_isSafeInteger :: "jsnum \<Rightarrow> bool" where
  "num_isSafeInteger x \<longleftrightarrow>
     (case x of Fin r \<Rightarrow> rat_is_int r \<and> \<bar>r\<bar> \<le> max_safe | NegZero \<Rightarrow> True | _ \<Rightarrow> False)"

text \<open>\<open>x <= y\<close> on numbers: false whenever one side is NaN.\<close>

fun num_val :: "jsnum \<Rightarrow> rat option" where
  "num_val (Fin r) = Some r"
| "num_val NegZero = Some 0"
| "num_val _ = None"

fun num_le :: "jsnum \<Rightarrow> jsnum \<Rightarrow> bool" where
  "num_le NaN _ = False"
| "num_le _ NaN = False"
| "num_le NegInf _ = True"
| "num_le _ PosInf = True"
| "num_le PosInf _ = False"
| "num_le _ NegInf = False"
| "num_le x y = (the (num_val x) \<le> the (num_val y))"

definition num_lt :: "jsnum \<Rightarrow> jsnum \<Rightarrow> bool" where
  "num_lt x y \<longleftrightarrow> num_le x y \<and> \<not> num_le y x"

text \<open>\<open>===\<close> on numbers, as \<open>Array.prototype.includes\<close> compares them (SameValueZero).\<close>

definition num_same_value_zero :: "jsnum \<Rightarrow> jsnum \<Rightarrow> bool" where
  "num_same_value_zero x y \<longleftrightarrow> x = y \<or> {x, y} = {Fin 0, NegZero}"

subsection \<open>Rounding to a double\<close>

text \<open>\<open>ilog b n\<close> is the integer part of the logarithm of \<open>n\<close> to base \<open>b\<close>.\<close>

function ilog :: "int \<Rightarrow> int \<Rightarrow> nat" where
  "ilog b n = (if b < 2 \<or> n < b then 0 else Suc (ilog b (n div b)))"
  by pat_completeness auto
termination
  by (relation "measure (\<lambda>(b, n). nat n)") (auto simp: int_div_less_self)

declare ilog.simps [simp del]

definition clog :: "int \<Rightarrow> int \<Rightarrow> nat" where
  "clog b n = (if n \<le> 1 then 0 else Suc (ilog b (n - 1)))"

text \<open>For a positive rational, the exponent \<open>e\<close> with \<open>b ^ e \<le> r < b ^ (e + 1)\<close>.\<close>

definition flog :: "int \<Rightarrow> rat \<Rightarrow> int" where
  "flog b r = (if 1 \<le> r then int (ilog b \<lfloor>r\<rfloor>) else - int (clog b \<lceil>1 / r\<rceil>))"

definition rpow :: "int \<Rightarrow> int \<Rightarrow> rat" where
  "rpow b e = (if 0 \<le> e then of_int b ^ nat e else 1 / of_int b ^ nat (- e))"

definition round_half_even :: "rat \<Rightarrow> int" where
  "round_half_even q =
     (let f = \<lfloor>q\<rfloor>; d = q - of_int f
      in if d < 1 / 2 then f else if 1 / 2 < d then f + 1 else if even f then f else f + 1)"

definition round_double :: "rat \<Rightarrow> jsnum" where
  "round_double r =
     (if r = 0 then Fin 0
      else let a = \<bar>r\<bar>;
               e = max (flog 2 a - 52) (- 1074);
               v = of_int (round_half_even (a / rpow 2 e)) * rpow 2 e
           in if 2 ^ 1024 \<le> v then (if 0 < r then PosInf else NegInf)
              else if v = 0 then (if 0 < r then Fin 0 else NegZero)
              else Fin (if 0 < r then v else - v))"

definition negate_num :: "jsnum \<Rightarrow> jsnum" where
  "negate_num x = (case x of Fin r \<Rightarrow> (if r = 0 then NegZero else Fin (- r)) | NegZero \<Rightarrow> Fin 0
     | PosInf \<Rightarrow> NegInf | NegInf \<Rightarrow> PosInf | NaN \<Rightarrow> NaN)"

subsection \<open>Reading a number\<close>

definition digits_value :: "int \<Rightarrow> (char \<Rightarrow> nat) \<Rightarrow> string \<Rightarrow> int" where
  "digits_value b dig s = foldl (\<lambda>acc c. acc * b + int (dig c)) 0 s"

definition all_digits :: "string \<Rightarrow> bool" where
  "all_digits s \<longleftrightarrow> s \<noteq> [] \<and> list_all is_digit s"

text \<open>The exponent part \<open>e[+-]digits\<close>, or nothing.\<close>

definition exponent_value :: "string \<Rightarrow> int option" where
  "exponent_value s =
     (case s of [] \<Rightarrow> Some 0
      | c # r \<Rightarrow> if c \<noteq> CHR ''e'' \<and> c \<noteq> CHR ''E'' then None
          else (case r of [] \<Rightarrow> None
            | d # ds \<Rightarrow> if d = CHR ''-'' then (if all_digits ds then Some (- digits_value 10 digit_of ds) else None)
                else if d = CHR ''+'' then (if all_digits ds then Some (digits_value 10 digit_of ds) else None)
                else if all_digits r then Some (digits_value 10 digit_of r) else None))"

text \<open>An unsigned decimal literal: \<open>digits [. [digits]] [exponent]\<close> or \<open>. digits [exponent]\<close>.\<close>

definition decimal_value :: "string \<Rightarrow> rat option" where
  "decimal_value s =
     (let ip = takeWhile is_digit s; r = dropWhile is_digit s
      in if r \<noteq> [] \<and> hd r = CHR ''.''
         then (let fp = takeWhile is_digit (tl r); ex = dropWhile is_digit (tl r)
               in if ip = [] \<and> fp = [] then None
                  else map_option (\<lambda>e. of_int (digits_value 10 digit_of (ip @ fp)) * rpow 10 (e - int (length fp)))
                         (exponent_value ex))
         else if ip = [] then None
         else map_option (\<lambda>e. of_int (digits_value 10 digit_of ip) * rpow 10 e) (exponent_value r))"

definition radix_value :: "string \<Rightarrow> int option" where
  "radix_value s =
     (case s of c # x # ds \<Rightarrow>
        if c \<noteq> CHR ''0'' \<or> ds = [] then None
        else if x \<in> {CHR ''x'', CHR ''X''} then (if list_all is_hex ds then Some (digits_value 16 hex_of ds) else None)
        else if x \<in> {CHR ''o'', CHR ''O''} then (if list_all (\<lambda>c. is_digit c \<and> digit_of c < 8) ds then Some (digits_value 8 digit_of ds) else None)
        else if x \<in> {CHR ''b'', CHR ''B''} then (if list_all (\<lambda>c. is_digit c \<and> digit_of c < 2) ds then Some (digits_value 2 digit_of ds) else None)
        else None
      | _ \<Rightarrow> None)"

definition unsigned_to_number :: "string \<Rightarrow> jsnum" where
  "unsigned_to_number s =
     (if s = ''Infinity'' then PosInf
      else case decimal_value s of Some r \<Rightarrow> round_double r | None \<Rightarrow> NaN)"

text \<open>\<open>Number(s)\<close> for a string \<open>s\<close>.\<close>

definition string_to_number :: "string \<Rightarrow> jsnum" where
  "string_to_number s0 =
     (let s = js_trim s0
      in if s = [] then Fin 0
         else case radix_value s of Some n \<Rightarrow> round_double (of_int n)
           | None \<Rightarrow> (if hd s = CHR ''-'' then negate_num (unsigned_to_number (tl s))
               else if hd s = CHR ''+'' then unsigned_to_number (tl s)
               else unsigned_to_number s))"

subsection \<open>Printing a number\<close>

definition digit_char :: "nat \<Rightarrow> char" where
  "digit_char d = char_of (48 + d)"

text \<open>The decimal digits of a non-negative integer.\<close>

function digits_of :: "int \<Rightarrow> string" where
  "digits_of n = (if n < 10 then [digit_char (nat n)] else digits_of (n div 10) @ [digit_char (nat (n mod 10))])"
  by pat_completeness auto
termination
  by (relation "measure nat") (auto simp: int_div_less_self)

declare digits_of.simps [simp del]

text \<open>
  The decimal digits of a positive double \<open>x\<close>: with \<open>10 ^ (n - 1) \<le> x < 10 ^ n\<close>, the
  \<open>k\<close>-digit integer \<open>s\<close> closest to \<open>x * 10 ^ (k - n)\<close> such that \<open>s * 10 ^ (n - k)\<close>
  reads back as \<open>x\<close>, for the least \<open>k\<close> that has one; 17 digits always do.
\<close>

definition digits_ok :: "rat \<Rightarrow> int \<Rightarrow> nat \<Rightarrow> int \<Rightarrow> bool" where
  "digits_ok x n k s \<longleftrightarrow> 10 ^ (k - 1) \<le> s \<and> s < 10 ^ k \<and> round_double (of_int s * rpow 10 (n - int k)) = Fin x"

definition digits_at :: "rat \<Rightarrow> int \<Rightarrow> nat \<Rightarrow> int option" where
  "digits_at x n k =
     (let q = x * rpow 10 (int k - n); near = round_half_even q;
          far = (if near = \<lfloor>q\<rfloor> then near + 1 else \<lfloor>q\<rfloor>)
      in if digits_ok x n k near then Some near
         else if digits_ok x n k far then Some far else None)"

fun find_digits :: "rat \<Rightarrow> int \<Rightarrow> nat list \<Rightarrow> nat \<times> int" where
  "find_digits x n [] = (17, round_half_even (x * rpow 10 (17 - n)))"
| "find_digits x n (k # ks) = (case digits_at x n k of Some s \<Rightarrow> (k, s) | None \<Rightarrow> find_digits x n ks)"

definition pos_to_string :: "rat \<Rightarrow> string" where
  "pos_to_string x =
     (let n = flog 10 x + 1; (k, s) = find_digits x n [1..<18]; ds = digits_of s
      in if int k \<le> n \<and> n \<le> 21 then ds @ replicate (nat (n - int k)) CHR ''0''
         else if 0 < n \<and> n \<le> 21 then take (nat n) ds @ ''.'' @ drop (nat n) ds
         else if -6 < n \<and> n \<le> 0 then ''0.'' @ replicate (nat (- n)) CHR ''0'' @ ds
         else (let e = n - 1; es = (if e < 0 then ''-'' else ''+'') @ digits_of \<bar>e\<bar>
               in if k = 1 then ds @ ''e'' @ es else take 1 ds @ ''.'' @ drop 1 ds @ ''e'' @ es))"

definition number_to_string :: "jsnum \<Rightarrow> string" where
  "number_to_string x =
     (case x of Fin r \<Rightarrow> (if r = 0 then ''0'' else if r < 0 then ''-'' @ pos_to_string (- r) else pos_to_string r)
      | NegZero \<Rightarrow> ''0'' | PosInf \<Rightarrow> ''Infinity'' | NegInf \<Rightarrow> ''-Infinity'' | NaN \<Rightarrow> ''NaN'')"

subsection \<open>Exactness on the safe integers\<close>

lemma ilog_bounds:
  assumes "2 \<le> b" and "1 \<le> n"
  shows "b ^ ilog b n \<le> n \<and> n < b ^ Suc (ilog b n)"
  using assms
proof (induction b n rule: ilog.induct)
  case (1 b n)
  show ?case
  proof (cases "n < b")
    case True
    with 1 show ?thesis by (simp add: ilog.simps [of b n])
  next
    case False
    let ?m = "n div b"
    have m1: "1 \<le> ?m" using False 1 by (simp add: pos_imp_zdiv_pos_iff int_one_le_iff_zero_less)
    with 1 False have IH: "b ^ ilog b ?m \<le> ?m" "?m < b ^ Suc (ilog b ?m)" by auto
    have "b * ?m \<le> n" using 1 by (simp add: mult.commute minus_mod_eq_mult_div [symmetric])
    moreover have "b * b ^ ilog b ?m \<le> b * ?m" using IH 1 by (simp add: mult_left_mono)
    moreover have "n < b * (?m + 1)"
    proof -
      have "n = b * ?m + n mod b" by simp
      moreover have "n mod b < b" using 1 by simp
      ultimately show ?thesis by (simp only: distrib_left mult_1_right)
    qed
    moreover have "b * (?m + 1) \<le> b * b ^ Suc (ilog b ?m)"
      using IH 1 by (intro mult_left_mono) auto
    moreover have eq: "ilog b n = Suc (ilog b ?m)" using False 1 by (simp add: ilog.simps [of b n])
    ultimately show ?thesis unfolding eq power_Suc by linarith
  qed
qed

lemma flog_int: "1 \<le> n \<Longrightarrow> flog b (of_int n) = int (ilog b n)"
  by (simp add: flog_def)

lemma round_half_even_int [simp]: "round_half_even (of_int n) = n"
  by (simp add: round_half_even_def)

lemma round_half_even_ge: "of_int m \<le> q \<Longrightarrow> m \<le> round_half_even q"
  by (simp add: round_half_even_def Let_def le_floor_iff) (smt (verit) le_floor_iff)

lemma rpow_pos [simp]: "0 < b \<Longrightarrow> 0 < rpow b e"
  by (simp add: rpow_def)

lemma rpow_2_split: "e \<le> 0 \<Longrightarrow> 1 / rpow 2 e = of_int (2 ^ nat (- e))"
  by (simp add: rpow_def)

lemma round_double_int:
  assumes "0 \<le> n" and "n \<le> 2 ^ 53"
  shows "round_double (of_int n) = Fin (of_int n)"
proof (cases "n = 0")
  case True
  then show ?thesis by (simp add: round_double_def)
next
  case False
  with assms have n1: "1 \<le> n" by simp
  let ?L = "ilog 2 n"
  have b: "2 ^ ?L \<le> n" "n < 2 ^ Suc ?L" using ilog_bounds [of 2 n] n1 by auto
  have L53: "?L \<le> 53"
  proof (rule ccontr)
    assume "\<not> ?L \<le> 53"
    then have "(2::int) ^ 54 \<le> 2 ^ ?L" by (intro power_increasing) auto
    with b assms show False by simp
  qed
  let ?e = "max (flog 2 (of_int n) - 52) (- 1074)"
  have e: "?e = int ?L - 52" using n1 by (simp add: flog_int)
  have exact: "of_int (round_half_even (of_int n / rpow 2 ?e)) * rpow 2 ?e = (of_int n :: rat)"
  proof (cases "?L \<le> 52")
    case True
    then have "of_int n / rpow 2 ?e = of_int (n * 2 ^ nat (52 - int ?L))"
      unfolding e by (simp add: rpow_def)
    then have "round_half_even (of_int n / rpow 2 ?e) = n * 2 ^ nat (52 - int ?L)"
      by (simp only: round_half_even_int)
    with True show ?thesis unfolding e by (simp add: rpow_def)
  next
    case False
    with L53 have L: "?L = 53" by simp
    with b assms have "n = 2 ^ 53" by simp
    then have "of_int n / rpow 2 ?e = of_int (2 ^ 52)" unfolding e L by (simp add: rpow_def)
    then have "round_half_even (of_int n / rpow 2 ?e) = 2 ^ 52"
      by (simp only: round_half_even_int)
    with \<open>n = 2 ^ 53\<close> show ?thesis unfolding e L by (simp add: rpow_def)
  qed
  have "(of_int n :: rat) \<le> of_int (2 ^ 53)" using assms by (simp only: of_int_le_iff)
  then have "\<not> (2 ^ 1024 \<le> (of_int n :: rat))" by simp
  with exact n1 show ?thesis by (simp add: round_double_def Let_def)
qed

lemma round_double_big:
  assumes "2 ^ 53 \<le> n"
  shows "round_double (of_int n) = PosInf \<or> (\<exists>v. round_double (of_int n) = Fin v \<and> 2 ^ 53 \<le> v)"
proof -
  have n1: "1 \<le> n" using assms by simp
  let ?L = "ilog 2 n"
  have b: "2 ^ ?L \<le> n" "n < 2 ^ Suc ?L" using ilog_bounds [of 2 n] n1 by auto
  have L53: "53 \<le> ?L"
  proof (rule ccontr)
    assume "\<not> 53 \<le> ?L"
    then have "(2::int) ^ Suc ?L \<le> 2 ^ 53" by (intro power_increasing) auto
    with b assms show False by simp
  qed
  let ?e = "max (flog 2 (of_int n) - 52) (- 1074)"
  have e: "?e = int (?L - 52)" using n1 L53 by (simp add: flog_int)
  have "?L = 52 + (?L - 52)" using L53 by simp
  then have split: "(2::rat) ^ ?L = 2 ^ 52 * 2 ^ (?L - 52)"
    by (metis power_add)
  have rp: "rpow 2 ?e = 2 ^ (?L - 52)" unfolding e by (simp add: rpow_def)
  have "(2::rat) ^ ?L \<le> of_int n" using b by (metis of_int_le_iff of_int_numeral of_int_power)
  then have "of_int (2 ^ 52) \<le> of_int n / rpow 2 ?e"
    unfolding rp split by (simp add: pos_le_divide_eq)
  then have q: "2 ^ 52 \<le> round_half_even (of_int n / rpow 2 ?e)"
    by (rule round_half_even_ge)
  let ?v = "of_int (round_half_even (of_int n / rpow 2 ?e)) * rpow 2 ?e"
  have "(of_int (2 ^ 52) :: rat) * 2 ^ (?L - 52) \<le> ?v"
    unfolding rp using q [unfolded rp] by (intro mult_right_mono) (simp_all only: of_int_le_iff, simp)
  moreover have "(2::rat) ^ 53 \<le> 2 ^ ?L" using L53 by (intro power_increasing) auto
  ultimately have v: "2 ^ 53 \<le> ?v" using split by simp
  then have "?v \<noteq> 0" by auto
  with v n1 show ?thesis by (auto simp: round_double_def Let_def)
qed

lemma rat_is_int_of_int [simp]: "rat_is_int (of_int n)"
  by (simp add: rat_is_int_def)

lemma safe_round_double_iff:
  assumes "0 \<le> n"
  shows "num_isSafeInteger (round_double (of_int n)) \<longleftrightarrow> n \<le> 9007199254740991"
proof (cases "n \<le> 9007199254740991")
  case True
  then have "(of_int n :: rat) \<le> of_int 9007199254740991" by (simp only: of_int_le_iff)
  with True assms show ?thesis
    by (simp add: round_double_int num_isSafeInteger_def max_safe_def)
next
  case False
  then have "2 ^ 53 \<le> n" by simp
  from round_double_big [OF this] False show ?thesis
    by (auto simp: num_isSafeInteger_def max_safe_def)
qed

subsection \<open>Decimal digits\<close>

lemma is_digit_digit_char [simp]: "d < 10 \<Longrightarrow> is_digit (digit_char d)"
  by (simp add: is_digit_def digit_char_def)

lemma digit_of_digit_char [simp]: "d < 10 \<Longrightarrow> digit_of (digit_char d) = d"
  by (simp add: digit_of_def digit_char_def)

lemma digit_char_0 [simp]: "digit_char 0 = CHR ''0''"
  by code_simp

lemma digits_value_append:
  "digits_value b dig (s @ [c]) = digits_value b dig s * b + int (dig c)"
  by (simp add: digits_value_def)

lemma digits_value_nonneg: "0 \<le> b \<Longrightarrow> 0 \<le> digits_value b dig s"
  by (induction s rule: rev_induct) (simp_all add: digits_value_append, simp add: digits_value_def)

lemma digits_of_digits: "0 \<le> n \<Longrightarrow> all_digits (digits_of n)"
proof (induction n rule: digits_of.induct)
  case (1 n)
  then show ?case
    by (cases "n < 10") (auto simp: digits_of.simps [of n] all_digits_def nat_less_iff)
qed

lemma digits_value_digits_of: "0 \<le> n \<Longrightarrow> digits_value 10 digit_of (digits_of n) = n"
proof (induction n rule: digits_of.induct)
  case (1 n)
  show ?case
  proof (cases "n < 10")
    case True
    with 1 show ?thesis by (simp add: digits_of.simps [of n] digits_value_def nat_less_iff)
  next
    case False
    with 1 have "digits_value 10 digit_of (digits_of (n div 10)) = n div 10" by simp
    with False 1 show ?thesis
      by (simp add: digits_of.simps [of n] digits_value_append nat_less_iff)
  qed
qed

lemma digits_of_not_Nil [simp]: "digits_of n \<noteq> []"
  by (subst digits_of.simps) simp

lemma length_digits_of: "1 \<le> n \<Longrightarrow> length (digits_of n) = Suc (ilog 10 n)"
proof (induction n rule: digits_of.induct)
  case (1 n)
  show ?case
  proof (cases "n < 10")
    case True
    then show ?thesis by (simp add: digits_of.simps [of n] ilog.simps [of 10 n])
  next
    case False
    with 1 show ?thesis by (simp add: digits_of.simps [of n] ilog.simps [of 10 n])
  qed
qed

lemma digits_of_times_10: "1 \<le> s \<Longrightarrow> digits_of (s * 10 ^ m) = digits_of s @ replicate m CHR ''0''"
proof (induction m)
  case 0
  then show ?case by simp
next
  case (Suc m)
  let ?n = "s * 10 ^ Suc m"
  have "1 * 1 \<le> s * 10 ^ m" using Suc.prems by (intro mult_mono) auto
  then have "\<not> ?n < 10" by simp
  moreover have "?n div 10 = s * 10 ^ m" and "?n mod 10 = 0" by simp_all
  ultimately have "digits_of ?n = digits_of (s * 10 ^ m) @ [digit_char (nat 0)]"
    by (metis digits_of.simps)
  with Suc show ?case by (simp add: replicate_append_same)
qed

lemma digit_not_ws: "is_digit c \<Longrightarrow> \<not> is_ws c"
  by (auto simp: is_digit_def is_ws_def)

lemma all_digits_trim: "all_digits s \<Longrightarrow> js_trim s = s"
  by (auto simp: all_digits_def list_all_iff intro!: js_trim_id digit_not_ws)

lemma digit_not_special:
  "is_digit c \<Longrightarrow> c \<noteq> CHR ''-'' \<and> c \<noteq> CHR ''+'' \<and> c \<noteq> CHR ''.'' \<and> c \<noteq> CHR ''I''
     \<and> c \<notin> {CHR ''x'', CHR ''X'', CHR ''o'', CHR ''O'', CHR ''b'', CHR ''B''}"
  by (auto simp: is_digit_def)

lemma decimal_value_digits:
  "all_digits s \<Longrightarrow> decimal_value s = Some (of_int (digits_value 10 digit_of s))"
  by (simp add: decimal_value_def all_digits_def list_all_iff takeWhile_eq_all_conv [THEN iffD2]
      dropWhile_eq_Nil_conv [THEN iffD2] exponent_value_def rpow_def)

lemma string_to_number_digits:
  assumes "all_digits s"
  shows "string_to_number s = round_double (of_int (digits_value 10 digit_of s))"
proof -
  from assms obtain c r where s: "s = c # r" and c: "is_digit c" and r: "list_all is_digit r"
    by (cases s) (auto simp: all_digits_def)
  have "radix_value s = None"
    using s r by (cases r) (auto simp: radix_value_def dest!: digit_not_special)
  moreover have "s \<noteq> ''Infinity''" using s digit_not_special [OF c] by auto
  ultimately show ?thesis
    using assms s digit_not_special [OF c]
    by (simp add: string_to_number_def all_digits_trim decimal_value_digits unsigned_to_number_def)
qed


subsection \<open>Printing a safe integer\<close>

lemma round_double_eq_int:
  assumes "0 \<le> m" and "round_double (of_int m) = Fin (of_int n)" and "n < 2 ^ 53"
  shows "m = n"
proof (cases "m \<le> 2 ^ 53")
  case True
  with assms show ?thesis by (simp add: round_double_int)
next
  case False
  then have "2 ^ 53 \<le> m" by simp
  from round_double_big [OF this] assms(2) have "2 ^ 53 \<le> (of_int n :: rat)" by auto
  then have "of_int (2 ^ 53) \<le> (of_int n :: rat)" by simp
  then have "2 ^ 53 \<le> n" by (simp only: of_int_le_iff)
  with assms(3) show ?thesis by simp
qed

lemma rpow_10_nat: "rpow 10 (int n) = of_int (10 ^ n)"
  by (simp add: rpow_def)

lemma digits_at_full:
  assumes n: "1 \<le> n" "n < 2 ^ 53" and k: "k = Suc (ilog 10 n)"
  shows "digits_at (of_int n) (int k) k = Some n"
proof -
  have b: "10 ^ ilog 10 n \<le> n" "n < 10 ^ Suc (ilog 10 n)" using ilog_bounds [of 10 n] n by auto
  have "digits_ok (of_int n) (int k) k n"
    using n b k by (simp add: digits_ok_def rpow_def round_double_int)
  then show ?thesis by (simp add: digits_at_def Let_def rpow_def)
qed

lemma digits_at_sound:
  assumes "digits_at x n k = Some s"
  shows "digits_ok x n k s"
  using assms by (auto simp: digits_at_def Let_def split: if_splits)

lemma find_digits_sound:
  assumes "j \<in> set ks" and "digits_at x n j = Some s0"
  shows "\<exists>k s. find_digits x n ks = (k, s) \<and> k \<in> set ks \<and> digits_at x n k = Some s \<and> (sorted ks \<longrightarrow> k \<le> j)"
  using assms
proof (induction ks)
  case Nil
  then show ?case by simp
next
  case (Cons a ks)
  show ?case
  proof (cases "digits_at x n a")
    case None
    with Cons show ?thesis by auto
  next
    case (Some s)
    with Cons.prems show ?thesis by auto
  qed
qed

lemma pos_to_string_int:
  assumes n: "1 \<le> n" "n < 2 ^ 53"
  shows "pos_to_string (of_int n) = digits_of n"
proof -
  let ?k = "Suc (ilog 10 n)"
  have b: "10 ^ ilog 10 n \<le> n" "n < 10 ^ ?k" using ilog_bounds [of 10 n] n by auto
  have k17: "?k < 18"
  proof (rule ccontr)
    assume "\<not> ?k < 18"
    then have "(10::int) ^ 17 \<le> 10 ^ ilog 10 n" by (intro power_increasing) auto
    with b n show False by simp
  qed
  have fl: "flog 10 (of_int n) + 1 = int ?k" using n by (simp add: flog_int)
  obtain k s where f: "find_digits (of_int n) (int ?k) [1..<18] = (k, s)"
    and at: "digits_at (of_int n) (int ?k) k = Some s" and "k \<in> set [1..<18]" and kk: "k \<le> ?k"
    using find_digits_sound [of ?k "[1..<18]" "of_int n" "int ?k" n] digits_at_full [OF n refl] k17 by auto
  have ok: "10 ^ (k - 1) \<le> s" "round_double (of_int s * rpow 10 (int ?k - int k)) = Fin (of_int n)"
    using digits_at_sound [OF at] by (auto simp: digits_ok_def)
  have s1: "1 \<le> s" using ok(1) by (smt (verit) one_le_power)
  have e: "int ?k - int k = int (?k - k)" using kk by simp
  have "of_int s * rpow 10 (int ?k - int k) = (of_int (s * 10 ^ (?k - k)) :: rat)"
    unfolding e by (simp add: rpow_10_nat)
  with ok(2) have "round_double (of_int (s * 10 ^ (?k - k))) = Fin (of_int n)" by (simp only:)
  then have "s * 10 ^ (?k - k) = n" using s1 n by (intro round_double_eq_int) auto
  then have "digits_of n = digits_of s @ replicate (?k - k) CHR ''0''"
    using digits_of_times_10 [OF s1] by metis
  moreover have "int k \<le> int ?k" "int ?k \<le> 21" "nat (int ?k - int k) = ?k - k" using kk k17 by auto
  ultimately show ?thesis unfolding pos_to_string_def Let_def fl f by simp
qed

lemma number_to_string_nat:
  assumes "0 \<le> n" and "n < 2 ^ 53"
  shows "number_to_string (Fin (of_int n)) = digits_of n"
proof (cases "n = 0")
  case True
  then show ?thesis by (simp add: number_to_string_def digits_of.simps [of 0])
next
  case False
  with assms show ?thesis by (simp add: number_to_string_def pos_to_string_int)
qed

text \<open>Printing and reading back a safe natural number is the identity.\<close>

lemma string_to_number_to_string_nat:
  assumes "0 \<le> n" and "n < 2 ^ 53"
  shows "string_to_number (number_to_string (Fin (of_int n))) = Fin (of_int n)"
  using assms
  by (simp add: number_to_string_nat string_to_number_digits digits_of_digits
      digits_value_digits_of round_double_int)

end
