(* ===== verification/Json.thy ===== *)
theory Json
  imports Js_Number
begin

text \<open>
  JSON values as the panel handles them (\<open>JsonValue\<close> in \<open>lib/api/types.ts\<close>) and
  the operations of the language on them. An object is the list of its own enumerable
  properties in the order of their creation; \<^const>\<open>None\<close> stands for \<open>undefined\<close>,
  the result of reading a missing property. Reading never reaches an inherited property here,
  because every key the code reads from a JSON object is one of the configuration keys;
  where the code indexes a table of its own by a string that comes from the configuration,
  inherited properties matter, and \<open>registry_get\<close> models them.
\<close>

datatype json = JNull | JBool bool | JNum jsnum | JStr string | JArr "json list"
  | JObj "(string \<times> json) list"

type_synonym jobj = "(string \<times> json) list"

subsection \<open>Objects\<close>

definition obj_get :: "jobj \<Rightarrow> string \<Rightarrow> json option" where
  "obj_get ob k = map_of ob k"

text \<open>\<open>o[k] = v\<close>: an existing property keeps its place, a new one comes last.\<close>

definition obj_set :: "string \<Rightarrow> json \<Rightarrow> jobj \<Rightarrow> jobj" where
  "obj_set k v ob = AList.update k v ob"

definition obj_del :: "string \<Rightarrow> jobj \<Rightarrow> jobj" where
  "obj_del k ob = AList.delete k ob"

text \<open>\<open>{ ...a, ...b }\<close>.\<close>

definition obj_spread :: "jobj \<Rightarrow> jobj \<Rightarrow> jobj" where
  "obj_spread a b = foldl (\<lambda>ob (k, v). obj_set k v ob) a b"

definition obj_keys :: "jobj \<Rightarrow> string list" where
  "obj_keys ob = map fst ob"

lemma obj_get_set [simp]: "obj_get (obj_set k v ob) k' = (if k' = k then Some v else obj_get ob k')"
  by (simp add: obj_get_def obj_set_def update_conv')

lemma obj_get_del [simp]: "obj_get (obj_del k ob) k' = (if k' = k then None else obj_get ob k')"
  by (simp add: obj_get_def obj_del_def delete_conv')

lemma obj_get_Nil [simp]: "obj_get [] k = None"
  by (simp add: obj_get_def)

lemma obj_set_not_Nil [simp]: "obj_set k v ob \<noteq> []"
  by (cases ob) (auto simp: obj_set_def)

lemma obj_del_absent: "obj_get ob k = None \<Longrightarrow> obj_del k ob = ob"
  by (simp add: obj_get_def obj_del_def map_of_eq_None_iff image_iff delete_id)

lemma obj_set_same: "obj_get ob k = Some v \<Longrightarrow> obj_set k v ob = ob"
  by (induction ob) (auto simp: obj_get_def obj_set_def split: if_splits)

lemma obj_get_spread:
  "distinct (map fst b) \<Longrightarrow>
     obj_get (obj_spread a b) k = (case obj_get b k of Some v \<Rightarrow> Some v | None \<Rightarrow> obj_get a k)"
proof (induction b arbitrary: a)
  case Nil
  then show ?case by (simp add: obj_spread_def)
next
  case (Cons kv b)
  obtain k' v' where kv: "kv = (k', v')" by force
  with Cons have "obj_get (obj_spread (obj_set k' v' a) b) k =
      (case obj_get b k of Some v \<Rightarrow> Some v | None \<Rightarrow> obj_get (obj_set k' v' a) k)" by simp
  moreover have "k' \<notin> dom (map_of b)" using Cons.prems kv by (simp add: dom_map_of_conv_image_fst)
  ultimately show ?case using kv
    by (auto simp: obj_spread_def obj_get_def [of "(k', v') # b"] obj_get_def [of b] domIff split: option.splits)
qed

text \<open>A well-formed value has no object with a repeated key.\<close>

fun wf_json :: "json \<Rightarrow> bool" where
  "wf_json (JArr vs) = list_all wf_json vs"
| "wf_json (JObj kvs) = (distinct (map fst kvs) \<and> list_all (\<lambda>kv. wf_json (snd kv)) kvs)"
| "wf_json _ = True"

definition wf_obj :: "jobj \<Rightarrow> bool" where
  "wf_obj ob \<longleftrightarrow> wf_json (JObj ob)"

lemma wf_obj_get: "wf_obj ob \<Longrightarrow> obj_get ob k = Some v \<Longrightarrow> wf_json v"
  by (auto simp: wf_obj_def obj_get_def list_all_iff dest!: map_of_SomeD)

lemma wf_obj_set: "wf_obj ob \<Longrightarrow> wf_json v \<Longrightarrow> wf_obj (obj_set k v ob)"
proof -
  assume wf: "wf_obj ob" "wf_json v"
  have "set (AList.update k v ob) \<subseteq> set ob \<union> {(k, v)}"
    by (induction ob) auto
  with wf show ?thesis
    by (fastforce simp: wf_obj_def obj_set_def list_all_iff distinct_update)
qed

lemma wf_obj_del: "wf_obj ob \<Longrightarrow> wf_obj (obj_del k ob)"
  by (auto simp: wf_obj_def obj_del_def list_all_iff AList.delete_eq intro: distinct_map_filter)

lemma wf_obj_Nil [simp]: "wf_obj []"
  by (simp add: wf_obj_def)

subsection \<open>Size\<close>

text \<open>The number of properties an object holds, at any depth below objects.\<close>

fun nodes :: "json \<Rightarrow> nat" where
  "nodes (JObj kvs) = sum_list (map (\<lambda>kv. Suc (nodes (snd kv))) kvs)"
| "nodes _ = 0"

definition obj_nodes :: "jobj \<Rightarrow> nat" where
  "obj_nodes ob = nodes (JObj ob)"

lemma obj_nodes_simps [simp]:
  "obj_nodes [] = 0"
  "obj_nodes (kv # ob) = Suc (nodes (snd kv)) + obj_nodes ob"
  by (simp_all add: obj_nodes_def)

lemma obj_nodes_del_le: "obj_nodes (obj_del k ob) \<le> obj_nodes ob"
  by (induction ob) (auto simp: obj_del_def)

lemma obj_nodes_del_less: "obj_get ob k = Some v \<Longrightarrow> obj_nodes (obj_del k ob) < obj_nodes ob"
proof (induction ob)
  case Nil
  then show ?case by simp
next
  case (Cons kv ob)
  then show ?case using obj_nodes_del_le [of k ob]
    by (auto simp: obj_del_def obj_get_def split: if_splits)
qed

lemma obj_nodes_set:
  "obj_get ob k = Some u \<Longrightarrow> obj_nodes (obj_set k v ob) + nodes u = obj_nodes ob + nodes v"
  by (induction ob) (auto simp: obj_set_def obj_get_def split: if_splits)

subsection \<open>Conversions and type tests\<close>

text \<open>\<open>String(v)\<close>: an array prints its elements joined by commas, \<open>null\<close> elements as nothing.\<close>

fun js_String :: "json \<Rightarrow> string" where
  "js_String JNull = ''null''"
| "js_String (JBool b) = (if b then ''true'' else ''false'')"
| "js_String (JNum x) = number_to_string x"
| "js_String (JStr s) = s"
| "js_String (JArr vs) = js_join '','' (map (\<lambda>v. if v = JNull then [] else js_String v) vs)"
| "js_String (JObj kvs) = ''[object Object]''"

definition is_str :: "json option \<Rightarrow> bool" where
  "is_str v \<longleftrightarrow> (case v of Some (JStr _) \<Rightarrow> True | _ \<Rightarrow> False)"

definition is_arr :: "json option \<Rightarrow> bool" where
  "is_arr v \<longleftrightarrow> (case v of Some (JArr _) \<Rightarrow> True | _ \<Rightarrow> False)"

definition is_bool :: "json option \<Rightarrow> bool" where
  "is_bool v \<longleftrightarrow> (case v of Some (JBool _) \<Rightarrow> True | _ \<Rightarrow> False)"

definition is_num :: "json option \<Rightarrow> bool" where
  "is_num v \<longleftrightarrow> (case v of Some (JNum _) \<Rightarrow> True | _ \<Rightarrow> False)"

definition is_obj :: "json option \<Rightarrow> bool" where
  "is_obj v \<longleftrightarrow> (case v of Some (JObj _) \<Rightarrow> True | _ \<Rightarrow> False)"

text \<open>\<open>a ?? b\<close>: \<open>b\<close> where \<open>a\<close> is undefined or null.\<close>

definition nullish :: "json option \<Rightarrow> json option \<Rightarrow> json option" where
  "nullish a b = (case a of None \<Rightarrow> b | Some JNull \<Rightarrow> b | Some v \<Rightarrow> Some v)"

text \<open>\<open>String(v ?? d)\<close> for a string \<open>d\<close>.\<close>

definition string_or :: "json option \<Rightarrow> string \<Rightarrow> string" where
  "string_or v d = (case v of None \<Rightarrow> d | Some JNull \<Rightarrow> d | Some w \<Rightarrow> js_String w)"

lemma string_or_simps [simp]:
  "string_or None d = d"
  "string_or (Some JNull) d = d"
  "string_or (Some (JStr s)) d = s"
  "string_or (Some (JBool b)) d = (if b then ''true'' else ''false'')"
  "string_or (Some (JNum x)) d = number_to_string x"
  "string_or (Some (JObj c)) d = ''[object Object]''"
  by (simp_all add: string_or_def)

lemma js_type_simps [simp]:
  "\<not> is_str None" "\<not> is_arr None" "\<not> is_bool None" "\<not> is_num None" "\<not> is_obj None"
  "is_str (Some v) = (\<exists>s. v = JStr s)"
  "is_arr (Some v) = (\<exists>vs. v = JArr vs)"
  "is_bool (Some v) = (\<exists>b. v = JBool b)"
  "is_num (Some v) = (\<exists>x. v = JNum x)"
  "is_obj (Some v) = (\<exists>c. v = JObj c)"
  by (simp_all add: is_str_def is_arr_def is_bool_def is_num_def is_obj_def split: json.splits)

text \<open>
  \<open>Object.is(a, b)\<close> for a literal \<open>a\<close> of the program and a value \<open>b\<close> of the
  configuration: primitives are compared by value, and an array or object is never identical
  to one that was created elsewhere.
\<close>

fun object_is :: "json \<Rightarrow> json option \<Rightarrow> bool" where
  "object_is (JArr _) _ = False"
| "object_is (JObj _) _ = False"
| "object_is a b = (b = Some a)"

text \<open>The objects of an array: \<open>Array.isArray(v) ? v.filter(isJsonObject) : []\<close>.\<close>

definition object_list :: "json option \<Rightarrow> jobj list" where
  "object_list v = (case v of Some (JArr vs) \<Rightarrow> concat (map (\<lambda>x. case x of JObj c \<Rightarrow> [c] | _ \<Rightarrow> []) vs) | _ \<Rightarrow> [])"

lemma object_list_objects [simp]: "object_list (Some (JArr (map JObj obs))) = obs"
  by (induction obs) (simp_all add: object_list_def)

subsection \<open>Tables indexed by a string of the configuration\<close>

text \<open>
  The keys every object literal inherits. \<open>registry_get r k\<close> is \<open>r[k] ?? []\<close> at its
  first use as an array: an inherited key yields a function (or the prototype object), which is
  neither iterable nor has array methods, so the use throws a \<open>TypeError\<close>.
\<close>

definition objectPrototypeKeys :: "string list" where
  "objectPrototypeKeys = [''constructor'', ''__defineGetter__'', ''__defineSetter__'', ''hasOwnProperty'',
     ''__lookupGetter__'', ''__lookupSetter__'', ''isPrototypeOf'', ''propertyIsEnumerable'',
     ''toString'', ''valueOf'', ''__proto__'', ''toLocaleString'']"

type_synonym 'f registry = "(string \<times> 'f list) list"

definition hasOwn :: "'f registry \<Rightarrow> string \<Rightarrow> bool" where
  "hasOwn r k \<longleftrightarrow> map_of r k \<noteq> None"

definition registry_get :: "'f registry \<Rightarrow> string \<Rightarrow> 'f list res" where
  "registry_get r k = (case map_of r k of Some fs \<Rightarrow> Inr fs
     | None \<Rightarrow> if k \<in> set objectPrototypeKeys then Inl JsTypeError else Inr [])"

definition registry_values :: "'f registry \<Rightarrow> 'f list list" where
  "registry_values r = map snd r"

lemma registry_get_own: "map_of r k = Some fs \<Longrightarrow> registry_get r k = Inr fs"
  by (simp add: registry_get_def)

lemma registry_get_unknown:
  "map_of r k = None \<Longrightarrow> k \<notin> set objectPrototypeKeys \<Longrightarrow> registry_get r k = Inr []"
  by (simp add: registry_get_def)

lemma registry_get_Inr_cases:
  assumes "registry_get r k = Inr fs"
  obtains "map_of r k = Some fs" | "map_of r k = None" "fs = []"
  using assms by (auto simp: registry_get_def split: option.splits if_splits)

end
