(* ===== verification/Path_Store.thy ===== *)
theory Path_Store
  imports Json
begin

text \<open>
  The interface between the form models and the JSON objects they edit: a store that is read
  and written by the path of a field. The laws say what a read returns after a write or a
  removal; the lemmas of the locale are the ones every form model needs (removing a list of
  fields, keeping the fields that fit, pruning the invisible ones), proved once here and used
  through the interpretations in \<open>Policy_Form\<close> and \<open>Proxy_Form\<close>.

  Two paths are independent when neither key list is a prefix of the other.
\<close>

definition path_keys :: "string \<Rightarrow> string list" where
  "path_keys p = js_split (\<lambda>c. c = CHR ''.'') p"

definition path_indep :: "string \<Rightarrow> string \<Rightarrow> bool" where
  "path_indep p q \<longleftrightarrow> \<not> prefix (path_keys p) (path_keys q) \<and> \<not> prefix (path_keys q) (path_keys p)"

text \<open>A list of paths in which no two different positions hold dependent paths.\<close>

fun paths_indep :: "string list \<Rightarrow> bool" where
  "paths_indep [] = True"
| "paths_indep (p # ps) = (list_all (path_indep p) ps \<and> paths_indep ps)"

lemma path_keys_not_Nil [simp]: "path_keys p \<noteq> []"
  by (simp add: path_keys_def)

lemma path_keys_inj: "path_keys p = path_keys q \<Longrightarrow> p = q"
  by (metis js_join_split path_keys_def)

lemma path_indep_sym: "path_indep p q \<Longrightarrow> path_indep q p"
  by (simp add: path_indep_def)

lemma path_indep_neq: "path_indep p q \<Longrightarrow> p \<noteq> q"
  by (auto simp: path_indep_def)

lemma paths_indepD: "paths_indep ps \<Longrightarrow> p \<in> set ps \<Longrightarrow> q \<in> set ps \<Longrightarrow> p \<noteq> q \<Longrightarrow> path_indep p q"
  by (induction ps) (auto simp: list_all_iff intro: path_indep_sym)

lemma paths_indep_distinct: "paths_indep ps \<Longrightarrow> distinct ps"
  by (induction ps) (auto simp: list_all_iff dest: path_indep_neq)

text \<open>
  A collection of paths in which two different paths are always independent, and a check of
  it that descends by the first key, to a given depth.
\<close>

definition paths_compat :: "string list \<Rightarrow> bool" where
  "paths_compat ps \<longleftrightarrow> (\<forall>p\<in>set ps. \<forall>q\<in>set ps. p = q \<or> path_indep p q)"

fun keys_compat :: "nat \<Rightarrow> string list list \<Rightarrow> bool" where
  "keys_compat 0 kss = False"
| "keys_compat (Suc n) kss =
     list_all (\<lambda>h. list_all (\<lambda>ks. hd ks = h \<longrightarrow> tl ks \<noteq> []) kss
         \<and> keys_compat n (map tl (filter (\<lambda>ks. hd ks = h) kss)))
       (remdups (map hd (filter (\<lambda>ks. tl ks \<noteq> []) kss)))"

lemma keys_compatD:
  "keys_compat n kss \<Longrightarrow> [] \<notin> set kss \<Longrightarrow> ks \<in> set kss \<Longrightarrow> ls \<in> set kss \<Longrightarrow> prefix ks ls \<Longrightarrow> ks = ls"
proof (induction n kss arbitrary: ks ls rule: keys_compat.induct)
  case (1 kss)
  then show ?case by simp
next
  case (2 n kss)
  obtain k ks' where ks: "ks = k # ks'" using 2(3,4) by (cases ks) auto
  with 2(6) obtain ls' where ls: "ls = k # ls'" "prefix ks' ls'" by (cases ls) auto
  show ?case
  proof (cases "ls' = []")
    case True
    with ks ls show ?thesis by simp
  next
    case False
    let ?sub = "map tl (filter (\<lambda>ks. hd ks = k) kss)"
    have k: "k \<in> set (remdups (map hd (filter (\<lambda>ks. tl ks \<noteq> []) kss)))" using 2(5) ls False by force
    with 2(2) have *: "\<forall>ks\<in>set kss. hd ks = k \<longrightarrow> tl ks \<noteq> []" "keys_compat n ?sub"
      by (auto simp: list_all_iff)
    have "ks' \<in> set ?sub" "ls' \<in> set ?sub" using 2(4,5) ks ls by force+
    moreover have "[] \<notin> set ?sub" using *(1) by force
    ultimately have "ks' = ls'" using 2(1) [OF k *(2)] ls(2) by blast
    with ks ls show ?thesis by simp
  qed
qed

lemma paths_compat_keys:
  assumes "keys_compat n (map path_keys ps)"
  shows "paths_compat ps"
proof -
  have "p = q" if "p \<in> set ps" "q \<in> set ps" "prefix (path_keys p) (path_keys q)" for p q
  proof (rule path_keys_inj, rule keys_compatD [OF assms])
    show "[] \<notin> set (map path_keys ps)" by (metis ex_map_conv path_keys_not_Nil)
  qed (use that in auto)
  then show ?thesis by (auto simp: paths_compat_def path_indep_def)
qed

lemma paths_compatD: "paths_compat ps \<Longrightarrow> p \<in> set ps \<Longrightarrow> q \<in> set ps \<Longrightarrow> p \<noteq> q \<Longrightarrow> path_indep p q"
  by (auto simp: paths_compat_def)

text \<open>A key on its own is independent of every path that starts with another key.\<close>

lemma heads_indep:
  assumes "path_keys k = [k]" and "list_all (\<lambda>p. hd (path_keys p) \<noteq> k) ps"
  shows "\<forall>p\<in>set ps. path_indep k p"
proof
  fix p assume p: "p \<in> set ps"
  obtain a ks where a: "path_keys p = a # ks" by (cases "path_keys p") auto
  with assms(2) p have "a \<noteq> k" by (auto simp: list_all_iff)
  with assms(1) a show "path_indep k p" by (simp add: path_indep_def)
qed

text \<open>A key added to a collection it does not occur in.\<close>

lemma paths_compat_key:
  assumes "keys_compat n (map path_keys (k # ps))" and "list_all (\<lambda>q. q \<noteq> k) ps"
  shows "\<forall>p\<in>set ps. path_indep p k \<and> path_indep k p"
  using paths_compat_keys [OF assms(1)] assms(2) path_indep_sym by (fastforce simp: list_all_iff paths_compat_def)

lemma paths_compat_subset: "paths_compat ps \<Longrightarrow> set qs \<subseteq> set ps \<Longrightarrow> paths_compat qs"
  by (auto simp: paths_compat_def)

lemma paths_compat_indep: "paths_compat ps \<Longrightarrow> distinct ps \<Longrightarrow> paths_indep ps"
  by (induction ps) (auto simp: paths_compat_def list_all_iff)

subsection \<open>Reading and writing along a list of keys\<close>

fun get_keys :: "string list \<Rightarrow> jobj \<Rightarrow> json option" where
  "get_keys [] ob = Some (JObj ob)"
| "get_keys [k] ob = obj_get ob k"
| "get_keys (k # k' # ks) ob = (case obj_get ob k of Some (JObj c) \<Rightarrow> get_keys (k' # ks) c | _ \<Rightarrow> None)"

definition child_obj :: "jobj \<Rightarrow> string \<Rightarrow> jobj" where
  "child_obj ob k = (case obj_get ob k of Some (JObj c) \<Rightarrow> c | _ \<Rightarrow> [])"

fun set_keys :: "string list \<Rightarrow> json option \<Rightarrow> jobj \<Rightarrow> jobj" where
  "set_keys [] v ob = ob"
| "set_keys [k] v ob = (case v of None \<Rightarrow> obj_del k ob | Some x \<Rightarrow> obj_set k x ob)"
| "set_keys (k # k' # ks) v ob =
     (let updated = set_keys (k' # ks) v (child_obj ob k)
      in if updated \<noteq> [] then obj_set k (JObj updated) ob else obj_del k ob)"

lemma get_keys_Nil [simp]: "ks \<noteq> [] \<Longrightarrow> get_keys ks [] = None"
  by (cases ks; cases "tl ks") auto

lemma get_keys_Cons:
  "ks \<noteq> [] \<Longrightarrow> get_keys (k # ks) ob = get_keys ks (child_obj ob k)"
  by (cases ks) (auto simp: child_obj_def split: option.splits json.splits)

lemma child_obj_set_del [simp]:
  "child_obj (obj_set k (JObj c) ob) k = c"
  "child_obj (obj_del k ob) k = []"
  "k' \<noteq> k \<Longrightarrow> child_obj (obj_set k v ob) k' = child_obj ob k'"
  "k' \<noteq> k \<Longrightarrow> child_obj (obj_del k ob) k' = child_obj ob k'"
  by (simp_all add: child_obj_def)

lemma set_keys_Cons:
  "ks \<noteq> [] \<Longrightarrow> set_keys (k # ks) v ob =
     (let updated = set_keys ks v (child_obj ob k)
      in if updated \<noteq> [] then obj_set k (JObj updated) ob else obj_del k ob)"
  by (cases ks) auto

lemma child_obj_Nil [simp]: "child_obj [] k = []"
  by (simp add: child_obj_def)

lemma set_keys_None_Nil [simp]: "set_keys ks None [] = []"
proof (induction ks)
  case Nil
  then show ?case by simp
next
  case (Cons k ks)
  then show ?case by (cases "ks = []") (auto simp: set_keys_Cons obj_del_def)
qed

lemma wf_child_obj: "wf_obj ob \<Longrightarrow> wf_obj (child_obj ob k)"
  using wf_obj_get [of ob k]
  by (auto simp: child_obj_def wf_obj_def [symmetric] simp del: wf_json.simps split: option.splits json.splits)

lemma child_obj_set_keys [simp]:
  "ks \<noteq> [] \<Longrightarrow> child_obj (set_keys (k # ks) v ob) k = set_keys ks v (child_obj ob k)"
  by (simp add: set_keys_Cons Let_def)

lemma child_obj_set_keys_other:
  "ks \<noteq> [] \<Longrightarrow> k' \<noteq> k \<Longrightarrow> child_obj (set_keys (k # ks) v ob) k' = child_obj ob k'"
  by (simp add: set_keys_Cons Let_def)

lemma obj_get_set_keys_other:
  "k' \<noteq> k \<Longrightarrow> obj_get (set_keys (k # ks) v ob) k' = obj_get ob k'"
  by (cases ks) (auto simp: Let_def split: option.splits)

lemma get_set_keys: "ks \<noteq> [] \<Longrightarrow> get_keys ks (set_keys ks (Some v) ob) = Some v"
proof (induction ks arbitrary: ob)
  case Nil
  then show ?case by simp
next
  case (Cons k ks)
  then show ?case by (cases "ks = []") (auto simp: get_keys_Cons)
qed

lemma get_del_keys: "ks \<noteq> [] \<Longrightarrow> get_keys ks (set_keys ks None ob) = None"
proof (induction ks arbitrary: ob)
  case Nil
  then show ?case by simp
next
  case (Cons k ks)
  then show ?case by (cases "ks = []") (auto simp: get_keys_Cons)
qed

lemma get_set_keys_indep:
  "\<not> prefix ps qs \<Longrightarrow> \<not> prefix qs ps \<Longrightarrow> get_keys qs (set_keys ps v ob) = get_keys qs ob"
proof (induction ps arbitrary: qs ob)
  case Nil
  then show ?case by simp
next
  case (Cons p ps)
  obtain q qs' where q: "qs = q # qs'" using Cons.prems by (cases qs) auto
  show ?case
  proof (cases "q = p")
    case True
    with Cons.prems q have "ps \<noteq> []" "qs' \<noteq> []" "\<not> prefix ps qs'" "\<not> prefix qs' ps" by auto
    with Cons.IH q True show ?thesis by (simp add: get_keys_Cons)
  next
    case False
    with q show ?thesis
      by (cases "qs' = []"; cases "ps = []")
         (auto simp: get_keys_Cons child_obj_set_keys_other obj_get_set_keys_other split: option.splits)
  qed
qed

text \<open>Removing a path never makes another path readable that was not.\<close>

lemma get_del_keys_mono:
  "qs \<noteq> [] \<Longrightarrow> ps \<noteq> [] \<Longrightarrow> get_keys qs ob = None \<Longrightarrow> get_keys qs (set_keys ps None ob) = None"
proof (induction ps arbitrary: qs ob)
  case Nil
  then show ?case by simp
next
  case (Cons p ps)
  obtain q qs' where q: "qs = q # qs'" using Cons.prems by (cases qs) auto
  show ?case
  proof (cases "q = p")
    case True
    show ?thesis
    proof (cases "ps = []")
      case True
      with q \<open>q = p\<close> show ?thesis by (cases "qs' = []") (auto simp: get_keys_Cons)
    next
      case ps: False
      show ?thesis
      proof (cases "qs' = []")
        case True
        with Cons.prems q \<open>q = p\<close> have none: "obj_get ob p = None" by simp
        with ps q True \<open>q = p\<close> show ?thesis
          by (simp add: set_keys_Cons child_obj_def)
      next
        case False
        with Cons q \<open>q = p\<close> ps show ?thesis by (simp add: get_keys_Cons)
      qed
    qed
  next
    case False
    with Cons.prems q show ?thesis
      by (cases "qs' = []"; cases "ps = []")
         (auto simp: get_keys_Cons child_obj_set_keys_other obj_get_set_keys_other split: option.splits)
  qed
qed

lemma nodes_del_keys:
  "ks \<noteq> [] \<Longrightarrow> get_keys ks ob \<noteq> None \<Longrightarrow> obj_nodes (set_keys ks None ob) < obj_nodes ob"
proof (induction ks arbitrary: ob)
  case Nil
  then show ?case by simp
next
  case (Cons k ks)
  show ?case
  proof (cases "ks = []")
    case True
    with Cons.prems show ?thesis by (auto intro: obj_nodes_del_less)
  next
    case False
    with Cons.prems obtain c where c: "obj_get ob k = Some (JObj c)" "get_keys ks c \<noteq> None"
      by (auto simp: get_keys_Cons child_obj_def split: option.splits json.splits)
    let ?u = "set_keys ks None c"
    have less: "obj_nodes ?u < obj_nodes c" using Cons.IH [OF False] c by blast
    have ch: "child_obj ob k = c" using c by (simp add: child_obj_def)
    show ?thesis
    proof (cases "?u = []")
      case True
      with False ch c show ?thesis by (simp add: set_keys_Cons obj_nodes_del_less)
    next
      case u: False
      with False ch less obj_nodes_set [OF c(1), of "JObj ?u"] show ?thesis
        by (simp add: set_keys_Cons obj_nodes_def)
    qed
  qed
qed

lemma wf_set_keys: "wf_obj ob \<Longrightarrow> (\<forall>x. v = Some x \<longrightarrow> wf_json x) \<Longrightarrow> wf_obj (set_keys ks v ob)"
proof (induction ks v ob rule: set_keys.induct)
  case (1 v ob)
  then show ?case by simp
next
  case (2 k v ob)
  then show ?case by (auto split: option.splits intro: wf_obj_set wf_obj_del)
next
  case (3 k k' ks v ob)
  have "wf_obj (child_obj ob k)" using 3(2) by (rule wf_child_obj)
  with 3 have "wf_obj (set_keys (k' # ks) v (child_obj ob k))" by simp
  then show ?case
    using 3(2) by (auto simp: Let_def wf_obj_def [of "set_keys (k' # ks) v (child_obj ob k)"] intro: wf_obj_set wf_obj_del)
qed

lemma set_get_keys: "ks \<noteq> [] \<Longrightarrow> get_keys ks ob = Some v \<Longrightarrow> set_keys ks (Some v) ob = ob"
proof (induction ks arbitrary: ob)
  case Nil
  then show ?case by simp
next
  case (Cons k ks)
  show ?case
  proof (cases "ks = []")
    case True
    with Cons.prems show ?thesis by (simp add: obj_set_same)
  next
    case False
    with Cons.prems obtain c where c: "obj_get ob k = Some (JObj c)" "get_keys ks c = Some v"
      by (auto simp: get_keys_Cons child_obj_def split: option.splits json.splits)
    with Cons.IH False have "set_keys ks (Some v) c = c" by blast
    moreover have "c \<noteq> []" using c False by auto
    ultimately show ?thesis using False c by (simp add: set_keys_Cons child_obj_def obj_set_same)
  qed
qed

subsection \<open>The interface\<close>

text \<open>The passes of the clients, over any store with a read and a write.\<close>

definition remove_paths_with :: "('o \<Rightarrow> string \<Rightarrow> json option \<Rightarrow> 'o) \<Rightarrow> 'o \<Rightarrow> string list \<Rightarrow> 'o" where
  "remove_paths_with put ob ps = foldl (\<lambda>next p. put next p None) ob ps"

definition keep_paths_with ::
  "('o \<Rightarrow> string \<Rightarrow> json option) \<Rightarrow> ('o \<Rightarrow> string \<Rightarrow> json option \<Rightarrow> 'o) \<Rightarrow> (string \<Rightarrow> json option \<Rightarrow> bool) \<Rightarrow> 'o \<Rightarrow> string list \<Rightarrow> 'o" where
  "keep_paths_with get put keep ob ps =
     foldl (\<lambda>next p. if keep p (get next p) then next else put next p None) ob ps"

text \<open>
  One pass of the pruning loop: an invisible field that has a value is removed, and the flag
  records that something changed.
\<close>

definition prune_step ::
  "('o \<Rightarrow> string \<Rightarrow> json option) \<Rightarrow> ('o \<Rightarrow> string \<Rightarrow> json option \<Rightarrow> 'o) \<Rightarrow> ('o \<Rightarrow> 'f \<Rightarrow> bool) \<Rightarrow> ('f \<Rightarrow> string) \<Rightarrow> 'o \<times> bool \<Rightarrow> 'f \<Rightarrow> 'o \<times> bool" where
  "prune_step get put visible fpath = (\<lambda>(next, changed) f.
     if visible next f then (next, changed)
     else if get next (fpath f) = None then (next, changed)
     else (put next (fpath f) None, True))"

definition prune_pass ::
  "('o \<Rightarrow> string \<Rightarrow> json option) \<Rightarrow> ('o \<Rightarrow> string \<Rightarrow> json option \<Rightarrow> 'o) \<Rightarrow> ('o \<Rightarrow> 'f \<Rightarrow> bool) \<Rightarrow> ('f \<Rightarrow> string) \<Rightarrow> 'o \<Rightarrow> 'f list \<Rightarrow> 'o \<times> bool" where
  "prune_pass get put visible fpath ob fs = foldl (prune_step get put visible fpath) (ob, False) fs"

locale path_store =
  fixes get :: "'o \<Rightarrow> string \<Rightarrow> json option"
    and put :: "'o \<Rightarrow> string \<Rightarrow> json option \<Rightarrow> 'o"
    and weight :: "'o \<Rightarrow> nat"
  assumes get_put: "get (put ob p (Some v)) p = Some v"
    and get_removed: "get (put ob p None) p = None"
    and get_put_indep: "path_indep p q \<Longrightarrow> get (put ob p w) q = get ob q"
    and removed_mono: "get ob q = None \<Longrightarrow> get (put ob p None) q = None"
    and weight_removed: "get ob p \<noteq> None \<Longrightarrow> weight (put ob p None) < weight ob"
begin

lemma remove_paths_mono: "get ob q = None \<Longrightarrow> get (remove_paths_with put ob ps) q = None"
  unfolding remove_paths_with_def by (induction ps arbitrary: ob) (auto simp: removed_mono)

lemma remove_paths_removed: "p \<in> set ps \<Longrightarrow> get (remove_paths_with put ob ps) p = None"
proof (induction ps arbitrary: ob)
  case Nil
  then show ?case by simp
next
  case (Cons q ps)
  have unf: "remove_paths_with put ob (q # ps) = remove_paths_with put (put ob q None) ps"
    by (simp add: remove_paths_with_def)
  show ?case
  proof (cases "p = q")
    case True
    then show ?thesis unfolding unf by (intro remove_paths_mono) (simp add: get_removed)
  next
    case False
    with Cons show ?thesis unfolding unf by simp
  qed
qed

lemma remove_paths_indep:
  "\<forall>p\<in>set ps. path_indep p q \<Longrightarrow> get (remove_paths_with put ob ps) q = get ob q"
  unfolding remove_paths_with_def
  by (induction ps arbitrary: ob) (auto simp: get_put_indep)

lemma keep_paths_Cons:
  "keep_paths_with get put keep ob (p # ps) =
     keep_paths_with get put keep (if keep p (get ob p) then ob else put ob p None) ps"
  by (simp add: keep_paths_with_def)

lemma keep_paths_indep:
  "\<forall>p\<in>set ps. path_indep p q \<Longrightarrow> get (keep_paths_with get put keep ob ps) q = get ob q"
proof (induction ps arbitrary: ob)
  case Nil
  then show ?case by (simp add: keep_paths_with_def)
next
  case (Cons p ps)
  then show ?case by (simp add: keep_paths_Cons get_put_indep)
qed

lemma keep_paths_mono: "get ob q = None \<Longrightarrow> get (keep_paths_with get put keep ob ps) q = None"
proof (induction ps arbitrary: ob)
  case Nil
  then show ?case by (simp add: keep_paths_with_def)
next
  case (Cons p ps)
  then show ?case by (simp add: keep_paths_Cons removed_mono)
qed

text \<open>A path that no value lets stay is gone after the pass, whatever else the pass touches.\<close>

lemma keep_paths_removed:
  assumes "p \<in> set ps" and "\<And>v. \<not> keep p (Some v)"
  shows "get (keep_paths_with get put keep ob ps) p = None"
  using assms(1)
proof (induction ps arbitrary: ob)
  case Nil
  then show ?case by simp
next
  case (Cons q ps)
  show ?case
  proof (cases "q = p")
    case True
    have "get (if keep p (get ob p) then ob else put ob p None) p = None"
      using assms(2) by (cases "get ob p") (auto simp: get_removed)
    with True show ?thesis by (simp add: keep_paths_Cons keep_paths_mono)
  next
    case False
    with Cons show ?thesis by (simp add: keep_paths_Cons)
  qed
qed

text \<open>On independent paths the pass is pointwise: a path keeps its value exactly when it may.\<close>

lemma keep_paths_value:
  assumes "paths_indep ps" and "p \<in> set ps"
  shows "get (keep_paths_with get put keep ob ps) p = (if keep p (get ob p) then get ob p else None)"
  using assms
proof (induction ps arbitrary: ob)
  case Nil
  then show ?case by simp
next
  case (Cons q ps)
  show ?case
  proof (cases "p = q")
    case True
    with Cons.prems have ind: "\<forall>r\<in>set ps. path_indep r q"
      by (auto simp: list_all_iff intro: path_indep_sym)
    show ?thesis using True by (simp add: keep_paths_Cons keep_paths_indep [OF ind] get_removed)
  next
    case False
    with Cons.prems have "path_indep q p" "p \<in> set ps" "paths_indep ps" by (auto simp: list_all_iff)
    with Cons.IH show ?thesis by (simp add: keep_paths_Cons get_put_indep)
  qed
qed

lemma prune_foldl_weight:
  "foldl (prune_step get put visible fpath) (ob, c) fs = (ob', c') \<Longrightarrow>
     weight ob' \<le> weight ob \<and> (c' \<and> \<not> c \<longrightarrow> weight ob' < weight ob) \<and> (c \<longrightarrow> c')"
proof (induction fs arbitrary: ob c)
  case Nil
  then show ?case by auto
next
  case (Cons f fs)
  obtain ob1 c1 where s: "prune_step get put visible fpath (ob, c) f = (ob1, c1)" by force
  have "weight ob1 \<le> weight ob \<and> (c1 \<and> \<not> c \<longrightarrow> weight ob1 < weight ob) \<and> (c \<longrightarrow> c1)"
    using s weight_removed [of ob "fpath f"] by (auto simp: prune_step_def split: if_splits)
  moreover have "foldl (prune_step get put visible fpath) (ob1, c1) fs = (ob', c')"
    using Cons.prems s by simp
  note Cons.IH [OF this]
  ultimately show ?case by auto
qed

lemma prune_pass_weight:
  "prune_pass get put visible fpath ob fs = (ob', True) \<Longrightarrow> weight ob' < weight ob"
  using prune_foldl_weight [of visible fpath ob False fs ob' True] by (simp add: prune_pass_def)

text \<open>A pass that changes nothing has seen every field visible or absent.\<close>

lemma prune_foldl_unchanged:
  "foldl (prune_step get put visible fpath) (ob, False) fs = (ob', False) \<Longrightarrow>
     ob' = ob \<and> (\<forall>f\<in>set fs. visible ob f \<or> get ob (fpath f) = None)"
proof (induction fs arbitrary: ob)
  case Nil
  then show ?case by simp
next
  case (Cons f fs)
  obtain ob1 c1 where s: "prune_step get put visible fpath (ob, False) f = (ob1, c1)" by force
  with Cons.prems have f1: "foldl (prune_step get put visible fpath) (ob1, c1) fs = (ob', False)" by simp
  then have "\<not> c1" using prune_foldl_weight by blast
  with s have "ob1 = ob" "visible ob f \<or> get ob (fpath f) = None"
    by (auto simp: prune_step_def split: if_splits)
  with f1 \<open>\<not> c1\<close> Cons.IH show ?case by auto
qed

lemma prune_pass_unchanged:
  "prune_pass get put visible fpath ob fs = (ob', False) \<Longrightarrow>
     ob' = ob \<and> (\<forall>f\<in>set fs. visible ob f \<or> get ob (fpath f) = None)"
  unfolding prune_pass_def by (rule prune_foldl_unchanged)

lemma prune_foldl_stable:
  "\<forall>f\<in>set fs. visible ob f \<or> get ob (fpath f) = None \<Longrightarrow>
     foldl (prune_step get put visible fpath) (ob, c) fs = (ob, c)"
  by (induction fs) (auto simp: prune_step_def)

lemma prune_pass_stable:
  "\<forall>f\<in>set fs. visible ob f \<or> get ob (fpath f) = None \<Longrightarrow>
     prune_pass get put visible fpath ob fs = (ob, False)"
  by (simp add: prune_pass_def prune_foldl_stable)

text \<open>
  What an invariant of every single removal gives for a pass and for the loop. The loop of a
  form model is any function with the loop's equation; that it ends is proved where the loop
  is defined, by \<open>prune_pass_weight\<close>.
\<close>

lemma prune_pass_induct:
  assumes "P ob"
    and "\<And>next f. f \<in> set fs \<Longrightarrow> P next \<Longrightarrow> \<not> visible next f \<Longrightarrow> P (put next (fpath f) None)"
  shows "P (fst (prune_pass get put visible fpath ob fs))"
proof -
  have "P (fst (foldl (prune_step get put visible fpath) (ob, c) gs))" if "set gs \<subseteq> set fs" for c gs
    using assms(1) that
    by (induction gs arbitrary: ob c) (auto simp: prune_step_def assms(2) split: prod.splits)
  then show ?thesis by (simp add: prune_pass_def)
qed

lemma prune_loop_induct:
  assumes loop: "\<And>ob. loop ob = (let (next, changed) = prune_pass get put visible fpath ob fs
                  in if changed then loop next else next)"
    and "P ob"
    and "\<And>next f. f \<in> set fs \<Longrightarrow> P next \<Longrightarrow> \<not> visible next f \<Longrightarrow> P (put next (fpath f) None)"
  shows "P (loop ob)"
  using assms(2)
proof (induction "weight ob" arbitrary: ob rule: less_induct)
  case less
  obtain ob' c where p: "prune_pass get put visible fpath ob fs = (ob', c)" by force
  have "P ob'" using prune_pass_induct [of P ob fs visible fpath] less.prems assms(3) p by auto
  moreover have "c \<Longrightarrow> weight ob' < weight ob" using prune_pass_weight p by auto
  ultimately show ?case using less.hyps [of ob'] p by (simp add: loop [of ob])
qed

lemma prune_settled:
  assumes loop: "\<And>ob. loop ob = (let (next, changed) = prune_pass get put visible fpath ob fs
                  in if changed then loop next else next)"
    and "f \<in> set fs"
  shows "visible (loop ob) f \<or> get (loop ob) (fpath f) = None"
proof (induction "weight ob" arbitrary: ob rule: less_induct)
  case less
  obtain ob' c where p: "prune_pass get put visible fpath ob fs = (ob', c)" by force
  show ?case
  proof (cases c)
    case True
    with p prune_pass_weight have "weight ob' < weight ob" by auto
    from less.hyps [OF this] show ?thesis using p True by (simp add: loop [of ob])
  next
    case False
    with p prune_pass_unchanged [of visible fpath ob fs ob'] assms(2)
    show ?thesis by (auto simp: loop [of ob])
  qed
qed

lemma prune_stable:
  assumes loop: "\<And>ob. loop ob = (let (next, changed) = prune_pass get put visible fpath ob fs
                  in if changed then loop next else next)"
    and "\<forall>f\<in>set fs. visible ob f \<or> get ob (fpath f) = None"
  shows "loop ob = ob"
  using prune_pass_stable [of fs visible ob fpath] assms(2) by (simp add: loop [of ob])

lemma prune_idem:
  assumes loop: "\<And>ob. loop ob = (let (next, changed) = prune_pass get put visible fpath ob fs
                  in if changed then loop next else next)"
  shows "loop (loop ob) = loop ob"
proof (rule prune_stable [OF loop])
  show "\<forall>f\<in>set fs. visible (loop ob) f \<or> get (loop ob) (fpath f) = None"
    using prune_settled [where loop = loop, OF loop] by simp
qed

text \<open>The loop removes a path or leaves its value, and touches only fields that can be hidden.\<close>

lemma prune_keeps:
  assumes loop: "\<And>ob. loop ob = (let (next, changed) = prune_pass get put visible fpath ob fs
                  in if changed then loop next else next)"
    and "\<forall>f\<in>set fs. path_indep (fpath f) q \<or> (\<forall>ob. visible ob f)"
  shows "get (loop ob) q = get ob q"
  by (rule prune_loop_induct [OF loop, where P = "\<lambda>next. get next q = get ob q"])
     (use assms(2) get_put_indep in auto)

lemma prune_only_removes:
  assumes loop: "\<And>ob. loop ob = (let (next, changed) = prune_pass get put visible fpath ob fs
                  in if changed then loop next else next)"
    and "\<forall>f\<in>set fs. fpath f = q \<or> path_indep (fpath f) q"
  shows "get (loop ob) q = get ob q \<or> get (loop ob) q = None"
  by (rule prune_loop_induct [OF loop, where P = "\<lambda>next. get next q = get ob q \<or> get next q = None"])
     (use assms(2) get_put_indep get_removed in auto)

lemma prune_mono:
  assumes loop: "\<And>ob. loop ob = (let (next, changed) = prune_pass get put visible fpath ob fs
                  in if changed then loop next else next)"
    and "get ob q = None"
  shows "get (loop ob) q = None"
  by (rule prune_loop_induct [OF loop, where P = "\<lambda>next. get next q = None"])
     (use assms(2) removed_mono in auto)

end

end
