(* ===== verification/Policy_Form.thy ===== *)
theory Policy_Form
  imports Path_Store "HOL-Library.Multiset"
begin

text \<open>
  The form model of the policy pages, \<open>features/policy/policy-form-model.ts\<close>: field
  specifications, reading and writing a configuration object by a dotted path, visibility of
  fields and the pruning of invisible ones, grouping by section, and the tag lists that fill
  the reference selectors.
\<close>

subsection \<open>Field specifications\<close>

datatype policy_section = Route_section | Dns_section

datatype policy_kind = PText | PTextarea | PNumber | PBoolean | PList | PNumberList | PSelect
  | PJsonObject | PJsonArray | PRef | PRefMulti | PNetworkMulti | PNetworkInterface

datatype policy_ref = RInbound | ROutbound | RDnsServer | RRuleSet | RNetworkInterface

record field_when =
  w_path :: string
  w_is :: "json option"
  w_falsy :: bool

datatype when_spec = WhenOne field_when | WhenAll "field_when list"

record policy_field =
  pf_path :: string
  pf_label :: string
  pf_kind :: "policy_kind option"
  pf_options :: "string list option"
  pf_required :: bool
  pf_section :: "string option"
  pf_when :: "when_spec option"
  pf_ref :: "policy_ref option"

text \<open>A field with a path and a label only, and the three shapes of a visibility rule.\<close>

definition pfield :: "string \<Rightarrow> string \<Rightarrow> policy_field" where
  "pfield p l = \<lparr>pf_path = p, pf_label = l, pf_kind = None, pf_options = None, pf_required = False,
     pf_section = None, pf_when = None, pf_ref = None\<rparr>"

definition when_set :: "string \<Rightarrow> field_when" where
  "when_set p = \<lparr>w_path = p, w_is = None, w_falsy = False\<rparr>"

definition when_is :: "string \<Rightarrow> json \<Rightarrow> field_when" where
  "when_is p v = \<lparr>w_path = p, w_is = Some v, w_falsy = False\<rparr>"

definition when_falsy :: "string \<Rightarrow> field_when" where
  "when_falsy p = \<lparr>w_path = p, w_is = None, w_falsy = True\<rparr>"

lemma pfield_simps [simp]:
  "pf_path (pfield p l) = p" "pf_label (pfield p l) = l" "pf_kind (pfield p l) = None"
  "pf_options (pfield p l) = None" "\<not> pf_required (pfield p l)" "pf_section (pfield p l) = None"
  "pf_when (pfield p l) = None" "pf_ref (pfield p l) = None"
  by (simp_all add: pfield_def)

record form_context =
  inboundTags :: "string list option"
  outboundTags :: "string list option"
  dnsServerTags :: "string list option"
  ruleSetTags :: "string list option"
  currentTag :: "string option"

subsection \<open>Type guards\<close>

definition isJsonObject :: "json option \<Rightarrow> bool" where
  "isJsonObject v = is_obj v"

definition isNonEmptyJsonObjectArray :: "json option \<Rightarrow> bool" where
  "isNonEmptyJsonObjectArray v =
     (case v of Some (JArr vs) \<Rightarrow> vs \<noteq> [] \<and> list_all (\<lambda>x. isJsonObject (Some x)) vs | _ \<Rightarrow> False)"

fun sectionArrayPaths :: "policy_section \<Rightarrow> string list" where
  "sectionArrayPaths Route_section = [''rules'', ''rule_set'']"
| "sectionArrayPaths Dns_section = [''servers'', ''rules'']"

definition isPolicySectionStructureValid :: "policy_section \<Rightarrow> jobj \<Rightarrow> bool" where
  "isPolicySectionStructureValid section ob =
     list_all (\<lambda>p. case obj_get ob p of None \<Rightarrow> True
        | Some (JArr vs) \<Rightarrow> list_all (\<lambda>x. isJsonObject (Some x)) vs | _ \<Rightarrow> False) (sectionArrayPaths section)"

subsection \<open>Paths\<close>

definition getPolicyPath :: "jobj \<Rightarrow> string \<Rightarrow> json option" where
  "getPolicyPath ob path =
     foldl (\<lambda>value key. case value of Some (JObj c) \<Rightarrow> obj_get c key | _ \<Rightarrow> None)
       (Some (JObj ob)) (path_keys path)"

text \<open>
  The local function \<open>update(source, index)\<close>; the index is the list of keys still to be
  descended.
\<close>

fun updatePath :: "string list \<Rightarrow> json option \<Rightarrow> jobj \<Rightarrow> jobj" where
  "updatePath [] value source = source"
| "updatePath [key] value source =
     (case value of None \<Rightarrow> obj_del key source | Some v \<Rightarrow> obj_set key v source)"
| "updatePath (key # key' # keys) value source =
     (let child = (case obj_get source key of Some (JObj c) \<Rightarrow> c | _ \<Rightarrow> []);
          updated = updatePath (key' # keys) value child
      in if length (obj_keys updated) > 0 then obj_set key (JObj updated) source
         else obj_del key source)"

definition setPolicyPath :: "jobj \<Rightarrow> string \<Rightarrow> json option \<Rightarrow> jobj" where
  "setPolicyPath ob path value = updatePath (path_keys path) value ob"

lemma foldl_get_None:
  "foldl (\<lambda>value key. case value of Some (JObj c) \<Rightarrow> obj_get c key | _ \<Rightarrow> None) None ks = None"
  by (induction ks) auto

lemma foldl_get_keys:
  "ks \<noteq> [] \<Longrightarrow> foldl (\<lambda>value key. case value of Some (JObj c) \<Rightarrow> obj_get c key | _ \<Rightarrow> None) (Some (JObj ob)) ks
     = get_keys ks ob"
proof (induction ks arbitrary: ob)
  case Nil
  then show ?case by simp
next
  case (Cons k ks)
  then show ?case
    by (cases "ks = []") (auto simp: get_keys_Cons child_obj_def foldl_get_None neq_Nil_conv split: option.splits json.splits)
qed

lemma getPolicyPath_keys: "getPolicyPath ob p = get_keys (path_keys p) ob"
  by (simp add: getPolicyPath_def foldl_get_keys)

lemma updatePath_set_keys: "updatePath ks v ob = set_keys ks v ob"
  by (induction ks v ob rule: updatePath.induct) (auto simp: child_obj_def obj_keys_def Let_def)

lemma setPolicyPath_keys: "setPolicyPath ob p v = set_keys (path_keys p) v ob"
  by (simp add: setPolicyPath_def updatePath_set_keys)

interpretation policy: path_store getPolicyPath setPolicyPath obj_nodes
  by unfold_locales
     (auto simp: getPolicyPath_keys setPolicyPath_keys get_set_keys get_del_keys path_indep_def
        get_set_keys_indep get_del_keys_mono nodes_del_keys)

lemma getPolicyPath_single: "path_keys p = [k] \<Longrightarrow> getPolicyPath ob p = obj_get ob k"
  by (simp add: getPolicyPath_keys)

lemma setPolicyPath_single:
  "path_keys p = [k] \<Longrightarrow> setPolicyPath ob p v = (case v of None \<Rightarrow> obj_del k ob | Some x \<Rightarrow> obj_set k x ob)"
  by (simp add: setPolicyPath_keys)

lemma wf_setPolicyPath: "wf_obj ob \<Longrightarrow> (\<forall>x. v = Some x \<longrightarrow> wf_json x) \<Longrightarrow> wf_obj (setPolicyPath ob p v)"
  by (simp add: setPolicyPath_keys wf_set_keys)

subsection \<open>Moving an item\<close>

definition moveItem :: "'a list \<Rightarrow> int \<Rightarrow> int \<Rightarrow> 'a list" where
  "moveItem items index direction =
     (let target = index + direction
      in if index < 0 \<or> index \<ge> int (length items) \<or> target < 0 \<or> target \<ge> int (length items) then items
         else items[nat index := items ! nat target, nat target := items ! nat index])"

definition cloneJsonObject :: "jobj \<Rightarrow> jobj" where
  "cloneJsonObject ob = ob"

subsection \<open>Visibility\<close>

definition isFalsy :: "json option \<Rightarrow> bool" where
  "isFalsy v = (case v of None \<Rightarrow> True | Some JNull \<Rightarrow> True | Some (JBool b) \<Rightarrow> \<not> b
     | Some (JStr s) \<Rightarrow> s = [] | Some (JArr vs) \<Rightarrow> vs = [] | _ \<Rightarrow> False)"

definition matchesWhen :: "jobj \<Rightarrow> field_when \<Rightarrow> bool" where
  "matchesWhen ob rule =
     (let value = getPolicyPath ob (w_path rule)
      in if w_falsy rule then isFalsy value
         else case w_is rule of
             Some (JArr allowed) \<Rightarrow> list_ex (\<lambda>item. object_is item value) allowed
           | Some v \<Rightarrow> object_is v value
           | None \<Rightarrow> \<not> isFalsy value)"

definition isPolicyFieldVisible :: "jobj \<Rightarrow> policy_field \<Rightarrow> bool" where
  "isPolicyFieldVisible ob field =
     (case pf_when field of None \<Rightarrow> True
      | Some (WhenOne rule) \<Rightarrow> matchesWhen ob rule
      | Some (WhenAll rules) \<Rightarrow> list_all (matchesWhen ob) rules)"

definition visiblePolicyFields :: "policy_field list \<Rightarrow> jobj \<Rightarrow> policy_field list" where
  "visiblePolicyFields specs ob = filter (isPolicyFieldVisible ob) specs"

subsection \<open>Grouping by section\<close>

definition add_to_groups :: "('f \<Rightarrow> string option) \<Rightarrow> (string option \<times> 'f list) list \<Rightarrow> 'f \<Rightarrow> (string option \<times> 'f list) list" where
  "add_to_groups sec groups field =
     (if groups \<noteq> [] \<and> fst (last groups) = sec field
      then butlast groups @ [(fst (last groups), snd (last groups) @ [field])]
      else groups @ [(sec field, [field])])"

definition groupPolicyFieldsBySection :: "policy_field list \<Rightarrow> (string option \<times> policy_field list) list" where
  "groupPolicyFieldsBySection specs = foldl (add_to_groups pf_section) [] specs"

definition groups_ok :: "('f \<Rightarrow> string option) \<Rightarrow> (string option \<times> 'f list) list \<Rightarrow> bool" where
  "groups_ok sec gs \<longleftrightarrow> (\<forall>g\<in>set gs. snd g \<noteq> [] \<and> (\<forall>f\<in>set (snd g). sec f = fst g)) \<and> distinct_adj (map fst gs)"

lemma add_to_groups_concat:
  "concat (map snd (add_to_groups sec gs f)) = concat (map snd gs) @ [f]"
proof (cases "gs = []")
  case True
  then show ?thesis by (simp add: add_to_groups_def)
next
  case False
  then obtain hs h where "gs = hs @ [h]" by (metis append_butlast_last_id)
  then show ?thesis by (simp add: add_to_groups_def)
qed

lemma add_to_groups_ok: "groups_ok sec gs \<Longrightarrow> groups_ok sec (add_to_groups sec gs f)"
proof (cases "gs = []")
  case True
  then show ?thesis by (simp add: add_to_groups_def groups_ok_def)
next
  case False
  assume ok: "groups_ok sec gs"
  from False obtain hs h where gs: "gs = hs @ [h]" by (metis append_butlast_last_id)
  show ?thesis using ok unfolding gs
    by (auto simp: add_to_groups_def groups_ok_def distinct_adj_append_iff)
qed

lemma foldl_groups:
  "groups_ok sec gs \<Longrightarrow> groups_ok sec (foldl (add_to_groups sec) gs fs)
     \<and> concat (map snd (foldl (add_to_groups sec) gs fs)) = concat (map snd gs) @ fs"
  by (induction fs arbitrary: gs) (auto simp: add_to_groups_ok add_to_groups_concat)

subsection \<open>Pruning invisible fields\<close>

function pruneInvisiblePolicyFields :: "jobj \<Rightarrow> policy_field list \<Rightarrow> jobj" where
  "pruneInvisiblePolicyFields ob specs =
     (let (next, changed) = prune_pass getPolicyPath setPolicyPath isPolicyFieldVisible pf_path ob specs
      in if changed then pruneInvisiblePolicyFields next specs else next)"
  by pat_completeness auto
termination
  by (relation "measure (\<lambda>(ob, specs). obj_nodes ob)")
     (auto dest: policy.prune_pass_weight [OF sym])

declare pruneInvisiblePolicyFields.simps [simp del]

lemmas policy_prune_eq = pruneInvisiblePolicyFields.simps [of _ specs for specs]
lemmas policy_prune_settled = policy.prune_settled [of "\<lambda>ob. pruneInvisiblePolicyFields ob specs" for specs, OF policy_prune_eq]
lemmas policy_prune_stable = policy.prune_stable [of "\<lambda>ob. pruneInvisiblePolicyFields ob specs" for specs, OF policy_prune_eq]
lemmas policy_prune_idem = policy.prune_idem [of "\<lambda>ob. pruneInvisiblePolicyFields ob specs" for specs, OF policy_prune_eq]
lemmas policy_prune_keeps = policy.prune_keeps [of "\<lambda>ob. pruneInvisiblePolicyFields ob specs" for specs, OF policy_prune_eq]
lemmas policy_prune_only_removes =
  policy.prune_only_removes [of "\<lambda>ob. pruneInvisiblePolicyFields ob specs" for specs, OF policy_prune_eq]
lemmas policy_prune_mono = policy.prune_mono [of "\<lambda>ob. pruneInvisiblePolicyFields ob specs" for specs, OF policy_prune_eq]

subsection \<open>Fields indexed by path\<close>

text \<open>A \<open>Map\<close> filled in order, the first field of a path winning.\<close>

definition first_by :: "('f \<Rightarrow> string) \<Rightarrow> 'f list \<Rightarrow> 'f list" where
  "first_by path fs =
     foldl (\<lambda>acc f. if path f \<in> set (map path acc) then acc else acc @ [f]) [] fs"

text \<open>A \<open>Map\<close> filled in order, the last field of a path winning.\<close>

definition last_by :: "('f \<Rightarrow> string) \<Rightarrow> 'f list \<Rightarrow> string \<Rightarrow> 'f option" where
  "last_by path fs p = map_of (rev (map (\<lambda>f. (path f, f)) fs)) p"

lemma first_by_snoc:
  "first_by path (fs @ [f]) =
     (if path f \<in> path ` set (first_by path fs) then first_by path fs else first_by path fs @ [f])"
  by (simp add: first_by_def)

lemma set_map_first_by: "set (map path (first_by path fs)) = set (map path fs)"
  by (induction fs rule: rev_induct) (auto simp: first_by_snoc, simp add: first_by_def)

lemma distinct_first_by: "distinct (map path (first_by path fs))"
  by (induction fs rule: rev_induct) (auto simp: first_by_snoc, simp add: first_by_def)

lemma first_by_subset: "set (first_by path fs) \<subseteq> set fs"
  by (induction fs rule: rev_induct) (auto simp: first_by_snoc split: if_splits, simp add: first_by_def)

lemma last_by_Some: "last_by path fs p = Some f \<Longrightarrow> f \<in> set fs \<and> path f = p"
  by (auto simp: last_by_def dest!: map_of_SomeD)

lemma last_by_None: "last_by path fs p = None \<longleftrightarrow> p \<notin> path ` set fs"
  by (force simp: last_by_def map_of_eq_None_iff)

subsection \<open>Tags\<close>

definition policyConfigTags :: "json option \<Rightarrow> string option \<Rightarrow> string list" where
  "policyConfigTags items cur =
     (case items of Some (JArr vs) \<Rightarrow>
        js_unique (concat (map (\<lambda>item. case item of
            JObj c \<Rightarrow> (case obj_get c ''tag'' of
                Some (JStr tag) \<Rightarrow> if tag \<noteq> [] \<and> Some tag \<noteq> cur then [tag] else []
              | _ \<Rightarrow> [])
          | _ \<Rightarrow> []) vs))
      | _ \<Rightarrow> [])"

definition policyDNSServerTags :: "json option \<Rightarrow> string list" where
  "policyDNSServerTags dns =
     (case dns of Some (JObj c) \<Rightarrow> policyConfigTags (obj_get c ''servers'') None | _ \<Rightarrow> [])"

definition policyRuleSetTags :: "json option \<Rightarrow> string list" where
  "policyRuleSetTags route =
     (case route of Some (JObj c) \<Rightarrow> policyConfigTags (obj_get c ''rule_set'') None | _ \<Rightarrow> [])"

subsection \<open>Properties\<close>

text \<open>
  C14: A path reads back what was written to it, a removed path reads as absent, and a write or
  a removal leaves every independent path as it was; objects keep distinct keys throughout.
\<close>

theorem setPolicyPath_lens:
  assumes "path_indep p q" and "wf_obj ob" and "wf_json w"
  shows "getPolicyPath (setPolicyPath ob p v) p = v
     \<and> getPolicyPath (setPolicyPath ob p v) q = getPolicyPath ob q
     \<and> wf_obj (setPolicyPath ob p (Some w)) \<and> wf_obj (setPolicyPath ob p None)"
  using assms by (cases v) (simp_all add: policy.get_put policy.get_removed policy.get_put_indep wf_setPolicyPath)

theorem setPolicyPath_lens_witness:
  "getPolicyPath (setPolicyPath [(''tls'', JObj [(''enabled'', JBool True)])] ''tls.sni'' (Some (JStr ''a''))) ''tls.enabled''
     = getPolicyPath [(''tls'', JObj [(''enabled'', JBool True)])] ''tls.enabled''"
  by (rule setPolicyPath_lens [of "''tls.sni''" "''tls.enabled''" "[(''tls'', JObj [(''enabled'', JBool True)])]" JNull
        "Some (JStr ''a'')", THEN conjunct2, THEN conjunct1]) code_simp+

text \<open>
  C13: Pruning ends and settles: afterwards every field of the table is visible or absent, and a
  second pruning changes nothing. A path is never given a value it did not have.
\<close>

theorem pruneInvisiblePolicyFields_settles:
  assumes "f \<in> set specs"
  shows "(isPolicyFieldVisible (pruneInvisiblePolicyFields ob specs) f
        \<or> getPolicyPath (pruneInvisiblePolicyFields ob specs) (pf_path f) = None)
     \<and> pruneInvisiblePolicyFields (pruneInvisiblePolicyFields ob specs) specs = pruneInvisiblePolicyFields ob specs
     \<and> (getPolicyPath ob q = None \<longrightarrow> getPolicyPath (pruneInvisiblePolicyFields ob specs) q = None)"
  using policy_prune_settled [OF assms] policy_prune_mono by (auto simp: policy_prune_idem)

theorem pruneInvisiblePolicyFields_settles_witness:
  "getPolicyPath (pruneInvisiblePolicyFields [(''b'', JStr ''x'')]
       [(pfield ''b'' ''b'')\<lparr>pf_when := Some (WhenOne (when_set ''a''))\<rparr>]) ''b'' = None"
  using pruneInvisiblePolicyFields_settles [of "(pfield ''b'' ''b'')\<lparr>pf_when := Some (WhenOne (when_set ''a''))\<rparr>"
      "[(pfield ''b'' ''b'')\<lparr>pf_when := Some (WhenOne (when_set ''a''))\<rparr>]" "[(''b'', JStr ''x'')]"]
  by code_simp

text \<open>
  Pruning touches nothing else: a path keeps its value when every field of the table is at
  an independent path or has no visibility condition.
\<close>

lemma pruneInvisiblePolicyFields_frame:
  assumes "\<forall>f\<in>set specs. path_indep (pf_path f) q \<or> pf_when f = None"
  shows "getPolicyPath (pruneInvisiblePolicyFields ob specs) q = getPolicyPath ob q"
  using assms by (intro policy_prune_keeps) (auto simp: isPolicyFieldVisible_def)

lemma pruneInvisiblePolicyFields_frame_witness:
  "getPolicyPath (pruneInvisiblePolicyFields [(''b'', JStr ''x''), (''c'', JNull)]
       [(pfield ''b'' ''b'')\<lparr>pf_when := Some (WhenOne (when_set ''a''))\<rparr>]) ''c''
     = getPolicyPath [(''b'', JStr ''x''), (''c'', JNull)] ''c''"
  by (rule pruneInvisiblePolicyFields_frame) code_simp

text \<open>
  Moving an item up or down permutes the list and is undone by the opposite move of the
  item's new position; a move off either end changes nothing.
\<close>

lemma moveItem_permutes:
  "mset (moveItem items index direction) = mset items
     \<and> moveItem (moveItem items index direction) (index + direction) (- direction) = items"
proof -
  have "mset (moveItem items index direction) = mset items"
    by (auto simp: moveItem_def Let_def mset_swap nat_less_iff)
  moreover have "moveItem (moveItem items index direction) (index + direction) (- direction) = items"
    by (auto simp: moveItem_def Let_def intro!: nth_equalityI) (auto simp: nth_list_update)
  ultimately show ?thesis ..
qed

text \<open>
  Grouping by section loses and reorders no field: the groups concatenate to the list,
  every group is non-empty and of one section, and neighbouring groups differ in section.
\<close>

lemma groupPolicyFieldsBySection_partition:
  "concat (map snd (groupPolicyFieldsBySection specs)) = specs
     \<and> groups_ok pf_section (groupPolicyFieldsBySection specs)"
  using foldl_groups [of pf_section "[]" specs] by (simp add: groupPolicyFieldsBySection_def groups_ok_def)

text \<open>
  The tags offered by a reference selector are exactly the non-empty string tags of the
  objects in the list, without the current one, each once.
\<close>

lemma policyConfigTags_exact:
  "distinct (policyConfigTags items cur)
     \<and> set (policyConfigTags items cur)
       = {tag. tag \<noteq> [] \<and> Some tag \<noteq> cur
             \<and> (\<exists>vs c. items = Some (JArr vs) \<and> JObj c \<in> set vs \<and> obj_get c ''tag'' = Some (JStr tag))}"
proof (cases "\<exists>vs. items = Some (JArr vs)")
  case False
  then show ?thesis by (auto simp: policyConfigTags_def split: option.splits json.splits)
next
  case True
  then obtain vs where vs: "items = Some (JArr vs)" by blast
  have item: "t \<in> set (case item of
            JObj c \<Rightarrow> (case obj_get c ''tag'' of
                Some (JStr tag) \<Rightarrow> if tag \<noteq> [] \<and> Some tag \<noteq> cur then [tag] else []
              | _ \<Rightarrow> [])
          | _ \<Rightarrow> []) \<longleftrightarrow> (\<exists>c. item = JObj c \<and> obj_get c ''tag'' = Some (JStr t) \<and> t \<noteq> [] \<and> Some t \<noteq> cur)" for t item
    by (cases item) (auto split: option.splits json.splits)
  show ?thesis unfolding vs policyConfigTags_def by (auto simp: item)
qed

end
