(* ===== verification/Policy_Number.thy ===== *)
theory Policy_Number
  imports Policy_Form
begin

text \<open>
  From typed text to configuration values: \<open>features/policy/policy-number-transform.ts\<close>,
  \<open>policy-field-update.ts\<close> and \<open>route-form-transform.ts\<close>. A transform answers
  \<open>undefined\<close> (not its field), \<open>null\<close> (rejected input) or the updated object.
\<close>

datatype transform_result = Unhandled | Rejected | Updated jobj

type_synonym policy_transform = "jobj \<Rightarrow> policy_field \<Rightarrow> string \<Rightarrow> transform_result"

subsection \<open>Constraints\<close>

datatype constraint_kind = IntegerC | IntegerListC | MarkC

record number_constraint =
  pn_kind :: constraint_kind
  pn_maximum :: int
  pn_allowed :: "int list option"
  pn_fieldKind :: "policy_kind option"

definition nconstraint :: "constraint_kind \<Rightarrow> int \<Rightarrow> number_constraint" where
  "nconstraint k m = \<lparr>pn_kind = k, pn_maximum = m, pn_allowed = None, pn_fieldKind = None\<rparr>"

text \<open>\<open>split(/[\n,]/)\<close>, trimmed, without the empty tokens.\<close>

definition is_list_sep :: "char \<Rightarrow> bool" where
  "is_list_sep c \<longleftrightarrow> c = CHR 0x0A \<or> c = CHR '',''"

definition list_tokens :: "string \<Rightarrow> string list" where
  "list_tokens raw = filter (\<lambda>t. t \<noteq> []) (map js_trim (js_split is_list_sep raw))"

subsection \<open>Integers\<close>

definition decimalInteger :: "string \<Rightarrow> number_constraint \<Rightarrow> jsnum option" where
  "decimalInteger raw c =
     (if \<not> all_digits raw then None
      else let value = string_to_number raw
           in if \<not> num_isSafeInteger value \<or> num_lt (Fin (of_int (pn_maximum c))) value then None
              else case pn_allowed c of None \<Rightarrow> Some value
                | Some allowed \<Rightarrow> if list_ex (\<lambda>n. num_same_value_zero (Fin (of_int n)) value) allowed
                    then Some value else None)"

definition integerList :: "string \<Rightarrow> number_constraint \<Rightarrow> jsnum list option" where
  "integerList raw c =
     (let tokens = list_tokens raw
      in if tokens = [] then Some []
         else let values = map (\<lambda>t. decimalInteger t c) tokens
              in if list_ex (\<lambda>v. v = None) values then None else Some (map the values))"

definition is_octal :: "char \<Rightarrow> bool" where
  "is_octal c \<longleftrightarrow> 48 \<le> code_of c \<and> code_of c \<le> 55"

definition is_binary :: "char \<Rightarrow> bool" where
  "is_binary c \<longleftrightarrow> c = CHR ''0'' \<or> c = CHR ''1''"

text \<open>The test \<open>/^0(?:[xX][\da-fA-F]+|[bB][01]+|[oO][0-7]+)$/\<close>.\<close>

fun mark_syntax :: "string \<Rightarrow> bool" where
  "mark_syntax (z # x # d # ds) \<longleftrightarrow> z = CHR ''0'' \<and>
     (x \<in> {CHR ''x'', CHR ''X''} \<and> list_all is_hex (d # ds)
      \<or> x \<in> {CHR ''b'', CHR ''B''} \<and> list_all is_binary (d # ds)
      \<or> x \<in> {CHR ''o'', CHR ''O''} \<and> list_all is_octal (d # ds))"
| "mark_syntax _ \<longleftrightarrow> False"

definition stringMark :: "string \<Rightarrow> int \<Rightarrow> bool" where
  "stringMark raw maximum =
     (let normalized = (case raw of z # d # ds \<Rightarrow>
            if z = CHR ''0'' \<and> list_all is_octal (d # ds) then ''0o'' @ d # ds else raw | _ \<Rightarrow> raw)
      in if \<not> mark_syntax normalized then False
         else case radix_value normalized of Some v \<Rightarrow> v \<le> maximum | None \<Rightarrow> False)"

definition createPolicyNumberTransform :: "(string \<times> number_constraint) list \<Rightarrow> policy_transform" where
  "createPolicyNumberTransform constraints ob field raw =
     (case map_of constraints (pf_path field) of
        None \<Rightarrow> Unhandled
      | Some c \<Rightarrow>
          if pn_fieldKind c \<noteq> None \<and> pn_fieldKind c \<noteq> pf_kind field then Unhandled
          else let token = js_trim raw
               in if token = [] then Updated (setPolicyPath ob (pf_path field) None)
                  else if pn_kind c = MarkC \<and> stringMark token (pn_maximum c)
                    then Updated (setPolicyPath ob (pf_path field) (Some (JStr token)))
                  else if pn_kind c = IntegerListC
                    then (case integerList raw c of None \<Rightarrow> Rejected
                      | Some values \<Rightarrow> Updated (setPolicyPath ob (pf_path field) (Some (JArr (map JNum values)))))
                  else (case decimalInteger token c of None \<Rightarrow> Rejected
                      | Some value \<Rightarrow> Updated (setPolicyPath ob (pf_path field) (Some (JNum value)))))"

subsection \<open>The default update\<close>

definition parseList :: "string \<Rightarrow> string list option" where
  "parseList raw = (let values = list_tokens raw in if length values > 0 then Some values else None)"

definition defaultPolicyFieldUpdate :: "jobj \<Rightarrow> policy_field \<Rightarrow> string \<Rightarrow> jobj option" where
  "defaultPolicyFieldUpdate ob field raw =
     (if pf_kind field = Some PList
        then Some (setPolicyPath ob (pf_path field) (map_option (JArr \<circ> map JStr) (parseList raw)))
      else if pf_kind field = Some PNumberList
        then (case parseList raw of None \<Rightarrow> Some (setPolicyPath ob (pf_path field) None)
          | Some values \<Rightarrow> let numbers = map string_to_number values
              in if list_all num_isFinite numbers
                 then Some (setPolicyPath ob (pf_path field) (Some (JArr (map JNum numbers)))) else None)
      else if pf_kind field = Some PNumber
        then (if raw = [] then Some (setPolicyPath ob (pf_path field) None)
          else let number = string_to_number raw
            in if num_isFinite number then Some (setPolicyPath ob (pf_path field) (Some (JNum number))) else None)
      else Some (setPolicyPath ob (pf_path field) (if raw = [] then None else Some (JStr raw))))"

subsection \<open>The constraints of the route page\<close>

definition uint16 :: int where "uint16 = 0xFFFF"
definition int32 :: int where "int32 = 0x7FFFFFFF"
definition uint32 :: int where "uint32 = 0xFFFFFFFF"

definition routeNumberConstraints :: "(string \<times> number_constraint) list" where
  "routeNumberConstraints =
     [(''ip_version'', (nconstraint IntegerC 6)\<lparr>pn_allowed := Some [4, 6]\<rparr>),
      (''source_port'', nconstraint IntegerListC uint16),
      (''port'', nconstraint IntegerListC uint16),
      (''user_id'', nconstraint IntegerListC int32),
      (''override_port'', nconstraint IntegerC uint16),
      (''fallback_delay'', (nconstraint IntegerC uint32)\<lparr>pn_fieldKind := Some PNumber\<rparr>),
      (''rewrite_ttl'', nconstraint IntegerC uint32),
      (''default_domain_resolver.rewrite_ttl'', nconstraint IntegerC uint32),
      (''domain_resolver.rewrite_ttl'', nconstraint IntegerC uint32),
      (''default_mark'', nconstraint MarkC uint32),
      (''routing_mark'', nconstraint MarkC uint32)]"

definition transformRouteField :: policy_transform where
  "transformRouteField = createPolicyNumberTransform routeNumberConstraints"

subsection \<open>What the parsers accept\<close>

lemma num_lt_Fin [simp]: "num_lt (Fin a) (Fin b) \<longleftrightarrow> a < b"
  by (auto simp: num_lt_def)

lemma decimalInteger_Some:
  "decimalInteger raw c = Some v \<longleftrightarrow>
     all_digits raw \<and> v = Fin (of_int (digits_value 10 digit_of raw))
     \<and> digits_value 10 digit_of raw \<le> min 9007199254740991 (pn_maximum c)
     \<and> (case pn_allowed c of None \<Rightarrow> True | Some as \<Rightarrow> digits_value 10 digit_of raw \<in> set as)"
proof (cases "all_digits raw")
  case False
  then show ?thesis by (simp add: decimalInteger_def)
next
  case True
  define n where "n = digits_value 10 digit_of raw"
  have n: "0 \<le> n" by (simp add: n_def digits_value_nonneg)
  have num: "string_to_number raw = round_double (of_int n)" using True by (simp add: string_to_number_digits n_def)
  show ?thesis
  proof (cases "n \<le> 9007199254740991")
    case False
    with n have "\<not> num_isSafeInteger (round_double (of_int n))" by (simp add: safe_round_double_iff)
    with False num show ?thesis by (simp add: decimalInteger_def n_def [symmetric])
  next
    case small: True
    with n have r: "string_to_number raw = Fin (of_int n)" by (simp add: num round_double_int)
    from small n have safe: "num_isSafeInteger (Fin (of_int n))" by (metis num r safe_round_double_iff)
    have mem: "list_ex (\<lambda>m. num_same_value_zero (Fin (of_int m)) (Fin (of_int n))) as \<longleftrightarrow> n \<in> set as" for as
      by (auto simp: list_ex_iff num_same_value_zero_def doubleton_eq_iff)
    have le: "num_lt (Fin (of_int (pn_maximum c))) (Fin (of_int n)) \<longleftrightarrow> \<not> n \<le> pn_maximum c"
      by simp linarith
    have "decimalInteger raw c = (if n \<le> pn_maximum c \<and> (case pn_allowed c of None \<Rightarrow> True | Some as \<Rightarrow> n \<in> set as)
        then Some (Fin (of_int n)) else None)"
      unfolding decimalInteger_def Let_def r le by (simp only: True safe mem simp_thms if_True if_False split: option.split) simp
    then show ?thesis
      unfolding n_def [symmetric] using True small by (simp only: min.bounded_iff) auto
  qed
qed

lemma decimalInteger_digits:
  assumes "0 \<le> n" and "n \<le> 9007199254740991" and "n \<le> pn_maximum c" and "pn_allowed c = None"
  shows "decimalInteger (number_to_string (Fin (of_int n))) c = Some (Fin (of_int n))"
  using assms
  by (simp add: decimalInteger_Some number_to_string_nat digits_of_digits digits_value_digits_of)

lemma list_tokens_props:
  assumes "t \<in> set (list_tokens raw)"
  shows "t \<noteq> []" "js_trim t = t" "\<forall>c\<in>set t. \<not> is_list_sep c"
  using assms set_js_trim js_split_no_sep by (force simp: list_tokens_def)+

text \<open>Text written with a separator and optional blanks reads back as the same tokens.\<close>

lemma list_tokens_join:
  assumes "\<forall>t\<in>set ts. t \<noteq> [] \<and> js_trim t = t \<and> (\<forall>c\<in>set t. \<not> is_list_sep c)" and "is_list_sep d"
  shows "list_tokens (js_join [d] ts) = ts"
proof (cases "ts = []")
  case True
  then show ?thesis by (simp add: list_tokens_def js_trim_def js_trimStart_def)
next
  case False
  with assms have "js_split is_list_sep (js_join [d] ts) = ts" by (intro js_split_join) auto
  moreover have "map js_trim ts = ts" using assms by (simp add: map_idI)
  moreover have "filter (\<lambda>t. t \<noteq> []) ts = ts" using assms by (simp add: filter_id_conv)
  ultimately show ?thesis by (simp add: list_tokens_def)
qed

lemma list_ex_None_map: "\<not> list_ex (\<lambda>v. v = None) (map f xs) \<Longrightarrow> map Some (map (the \<circ> f) xs) = map f xs"
  by (induction xs) auto

lemma integerList_Some:
  "integerList raw c = Some ns \<longleftrightarrow> map (\<lambda>t. decimalInteger t c) (list_tokens raw) = map Some ns"
proof (cases "list_ex (\<lambda>v. v = None) (map (\<lambda>t. decimalInteger t c) (list_tokens raw))")
  case True
  then have "None \<in> set (map (\<lambda>t. decimalInteger t c) (list_tokens raw))" by (auto simp: list_ex_iff)
  then have "map (\<lambda>t. decimalInteger t c) (list_tokens raw) \<noteq> map Some ns" by (metis None_notin_image_Some list.set_map)
  moreover have "list_tokens raw \<noteq> []" using True by auto
  ultimately show ?thesis using True by (simp add: integerList_def Let_def)
next
  case False
  have eq: "map Some (map (the \<circ> (\<lambda>t. decimalInteger t c)) (list_tokens raw))
      = map (\<lambda>t. decimalInteger t c) (list_tokens raw)"
    by (rule list_ex_None_map [OF False])
  have inj: "map Some xs = map Some ns \<longleftrightarrow> xs = ns" for xs :: "jsnum list"
    by (simp add: inj_map_eq_map)
  have res: "integerList raw c = Some (map (the \<circ> (\<lambda>t. decimalInteger t c)) (list_tokens raw))"
    using False by (auto simp: integerList_def Let_def)
  show ?thesis unfolding res eq [symmetric] inj by simp
qed

text \<open>What a constrained field may hold after an accepted edit.\<close>

definition number_in_range :: "number_constraint \<Rightarrow> jsnum \<Rightarrow> bool" where
  "number_in_range c v =
     (case v of Fin r \<Rightarrow> rat_is_int r \<and> 0 \<le> r \<and> r \<le> of_int (pn_maximum c)
          \<and> (case pn_allowed c of None \<Rightarrow> True | Some as \<Rightarrow> r \<in> set (map of_int as))
      | _ \<Rightarrow> False)"

definition number_field_ok :: "number_constraint \<Rightarrow> json option \<Rightarrow> bool" where
  "number_field_ok c v =
     (case v of None \<Rightarrow> True
      | Some (JNum n) \<Rightarrow> pn_kind c \<noteq> IntegerListC \<and> number_in_range c n
      | Some (JArr vs) \<Rightarrow> pn_kind c = IntegerListC
           \<and> list_all (\<lambda>x. case x of JNum n \<Rightarrow> number_in_range c n | _ \<Rightarrow> False) vs
      | Some (JStr s) \<Rightarrow> pn_kind c = MarkC \<and> stringMark s (pn_maximum c)
      | _ \<Rightarrow> False)"

lemma policy_rat_is_int_of_int [simp]: "rat_is_int (of_int n)"
  by (simp add: rat_is_int_def)

lemma decimalInteger_in_range: "decimalInteger raw c = Some v \<Longrightarrow> number_in_range c v"
  by (auto simp: decimalInteger_Some number_in_range_def digits_value_nonneg split: option.splits)

lemma integerList_in_range: "integerList raw c = Some ns \<Longrightarrow> list_all (number_in_range c) ns"
proof -
  assume "integerList raw c = Some ns"
  then have *: "map (\<lambda>t. decimalInteger t c) (list_tokens raw) = map Some ns" by (simp add: integerList_Some)
  have "number_in_range c n" if "n \<in> set ns" for n
  proof -
    from that have "Some n \<in> set (map Some ns)" by simp
    then have "Some n \<in> set (map (\<lambda>t. decimalInteger t c) (list_tokens raw))" by (simp only: *)
    then obtain t where "decimalInteger t c = Some n" by auto
    then show ?thesis by (rule decimalInteger_in_range)
  qed
  then show ?thesis by (simp add: list_all_iff)
qed

lemma transform_cases:
  assumes "createPolicyNumberTransform cs ob f raw = Updated ob'"
  obtains c v where "map_of cs (pf_path f) = Some c" and "number_field_ok c v"
    and "ob' = setPolicyPath ob (pf_path f) v"
proof -
  from assms obtain c where c: "map_of cs (pf_path f) = Some c"
    by (auto simp: createPolicyNumberTransform_def split: option.splits)
  let ?p = "pf_path f" and ?t = "js_trim raw"
  consider "ob' = setPolicyPath ob ?p None"
    | "pn_kind c = MarkC" "stringMark ?t (pn_maximum c)" "ob' = setPolicyPath ob ?p (Some (JStr ?t))"
    | ns where "pn_kind c = IntegerListC" "integerList raw c = Some ns"
        "ob' = setPolicyPath ob ?p (Some (JArr (map JNum ns)))"
    | n where "pn_kind c \<noteq> IntegerListC" "decimalInteger ?t c = Some n"
        "ob' = setPolicyPath ob ?p (Some (JNum n))"
    using assms c by (simp add: createPolicyNumberTransform_def Let_def split: option.split_asm if_split_asm)
  then show ?thesis
  proof cases
    case 1
    with c that [of c None] show ?thesis by (simp add: number_field_ok_def)
  next
    case 2
    with c that [of c "Some (JStr ?t)"] show ?thesis by (simp add: number_field_ok_def)
  next
    case 3
    with c that [of c "Some (JArr (map JNum ns))"] integerList_in_range [of raw c ns] show ?thesis
      by (simp add: number_field_ok_def list_all_iff)
  next
    case 4
    with c that [of c "Some (JNum n)"] decimalInteger_in_range [of ?t c n] show ?thesis
      by (simp add: number_field_ok_def)
  qed
qed

subsection \<open>Properties\<close>

text \<open>
  C15: An integer is accepted exactly when it is written with decimal digits only and its value
  is within the constraint's maximum, the safe integers and, where they are listed, the allowed
  values; the value stored is the one written, with no rounding.
\<close>

theorem decimalInteger_exact:
  "decimalInteger raw c = Some v \<longleftrightarrow>
     all_digits raw \<and> v = Fin (of_int (digits_value 10 digit_of raw))
     \<and> digits_value 10 digit_of raw \<le> min 9007199254740991 (pn_maximum c)
     \<and> (case pn_allowed c of None \<Rightarrow> True | Some as \<Rightarrow> digits_value 10 digit_of raw \<in> set as)"
  by (rule decimalInteger_Some)

text \<open>A number in range survives being shown in the field and typed again.\<close>

lemma decimalInteger_roundtrip:
  assumes "0 \<le> n" and "n \<le> 9007199254740991" and "n \<le> pn_maximum c" and "pn_allowed c = None"
  shows "decimalInteger (number_to_string (Fin (of_int n))) c = Some (Fin (of_int n))"
  using assms by (rule decimalInteger_digits)

lemma decimalInteger_roundtrip_witness:
  "decimalInteger (number_to_string (Fin (of_int 65535))) (nconstraint IntegerC uint16) = Some (Fin (of_int 65535))"
  by (rule decimalInteger_roundtrip) (simp_all add: nconstraint_def uint16_def)

text \<open>
  An accepted edit of a constrained field stores nothing but a value in range: nothing, an
  integer (or, for a list, only integers) between 0 and the maximum and among the allowed ones,
  or, for a mark, a hexadecimal, octal or binary literal within the maximum; every independent
  path is untouched.
\<close>

lemma createPolicyNumberTransform_sound:
  assumes "createPolicyNumberTransform cs ob f raw = Updated ob'" and "map_of cs (pf_path f) = Some c"
    and "path_indep (pf_path f) q"
  shows "number_field_ok c (getPolicyPath ob' (pf_path f)) \<and> getPolicyPath ob' q = getPolicyPath ob q"
  using assms(1)
proof (rule transform_cases)
  fix c' v assume "map_of cs (pf_path f) = Some c'" "number_field_ok c' v" "ob' = setPolicyPath ob (pf_path f) v"
  with assms(2,3) show ?thesis
    by (cases v) (simp_all add: policy.get_put policy.get_removed policy.get_put_indep)
qed

lemma createPolicyNumberTransform_sound_witness:
  "number_field_ok (nconstraint IntegerListC uint16)
     (getPolicyPath [(''port'', JArr [JNum (Fin 80), JNum (Fin 443)])] (pf_path (pfield ''port'' ''port'')))"
proof (rule createPolicyNumberTransform_sound [THEN conjunct1])
  show "createPolicyNumberTransform routeNumberConstraints [] (pfield ''port'' ''port'') ''80, 443''
      = Updated [(''port'', JArr [JNum (Fin 80), JNum (Fin 443)])]"
  proof -
    have ok: "decimalInteger ''80'' (nconstraint IntegerListC uint16) = Some (Fin (of_int 80))"
      "decimalInteger ''443'' (nconstraint IntegerListC uint16) = Some (Fin (of_int 443))"
      unfolding decimalInteger_Some by code_simp+
    have "list_tokens ''80, 443'' = [''80'', ''443'']" by code_simp
    then have "integerList ''80, 443'' (nconstraint IntegerListC uint16) = Some [Fin 80, Fin 443]"
      by (simp add: integerList_Some ok)
    moreover have "js_trim ''80, 443'' \<noteq> []" "path_keys ''port'' = [''port'']" by code_simp+
    ultimately show ?thesis
      by (simp add: createPolicyNumberTransform_def routeNumberConstraints_def nconstraint_def setPolicyPath_single obj_set_def)
  qed
  show "map_of routeNumberConstraints (pf_path (pfield ''port'' ''port'')) = Some (nconstraint IntegerListC uint16)"
    by code_simp
  show "path_indep (pf_path (pfield ''port'' ''port'')) ''tag''" by code_simp
qed

end
