(* ===== verification/Dns_Cleanup.thy ===== *)
theory Dns_Cleanup
  imports Policy_Form
begin

text \<open>
  The clean-up of DNS objects when their type or action changes,
  \<open>features/policy/dns-form-cleanup.ts\<close>: the tables of every field the configuration format
  knows, with the values each may hold, and the transition that keeps the fields the new type
  shares with the old one and removes the other known fields.
\<close>

datatype cleanup_kind = CString | CBoolean | CNumber | CList | CNumberList | CJsonObject | CJsonArray
  | CQueryType | CRcode | CRoutingMark

record cleanup_field =
  cf_path :: string
  cf_kind :: "cleanup_kind option"

definition cfield :: "string \<Rightarrow> cleanup_field" where
  "cfield p = \<lparr>cf_path = p, cf_kind = None\<rparr>"

definition cfield_of :: "string \<Rightarrow> cleanup_kind \<Rightarrow> cleanup_field" where
  "cfield_of p k = \<lparr>cf_path = p, cf_kind = Some k\<rparr>"

lemma cfield_simps [simp]:
  "cf_path (cfield p) = p" "cf_kind (cfield p) = None"
  "cf_path (cfield_of p k) = p" "cf_kind (cfield_of p k) = Some k"
  by (simp_all add: cfield_def cfield_of_def)

subsection \<open>Tables\<close>

definition cleanup_domainResolverFields :: "cleanup_field list" where
  "cleanup_domainResolverFields =
     [cfield ''domain_resolver.server'', cfield ''domain_resolver.strategy'',
      cfield_of ''domain_resolver.disable_cache'' CBoolean,
      cfield_of ''domain_resolver.rewrite_ttl'' CNumber, cfield ''domain_resolver.client_subnet'']"

definition cleanup_dialerFields :: "cleanup_field list" where
  "cleanup_dialerFields =
     [cfield ''detour'', cfield ''bind_interface'', cfield ''inet4_bind_address'',
      cfield ''inet6_bind_address'', cfield_of ''bind_address_no_port'' CBoolean,
      cfield ''protect_path'', cfield_of ''routing_mark'' CRoutingMark,
      cfield_of ''reuse_addr'' CBoolean, cfield ''netns'', cfield ''connect_timeout'',
      cfield_of ''tcp_fast_open'' CBoolean, cfield_of ''tcp_multi_path'' CBoolean,
      cfield_of ''disable_tcp_keep_alive'' CBoolean, cfield ''tcp_keep_alive'',
      cfield ''tcp_keep_alive_interval'', cfield_of ''udp_fragment'' CBoolean] @
     cleanup_domainResolverFields @
     [cfield ''network_strategy'', cfield_of ''network_type'' CList,
      cfield_of ''fallback_network_type'' CList, cfield ''fallback_delay'',
      cfield ''domain_strategy'']"

definition cleanup_remoteFields :: "cleanup_field list" where
  "cleanup_remoteFields =
     [cfield ''server'', cfield_of ''server_port'' CNumber] @ cleanup_dialerFields"

definition cleanup_tlsFields :: "cleanup_field list" where
  "cleanup_tlsFields =
     [cfield_of ''tls.enabled'' CBoolean, cfield_of ''tls.disable_sni'' CBoolean,
      cfield ''tls.server_name'', cfield_of ''tls.insecure'' CBoolean,
      cfield_of ''tls.alpn'' CList, cfield ''tls.min_version'', cfield ''tls.max_version'',
      cfield_of ''tls.cipher_suites'' CList, cfield_of ''tls.curve_preferences'' CList,
      cfield_of ''tls.certificate'' CList, cfield ''tls.certificate_path'',
      cfield_of ''tls.certificate_public_key_sha256'' CList,
      cfield_of ''tls.client_certificate'' CList, cfield ''tls.client_certificate_path'',
      cfield_of ''tls.client_key'' CList, cfield ''tls.client_key_path'',
      cfield_of ''tls.fragment'' CBoolean, cfield ''tls.fragment_fallback_delay'',
      cfield_of ''tls.record_fragment'' CBoolean, cfield_of ''tls.kernel_tx'' CBoolean,
      cfield_of ''tls.kernel_rx'' CBoolean, cfield_of ''tls.ech.enabled'' CBoolean,
      cfield_of ''tls.ech.config'' CList, cfield ''tls.ech.config_path'',
      cfield ''tls.ech.query_server_name'',
      cfield_of ''tls.ech.pq_signature_schemes_enabled'' CBoolean,
      cfield_of ''tls.ech.dynamic_record_sizing_disabled'' CBoolean,
      cfield_of ''tls.utls.enabled'' CBoolean, cfield ''tls.utls.fingerprint'',
      cfield_of ''tls.reality.enabled'' CBoolean, cfield ''tls.reality.public_key'',
      cfield ''tls.reality.short_id'']"

definition cleanup_legacyFields :: "cleanup_field list" where
  "cleanup_legacyFields =
     [cfield ''address'', cfield ''address_resolver'', cfield ''address_strategy'',
      cfield ''address_fallback_delay'', cfield ''strategy'', cfield ''detour'',
      cfield ''client_subnet'']"

definition cleanup_localFields :: "cleanup_field list" where
  "cleanup_localFields =
     cleanup_dialerFields @ [cfield_of ''prefer_go'' CBoolean]"

definition cleanup_httpsFields :: "cleanup_field list" where
  "cleanup_httpsFields =
     cleanup_remoteFields @
     cleanup_tlsFields @
     [cfield ''path'', cfield ''method'', cfield_of ''headers'' CJsonObject]"

definition dnsServerCleanupFields :: "cleanup_field registry" where
  "dnsServerCleanupFields =
     [(''legacy'', cleanup_legacyFields),
      (''local'', cleanup_localFields),
      (''hosts'', [cfield_of ''path'' CList, cfield_of ''predefined'' CJsonObject]),
      (''udp'', cleanup_remoteFields),
      (''tcp'', cleanup_remoteFields),
      (''tls'', cleanup_remoteFields @ cleanup_tlsFields),
      (''quic'', cleanup_remoteFields @ cleanup_tlsFields),
      (''https'', cleanup_httpsFields),
      (''h3'', cleanup_httpsFields),
      (''dhcp'', cleanup_localFields @ [cfield ''interface'']),
      (''fakeip'', [cfield ''inet4_range'', cfield ''inet6_range''])]"

definition cleanup_defaultRuleFields :: "cleanup_field list" where
  "cleanup_defaultRuleFields =
     [cfield_of ''inbound'' CList, cfield_of ''ip_version'' CNumber,
      cfield_of ''query_type'' CQueryType, cfield_of ''network'' CList,
      cfield_of ''auth_user'' CList, cfield_of ''protocol'' CList, cfield_of ''domain'' CList,
      cfield_of ''domain_suffix'' CList, cfield_of ''domain_keyword'' CList,
      cfield_of ''domain_regex'' CList, cfield_of ''geosite'' CList,
      cfield_of ''source_geoip'' CList, cfield_of ''geoip'' CList, cfield_of ''ip_cidr'' CList,
      cfield_of ''ip_is_private'' CBoolean, cfield_of ''ip_accept_any'' CBoolean,
      cfield_of ''source_ip_cidr'' CList, cfield_of ''source_ip_is_private'' CBoolean,
      cfield_of ''source_port'' CNumberList, cfield_of ''source_port_range'' CList,
      cfield_of ''port'' CNumberList, cfield_of ''port_range'' CList,
      cfield_of ''process_name'' CList, cfield_of ''process_path'' CList,
      cfield_of ''process_path_regex'' CList, cfield_of ''package_name'' CList,
      cfield_of ''user'' CList, cfield_of ''user_id'' CNumberList, cfield_of ''outbound'' CList,
      cfield ''clash_mode'', cfield_of ''network_type'' CList,
      cfield_of ''network_is_expensive'' CBoolean, cfield_of ''network_is_constrained'' CBoolean,
      cfield_of ''wifi_ssid'' CList, cfield_of ''wifi_bssid'' CList,
      cfield_of ''interface_address'' CJsonObject,
      cfield_of ''network_interface_address'' CJsonObject,
      cfield_of ''default_interface_address'' CList, cfield_of ''rule_set'' CList,
      cfield_of ''rule_set_ip_cidr_match_source'' CBoolean,
      cfield_of ''rule_set_ip_cidr_accept_empty'' CBoolean,
      cfield_of ''rule_set_ipcidr_match_source'' CBoolean, cfield_of ''invert'' CBoolean]"

definition dnsRuleCleanupFields :: "cleanup_field registry" where
  "dnsRuleCleanupFields =
     [(''default'', cleanup_defaultRuleFields),
      (''logical'', [cfield ''mode'', cfield_of ''rules'' CJsonArray, cfield_of ''invert'' CBoolean])]"

definition dnsActionCleanupFields :: "cleanup_field registry" where
  "dnsActionCleanupFields =
     [(''route'',
         [cfield ''server'', cfield ''strategy'', cfield_of ''disable_cache'' CBoolean,
          cfield_of ''rewrite_ttl'' CNumber, cfield ''client_subnet'']),
      (''route-options'',
         [cfield ''strategy'', cfield_of ''disable_cache'' CBoolean,
          cfield_of ''rewrite_ttl'' CNumber, cfield ''client_subnet'']),
      (''reject'', [cfield ''method'', cfield_of ''no_drop'' CBoolean]),
      (''predefined'',
         [cfield_of ''rcode'' CRcode, cfield_of ''answer'' CList, cfield_of ''ns'' CList,
          cfield_of ''extra'' CList])]"

subsection \<open>The values a field may hold\<close>

definition validInteger :: "json \<Rightarrow> rat \<Rightarrow> bool" where
  "validInteger value maximum =
     (case value of JNum n \<Rightarrow> num_isFinite n \<and> num_isInteger n \<and> num_le (Fin 0) n \<and> num_le n (Fin maximum)
      | _ \<Rightarrow> False)"

definition is_string_list :: "json \<Rightarrow> bool" where
  "is_string_list v = (case v of JArr vs \<Rightarrow> list_all (\<lambda>x. is_str (Some x)) vs | _ \<Rightarrow> False)"

definition cleanup_matchesField :: "json \<Rightarrow> cleanup_field \<Rightarrow> bool" where
  "cleanup_matchesField value field =
     (case (case cf_kind field of None \<Rightarrow> CString | Some k \<Rightarrow> k) of
        CQueryType \<Rightarrow> (let valid = (\<lambda>item. is_str (Some item) \<or> validInteger item 0xFFFF)
          in valid value \<or> (case value of JArr vs \<Rightarrow> list_all valid vs | _ \<Rightarrow> False))
      | CRcode \<Rightarrow> is_str (Some value) \<or> validInteger value 0xFFF
      | CRoutingMark \<Rightarrow> is_str (Some value) \<or> validInteger value 0xFFFFFFFF
      | CBoolean \<Rightarrow> is_bool (Some value)
      | CNumber \<Rightarrow> validInteger value max_safe
      | CList \<Rightarrow> is_str (Some value) \<or> is_string_list value
      | CNumberList \<Rightarrow> validInteger value max_safe
          \<or> (case value of JArr vs \<Rightarrow> list_all (\<lambda>item. validInteger item max_safe) vs | _ \<Rightarrow> False)
      | CJsonObject \<Rightarrow> is_obj (Some value)
      | CJsonArray \<Rightarrow> is_arr (Some value)
      | CString \<Rightarrow> is_str (Some value))"

subsection \<open>The transition\<close>

definition cleanup_uniqueFields :: "cleanup_field registry \<Rightarrow> cleanup_field list" where
  "cleanup_uniqueFields registry = first_by cf_path (concat (registry_values registry))"

record cleanup_transition =
  ct_current :: string
  ct_target :: string
  ct_share :: bool

definition cleanup_compatibleFields :: "cleanup_field registry \<Rightarrow> cleanup_transition \<Rightarrow> cleanup_field list res" where
  "cleanup_compatibleFields registry change =
     (if \<not> ct_share change then Inr []
      else bind_res (registry_get registry (ct_target change)) (\<lambda>target.
        case map_of registry (ct_current change) of
          None \<Rightarrow> Inr target
        | Some source \<Rightarrow> Inr (filter (\<lambda>field. list_ex (\<lambda>s. cf_path s = cf_path field \<and> cf_kind s = cf_kind field) source) target)))"

definition supportsDomainResolver :: "cleanup_field registry \<Rightarrow> string \<Rightarrow> bool res" where
  "supportsDomainResolver registry type =
     bind_res (registry_get registry type) (\<lambda>fs.
       Inr (list_ex (\<lambda>field. js_startsWith ''domain_resolver.'' (cf_path field)) fs))"

text \<open>Over the registry's own keys the lookup cannot fail.\<close>

definition prepareDomainResolverRoot :: "jobj \<Rightarrow> cleanup_field registry \<Rightarrow> cleanup_transition \<Rightarrow> jobj res" where
  "prepareDomainResolverRoot ob registry change =
     (if \<not> list_ex (\<lambda>type. supportsDomainResolver registry type = Inr True) (map fst registry) then Inr ob
      else case obj_get ob ''domain_resolver'' of
          None \<Rightarrow> Inr ob
        | Some (JObj c) \<Rightarrow> Inr ob
        | Some (JStr s) \<Rightarrow> bind_res (supportsDomainResolver registry (ct_target change)) (\<lambda>ok.
            if ok then Inr ob else Inr (setPolicyPath ob ''domain_resolver'' None))
        | Some _ \<Rightarrow> Inr (setPolicyPath ob ''domain_resolver'' None))"

definition transitionCleanupFields :: "jobj \<Rightarrow> cleanup_field registry \<Rightarrow> cleanup_transition \<Rightarrow> jobj res" where
  "transitionCleanupFields ob registry change =
     bind_res (cleanup_compatibleFields registry change) (\<lambda>fs.
     bind_res (prepareDomainResolverRoot ob registry change) (\<lambda>prepared.
       Inr (foldl (\<lambda>next field.
              case getPolicyPath next (cf_path field) of
                None \<Rightarrow> next
              | Some value \<Rightarrow> (case last_by cf_path fs (cf_path field) of
                    Some target \<Rightarrow> if cleanup_matchesField value target then next
                      else setPolicyPath next (cf_path field) None
                  | None \<Rightarrow> setPolicyPath next (cf_path field) None))
            prepared (cleanup_uniqueFields registry))))"

subsection \<open>What the transition keeps\<close>

definition cleanup_keep :: "cleanup_field list \<Rightarrow> string \<Rightarrow> json option \<Rightarrow> bool" where
  "cleanup_keep fs p v =
     (case v of None \<Rightarrow> True
      | Some value \<Rightarrow> (case last_by cf_path fs p of None \<Rightarrow> False | Some target \<Rightarrow> cleanup_matchesField value target))"

lemma transition_keep_paths:
  "transitionCleanupFields ob registry change =
     bind_res (cleanup_compatibleFields registry change) (\<lambda>fs.
     bind_res (prepareDomainResolverRoot ob registry change) (\<lambda>prepared.
       Inr (keep_paths_with getPolicyPath setPolicyPath (cleanup_keep fs) prepared
              (map cf_path (cleanup_uniqueFields registry)))))"
proof -
  have step: "(case getPolicyPath nxt (cf_path field) of
                None \<Rightarrow> nxt
              | Some value \<Rightarrow> (case last_by cf_path fs (cf_path field) of
                    Some target \<Rightarrow> if cleanup_matchesField value target then nxt
                      else setPolicyPath nxt (cf_path field) None
                  | None \<Rightarrow> setPolicyPath nxt (cf_path field) None))
     = (if cleanup_keep fs (cf_path field) (getPolicyPath nxt (cf_path field)) then nxt
        else setPolicyPath nxt (cf_path field) None)" for nxt field fs
    by (simp add: cleanup_keep_def split: option.split)
  show ?thesis
    unfolding transitionCleanupFields_def step keep_paths_with_def foldl_map ..
qed

text \<open>The root of the resolver is dropped only where it is not an object.\<close>

lemma prepare_cases:
  assumes "prepareDomainResolverRoot ob registry change = Inr prepared"
  shows "prepared = ob \<or> (prepared = setPolicyPath ob ''domain_resolver'' None
           \<and> \<not> is_obj (obj_get ob ''domain_resolver''))"
  using assms
  by (auto simp: prepareDomainResolverRoot_def bind_res_eq_Inr split: if_splits option.splits json.splits)

lemma getPolicyPath_hidden:
  assumes "path_keys p = k # ks" and "ks \<noteq> []" and "\<not> is_obj (obj_get ob k)"
  shows "getPolicyPath ob p = None"
  using assms by (auto simp: getPolicyPath_keys get_keys_Cons child_obj_def split: option.splits json.splits)

lemma prepare_get:
  assumes "prepareDomainResolverRoot ob registry change = Inr prepared"
    and "p \<noteq> ''domain_resolver''"
  shows "getPolicyPath prepared p = getPolicyPath ob p"
proof (cases "path_indep ''domain_resolver'' p")
  case True
  with prepare_cases [OF assms(1)] show ?thesis by (auto simp: policy.get_put_indep)
next
  case False
  have dr: "path_keys ''domain_resolver'' = [''domain_resolver'']" by code_simp
  obtain k ks where kp: "path_keys p = k # ks" by (cases "path_keys p") auto
  with False dr have k: "k = ''domain_resolver''" by (auto simp: path_indep_def)
  have ks: "ks \<noteq> []" using assms(2) kp k dr path_keys_inj by metis
  show ?thesis
  proof (cases "is_obj (obj_get ob k)")
    case True
    with prepare_cases [OF assms(1)] k show ?thesis by auto
  next
    case no: False
    then have "getPolicyPath ob p = None" using kp ks by (rule getPolicyPath_hidden [rotated 2])
    moreover from this have "getPolicyPath prepared p = None"
      using prepare_cases [OF assms(1)] policy.removed_mono by auto
    ultimately show ?thesis by simp
  qed
qed

lemma transition_get:
  assumes "transitionCleanupFields ob registry change = Inr ob'"
    and "cleanup_compatibleFields registry change = Inr fs"
    and compat: "paths_compat (map cf_path (concat (registry_values registry)))"
    and "p \<in> cf_path ` set (concat (registry_values registry))"
    and "p \<noteq> ''domain_resolver''"
  shows "getPolicyPath ob' p = (if cleanup_keep fs p (getPolicyPath ob p) then getPolicyPath ob p else None)"
proof -
  let ?ps = "map cf_path (cleanup_uniqueFields registry)"
  from assms(1,2) obtain prepared where prep: "prepareDomainResolverRoot ob registry change = Inr prepared"
    and ob': "ob' = keep_paths_with getPolicyPath setPolicyPath (cleanup_keep fs) prepared ?ps"
    by (auto simp: transition_keep_paths bind_res_eq_Inr)
  have "set ?ps = set (map cf_path (concat (registry_values registry)))"
    unfolding cleanup_uniqueFields_def by (simp only: set_map_first_by)
  with compat assms(4) have "paths_indep ?ps" "p \<in> set ?ps"
    unfolding cleanup_uniqueFields_def
    by (auto intro!: paths_compat_indep distinct_first_by elim!: paths_compat_subset)
  from policy.keep_paths_value [OF this, of "cleanup_keep fs" prepared]
  show ?thesis unfolding ob' prepare_get [OF prep assms(5)] .
qed

lemma transition_frame:
  assumes "transitionCleanupFields ob registry change = Inr ob'"
    and "\<forall>p\<in>cf_path ` set (concat (registry_values registry)). path_indep p q"
    and "q \<noteq> ''domain_resolver''"
  shows "getPolicyPath ob' q = getPolicyPath ob q"
proof -
  let ?ps = "map cf_path (cleanup_uniqueFields registry)"
  from assms(1) obtain fs prepared where prep: "prepareDomainResolverRoot ob registry change = Inr prepared"
    and ob': "ob' = keep_paths_with getPolicyPath setPolicyPath (cleanup_keep fs) prepared ?ps"
    by (auto simp: transition_keep_paths bind_res_eq_Inr)
  have "set ?ps = set (map cf_path (concat (registry_values registry)))"
    unfolding cleanup_uniqueFields_def by (simp only: set_map_first_by)
  with assms(2) have "\<forall>p\<in>set ?ps. path_indep p q" by auto
  then show ?thesis unfolding ob' by (simp add: policy.keep_paths_indep prepare_get [OF prep assms(3)])
qed

lemma transition_error:
  "transitionCleanupFields ob registry change = Inl e \<Longrightarrow>
     map_of registry (ct_target change) = None \<and> ct_target change \<in> set objectPrototypeKeys"
  by (auto simp: transitionCleanupFields_def cleanup_compatibleFields_def prepareDomainResolverRoot_def
      supportsDomainResolver_def registry_get_def bind_res_def
      split: if_splits option.splits json.splits sum.splits)

subsection \<open>The tables\<close>

lemma cleanup_server_compat [table_facts]:
  "paths_compat (map cf_path (concat (registry_values dnsServerCleanupFields)))"
proof -
  let ?base = "[cfield ''path'', cfield ''predefined'', cfield ''prefer_go'', cfield ''method'', cfield ''headers'',
      cfield ''interface'', cfield ''inet4_range'', cfield ''inet6_range'']
    @ cleanup_legacyFields @ cleanup_remoteFields @ cleanup_tlsFields"
  have "paths_compat (map cf_path ?base)"
    by (rule paths_compat_keys [where n = 4]) code_simp
  then show ?thesis
    by (rule paths_compat_subset)
       (simp add: registry_values_def dnsServerCleanupFields_def cleanup_localFields_def cleanup_httpsFields_def
          cleanup_remoteFields_def, blast)
qed

lemma cleanup_rule_compat [table_facts]:
  "paths_compat (map cf_path (concat (registry_values dnsRuleCleanupFields)))"
  by (rule paths_compat_keys [where n = 2]) code_simp

lemma cleanup_action_compat [table_facts]:
  "paths_compat (map cf_path (concat (registry_values dnsActionCleanupFields)))"
  by (rule paths_compat_keys [where n = 2]) code_simp

end
