(* ===== verification/Policy_Tables.thy ===== *)
theory Policy_Tables
  imports Policy_Form
begin

text \<open>
  The field tables of the policy pages, in the order of the source:
  \<open>dns-form-server-fields.ts\<close>, \<open>dns-form-model.ts\<close> and \<open>route-form-model.ts\<close> of
  \<open>features/policy\<close>. A record of fields indexed by a type or an action is an association
  list in the order of its properties.
\<close>

subsection \<open>Fields of a DNS server\<close>

definition server_domainStrategies :: "string list" where
  "server_domainStrategies =
     [''prefer_ipv4'', ''prefer_ipv6'', ''ipv4_only'', ''ipv6_only'']"

definition server_networkStrategies :: "string list" where
  "server_networkStrategies =
     [''default'', ''fallback'', ''hybrid'']"

definition server_keepAliveOn :: "field_when" where
  "server_keepAliveOn = when_falsy ''disable_tcp_keep_alive''"

definition server_resolverOn :: "field_when" where
  "server_resolverOn = when_set ''domain_resolver.server''"

definition server_tlsOn :: "field_when" where
  "server_tlsOn = when_is ''tls.enabled'' (JBool True)"

definition server_domainResolverFields :: "policy_field list" where
  "server_domainResolverFields =
     [(pfield ''domain_resolver.server'' ''domainResolverServer'')\<lparr>pf_kind := Some PRef, pf_ref := Some RDnsServer, pf_section := Some ''resolver''\<rparr>,
      (pfield ''domain_resolver.strategy'' ''domainResolverStrategy'')\<lparr>pf_kind := Some PSelect, pf_options := Some server_domainStrategies, pf_section := Some ''resolver'', pf_when := Some (WhenOne server_resolverOn)\<rparr>,
      (pfield ''domain_resolver.disable_cache'' ''domainResolverDisableCache'')\<lparr>pf_kind := Some PBoolean, pf_section := Some ''resolver'', pf_when := Some (WhenOne server_resolverOn)\<rparr>,
      (pfield ''domain_resolver.rewrite_ttl'' ''domainResolverRewriteTTL'')\<lparr>pf_kind := Some PNumber, pf_section := Some ''resolver'', pf_when := Some (WhenOne server_resolverOn)\<rparr>,
      (pfield ''domain_resolver.client_subnet'' ''domainResolverClientSubnet'')\<lparr>pf_section := Some ''resolver'', pf_when := Some (WhenOne server_resolverOn)\<rparr>]"

definition server_dialerFields :: "policy_field list" where
  "server_dialerFields =
     [(pfield ''detour'' ''detour'')\<lparr>pf_kind := Some PRef, pf_ref := Some ROutbound, pf_section := Some ''bind''\<rparr>,
      (pfield ''bind_interface'' ''bindInterface'')\<lparr>pf_kind := Some PNetworkInterface, pf_section := Some ''bind''\<rparr>,
      (pfield ''inet4_bind_address'' ''inet4BindAddress'')\<lparr>pf_section := Some ''bind''\<rparr>,
      (pfield ''inet6_bind_address'' ''inet6BindAddress'')\<lparr>pf_section := Some ''bind''\<rparr>,
      (pfield ''bind_address_no_port'' ''bindAddressNoPort'')\<lparr>pf_kind := Some PBoolean, pf_section := Some ''bind''\<rparr>,
      (pfield ''protect_path'' ''protectPath'')\<lparr>pf_section := Some ''bind''\<rparr>,
      (pfield ''routing_mark'' ''routingMark'')\<lparr>pf_section := Some ''bind''\<rparr>,
      (pfield ''reuse_addr'' ''reuseAddress'')\<lparr>pf_kind := Some PBoolean, pf_section := Some ''bind''\<rparr>,
      (pfield ''netns'' ''networkNamespace'')\<lparr>pf_section := Some ''bind''\<rparr>,
      (pfield ''connect_timeout'' ''connectTimeout'')\<lparr>pf_section := Some ''tcp''\<rparr>,
      (pfield ''tcp_fast_open'' ''tcpFastOpen'')\<lparr>pf_kind := Some PBoolean, pf_section := Some ''tcp''\<rparr>,
      (pfield ''tcp_multi_path'' ''tcpMultiPath'')\<lparr>pf_kind := Some PBoolean, pf_section := Some ''tcp''\<rparr>,
      (pfield ''disable_tcp_keep_alive'' ''disableTCPKeepAlive'')\<lparr>pf_kind := Some PBoolean, pf_section := Some ''tcp''\<rparr>,
      (pfield ''tcp_keep_alive'' ''tcpKeepAlive'')\<lparr>pf_section := Some ''tcp'', pf_when := Some (WhenOne server_keepAliveOn)\<rparr>,
      (pfield ''tcp_keep_alive_interval'' ''tcpKeepAliveInterval'')\<lparr>pf_section := Some ''tcp'', pf_when := Some (WhenOne server_keepAliveOn)\<rparr>,
      (pfield ''udp_fragment'' ''udpFragment'')\<lparr>pf_kind := Some PBoolean, pf_section := Some ''udp''\<rparr>] @
     server_domainResolverFields @
     [(pfield ''network_strategy'' ''networkStrategy'')\<lparr>pf_kind := Some PSelect, pf_options := Some server_networkStrategies, pf_section := Some ''strategy''\<rparr>,
      (pfield ''network_type'' ''networkType'')\<lparr>pf_kind := Some PList, pf_section := Some ''strategy''\<rparr>,
      (pfield ''fallback_network_type'' ''fallbackNetworkType'')\<lparr>pf_kind := Some PList, pf_section := Some ''strategy''\<rparr>,
      (pfield ''fallback_delay'' ''fallbackDelay'')\<lparr>pf_section := Some ''strategy''\<rparr>]"

definition server_remoteFields :: "policy_field list" where
  "server_remoteFields =
     [(pfield ''server'' ''server'')\<lparr>pf_section := Some ''remote''\<rparr>,
      (pfield ''server_port'' ''serverPort'')\<lparr>pf_kind := Some PNumber, pf_section := Some ''remote''\<rparr>] @
     server_dialerFields"

definition server_tlsFields :: "policy_field list" where
  "server_tlsFields =
     [(pfield ''tls.enabled'' ''tlsEnabled'')\<lparr>pf_kind := Some PBoolean, pf_section := Some ''tls''\<rparr>,
      (pfield ''tls.disable_sni'' ''tlsDisableSNI'')\<lparr>pf_kind := Some PBoolean, pf_section := Some ''tls'', pf_when := Some (WhenOne server_tlsOn)\<rparr>,
      (pfield ''tls.server_name'' ''tlsServerName'')\<lparr>pf_section := Some ''tls'', pf_when := Some (WhenOne server_tlsOn)\<rparr>,
      (pfield ''tls.insecure'' ''tlsInsecure'')\<lparr>pf_kind := Some PBoolean, pf_section := Some ''tls'', pf_when := Some (WhenOne server_tlsOn)\<rparr>,
      (pfield ''tls.alpn'' ''tlsALPN'')\<lparr>pf_kind := Some PList, pf_section := Some ''tls'', pf_when := Some (WhenOne server_tlsOn)\<rparr>,
      (pfield ''tls.certificate'' ''tlsCertificate'')\<lparr>pf_kind := Some PList, pf_section := Some ''tls'', pf_when := Some (WhenOne server_tlsOn)\<rparr>,
      (pfield ''tls.certificate_path'' ''tlsCertificatePath'')\<lparr>pf_section := Some ''tls'', pf_when := Some (WhenOne server_tlsOn)\<rparr>]"

definition server_legacyFields :: "policy_field list" where
  "server_legacyFields =
     [(pfield ''address'' ''address'')\<lparr>pf_section := Some ''basic''\<rparr>,
      (pfield ''address_resolver'' ''addressResolver'')\<lparr>pf_kind := Some PRef, pf_ref := Some RDnsServer, pf_section := Some ''basic''\<rparr>,
      (pfield ''address_strategy'' ''addressStrategy'')\<lparr>pf_kind := Some PSelect, pf_options := Some server_domainStrategies, pf_section := Some ''basic''\<rparr>,
      (pfield ''address_fallback_delay'' ''addressFallbackDelay'')\<lparr>pf_section := Some ''basic''\<rparr>,
      (pfield ''strategy'' ''strategy'')\<lparr>pf_kind := Some PSelect, pf_options := Some server_domainStrategies, pf_section := Some ''basic''\<rparr>,
      (pfield ''detour'' ''detour'')\<lparr>pf_kind := Some PRef, pf_ref := Some ROutbound, pf_section := Some ''basic''\<rparr>,
      (pfield ''client_subnet'' ''clientSubnet'')\<lparr>pf_section := Some ''basic''\<rparr>]"

definition server_httpFields :: "policy_field list" where
  "server_httpFields =
     [(pfield ''path'' ''httpPath'')\<lparr>pf_section := Some ''http''\<rparr>,
      (pfield ''method'' ''method'')\<lparr>pf_section := Some ''http''\<rparr>,
      (pfield ''headers'' ''headers'')\<lparr>pf_kind := Some PJsonObject, pf_section := Some ''http''\<rparr>]"

definition dnsServerFields :: "policy_field registry" where
  "dnsServerFields =
     [(''legacy'', server_legacyFields),
      (''local'',
         server_dialerFields @
         [(pfield ''prefer_go'' ''preferGo'')\<lparr>pf_kind := Some PBoolean, pf_section := Some ''local''\<rparr>]),
      (''hosts'',
         [(pfield ''path'' ''path'')\<lparr>pf_kind := Some PList, pf_section := Some ''hosts''\<rparr>,
          (pfield ''predefined'' ''predefined'')\<lparr>pf_kind := Some PJsonObject, pf_section := Some ''hosts''\<rparr>]),
      (''udp'', server_remoteFields),
      (''tcp'', server_remoteFields),
      (''tls'', server_remoteFields @ server_tlsFields),
      (''quic'', server_remoteFields @ server_tlsFields),
      (''https'', server_remoteFields @ server_tlsFields @ server_httpFields),
      (''h3'', server_remoteFields @ server_tlsFields @ server_httpFields),
      (''dhcp'',
         server_dialerFields @
         [(pfield ''prefer_go'' ''preferGo'')\<lparr>pf_kind := Some PBoolean, pf_section := Some ''local''\<rparr>,
          (pfield ''interface'' ''interface'')\<lparr>pf_kind := Some PNetworkInterface, pf_section := Some ''local''\<rparr>]),
      (''fakeip'',
         [(pfield ''inet4_range'' ''fakeIPIPv4Range'')\<lparr>pf_section := Some ''fakeip''\<rparr>,
          (pfield ''inet6_range'' ''fakeIPIPv6Range'')\<lparr>pf_section := Some ''fakeip''\<rparr>])]"

subsection \<open>Fields of the DNS section\<close>

definition domainStrategies :: "string list" where
  "domainStrategies =
     [''prefer_ipv4'', ''prefer_ipv6'', ''ipv4_only'', ''ipv6_only'']"

definition dnsGlobalFields :: "policy_field list" where
  "dnsGlobalFields =
     [(pfield ''final'' ''final'')\<lparr>pf_kind := Some PRef, pf_ref := Some RDnsServer, pf_section := Some ''basic''\<rparr>,
      (pfield ''strategy'' ''strategy'')\<lparr>pf_kind := Some PSelect, pf_options := Some domainStrategies, pf_section := Some ''basic''\<rparr>,
      (pfield ''client_subnet'' ''clientSubnet'')\<lparr>pf_section := Some ''basic''\<rparr>,
      (pfield ''disable_cache'' ''disableCache'')\<lparr>pf_kind := Some PBoolean, pf_section := Some ''cache''\<rparr>,
      (pfield ''disable_expire'' ''disableExpire'')\<lparr>pf_kind := Some PBoolean, pf_section := Some ''cache''\<rparr>,
      (pfield ''independent_cache'' ''independentCache'')\<lparr>pf_kind := Some PBoolean, pf_section := Some ''cache''\<rparr>,
      (pfield ''cache_capacity'' ''cacheCapacity'')\<lparr>pf_kind := Some PNumber, pf_section := Some ''cache''\<rparr>,
      (pfield ''reverse_mapping'' ''reverseMapping'')\<lparr>pf_kind := Some PBoolean, pf_section := Some ''cache''\<rparr>]"

definition legacyFakeIPFields :: "policy_field list" where
  "legacyFakeIPFields =
     [(pfield ''fakeip.enabled'' ''fakeIPEnabled'')\<lparr>pf_kind := Some PBoolean, pf_section := Some ''fakeip''\<rparr>,
      (pfield ''fakeip.inet4_range'' ''fakeIPIPv4Range'')\<lparr>pf_section := Some ''fakeip'', pf_when := Some (WhenOne (when_is ''fakeip.enabled'' (JBool True)))\<rparr>,
      (pfield ''fakeip.inet6_range'' ''fakeIPIPv6Range'')\<lparr>pf_section := Some ''fakeip'', pf_when := Some (WhenOne (when_is ''fakeip.enabled'' (JBool True)))\<rparr>]"

definition dnsServerTypes :: "string list" where
  "dnsServerTypes =
     [''legacy'', ''local'', ''hosts'', ''udp'', ''tcp'', ''tls'', ''quic'', ''https'', ''h3'',
      ''dhcp'', ''fakeip'']"

definition dnsRuleMatchFields :: "policy_field list" where
  "dnsRuleMatchFields =
     [(pfield ''type'' ''type'')\<lparr>pf_kind := Some PSelect, pf_options := Some [''default'', ''logical''], pf_section := Some ''basic''\<rparr>,
      (pfield ''inbound'' ''inbound'')\<lparr>pf_kind := Some PRefMulti, pf_ref := Some RInbound, pf_section := Some ''basic''\<rparr>,
      (pfield ''ip_version'' ''ipVersion'')\<lparr>pf_kind := Some PSelect, pf_options := Some [''4'', ''6''], pf_section := Some ''basic''\<rparr>,
      (pfield ''query_type'' ''queryType'')\<lparr>pf_kind := Some PList, pf_section := Some ''basic''\<rparr>,
      (pfield ''network'' ''network'')\<lparr>pf_kind := Some PNetworkMulti, pf_section := Some ''basic''\<rparr>,
      (pfield ''auth_user'' ''authUser'')\<lparr>pf_kind := Some PList, pf_section := Some ''basic''\<rparr>,
      (pfield ''protocol'' ''protocol'')\<lparr>pf_kind := Some PList, pf_section := Some ''basic''\<rparr>,
      (pfield ''domain'' ''domain'')\<lparr>pf_kind := Some PList, pf_section := Some ''domain''\<rparr>,
      (pfield ''domain_suffix'' ''domainSuffix'')\<lparr>pf_kind := Some PList, pf_section := Some ''domain''\<rparr>,
      (pfield ''domain_keyword'' ''domainKeyword'')\<lparr>pf_kind := Some PList, pf_section := Some ''domain''\<rparr>,
      (pfield ''domain_regex'' ''domainRegex'')\<lparr>pf_kind := Some PList, pf_section := Some ''domain''\<rparr>,
      (pfield ''source_ip_cidr'' ''sourceIPCIDR'')\<lparr>pf_kind := Some PList, pf_section := Some ''domain''\<rparr>,
      (pfield ''source_ip_is_private'' ''sourceIPIsPrivate'')\<lparr>pf_kind := Some PBoolean, pf_section := Some ''domain''\<rparr>,
      (pfield ''ip_cidr'' ''ipCIDR'')\<lparr>pf_kind := Some PList, pf_section := Some ''domain''\<rparr>,
      (pfield ''ip_is_private'' ''ipIsPrivate'')\<lparr>pf_kind := Some PBoolean, pf_section := Some ''domain''\<rparr>,
      (pfield ''source_port'' ''sourcePort'')\<lparr>pf_kind := Some PNumberList, pf_section := Some ''process''\<rparr>,
      (pfield ''source_port_range'' ''sourcePortRange'')\<lparr>pf_kind := Some PList, pf_section := Some ''process''\<rparr>,
      (pfield ''port'' ''port'')\<lparr>pf_kind := Some PNumberList, pf_section := Some ''process''\<rparr>,
      (pfield ''port_range'' ''portRange'')\<lparr>pf_kind := Some PList, pf_section := Some ''process''\<rparr>,
      (pfield ''process_name'' ''processName'')\<lparr>pf_kind := Some PList, pf_section := Some ''process''\<rparr>,
      (pfield ''process_path'' ''processPath'')\<lparr>pf_kind := Some PList, pf_section := Some ''process''\<rparr>,
      (pfield ''process_path_regex'' ''processPathRegex'')\<lparr>pf_kind := Some PList, pf_section := Some ''process''\<rparr>,
      (pfield ''package_name'' ''packageName'')\<lparr>pf_kind := Some PList, pf_section := Some ''process''\<rparr>,
      (pfield ''user'' ''user'')\<lparr>pf_kind := Some PList, pf_section := Some ''process''\<rparr>,
      (pfield ''user_id'' ''userID'')\<lparr>pf_kind := Some PNumberList, pf_section := Some ''process''\<rparr>,
      (pfield ''outbound'' ''outbound'')\<lparr>pf_kind := Some PRefMulti, pf_ref := Some ROutbound, pf_section := Some ''process''\<rparr>,
      (pfield ''clash_mode'' ''clashMode'')\<lparr>pf_section := Some ''process''\<rparr>,
      (pfield ''rule_set'' ''ruleSet'')\<lparr>pf_kind := Some PRefMulti, pf_ref := Some RRuleSet, pf_section := Some ''process''\<rparr>,
      (pfield ''rule_set_ip_cidr_match_source'' ''ruleSetIPCIDRMatchSource'')\<lparr>pf_kind := Some PBoolean, pf_section := Some ''process''\<rparr>,
      (pfield ''network_type'' ''networkType'')\<lparr>pf_kind := Some PList, pf_section := Some ''process''\<rparr>,
      (pfield ''network_is_expensive'' ''networkIsExpensive'')\<lparr>pf_kind := Some PBoolean, pf_section := Some ''process''\<rparr>,
      (pfield ''network_is_constrained'' ''networkIsConstrained'')\<lparr>pf_kind := Some PBoolean, pf_section := Some ''process''\<rparr>,
      (pfield ''wifi_ssid'' ''wifiSSID'')\<lparr>pf_kind := Some PList, pf_section := Some ''process''\<rparr>,
      (pfield ''wifi_bssid'' ''wifiBSSID'')\<lparr>pf_kind := Some PList, pf_section := Some ''process''\<rparr>,
      (pfield ''invert'' ''invert'')\<lparr>pf_kind := Some PBoolean, pf_section := Some ''basic''\<rparr>]"

definition dnsActions :: "string list" where
  "dnsActions =
     [''route'', ''route-options'', ''reject'', ''predefined'']"

definition dns_routeOptionFields :: "policy_field list" where
  "dns_routeOptionFields =
     [(pfield ''strategy'' ''strategy'')\<lparr>pf_kind := Some PSelect, pf_options := Some domainStrategies, pf_section := Some ''action''\<rparr>,
      (pfield ''disable_cache'' ''disableCache'')\<lparr>pf_kind := Some PBoolean, pf_section := Some ''action''\<rparr>,
      (pfield ''rewrite_ttl'' ''rewriteTTL'')\<lparr>pf_kind := Some PNumber, pf_section := Some ''action''\<rparr>,
      (pfield ''client_subnet'' ''clientSubnet'')\<lparr>pf_section := Some ''action''\<rparr>]"

definition dnsActionFields :: "policy_field registry" where
  "dnsActionFields =
     [(''route'',
         [(pfield ''server'' ''server'')\<lparr>pf_kind := Some PRef, pf_ref := Some RDnsServer, pf_section := Some ''action''\<rparr>] @
         dns_routeOptionFields),
      (''route-options'', dns_routeOptionFields),
      (''reject'',
         [(pfield ''method'' ''rejectMethod'')\<lparr>pf_kind := Some PSelect, pf_options := Some [''default'', ''drop'', ''reply''], pf_section := Some ''action''\<rparr>,
          (pfield ''no_drop'' ''rejectNoDrop'')\<lparr>pf_kind := Some PBoolean, pf_section := Some ''action''\<rparr>]),
      (''predefined'',
         [(pfield ''rcode'' ''rcode'')\<lparr>pf_section := Some ''action''\<rparr>,
          (pfield ''answer'' ''answer'')\<lparr>pf_kind := Some PList, pf_section := Some ''action''\<rparr>,
          (pfield ''ns'' ''nameServer'')\<lparr>pf_kind := Some PList, pf_section := Some ''action''\<rparr>,
          (pfield ''extra'' ''extra'')\<lparr>pf_kind := Some PList, pf_section := Some ''action''\<rparr>])]"

subsection \<open>Paths of a DNS rule summary\<close>

definition dns_summaryPaths :: "string list" where
  "dns_summaryPaths =
     [''domain'', ''domain_suffix'', ''domain_keyword'', ''domain_regex'', ''source_ip_cidr'',
      ''source_ip_is_private'', ''ip_cidr'', ''ip_is_private'', ''source_port'',
      ''source_port_range'', ''port'', ''port_range'', ''process_name'', ''process_path'',
      ''process_path_regex'', ''package_name'', ''user'', ''user_id'', ''rule_set'',
      ''rule_set_ip_cidr_match_source'', ''inbound'', ''ip_version'', ''query_type'', ''network'',
      ''auth_user'', ''protocol'', ''outbound'', ''clash_mode'', ''network_type'',
      ''network_is_expensive'', ''network_is_constrained'', ''wifi_ssid'', ''wifi_bssid'',
      ''invert'']"

subsection \<open>Fields of the route section\<close>

definition route_domainStrategies :: "string list" where
  "route_domainStrategies =
     [''prefer_ipv4'', ''prefer_ipv6'', ''ipv4_only'', ''ipv6_only'']"

definition route_networkStrategies :: "string list" where
  "route_networkStrategies =
     [''default'', ''fallback'', ''hybrid'']"

definition route_keepAliveOn :: "field_when" where
  "route_keepAliveOn = when_falsy ''disable_tcp_keep_alive''"

definition route_tlsFragmentOn :: "field_when" where
  "route_tlsFragmentOn = when_is ''tls_fragment'' (JBool True)"

definition route_resolverOn :: "field_when" where
  "route_resolverOn = when_set ''default_domain_resolver.server''"

definition route_actionResolverOn :: "field_when" where
  "route_actionResolverOn = when_set ''domain_resolver.server''"

definition routeGlobalFields :: "policy_field list" where
  "routeGlobalFields =
     [(pfield ''final'' ''final'')\<lparr>pf_kind := Some PRef, pf_ref := Some ROutbound, pf_section := Some ''basic''\<rparr>,
      (pfield ''find_process'' ''findProcess'')\<lparr>pf_kind := Some PBoolean, pf_section := Some ''basic''\<rparr>,
      (pfield ''auto_detect_interface'' ''autoDetectInterface'')\<lparr>pf_kind := Some PBoolean, pf_section := Some ''interface''\<rparr>,
      (pfield ''override_android_vpn'' ''overrideAndroidVPN'')\<lparr>pf_kind := Some PBoolean, pf_section := Some ''interface''\<rparr>,
      (pfield ''default_interface'' ''defaultInterface'')\<lparr>pf_kind := Some PNetworkInterface, pf_section := Some ''interface''\<rparr>,
      (pfield ''default_mark'' ''defaultMark'')\<lparr>pf_section := Some ''interface''\<rparr>,
      (pfield ''default_domain_resolver.server'' ''defaultDomainResolverServer'')\<lparr>pf_kind := Some PRef, pf_ref := Some RDnsServer, pf_section := Some ''dns''\<rparr>,
      (pfield ''default_domain_resolver.strategy'' ''defaultDomainResolverStrategy'')\<lparr>pf_kind := Some PSelect, pf_options := Some route_domainStrategies, pf_section := Some ''dns'', pf_when := Some (WhenOne route_resolverOn)\<rparr>,
      (pfield ''default_domain_resolver.disable_cache'' ''defaultDomainResolverDisableCache'')\<lparr>pf_kind := Some PBoolean, pf_section := Some ''dns'', pf_when := Some (WhenOne route_resolverOn)\<rparr>,
      (pfield ''default_domain_resolver.rewrite_ttl'' ''defaultDomainResolverRewriteTTL'')\<lparr>pf_kind := Some PNumber, pf_section := Some ''dns'', pf_when := Some (WhenOne route_resolverOn)\<rparr>,
      (pfield ''default_domain_resolver.client_subnet'' ''defaultDomainResolverClientSubnet'')\<lparr>pf_section := Some ''dns'', pf_when := Some (WhenOne route_resolverOn)\<rparr>,
      (pfield ''default_network_strategy'' ''defaultNetworkStrategy'')\<lparr>pf_kind := Some PSelect, pf_options := Some route_networkStrategies, pf_section := Some ''strategy''\<rparr>,
      (pfield ''default_network_type'' ''defaultNetworkType'')\<lparr>pf_kind := Some PList, pf_section := Some ''strategy''\<rparr>,
      (pfield ''default_fallback_network_type'' ''defaultFallbackNetworkType'')\<lparr>pf_kind := Some PList, pf_section := Some ''strategy''\<rparr>,
      (pfield ''default_fallback_delay'' ''defaultFallbackDelay'')\<lparr>pf_section := Some ''strategy''\<rparr>]"

definition routeMatchFields :: "policy_field list" where
  "routeMatchFields =
     [(pfield ''type'' ''type'')\<lparr>pf_kind := Some PSelect, pf_options := Some [''default'', ''logical''], pf_section := Some ''basic''\<rparr>,
      (pfield ''inbound'' ''inbound'')\<lparr>pf_kind := Some PRefMulti, pf_ref := Some RInbound, pf_section := Some ''basic''\<rparr>,
      (pfield ''ip_version'' ''ipVersion'')\<lparr>pf_kind := Some PSelect, pf_options := Some [''4'', ''6''], pf_section := Some ''basic''\<rparr>,
      (pfield ''network'' ''network'')\<lparr>pf_kind := Some PNetworkMulti, pf_section := Some ''basic''\<rparr>,
      (pfield ''auth_user'' ''authUser'')\<lparr>pf_kind := Some PList, pf_section := Some ''basic''\<rparr>,
      (pfield ''protocol'' ''protocol'')\<lparr>pf_kind := Some PList, pf_section := Some ''basic''\<rparr>,
      (pfield ''client'' ''client'')\<lparr>pf_kind := Some PList, pf_section := Some ''basic''\<rparr>,
      (pfield ''domain'' ''domain'')\<lparr>pf_kind := Some PList, pf_section := Some ''domain''\<rparr>,
      (pfield ''domain_suffix'' ''domainSuffix'')\<lparr>pf_kind := Some PList, pf_section := Some ''domain''\<rparr>,
      (pfield ''domain_keyword'' ''domainKeyword'')\<lparr>pf_kind := Some PList, pf_section := Some ''domain''\<rparr>,
      (pfield ''domain_regex'' ''domainRegex'')\<lparr>pf_kind := Some PList, pf_section := Some ''domain''\<rparr>,
      (pfield ''source_ip_cidr'' ''sourceIPCIDR'')\<lparr>pf_kind := Some PList, pf_section := Some ''domain''\<rparr>,
      (pfield ''source_ip_is_private'' ''sourceIPIsPrivate'')\<lparr>pf_kind := Some PBoolean, pf_section := Some ''domain''\<rparr>,
      (pfield ''ip_cidr'' ''ipCIDR'')\<lparr>pf_kind := Some PList, pf_section := Some ''domain''\<rparr>,
      (pfield ''ip_is_private'' ''ipIsPrivate'')\<lparr>pf_kind := Some PBoolean, pf_section := Some ''domain''\<rparr>,
      (pfield ''source_port'' ''sourcePort'')\<lparr>pf_kind := Some PNumberList, pf_section := Some ''process''\<rparr>,
      (pfield ''source_port_range'' ''sourcePortRange'')\<lparr>pf_kind := Some PList, pf_section := Some ''process''\<rparr>,
      (pfield ''port'' ''port'')\<lparr>pf_kind := Some PNumberList, pf_section := Some ''process''\<rparr>,
      (pfield ''port_range'' ''portRange'')\<lparr>pf_kind := Some PList, pf_section := Some ''process''\<rparr>,
      (pfield ''process_name'' ''processName'')\<lparr>pf_kind := Some PList, pf_section := Some ''process''\<rparr>,
      (pfield ''process_path'' ''processPath'')\<lparr>pf_kind := Some PList, pf_section := Some ''process''\<rparr>,
      (pfield ''process_path_regex'' ''processPathRegex'')\<lparr>pf_kind := Some PList, pf_section := Some ''process''\<rparr>,
      (pfield ''package_name'' ''packageName'')\<lparr>pf_kind := Some PList, pf_section := Some ''process''\<rparr>,
      (pfield ''user'' ''user'')\<lparr>pf_kind := Some PList, pf_section := Some ''process''\<rparr>,
      (pfield ''user_id'' ''userID'')\<lparr>pf_kind := Some PNumberList, pf_section := Some ''process''\<rparr>,
      (pfield ''rule_set'' ''ruleSet'')\<lparr>pf_kind := Some PRefMulti, pf_ref := Some RRuleSet, pf_section := Some ''environment''\<rparr>,
      (pfield ''rule_set_ip_cidr_match_source'' ''ruleSetIPCIDRMatchSource'')\<lparr>pf_kind := Some PBoolean, pf_section := Some ''environment''\<rparr>,
      (pfield ''clash_mode'' ''clashMode'')\<lparr>pf_section := Some ''environment''\<rparr>,
      (pfield ''network_type'' ''networkType'')\<lparr>pf_kind := Some PList, pf_section := Some ''environment''\<rparr>,
      (pfield ''network_is_expensive'' ''networkIsExpensive'')\<lparr>pf_kind := Some PBoolean, pf_section := Some ''environment''\<rparr>,
      (pfield ''network_is_constrained'' ''networkIsConstrained'')\<lparr>pf_kind := Some PBoolean, pf_section := Some ''environment''\<rparr>,
      (pfield ''wifi_ssid'' ''wifiSSID'')\<lparr>pf_kind := Some PList, pf_section := Some ''environment''\<rparr>,
      (pfield ''wifi_bssid'' ''wifiBSSID'')\<lparr>pf_kind := Some PList, pf_section := Some ''environment''\<rparr>,
      (pfield ''invert'' ''invert'')\<lparr>pf_kind := Some PBoolean, pf_section := Some ''basic''\<rparr>]"

definition routeActions :: "string list" where
  "routeActions =
     [''route'', ''route-options'', ''direct'', ''bypass'', ''reject'', ''hijack-dns'', ''sniff'',
      ''resolve'']"

definition routeOptionFields :: "policy_field list" where
  "routeOptionFields =
     [(pfield ''override_address'' ''overrideAddress'')\<lparr>pf_section := Some ''action''\<rparr>,
      (pfield ''override_port'' ''overridePort'')\<lparr>pf_kind := Some PNumber, pf_section := Some ''action''\<rparr>,
      (pfield ''network_strategy'' ''networkStrategy'')\<lparr>pf_kind := Some PSelect, pf_options := Some route_networkStrategies, pf_section := Some ''action''\<rparr>,
      (pfield ''fallback_delay'' ''fallbackDelay'')\<lparr>pf_kind := Some PNumber, pf_section := Some ''action''\<rparr>,
      (pfield ''udp_disable_domain_unmapping'' ''udpDisableDomainUnmapping'')\<lparr>pf_kind := Some PBoolean, pf_section := Some ''action''\<rparr>,
      (pfield ''udp_connect'' ''udpConnect'')\<lparr>pf_kind := Some PBoolean, pf_section := Some ''action''\<rparr>,
      (pfield ''udp_timeout'' ''udpTimeout'')\<lparr>pf_section := Some ''action''\<rparr>,
      (pfield ''tls_fragment'' ''tlsFragment'')\<lparr>pf_kind := Some PBoolean, pf_section := Some ''action''\<rparr>,
      (pfield ''tls_fragment_fallback_delay'' ''tlsFragmentFallbackDelay'')\<lparr>pf_section := Some ''action'', pf_when := Some (WhenOne route_tlsFragmentOn)\<rparr>,
      (pfield ''tls_record_fragment'' ''tlsRecordFragment'')\<lparr>pf_kind := Some PBoolean, pf_section := Some ''action''\<rparr>]"

definition directFields :: "policy_field list" where
  "directFields =
     [(pfield ''bind_interface'' ''bindInterface'')\<lparr>pf_kind := Some PNetworkInterface, pf_section := Some ''action''\<rparr>,
      (pfield ''inet4_bind_address'' ''inet4BindAddress'')\<lparr>pf_section := Some ''action''\<rparr>,
      (pfield ''inet6_bind_address'' ''inet6BindAddress'')\<lparr>pf_section := Some ''action''\<rparr>,
      (pfield ''bind_address_no_port'' ''bindAddressNoPort'')\<lparr>pf_kind := Some PBoolean, pf_section := Some ''action''\<rparr>,
      (pfield ''protect_path'' ''protectPath'')\<lparr>pf_section := Some ''action''\<rparr>,
      (pfield ''routing_mark'' ''routingMark'')\<lparr>pf_section := Some ''action''\<rparr>,
      (pfield ''reuse_addr'' ''reuseAddress'')\<lparr>pf_kind := Some PBoolean, pf_section := Some ''action''\<rparr>,
      (pfield ''netns'' ''networkNamespace'')\<lparr>pf_section := Some ''action''\<rparr>,
      (pfield ''connect_timeout'' ''connectTimeout'')\<lparr>pf_section := Some ''action''\<rparr>,
      (pfield ''tcp_fast_open'' ''tcpFastOpen'')\<lparr>pf_kind := Some PBoolean, pf_section := Some ''action''\<rparr>,
      (pfield ''tcp_multi_path'' ''tcpMultiPath'')\<lparr>pf_kind := Some PBoolean, pf_section := Some ''action''\<rparr>,
      (pfield ''disable_tcp_keep_alive'' ''disableTCPKeepAlive'')\<lparr>pf_kind := Some PBoolean, pf_section := Some ''action''\<rparr>,
      (pfield ''tcp_keep_alive'' ''tcpKeepAlive'')\<lparr>pf_section := Some ''action'', pf_when := Some (WhenOne route_keepAliveOn)\<rparr>,
      (pfield ''tcp_keep_alive_interval'' ''tcpKeepAliveInterval'')\<lparr>pf_section := Some ''action'', pf_when := Some (WhenOne route_keepAliveOn)\<rparr>,
      (pfield ''udp_fragment'' ''udpFragment'')\<lparr>pf_kind := Some PBoolean, pf_section := Some ''action''\<rparr>,
      (pfield ''domain_resolver.server'' ''domainResolverServer'')\<lparr>pf_kind := Some PRef, pf_ref := Some RDnsServer, pf_section := Some ''action''\<rparr>,
      (pfield ''domain_resolver.strategy'' ''domainResolverStrategy'')\<lparr>pf_kind := Some PSelect, pf_options := Some route_domainStrategies, pf_section := Some ''action'', pf_when := Some (WhenOne route_actionResolverOn)\<rparr>,
      (pfield ''domain_resolver.disable_cache'' ''domainResolverDisableCache'')\<lparr>pf_kind := Some PBoolean, pf_section := Some ''action'', pf_when := Some (WhenOne route_actionResolverOn)\<rparr>,
      (pfield ''domain_resolver.rewrite_ttl'' ''domainResolverRewriteTTL'')\<lparr>pf_kind := Some PNumber, pf_section := Some ''action'', pf_when := Some (WhenOne route_actionResolverOn)\<rparr>,
      (pfield ''domain_resolver.client_subnet'' ''domainResolverClientSubnet'')\<lparr>pf_section := Some ''action'', pf_when := Some (WhenOne route_actionResolverOn)\<rparr>,
      (pfield ''network_strategy'' ''networkStrategy'')\<lparr>pf_kind := Some PSelect, pf_options := Some route_networkStrategies, pf_section := Some ''action''\<rparr>,
      (pfield ''network_type'' ''networkType'')\<lparr>pf_kind := Some PList, pf_section := Some ''action''\<rparr>,
      (pfield ''fallback_network_type'' ''fallbackNetworkType'')\<lparr>pf_kind := Some PList, pf_section := Some ''action''\<rparr>,
      (pfield ''fallback_delay'' ''fallbackDelay'')\<lparr>pf_section := Some ''action''\<rparr>]"

definition route_outboundFields :: "policy_field list" where
  "route_outboundFields =
     [(pfield ''outbound'' ''outbound'')\<lparr>pf_kind := Some PRef, pf_ref := Some ROutbound, pf_section := Some ''action'', pf_required := True\<rparr>] @
     routeOptionFields"

definition routeActionFields :: "policy_field registry" where
  "routeActionFields =
     [(''route'', route_outboundFields),
      (''route-options'', routeOptionFields),
      (''direct'', directFields),
      (''bypass'', route_outboundFields),
      (''reject'',
         [(pfield ''method'' ''rejectMethod'')\<lparr>pf_kind := Some PSelect, pf_options := Some [''default'', ''drop'', ''reply''], pf_section := Some ''action''\<rparr>,
          (pfield ''no_drop'' ''rejectNoDrop'')\<lparr>pf_kind := Some PBoolean, pf_section := Some ''action''\<rparr>]),
      (''hijack-dns'', []),
      (''sniff'',
         [(pfield ''sniffer'' ''sniffer'')\<lparr>pf_kind := Some PList, pf_section := Some ''action''\<rparr>,
          (pfield ''timeout'' ''sniffTimeout'')\<lparr>pf_section := Some ''action''\<rparr>]),
      (''resolve'',
         [(pfield ''server'' ''resolveServer'')\<lparr>pf_kind := Some PRef, pf_ref := Some RDnsServer, pf_section := Some ''action''\<rparr>,
          (pfield ''strategy'' ''resolveStrategy'')\<lparr>pf_kind := Some PSelect, pf_options := Some route_domainStrategies, pf_section := Some ''action''\<rparr>,
          (pfield ''disable_cache'' ''resolveDisableCache'')\<lparr>pf_kind := Some PBoolean, pf_section := Some ''action''\<rparr>,
          (pfield ''rewrite_ttl'' ''resolveRewriteTTL'')\<lparr>pf_kind := Some PNumber, pf_section := Some ''action''\<rparr>,
          (pfield ''client_subnet'' ''resolveClientSubnet'')\<lparr>pf_section := Some ''action''\<rparr>])]"

definition ruleSetTypes :: "string list" where
  "ruleSetTypes = [''inline'', ''local'', ''remote'']"

definition logicalRuleFields :: "policy_field list" where
  "logicalRuleFields =
     [(pfield ''mode'' ''logicalMode'')\<lparr>pf_kind := Some PSelect, pf_options := Some [''and'', ''or''], pf_section := Some ''basic''\<rparr>,
      (pfield ''rules'' ''logicalRules'')\<lparr>pf_kind := Some PJsonArray, pf_section := Some ''basic''\<rparr>,
      (pfield ''invert'' ''invert'')\<lparr>pf_kind := Some PBoolean, pf_section := Some ''basic''\<rparr>]"

definition ruleSetFields :: "policy_field registry" where
  "ruleSetFields =
     [(''inline'', [(pfield ''rules'' ''rules'')\<lparr>pf_kind := Some PJsonArray\<rparr>]),
      (''local'', [pfield ''format'' ''format'', pfield ''path'' ''path'']),
      (''remote'',
         [pfield ''format'' ''format'',
          pfield ''url'' ''url'',
          (pfield ''download_detour'' ''downloadDetour'')\<lparr>pf_kind := Some PRef, pf_ref := Some ROutbound\<rparr>,
          pfield ''update_interval'' ''updateInterval''])]"

definition route_summaryPaths :: "string list" where
  "route_summaryPaths =
     [''domain'', ''domain_suffix'', ''domain_keyword'', ''domain_regex'', ''source_ip_cidr'',
      ''source_ip_is_private'', ''ip_cidr'', ''ip_is_private'', ''source_port'',
      ''source_port_range'', ''port'', ''port_range'', ''process_name'', ''process_path'',
      ''process_path_regex'', ''package_name'', ''user'', ''user_id'', ''rule_set'',
      ''rule_set_ip_cidr_match_source'', ''inbound'', ''ip_version'', ''network'', ''auth_user'',
      ''protocol'', ''client'', ''clash_mode'', ''network_type'', ''network_is_expensive'',
      ''network_is_constrained'', ''wifi_ssid'', ''wifi_bssid'', ''invert'']"

end
