(* ===== verification/Dns_Form.thy ===== *)
theory Dns_Form
  imports Dns_Cleanup Policy_Number Policy_Tables
begin

text \<open>
  The DNS form model, \<open>features/policy/dns-form-model.ts\<close>: the typed inputs of DNS fields, the
  lists of servers and rules, the changes of type and action, and the summaries of the cards.
  The separator of the summaries is the character U+00B7 between blanks.
\<close>

subsection \<open>Inputs\<close>

definition queryTypeNames :: "(string \<times> string) list" where
  "queryTypeNames = map (\<lambda>name. (toUpperCase name, name)) (js_split (\<lambda>c. c = CHR '' '') (js_join '' ''
     [''A AAAA AFSDB AMTRELAY ANY APL ATMA AVC AXFR CAA CDNSKEY CDS CERT CNAME CSYNC DHCID DLV DNAME DNSKEY DS'',
      ''EID EUI48 EUI64 GID GPOS HINFO HIP HTTPS IPSECKEY ISDN IXFR KEY KX L32 L64 LOC LP MAILA MAILB MB MD MF MG'',
      ''MINFO MR MX NAPTR NID NIMLOC NINFO NS NSEC NSEC3 NSEC3PARAM NULL NXNAME NXT None OPENPGPKEY OPT PTR PX'',
      ''RESINFO RKEY RP RRSIG RT Reserved SIG SMIMEA SOA SPF SRV SSHFP SVCB TA TALINK TKEY TLSA TSIG TXT UID UINFO'',
      ''UNSPEC URI X25 ZONEMD NSAP-PTR'']))"

definition rcodeNames :: "string list" where
  "rcodeNames = js_split (\<lambda>c. c = CHR '' '')
     ''NOERROR FORMERR SERVFAIL NXDOMAIN NOTIMP REFUSED YXDOMAIN YXRRSET NXRRSET NOTAUTH NOTZONE DSOTYPENI BADSIG BADKEY BADTIME BADMODE BADNAME BADALG BADTRUNC BADCOOKIE''"

definition dns_decimalInteger :: "string \<Rightarrow> int \<Rightarrow> jsnum option" where
  "dns_decimalInteger raw maximum =
     (if \<not> all_digits raw then None
      else let value = string_to_number raw
           in if num_isSafeInteger value \<and> num_le value (Fin (of_int maximum)) then Some value else None)"

definition queryTypeToken :: "string \<Rightarrow> json option" where
  "queryTypeToken raw =
     (case dns_decimalInteger raw 0xFFFF of
        Some numeric \<Rightarrow> Some (JNum numeric)
      | None \<Rightarrow> map_option JStr (map_of (rev queryTypeNames) (toUpperCase raw)))"

definition transformQueryType :: "jobj \<Rightarrow> string \<Rightarrow> transform_result" where
  "transformQueryType ob raw =
     (let tokens = list_tokens raw
      in if tokens = [] then Updated (setPolicyPath ob ''query_type'' None)
         else let values = map queryTypeToken tokens
              in if list_ex (\<lambda>v. v = None) values then Rejected
                 else let current = getPolicyPath ob ''query_type'';
                          value = (if is_arr current \<or> length values > 1 \<or> current = None
                            then JArr (map the values) else the (hd values))
                      in Updated (setPolicyPath ob ''query_type'' (Some value)))"

definition transformRCode :: "jobj \<Rightarrow> string \<Rightarrow> transform_result" where
  "transformRCode ob raw =
     (let token = js_trim raw
      in if token = [] then Updated (setPolicyPath ob ''rcode'' None)
         else case dns_decimalInteger token 0xFFF of
             Some numeric \<Rightarrow> Updated (setPolicyPath ob ''rcode'' (Some (JNum numeric)))
           | None \<Rightarrow> let name = toUpperCase token
               in if name \<in> set rcodeNames then Updated (setPolicyPath ob ''rcode'' (Some (JStr name))) else Rejected)"

definition dnsNumberConstraints :: "(string \<times> number_constraint) list" where
  "dnsNumberConstraints =
     [(''ip_version'', (nconstraint IntegerC 6)\<lparr>pn_allowed := Some [4, 6]\<rparr>),
      (''source_port'', nconstraint IntegerListC 0xFFFF),
      (''port'', nconstraint IntegerListC 0xFFFF),
      (''user_id'', nconstraint IntegerListC 0x7FFFFFFF),
      (''server_port'', nconstraint IntegerC 0xFFFF),
      (''cache_capacity'', nconstraint IntegerC 0xFFFFFFFF),
      (''rewrite_ttl'', nconstraint IntegerC 0xFFFFFFFF),
      (''domain_resolver.rewrite_ttl'', nconstraint IntegerC 0xFFFFFFFF),
      (''routing_mark'', nconstraint MarkC 0xFFFFFFFF)]"

definition transformDNSField :: policy_transform where
  "transformDNSField ob field raw =
     (if pf_path field = ''query_type'' then transformQueryType ob raw
      else if pf_path field = ''rcode'' then transformRCode ob raw
      else createPolicyNumberTransform dnsNumberConstraints ob field raw)"

subsection \<open>Servers and rules\<close>

definition dnsServers :: "jobj \<Rightarrow> jobj list" where
  "dnsServers ob = object_list (obj_get ob ''servers'')"

definition dnsRules :: "jobj \<Rightarrow> jobj list" where
  "dnsRules ob = object_list (obj_get ob ''rules'')"

definition setDNSServers :: "jobj \<Rightarrow> jobj list \<Rightarrow> jobj" where
  "setDNSServers ob servers = obj_set ''servers'' (JArr (map JObj servers)) ob"

definition setDNSRules :: "jobj \<Rightarrow> jobj list \<Rightarrow> jobj" where
  "setDNSRules ob rules = obj_set ''rules'' (JArr (map JObj rules)) ob"

definition inferDNSServerType :: "jobj \<Rightarrow> string" where
  "inferDNSServerType server =
     (case obj_get server ''type'' of Some (JStr t) \<Rightarrow> if t \<noteq> [] then t else ''legacy'' | _ \<Rightarrow> ''legacy'')"

definition changeDNSServerType :: "jobj \<Rightarrow> string \<Rightarrow> jobj res" where
  "changeDNSServerType server type =
     (let current = inferDNSServerType server
      in if current = type then Inr server
         else let bothKnown = hasOwn dnsServerCleanupFields current \<and> hasOwn dnsServerCleanupFields type;
                  separated = bothKnown \<and> (current = ''legacy'') \<noteq> (type = ''legacy'')
              in bind_res (transitionCleanupFields server dnsServerCleanupFields
                     \<lparr>ct_current = current, ct_target = type, ct_share = \<not> separated\<rparr>) (\<lambda>next.
                   Inr (setPolicyPath next ''type'' (if type = ''legacy'' then None else Some (JStr type)))))"

definition changeDNSRuleType :: "jobj \<Rightarrow> string \<Rightarrow> jobj res" where
  "changeDNSRuleType rule type =
     (let current = string_or (obj_get rule ''type'') ''default''
      in if current = type then Inr rule
         else bind_res (transitionCleanupFields rule dnsRuleCleanupFields
                \<lparr>ct_current = current, ct_target = type, ct_share = True\<rparr>) (\<lambda>next.
              Inr (setPolicyPath next ''type'' (if type = ''default'' then None else Some (JStr type)))))"

definition changeDNSAction :: "jobj \<Rightarrow> string \<Rightarrow> jobj res" where
  "changeDNSAction rule action =
     (let explicit = string_or (obj_get rule ''action'') []
      in if explicit = action \<and> explicit \<noteq> [] then Inr rule
         else let current = (if explicit \<noteq> [] then explicit else ''route'')
              in bind_res (transitionCleanupFields rule dnsActionCleanupFields
                    \<lparr>ct_current = current, ct_target = action, ct_share = True\<rparr>) (\<lambda>next.
                  Inr (setPolicyPath next ''action'' (if action = [] then None else Some (JStr action)))))"

subsection \<open>Summaries\<close>

definition summary_sep :: string where
  "summary_sep = [CHR '' '', CHR 0xB7, CHR '' '']"

definition stringValue :: "json option \<Rightarrow> string" where
  "stringValue v = (case v of Some (JStr s) \<Rightarrow> s | _ \<Rightarrow> [])"

definition stringListValue :: "json option \<Rightarrow> string" where
  "stringListValue v = (case v of Some (JStr s) \<Rightarrow> s
     | Some (JArr vs) \<Rightarrow> js_join '', '' (concat (map (\<lambda>x. case x of JStr s \<Rightarrow> [s] | _ \<Rightarrow> []) vs))
     | _ \<Rightarrow> [])"

record server_labels =
  sl_path :: "string \<Rightarrow> string"
  sl_predefined :: "nat \<Rightarrow> string"
  sl_ipv4 :: "string \<Rightarrow> string"
  sl_ipv6 :: "string \<Rightarrow> string"
  sl_tag :: "string \<Rightarrow> string"
  sl_detour :: "string \<Rightarrow> string"
  sl_strategy :: "string \<Rightarrow> string"

record rule_labels =
  rl_logicalMode :: "string \<Rightarrow> string"
  rl_matchLabel :: "string \<Rightarrow> string"

definition defaultServerSummaryLabels :: server_labels where
  "defaultServerSummaryLabels =
     \<lparr>sl_path = (\<lambda>v. ''path '' @ v), sl_predefined = (\<lambda>n. ''predefined '' @ digits_of (int n)),
      sl_ipv4 = (\<lambda>v. ''inet4 '' @ v), sl_ipv6 = (\<lambda>v. ''inet6 '' @ v), sl_tag = (\<lambda>v. ''tag '' @ v),
      sl_detour = (\<lambda>v. ''detour '' @ v), sl_strategy = (\<lambda>v. ''strategy '' @ v)\<rparr>"

definition defaultRuleSummaryLabels :: rule_labels where
  "defaultRuleSummaryLabels = \<lparr>rl_logicalMode = (\<lambda>v. ''mode:'' @ v), rl_matchLabel = (\<lambda>p. p)\<rparr>"

definition serverTypeDetails :: "jobj \<Rightarrow> string \<Rightarrow> server_labels \<Rightarrow> string list" where
  "serverTypeDetails server type labels =
     (if type = ''hosts'' then
        (let path = stringListValue (obj_get server ''path'');
             predefined = (case obj_get server ''predefined'' of Some (JObj c) \<Rightarrow> length (obj_keys c) | _ \<Rightarrow> 0)
         in [if path \<noteq> [] then sl_path labels path else [],
             if predefined \<noteq> 0 then sl_predefined labels predefined else []])
      else if type = ''fakeip'' then
        (let inet4 = stringValue (obj_get server ''inet4_range''); inet6 = stringValue (obj_get server ''inet6_range'')
         in [if inet4 \<noteq> [] then sl_ipv4 labels inet4 else [], if inet6 \<noteq> [] then sl_ipv6 labels inet6 else []])
      else [])"

definition summarizeDNSServer :: "jobj \<Rightarrow> server_labels \<Rightarrow> string \<times> string" where
  "summarizeDNSServer server labels =
     (let type = inferDNSServerType server;
          host = stringValue (obj_get server ''server'');
          port = (case obj_get server ''server_port'' of
              Some (JNum n) \<Rightarrow> if num_isFinite n then '':'' @ number_to_string n else [] | _ \<Rightarrow> []);
          primary = (if type = ''legacy'' then stringValue (obj_get server ''address'')
            else if host \<noteq> [] then host @ port else stringValue (obj_get server ''interface''));
          extra = (\<lambda>k label. let v = stringValue (obj_get server k) in if v \<noteq> [] then [label v] else []);
          details = primary # serverTypeDetails server type labels @ extra ''tag'' (sl_tag labels)
            @ extra ''detour'' (sl_detour labels) @ extra ''strategy'' (sl_strategy labels)
      in (type, js_join summary_sep (filter (\<lambda>d. d \<noteq> []) details)))"

definition summarizeValue :: "(string \<Rightarrow> string) \<Rightarrow> string \<Rightarrow> json option \<Rightarrow> string list" where
  "summarizeValue matchLabel path v =
     (case v of
        Some (JArr vs) \<Rightarrow> concat (map (\<lambda>item. case item of JStr s \<Rightarrow> [s] | JNum n \<Rightarrow> [number_to_string n] | _ \<Rightarrow> []) vs)
      | Some (JStr s) \<Rightarrow> [s]
      | Some (JNum n) \<Rightarrow> [number_to_string n]
      | Some (JBool True) \<Rightarrow> [matchLabel path]
      | _ \<Rightarrow> [])"

definition summarizeDNSRule :: "jobj \<Rightarrow> rule_labels \<Rightarrow> string list \<times> string" where
  "summarizeDNSRule rule labels =
     (let logical = (case (obj_get rule ''type'', obj_get rule ''mode'') of
            (Some (JStr t), Some (JStr m)) \<Rightarrow> if t = ''logical'' then [rl_logicalMode labels m] else [] | _ \<Rightarrow> []);
          matches = logical @ concat (map (\<lambda>path. summarizeValue (rl_matchLabel labels) path (obj_get rule path)) dns_summaryPaths);
          action = string_or (obj_get rule ''action'') ''route'';
          server = stringValue (obj_get rule ''server'');
          target = (if action = ''route'' \<and> server \<noteq> [] then summary_sep @ server else [])
      in (matches, action @ target))"

subsection \<open>Changes of a field\<close>

definition applyDNSGlobalFieldChange :: "jobj \<Rightarrow> jobj \<Rightarrow> jobj" where
  "applyDNSGlobalFieldChange ob next = pruneInvisiblePolicyFields next dnsGlobalFields"

definition applyDNSFakeIPFieldChange :: "jobj \<Rightarrow> jobj \<Rightarrow> jobj" where
  "applyDNSFakeIPFieldChange ob next =
     (let normalized = (if getPolicyPath next ''fakeip.enabled'' = Some (JBool False)
            then setPolicyPath next ''fakeip.enabled'' None else next)
      in pruneInvisiblePolicyFields normalized legacyFakeIPFields)"

definition applyDNSRuleFieldChange :: "jobj \<Rightarrow> jobj \<Rightarrow> jobj res" where
  "applyDNSRuleFieldChange ob next =
     (let action = string_or (nullish (obj_get next ''action'') (obj_get ob ''action'')) ''route''
      in bind_res (registry_get dnsActionFields action) (\<lambda>actionFields.
           Inr (pruneInvisiblePolicyFields next (dnsRuleMatchFields @ actionFields))))"

definition applyDNSServerFieldChange :: "string \<Rightarrow> jobj \<Rightarrow> jobj res" where
  "applyDNSServerFieldChange type next =
     bind_res (registry_get dnsServerFields type) (\<lambda>fs. Inr (pruneInvisiblePolicyFields next fs))"

subsection \<open>What a change of type or action keeps\<close>

lemma transition_set_value:
  assumes "transitionCleanupFields ob registry change = Inr ob'"
    and "cleanup_compatibleFields registry change = Inr fs"
    and "paths_compat (map cf_path (concat (registry_values registry)))"
    and keys: "\<forall>p\<in>set (map cf_path (concat (registry_values registry))). path_indep p k \<and> path_indep k p"
    and "''domain_resolver'' \<notin> set (map cf_path (concat (registry_values registry)))"
    and p: "p \<in> cf_path ` set (concat (registry_values registry))"
  shows "getPolicyPath (setPolicyPath ob' k v) p =
     (if cleanup_keep fs p (getPolicyPath ob p) then getPolicyPath ob p else None)"
proof -
  have "path_indep k p" "p \<noteq> ''domain_resolver''"
    using keys assms(5) p unfolding list.set_map by blast+
  then show ?thesis using transition_get [OF assms(1-3) p] by (simp add: policy.get_put_indep)
qed

lemma transition_set_frame:
  assumes "transitionCleanupFields ob registry change = Inr ob'"
    and "\<forall>p\<in>cf_path ` set (concat (registry_values registry)). path_indep p q"
    and "q \<noteq> ''domain_resolver''" and "path_indep k q"
  shows "getPolicyPath (setPolicyPath ob' k v) q = getPolicyPath ob q"
  using transition_frame [OF assms(1-3)] assms(4) by (simp add: policy.get_put_indep)

lemma transition_known:
  assumes "map_of registry (ct_target change) = Some fs"
  shows "\<exists>ob' cs. transitionCleanupFields ob registry change = Inr ob' \<and> cleanup_compatibleFields registry change = Inr cs"
proof (cases "transitionCleanupFields ob registry change")
  case (Inl e)
  then show ?thesis using transition_error [OF Inl] assms by simp
next
  case (Inr ob')
  then show ?thesis by (auto simp: transition_keep_paths bind_res_eq_Inr)
qed

lemma server_type_indep [table_facts]:
  "\<forall>p\<in>set (map cf_path (concat (registry_values dnsServerCleanupFields))). path_indep p ''type'' \<and> path_indep ''type'' p"
proof -
  have "path_keys ''type'' = [''type'']"
    and "list_all (\<lambda>p. hd (path_keys p) \<noteq> ''type'') (map cf_path (concat (registry_values dnsServerCleanupFields)))"
    by code_simp+
  from heads_indep [OF this] show ?thesis using path_indep_sym by blast
qed

lemma server_no_resolver [table_facts]:
  "''domain_resolver'' \<notin> set (map cf_path (concat (registry_values dnsServerCleanupFields)))"
proof -
  have "list_all (\<lambda>p. p \<noteq> ''domain_resolver'') (map cf_path (concat (registry_values dnsServerCleanupFields)))" by code_simp
  then show ?thesis unfolding list_all_iff by blast
qed

lemma action_action_indep [table_facts]:
  "\<forall>p\<in>set (map cf_path (concat (registry_values dnsActionCleanupFields))). path_indep p ''action'' \<and> path_indep ''action'' p"
  by (rule paths_compat_key [where n = 2]) code_simp+

lemma action_no_resolver [table_facts]:
  "''domain_resolver'' \<notin> set (map cf_path (concat (registry_values dnsActionCleanupFields)))"
  by code_simp

text \<open>The transition a change of a server's type makes.\<close>

definition server_change :: "string \<Rightarrow> string \<Rightarrow> cleanup_transition" where
  "server_change current type = \<lparr>ct_current = current, ct_target = type,
     ct_share = \<not> (hasOwn dnsServerCleanupFields current \<and> hasOwn dnsServerCleanupFields type
       \<and> (current = ''legacy'') \<noteq> (type = ''legacy''))\<rparr>"

lemma changeDNSServerType_known:
  assumes "hasOwn dnsServerCleanupFields type" and "inferDNSServerType server \<noteq> type"
  obtains nxt cs
  where "transitionCleanupFields server dnsServerCleanupFields (server_change (inferDNSServerType server) type) = Inr nxt"
    and "cleanup_compatibleFields dnsServerCleanupFields (server_change (inferDNSServerType server) type) = Inr cs"
    and "changeDNSServerType server type =
      Inr (setPolicyPath nxt ''type'' (if type = ''legacy'' then None else Some (JStr type)))"
proof -
  let ?ch = "server_change (inferDNSServerType server) type"
  obtain fs where "map_of dnsServerCleanupFields (ct_target ?ch) = Some fs"
    using assms(1) by (auto simp: hasOwn_def server_change_def)
  from transition_known [OF this] obtain nxt cs
    where t: "transitionCleanupFields server dnsServerCleanupFields ?ch = Inr nxt"
      "cleanup_compatibleFields dnsServerCleanupFields ?ch = Inr cs" by blast
  have "changeDNSServerType server type =
      (if inferDNSServerType server = type then Inr server
       else bind_res (transitionCleanupFields server dnsServerCleanupFields ?ch) (\<lambda>nxt.
         Inr (setPolicyPath nxt ''type'' (if type = ''legacy'' then None else Some (JStr type)))))"
    by (simp only: changeDNSServerType_def server_change_def Let_def conj_assoc)
  then have "changeDNSServerType server type =
      Inr (setPolicyPath nxt ''type'' (if type = ''legacy'' then None else Some (JStr type)))"
    by (simp only: t(1) bind_res_simps assms(2) if_False)
  with t show thesis by (rule that)
qed

lemma server_set_value:
  assumes "transitionCleanupFields server dnsServerCleanupFields ch = Inr nxt"
    and "cleanup_compatibleFields dnsServerCleanupFields ch = Inr cs"
    and "p \<in> cf_path ` set (concat (registry_values dnsServerCleanupFields))"
  shows "getPolicyPath (setPolicyPath nxt ''type'' v) p =
     (if cleanup_keep cs p (getPolicyPath server p) then getPolicyPath server p else None)"
  using assms(3) by (intro transition_set_value [OF assms(1,2)] table_facts)

text \<open>Between the old address form and the typed form no known field survives.\<close>

lemma server_boundary:
  assumes "transitionCleanupFields server dnsServerCleanupFields (server_change current type) = Inr nxt"
    and "cleanup_compatibleFields dnsServerCleanupFields (server_change current type) = Inr cs"
    and "p \<in> cf_path ` set (concat (registry_values dnsServerCleanupFields))"
    and "hasOwn dnsServerCleanupFields current" and "hasOwn dnsServerCleanupFields type"
    and "(current = ''legacy'') \<noteq> (type = ''legacy'')"
  shows "getPolicyPath (setPolicyPath nxt ''type'' v) p = None"
proof -
  have "cs = []" using assms(2,4-6) by (simp add: cleanup_compatibleFields_def server_change_def)
  then show ?thesis
    using server_set_value [OF assms(1-3)] by (auto simp: cleanup_keep_def last_by_def split: option.splits)
qed

lemma changeDNSServerType_boundary:
  assumes "changeDNSServerType server type = Inr server'"
    and "hasOwn dnsServerCleanupFields (inferDNSServerType server)" and "hasOwn dnsServerCleanupFields type"
    and "(inferDNSServerType server = ''legacy'') \<noteq> (type = ''legacy'')"
    and "p \<in> cf_path ` set (concat (registry_values dnsServerCleanupFields))"
  shows "getPolicyPath server' p = None"
proof -
  have "inferDNSServerType server \<noteq> type" using assms(4) by auto
  then obtain nxt cs
    where t: "transitionCleanupFields server dnsServerCleanupFields (server_change (inferDNSServerType server) type) = Inr nxt"
      and cs: "cleanup_compatibleFields dnsServerCleanupFields (server_change (inferDNSServerType server) type) = Inr cs"
      and "changeDNSServerType server type =
        Inr (setPolicyPath nxt ''type'' (if type = ''legacy'' then None else Some (JStr type)))"
    using assms(3) by (elim changeDNSServerType_known)
  with assms(1) have "server' = setPolicyPath nxt ''type'' (if type = ''legacy'' then None else Some (JStr type))" by simp
  then show ?thesis by (simp only: server_boundary [OF t cs assms(5,2,3,4)])
qed

lemma known_type_nonempty: "hasOwn dnsServerCleanupFields type \<Longrightarrow> type \<noteq> []"
  by (auto simp: hasOwn_def dnsServerCleanupFields_def)

lemma infer_set_type:
  assumes "type \<noteq> []"
  shows "inferDNSServerType (setPolicyPath nxt ''type'' (if type = ''legacy'' then None else Some (JStr type))) = type"
proof -
  let ?s = "setPolicyPath nxt ''type'' (if type = ''legacy'' then None else Some (JStr type))"
  have k: "path_keys ''type'' = [''type'']" by code_simp
  have "obj_get ?s ''type'' = (if type = ''legacy'' then None else Some (JStr type))"
    by (cases "type = ''legacy''") (simp_all only: getPolicyPath_single [OF k, symmetric] policy.get_put policy.get_removed simp_thms if_True if_False)
  then show ?thesis using assms by (simp add: inferDNSServerType_def)
qed

lemma changeDNSServerType_infer:
  assumes "changeDNSServerType server type = Inr server'" and "hasOwn dnsServerCleanupFields type"
  shows "inferDNSServerType server' = type"
proof (cases "inferDNSServerType server = type")
  case True
  with assms(1) show ?thesis by (simp add: changeDNSServerType_def)
next
  case False
  with assms(2) obtain nxt where "changeDNSServerType server type =
      Inr (setPolicyPath nxt ''type'' (if type = ''legacy'' then None else Some (JStr type)))"
    by (elim changeDNSServerType_known)
  with assms(1) have "server' = setPolicyPath nxt ''type'' (if type = ''legacy'' then None else Some (JStr type))" by simp
  then show ?thesis by (simp only: infer_set_type known_type_nonempty [OF assms(2)] simp_thms)
qed

subsection \<open>Properties\<close>



text \<open>
  Choosing another action of a DNS rule always succeeds for the actions of the page: the
  rule holds the action, each field of an action survives exactly when the new action shares it
  and its value fits, and every path independent of the fields of the actions, the matching
  conditions among them, reads as before.
\<close>

lemma changeDNSAction_effect:
  assumes "action \<in> set dnsActions" and "string_or (obj_get rule ''action'') [] \<noteq> action"
  shows "\<exists>rule' cs. changeDNSAction rule action = Inr rule'
     \<and> getPolicyPath rule' ''action'' = Some (JStr action)
     \<and> (\<forall>p\<in>cf_path ` set (concat (registry_values dnsActionCleanupFields)).
          getPolicyPath rule' p = (if cleanup_keep cs p (getPolicyPath rule p) then getPolicyPath rule p else None))
     \<and> (\<forall>p\<in>cf_path ` set cleanup_defaultRuleFields. getPolicyPath rule' p = getPolicyPath rule p)"
proof -
  let ?ex = "string_or (obj_get rule ''action'') []"
  let ?ch = "\<lparr>ct_current = (if ?ex \<noteq> [] then ?ex else ''route''), ct_target = action, ct_share = True\<rparr>"
  obtain fs where "map_of dnsActionCleanupFields (ct_target ?ch) = Some fs"
    using assms(1) by (force simp: dnsActions_def dnsActionCleanupFields_def)
  from transition_known [OF this] obtain nxt cs
    where t: "transitionCleanupFields rule dnsActionCleanupFields ?ch = Inr nxt"
      and cs: "cleanup_compatibleFields dnsActionCleanupFields ?ch = Inr cs" by blast
  let ?r = "setPolicyPath nxt ''action'' (Some (JStr action))"
  have "action \<noteq> []" using assms(1) by (auto simp: dnsActions_def)
  then have "changeDNSAction rule action = Inr ?r"
    using assms(2) t by (simp add: changeDNSAction_def Let_def)
  moreover have "getPolicyPath ?r p = (if cleanup_keep cs p (getPolicyPath rule p) then getPolicyPath rule p else None)"
    if "p \<in> cf_path ` set (concat (registry_values dnsActionCleanupFields))" for p
    using that by (intro transition_set_value [OF t cs] table_facts cleanup_action_compat)
  moreover have "getPolicyPath ?r p = getPolicyPath rule p" if "p \<in> cf_path ` set cleanup_defaultRuleFields" for p
  proof (intro transition_set_frame [OF t])
    have all: "paths_compat (map cf_path (cleanup_defaultRuleFields @ cfield ''action'' # concat (registry_values dnsActionCleanupFields)))"
      by (rule paths_compat_keys [where n = 2]) code_simp
    have "list_all (\<lambda>q. q \<noteq> ''domain_resolver'' \<and> q \<noteq> ''action''
        \<and> q \<notin> set (map cf_path (concat (registry_values dnsActionCleanupFields)))) (map cf_path cleanup_defaultRuleFields)"
      by code_simp
    with that have p: "p \<noteq> ''domain_resolver''" "p \<noteq> ''action''"
      "p \<notin> cf_path ` set (concat (registry_values dnsActionCleanupFields))"
      unfolding list_all_iff list.set_map by blast+
    show "p \<noteq> ''domain_resolver''" by (rule p)
    show "\<forall>q\<in>cf_path ` set (concat (registry_values dnsActionCleanupFields)). path_indep q p"
    proof
      fix q assume q: "q \<in> cf_path ` set (concat (registry_values dnsActionCleanupFields))"
      with p(3) have "q \<noteq> p" by blast
      with q that show "path_indep q p" by (intro paths_compatD [OF all]) (auto simp only: set_map set_append image_Un list.set)
    qed
    show "path_indep ''action'' p" using that p by (intro paths_compatD [OF all]) auto
  qed
  ultimately show ?thesis by (intro exI [of _ ?r] exI [of _ cs]) (simp add: policy.get_put)
qed

lemma changeDNSAction_effect_example:
  "\<exists>rule'. changeDNSAction [(''domain'', JStr ''a''), (''server'', JStr ''s'')] ''reject'' = Inr rule'
     \<and> getPolicyPath rule' ''action'' = Some (JStr ''reject'')
     \<and> getPolicyPath rule' ''domain'' = Some (JStr ''a'')"
proof -
  let ?r = "[(''domain'', JStr ''a''), (''server'', JStr ''s'')]"
  have "''reject'' \<in> set dnsActions" "string_or (obj_get ?r ''action'') [] \<noteq> ''reject''"
    "getPolicyPath ?r ''domain'' = Some (JStr ''a'')" "''domain'' \<in> set (map cf_path cleanup_defaultRuleFields)" by code_simp+
  then show ?thesis using changeDNSAction_effect [of "''reject''" ?r] by force
qed

end
