(* ===== verification/Route_Form.thy ===== *)
theory Route_Form
  imports Policy_Number Policy_Tables Dns_Form
begin

text \<open>
  The route form model, \<open>features/policy/route-form-model.ts\<close>: the rules and rule sets of the
  route section, the changes of type and action that keep the fields both sides share, the
  summaries of the cards, and the pruning after a change of a field.
\<close>

subsection \<open>Tables derived from the others\<close>

definition defaultRuleFields :: "policy_field list" where
  "defaultRuleFields = filter (\<lambda>field. pf_path field \<noteq> ''type'') routeMatchFields"

definition ruleTypeFields :: "policy_field registry" where
  "ruleTypeFields = [(''default'', defaultRuleFields), (''logical'', logicalRuleFields)]"

definition route_uniqueFields :: "policy_field list list \<Rightarrow> policy_field list" where
  "route_uniqueFields groups = first_by pf_path (concat groups)"

definition knownRuleFields :: "policy_field list" where
  "knownRuleFields = route_uniqueFields (registry_values ruleTypeFields)"

definition knownActionFields :: "policy_field list" where
  "knownActionFields = filter (\<lambda>field. pf_path field \<notin> set (map pf_path routeMatchFields))
     (route_uniqueFields (registry_values routeActionFields))"

definition knownRuleSetFields :: "policy_field list" where
  "knownRuleSetFields = route_uniqueFields (registry_values ruleSetFields)"

subsection \<open>The transition\<close>

definition is_finite_num :: "json \<Rightarrow> bool" where
  "is_finite_num v = (case v of JNum n \<Rightarrow> num_isFinite n | _ \<Rightarrow> False)"

definition policy_matchesField :: "json option \<Rightarrow> policy_field \<Rightarrow> bool" where
  "policy_matchesField v field =
     (case v of None \<Rightarrow> True
      | Some value \<Rightarrow>
          if pf_kind field = Some PBoolean then is_bool v
          else if pf_kind field = Some PNumber then is_finite_num value
          else if pf_kind field \<in> {Some PList, Some PNetworkMulti, Some PRefMulti}
            then is_str v \<or> is_string_list value
          else if pf_kind field = Some PNumberList
            then is_finite_num value \<or> (case value of JArr vs \<Rightarrow> list_all is_finite_num vs | _ \<Rightarrow> False)
          else if pf_kind field = Some PJsonObject then is_obj v
          else if pf_kind field = Some PJsonArray then is_arr v
          else is_str v \<or> is_num v \<or> is_bool v)"

record field_transition =
  ft_source :: "policy_field list"
  ft_target :: "policy_field list"
  ft_sourceKnown :: bool

definition fieldTransition :: "policy_field registry \<Rightarrow> string \<Rightarrow> string \<Rightarrow> field_transition res" where
  "fieldTransition registry source target =
     bind_res (registry_get registry target) (\<lambda>tfs.
       Inr \<lparr>ft_source = (case map_of registry source of Some fs \<Rightarrow> fs | None \<Rightarrow> []),
            ft_target = tfs, ft_sourceKnown = hasOwn registry source\<rparr>)"

definition route_compatibleFields :: "field_transition \<Rightarrow> policy_field list" where
  "route_compatibleFields tr =
     (if ft_sourceKnown tr
      then filter (\<lambda>field. list_ex (\<lambda>s. pf_path s = pf_path field \<and> pf_kind s = pf_kind field) (ft_source tr)) (ft_target tr)
      else ft_target tr)"

definition transitionFields :: "jobj \<Rightarrow> policy_field list \<Rightarrow> field_transition \<Rightarrow> jobj" where
  "transitionFields ob known tr =
     foldl (\<lambda>next field.
         case last_by pf_path (route_compatibleFields tr) (pf_path field) of
           Some target \<Rightarrow> if policy_matchesField (getPolicyPath next (pf_path field)) target then next
             else setPolicyPath next (pf_path field) None
         | None \<Rightarrow> setPolicyPath next (pf_path field) None) ob known"

subsection \<open>Rules and rule sets\<close>

definition routeRules :: "jobj \<Rightarrow> jobj list" where
  "routeRules ob = object_list (obj_get ob ''rules'')"

definition routeRuleSets :: "jobj \<Rightarrow> jobj list" where
  "routeRuleSets ob = object_list (obj_get ob ''rule_set'')"

definition setRouteRules :: "jobj \<Rightarrow> jobj list \<Rightarrow> jobj" where
  "setRouteRules ob rules = obj_set ''rules'' (JArr (map JObj rules)) ob"

definition setRouteRuleSets :: "jobj \<Rightarrow> jobj list \<Rightarrow> jobj" where
  "setRouteRuleSets ob ruleSets = obj_set ''rule_set'' (JArr (map JObj ruleSets)) ob"

definition changeRouteRuleType :: "jobj \<Rightarrow> string \<Rightarrow> jobj res" where
  "changeRouteRuleType rule type =
     (let current = string_or (obj_get rule ''type'') ''default''
      in if current = type then Inr rule
         else bind_res (fieldTransition ruleTypeFields current type) (\<lambda>tr.
              Inr (setPolicyPath (transitionFields rule knownRuleFields tr) ''type''
                     (if type = ''default'' then None else Some (JStr type)))))"

definition changeRouteAction :: "jobj \<Rightarrow> string \<Rightarrow> jobj res" where
  "changeRouteAction rule action =
     (let explicit = string_or (obj_get rule ''action'') []
      in if explicit = action \<and> explicit \<noteq> [] then Inr rule
         else let current = (if explicit \<noteq> [] then explicit else ''route'')
              in bind_res (fieldTransition routeActionFields current action) (\<lambda>tr.
                   Inr (setPolicyPath (transitionFields rule knownActionFields tr) ''action''
                          (if action = [] then None else Some (JStr action)))))"

definition changeRuleSetType :: "jobj \<Rightarrow> string \<Rightarrow> jobj res" where
  "changeRuleSetType ruleSet type =
     (let current = string_or (obj_get ruleSet ''type'') ''inline''
      in if current = type then Inr ruleSet
         else bind_res (fieldTransition ruleSetFields current type) (\<lambda>tr.
              Inr (setPolicyPath (transitionFields ruleSet knownRuleSetFields tr) ''type'' (Some (JStr type)))))"

subsection \<open>Summaries\<close>

record route_labels =
  ro_matchLabel :: "string \<Rightarrow> string"

definition defaultRouteRuleSummaryLabels :: route_labels where
  "defaultRouteRuleSummaryLabels = \<lparr>ro_matchLabel = (\<lambda>path. path)\<rparr>"

definition route_summarizeValue :: "string \<Rightarrow> json option \<Rightarrow> route_labels \<Rightarrow> string list" where
  "route_summarizeValue path v labels =
     (case v of
        Some (JArr vs) \<Rightarrow> concat (map (\<lambda>item. case item of JStr s \<Rightarrow> [s] | JNum n \<Rightarrow> [number_to_string n] | _ \<Rightarrow> []) vs)
      | Some (JStr s) \<Rightarrow> [s]
      | Some (JNum n) \<Rightarrow> [number_to_string n]
      | Some (JBool True) \<Rightarrow> [ro_matchLabel labels path]
      | _ \<Rightarrow> [])"

definition summarizeRouteRule :: "jobj \<Rightarrow> route_labels \<Rightarrow> string list \<times> string" where
  "summarizeRouteRule rule labels =
     (let matches = concat (map (\<lambda>path. route_summarizeValue path (obj_get rule path) labels) route_summaryPaths);
          action = string_or (obj_get rule ''action'') ''route''
      in (matches, case obj_get rule ''outbound'' of
            Some (JStr outbound) \<Rightarrow> if action = ''route'' then outbound else action | _ \<Rightarrow> action))"

definition summarizeRuleSet :: "jobj \<Rightarrow> string \<times> string" where
  "summarizeRuleSet ruleSet =
     (let t = stringValue (obj_get ruleSet ''type'');
          baseType = (if t \<noteq> [] then t else ''inline'');
          f = stringValue (obj_get ruleSet ''format'');
          format = (if f \<noteq> [] then summary_sep @ f else []);
          location = find is_str [obj_get ruleSet ''url'', obj_get ruleSet ''path'', obj_get ruleSet ''tag''];
          i = stringValue (obj_get ruleSet ''update_interval'');
          interval = (if i \<noteq> [] then summary_sep @ i else [])
      in (baseType @ format @ interval, case location of Some v \<Rightarrow> stringValue v | None \<Rightarrow> []))"

subsection \<open>Changes of a field\<close>

definition managedRouteGlobalFields :: "policy_field list" where
  "managedRouteGlobalFields = filter (\<lambda>field. pf_path field \<noteq> ''final'') routeGlobalFields"

definition applyRouteGlobalFieldChange :: "jobj \<Rightarrow> jobj \<Rightarrow> jobj" where
  "applyRouteGlobalFieldChange ob next = pruneInvisiblePolicyFields next managedRouteGlobalFields"

definition managedRouteRuleFields :: "string \<Rightarrow> string \<Rightarrow> policy_field list res" where
  "managedRouteRuleFields type action =
     (let match = (if type = ''logical'' then logicalRuleFields else defaultRuleFields)
      in bind_res (registry_get routeActionFields action) (\<lambda>fs. Inr (match @ fs)))"

definition applyRouteRuleFieldChange :: "jobj \<Rightarrow> jobj \<Rightarrow> jobj res" where
  "applyRouteRuleFieldChange ob next =
     (let type = string_or (nullish (obj_get next ''type'') (obj_get ob ''type'')) ''default'';
          action = string_or (nullish (obj_get next ''action'') (obj_get ob ''action'')) ''route''
      in bind_res (managedRouteRuleFields type action) (\<lambda>fs. Inr (pruneInvisiblePolicyFields next fs)))"

subsection \<open>What a transition keeps\<close>

definition route_keep :: "field_transition \<Rightarrow> string \<Rightarrow> json option \<Rightarrow> bool" where
  "route_keep tr p v =
     (case last_by pf_path (route_compatibleFields tr) p of
        None \<Rightarrow> False | Some target \<Rightarrow> policy_matchesField v target)"

lemma transitionFields_keep:
  "transitionFields ob known tr = keep_paths_with getPolicyPath setPolicyPath (route_keep tr) ob (map pf_path known)"
proof -
  have step: "(case last_by pf_path (route_compatibleFields tr) (pf_path field) of
           Some target \<Rightarrow> if policy_matchesField (getPolicyPath nxt (pf_path field)) target then nxt
             else setPolicyPath nxt (pf_path field) None
         | None \<Rightarrow> setPolicyPath nxt (pf_path field) None)
     = (if route_keep tr (pf_path field) (getPolicyPath nxt (pf_path field)) then nxt
        else setPolicyPath nxt (pf_path field) None)" for nxt field
    by (simp add: route_keep_def split: option.split)
  show ?thesis unfolding transitionFields_def step keep_paths_with_def foldl_map ..
qed

lemma transitionFields_get:
  assumes "paths_indep (map pf_path known)" and "p \<in> pf_path ` set known"
  shows "getPolicyPath (transitionFields ob known tr) p =
     (if route_keep tr p (getPolicyPath ob p) then getPolicyPath ob p else None)"
  using policy.keep_paths_value [OF assms(1), of p "route_keep tr" ob] assms(2)
  by (simp add: transitionFields_keep)

lemma transitionFields_frame:
  assumes "\<forall>p\<in>pf_path ` set known. path_indep p q"
  shows "getPolicyPath (transitionFields ob known tr) q = getPolicyPath ob q"
  using policy.keep_paths_indep [of "map pf_path known" q "route_keep tr" ob] assms
  by (simp add: transitionFields_keep)

text \<open>The transition followed by the write of the type or action key.\<close>

lemma transition_set_get:
  assumes "paths_indep (map pf_path known)" and "p \<in> pf_path ` set known"
    and "\<forall>p\<in>pf_path ` set known. path_indep p k"
  shows "getPolicyPath (setPolicyPath (transitionFields ob known tr) k v) p =
     (if route_keep tr p (getPolicyPath ob p) then getPolicyPath ob p else None)"
proof -
  have "path_indep k p" using assms(2,3) path_indep_sym by blast
  then show ?thesis by (simp add: policy.get_put_indep transitionFields_get [OF assms(1,2)])
qed

lemma route_transition_set_frame:
  assumes "\<forall>p\<in>pf_path ` set known. path_indep p q" and "path_indep k q"
  shows "getPolicyPath (setPolicyPath (transitionFields ob known tr) k v) q = getPolicyPath ob q"
  using assms by (simp add: policy.get_put_indep transitionFields_frame)

lemma known_indep:
  assumes "paths_compat (map pf_path (concat groups))"
  shows "paths_indep (map pf_path (route_uniqueFields groups))"
  unfolding route_uniqueFields_def
  by (rule paths_compat_indep [OF paths_compat_subset [OF assms]])
     (simp_all only: set_map_first_by distinct_first_by subset_refl)

lemma known_paths: "pf_path ` set (route_uniqueFields groups) = pf_path ` set (concat groups)"
  using set_map_first_by [of pf_path "concat groups"] by (simp add: route_uniqueFields_def)

subsection \<open>The tables\<close>

lemma route_rule_compat [table_facts]: "paths_compat (map pf_path (concat (registry_values ruleTypeFields)))"
  by (rule paths_compat_keys [where n = 2]) code_simp

lemma route_rule_set_compat [table_facts]: "paths_compat (map pf_path (concat (registry_values ruleSetFields)))"
  by (rule paths_compat_keys [where n = 2]) code_simp

lemma route_action_all_compat:
  "paths_compat (''action'' # map pf_path (routeMatchFields @ concat (registry_values routeActionFields)))"
proof -
  let ?base = "''action'' # ''outbound'' # map pf_path (routeMatchFields @ routeOptionFields @ directFields
    @ concat (registry_values (filter (\<lambda>r. fst r \<in> {''reject'', ''sniff'', ''resolve''}) routeActionFields)))"
  have "paths_compat ?base" by (rule paths_compat_keys [where n = 3]) code_simp
  then show ?thesis
    by (rule paths_compat_subset) (simp add: registry_values_def routeActionFields_def route_outboundFields_def, blast)
qed

lemma route_action_compat [table_facts]: "paths_compat (map pf_path (concat (registry_values routeActionFields)))"
  by (rule paths_compat_subset [OF route_action_all_compat]) auto

lemma known_action_indep: "paths_indep (map pf_path knownActionFields)"
  unfolding knownActionFields_def
  using known_indep [OF route_action_compat]
  by (metis (no_types, lifting) distinct_map_filter paths_compat_indep paths_compat_subset paths_indep_distinct
      route_action_compat known_paths filter_is_subset image_mono list.set_map)

lemma route_action_known:
  assumes "action \<in> set routeActions"
  obtains fs where "map_of routeActionFields action = Some fs"
  using assms by (force simp: routeActions_def routeActionFields_def)

lemma route_match_indep:
  assumes "q \<in> set (''action'' # map pf_path routeMatchFields)"
  shows "\<forall>p\<in>pf_path ` set knownActionFields. path_indep p q"
proof
  fix p assume p: "p \<in> pf_path ` set knownActionFields"
  then have in_all: "p \<in> set (map pf_path (concat (registry_values routeActionFields)))"
    unfolding knownActionFields_def using known_paths [of "registry_values routeActionFields"] by auto
  have "p \<noteq> ''action''"
  proof -
    have "list_all (\<lambda>q. q \<noteq> ''action'') (map pf_path (concat (registry_values routeActionFields)))"
      by code_simp
    then show ?thesis using in_all by (auto simp: list_all_iff)
  qed
  moreover from p have "p \<notin> set (map pf_path routeMatchFields)" by (auto simp: knownActionFields_def)
  ultimately have "p \<noteq> q" using assms by auto
  then show "path_indep p q"
    using assms in_all by (intro paths_compatD [OF route_action_all_compat]) auto
qed

lemma action_match_indep: "\<forall>p\<in>pf_path ` set routeMatchFields. path_indep ''action'' p"
proof
  fix p assume p: "p \<in> pf_path ` set routeMatchFields"
  have "list_all (\<lambda>q. q \<noteq> ''action'') (map pf_path routeMatchFields)" by code_simp
  with p have "p \<noteq> ''action''" by (auto simp: list_all_iff)
  with p show "path_indep ''action'' p" by (intro paths_compatD [OF route_action_all_compat]) auto
qed

subsection \<open>Properties\<close>



text \<open>The types of a rule and of a rule set.\<close>

lemma type_rule_indep: "\<forall>p\<in>pf_path ` set knownRuleFields. path_indep p ''type''"
proof -
  have "\<forall>p\<in>set (map pf_path (concat (registry_values ruleTypeFields))). path_indep p ''type'' \<and> path_indep ''type'' p"
    by (rule paths_compat_key [where n = 2]) code_simp+
  then show ?thesis unfolding knownRuleFields_def known_paths by (simp only: list.set_map) blast
qed

lemma type_rule_set_indep: "\<forall>p\<in>pf_path ` set knownRuleSetFields. path_indep p ''type''"
proof -
  have "\<forall>p\<in>set (map pf_path (concat (registry_values ruleSetFields))). path_indep p ''type'' \<and> path_indep ''type'' p"
    by (rule paths_compat_key [where n = 2]) code_simp+
  then show ?thesis unfolding knownRuleSetFields_def known_paths by (simp only: list.set_map) blast
qed

text \<open>
  Choosing another type of a rule set: the rule set holds the new type, each field of the
  three types survives exactly when the new type shares it and its value fits, and every other
  path is untouched.
\<close>

lemma changeRuleSetType_effect:
  assumes "type \<in> set ruleSetTypes" and "string_or (obj_get ruleSet ''type'') ''inline'' \<noteq> type"
  shows "\<exists>next tr. changeRuleSetType ruleSet type = Inr next
     \<and> fieldTransition ruleSetFields (string_or (obj_get ruleSet ''type'') ''inline'') type = Inr tr
     \<and> getPolicyPath next ''type'' = Some (JStr type)
     \<and> (\<forall>p\<in>pf_path ` set knownRuleSetFields.
          getPolicyPath next p = (if route_keep tr p (getPolicyPath ruleSet p) then getPolicyPath ruleSet p else None))
     \<and> (\<forall>q. (\<forall>p\<in>{''type''} \<union> pf_path ` set knownRuleSetFields. path_indep p q) \<longrightarrow>
          getPolicyPath next q = getPolicyPath ruleSet q)"
proof -
  let ?cur = "string_or (obj_get ruleSet ''type'') ''inline''"
  obtain fs where fs: "map_of ruleSetFields type = Some fs"
    using assms(1) by (force simp: ruleSetTypes_def ruleSetFields_def)
  then obtain tr where tr: "fieldTransition ruleSetFields ?cur type = Inr tr"
    by (simp add: fieldTransition_def registry_get_own)
  let ?next = "setPolicyPath (transitionFields ruleSet knownRuleSetFields tr) ''type'' (Some (JStr type))"
  have "changeRuleSetType ruleSet type = Inr ?next"
    using assms(2) tr by (simp add: changeRuleSetType_def Let_def)
  moreover have "getPolicyPath ?next p = (if route_keep tr p (getPolicyPath ruleSet p) then getPolicyPath ruleSet p else None)"
    if "p \<in> pf_path ` set knownRuleSetFields" for p
    using known_indep [OF route_rule_set_compat] that type_rule_set_indep
    unfolding knownRuleSetFields_def by (intro transition_set_get)
  moreover have "getPolicyPath ?next q = getPolicyPath ruleSet q"
    if "\<forall>p\<in>{''type''} \<union> pf_path ` set knownRuleSetFields. path_indep p q" for q
    using that by (intro route_transition_set_frame) auto
  ultimately show ?thesis using tr by (intro exI [of _ ?next] exI [of _ tr]) (simp add: policy.get_put)
qed

lemma changeRuleSetType_effect_example:
  "\<exists>next. changeRuleSetType [(''tag'', JStr ''geo''), (''type'', JStr ''remote''), (''url'', JStr ''u'')] ''local'' = Inr next
     \<and> getPolicyPath next ''type'' = Some (JStr ''local'')"
proof -
  let ?rs = "[(''tag'', JStr ''geo''), (''type'', JStr ''remote''), (''url'', JStr ''u'')]"
  have "''local'' \<in> set ruleSetTypes" and "string_or (obj_get ?rs ''type'') ''inline'' \<noteq> ''local''" by code_simp+
  then show ?thesis using changeRuleSetType_effect [of "''local''" ?rs] by metis
qed

end
