(* ===== verification/Proxy_Form.thy ===== *)
theory Proxy_Form
  imports Policy_Form
begin

text \<open>
  The form model of the proxy pages, \<open>features/proxy/proxy-form-model.ts\<close>. It is a second
  copy of the policy model over its own field type; it interprets the same interface.
\<close>

datatype proxy_kind = FText | FTextarea | FNumber | FBoolean | FList | FNumberList | FSelect
  | FJsonObject | FUsers | FListenAddress | FNetworkInterface | FRef | FNetworkMulti

datatype proxy_ref = FRInbound | FRDnsServer | FROutbound | FRNetworkInterfaceMulti

record proxy_field =
  ff_path :: string
  ff_label :: string
  ff_kind :: "proxy_kind option"
  ff_options :: "string list option"
  ff_when :: "when_spec option"
  ff_section :: "string option"
  ff_ref :: "proxy_ref option"

definition ffield :: "string \<Rightarrow> string \<Rightarrow> proxy_field" where
  "ffield p l = \<lparr>ff_path = p, ff_label = l, ff_kind = None, ff_options = None, ff_when = None,
     ff_section = None, ff_ref = None\<rparr>"

lemma ffield_simps [simp]:
  "ff_path (ffield p l) = p" "ff_label (ffield p l) = l" "ff_kind (ffield p l) = None"
  "ff_options (ffield p l) = None" "ff_when (ffield p l) = None" "ff_section (ffield p l) = None"
  "ff_ref (ffield p l) = None"
  by (simp_all add: ffield_def)

subsection \<open>Paths\<close>

definition getPath :: "jobj \<Rightarrow> string \<Rightarrow> json option" where
  "getPath ob path =
     foldl (\<lambda>value key. case value of Some (JObj c) \<Rightarrow> obj_get c key | _ \<Rightarrow> None)
       (Some (JObj ob)) (path_keys path)"

text \<open>The local function \<open>update(source, index)\<close> of \<open>setPath\<close>.\<close>

fun update_keys :: "string list \<Rightarrow> json option \<Rightarrow> jobj \<Rightarrow> jobj" where
  "update_keys [] value source = source"
| "update_keys [key] value source =
     (case value of None \<Rightarrow> obj_del key source | Some v \<Rightarrow> obj_set key v source)"
| "update_keys (key # key' # keys) value source =
     (let updated = update_keys (key' # keys) value (case obj_get source key of Some (JObj c) \<Rightarrow> c | _ \<Rightarrow> [])
      in if length (obj_keys updated) \<noteq> 0 then obj_set key (JObj updated) source
         else obj_del key source)"

definition setPath :: "jobj \<Rightarrow> string \<Rightarrow> json option \<Rightarrow> jobj" where
  "setPath ob path value = update_keys (path_keys path) value ob"

lemma getPath_keys: "getPath ob p = get_keys (path_keys p) ob"
  by (simp add: getPath_def foldl_get_keys)

lemma update_keys_set_keys: "update_keys ks v ob = set_keys ks v ob"
  by (induction ks v ob rule: update_keys.induct) (auto simp: child_obj_def obj_keys_def Let_def)

lemma setPath_keys: "setPath ob p v = set_keys (path_keys p) v ob"
  by (simp add: setPath_def update_keys_set_keys)

interpretation proxy: path_store getPath setPath obj_nodes
  by unfold_locales
     (auto simp: getPath_keys setPath_keys get_set_keys get_del_keys path_indep_def
        get_set_keys_indep get_del_keys_mono nodes_del_keys)

lemma getPath_single: "path_keys p = [k] \<Longrightarrow> getPath ob p = obj_get ob k"
  by (simp add: getPath_keys)

lemma wf_setPath: "wf_obj ob \<Longrightarrow> (\<forall>x. v = Some x \<longrightarrow> wf_json x) \<Longrightarrow> wf_obj (setPath ob p v)"
  by (simp add: setPath_keys wf_set_keys)

subsection \<open>Visibility and pruning\<close>

definition proxy_isFalsy :: "json option \<Rightarrow> bool" where
  "proxy_isFalsy v = (case v of None \<Rightarrow> True | Some JNull \<Rightarrow> True | Some (JBool b) \<Rightarrow> \<not> b
     | Some (JStr s) \<Rightarrow> s = [] | Some (JArr vs) \<Rightarrow> vs = [] | _ \<Rightarrow> False)"

definition proxy_matchesWhen :: "jobj \<Rightarrow> field_when \<Rightarrow> bool" where
  "proxy_matchesWhen ob rule =
     (let value = getPath ob (w_path rule)
      in if w_falsy rule then proxy_isFalsy value
         else case w_is rule of
             Some (JArr allowed) \<Rightarrow> list_ex (\<lambda>item. object_is item value) allowed
           | Some v \<Rightarrow> object_is v value
           | None \<Rightarrow> \<not> proxy_isFalsy value)"

definition isFieldVisible :: "jobj \<Rightarrow> proxy_field \<Rightarrow> bool" where
  "isFieldVisible ob field =
     (case ff_when field of None \<Rightarrow> True
      | Some (WhenOne rule) \<Rightarrow> proxy_matchesWhen ob rule
      | Some (WhenAll rules) \<Rightarrow> list_all (proxy_matchesWhen ob) rules)"

definition visibleFields :: "proxy_field list \<Rightarrow> jobj \<Rightarrow> proxy_field list" where
  "visibleFields specs ob = filter (isFieldVisible ob) specs"

definition groupFieldsBySection :: "proxy_field list \<Rightarrow> (string option \<times> proxy_field list) list" where
  "groupFieldsBySection specs = foldl (add_to_groups ff_section) [] specs"

function pruneInvisibleFields :: "jobj \<Rightarrow> proxy_field list \<Rightarrow> jobj" where
  "pruneInvisibleFields ob specs =
     (let (next, changed) = prune_pass getPath setPath isFieldVisible ff_path ob specs
      in if changed then pruneInvisibleFields next specs else next)"
  by pat_completeness auto
termination
  by (relation "measure (\<lambda>(ob, specs). obj_nodes ob)")
     (auto dest: proxy.prune_pass_weight [OF sym])

declare pruneInvisibleFields.simps [simp del]

lemmas proxy_prune_eq = pruneInvisibleFields.simps [of _ specs for specs]
lemmas proxy_prune_settled = proxy.prune_settled [of "\<lambda>ob. pruneInvisibleFields ob specs" for specs, OF proxy_prune_eq]
lemmas proxy_prune_stable = proxy.prune_stable [of "\<lambda>ob. pruneInvisibleFields ob specs" for specs, OF proxy_prune_eq]
lemmas proxy_prune_idem = proxy.prune_idem [of "\<lambda>ob. pruneInvisibleFields ob specs" for specs, OF proxy_prune_eq]
lemmas proxy_prune_keeps = proxy.prune_keeps [of "\<lambda>ob. pruneInvisibleFields ob specs" for specs, OF proxy_prune_eq]
lemmas proxy_prune_only_removes =
  proxy.prune_only_removes [of "\<lambda>ob. pruneInvisibleFields ob specs" for specs, OF proxy_prune_eq]
lemmas proxy_prune_mono = proxy.prune_mono [of "\<lambda>ob. pruneInvisibleFields ob specs" for specs, OF proxy_prune_eq]

subsection \<open>Tags\<close>

definition configTags :: "json option \<Rightarrow> string option \<Rightarrow> string list" where
  "configTags items cur =
     (case items of Some (JArr vs) \<Rightarrow>
        js_unique (concat (map (\<lambda>item. case item of
            JObj c \<Rightarrow> (case obj_get c ''tag'' of
                Some (JStr tag) \<Rightarrow> if tag \<noteq> [] \<and> Some tag \<noteq> cur then [tag] else []
              | _ \<Rightarrow> [])
          | _ \<Rightarrow> []) vs))
      | _ \<Rightarrow> [])"

definition dnsServerTags :: "json option \<Rightarrow> string list" where
  "dnsServerTags dns =
     (case dns of Some (JObj c) \<Rightarrow> configTags (obj_get c ''servers'') None | _ \<Rightarrow> [])"

text \<open>The copy agrees with the policy model.\<close>

lemma getPath_getPolicyPath: "getPath ob p = getPolicyPath ob p"
  by (simp add: getPath_def getPolicyPath_def)

lemma setPath_setPolicyPath: "setPath ob p v = setPolicyPath ob p v"
  by (simp add: setPath_keys setPolicyPath_keys)

lemma proxy_isFalsy_isFalsy: "proxy_isFalsy = isFalsy"
  by (rule ext) (simp add: proxy_isFalsy_def isFalsy_def)

lemma proxy_matchesWhen_matchesWhen: "proxy_matchesWhen ob rule = matchesWhen ob rule"
  unfolding proxy_matchesWhen_def matchesWhen_def proxy_isFalsy_isFalsy getPath_getPolicyPath ..

lemma configTags_policyConfigTags: "configTags items cur = policyConfigTags items cur"
  by (simp add: configTags_def policyConfigTags_def)

text \<open>A field of the proxy pages as a field of the policy pages, for what pruning looks at.\<close>

definition as_policy_field :: "proxy_field \<Rightarrow> policy_field" where
  "as_policy_field field = (pfield (ff_path field) (ff_label field))\<lparr>pf_section := ff_section field, pf_when := ff_when field\<rparr>"

lemma as_policy_field_simps [simp]:
  "pf_path (as_policy_field f) = ff_path f" "pf_when (as_policy_field f) = ff_when f"
  "pf_section (as_policy_field f) = ff_section f"
  by (simp_all add: as_policy_field_def)

lemma isFieldVisible_as_policy: "isFieldVisible ob f = isPolicyFieldVisible ob (as_policy_field f)"
  by (simp add: isFieldVisible_def isPolicyFieldVisible_def proxy_matchesWhen_matchesWhen [abs_def] split: option.split when_spec.split)

lemma prune_pass_as_policy:
  "prune_pass getPath setPath isFieldVisible ff_path ob specs =
     prune_pass getPolicyPath setPolicyPath isPolicyFieldVisible pf_path ob (map as_policy_field specs)"
proof -
  have "prune_step getPath setPath isFieldVisible ff_path
     = (\<lambda>a f. prune_step getPolicyPath setPolicyPath isPolicyFieldVisible pf_path a (as_policy_field f))"
    by (intro ext) (auto simp: prune_step_def isFieldVisible_as_policy getPath_getPolicyPath setPath_setPolicyPath)
  then show ?thesis unfolding prune_pass_def foldl_map by simp
qed

abbreviation as_policy_group :: "string option \<times> proxy_field list \<Rightarrow> string option \<times> policy_field list" where
  "as_policy_group \<equiv> (\<lambda>(section, fs). (section, map as_policy_field fs))"

lemma add_to_groups_as_policy:
  "map as_policy_group (add_to_groups ff_section gs f) = add_to_groups pf_section (map as_policy_group gs) (as_policy_field f)"
  by (cases gs rule: rev_cases) (auto simp: add_to_groups_def split: prod.splits)

lemma groupFieldsBySection_as_policy:
  "map as_policy_group (groupFieldsBySection specs) = groupPolicyFieldsBySection (map as_policy_field specs)"
proof -
  have "map as_policy_group (foldl (add_to_groups ff_section) gs specs)
     = foldl (add_to_groups pf_section) (map as_policy_group gs) (map as_policy_field specs)" for gs
    by (induction specs arbitrary: gs) (simp_all add: add_to_groups_as_policy)
  from this [of "[]"] show ?thesis by (simp add: groupFieldsBySection_def groupPolicyFieldsBySection_def)
qed

subsection \<open>Properties\<close>

text \<open>
  C26: The proxy pages carry their own copy of the form model. On every object and every list of
  fields its pruning, its grouping into sections and its tag lists compute what those of the
  policy pages compute.
\<close>

theorem proxy_model_equals_policy_model:
  "pruneInvisibleFields ob specs = pruneInvisiblePolicyFields ob (map as_policy_field specs)
     \<and> map (\<lambda>(section, fs). (section, map as_policy_field fs)) (groupFieldsBySection specs)
         = groupPolicyFieldsBySection (map as_policy_field specs)
     \<and> configTags items cur = policyConfigTags items cur"
proof (intro conjI)
  show "pruneInvisibleFields ob specs = pruneInvisiblePolicyFields ob (map as_policy_field specs)"
  proof (induction ob specs rule: pruneInvisibleFields.induct)
    case (1 ob specs)
    show ?case
      using 1 by (subst proxy_prune_eq, subst policy_prune_eq)
        (auto simp: prune_pass_as_policy split: prod.splits)
  qed
  show "configTags items cur = policyConfigTags items cur" by (rule configTags_policyConfigTags)
qed (rule groupFieldsBySection_as_policy)

end
