(* ===== verification/Proxy_Tables.thy ===== *)
theory Proxy_Tables
  imports Proxy_Form
begin

text \<open>
  The field tables of the proxy pages, in the order of the source:
  \<open>outbound-form-model.ts\<close> and \<open>inbound-form-model.ts\<close> of \<open>features/proxy\<close>.
\<close>

subsection \<open>Fields of an outbound\<close>

definition outboundTypes :: "string list" where
  "outboundTypes =
     [''direct'', ''block'', ''selector'', ''urltest'', ''socks'', ''http'', ''shadowsocks'',
      ''vmess'', ''vless'', ''trojan'', ''naive'', ''hysteria'', ''hysteria2'', ''tuic'', ''ssh'',
      ''tor'', ''shadowtls'', ''anytls'']"

definition outbound_tlsVersions :: "string list" where
  "outbound_tlsVersions = [''1.0'', ''1.1'', ''1.2'', ''1.3'']"

definition ssMethods :: "string list" where
  "ssMethods =
     [''2022-blake3-aes-128-gcm'', ''2022-blake3-aes-256-gcm'', ''2022-blake3-chacha20-poly1305'',
      ''aes-128-gcm'', ''aes-192-gcm'', ''aes-256-gcm'', ''chacha20-ietf-poly1305'',
      ''xchacha20-ietf-poly1305'', ''none'']"

definition outbound_tlsOn :: "field_when" where
  "outbound_tlsOn = when_is ''tls.enabled'' (JBool True)"

definition outbound_utlsOn :: "field_when list" where
  "outbound_utlsOn =
     [outbound_tlsOn, when_is ''tls.utls.enabled'' (JBool True)]"

definition outbound_realityOn :: "field_when list" where
  "outbound_realityOn =
     [outbound_tlsOn, when_is ''tls.reality.enabled'' (JBool True)]"

definition outbound_echOn :: "field_when list" where
  "outbound_echOn =
     [outbound_tlsOn, when_is ''tls.ech.enabled'' (JBool True)]"

definition outbound_fragmentOn :: "field_when list" where
  "outbound_fragmentOn =
     [outbound_tlsOn, when_is ''tls.fragment'' (JBool True)]"

definition outbound_muxOn :: "field_when" where
  "outbound_muxOn = when_is ''multiplex.enabled'' (JBool True)"

definition outbound_brutalOn :: "field_when list" where
  "outbound_brutalOn =
     [outbound_muxOn, when_is ''multiplex.brutal.enabled'' (JBool True)]"

definition outbound_udpOverTCPOn :: "field_when" where
  "outbound_udpOverTCPOn =
     when_is ''udp_over_tcp.enabled'' (JBool True)"

definition outbound_keepAliveOn :: "field_when" where
  "outbound_keepAliveOn = when_falsy ''disable_tcp_keep_alive''"

definition outbound_dialerFields :: "proxy_field list" where
  "outbound_dialerFields =
     [(ffield ''detour'' ''detour'')\<lparr>ff_kind := Some FRef, ff_ref := Some FROutbound, ff_section := Some ''bind''\<rparr>,
      (ffield ''bind_interface'' ''bindInterface'')\<lparr>ff_kind := Some FNetworkInterface, ff_section := Some ''bind''\<rparr>,
      (ffield ''inet4_bind_address'' ''inet4BindAddress'')\<lparr>ff_section := Some ''bind''\<rparr>,
      (ffield ''inet6_bind_address'' ''inet6BindAddress'')\<lparr>ff_section := Some ''bind''\<rparr>,
      (ffield ''bind_address_no_port'' ''bindAddressNoPort'')\<lparr>ff_kind := Some FBoolean, ff_section := Some ''bind''\<rparr>,
      (ffield ''protect_path'' ''protectPath'')\<lparr>ff_section := Some ''bind''\<rparr>,
      (ffield ''routing_mark'' ''routingMark'')\<lparr>ff_section := Some ''bind''\<rparr>,
      (ffield ''reuse_addr'' ''reuseAddress'')\<lparr>ff_kind := Some FBoolean, ff_section := Some ''bind''\<rparr>,
      (ffield ''netns'' ''networkNamespace'')\<lparr>ff_section := Some ''bind''\<rparr>,
      (ffield ''connect_timeout'' ''connectTimeout'')\<lparr>ff_section := Some ''bind''\<rparr>,
      (ffield ''tcp_fast_open'' ''tcpFastOpen'')\<lparr>ff_kind := Some FBoolean, ff_section := Some ''tcp''\<rparr>,
      (ffield ''tcp_multi_path'' ''tcpMultiPath'')\<lparr>ff_kind := Some FBoolean, ff_section := Some ''tcp''\<rparr>,
      (ffield ''disable_tcp_keep_alive'' ''disableTCPKeepAlive'')\<lparr>ff_kind := Some FBoolean, ff_section := Some ''tcp''\<rparr>,
      (ffield ''tcp_keep_alive'' ''tcpKeepAlive'')\<lparr>ff_section := Some ''tcp'', ff_when := Some (WhenOne outbound_keepAliveOn)\<rparr>,
      (ffield ''tcp_keep_alive_interval'' ''tcpKeepAliveInterval'')\<lparr>ff_section := Some ''tcp'', ff_when := Some (WhenOne outbound_keepAliveOn)\<rparr>,
      (ffield ''udp_fragment'' ''udpFragment'')\<lparr>ff_kind := Some FSelect, ff_options := Some [''true'', ''false''], ff_section := Some ''udp''\<rparr>,
      (ffield ''domain_resolver.server'' ''domainResolverServer'')\<lparr>ff_kind := Some FRef, ff_ref := Some FRDnsServer, ff_section := Some ''dns''\<rparr>,
      (ffield ''domain_resolver.strategy'' ''domainResolverStrategy'')\<lparr>ff_kind := Some FSelect, ff_options := Some [''prefer_ipv4'', ''prefer_ipv6'', ''ipv4_only'', ''ipv6_only''], ff_section := Some ''dns''\<rparr>,
      (ffield ''domain_resolver.disable_cache'' ''domainResolverDisableCache'')\<lparr>ff_kind := Some FBoolean, ff_section := Some ''dns''\<rparr>,
      (ffield ''domain_resolver.rewrite_ttl'' ''domainResolverRewriteTTL'')\<lparr>ff_kind := Some FNumber, ff_section := Some ''dns''\<rparr>,
      (ffield ''domain_resolver.client_subnet'' ''domainResolverClientSubnet'')\<lparr>ff_section := Some ''dns''\<rparr>,
      (ffield ''network_strategy'' ''networkStrategy'')\<lparr>ff_kind := Some FSelect, ff_options := Some [''default'', ''fallback'', ''hybrid''], ff_section := Some ''strategy''\<rparr>,
      (ffield ''network_type'' ''networkType'')\<lparr>ff_kind := Some FList, ff_section := Some ''strategy''\<rparr>,
      (ffield ''fallback_network_type'' ''fallbackNetworkType'')\<lparr>ff_kind := Some FList, ff_section := Some ''strategy''\<rparr>,
      (ffield ''fallback_delay'' ''fallbackDelay'')\<lparr>ff_section := Some ''strategy''\<rparr>]"

definition outbound_network :: "proxy_field" where
  "outbound_network =
     (ffield ''network'' ''network'')\<lparr>ff_kind := Some FNetworkMulti, ff_section := Some ''protocol''\<rparr>"

definition outbound_udpOverTCP :: "proxy_field list" where
  "outbound_udpOverTCP =
     [(ffield ''udp_over_tcp.enabled'' ''udpOverTCPEnabled'')\<lparr>ff_kind := Some FBoolean, ff_section := Some ''protocol''\<rparr>,
      (ffield ''udp_over_tcp.version'' ''udpOverTCPVersion'')\<lparr>ff_kind := Some FNumber, ff_section := Some ''protocol'', ff_when := Some (WhenOne outbound_udpOverTCPOn)\<rparr>]"

definition outbound_protocolMap :: "proxy_field registry" where
  "outbound_protocolMap =
     [(''direct'', []),
      (''block'', []),
      (''selector'', []),
      (''urltest'', []),
      (''socks'',
         [(ffield ''version'' ''version'')\<lparr>ff_kind := Some FSelect, ff_options := Some [''4'', ''4a'', ''5''], ff_section := Some ''auth''\<rparr>,
          (ffield ''username'' ''username'')\<lparr>ff_section := Some ''auth''\<rparr>,
          (ffield ''password'' ''password'')\<lparr>ff_section := Some ''auth''\<rparr>,
          outbound_network] @
         outbound_udpOverTCP),
      (''http'',
         [(ffield ''username'' ''username'')\<lparr>ff_section := Some ''auth''\<rparr>,
          (ffield ''password'' ''password'')\<lparr>ff_section := Some ''auth''\<rparr>,
          (ffield ''path'' ''httpPath'')\<lparr>ff_section := Some ''protocol''\<rparr>,
          (ffield ''headers'' ''headers'')\<lparr>ff_kind := Some FJsonObject, ff_section := Some ''protocol''\<rparr>]),
      (''shadowsocks'',
         [(ffield ''method'' ''method'')\<lparr>ff_kind := Some FSelect, ff_options := Some ssMethods, ff_section := Some ''auth''\<rparr>,
          (ffield ''password'' ''password'')\<lparr>ff_section := Some ''auth''\<rparr>,
          (ffield ''plugin'' ''plugin'')\<lparr>ff_section := Some ''protocol''\<rparr>,
          (ffield ''plugin_opts'' ''pluginOptions'')\<lparr>ff_section := Some ''protocol''\<rparr>,
          outbound_network] @
         outbound_udpOverTCP),
      (''vmess'',
         [(ffield ''uuid'' ''uuid'')\<lparr>ff_section := Some ''auth''\<rparr>,
          (ffield ''security'' ''security'')\<lparr>ff_kind := Some FSelect, ff_options := Some [''auto'', ''none'', ''zero'', ''aes-128-gcm'', ''chacha20-poly1305''], ff_section := Some ''auth''\<rparr>,
          (ffield ''alter_id'' ''alterId'')\<lparr>ff_kind := Some FNumber, ff_section := Some ''auth''\<rparr>,
          (ffield ''global_padding'' ''globalPadding'')\<lparr>ff_kind := Some FBoolean, ff_section := Some ''protocol''\<rparr>,
          (ffield ''authenticated_length'' ''authenticatedLength'')\<lparr>ff_kind := Some FBoolean, ff_section := Some ''protocol''\<rparr>,
          outbound_network,
          (ffield ''packet_encoding'' ''packetEncoding'')\<lparr>ff_kind := Some FSelect, ff_options := Some [''packetaddr'', ''xudp''], ff_section := Some ''protocol''\<rparr>]),
      (''vless'',
         [(ffield ''uuid'' ''uuid'')\<lparr>ff_section := Some ''auth''\<rparr>,
          (ffield ''flow'' ''flow'')\<lparr>ff_kind := Some FSelect, ff_options := Some [''xtls-rprx-vision''], ff_section := Some ''auth''\<rparr>,
          outbound_network,
          (ffield ''packet_encoding'' ''packetEncoding'')\<lparr>ff_kind := Some FSelect, ff_options := Some [''packetaddr'', ''xudp''], ff_section := Some ''protocol''\<rparr>]),
      (''trojan'',
         [(ffield ''password'' ''password'')\<lparr>ff_section := Some ''auth''\<rparr>,
          outbound_network]),
      (''naive'',
         [(ffield ''username'' ''username'')\<lparr>ff_section := Some ''auth''\<rparr>,
          (ffield ''password'' ''password'')\<lparr>ff_section := Some ''auth''\<rparr>,
          (ffield ''insecure_concurrency'' ''insecureConcurrency'')\<lparr>ff_kind := Some FNumber, ff_section := Some ''protocol''\<rparr>,
          (ffield ''extra_headers'' ''extraHeaders'')\<lparr>ff_kind := Some FJsonObject, ff_section := Some ''protocol''\<rparr>,
          (ffield ''stream_receive_window'' ''streamReceiveWindow'')\<lparr>ff_section := Some ''protocol''\<rparr>] @
         outbound_udpOverTCP @
         [(ffield ''quic'' ''quic'')\<lparr>ff_kind := Some FBoolean, ff_section := Some ''protocol''\<rparr>,
          (ffield ''quic_congestion_control'' ''quicCongestionControl'')\<lparr>ff_section := Some ''protocol'', ff_when := Some (WhenOne (when_is ''quic'' (JBool True)))\<rparr>,
          (ffield ''quic_session_receive_window'' ''quicSessionReceiveWindow'')\<lparr>ff_section := Some ''protocol'', ff_when := Some (WhenOne (when_is ''quic'' (JBool True)))\<rparr>]),
      (''hysteria'',
         [(ffield ''server_ports'' ''serverPorts'')\<lparr>ff_kind := Some FList, ff_section := Some ''protocol''\<rparr>,
          (ffield ''hop_interval'' ''hopInterval'')\<lparr>ff_section := Some ''protocol''\<rparr>,
          (ffield ''up'' ''uploadBandwidth'')\<lparr>ff_section := Some ''protocol''\<rparr>,
          (ffield ''up_mbps'' ''uploadMbps'')\<lparr>ff_kind := Some FNumber, ff_section := Some ''protocol''\<rparr>,
          (ffield ''down'' ''downloadBandwidth'')\<lparr>ff_section := Some ''protocol''\<rparr>,
          (ffield ''down_mbps'' ''downloadMbps'')\<lparr>ff_kind := Some FNumber, ff_section := Some ''protocol''\<rparr>,
          (ffield ''obfs'' ''obfuscation'')\<lparr>ff_section := Some ''protocol''\<rparr>,
          (ffield ''auth'' ''auth'')\<lparr>ff_section := Some ''auth''\<rparr>,
          (ffield ''auth_str'' ''authString'')\<lparr>ff_section := Some ''auth''\<rparr>,
          (ffield ''recv_window_conn'' ''receiveWindowConnection'')\<lparr>ff_kind := Some FNumber, ff_section := Some ''protocol''\<rparr>,
          (ffield ''recv_window'' ''receiveWindow'')\<lparr>ff_kind := Some FNumber, ff_section := Some ''protocol''\<rparr>,
          (ffield ''disable_mtu_discovery'' ''disableMTUDiscovery'')\<lparr>ff_kind := Some FBoolean, ff_section := Some ''protocol''\<rparr>,
          outbound_network]),
      (''hysteria2'',
         [(ffield ''server_ports'' ''serverPorts'')\<lparr>ff_kind := Some FList, ff_section := Some ''protocol''\<rparr>,
          (ffield ''hop_interval'' ''hopInterval'')\<lparr>ff_section := Some ''protocol''\<rparr>,
          (ffield ''up_mbps'' ''uploadMbps'')\<lparr>ff_kind := Some FNumber, ff_section := Some ''protocol''\<rparr>,
          (ffield ''down_mbps'' ''downloadMbps'')\<lparr>ff_kind := Some FNumber, ff_section := Some ''protocol''\<rparr>,
          (ffield ''obfs.type'' ''obfuscationType'')\<lparr>ff_kind := Some FSelect, ff_options := Some [''salamander''], ff_section := Some ''protocol''\<rparr>,
          (ffield ''obfs.password'' ''obfuscationPassword'')\<lparr>ff_section := Some ''protocol'', ff_when := Some (WhenOne (when_is ''obfs.type'' (JStr ''salamander'')))\<rparr>,
          (ffield ''password'' ''password'')\<lparr>ff_section := Some ''auth''\<rparr>,
          outbound_network,
          (ffield ''brutal_debug'' ''brutalDebug'')\<lparr>ff_kind := Some FBoolean, ff_section := Some ''protocol''\<rparr>]),
      (''tuic'',
         [(ffield ''uuid'' ''uuid'')\<lparr>ff_section := Some ''auth''\<rparr>,
          (ffield ''password'' ''password'')\<lparr>ff_section := Some ''auth''\<rparr>,
          (ffield ''congestion_control'' ''congestionControl'')\<lparr>ff_kind := Some FSelect, ff_options := Some [''cubic'', ''new_reno'', ''bbr''], ff_section := Some ''protocol''\<rparr>,
          (ffield ''udp_relay_mode'' ''udpRelayMode'')\<lparr>ff_kind := Some FSelect, ff_options := Some [''native'', ''quic''], ff_section := Some ''protocol''\<rparr>,
          (ffield ''udp_over_stream'' ''udpOverStream'')\<lparr>ff_kind := Some FBoolean, ff_section := Some ''protocol''\<rparr>,
          (ffield ''zero_rtt_handshake'' ''zeroRTTHandshake'')\<lparr>ff_kind := Some FBoolean, ff_section := Some ''protocol''\<rparr>,
          (ffield ''heartbeat'' ''heartbeat'')\<lparr>ff_section := Some ''protocol''\<rparr>,
          outbound_network]),
      (''ssh'',
         [(ffield ''user'' ''sshUser'')\<lparr>ff_section := Some ''auth''\<rparr>,
          (ffield ''password'' ''password'')\<lparr>ff_section := Some ''auth''\<rparr>,
          (ffield ''private_key'' ''privateKey'')\<lparr>ff_kind := Some FTextarea, ff_section := Some ''auth''\<rparr>,
          (ffield ''private_key_path'' ''privateKeyPath'')\<lparr>ff_section := Some ''auth''\<rparr>,
          (ffield ''private_key_passphrase'' ''privateKeyPassphrase'')\<lparr>ff_section := Some ''auth''\<rparr>,
          (ffield ''host_key'' ''hostKey'')\<lparr>ff_kind := Some FList, ff_section := Some ''protocol''\<rparr>,
          (ffield ''host_key_algorithms'' ''hostKeyAlgorithms'')\<lparr>ff_kind := Some FList, ff_section := Some ''protocol''\<rparr>,
          (ffield ''client_version'' ''clientVersion'')\<lparr>ff_section := Some ''protocol''\<rparr>]),
      (''tor'',
         [(ffield ''executable_path'' ''executablePath'')\<lparr>ff_section := Some ''protocol''\<rparr>,
          (ffield ''extra_args'' ''extraArguments'')\<lparr>ff_kind := Some FList, ff_section := Some ''protocol''\<rparr>,
          (ffield ''data_directory'' ''dataDirectory'')\<lparr>ff_section := Some ''protocol''\<rparr>,
          (ffield ''torrc'' ''torOptions'')\<lparr>ff_kind := Some FJsonObject, ff_section := Some ''protocol''\<rparr>]),
      (''shadowtls'',
         [(ffield ''version'' ''version'')\<lparr>ff_kind := Some FNumber, ff_section := Some ''protocol''\<rparr>,
          (ffield ''password'' ''password'')\<lparr>ff_section := Some ''auth''\<rparr>,
          (ffield ''server_name'' ''serverName'')\<lparr>ff_section := Some ''protocol''\<rparr>]),
      (''anytls'',
         [(ffield ''password'' ''password'')\<lparr>ff_section := Some ''auth''\<rparr>,
          (ffield ''idle_session_check_interval'' ''idleSessionCheckInterval'')\<lparr>ff_section := Some ''protocol''\<rparr>,
          (ffield ''idle_session_timeout'' ''idleSessionTimeout'')\<lparr>ff_section := Some ''protocol''\<rparr>,
          (ffield ''min_idle_session'' ''minimumIdleSession'')\<lparr>ff_kind := Some FNumber, ff_section := Some ''protocol''\<rparr>])]"

definition outbound_groupMap :: "proxy_field registry" where
  "outbound_groupMap =
     [(''selector'',
         [(ffield ''outbounds'' ''groupOutbounds'')\<lparr>ff_kind := Some FList, ff_section := Some ''group''\<rparr>,
          (ffield ''default'' ''groupDefault'')\<lparr>ff_section := Some ''group''\<rparr>,
          (ffield ''interrupt_exist_connections'' ''interruptConnections'')\<lparr>ff_kind := Some FBoolean, ff_section := Some ''group''\<rparr>]),
      (''urltest'',
         [(ffield ''outbounds'' ''groupOutbounds'')\<lparr>ff_kind := Some FList, ff_section := Some ''group''\<rparr>,
          (ffield ''url'' ''urlTestURL'')\<lparr>ff_section := Some ''group''\<rparr>,
          (ffield ''interval'' ''urlTestInterval'')\<lparr>ff_section := Some ''group''\<rparr>,
          (ffield ''tolerance'' ''urlTestTolerance'')\<lparr>ff_kind := Some FNumber, ff_section := Some ''group''\<rparr>,
          (ffield ''idle_timeout'' ''idleTimeout'')\<lparr>ff_section := Some ''group''\<rparr>,
          (ffield ''interrupt_exist_connections'' ''interruptConnections'')\<lparr>ff_kind := Some FBoolean, ff_section := Some ''group''\<rparr>])]"

definition outboundTLSFields :: "proxy_field list" where
  "outboundTLSFields =
     [(ffield ''tls.enabled'' ''tlsEnabled'')\<lparr>ff_kind := Some FBoolean, ff_section := Some ''tlsBasic''\<rparr>,
      (ffield ''tls.disable_sni'' ''disableSNI'')\<lparr>ff_kind := Some FBoolean, ff_when := Some (WhenOne outbound_tlsOn), ff_section := Some ''tlsBasic''\<rparr>,
      (ffield ''tls.server_name'' ''serverName'')\<lparr>ff_when := Some (WhenOne outbound_tlsOn), ff_section := Some ''tlsBasic''\<rparr>,
      (ffield ''tls.insecure'' ''insecure'')\<lparr>ff_kind := Some FBoolean, ff_when := Some (WhenOne outbound_tlsOn), ff_section := Some ''tlsBasic''\<rparr>,
      (ffield ''tls.alpn'' ''alpn'')\<lparr>ff_kind := Some FList, ff_when := Some (WhenOne outbound_tlsOn), ff_section := Some ''tlsBasic''\<rparr>,
      (ffield ''tls.min_version'' ''minimumTLSVersion'')\<lparr>ff_kind := Some FSelect, ff_options := Some outbound_tlsVersions, ff_when := Some (WhenOne outbound_tlsOn), ff_section := Some ''tlsBasic''\<rparr>,
      (ffield ''tls.max_version'' ''maximumTLSVersion'')\<lparr>ff_kind := Some FSelect, ff_options := Some outbound_tlsVersions, ff_when := Some (WhenOne outbound_tlsOn), ff_section := Some ''tlsBasic''\<rparr>,
      (ffield ''tls.cipher_suites'' ''cipherSuites'')\<lparr>ff_kind := Some FList, ff_when := Some (WhenOne outbound_tlsOn), ff_section := Some ''tlsBasic''\<rparr>,
      (ffield ''tls.curve_preferences'' ''curvePreferences'')\<lparr>ff_kind := Some FList, ff_when := Some (WhenOne outbound_tlsOn), ff_section := Some ''tlsBasic''\<rparr>,
      (ffield ''tls.certificate'' ''certificate'')\<lparr>ff_kind := Some FTextarea, ff_when := Some (WhenOne outbound_tlsOn), ff_section := Some ''tlsCert''\<rparr>,
      (ffield ''tls.certificate_path'' ''certificatePath'')\<lparr>ff_when := Some (WhenOne outbound_tlsOn), ff_section := Some ''tlsCert''\<rparr>,
      (ffield ''tls.certificate_public_key_sha256'' ''certificateSHA256'')\<lparr>ff_kind := Some FList, ff_when := Some (WhenOne outbound_tlsOn), ff_section := Some ''tlsCert''\<rparr>,
      (ffield ''tls.client_certificate'' ''clientCertificate'')\<lparr>ff_kind := Some FTextarea, ff_when := Some (WhenOne outbound_tlsOn), ff_section := Some ''tlsCert''\<rparr>,
      (ffield ''tls.client_certificate_path'' ''clientCertificatePath'')\<lparr>ff_when := Some (WhenOne outbound_tlsOn), ff_section := Some ''tlsCert''\<rparr>,
      (ffield ''tls.client_key'' ''clientKey'')\<lparr>ff_kind := Some FTextarea, ff_when := Some (WhenOne outbound_tlsOn), ff_section := Some ''tlsCert''\<rparr>,
      (ffield ''tls.client_key_path'' ''clientKeyPath'')\<lparr>ff_when := Some (WhenOne outbound_tlsOn), ff_section := Some ''tlsCert''\<rparr>,
      (ffield ''tls.fragment'' ''tlsFragment'')\<lparr>ff_kind := Some FBoolean, ff_when := Some (WhenOne outbound_tlsOn), ff_section := Some ''tlsFragment''\<rparr>,
      (ffield ''tls.fragment_fallback_delay'' ''fragmentFallbackDelay'')\<lparr>ff_when := Some (WhenAll outbound_fragmentOn), ff_section := Some ''tlsFragment''\<rparr>,
      (ffield ''tls.record_fragment'' ''recordFragment'')\<lparr>ff_kind := Some FBoolean, ff_when := Some (WhenOne outbound_tlsOn), ff_section := Some ''tlsFragment''\<rparr>,
      (ffield ''tls.kernel_tx'' ''kernelTX'')\<lparr>ff_kind := Some FBoolean, ff_when := Some (WhenOne outbound_tlsOn), ff_section := Some ''tlsBasic''\<rparr>,
      (ffield ''tls.kernel_rx'' ''kernelRX'')\<lparr>ff_kind := Some FBoolean, ff_when := Some (WhenOne outbound_tlsOn), ff_section := Some ''tlsBasic''\<rparr>,
      (ffield ''tls.ech.enabled'' ''echEnabled'')\<lparr>ff_kind := Some FBoolean, ff_when := Some (WhenOne outbound_tlsOn), ff_section := Some ''tlsEch''\<rparr>,
      (ffield ''tls.ech.config'' ''echConfig'')\<lparr>ff_kind := Some FList, ff_when := Some (WhenAll outbound_echOn), ff_section := Some ''tlsEch''\<rparr>,
      (ffield ''tls.ech.config_path'' ''echConfigPath'')\<lparr>ff_when := Some (WhenAll outbound_echOn), ff_section := Some ''tlsEch''\<rparr>,
      (ffield ''tls.ech.query_server_name'' ''echQueryServerName'')\<lparr>ff_when := Some (WhenAll outbound_echOn), ff_section := Some ''tlsEch''\<rparr>,
      (ffield ''tls.utls.enabled'' ''utlsEnabled'')\<lparr>ff_kind := Some FBoolean, ff_when := Some (WhenOne outbound_tlsOn), ff_section := Some ''tlsUtls''\<rparr>,
      (ffield ''tls.utls.fingerprint'' ''utlsFingerprint'')\<lparr>ff_when := Some (WhenAll outbound_utlsOn), ff_section := Some ''tlsUtls''\<rparr>,
      (ffield ''tls.reality.enabled'' ''realityEnabled'')\<lparr>ff_kind := Some FBoolean, ff_when := Some (WhenOne outbound_tlsOn), ff_section := Some ''tlsReality''\<rparr>,
      (ffield ''tls.reality.public_key'' ''realityPublicKey'')\<lparr>ff_when := Some (WhenAll outbound_realityOn), ff_section := Some ''tlsReality''\<rparr>,
      (ffield ''tls.reality.short_id'' ''realityShortID'')\<lparr>ff_when := Some (WhenAll outbound_realityOn), ff_section := Some ''tlsReality''\<rparr>]"

definition outboundMultiplexFields :: "proxy_field list" where
  "outboundMultiplexFields =
     [(ffield ''multiplex.enabled'' ''multiplexEnabled'')\<lparr>ff_kind := Some FBoolean, ff_section := Some ''multiplex''\<rparr>,
      (ffield ''multiplex.protocol'' ''multiplexProtocol'')\<lparr>ff_kind := Some FSelect, ff_options := Some [''smux'', ''yamux'', ''h2mux''], ff_when := Some (WhenOne outbound_muxOn), ff_section := Some ''multiplex''\<rparr>,
      (ffield ''multiplex.max_connections'' ''maxConnections'')\<lparr>ff_kind := Some FNumber, ff_when := Some (WhenOne outbound_muxOn), ff_section := Some ''multiplex''\<rparr>,
      (ffield ''multiplex.min_streams'' ''minStreams'')\<lparr>ff_kind := Some FNumber, ff_when := Some (WhenOne outbound_muxOn), ff_section := Some ''multiplex''\<rparr>,
      (ffield ''multiplex.max_streams'' ''maxStreams'')\<lparr>ff_kind := Some FNumber, ff_when := Some (WhenOne outbound_muxOn), ff_section := Some ''multiplex''\<rparr>,
      (ffield ''multiplex.padding'' ''multiplexPadding'')\<lparr>ff_kind := Some FBoolean, ff_when := Some (WhenOne outbound_muxOn), ff_section := Some ''multiplex''\<rparr>,
      (ffield ''multiplex.brutal.enabled'' ''brutalEnabled'')\<lparr>ff_kind := Some FBoolean, ff_when := Some (WhenOne outbound_muxOn), ff_section := Some ''multiplex''\<rparr>,
      (ffield ''multiplex.brutal.up_mbps'' ''uploadMbps'')\<lparr>ff_kind := Some FNumber, ff_when := Some (WhenAll outbound_brutalOn), ff_section := Some ''multiplex''\<rparr>,
      (ffield ''multiplex.brutal.down_mbps'' ''downloadMbps'')\<lparr>ff_kind := Some FNumber, ff_when := Some (WhenAll outbound_brutalOn), ff_section := Some ''multiplex''\<rparr>]"

definition outbound_transportBase :: "proxy_field list" where
  "outbound_transportBase =
     [(ffield ''transport.type'' ''transportType'')\<lparr>ff_kind := Some FSelect, ff_options := Some [''http'', ''ws'', ''quic'', ''grpc'', ''httpupgrade''], ff_section := Some ''transport''\<rparr>]"

definition outbound_transportMap :: "proxy_field registry" where
  "outbound_transportMap =
     [(''http'',
         [(ffield ''transport.host'' ''transportHost'')\<lparr>ff_kind := Some FList, ff_section := Some ''transport''\<rparr>,
          (ffield ''transport.path'' ''transportPath'')\<lparr>ff_section := Some ''transport''\<rparr>,
          (ffield ''transport.method'' ''transportMethod'')\<lparr>ff_section := Some ''transport''\<rparr>,
          (ffield ''transport.headers'' ''transportHeaders'')\<lparr>ff_kind := Some FJsonObject, ff_section := Some ''transport''\<rparr>,
          (ffield ''transport.idle_timeout'' ''idleTimeout'')\<lparr>ff_section := Some ''transport''\<rparr>,
          (ffield ''transport.ping_timeout'' ''pingTimeout'')\<lparr>ff_section := Some ''transport''\<rparr>]),
      (''ws'',
         [(ffield ''transport.path'' ''transportPath'')\<lparr>ff_section := Some ''transport''\<rparr>,
          (ffield ''transport.headers'' ''transportHeaders'')\<lparr>ff_kind := Some FJsonObject, ff_section := Some ''transport''\<rparr>,
          (ffield ''transport.max_early_data'' ''maxEarlyData'')\<lparr>ff_kind := Some FNumber, ff_section := Some ''transport''\<rparr>,
          (ffield ''transport.early_data_header_name'' ''earlyDataHeaderName'')\<lparr>ff_section := Some ''transport''\<rparr>]),
      (''quic'', []),
      (''grpc'',
         [(ffield ''transport.service_name'' ''serviceName'')\<lparr>ff_section := Some ''transport''\<rparr>,
          (ffield ''transport.idle_timeout'' ''idleTimeout'')\<lparr>ff_section := Some ''transport''\<rparr>,
          (ffield ''transport.ping_timeout'' ''pingTimeout'')\<lparr>ff_section := Some ''transport''\<rparr>,
          (ffield ''transport.permit_without_stream'' ''permitWithoutStream'')\<lparr>ff_kind := Some FBoolean, ff_section := Some ''transport''\<rparr>]),
      (''httpupgrade'',
         [(ffield ''transport.host'' ''transportHost'')\<lparr>ff_section := Some ''transport''\<rparr>,
          (ffield ''transport.path'' ''transportPath'')\<lparr>ff_section := Some ''transport''\<rparr>,
          (ffield ''transport.headers'' ''transportHeaders'')\<lparr>ff_kind := Some FJsonObject, ff_section := Some ''transport''\<rparr>])]"

definition credentialPaths :: "string list" where
  "credentialPaths =
     [''username'', ''password'', ''uuid'', ''flow'', ''security'', ''auth'', ''auth_str'',
      ''user'', ''private_key'', ''private_key_path'', ''private_key_passphrase'',
      ''obfs.password'']"

definition tlsCredentialPaths :: "string list" where
  "tlsCredentialPaths =
     [''tls.client_certificate'', ''tls.client_certificate_path'', ''tls.client_key'',
      ''tls.client_key_path'']"

subsection \<open>Fields of an inbound\<close>

definition inboundTypes :: "string list" where
  "inboundTypes =
     [''mixed'', ''socks'', ''http'', ''direct'', ''shadowsocks'', ''vmess'', ''vless'',
      ''trojan'', ''naive'', ''hysteria'', ''hysteria2'', ''tuic'', ''shadowtls'', ''anytls'',
      ''redirect'', ''tproxy'', ''tun'']"

definition listenFields :: "proxy_field list" where
  "listenFields =
     [(ffield ''listen'' ''listenAddress'')\<lparr>ff_kind := Some FListenAddress, ff_section := Some ''bind''\<rparr>,
      (ffield ''listen_port'' ''listenPort'')\<lparr>ff_kind := Some FNumber, ff_section := Some ''bind''\<rparr>,
      (ffield ''bind_interface'' ''bindInterface'')\<lparr>ff_kind := Some FNetworkInterface, ff_section := Some ''bind''\<rparr>,
      (ffield ''detour'' ''detour'')\<lparr>ff_kind := Some FRef, ff_ref := Some FRInbound, ff_section := Some ''bind''\<rparr>,
      (ffield ''routing_mark'' ''routingMark'')\<lparr>ff_section := Some ''bind''\<rparr>,
      (ffield ''reuse_addr'' ''reuseAddress'')\<lparr>ff_kind := Some FBoolean, ff_section := Some ''bind''\<rparr>,
      (ffield ''netns'' ''networkNamespace'')\<lparr>ff_section := Some ''bind''\<rparr>,
      (ffield ''tcp_fast_open'' ''tcpFastOpen'')\<lparr>ff_kind := Some FBoolean, ff_section := Some ''tcp''\<rparr>,
      (ffield ''tcp_multi_path'' ''tcpMultiPath'')\<lparr>ff_kind := Some FBoolean, ff_section := Some ''tcp''\<rparr>,
      (ffield ''disable_tcp_keep_alive'' ''disableTCPKeepAlive'')\<lparr>ff_kind := Some FBoolean, ff_section := Some ''tcp''\<rparr>,
      (ffield ''tcp_keep_alive'' ''tcpKeepAlive'')\<lparr>ff_section := Some ''tcp'', ff_when := Some (WhenOne (when_falsy ''disable_tcp_keep_alive''))\<rparr>,
      (ffield ''tcp_keep_alive_interval'' ''tcpKeepAliveInterval'')\<lparr>ff_section := Some ''tcp'', ff_when := Some (WhenOne (when_falsy ''disable_tcp_keep_alive''))\<rparr>,
      (ffield ''udp_fragment'' ''udpFragment'')\<lparr>ff_kind := Some FBoolean, ff_section := Some ''udp''\<rparr>,
      (ffield ''udp_timeout'' ''udpTimeout'')\<lparr>ff_section := Some ''udp''\<rparr>]"

definition inbound_network :: "proxy_field" where
  "inbound_network =
     (ffield ''network'' ''network'')\<lparr>ff_kind := Some FNetworkMulti, ff_section := Some ''protocol''\<rparr>"

definition inbound_protocolMap :: "proxy_field registry" where
  "inbound_protocolMap =
     [(''mixed'',
         [(ffield ''users'' ''users'')\<lparr>ff_kind := Some FUsers, ff_section := Some ''auth''\<rparr>,
          (ffield ''domain_resolver'' ''domainResolver'')\<lparr>ff_kind := Some FRef, ff_ref := Some FRDnsServer, ff_section := Some ''protocol''\<rparr>,
          (ffield ''set_system_proxy'' ''setSystemProxy'')\<lparr>ff_kind := Some FBoolean, ff_section := Some ''protocol''\<rparr>]),
      (''socks'',
         [(ffield ''users'' ''users'')\<lparr>ff_kind := Some FUsers, ff_section := Some ''auth''\<rparr>,
          (ffield ''domain_resolver'' ''domainResolver'')\<lparr>ff_kind := Some FRef, ff_ref := Some FRDnsServer, ff_section := Some ''protocol''\<rparr>]),
      (''http'',
         [(ffield ''users'' ''users'')\<lparr>ff_kind := Some FUsers, ff_section := Some ''auth''\<rparr>,
          (ffield ''domain_resolver'' ''domainResolver'')\<lparr>ff_kind := Some FRef, ff_ref := Some FRDnsServer, ff_section := Some ''protocol''\<rparr>,
          (ffield ''set_system_proxy'' ''setSystemProxy'')\<lparr>ff_kind := Some FBoolean, ff_section := Some ''protocol''\<rparr>]),
      (''direct'',
         [inbound_network,
          ffield ''override_address'' ''overrideAddress'',
          (ffield ''override_port'' ''overridePort'')\<lparr>ff_kind := Some FNumber\<rparr>]),
      (''shadowsocks'',
         [inbound_network,
          (ffield ''method'' ''method'')\<lparr>ff_kind := Some FSelect, ff_options := Some [''2022-blake3-aes-128-gcm'', ''2022-blake3-aes-256-gcm'', ''2022-blake3-chacha20-poly1305'', ''aes-128-gcm'', ''aes-192-gcm'', ''aes-256-gcm'', ''chacha20-ietf-poly1305'', ''xchacha20-ietf-poly1305'', ''none''], ff_section := Some ''auth''\<rparr>,
          (ffield ''password'' ''password'')\<lparr>ff_section := Some ''auth''\<rparr>,
          (ffield ''users'' ''users'')\<lparr>ff_kind := Some FUsers, ff_section := Some ''auth''\<rparr>,
          (ffield ''managed'' ''managed'')\<lparr>ff_kind := Some FBoolean, ff_section := Some ''protocol''\<rparr>]),
      (''vmess'',
         [(ffield ''users'' ''users'')\<lparr>ff_kind := Some FUsers, ff_section := Some ''auth''\<rparr>]),
      (''vless'',
         [(ffield ''users'' ''users'')\<lparr>ff_kind := Some FUsers, ff_section := Some ''auth''\<rparr>]),
      (''trojan'',
         [(ffield ''users'' ''users'')\<lparr>ff_kind := Some FUsers, ff_section := Some ''auth''\<rparr>]),
      (''naive'',
         [(ffield ''users'' ''users'')\<lparr>ff_kind := Some FUsers, ff_section := Some ''auth''\<rparr>,
          inbound_network,
          ffield ''quic_congestion_control'' ''congestionControl'']),
      (''hysteria'',
         [ffield ''up'' ''uploadBandwidth'',
          (ffield ''up_mbps'' ''uploadMbps'')\<lparr>ff_kind := Some FNumber\<rparr>,
          ffield ''down'' ''downloadBandwidth'',
          (ffield ''down_mbps'' ''downloadMbps'')\<lparr>ff_kind := Some FNumber\<rparr>,
          ffield ''obfs'' ''obfuscation'',
          (ffield ''users'' ''users'')\<lparr>ff_kind := Some FUsers, ff_section := Some ''auth''\<rparr>,
          (ffield ''recv_window_conn'' ''receiveWindowConnection'')\<lparr>ff_kind := Some FNumber\<rparr>,
          (ffield ''recv_window_client'' ''receiveWindowClient'')\<lparr>ff_kind := Some FNumber\<rparr>,
          (ffield ''max_conn_client'' ''maxClientConnections'')\<lparr>ff_kind := Some FNumber\<rparr>,
          (ffield ''disable_mtu_discovery'' ''disableMTUDiscovery'')\<lparr>ff_kind := Some FBoolean\<rparr>]),
      (''hysteria2'',
         [(ffield ''up_mbps'' ''uploadMbps'')\<lparr>ff_kind := Some FNumber\<rparr>,
          (ffield ''down_mbps'' ''downloadMbps'')\<lparr>ff_kind := Some FNumber\<rparr>,
          (ffield ''obfs.type'' ''obfuscationType'')\<lparr>ff_kind := Some FSelect, ff_options := Some ['''', ''salamander'']\<rparr>,
          (ffield ''obfs.password'' ''obfuscationPassword'')\<lparr>ff_when := Some (WhenOne (when_is ''obfs.type'' (JStr ''salamander'')))\<rparr>,
          (ffield ''users'' ''users'')\<lparr>ff_kind := Some FUsers, ff_section := Some ''auth''\<rparr>,
          (ffield ''ignore_client_bandwidth'' ''ignoreClientBandwidth'')\<lparr>ff_kind := Some FBoolean\<rparr>,
          ffield ''masquerade'' ''masquerade'',
          (ffield ''brutal_debug'' ''brutalDebug'')\<lparr>ff_kind := Some FBoolean\<rparr>]),
      (''tuic'',
         [(ffield ''users'' ''users'')\<lparr>ff_kind := Some FUsers, ff_section := Some ''auth''\<rparr>,
          ffield ''congestion_control'' ''congestionControl'',
          ffield ''auth_timeout'' ''authenticationTimeout'',
          (ffield ''zero_rtt_handshake'' ''zeroRTTHandshake'')\<lparr>ff_kind := Some FBoolean\<rparr>,
          ffield ''heartbeat'' ''heartbeat'']),
      (''shadowtls'',
         [(ffield ''version'' ''version'')\<lparr>ff_kind := Some FNumber\<rparr>,
          ffield ''password'' ''password'',
          (ffield ''users'' ''users'')\<lparr>ff_kind := Some FUsers, ff_section := Some ''auth''\<rparr>,
          ffield ''handshake.server'' ''handshakeServer'',
          (ffield ''handshake.server_port'' ''handshakePort'')\<lparr>ff_kind := Some FNumber\<rparr>,
          (ffield ''strict_mode'' ''strictMode'')\<lparr>ff_kind := Some FBoolean\<rparr>,
          (ffield ''wildcard_sni'' ''wildcardSNI'')\<lparr>ff_kind := Some FSelect, ff_options := Some ['''', ''off'', ''authed'', ''all'']\<rparr>]),
      (''anytls'',
         [(ffield ''users'' ''users'')\<lparr>ff_kind := Some FUsers, ff_section := Some ''auth''\<rparr>,
          ffield ''padding_scheme'' ''paddingScheme'']),
      (''tproxy'', [inbound_network]),
      (''redirect'', []),
      (''tun'', [])]"

definition tunFields :: "proxy_field list" where
  "tunFields =
     [(ffield ''interface_name'' ''interfaceName'')\<lparr>ff_section := Some ''tunBasic''\<rparr>,
      (ffield ''mtu'' ''mtu'')\<lparr>ff_kind := Some FNumber, ff_section := Some ''tunBasic''\<rparr>,
      (ffield ''address'' ''tunAddress'')\<lparr>ff_kind := Some FList, ff_section := Some ''tunBasic''\<rparr>,
      (ffield ''stack'' ''stack'')\<lparr>ff_kind := Some FSelect, ff_options := Some ['''', ''system'', ''gvisor'', ''mixed''], ff_section := Some ''tunBasic''\<rparr>,
      (ffield ''auto_route'' ''autoRoute'')\<lparr>ff_kind := Some FBoolean, ff_section := Some ''tunRoute''\<rparr>,
      (ffield ''iproute2_table_index'' ''ipRouteTableIndex'')\<lparr>ff_kind := Some FNumber, ff_when := Some (WhenOne (when_is ''auto_route'' (JBool True))), ff_section := Some ''tunRoute''\<rparr>,
      (ffield ''iproute2_rule_index'' ''ipRouteRuleIndex'')\<lparr>ff_kind := Some FNumber, ff_section := Some ''tunRoute'', ff_when := Some (WhenOne (when_is ''auto_route'' (JBool True)))\<rparr>,
      (ffield ''auto_redirect'' ''autoRedirect'')\<lparr>ff_kind := Some FBoolean, ff_section := Some ''tunRedirect''\<rparr>,
      (ffield ''auto_redirect_input_mark'' ''autoRedirectInputMark'')\<lparr>ff_when := Some (WhenOne (when_is ''auto_redirect'' (JBool True))), ff_section := Some ''tunRedirect''\<rparr>,
      (ffield ''auto_redirect_output_mark'' ''autoRedirectOutputMark'')\<lparr>ff_when := Some (WhenOne (when_is ''auto_redirect'' (JBool True))), ff_section := Some ''tunRedirect''\<rparr>,
      (ffield ''auto_redirect_reset_mark'' ''autoRedirectResetMark'')\<lparr>ff_when := Some (WhenOne (when_is ''auto_redirect'' (JBool True))), ff_section := Some ''tunRedirect''\<rparr>,
      (ffield ''auto_redirect_nfqueue'' ''autoRedirectNFQueue'')\<lparr>ff_kind := Some FNumber, ff_when := Some (WhenOne (when_is ''auto_redirect'' (JBool True))), ff_section := Some ''tunRedirect''\<rparr>,
      (ffield ''auto_redirect_iproute2_fallback_rule_index'' ''autoRedirectFallbackRuleIndex'')\<lparr>ff_kind := Some FNumber, ff_when := Some (WhenOne (when_is ''auto_redirect'' (JBool True))), ff_section := Some ''tunRedirect''\<rparr>,
      (ffield ''loopback_address'' ''loopbackAddress'')\<lparr>ff_kind := Some FList, ff_section := Some ''tunRoute''\<rparr>,
      (ffield ''strict_route'' ''strictRoute'')\<lparr>ff_kind := Some FBoolean, ff_section := Some ''tunRoute''\<rparr>,
      (ffield ''route_address'' ''routeAddress'')\<lparr>ff_kind := Some FList, ff_section := Some ''tunRoute''\<rparr>,
      (ffield ''route_address_set'' ''routeAddressSet'')\<lparr>ff_kind := Some FList, ff_section := Some ''tunRoute''\<rparr>,
      (ffield ''route_exclude_address'' ''routeExcludeAddress'')\<lparr>ff_kind := Some FList, ff_section := Some ''tunRoute''\<rparr>,
      (ffield ''route_exclude_address_set'' ''routeExcludeAddressSet'')\<lparr>ff_kind := Some FList, ff_section := Some ''tunRoute''\<rparr>,
      (ffield ''include_interface'' ''includeInterface'')\<lparr>ff_kind := Some FRef, ff_ref := Some FRNetworkInterfaceMulti, ff_section := Some ''tunFilter''\<rparr>,
      (ffield ''exclude_interface'' ''excludeInterface'')\<lparr>ff_kind := Some FRef, ff_ref := Some FRNetworkInterfaceMulti, ff_section := Some ''tunFilter''\<rparr>,
      (ffield ''include_uid'' ''includeUID'')\<lparr>ff_kind := Some FNumberList, ff_section := Some ''tunFilter''\<rparr>,
      (ffield ''exclude_uid'' ''excludeUID'')\<lparr>ff_kind := Some FNumberList, ff_section := Some ''tunFilter''\<rparr>,
      (ffield ''include_uid_range'' ''includeUIDRange'')\<lparr>ff_kind := Some FList, ff_section := Some ''tunFilter''\<rparr>,
      (ffield ''exclude_uid_range'' ''excludeUIDRange'')\<lparr>ff_kind := Some FList, ff_section := Some ''tunFilter''\<rparr>,
      (ffield ''include_android_user'' ''includeAndroidUser'')\<lparr>ff_kind := Some FNumberList, ff_section := Some ''tunFilter''\<rparr>,
      (ffield ''include_package'' ''includePackage'')\<lparr>ff_kind := Some FList, ff_section := Some ''tunFilter''\<rparr>,
      (ffield ''exclude_package'' ''excludePackage'')\<lparr>ff_kind := Some FList, ff_section := Some ''tunFilter''\<rparr>,
      (ffield ''udp_timeout'' ''udpTimeout'')\<lparr>ff_section := Some ''tunBasic''\<rparr>,
      (ffield ''exclude_mptcp'' ''excludeMPTCP'')\<lparr>ff_kind := Some FBoolean, ff_section := Some ''tunFilter''\<rparr>]"

definition inbound_tlsOn :: "field_when" where
  "inbound_tlsOn = when_is ''tls.enabled'' (JBool True)"

definition inbound_clientAuthOn :: "field_when list" where
  "inbound_clientAuthOn =
     [inbound_tlsOn, when_is ''tls.client_authentication'' (JArr [JStr ''request'', JStr ''require-any'', JStr ''verify-if-given'', JStr ''require-and-verify''])]"

definition inbound_acmeOn :: "field_when list" where
  "inbound_acmeOn =
     [inbound_tlsOn, when_set ''tls.acme.domain'']"

definition inbound_echOn :: "field_when list" where
  "inbound_echOn =
     [inbound_tlsOn, when_is ''tls.ech.enabled'' (JBool True)]"

definition inbound_realityOn :: "field_when list" where
  "inbound_realityOn =
     [inbound_tlsOn, when_is ''tls.reality.enabled'' (JBool True)]"

definition inbound_tlsFields :: "proxy_field list" where
  "inbound_tlsFields =
     [(ffield ''tls.enabled'' ''tlsEnabled'')\<lparr>ff_kind := Some FBoolean, ff_section := Some ''tlsBasic''\<rparr>,
      (ffield ''tls.server_name'' ''serverName'')\<lparr>ff_when := Some (WhenOne inbound_tlsOn), ff_section := Some ''tlsBasic''\<rparr>,
      (ffield ''tls.insecure'' ''insecure'')\<lparr>ff_kind := Some FBoolean, ff_when := Some (WhenOne inbound_tlsOn), ff_section := Some ''tlsBasic''\<rparr>,
      (ffield ''tls.alpn'' ''alpn'')\<lparr>ff_kind := Some FList, ff_when := Some (WhenOne inbound_tlsOn), ff_section := Some ''tlsBasic''\<rparr>,
      (ffield ''tls.min_version'' ''minimumTLSVersion'')\<lparr>ff_kind := Some FSelect, ff_options := Some [''1.0'', ''1.1'', ''1.2'', ''1.3''], ff_when := Some (WhenOne inbound_tlsOn), ff_section := Some ''tlsBasic''\<rparr>,
      (ffield ''tls.max_version'' ''maximumTLSVersion'')\<lparr>ff_kind := Some FSelect, ff_options := Some [''1.0'', ''1.1'', ''1.2'', ''1.3''], ff_when := Some (WhenOne inbound_tlsOn), ff_section := Some ''tlsBasic''\<rparr>,
      (ffield ''tls.cipher_suites'' ''cipherSuites'')\<lparr>ff_kind := Some FList, ff_when := Some (WhenOne inbound_tlsOn), ff_section := Some ''tlsBasic''\<rparr>,
      (ffield ''tls.curve_preferences'' ''curvePreferences'')\<lparr>ff_kind := Some FList, ff_when := Some (WhenOne inbound_tlsOn), ff_section := Some ''tlsBasic''\<rparr>,
      (ffield ''tls.certificate'' ''certificate'')\<lparr>ff_kind := Some FTextarea, ff_when := Some (WhenOne inbound_tlsOn), ff_section := Some ''tlsCert''\<rparr>,
      (ffield ''tls.certificate_path'' ''certificatePath'')\<lparr>ff_when := Some (WhenOne inbound_tlsOn), ff_section := Some ''tlsCert''\<rparr>,
      (ffield ''tls.key'' ''privateKey'')\<lparr>ff_kind := Some FTextarea, ff_when := Some (WhenOne inbound_tlsOn), ff_section := Some ''tlsCert''\<rparr>,
      (ffield ''tls.key_path'' ''keyPath'')\<lparr>ff_when := Some (WhenOne inbound_tlsOn), ff_section := Some ''tlsCert''\<rparr>,
      (ffield ''tls.client_authentication'' ''clientAuthentication'')\<lparr>ff_kind := Some FSelect, ff_options := Some [''no'', ''request'', ''require-any'', ''verify-if-given'', ''require-and-verify''], ff_when := Some (WhenOne inbound_tlsOn), ff_section := Some ''tlsClient''\<rparr>,
      (ffield ''tls.client_certificate'' ''clientCertificate'')\<lparr>ff_kind := Some FTextarea, ff_when := Some (WhenAll inbound_clientAuthOn), ff_section := Some ''tlsClient''\<rparr>,
      (ffield ''tls.client_certificate_path'' ''clientCertificatePath'')\<lparr>ff_kind := Some FList, ff_when := Some (WhenAll inbound_clientAuthOn), ff_section := Some ''tlsClient''\<rparr>,
      (ffield ''tls.client_certificate_public_key_sha256'' ''clientCertificateSHA256'')\<lparr>ff_kind := Some FList, ff_when := Some (WhenAll inbound_clientAuthOn), ff_section := Some ''tlsClient''\<rparr>,
      (ffield ''tls.kernel_tx'' ''kernelTX'')\<lparr>ff_kind := Some FBoolean, ff_when := Some (WhenOne inbound_tlsOn), ff_section := Some ''tlsBasic''\<rparr>,
      (ffield ''tls.kernel_rx'' ''kernelRX'')\<lparr>ff_kind := Some FBoolean, ff_when := Some (WhenOne inbound_tlsOn), ff_section := Some ''tlsBasic''\<rparr>,
      (ffield ''tls.acme.domain'' ''acmeDomain'')\<lparr>ff_kind := Some FList, ff_when := Some (WhenOne inbound_tlsOn), ff_section := Some ''tlsAcme''\<rparr>,
      (ffield ''tls.acme.data_directory'' ''acmeDataDirectory'')\<lparr>ff_when := Some (WhenAll inbound_acmeOn), ff_section := Some ''tlsAcme''\<rparr>,
      (ffield ''tls.acme.default_server_name'' ''acmeDefaultServerName'')\<lparr>ff_when := Some (WhenAll inbound_acmeOn), ff_section := Some ''tlsAcme''\<rparr>,
      (ffield ''tls.acme.email'' ''acmeEmail'')\<lparr>ff_when := Some (WhenAll inbound_acmeOn), ff_section := Some ''tlsAcme''\<rparr>,
      (ffield ''tls.acme.provider'' ''acmeProvider'')\<lparr>ff_when := Some (WhenAll inbound_acmeOn), ff_section := Some ''tlsAcme''\<rparr>,
      (ffield ''tls.acme.disable_http_challenge'' ''disableHTTPChallenge'')\<lparr>ff_kind := Some FBoolean, ff_when := Some (WhenAll inbound_acmeOn), ff_section := Some ''tlsAcme''\<rparr>,
      (ffield ''tls.acme.disable_tls_alpn_challenge'' ''disableTLSALPNChallenge'')\<lparr>ff_kind := Some FBoolean, ff_when := Some (WhenAll inbound_acmeOn), ff_section := Some ''tlsAcme''\<rparr>,
      (ffield ''tls.acme.alternative_http_port'' ''alternativeHTTPPort'')\<lparr>ff_kind := Some FNumber, ff_when := Some (WhenAll inbound_acmeOn), ff_section := Some ''tlsAcme''\<rparr>,
      (ffield ''tls.acme.alternative_tls_port'' ''alternativeTLSPort'')\<lparr>ff_kind := Some FNumber, ff_when := Some (WhenAll inbound_acmeOn), ff_section := Some ''tlsAcme''\<rparr>,
      (ffield ''tls.ech.enabled'' ''echEnabled'')\<lparr>ff_kind := Some FBoolean, ff_when := Some (WhenOne inbound_tlsOn), ff_section := Some ''tlsEch''\<rparr>,
      (ffield ''tls.ech.key'' ''echKey'')\<lparr>ff_kind := Some FList, ff_when := Some (WhenAll inbound_echOn), ff_section := Some ''tlsEch''\<rparr>,
      (ffield ''tls.ech.key_path'' ''echKeyPath'')\<lparr>ff_when := Some (WhenAll inbound_echOn), ff_section := Some ''tlsEch''\<rparr>,
      (ffield ''tls.reality.enabled'' ''realityEnabled'')\<lparr>ff_kind := Some FBoolean, ff_when := Some (WhenOne inbound_tlsOn), ff_section := Some ''tlsReality''\<rparr>,
      (ffield ''tls.reality.handshake.server'' ''realityHandshakeServer'')\<lparr>ff_when := Some (WhenAll inbound_realityOn), ff_section := Some ''tlsReality''\<rparr>,
      (ffield ''tls.reality.handshake.server_port'' ''realityHandshakePort'')\<lparr>ff_kind := Some FNumber, ff_when := Some (WhenAll inbound_realityOn), ff_section := Some ''tlsReality''\<rparr>,
      (ffield ''tls.reality.private_key'' ''realityPrivateKey'')\<lparr>ff_when := Some (WhenAll inbound_realityOn), ff_section := Some ''tlsReality''\<rparr>,
      (ffield ''tls.reality.short_id'' ''realityShortID'')\<lparr>ff_kind := Some FList, ff_when := Some (WhenAll inbound_realityOn), ff_section := Some ''tlsReality''\<rparr>,
      (ffield ''tls.reality.max_time_difference'' ''realityMaxTimeDifference'')\<lparr>ff_when := Some (WhenAll inbound_realityOn), ff_section := Some ''tlsReality''\<rparr>]"

definition inbound_transportFields :: "proxy_field list" where
  "inbound_transportFields =
     [(ffield ''transport.type'' ''transportType'')\<lparr>ff_kind := Some FSelect, ff_options := Some ['''', ''http'', ''ws'', ''quic'', ''grpc'', ''httpupgrade''], ff_section := Some ''transport''\<rparr>]"

definition inbound_transportByType :: "proxy_field registry" where
  "inbound_transportByType =
     [(''http'',
         [(ffield ''transport.host'' ''transportHost'')\<lparr>ff_kind := Some FList\<rparr>,
          ffield ''transport.path'' ''transportPath'',
          ffield ''transport.method'' ''transportMethod'',
          (ffield ''transport.headers'' ''transportHeaders'')\<lparr>ff_kind := Some FJsonObject\<rparr>,
          ffield ''transport.idle_timeout'' ''idleTimeout'',
          ffield ''transport.ping_timeout'' ''pingTimeout'']),
      (''ws'',
         [ffield ''transport.path'' ''transportPath'',
          (ffield ''transport.headers'' ''transportHeaders'')\<lparr>ff_kind := Some FJsonObject\<rparr>,
          (ffield ''transport.max_early_data'' ''maxEarlyData'')\<lparr>ff_kind := Some FNumber\<rparr>,
          ffield ''transport.early_data_header_name'' ''earlyDataHeaderName'']),
      (''quic'', []),
      (''grpc'',
         [ffield ''transport.service_name'' ''serviceName'',
          ffield ''transport.idle_timeout'' ''idleTimeout'',
          ffield ''transport.ping_timeout'' ''pingTimeout'',
          (ffield ''transport.permit_without_stream'' ''permitWithoutStream'')\<lparr>ff_kind := Some FBoolean\<rparr>]),
      (''httpupgrade'',
         [ffield ''transport.host'' ''transportHost'',
          ffield ''transport.path'' ''transportPath'',
          (ffield ''transport.headers'' ''transportHeaders'')\<lparr>ff_kind := Some FJsonObject\<rparr>])]"

definition inbound_multiplexFields :: "proxy_field list" where
  "inbound_multiplexFields =
     [(ffield ''multiplex.enabled'' ''multiplexEnabled'')\<lparr>ff_kind := Some FBoolean, ff_section := Some ''multiplex''\<rparr>,
      (ffield ''multiplex.padding'' ''multiplexPadding'')\<lparr>ff_kind := Some FBoolean, ff_when := Some (WhenOne (when_is ''multiplex.enabled'' (JBool True))), ff_section := Some ''multiplex''\<rparr>,
      (ffield ''multiplex.brutal.enabled'' ''brutalEnabled'')\<lparr>ff_kind := Some FBoolean, ff_when := Some (WhenOne (when_is ''multiplex.enabled'' (JBool True))), ff_section := Some ''multiplex''\<rparr>,
      (ffield ''multiplex.brutal.up_mbps'' ''uploadMbps'')\<lparr>ff_kind := Some FNumber, ff_when := Some (WhenAll [when_is ''multiplex.enabled'' (JBool True), when_is ''multiplex.brutal.enabled'' (JBool True)]), ff_section := Some ''multiplex''\<rparr>,
      (ffield ''multiplex.brutal.down_mbps'' ''downloadMbps'')\<lparr>ff_kind := Some FNumber, ff_when := Some (WhenAll [when_is ''multiplex.enabled'' (JBool True), when_is ''multiplex.brutal.enabled'' (JBool True)]), ff_section := Some ''multiplex''\<rparr>]"

end
