(* ===== verification/Outbound_Form.thy ===== *)
theory Outbound_Form
  imports Proxy_Tables
begin

text \<open>
  The outbound form model, \<open>features/proxy/outbound-form-model.ts\<close>: which groups of fields an
  outbound of a type has, the change of its type and of its transport, and the pruning after a
  change of a field. The sets of types are lists; only membership is used.
\<close>

subsection \<open>Sets of types\<close>

definition serverTypes :: "string list" where
  "serverTypes = [''socks'', ''http'', ''shadowsocks'', ''vmess'', ''vless'', ''trojan'', ''naive'', ''hysteria'',
     ''hysteria2'', ''tuic'', ''ssh'', ''shadowtls'', ''anytls'']"

definition dialerTypes :: "string list" where
  "dialerTypes = ''direct'' # serverTypes @ [''tor'']"

definition outboundTLSTypes :: "string list" where
  "outboundTLSTypes = [''http'', ''vmess'', ''vless'', ''trojan'', ''naive'', ''hysteria'', ''hysteria2'', ''tuic'',
     ''shadowtls'', ''anytls'']"

definition outboundTransportTypes :: "string list" where
  "outboundTransportTypes = [''vmess'', ''vless'', ''trojan'']"

definition outboundMultiplexTypes :: "string list" where
  "outboundMultiplexTypes = [''shadowsocks'', ''vmess'', ''vless'', ''trojan'']"

definition groupTypes :: "string list" where
  "groupTypes = [''selector'', ''urltest'']"

subsection \<open>Fields\<close>

definition knownProtocolFields :: "proxy_field list" where
  "knownProtocolFields = concat (registry_values outbound_protocolMap) @ concat (registry_values outbound_groupMap)"

definition knownTransportFields :: "proxy_field list" where
  "knownTransportFields = concat (registry_values outbound_transportMap)"

definition outbound_protocolFields :: "string \<Rightarrow> proxy_field list res" where
  "outbound_protocolFields type = registry_get outbound_protocolMap type"

definition groupFields :: "string \<Rightarrow> proxy_field list res" where
  "groupFields type = registry_get outbound_groupMap type"

definition outbound_transportTypeFields :: "string \<Rightarrow> proxy_field list res" where
  "outbound_transportTypeFields type =
     bind_res (registry_get outbound_transportMap type) (\<lambda>fs. Inr (outbound_transportBase @ fs))"

definition removeFields :: "jobj \<Rightarrow> proxy_field list \<Rightarrow> jobj" where
  "removeFields ob specs = foldl (\<lambda>next field. setPath next (ff_path field) None) ob specs"

definition removePaths :: "jobj \<Rightarrow> string list \<Rightarrow> jobj" where
  "removePaths ob paths = foldl (\<lambda>next path. setPath next path None) ob paths"

definition outbound_matchesField :: "json option \<Rightarrow> proxy_field \<Rightarrow> bool" where
  "outbound_matchesField v field =
     (case v of None \<Rightarrow> True
      | Some value \<Rightarrow>
          if ff_kind field = Some FBoolean then is_bool v
          else if ff_kind field = Some FNumber then is_num v
          else if ff_kind field \<in> {Some FList, Some FNetworkMulti}
            then is_str v \<or> (case value of JArr vs \<Rightarrow> list_all (\<lambda>x. is_str (Some x)) vs | _ \<Rightarrow> False)
          else if ff_kind field = Some FNumberList
            then is_num v \<or> (case value of JArr vs \<Rightarrow> list_all (\<lambda>x. is_num (Some x)) vs | _ \<Rightarrow> False)
          else if ff_kind field = Some FJsonObject then is_obj v
          else if ff_kind field = Some FUsers
            then (case value of JArr vs \<Rightarrow> list_all (\<lambda>x. is_obj (Some x)) vs | _ \<Rightarrow> False)
          else is_str v \<or> is_num v \<or> is_bool v)"

definition removeIncompatibleFields :: "jobj \<Rightarrow> proxy_field list \<Rightarrow> proxy_field list \<Rightarrow> jobj" where
  "removeIncompatibleFields ob known target =
     (let paths = js_unique (map ff_path known)
      in foldl (\<lambda>next path.
           case find (\<lambda>candidate. ff_path candidate = path) target of
             Some field \<Rightarrow> if outbound_matchesField (getPath next path) field then next else setPath next path None
           | None \<Rightarrow> setPath next path None) ob paths)"

subsection \<open>Changes of type\<close>

definition changeOutboundTransportType :: "jobj \<Rightarrow> string \<Rightarrow> jobj res" where
  "changeOutboundTransportType ob type =
     bind_res (registry_get outbound_transportMap type) (\<lambda>target.
       Inr (setPath (removeIncompatibleFields ob knownTransportFields target) ''transport.type''
              (if type = [] then None else Some (JStr type))))"

definition changeOutboundType :: "jobj \<Rightarrow> string \<Rightarrow> jobj res" where
  "changeOutboundType ob type =
     (let previous = string_or (obj_get ob ''type'') []
      in if previous = type then Inr ob
         else
           let n1 = (if type \<notin> set serverTypes then setPath (setPath ob ''server'' None) ''server_port'' None else ob);
               n2 = (if type \<notin> set dialerTypes then removeFields n1 outbound_dialerFields else n1)
           in bind_res (outbound_protocolFields type) (\<lambda>pfs.
              bind_res (groupFields type) (\<lambda>gfs.
                let n3 = removeIncompatibleFields n2 knownProtocolFields (pfs @ gfs);
                    n4 = removePaths n3 credentialPaths;
                    n5 = removePaths n4 tlsCredentialPaths;
                    n6 = (if type \<notin> set outboundTLSTypes then setPath n5 ''tls'' None else n5);
                    n7 = (if type \<notin> set outboundTransportTypes then setPath n6 ''transport'' None else n6);
                    n8 = (if type \<notin> set outboundMultiplexTypes then setPath n7 ''multiplex'' None else n7)
                in Inr (obj_set ''type'' (JStr type) n8))))"

definition managedOutboundFields :: "string \<Rightarrow> string \<Rightarrow> proxy_field list res" where
  "managedOutboundFields type transportType =
     (let dialer = (if type \<in> set dialerTypes then outbound_dialerFields else [])
      in bind_res (if type \<in> set groupTypes then groupFields type else outbound_protocolFields type) (\<lambda>own.
         bind_res (if type \<in> set outboundTransportTypes then outbound_transportTypeFields transportType else Inr []) (\<lambda>tr.
           Inr (dialer @ own @ (if type \<in> set outboundTLSTypes then outboundTLSFields else []) @ tr
                @ (if type \<in> set outboundMultiplexTypes then outboundMultiplexFields else [])))))"

definition applyOutboundFieldChange :: "jobj \<Rightarrow> jobj \<Rightarrow> string \<Rightarrow> jobj res" where
  "applyOutboundFieldChange ob next typeHint =
     (let type = string_or (nullish (obj_get next ''type'') (obj_get ob ''type'')) typeHint;
          transportType = string_or (nullish (getPath next ''transport.type'') (getPath ob ''transport.type'')) []
      in bind_res (managedOutboundFields type transportType) (\<lambda>fs. Inr (pruneInvisibleFields next fs)))"

subsection \<open>What a change of type keeps\<close>

lemma removeFields_paths: "removeFields ob fs = remove_paths_with setPath ob (map ff_path fs)"
  by (simp add: removeFields_def remove_paths_with_def foldl_map)

lemma removePaths_paths: "removePaths ob ps = remove_paths_with setPath ob ps"
  by (simp add: removePaths_def remove_paths_with_def)

definition outbound_keep :: "proxy_field list \<Rightarrow> string \<Rightarrow> json option \<Rightarrow> bool" where
  "outbound_keep target p v =
     (case find (\<lambda>candidate. ff_path candidate = p) target of
        None \<Rightarrow> False | Some field \<Rightarrow> outbound_matchesField v field)"

lemma removeIncompatibleFields_keep:
  "removeIncompatibleFields ob known target =
     keep_paths_with getPath setPath (outbound_keep target) ob (js_unique (map ff_path known))"
proof -
  have step: "(case find (\<lambda>candidate. ff_path candidate = path) target of
             Some field \<Rightarrow> if outbound_matchesField (getPath nxt path) field then nxt else setPath nxt path None
           | None \<Rightarrow> setPath nxt path None)
     = (if outbound_keep target path (getPath nxt path) then nxt else setPath nxt path None)" for nxt path
    by (simp add: outbound_keep_def split: option.split)
  show ?thesis unfolding removeIncompatibleFields_def step keep_paths_with_def Let_def ..
qed

text \<open>
  The steps of \<open>changeOutboundType\<close> only remove paths, so a path stays absent from the step
  that removes it to the end. The last step writes the type.
\<close>

definition outbound_steps :: "jobj \<Rightarrow> string \<Rightarrow> proxy_field list \<Rightarrow> jobj" where
  "outbound_steps n2 type target =
     (let n5 = removePaths (removePaths (removeIncompatibleFields n2 knownProtocolFields target) credentialPaths) tlsCredentialPaths;
          n6 = (if type \<notin> set outboundTLSTypes then setPath n5 ''tls'' None else n5);
          n7 = (if type \<notin> set outboundTransportTypes then setPath n6 ''transport'' None else n6)
      in if type \<notin> set outboundMultiplexTypes then setPath n7 ''multiplex'' None else n7)"

lemma changeOutboundType_cases:
  assumes "changeOutboundType ob type = Inr ob'" and "string_or (obj_get ob ''type'') [] \<noteq> type"
  obtains n2 pfs gfs where "outbound_protocolFields type = Inr pfs" and "groupFields type = Inr gfs"
    and "ob' = obj_set ''type'' (JStr type) (outbound_steps n2 type (pfs @ gfs))"
    and "n2 = (let n1 = (if type \<notin> set serverTypes then setPath (setPath ob ''server'' None) ''server_port'' None else ob)
           in if type \<notin> set dialerTypes then removeFields n1 outbound_dialerFields else n1)"
  using assms by (auto simp: changeOutboundType_def outbound_steps_def Let_def bind_res_eq_Inr)

lemma getPath_obj_set_type: "path_indep ''type'' p \<Longrightarrow> getPath (obj_set ''type'' v ob) p = getPath ob p"
proof -
  assume "path_indep ''type'' p"
  moreover have "path_keys ''type'' = [''type'']" by code_simp
  then have "obj_set ''type'' v ob = setPath ob ''type'' (Some v)" by (simp add: setPath_keys)
  ultimately show ?thesis by (simp add: proxy.get_put_indep)
qed

lemma outbound_steps_removed:
  assumes "p \<in> set (credentialPaths @ tlsCredentialPaths)
     \<or> (p \<in> ff_path ` set knownProtocolFields \<and> p \<notin> ff_path ` set target)"
  shows "getPath (outbound_steps n2 type target) p = None"
proof -
  let ?n3 = "removeIncompatibleFields n2 knownProtocolFields target"
  let ?n5 = "removePaths (removePaths ?n3 credentialPaths) tlsCredentialPaths"
  have "getPath ?n5 p = None"
  proof (cases "p \<in> set (credentialPaths @ tlsCredentialPaths)")
    case True
    then show ?thesis
      by (auto simp: removePaths_paths intro: proxy.remove_paths_removed proxy.remove_paths_mono)
  next
    case False
    with assms have p: "p \<in> set (js_unique (map ff_path knownProtocolFields))" "p \<notin> ff_path ` set target" by auto
    from p(2) have "\<not> outbound_keep target p (Some v)" for v
      by (auto simp: outbound_keep_def find_None_iff find_Some_iff split: option.splits)
    with p(1) have "getPath ?n3 p = None"
      unfolding removeIncompatibleFields_keep by (rule proxy.keep_paths_removed)
    then show ?thesis by (simp add: removePaths_paths proxy.remove_paths_mono)
  qed
  then show ?thesis by (simp add: outbound_steps_def Let_def proxy.removed_mono)
qed

text \<open>Every path a change of type may remove.\<close>

definition outbound_touched :: "string list" where
  "outbound_touched = credentialPaths @ tlsCredentialPaths @ map ff_path knownProtocolFields
     @ map ff_path outbound_dialerFields @ [''server'', ''server_port'', ''tls'', ''transport'', ''multiplex'']"

lemma outbound_touched_type: "\<forall>p\<in>set outbound_touched. path_indep ''type'' p"
  by (rule heads_indep) code_simp+

lemma outbound_touched_tag: "\<forall>p\<in>set outbound_touched. path_indep ''tag'' p"
  by (rule heads_indep) code_simp+

lemma outbound_steps_frame:
  assumes "\<forall>p\<in>set outbound_touched. path_indep p q"
  shows "getPath (outbound_steps n2 type target) q = getPath n2 q"
proof -
  have "\<forall>p\<in>set (js_unique (map ff_path knownProtocolFields)). path_indep p q"
    and "\<forall>p\<in>set credentialPaths. path_indep p q" and "\<forall>p\<in>set tlsCredentialPaths. path_indep p q"
    and "path_indep ''tls'' q" "path_indep ''transport'' q" "path_indep ''multiplex'' q"
    using assms by (auto simp: outbound_touched_def)
  then show ?thesis
    by (simp add: outbound_steps_def Let_def proxy.get_put_indep removePaths_paths proxy.remove_paths_indep
        removeIncompatibleFields_keep proxy.keep_paths_indep)
qed

lemma changeOutboundType_total:
  assumes "outbound_protocolFields type = Inr pfs" and "groupFields type = Inr gfs"
  shows "\<exists>ob'. changeOutboundType ob type = Inr ob'"
  by (cases "string_or (obj_get ob ''type'') [] = type") (simp_all add: changeOutboundType_def assms Let_def)

lemma trojan_known:
  obtains pfs gfs ob' where "outbound_protocolFields ''trojan'' = Inr pfs" and "groupFields ''trojan'' = Inr gfs"
    and "changeOutboundType ob ''trojan'' = Inr ob'"
proof -
  obtain pfs where pfs: "outbound_protocolFields ''trojan'' = Inr pfs"
    by (simp add: outbound_protocolFields_def registry_get_def outbound_protocolMap_def)
  moreover have gfs: "groupFields ''trojan'' = Inr []" by code_simp
  moreover obtain ob' where "changeOutboundType ob ''trojan'' = Inr ob'"
    using changeOutboundType_total [OF pfs gfs] by blast
  ultimately show thesis by (rule that)
qed

subsection \<open>Properties\<close>

text \<open>
  C1: Changing the type of an outbound never carries a credential over: none of the credential
  paths (user names, passwords, UUIDs, private keys, TLS client certificates and keys) has a
  value afterwards, and no field of a protocol that the new type does not have is left; the
  outbound has the new type.
\<close>

theorem changeOutboundType_no_credentials:
  assumes "changeOutboundType ob type = Inr ob'" and "string_or (obj_get ob ''type'') [] \<noteq> type"
    and "outbound_protocolFields type = Inr pfs" and "groupFields type = Inr gfs"
  shows "getPath ob' ''type'' = Some (JStr type)
     \<and> (\<forall>p\<in>set (credentialPaths @ tlsCredentialPaths). getPath ob' p = None)
     \<and> (\<forall>p\<in>ff_path ` set knownProtocolFields. p \<in> ff_path ` set (pfs @ gfs) \<or> getPath ob' p = None)"
proof -
  obtain n2 where ob': "ob' = obj_set ''type'' (JStr type) (outbound_steps n2 type (pfs @ gfs))"
    using assms by (elim changeOutboundType_cases) auto
  have touched: "getPath ob' p = None"
    if "p \<in> set outbound_touched" "getPath (outbound_steps n2 type (pfs @ gfs)) p = None" for p
    using that outbound_touched_type unfolding ob' by (simp add: getPath_obj_set_type)
  have "path_keys ''type'' = [''type'']" by code_simp
  then have ty: "getPath ob' ''type'' = Some (JStr type)" unfolding ob' by (simp add: getPath_single)
  have cred: "getPath ob' p = None" if "p \<in> set (credentialPaths @ tlsCredentialPaths)" for p
    using that by (intro touched outbound_steps_removed) (auto simp: outbound_touched_def)
  have proto: "p \<in> ff_path ` set (pfs @ gfs) \<or> getPath ob' p = None" if "p \<in> ff_path ` set knownProtocolFields" for p
  proof (cases "p \<in> ff_path ` set (pfs @ gfs)")
    case False
    with that show ?thesis by (intro disjI2 touched outbound_steps_removed) (auto simp: outbound_touched_def)
  qed simp
  show ?thesis by (intro conjI ballI ty cred proto)
qed

theorem changeOutboundType_no_credentials_witness:
  "\<exists>ob'. changeOutboundType [(''type'', JStr ''vmess''), (''uuid'', JStr ''u'')] ''trojan'' = Inr ob'
     \<and> getPath ob' ''type'' = Some (JStr ''trojan'') \<and> getPath ob' ''uuid'' = None"
proof -
  let ?ob = "[(''type'', JStr ''vmess''), (''uuid'', JStr ''u'')]"
  obtain pfs gfs ob' where fields: "outbound_protocolFields ''trojan'' = Inr pfs" "groupFields ''trojan'' = Inr gfs"
    and ob': "changeOutboundType ?ob ''trojan'' = Inr ob'"
    by (rule trojan_known)
  moreover have "string_or (obj_get ?ob ''type'') [] \<noteq> ''trojan''" and "''uuid'' \<in> set credentialPaths" by code_simp+
  ultimately show ?thesis using changeOutboundType_no_credentials [OF ob' _ fields] by auto
qed

text \<open>
  A change of type leaves alone everything the page does not manage: the tag and every path
  independent of the managed ones, of the type key included, read the same before and after.
\<close>

lemma changeOutboundType_frame:
  assumes "changeOutboundType ob type = Inr ob'" and "path_indep ''type'' q"
    and "\<forall>p\<in>set outbound_touched. path_indep p q"
  shows "getPath ob' q = getPath ob q \<and> getPath ob' ''tag'' = getPath ob ''tag''"
proof -
  have frame: "getPath ob' r = getPath ob r"
    if r: "path_indep ''type'' r" "\<forall>p\<in>set outbound_touched. path_indep p r" for r
  proof (cases "string_or (obj_get ob ''type'') [] = type")
    case True
    with assms(1) show ?thesis by (simp add: changeOutboundType_def)
  next
    case False
    with assms(1) obtain n2 target
      where ob': "ob' = obj_set ''type'' (JStr type) (outbound_steps n2 type target)"
        and n2: "n2 = (let n1 = (if type \<notin> set serverTypes then setPath (setPath ob ''server'' None) ''server_port'' None else ob)
           in if type \<notin> set dialerTypes then removeFields n1 outbound_dialerFields else n1)"
      by (elim changeOutboundType_cases) auto
    have "path_indep ''server'' r" "path_indep ''server_port'' r"
      and "\<forall>p\<in>set (map ff_path outbound_dialerFields). path_indep p r"
      using r(2) by (auto simp: outbound_touched_def)
    then have "getPath n2 r = getPath ob r"
      by (simp add: n2 Let_def proxy.get_put_indep removeFields_paths proxy.remove_paths_indep)
    then show ?thesis unfolding ob' by (simp add: getPath_obj_set_type r outbound_steps_frame)
  qed
  have "path_keys ''type'' = [''type'']" "path_keys ''tag'' = [''tag'']" by code_simp+
  then have "path_indep ''type'' ''tag''" by (simp add: path_indep_def)
  with frame assms(2,3) outbound_touched_tag path_indep_sym show ?thesis by blast
qed

lemma changeOutboundType_frame_example:
  "\<exists>ob'. changeOutboundType [(''type'', JStr ''vmess''), (''tag'', JStr ''b''), (''note'', JNull)] ''trojan'' = Inr ob'
     \<and> getPath ob' ''tag'' = Some (JStr ''b'') \<and> getPath ob' ''note'' = Some JNull"
proof -
  let ?ob = "[(''type'', JStr ''vmess''), (''tag'', JStr ''b''), (''note'', JNull)]"
  obtain pfs gfs ob' where ob': "changeOutboundType ?ob ''trojan'' = Inr ob'" by (rule trojan_known)
  have "path_indep ''type'' ''note''" by code_simp
  moreover have "path_keys ''note'' = [''note'']" and "list_all (\<lambda>p. hd (path_keys p) \<noteq> ''note'') outbound_touched" by code_simp+
  then have "\<forall>p\<in>set outbound_touched. path_indep p ''note''" using heads_indep path_indep_sym by blast
  moreover have "getPath ?ob ''tag'' = Some (JStr ''b'')" "getPath ?ob ''note'' = Some JNull" by code_simp+
  ultimately show ?thesis using ob' changeOutboundType_frame [OF ob', of "''note''"] by auto
qed

end
