(* ===== verification/Inbound_Form.thy ===== *)
theory Inbound_Form
  imports Outbound_Form
begin

text \<open>
  The inbound form model, \<open>features/proxy/inbound-form-model.ts\<close>: the change of type and of
  transport, the managed fields of a type, the pruning after a change, and the columns of the
  users table.
\<close>

subsection \<open>Sets of types\<close>

definition inbound_tlsTypes :: "string list" where
  "inbound_tlsTypes = [''http'', ''mixed'', ''vmess'', ''vless'', ''trojan'', ''naive'', ''hysteria'', ''hysteria2'', ''tuic'', ''anytls'']"

definition inbound_transportTypes :: "string list" where
  "inbound_transportTypes = [''vmess'', ''vless'', ''trojan'']"

definition inbound_multiplexTypes :: "string list" where
  "inbound_multiplexTypes = [''shadowsocks'', ''vmess'', ''vless'', ''trojan'']"

subsection \<open>Fields\<close>

definition inbound_protocolFields :: "string \<Rightarrow> proxy_field list res" where
  "inbound_protocolFields type = registry_get inbound_protocolMap type"

definition inbound_transportTypeFields :: "string \<Rightarrow> proxy_field list res" where
  "inbound_transportTypeFields type =
     bind_res (registry_get inbound_transportByType type) (\<lambda>fs. Inr (inbound_transportFields @ fs))"

definition inbound_removeFields :: "jobj \<Rightarrow> proxy_field list \<Rightarrow> jobj" where
  "inbound_removeFields ob specs = foldl (\<lambda>next field. setPath next (ff_path field) None) ob specs"

text \<open>The fields of the old list with no field of the same path and kind in the new one.\<close>

definition fields_without :: "proxy_field list \<Rightarrow> proxy_field list \<Rightarrow> proxy_field list" where
  "fields_without old new =
     filter (\<lambda>field. \<not> list_ex (\<lambda>candidate. ff_path candidate = ff_path field \<and> ff_kind candidate = ff_kind field) new) old"

subsection \<open>Changes of type\<close>

definition changeTransportType :: "jobj \<Rightarrow> string \<Rightarrow> jobj res" where
  "changeTransportType ob type =
     (let previous = string_or (getPath ob ''transport.type'') []
      in bind_res (registry_get inbound_transportByType previous) (\<lambda>old.
         bind_res (if old = [] then Inr [] else registry_get inbound_transportByType type) (\<lambda>new.
           Inr (setPath (inbound_removeFields ob (fields_without old new)) ''transport.type''
                  (if type = [] then None else Some (JStr type))))))"

definition changeInboundType :: "jobj \<Rightarrow> string \<Rightarrow> jobj res" where
  "changeInboundType ob type =
     (let previous = string_or (obj_get ob ''type'') []
      in if previous = type then Inr ob
         else
           let n1 = (if previous = ''tun'' \<and> type \<noteq> ''tun''
                     then inbound_removeFields ob (filter (\<lambda>field. ff_path field \<noteq> ''udp_timeout'') tunFields) else ob);
               n2 = (if previous \<noteq> ''tun'' \<and> type = ''tun''
                     then inbound_removeFields n1 (filter (\<lambda>field. ff_path field \<noteq> ''udp_timeout'') listenFields) else n1)
           in bind_res (inbound_protocolFields previous) (\<lambda>old.
              bind_res (if list_all (\<lambda>field. ff_path field = ''users'') old then Inr [] else inbound_protocolFields type) (\<lambda>new.
                let n3 = inbound_removeFields n2 (filter (\<lambda>field. ff_path field = ''users''
                           \<or> \<not> list_ex (\<lambda>candidate. ff_path candidate = ff_path field \<and> ff_kind candidate = ff_kind field) new) old);
                    n4 = (if previous \<in> set inbound_tlsTypes \<and> type \<notin> set inbound_tlsTypes then setPath n3 ''tls'' None else n3);
                    n5 = (if previous \<in> set inbound_transportTypes \<and> type \<notin> set inbound_transportTypes then setPath n4 ''transport'' None else n4);
                    n6 = (if previous \<in> set inbound_multiplexTypes \<and> type \<notin> set inbound_multiplexTypes then setPath n5 ''multiplex'' None else n5)
                in Inr (obj_set ''type'' (JStr type) n6))))"

definition managedInboundFields :: "string \<Rightarrow> string \<Rightarrow> proxy_field list res" where
  "managedInboundFields type transportType =
     bind_res (inbound_protocolFields type) (\<lambda>own.
     bind_res (if type \<in> set inbound_transportTypes then inbound_transportTypeFields transportType else Inr []) (\<lambda>tr.
       Inr (listenFields @ own @ tunFields @ (if type \<in> set inbound_tlsTypes then inbound_tlsFields else []) @ tr
            @ (if type \<in> set inbound_multiplexTypes then inbound_multiplexFields else []))))"

definition applyInboundFieldChange :: "jobj \<Rightarrow> jobj \<Rightarrow> string \<Rightarrow> jobj res" where
  "applyInboundFieldChange ob next typeHint =
     (let type = string_or (nullish (obj_get next ''type'') (obj_get ob ''type'')) typeHint;
          transportType = string_or (nullish (getPath next ''transport.type'') (getPath ob ''transport.type'')) []
      in bind_res (managedInboundFields type transportType) (\<lambda>fs. Inr (pruneInvisibleFields next fs)))"

subsection \<open>The users table\<close>

datatype user_key = KName | KUsername | KPassword | KUuid | KFlow | KAlterId

definition userSchema :: "string \<Rightarrow> user_key list" where
  "userSchema type =
     (if type \<in> {''mixed'', ''socks'', ''http'', ''naive'', ''anytls''} then [KUsername, KPassword]
      else if type \<in> {''shadowsocks'', ''trojan'', ''shadowtls''} then [KName, KPassword]
      else if type = ''vmess'' then [KName, KUuid, KAlterId]
      else if type = ''vless'' then [KName, KUuid, KFlow]
      else if type \<in> {''hysteria'', ''hysteria2''} then [KName, KPassword]
      else if type = ''tuic'' then [KName, KUuid, KPassword]
      else [KName, KPassword])"

subsection \<open>What a change of type removes\<close>

lemma inbound_removeFields_paths: "inbound_removeFields ob specs = remove_paths_with setPath ob (map ff_path specs)"
  by (simp add: inbound_removeFields_def remove_paths_with_def foldl_map)

text \<open>The fields of the old protocol that go, and the steps before the type is written.\<close>

definition inbound_dropped :: "proxy_field list \<Rightarrow> proxy_field list \<Rightarrow> proxy_field list" where
  "inbound_dropped old new = filter (\<lambda>field. ff_path field = ''users''
     \<or> \<not> list_ex (\<lambda>candidate. ff_path candidate = ff_path field \<and> ff_kind candidate = ff_kind field) new) old"

definition inbound_sections :: "jobj \<Rightarrow> string \<Rightarrow> string \<Rightarrow> jobj" where
  "inbound_sections n3 previous type =
     (let n4 = (if previous \<in> set inbound_tlsTypes \<and> type \<notin> set inbound_tlsTypes then setPath n3 ''tls'' None else n3);
          n5 = (if previous \<in> set inbound_transportTypes \<and> type \<notin> set inbound_transportTypes then setPath n4 ''transport'' None else n4)
      in if previous \<in> set inbound_multiplexTypes \<and> type \<notin> set inbound_multiplexTypes then setPath n5 ''multiplex'' None else n5)"

definition inbound_tun :: "jobj \<Rightarrow> string \<Rightarrow> string \<Rightarrow> jobj" where
  "inbound_tun ob previous type =
     (let n1 = (if previous = ''tun'' \<and> type \<noteq> ''tun''
            then inbound_removeFields ob (filter (\<lambda>field. ff_path field \<noteq> ''udp_timeout'') tunFields) else ob)
      in if previous \<noteq> ''tun'' \<and> type = ''tun''
         then inbound_removeFields n1 (filter (\<lambda>field. ff_path field \<noteq> ''udp_timeout'') listenFields) else n1)"

lemma inbound_dropped_users: "list_all (\<lambda>field. ff_path field = ''users'') old \<Longrightarrow> inbound_dropped old [] = inbound_dropped old new"
  by (auto simp: inbound_dropped_def list_all_iff intro!: filter_cong)

lemma changeInboundType_eq:
  assumes "string_or (obj_get ob ''type'') [] = previous" and "previous \<noteq> type"
    and "inbound_protocolFields previous = Inr old" and "inbound_protocolFields type = Inr new"
  shows "changeInboundType ob type = Inr (obj_set ''type'' (JStr type)
     (inbound_sections (inbound_removeFields (inbound_tun ob previous type) (inbound_dropped old new)) previous type))"
proof (cases "list_all (\<lambda>field. ff_path field = ''users'') old")
  case True
  show ?thesis
    unfolding inbound_dropped_users [OF True, of new, symmetric]
    by (simp only: changeInboundType_def assms Let_def bind_res_simps if_False True if_True
        inbound_sections_def inbound_tun_def inbound_dropped_def)
next
  case False
  show ?thesis
    by (simp only: changeInboundType_def assms Let_def bind_res_simps if_False False
        inbound_sections_def inbound_tun_def inbound_dropped_def)
qed

lemma inbound_sections_mono: "getPath n3 p = None \<Longrightarrow> getPath (inbound_sections n3 previous type) p = None"
  by (simp add: inbound_sections_def Let_def proxy.removed_mono)

lemma inbound_sections_frame:
  "path_indep ''tls'' q \<Longrightarrow> path_indep ''transport'' q \<Longrightarrow> path_indep ''multiplex'' q \<Longrightarrow>
     getPath (inbound_sections n3 previous type) q = getPath n3 q"
  by (simp add: inbound_sections_def Let_def proxy.get_put_indep)

lemma inbound_sections_removed:
  "previous \<in> set inbound_tlsTypes \<Longrightarrow> type \<notin> set inbound_tlsTypes \<Longrightarrow> getPath (inbound_sections n3 previous type) ''tls'' = None"
  "previous \<in> set inbound_transportTypes \<Longrightarrow> type \<notin> set inbound_transportTypes \<Longrightarrow> getPath (inbound_sections n3 previous type) ''transport'' = None"
  "previous \<in> set inbound_multiplexTypes \<Longrightarrow> type \<notin> set inbound_multiplexTypes \<Longrightarrow> getPath (inbound_sections n3 previous type) ''multiplex'' = None"
  by (simp_all add: inbound_sections_def Let_def proxy.removed_mono proxy.get_removed)

lemma inbound_tun_removed:
  assumes "field \<in> set (if previous = ''tun'' then tunFields else if type = ''tun'' then listenFields else [])"
    and "previous \<noteq> type" and "ff_path field \<noteq> ''udp_timeout''"
  shows "getPath (inbound_tun ob previous type) (ff_path field) = None"
  using assms
  by (auto simp: inbound_tun_def Let_def inbound_removeFields_paths intro!: proxy.remove_paths_removed split: if_splits)

definition inbound_touched :: "string list" where
  "inbound_touched = map ff_path (tunFields @ listenFields @ concat (registry_values inbound_protocolMap))
     @ [''tls'', ''transport'', ''multiplex'']"

lemma inbound_touched_type: "\<forall>p\<in>set inbound_touched. path_indep ''type'' p"
  by (rule heads_indep) code_simp+

lemma inbound_touched_tag: "\<forall>p\<in>set inbound_touched. path_indep ''tag'' p"
  by (rule heads_indep) code_simp+

lemma inbound_protocol_touched:
  assumes "inbound_protocolFields t = Inr fs"
  shows "ff_path ` set fs \<subseteq> set inbound_touched"
proof -
  from assms have "registry_get inbound_protocolMap t = Inr fs" by (simp add: inbound_protocolFields_def)
  then show ?thesis
  proof (cases rule: registry_get_Inr_cases)
    case 1
    then have "fs \<in> set (registry_values inbound_protocolMap)"
      using map_of_SomeD by (force simp: registry_values_def)
    then show ?thesis by (auto simp: inbound_touched_def)
  qed simp
qed

text \<open>The object a change of type gives, and what it has at the paths the change touches.\<close>

definition inbound_result :: "jobj \<Rightarrow> string \<Rightarrow> string \<Rightarrow> proxy_field list \<Rightarrow> proxy_field list \<Rightarrow> jobj" where
  "inbound_result ob previous type old new = obj_set ''type'' (JStr type)
     (inbound_sections (inbound_removeFields (inbound_tun ob previous type) (inbound_dropped old new)) previous type)"

lemma inbound_path_keys: "path_keys ''type'' = [''type'']" "path_keys ''tag'' = [''tag'']"
  by code_simp+

lemma inbound_result_touched:
  "p \<in> set inbound_touched \<Longrightarrow> getPath (inbound_result ob previous type old new) p =
     getPath (inbound_sections (inbound_removeFields (inbound_tun ob previous type) (inbound_dropped old new)) previous type) p"
  using inbound_touched_type by (simp add: inbound_result_def getPath_obj_set_type)

lemma inbound_result_sections:
  "s \<in> {''tls'', ''transport'', ''multiplex''} \<Longrightarrow> getPath (inbound_result ob previous type old new) s =
     getPath (inbound_sections (inbound_removeFields (inbound_tun ob previous type) (inbound_dropped old new)) previous type) s"
  by (rule inbound_result_touched) (auto simp: inbound_touched_def)

lemma inbound_result_dropped:
  assumes "inbound_protocolFields previous = Inr old" and "f \<in> set old"
    and "ff_path f = ''users'' \<or> \<not> list_ex (\<lambda>c. ff_path c = ff_path f \<and> ff_kind c = ff_kind f) new"
  shows "getPath (inbound_result ob previous type old new) (ff_path f) = None"
proof -
  have "f \<in> set (inbound_dropped old new)" using assms(2,3) by (simp add: inbound_dropped_def)
  then have "getPath (inbound_removeFields (inbound_tun ob previous type) (inbound_dropped old new)) (ff_path f) = None"
    by (simp add: inbound_removeFields_paths proxy.remove_paths_removed)
  moreover have "ff_path f \<in> set inbound_touched" using inbound_protocol_touched [OF assms(1)] assms(2) by blast
  ultimately show ?thesis by (simp add: inbound_result_touched inbound_sections_mono)
qed

lemma inbound_result_tun:
  assumes "previous \<noteq> type" and "f \<in> set (if previous = ''tun'' then tunFields else if type = ''tun'' then listenFields else [])"
    and "ff_path f \<noteq> ''udp_timeout''"
  shows "getPath (inbound_result ob previous type old new) (ff_path f) = None"
proof -
  have "ff_path f \<in> set inbound_touched" using assms(2) by (auto simp: inbound_touched_def split: if_splits)
  moreover have "getPath (inbound_tun ob previous type) (ff_path f) = None" using assms(2,1,3) by (rule inbound_tun_removed)
  then have "getPath (inbound_removeFields (inbound_tun ob previous type) (inbound_dropped old new)) (ff_path f) = None"
    by (simp add: inbound_removeFields_paths proxy.remove_paths_mono)
  ultimately show ?thesis by (simp add: inbound_result_touched inbound_sections_mono)
qed

lemma inbound_result_tag:
  assumes "inbound_protocolFields previous = Inr old"
  shows "getPath (inbound_result ob previous type old new) ''tag'' = getPath ob ''tag''"
proof -
  let ?tun = "inbound_tun ob previous type" and ?rm = "inbound_removeFields (inbound_tun ob previous type) (inbound_dropped old new)"
  have ind: "\<forall>p\<in>set inbound_touched. path_indep p ''tag''" using inbound_touched_tag path_indep_sym by blast
  have "set (map ff_path (inbound_dropped old new)) \<subseteq> set inbound_touched"
    using inbound_protocol_touched [OF assms] by (auto simp: inbound_dropped_def)
  with ind have "getPath ?rm ''tag'' = getPath ?tun ''tag''"
    unfolding inbound_removeFields_paths by (intro proxy.remove_paths_indep) blast
  moreover have "getPath ?tun ''tag'' = getPath ob ''tag''"
    using ind by (auto simp: inbound_tun_def Let_def inbound_removeFields_paths inbound_touched_def intro!: proxy.remove_paths_indep)
  moreover have "getPath (inbound_sections ?rm previous type) ''tag'' = getPath ?rm ''tag''"
    using ind by (intro inbound_sections_frame) (auto simp: inbound_touched_def)
  moreover have "path_indep ''type'' ''tag''" using inbound_path_keys by (simp add: path_indep_def)
  ultimately show ?thesis by (simp add: inbound_result_def getPath_obj_set_type)
qed

subsection \<open>Properties\<close>



end
