(* ===== verification/Json_Text.thy ===== *)
theory Json_Text
  imports Json
begin

text \<open>
  JSON texts as the standard library writes and reads them: \<open>JSON.stringify(v, null, 2)\<close> and
  \<open>JSON.parse(s)\<close>, which the dialogs, the storage and the API client use. A syntax error of
  the parser is \<open>None\<close>. The parser is a recursive descent with fuel; \<open>parse_fuel\<close> shows that
  the fuel \<open>json_parse\<close> gives it is always enough. An escape \<open>\uXXXX\<close> of a code unit above 255
  is outside the model's characters and is refused.
\<close>

lemmas [fundef_cong] = list.case_cong option.case_cong

subsection \<open>Writing\<close>

definition hex_char :: "nat \<Rightarrow> char" where
  "hex_char d = (if d < 10 then char_of (48 + d) else char_of (87 + d))"

definition esc_char :: "char \<Rightarrow> string" where
  "esc_char c =
     (if c = CHR 0x22 then [CHR 0x5C, CHR 0x22]
      else if c = CHR 0x5C then [CHR 0x5C, CHR 0x5C]
      else if c = CHR 0x08 then [CHR 0x5C, CHR ''b'']
      else if c = CHR 0x0C then [CHR 0x5C, CHR ''f'']
      else if c = CHR 0x0A then [CHR 0x5C, CHR ''n'']
      else if c = CHR 0x0D then [CHR 0x5C, CHR ''r'']
      else if c = CHR 0x09 then [CHR 0x5C, CHR ''t'']
      else if code_of c < 32 then [CHR 0x5C, CHR ''u'', CHR ''0'', CHR ''0'', hex_char (code_of c div 16), hex_char (code_of c mod 16)]
      else [c])"

definition quote :: "string \<Rightarrow> string" where
  "quote s = CHR 0x22 # concat (map esc_char s) @ [CHR 0x22]"

definition indent :: "nat \<Rightarrow> string" where
  "indent l = CHR 0x0A # replicate (2 * l) CHR '' ''"

fun stringify_at :: "nat \<Rightarrow> json \<Rightarrow> string" where
  "stringify_at l JNull = ''null''"
| "stringify_at l (JBool b) = (if b then ''true'' else ''false'')"
| "stringify_at l (JNum n) = (if num_isFinite n then number_to_string n else ''null'')"
| "stringify_at l (JStr s) = quote s"
| "stringify_at l (JArr vs) =
     (if vs = [] then ''[]''
      else ''['' @ indent (Suc l) @ js_join ('','' @ indent (Suc l)) (map (stringify_at (Suc l)) vs) @ indent l @ '']'')"
| "stringify_at l (JObj kvs) =
     (if kvs = [] then ''{}''
      else ''{'' @ indent (Suc l) @ js_join ('','' @ indent (Suc l))
             (map (\<lambda>kv. quote (fst kv) @ '': '' @ stringify_at (Suc l) (snd kv)) kvs) @ indent l @ ''}'')"

definition json_stringify :: "json \<Rightarrow> string" where
  "json_stringify v = stringify_at 0 v"

subsection \<open>Reading\<close>

definition is_json_ws :: "char \<Rightarrow> bool" where
  "is_json_ws c \<longleftrightarrow> c \<in> {CHR '' '', CHR 0x09, CHR 0x0A, CHR 0x0D}"

definition skip_ws :: "string \<Rightarrow> string" where
  "skip_ws s = dropWhile is_json_ws s"

definition unescape :: "char \<Rightarrow> char option" where
  "unescape e =
     (if e = CHR 0x22 \<or> e = CHR 0x5C \<or> e = CHR ''/'' then Some e
      else if e = CHR ''b'' then Some (CHR 0x08) else if e = CHR ''f'' then Some (CHR 0x0C)
      else if e = CHR ''n'' then Some (CHR 0x0A) else if e = CHR ''r'' then Some (CHR 0x0D)
      else if e = CHR ''t'' then Some (CHR 0x09) else None)"

definition cons_fst :: "'a \<Rightarrow> ('a list \<times> 'b) option \<Rightarrow> ('a list \<times> 'b) option" where
  "cons_fst c m = map_option (\<lambda>(s, r). (c # s, r)) m"

text \<open>The characters of a string, after its opening quote.\<close>

fun parse_chars :: "string \<Rightarrow> (string \<times> string) option" where
  "parse_chars [] = None"
| "parse_chars (c # cs) =
     (if c = CHR 0x22 then Some ([], cs)
      else if c = CHR 0x5C then
        (case cs of
           e # r \<Rightarrow>
             if e = CHR ''u'' then
               (case r of a # b # x # d # r' \<Rightarrow>
                    if list_all is_hex [a, b, x, d] \<and> hex_of a = 0 \<and> hex_of b = 0
                    then cons_fst (char_of (16 * hex_of x + hex_of d)) (parse_chars r') else None
                | _ \<Rightarrow> None)
             else (case unescape e of Some ch \<Rightarrow> cons_fst ch (parse_chars r) | None \<Rightarrow> None)
         | [] \<Rightarrow> None)
      else if code_of c < 32 then None
      else cons_fst c (parse_chars cs))"

definition is_num_char :: "char \<Rightarrow> bool" where
  "is_num_char c \<longleftrightarrow> is_digit c \<or> c \<in> {CHR ''-'', CHR ''+'', CHR ''.'', CHR ''e'', CHR ''E''}"

text \<open>The number grammar: \<open>-?(0|[1-9]\d*)(\.\d+)?([eE][+-]?\d+)?\<close>.\<close>

definition json_exp_ok :: "string \<Rightarrow> bool" where
  "json_exp_ok s \<longleftrightarrow> s = [] \<or> (hd s \<in> {CHR ''e'', CHR ''E''} \<and>
     (let r = tl s in all_digits (if r \<noteq> [] \<and> hd r \<in> {CHR ''+'', CHR ''-''} then tl r else r)))"

definition json_number_ok :: "string \<Rightarrow> bool" where
  "json_number_ok s0 \<longleftrightarrow>
     (let s = (if s0 \<noteq> [] \<and> hd s0 = CHR ''-'' then tl s0 else s0);
          ip = takeWhile is_digit s; r = dropWhile is_digit s
      in ip \<noteq> [] \<and> (hd ip = CHR ''0'' \<longrightarrow> length ip = 1) \<and>
         (if r \<noteq> [] \<and> hd r = CHR ''.''
          then takeWhile is_digit (tl r) \<noteq> [] \<and> json_exp_ok (dropWhile is_digit (tl r))
          else json_exp_ok r))"

definition parse_number :: "string \<Rightarrow> (json \<times> string) option" where
  "parse_number s =
     (let t = takeWhile is_num_char s
      in if json_number_ok t then Some (JNum (string_to_number t), dropWhile is_num_char s) else None)"

definition parse_word :: "string \<Rightarrow> (json \<times> string) option" where
  "parse_word s =
     (if js_startsWith ''null'' s then Some (JNull, drop 4 s)
      else if js_startsWith ''true'' s then Some (JBool True, drop 4 s)
      else if js_startsWith ''false'' s then Some (JBool False, drop 5 s)
      else parse_number s)"

text \<open>Members with the same key: the last value wins, at the place of the first.\<close>

definition obj_of :: "(string \<times> json) list \<Rightarrow> jobj" where
  "obj_of kvs = foldl (\<lambda>ob (k, v). obj_set k v ob) [] kvs"

fun parse_value :: "nat \<Rightarrow> string \<Rightarrow> (json \<times> string) option"
  and parse_elems :: "nat \<Rightarrow> string \<Rightarrow> (json list \<times> string) option"
  and parse_members :: "nat \<Rightarrow> string \<Rightarrow> ((string \<times> json) list \<times> string) option" where
  "parse_value 0 s = None"
| "parse_value (Suc n) s =
     (case skip_ws s of
        [] \<Rightarrow> None
      | c # r \<Rightarrow>
          if c = CHR 0x22 then map_option (\<lambda>(t, u). (JStr t, u)) (parse_chars r)
          else if c = CHR ''['' then
            (case skip_ws r of
               [] \<Rightarrow> None
             | d # r' \<Rightarrow> if d = CHR '']'' then Some (JArr [], r')
                 else map_option (\<lambda>(vs, u). (JArr vs, u)) (parse_elems n r))
          else if c = CHR ''{'' then
            (case skip_ws r of
               [] \<Rightarrow> None
             | d # r' \<Rightarrow> if d = CHR ''}'' then Some (JObj [], r')
                 else map_option (\<lambda>(kvs, u). (JObj (obj_of kvs), u)) (parse_members n r))
          else parse_word (c # r))"
| "parse_elems 0 s = None"
| "parse_elems (Suc n) s =
     (case parse_value n s of
        None \<Rightarrow> None
      | Some (v, r) \<Rightarrow>
          (case skip_ws r of
             [] \<Rightarrow> None
           | c # r' \<Rightarrow> if c = CHR '','' then cons_fst v (parse_elems n r')
               else if c = CHR '']'' then Some ([v], r') else None))"
| "parse_members 0 s = None"
| "parse_members (Suc n) s =
     (case skip_ws s of
        [] \<Rightarrow> None
      | c # r \<Rightarrow>
          if c \<noteq> CHR 0x22 then None
          else (case parse_chars r of
              None \<Rightarrow> None
            | Some (k, r1) \<Rightarrow>
                (case skip_ws r1 of
                   [] \<Rightarrow> None
                 | c1 # r2 \<Rightarrow>
                     if c1 \<noteq> CHR '':'' then None
                     else (case parse_value n r2 of
                         None \<Rightarrow> None
                       | Some (v, r3) \<Rightarrow>
                           (case skip_ws r3 of
                              [] \<Rightarrow> None
                            | c2 # r4 \<Rightarrow> if c2 = CHR '','' then cons_fst (k, v) (parse_members n r4)
                                else if c2 = CHR ''}'' then Some ([(k, v)], r4) else None)))))"

definition json_parse :: "string \<Rightarrow> json option" where
  "json_parse s =
     (case parse_value (2 * length s + 1) s of
        Some (v, r) \<Rightarrow> if skip_ws r = [] then Some v else None
      | None \<Rightarrow> None)"

subsection \<open>The fuel is enough\<close>

lemma length_skip_ws: "length (skip_ws s) \<le> length s"
  by (simp add: skip_ws_def length_dropWhile_le)

lemma skip_ws_Cons: "skip_ws s = c # r \<Longrightarrow> length r < length s"
  using length_skip_ws [of s] by auto

lemma cons_fst_Some: "cons_fst c m = Some (v, r) \<longleftrightarrow> (\<exists>v'. m = Some (v', r) \<and> v = c # v')"
  by (auto simp: cons_fst_def)

lemma parse_chars_shorter: "parse_chars s = Some (t, r) \<Longrightarrow> length r < length s"
proof (induction s arbitrary: t r rule: parse_chars.induct)
  case 1
  then show ?case by simp
next
  case (2 c cs)
  then show ?case
    by (fastforce simp: cons_fst_Some split: if_splits list.splits option.splits)
qed

lemma parse_number_shorter: "parse_number s = Some (v, r) \<Longrightarrow> length r < length s"
proof -
  assume a: "parse_number s = Some (v, r)"
  then have ok: "json_number_ok (takeWhile is_num_char s)" and r: "r = dropWhile is_num_char s"
    by (auto simp: parse_number_def Let_def split: if_splits)
  from ok have "takeWhile is_num_char s \<noteq> []" by (auto simp: json_number_ok_def)
  then obtain c s' where "s = c # s'" "is_num_char c" by (cases s) (auto split: if_splits)
  with r show ?thesis by (simp add: length_dropWhile_le le_imp_less_Suc)
qed

lemma parse_word_shorter: "parse_word s = Some (v, r) \<Longrightarrow> length r < length s"
  using parse_number_shorter [of s v r]
  by (cases s) (auto simp: parse_word_def js_startsWith_def split: if_splits)

lemma parse_shorter:
  "parse_value n s = Some (v, r) \<Longrightarrow> length r < length s"
  "parse_elems n s = Some (vs, r) \<Longrightarrow> length r < length s"
  "parse_members n s = Some (kvs, r) \<Longrightarrow> length r < length s"
proof (induction n s and n s and n s arbitrary: v r and vs r and kvs r
    rule: parse_value_parse_elems_parse_members.induct)
  case (2 n s)
  show ?case
  proof (cases "skip_ws s")
    case Nil
    with 2(3) show ?thesis by simp
  next
    case (Cons c u)
    have u: "length u < length s" using Cons by (rule skip_ws_Cons)
    have w: "length (c # u) \<le> length s" using Cons length_skip_ws [of s] by simp
    from 2 Cons u w parse_chars_shorter [of u] parse_word_shorter [of "c # u"] skip_ws_Cons [of u]
    show ?thesis by (fastforce split: if_splits list.splits)
  qed
next
  case (4 n s)
  from 4(3) obtain v u c u' where v: "parse_value n s = Some (v, u)" "skip_ws u = c # u'"
    by (auto split: option.splits list.splits)
  with 4 skip_ws_Cons [OF v(2)] show ?case by (fastforce simp: cons_fst_Some split: if_splits)
next
  case (6 n s)
  from 6(3) obtain c u k r1 c1 r2 v r3 c2 r4
    where *: "skip_ws s = c # u" "c = CHR 0x22" "parse_chars u = Some (k, r1)" "skip_ws r1 = c1 # r2" "c1 = CHR '':''"
      "parse_value n r2 = Some (v, r3)" "skip_ws r3 = c2 # r4"
    by (auto split: option.splits list.splits if_splits)
  have "length u < length s" "length r1 < length u" "length r2 < length r1" "length r3 < length r2" "length r4 < length r3"
    using skip_ws_Cons [OF *(1)] parse_chars_shorter [OF *(3)] skip_ws_Cons [OF *(4)] 6(1) [OF *(1)] * skip_ws_Cons [OF *(7)]
    by auto
  with 6(2) [OF *(1)] 6(3) * show ?case by (fastforce simp: cons_fst_Some split: if_splits)
qed simp_all

text \<open>More fuel than twice the length changes nothing.\<close>

lemma parse_fuel:
  "2 * length s + 1 \<le> n \<Longrightarrow> parse_value (Suc n) s = parse_value n s"
  "2 * length s + 2 \<le> n \<Longrightarrow> parse_elems (Suc n) s = parse_elems n s"
  "2 * length s + 2 \<le> n \<Longrightarrow> parse_members (Suc n) s = parse_members n s"
proof (induction n s and n s and n s rule: parse_value_parse_elems_parse_members.induct)
  case (2 n s)
  show ?case
  proof (cases "skip_ws s")
    case Nil
    then show ?thesis by simp
  next
    case (Cons c u)
    then have "2 * length u + 2 \<le> n" using 2(3) skip_ws_Cons [OF Cons] by simp
    then have e: "c = CHR ''['' \<Longrightarrow> skip_ws u = d # u' \<Longrightarrow> d \<noteq> CHR '']'' \<Longrightarrow> parse_elems (Suc n) u = parse_elems n u"
      and m: "c = CHR ''{'' \<Longrightarrow> skip_ws u = d # u' \<Longrightarrow> d \<noteq> CHR ''}'' \<Longrightarrow> parse_members (Suc n) u = parse_members n u" for d u'
      using 2(1,2) Cons by auto
    show ?thesis
      by (subst (1 2) parse_value.simps) (use Cons e m in \<open>auto split: list.splits\<close>)
  qed
next
  case (4 n s)
  have v: "parse_value (Suc n) s = parse_value n s" using 4(1,3) by simp
  have e: "parse_elems (Suc n) r' = parse_elems n r'" if "parse_value n s = Some (x, r)" "skip_ws r = CHR '','' # r'" for x r r'
    using 4(2) [OF that(1) refl that(2) refl] 4(3) parse_shorter(1) [OF that(1)] skip_ws_Cons [OF that(2)] by simp
  show ?case
    by (subst (1 2) parse_elems.simps) (use v e in \<open>auto split: option.splits list.splits\<close>)
next
  case (6 n s)
  have v: "parse_value (Suc n) r2 = parse_value n r2"
    if "skip_ws s = CHR 0x22 # u" "parse_chars u = Some (k, r1)" "skip_ws r1 = CHR '':'' # r2" for u k r1 r2
    using 6(1) [OF that(1) _ that(2) refl that(3)] 6(3) skip_ws_Cons [OF that(1)] parse_chars_shorter [OF that(2)]
      skip_ws_Cons [OF that(3)] by simp
  have e: "parse_members (Suc n) r4 = parse_members n r4"
    if "skip_ws s = CHR 0x22 # u" "parse_chars u = Some (k, r1)" "skip_ws r1 = CHR '':'' # r2"
      "parse_value n r2 = Some (x, r3)" "skip_ws r3 = CHR '','' # r4" for u k r1 r2 x r3 r4
    using 6(2) [OF that(1) _ that(2) refl that(3) _ that(4) refl that(5) refl] 6(3) skip_ws_Cons [OF that(1)]
      parse_chars_shorter [OF that(2)] skip_ws_Cons [OF that(3)] parse_shorter(1) [OF that(4)] skip_ws_Cons [OF that(5)]
    by simp
  show ?case
    by (subst (1 2) parse_members.simps) (use v e in \<open>auto split: option.splits list.splits\<close>)
qed simp_all

lemma parse_fuel_add: "2 * length s + 1 \<le> n \<Longrightarrow> parse_value (n + m) s = parse_value n s"
  by (induction m) (simp_all add: parse_fuel(1) del: parse_value.simps)

subsection \<open>What is written reads back\<close>

lemma code_of_char_of: "n < 256 \<Longrightarrow> code_of (char_of n) = n"
  by simp

lemma hex_char_props:
  assumes "d < 16"
  shows "is_hex (hex_char d)" "hex_of (hex_char d) = d"
  using assms by (auto simp: hex_char_def is_hex_def hex_of_def is_digit_def digit_of_def code_of_char_of)

lemma parse_esc_char: "parse_chars (esc_char c @ t) = cons_fst c (parse_chars t)"
proof (cases "c \<in> {CHR 0x22, CHR 0x5C, CHR 0x08, CHR 0x0C, CHR 0x0A, CHR 0x0D, CHR 0x09}")
  case True
  then show ?thesis by (auto simp: esc_char_def unescape_def)
next
  case False
  show ?thesis
  proof (cases "code_of c < 32")
    case True
    have hx: "is_hex CHR ''0''" "hex_of CHR ''0'' = 0" by code_simp+
    have "char_of (16 * hex_of (hex_char (code_of c div 16)) + hex_of (hex_char (code_of c mod 16))) = c"
      using True by (simp add: hex_char_props)
    with True False show ?thesis by (simp add: esc_char_def hx hex_char_props)
  next
    case no: False
    with False show ?thesis by (simp add: esc_char_def)
  qed
qed

lemma parse_quoted: "parse_chars (concat (map esc_char s) @ CHR 0x22 # t) = Some (s, t)"
  by (induction s) (simp_all add: parse_esc_char cons_fst_def)

text \<open>Values whose numbers are integers below \<open>2 ^ 53\<close> and whose keys are distinct.\<close>

fun json_plain :: "json \<Rightarrow> bool" where
  "json_plain (JNum n) = (case n of Fin r \<Rightarrow> rat_is_int r \<and> 0 \<le> r \<and> r < 2 ^ 53 | _ \<Rightarrow> False)"
| "json_plain (JArr vs) = list_all json_plain vs"
| "json_plain (JObj kvs) = (distinct (map fst kvs) \<and> list_all (\<lambda>kv. json_plain (snd kv)) kvs)"
| "json_plain _ = True"

lemma hd_digits_of: "1 \<le> n \<Longrightarrow> hd (digits_of n) \<noteq> CHR ''0''"
proof (induction n rule: digits_of.induct)
  case (1 n)
  show ?case
  proof (cases "n < 10")
    case True
    with 1(2) have "code_of (digit_char (nat n)) \<noteq> 48" by (simp add: digit_char_def code_of_char_of)
    moreover have "code_of CHR ''0'' = 48" by code_simp
    ultimately show ?thesis using True by (subst digits_of.simps) auto
  next
    case False
    with 1 have "hd (digits_of (n div 10)) \<noteq> CHR ''0''" by simp
    with False show ?thesis by (subst digits_of.simps) simp
  qed
qed

lemma num_chars_digits: "all_digits t \<Longrightarrow> list_all is_num_char t"
  by (auto simp: all_digits_def list_all_iff is_num_char_def)

lemma parse_digits:
  assumes "0 \<le> k" and "k < 2 ^ 53" and "rest = [] \<or> \<not> is_num_char (hd rest)"
  shows "parse_number (digits_of k @ rest) = Some (JNum (Fin (of_int k)), rest)"
proof -
  have d: "all_digits (digits_of k)" using assms(1) by (rule digits_of_digits)
  then have nc: "\<forall>c\<in>set (digits_of k). is_num_char c" using num_chars_digits by (auto simp: list_all_iff)
  have take: "takeWhile is_num_char (digits_of k @ rest) = digits_of k"
    and drop: "dropWhile is_num_char (digits_of k @ rest) = rest"
    using nc assms(3) by (auto simp: takeWhile_append2 dropWhile_append2, (cases rest; simp)+)
  have "is_digit (hd (digits_of k))" using d by (auto simp: all_digits_def list_all_iff)
  moreover have "\<not> is_digit CHR ''-''" by code_simp
  ultimately have "hd (digits_of k) \<noteq> CHR ''-''" by auto
  moreover have tw: "takeWhile is_digit (digits_of k) = digits_of k" and dw: "dropWhile is_digit (digits_of k) = []"
    using d by (simp_all add: all_digits_def list_all_iff)
  moreover have "hd (digits_of k) = CHR ''0'' \<longrightarrow> length (digits_of k) = 1"
    using hd_digits_of [of k] assms(1) by (cases "k = 0") (auto simp: digits_of.simps)
  ultimately have "json_number_ok (digits_of k)" unfolding json_number_ok_def Let_def by (simp only: tw dw if_False) (simp add: json_exp_ok_def tw dw)
  moreover have "string_to_number (digits_of k) = Fin (of_int k)"
    using string_to_number_to_string_nat [OF assms(1,2)] number_to_string_nat [OF assms(1,2)] by simp
  ultimately show ?thesis by (simp add: parse_number_def take drop)
qed

definition ends_number :: "string \<Rightarrow> bool" where
  "ends_number rest \<longleftrightarrow> rest = [] \<or> \<not> is_num_char (hd rest)"

text \<open>A text that reads back as the value, in any context and with enough fuel.\<close>

definition reads_back :: "json \<Rightarrow> string \<Rightarrow> bool" where
  "reads_back v t \<longleftrightarrow> (\<forall>n ws rest. list_all is_json_ws ws \<longrightarrow> ends_number rest \<longrightarrow>
     2 * length (ws @ t @ rest) + 1 \<le> n \<longrightarrow> parse_value n (ws @ t @ rest) = Some (v, rest))"

lemma reads_backD:
  "reads_back v t \<Longrightarrow> list_all is_json_ws ws \<Longrightarrow> ends_number rest \<Longrightarrow> 2 * length (ws @ t @ rest) + 1 \<le> n \<Longrightarrow>
     parse_value n (ws @ t @ rest) = Some (v, rest)"
  unfolding reads_back_def by blast

lemma skip_ws_append: "list_all is_json_ws ws \<Longrightarrow> skip_ws (ws @ s) = skip_ws s"
  by (simp add: skip_ws_def list_all_iff)

lemma skip_ws_char: "\<not> is_json_ws c \<Longrightarrow> skip_ws (c # s) = c # s"
  by (simp add: skip_ws_def)

lemma json_ws_chars [simp]:
  "\<not> is_json_ws CHR '',''" "\<not> is_json_ws CHR '']''" "\<not> is_json_ws CHR ''}''" "\<not> is_json_ws CHR ''[''"
  "\<not> is_json_ws CHR ''{''" "\<not> is_json_ws CHR '':''" "\<not> is_json_ws CHR 0x22"
  "\<not> is_num_char CHR '',''" "is_json_ws CHR 0x0A" "\<not> is_num_char CHR 0x0A"
  by (code_simp)+

lemma ws_indent: "list_all is_json_ws (indent l)"
  by (auto simp: indent_def list_all_iff is_json_ws_def)

lemma ends_ws: "list_all is_json_ws ws \<Longrightarrow> \<not> is_num_char c \<Longrightarrow> ends_number (ws @ c # rest)"
proof (cases ws)
  case (Cons a w)
  assume "list_all is_json_ws ws"
  with Cons have "a \<in> {CHR '' '', CHR 0x09, CHR 0x0A, CHR 0x0D}" by (simp add: is_json_ws_def)
  moreover have "\<not> is_num_char CHR '' ''" "\<not> is_num_char CHR 0x09" "\<not> is_num_char CHR 0x0A" "\<not> is_num_char CHR 0x0D"
    by code_simp+
  ultimately show ?thesis using Cons by (auto simp: ends_number_def)
qed (simp add: ends_number_def)

lemma elems_read:
  assumes "list_all2 reads_back vs ts" and "vs \<noteq> []"
    and ws: "list_all is_json_ws ind" "list_all is_json_ws post"
    and "list_all is_json_ws pre"
    and "2 * length (pre @ js_join (CHR '','' # ind) ts @ post @ CHR '']'' # rest) + 2 \<le> n"
  shows "parse_elems n (pre @ js_join (CHR '','' # ind) ts @ post @ CHR '']'' # rest) = Some (vs, rest)"
  using assms(1,2,5,6)
proof (induction arbitrary: n pre rule: list_all2_induct)
  case Nil
  then show ?case by simp
next
  case (Cons v vs t ts)
  obtain m where n: "n = Suc m" using Cons.prems(3) by (cases n) auto
  show ?case
  proof (cases ts)
    case Nil
    then have vs: "vs = []" using Cons.hyps by simp
    have "parse_value m (pre @ t @ post @ CHR '']'' # rest) = Some (v, post @ CHR '']'' # rest)"
      using Cons.hyps(1) Cons.prems(2,3) ws(2) Nil n
      by (intro reads_backD) (auto intro: ends_ws simp: ends_ws is_num_char_def is_digit_def)
    then show ?thesis using n Nil vs by (simp add: skip_ws_append ws skip_ws_char)
  next
    case (Cons t' ts')
    let ?tail = "ind @ js_join (CHR '','' # ind) ts @ post @ CHR '']'' # rest"
    have "parse_value m (pre @ t @ CHR '','' # ?tail) = Some (v, CHR '','' # ?tail)"
      using Cons.hyps(1) Cons.prems(2,3) Cons n
      by (intro reads_backD) (auto simp: ends_number_def)
    moreover have "vs \<noteq> []" using Cons.hyps(2) Cons by auto
    then have "parse_elems m ?tail = Some (vs, rest)"
      using Cons.IH [of ind m] Cons.prems(3) Cons n ws(1) by simp
    ultimately show ?thesis using n Cons by (simp add: skip_ws_char cons_fst_def)
  qed
qed

definition member_text :: "string \<Rightarrow> string \<Rightarrow> string" where
  "member_text k t = quote k @ '': '' @ t"

lemma members_read:
  assumes "list_all2 (\<lambda>kv t. \<exists>u. t = member_text (fst kv) u \<and> reads_back (snd kv) u) kvs ts" and "kvs \<noteq> []"
    and ws: "list_all is_json_ws ind" "list_all is_json_ws post"
    and "list_all is_json_ws pre"
    and "2 * length (pre @ js_join (CHR '','' # ind) ts @ post @ CHR ''}'' # rest) + 2 \<le> n"
  shows "parse_members n (pre @ js_join (CHR '','' # ind) ts @ post @ CHR ''}'' # rest) = Some (kvs, rest)"
  using assms(1,2,5,6)
proof (induction arbitrary: n pre rule: list_all2_induct)
  case Nil
  then show ?case by simp
next
  case (Cons kv kvs t ts)
  obtain k v where kv: "kv = (k, v)" by force
  with Cons.hyps(1) obtain u where t: "t = member_text k u" and u: "reads_back v u" by auto
  obtain m where n: "n = Suc m" using Cons.prems(3) by (cases n) auto
  have key: "skip_ws (pre @ t @ s) = CHR 0x22 # concat (map esc_char k) @ CHR 0x22 # CHR '':'' # CHR '' '' # u @ s" for s
    using Cons.prems(2) by (simp add: t member_text_def quote_def skip_ws_append skip_ws_char)
  have sp: "list_all is_json_ws '' ''" by code_simp
  show ?case
  proof (cases ts)
    case Nil
    then have kvs: "kvs = []" using Cons.hyps by simp
    have "parse_value m ('' '' @ u @ post @ CHR ''}'' # rest) = Some (v, post @ CHR ''}'' # rest)"
      using u sp Cons.prems(3) ws(2) Nil n
      by (intro reads_backD) (auto intro: ends_ws simp: t member_text_def quote_def is_num_char_def is_digit_def)
    then show ?thesis using n Nil kvs kv key [of "post @ CHR ''}'' # rest"]
      by (simp add: parse_quoted skip_ws_append ws skip_ws_char)
  next
    case (Cons t' ts')
    let ?tail = "ind @ js_join (CHR '','' # ind) ts @ post @ CHR ''}'' # rest"
    have "parse_value m ('' '' @ u @ CHR '','' # ?tail) = Some (v, CHR '','' # ?tail)"
      using u sp Cons.prems(3) Cons n
      by (intro reads_backD) (auto simp: ends_number_def t member_text_def quote_def)
    moreover have "kvs \<noteq> []" using Cons.hyps(2) Cons by auto
    then have "parse_members m ?tail = Some (kvs, rest)"
      using Cons.IH [of ind m] Cons.prems(3) Cons n ws(1) by simp
    ultimately show ?thesis using n Cons kv key [of "CHR '','' # ?tail"]
      by (simp add: parse_quoted skip_ws_char cons_fst_def)
  qed
qed

text \<open>The first character of a text tells the parser what it is.\<close>

lemma skip_ws_text: "list_all is_json_ws ws \<Longrightarrow> \<not> is_json_ws c \<Longrightarrow> skip_ws (ws @ c # s) = c # s"
  by (simp add: skip_ws_append skip_ws_char)

lemma reads_word:
  assumes "t = c # t'"
    and "\<not> is_json_ws c" "c \<noteq> CHR 0x22" "c \<noteq> CHR ''[''" "c \<noteq> CHR ''{''"
    and "\<And>rest. ends_number rest \<Longrightarrow> parse_word (t @ rest) = Some (v, rest)"
  shows "reads_back v t"
  unfolding reads_back_def
proof (intro allI impI)
  fix n ws rest
  assume a: "list_all is_json_ws ws" "ends_number rest" "2 * length (ws @ t @ rest) + 1 \<le> n"
  then obtain m where "n = Suc m" by (cases n) auto
  then show "parse_value n (ws @ t @ rest) = Some (v, rest)"
    using a assms(2-5) assms(6) [OF a(2)] by (simp add: assms(1) skip_ws_text)
qed

lemma reads_constant: "reads_back JNull ''null''" "reads_back (JBool True) ''true''" "reads_back (JBool False) ''false''"
  by (rule reads_word, rule refl, simp_all add: parse_word_def js_startsWith_def is_json_ws_def)
     (rule reads_word, rule refl, simp_all add: parse_word_def js_startsWith_def is_json_ws_def)+

lemma reads_digits:
  assumes "0 \<le> k" and "k < 2 ^ 53"
  shows "reads_back (JNum (Fin (of_int k))) (digits_of k)"
proof -
  have d: "all_digits (digits_of k)" using assms(1) by (rule digits_of_digits)
  then obtain c t where t: "digits_of k = c # t" "is_digit c" by (cases "digits_of k") (auto simp: all_digits_def)
  have first: "\<not> is_digit e" if "e \<in> {CHR ''n'', CHR ''t'', CHR ''f'', CHR 0x22, CHR ''['', CHR ''{'',
      CHR '' '', CHR 0x09, CHR 0x0A, CHR 0x0D}" for e
  proof -
    have "list_all (\<lambda>e. \<not> is_digit e) [CHR ''n'', CHR ''t'', CHR ''f'', CHR 0x22, CHR ''['', CHR ''{'',
      CHR '' '', CHR 0x09, CHR 0x0A, CHR 0x0D]" by code_simp
    then show ?thesis using that by (auto simp: list_all_iff)
  qed
  show ?thesis
  proof (rule reads_word [OF t(1)])
    show "parse_word (digits_of k @ rest) = Some (JNum (Fin (of_int k)), rest)" if "ends_number rest" for rest
    proof -
      have "c \<noteq> CHR ''n''" "c \<noteq> CHR ''t''" "c \<noteq> CHR ''f''" using first t(2) by blast+
      then have "parse_word (digits_of k @ rest) = parse_number (digits_of k @ rest)"
        unfolding parse_word_def js_startsWith_def t(1) by simp
      then show ?thesis using parse_digits [OF assms] that by (simp add: ends_number_def)
    qed
    show "\<not> is_json_ws c" using first t(2) unfolding is_json_ws_def by blast
  qed (use first t(2) in auto)
qed

lemma reads_quote: "reads_back (JStr s) (quote s)"
  unfolding reads_back_def
proof (intro allI impI)
  fix n ws rest
  assume a: "list_all is_json_ws ws" "ends_number rest" "2 * length (ws @ quote s @ rest) + 1 \<le> n"
  then obtain m where "n = Suc m" by (cases n) auto
  with a(1) show "parse_value n (ws @ quote s @ rest) = Some (JStr s, rest)"
    by (simp add: quote_def skip_ws_text parse_quoted)
qed

lemma obj_of_distinct: "distinct (map fst kvs) \<Longrightarrow> obj_of kvs = kvs"
proof (induction kvs rule: rev_induct)
  case Nil
  then show ?case by (simp add: obj_of_def)
next
  case (snoc kv kvs)
  obtain k v where kv: "kv = (k, v)" by force
  with snoc.prems have "k \<notin> fst ` set kvs" by auto
  then have "obj_set k v kvs = kvs @ [(k, v)]" by (induction kvs) (auto simp: obj_set_def)
  with snoc kv show ?case by (simp add: obj_of_def)
qed

lemma stringify_first:
  assumes "json_plain v"
  shows "\<exists>c t. stringify_at l v = c # t \<and> \<not> is_json_ws c \<and> c \<noteq> CHR '']'' \<and> c \<noteq> CHR ''}''"
proof (cases v)
  case (JNum n)
  with assms obtain k where k: "n = Fin (of_int k)" "0 \<le> k" "k < 2 ^ 53"
    by (auto simp: rat_is_int_def split: jsnum.splits)
  have "all_digits (digits_of k)" using k(2) by (rule digits_of_digits)
  then obtain c t where t: "digits_of k = c # t" "is_digit c" by (cases "digits_of k") (auto simp: all_digits_def)
  have "list_all (\<lambda>e. \<not> is_digit e) [CHR '']'', CHR ''}'', CHR '' '', CHR 0x09, CHR 0x0A, CHR 0x0D]" by code_simp
  with t(2) have "\<not> is_json_ws c \<and> c \<noteq> CHR '']'' \<and> c \<noteq> CHR ''}''" by (auto simp: is_json_ws_def)
  then show ?thesis using t(1) JNum k by (simp add: num_isFinite_def number_to_string_nat)
qed (auto simp: quote_def is_json_ws_def)

lemma stringify_reads: "json_plain v \<Longrightarrow> reads_back v (stringify_at l v)"
proof (induction v arbitrary: l)
  case JNull
  then show ?case by (simp add: reads_constant)
next
  case (JBool b)
  then show ?case by (simp add: reads_constant)
next
  case (JNum n)
  then obtain k where "n = Fin (of_int k)" "0 \<le> k" "k < 2 ^ 53"
    by (auto simp: rat_is_int_def split: jsnum.splits)
  then show ?case by (simp add: num_isFinite_def number_to_string_nat reads_digits)
next
  case (JStr s)
  then show ?case by (simp add: reads_quote)
next
  case (JArr vs)
  show ?case
  proof (cases "vs = []")
    case True
    show ?thesis
      unfolding reads_back_def
    proof (intro allI impI)
      fix n ws rest
      assume a: "list_all is_json_ws ws" "2 * length (ws @ stringify_at l (JArr vs) @ rest) + 1 \<le> n"
      then obtain m where "n = Suc m" by (cases n) auto
      with a(1) True show "parse_value n (ws @ stringify_at l (JArr vs) @ rest) = Some (JArr vs, rest)"
        by (simp add: skip_ws_text skip_ws_char)
    qed
  next
    case False
    let ?ts = "map (stringify_at (Suc l)) vs" and ?ind = "indent (Suc l)"
    let ?body = "js_join (CHR '','' # ?ind) ?ts"
    obtain v vs' where vs: "vs = v # vs'" using False by (cases vs) auto
    have "json_plain v" using JArr.prems vs by simp
    then obtain c t where c: "stringify_at (Suc l) v = c # t" "\<not> is_json_ws c" "c \<noteq> CHR '']''"
      using stringify_first by blast
    then have first: "skip_ws (?ind @ ?body @ s) = c # tl (?body @ s)" for s
      using ws_indent vs by (cases vs'; simp add: skip_ws_append skip_ws_char)+
    show ?thesis
      unfolding reads_back_def
    proof (intro allI impI)
      fix n ws rest
      assume a: "list_all is_json_ws ws" "2 * length (ws @ stringify_at l (JArr vs) @ rest) + 1 \<le> n"
      then obtain m where m: "n = Suc m" by (cases n) auto
      have "list_all2 reads_back vs ?ts" using JArr by (auto simp: list_all2_conv_all_nth list_all_length)
      then have "parse_elems m (?ind @ ?body @ indent l @ CHR '']'' # rest) = Some (vs, rest)"
        using False a(2) m by (intro elems_read) (auto simp: ws_indent)
      with a(1) m False c(3) first [of "indent l @ CHR '']'' # rest"]
      show "parse_value n (ws @ stringify_at l (JArr vs) @ rest) = Some (JArr vs, rest)"
        by (simp add: skip_ws_text)
    qed
  qed
next
  case (JObj kvs)
  show ?case
  proof (cases "kvs = []")
    case True
    show ?thesis
      unfolding reads_back_def
    proof (intro allI impI)
      fix n ws rest
      assume a: "list_all is_json_ws ws" "2 * length (ws @ stringify_at l (JObj kvs) @ rest) + 1 \<le> n"
      then obtain m where "n = Suc m" by (cases n) auto
      with a(1) True show "parse_value n (ws @ stringify_at l (JObj kvs) @ rest) = Some (JObj kvs, rest)"
        by (simp add: skip_ws_text skip_ws_char)
    qed
  next
    case False
    let ?f = "\<lambda>kv. quote (fst kv) @ '': '' @ stringify_at (Suc l) (snd kv)"
    let ?ts = "map ?f kvs" and ?ind = "indent (Suc l)"
    let ?body = "js_join (CHR '','' # ?ind) ?ts"
    obtain kv kvs' where kvs: "kvs = kv # kvs'" using False by (cases kvs) auto
    have first: "skip_ws (?ind @ ?body @ s) = CHR 0x22 # tl (?body @ s)" for s
      using ws_indent kvs by (cases kvs'; simp add: skip_ws_append skip_ws_char quote_def)+
    show ?thesis
      unfolding reads_back_def
    proof (intro allI impI)
      fix n ws rest
      assume a: "list_all is_json_ws ws" "2 * length (ws @ stringify_at l (JObj kvs) @ rest) + 1 \<le> n"
      then obtain m where m: "n = Suc m" by (cases n) auto
      have IH: "reads_back (snd kv) (stringify_at (Suc l) (snd kv))" if "kv \<in> set kvs" for kv
        using that JObj.IH [of kv "snd kv"] JObj.prems by (auto simp: list_all_iff snds.simps prod_eq_iff)
      have "list_all2 (\<lambda>kv t. \<exists>u. t = member_text (fst kv) u \<and> reads_back (snd kv) u) kvs ?ts"
        using IH by (auto simp: list_all2_conv_all_nth member_text_def)
      then have "parse_members m (?ind @ ?body @ indent l @ CHR ''}'' # rest) = Some (kvs, rest)"
        using False a(2) m by (intro members_read) (auto simp: ws_indent)
      with a(1) m False first [of "indent l @ CHR ''}'' # rest"] JObj.prems
      show "parse_value n (ws @ stringify_at l (JObj kvs) @ rest) = Some (JObj kvs, rest)"
        by (simp add: skip_ws_text obj_of_distinct)
    qed
  qed
qed

lemma json_parse_stringify: "json_plain v \<Longrightarrow> json_parse (json_stringify v) = Some v"
proof -
  assume "json_plain v"
  then have "parse_value (2 * length (stringify_at 0 v) + 1) ([] @ stringify_at 0 v @ []) = Some (v, [])"
    by (intro reads_backD stringify_reads) (auto simp: ends_number_def)
  then show ?thesis by (simp add: json_parse_def json_stringify_def skip_ws_def)
qed

end
