(* ===== verification/Policy_Fields.thy ===== *)
theory Policy_Fields
  imports Policy_Number Json_Text
begin

text \<open>
  The fields of the policy forms, \<open>features/policy/policy-form-fields.tsx\<close> and
  \<open>policy-transformed-field.tsx\<close>: what a field shows, the object an edit gives, and the drafts
  the text fields keep while the user types. A rendered control is reduced to its kind, its
  value, its options in order and its validity; labels, ids and styles are left out. The hook
  state of a component is a record, a render that resets it is a function from the old record
  to the new one, and an event handler gives the new record and the change it reports.
\<close>

subsection \<open>Values as text\<close>

definition newline :: string where
  "newline = [CHR 0x0A]"

definition textValue :: "json option \<Rightarrow> string" where
  "textValue v =
     (case v of Some (JArr vs) \<Rightarrow> js_join newline (map js_String vs)
      | Some (JStr s) \<Rightarrow> js_String (JStr s)
      | Some (JNum n) \<Rightarrow> js_String (JNum n)
      | Some (JBool b) \<Rightarrow> js_String (JBool b)
      | _ \<Rightarrow> [])"

definition listValue :: "json option \<Rightarrow> string list" where
  "listValue v = (case v of Some (JArr vs) \<Rightarrow> map js_String vs | _ \<Rightarrow> [])"

definition str_list :: "string list option \<Rightarrow> json option" where
  "str_list v = map_option (JArr \<circ> map JStr) v"

subsection \<open>Controls\<close>

datatype control =
    Switch bool
  | Select "string option" "string list" bool
  | Input string bool
  | Textarea string bool
  | Checks "(string \<times> bool) list"
  | InterfaceField string
  | StructuredField string bool
  | TransformedField control

definition selectControl :: "policy_field \<Rightarrow> string \<Rightarrow> control" where
  "selectControl field value =
     (let options = filter (\<lambda>s. s \<noteq> []) (case pf_options field of Some os \<Rightarrow> os | None \<Rightarrow> []);
          values = (if value \<noteq> [] \<and> value \<notin> set options then value # options else options);
          invalid = (pf_required field \<and> value = [])
      in Select (if value = [] then None else Some value) values invalid)"

definition refOptions :: "policy_field \<Rightarrow> form_context option \<Rightarrow> string list" where
  "refOptions field context =
     (let tags = (\<lambda>sel. case context of None \<Rightarrow> [] | Some c \<Rightarrow> (case sel c of None \<Rightarrow> [] | Some ts \<Rightarrow> ts))
      in case pf_ref field of
           Some RInbound \<Rightarrow> tags inboundTags
         | Some ROutbound \<Rightarrow> tags outboundTags
         | Some RDnsServer \<Rightarrow> tags dnsServerTags
         | Some RRuleSet \<Rightarrow> tags ruleSetTags
         | _ \<Rightarrow> (case pf_options field of Some os \<Rightarrow> os | None \<Rightarrow> []))"

definition refSelectControl :: "policy_field \<Rightarrow> string \<Rightarrow> form_context option \<Rightarrow> control" where
  "refSelectControl field value context =
     (let options = refOptions field context;
          items = (if value \<noteq> [] \<and> value \<notin> set options then value # options else options);
          invalid = (pf_required field \<and> value = [])
      in if options = [] then Input value invalid
         else Select (if value = [] then None else Some value) items invalid)"

text \<open>The current values missing from the options are put in front, one after the other.\<close>

definition refMultiItems :: "policy_field \<Rightarrow> string list \<Rightarrow> form_context option \<Rightarrow> string list" where
  "refMultiItems field value context =
     foldl (\<lambda>items item. if item \<noteq> [] \<and> item \<notin> set items then item # items else items)
       (refOptions field context) value"

definition refMultiControl :: "policy_field \<Rightarrow> string list \<Rightarrow> form_context option \<Rightarrow> control" where
  "refMultiControl field value context =
     Checks (map (\<lambda>option. (option, option \<in> set value)) (refMultiItems field value context))"

definition networkMultiControl :: "string list \<Rightarrow> control" where
  "networkMultiControl value = Checks (map (\<lambda>option. (option, option \<in> set value)) [''tcp'', ''udp''])"

definition toggle :: "string list \<Rightarrow> string \<Rightarrow> bool \<Rightarrow> string list option" where
  "toggle value option checked =
     (let next = (if checked then js_unique (value @ [option]) else filter (\<lambda>item. item \<noteq> option) value)
      in if length next > 0 then Some next else None)"

definition textControl :: "policy_field \<Rightarrow> string \<Rightarrow> control" where
  "textControl field value =
     (if pf_kind field \<in> {Some PTextarea, Some PList, Some PNumberList} then Textarea value False else Input value False)"

subsection \<open>Edits\<close>

definition policy_update :: "policy_transform option \<Rightarrow> jobj \<Rightarrow> policy_field \<Rightarrow> string \<Rightarrow> jobj option" where
  "policy_update transformField ob field raw =
     (case (case transformField of Some t \<Rightarrow> t ob field raw | None \<Rightarrow> Unhandled) of
        Unhandled \<Rightarrow> defaultPolicyFieldUpdate ob field raw
      | Rejected \<Rightarrow> None
      | Updated next \<Rightarrow> Some next)"

definition numeric_options :: "policy_field \<Rightarrow> bool" where
  "numeric_options field =
     (let options = (case pf_options field of Some os \<Rightarrow> os | None \<Rightarrow> [])
      in length options > 0 \<and> list_all (\<lambda>option. option \<noteq> [] \<and> num_isFinite (string_to_number option)) options)"

definition select_update :: "policy_transform option \<Rightarrow> jobj \<Rightarrow> policy_field \<Rightarrow> string \<Rightarrow> jobj option" where
  "select_update transformField ob field raw =
     (case (case transformField of Some t \<Rightarrow> t ob field raw | None \<Rightarrow> Unhandled) of
        Rejected \<Rightarrow> None
      | Updated next \<Rightarrow> Some next
      | Unhandled \<Rightarrow>
          if numeric_options field
          then Some (setPolicyPath ob (pf_path field) (if raw = [] then None else Some (JNum (string_to_number raw))))
          else policy_update transformField ob field raw)"

definition boolean_update :: "jobj \<Rightarrow> policy_field \<Rightarrow> bool \<Rightarrow> jobj" where
  "boolean_update ob field checked = setPolicyPath ob (pf_path field) (Some (JBool checked))"

definition toggle_update :: "jobj \<Rightarrow> policy_field \<Rightarrow> string \<Rightarrow> bool \<Rightarrow> jobj" where
  "toggle_update ob field option checked =
     setPolicyPath ob (pf_path field)
       (str_list (toggle (listValue (getPolicyPath ob (pf_path field))) option checked))"

subsection \<open>The network interface field\<close>

record interface_state =
  if_source :: string
  if_mode :: string

definition interface_mode :: "string \<Rightarrow> string list \<Rightarrow> string" where
  "interface_mode value names =
     (if value \<noteq> [] \<and> value \<notin> set names then ''manual'' else if value \<noteq> [] then value else ''unset'')"

definition interface_init :: "nat \<Rightarrow> string \<Rightarrow> string list \<Rightarrow> interface_state" where
  "interface_init revision value names = \<lparr>if_source = digits_of (int revision), if_mode = interface_mode value names\<rparr>"

definition interface_render :: "nat \<Rightarrow> string \<Rightarrow> string list \<Rightarrow> interface_state \<Rightarrow> interface_state" where
  "interface_render revision value names st =
     (if if_source st \<noteq> digits_of (int revision) then interface_init revision value names else st)"

definition interface_options :: "string \<Rightarrow> string list \<Rightarrow> interface_state \<Rightarrow> string list" where
  "interface_options value names st =
     (if value \<noteq> [] \<and> value \<notin> set names \<and> if_mode st \<noteq> ''manual'' then value # names else names)"

definition interface_select :: "interface_state \<Rightarrow> string \<Rightarrow> interface_state \<times> string option" where
  "interface_select st selected =
     (if selected = ''unset'' then (st\<lparr>if_mode := ''unset''\<rparr>, Some [])
      else if selected = ''manual'' then (st\<lparr>if_mode := ''manual''\<rparr>, None)
      else (st\<lparr>if_mode := selected\<rparr>, Some selected))"

subsection \<open>The structured field\<close>

record draft =
  d_raw :: string
  d_source :: string
  d_invalid :: bool

definition serialized :: "json option \<Rightarrow> string" where
  "serialized v = (case v of None \<Rightarrow> [] | Some j \<Rightarrow> json_stringify j)"

definition source_key :: "nat \<Rightarrow> string \<Rightarrow> string" where
  "source_key revision text = digits_of (int revision) @ '':'' @ text"

definition structured_init :: "nat \<Rightarrow> json option \<Rightarrow> draft" where
  "structured_init revision v =
     \<lparr>d_raw = serialized v, d_source = source_key revision (serialized v), d_invalid = False\<rparr>"

definition structured_render :: "nat \<Rightarrow> json option \<Rightarrow> draft \<Rightarrow> draft" where
  "structured_render revision v d =
     (if d_source d \<noteq> source_key revision (serialized v) then structured_init revision v else d)"

text \<open>The handler gives the draft, the validity it reports and the change, if any.\<close>

definition structured_update :: "nat \<Rightarrow> bool \<Rightarrow> draft \<Rightarrow> string \<Rightarrow> draft \<times> bool \<times> json option option" where
  "structured_update revision array d text =
     (if js_trim text = [] then (\<lparr>d_raw = text, d_source = source_key revision [], d_invalid = False\<rparr>, True, Some None)
      else case json_parse text of
          None \<Rightarrow> (d\<lparr>d_raw := text, d_invalid := True\<rparr>, False, None)
        | Some parsed \<Rightarrow>
            let valid = (if array then is_arr (Some parsed) else is_obj (Some parsed))
            in if valid
               then (\<lparr>d_raw = text, d_source = source_key revision (json_stringify parsed), d_invalid = False\<rparr>, True, Some (Some parsed))
               else (d\<lparr>d_raw := text, d_invalid := True\<rparr>, False, None))"

subsection \<open>The transformed field\<close>

definition transformed_current :: "nat \<Rightarrow> json option \<Rightarrow> draft \<Rightarrow> draft" where
  "transformed_current revision v d =
     (let key = source_key revision (textValue v)
      in if d_source d = key then d else \<lparr>d_raw = textValue v, d_source = key, d_invalid = False\<rparr>)"

definition transformed_update ::
  "policy_transform \<Rightarrow> nat \<Rightarrow> jobj \<Rightarrow> policy_field \<Rightarrow> string \<Rightarrow> draft \<times> bool \<times> jobj option" where
  "transformed_update transformField revision ob field raw =
     (case policy_update (Some transformField) ob field raw of
        None \<Rightarrow>
          (\<lparr>d_raw = raw, d_source = source_key revision (textValue (getPolicyPath ob (pf_path field))), d_invalid = True\<rparr>,
           False, None)
      | Some next \<Rightarrow>
          (\<lparr>d_raw = raw, d_source = source_key revision (textValue (getPolicyPath next (pf_path field))), d_invalid = False\<rparr>,
           True, Some next))"

subsection \<open>A field and a form\<close>

definition policyControl :: "policy_transform option \<Rightarrow> form_context option \<Rightarrow> jobj \<Rightarrow> policy_field \<Rightarrow> control" where
  "policyControl transformField context ob field =
     (let value = getPolicyPath ob (pf_path field)
      in case pf_kind field of
           Some PBoolean \<Rightarrow> Switch (value = Some (JBool True))
         | Some PSelect \<Rightarrow> selectControl field (textValue value)
         | Some PRef \<Rightarrow> if pf_ref field = Some RNetworkInterface then InterfaceField (textValue value)
             else refSelectControl field (textValue value) context
         | Some PRefMulti \<Rightarrow> refMultiControl field (listValue value) context
         | Some PNetworkMulti \<Rightarrow> networkMultiControl (listValue value)
         | Some PNetworkInterface \<Rightarrow> InterfaceField (textValue value)
         | Some PJsonObject \<Rightarrow> StructuredField (serialized value) False
         | Some PJsonArray \<Rightarrow> StructuredField (serialized value) True
         | _ \<Rightarrow> (if transformField \<noteq> None then TransformedField (textControl field (textValue value))
               else textControl field (textValue value)))"

definition policyFormGroups :: "policy_field list \<Rightarrow> jobj \<Rightarrow> (string option \<times> policy_field list) list" where
  "policyFormGroups specs ob = groupPolicyFieldsBySection (visiblePolicyFields specs ob)"

subsection \<open>Properties\<close>

lemma json_String_strings: "map js_String (map JStr ts) = ts"
  by (induction ts) auto

text \<open>
  A list of strings shown in its text area reads back unchanged when typed again, provided
  each element is trimmed, non-empty and has neither a line break nor a comma.
\<close>

lemma policy_list_roundtrip:
  assumes "pf_kind field = Some PList" and "ts \<noteq> []"
    and "\<forall>t\<in>set ts. t \<noteq> [] \<and> js_trim t = t \<and> (\<forall>c\<in>set t. \<not> is_list_sep c)"
  shows "defaultPolicyFieldUpdate ob field (textValue (str_list (Some ts)))
       = Some (setPolicyPath ob (pf_path field) (str_list (Some ts)))"
proof -
  have "textValue (str_list (Some ts)) = js_join newline ts"
    by (simp add: textValue_def str_list_def o_def map_idI)
  moreover have "list_tokens (js_join newline ts) = ts"
    unfolding newline_def by (rule list_tokens_join [OF assms(3)]) (simp add: is_list_sep_def)
  ultimately show ?thesis using assms by (simp add: defaultPolicyFieldUpdate_def parseList_def str_list_def)
qed

lemma policy_list_roundtrip_witness:
  "defaultPolicyFieldUpdate [] ((pfield ''domain'' ''domain'')\<lparr>pf_kind := Some PList\<rparr>)
       (textValue (str_list (Some [''a.example'', ''b.example''])))
     = Some (setPolicyPath [] (pf_path ((pfield ''domain'' ''domain'')\<lparr>pf_kind := Some PList\<rparr>))
         (str_list (Some [''a.example'', ''b.example''])))"
proof (rule policy_list_roundtrip)
  show "\<forall>t\<in>set [''a.example'', ''b.example'']. t \<noteq> [] \<and> js_trim t = t \<and> (\<forall>c\<in>set t. \<not> is_list_sep c)"
    by code_simp
qed simp_all

text \<open>
  An element with a comma, such as a regular expression with a bounded repetition, does not
  survive: the text area shows it whole and the edit stores its two halves.
\<close>

lemma policy_list_comma_split:
  "textValue (str_list (Some [''^a{1,2}$''])) = ''^a{1,2}$''
     \<and> defaultPolicyFieldUpdate ob ((pfield ''domain_regex'' ''domainRegex'')\<lparr>pf_kind := Some PList\<rparr>) ''^a{1,2}$''
       = Some (setPolicyPath ob ''domain_regex'' (str_list (Some [''^a{1'', ''2}$''])))"
proof -
  have "list_tokens ''^a{1,2}$'' = [''^a{1'', ''2}$'']" by code_simp
  then show ?thesis
    by (simp add: textValue_def str_list_def defaultPolicyFieldUpdate_def parseList_def)
qed

text \<open>
  What the user types in a transformed field is what the field goes on showing: after an
  edit the next render, over the object the edit gave (or the same object when it was refused),
  shows the typed text, marked invalid exactly when the edit was refused; after the form is
  reloaded it shows the stored value again.
\<close>

lemma transformed_field_keeps_text:
  "(case transformed_update t revision ob field raw of (d, valid, change) \<Rightarrow>
      (let next = (case change of Some ob' \<Rightarrow> ob' | None \<Rightarrow> ob);
           shown = transformed_current revision (getPolicyPath next (pf_path field)) d
       in d_raw shown = raw \<and> d_invalid shown = (\<not> valid) \<and> (valid \<longleftrightarrow> change \<noteq> None)))"
  by (cases "policy_update (Some t) ob field raw") (simp_all add: transformed_update_def transformed_current_def Let_def)

text \<open>
  The same for a structured field: a refused text changes nothing and stays on screen as
  invalid, an accepted text is kept on screen over the value it gave, and a text that parses to
  the wrong shape is refused.
\<close>

lemma structured_field_keeps_text:
  "(case structured_update revision array d text of (d', valid, change) \<Rightarrow>
      (case change of
         None \<Rightarrow> \<not> valid \<and> d_invalid d' \<and> d_raw d' = text \<and> d_source d' = d_source d
       | Some v \<Rightarrow> valid \<and> structured_render revision v d' = d' \<and> d_raw d' = text \<and> \<not> d_invalid d'
           \<and> (v = None \<or> (if array then is_arr v else is_obj v))))"
  by (cases "json_parse text")
     (simp_all add: structured_update_def structured_render_def structured_init_def serialized_def Let_def)

text \<open>
  The switch of a network changes that network only and leaves no empty list behind; but a
  network written as a single string, which the configuration format allows and which the type
  changes keep, is shown as no network and replaced by the first toggle.
\<close>

lemma toggle_exact:
  "(case toggle value option checked of None \<Rightarrow> [] | Some next \<Rightarrow> next)
       = (if checked then js_unique (value @ [option]) else filter (\<lambda>item. item \<noteq> option) value)
     \<and> toggle value option checked \<noteq> Some []
     \<and> listValue (Some (JStr s)) = []
     \<and> toggle_update [(''network'', JStr ''tcp'')] ((pfield ''network'' ''network'')\<lparr>pf_kind := Some PNetworkMulti\<rparr>) ''udp'' True
       = [(''network'', JArr [JStr ''udp''])]"
proof -
  have "path_keys ''network'' = [''network'']" by code_simp
  then have "toggle_update [(''network'', JStr ''tcp'')] ((pfield ''network'' ''network'')\<lparr>pf_kind := Some PNetworkMulti\<rparr>) ''udp'' True
       = [(''network'', JArr [JStr ''udp''])]"
    by (simp add: toggle_update_def setPolicyPath_single getPolicyPath_single listValue_def toggle_def str_list_def
        obj_get_def obj_set_def)
  then show ?thesis by (simp add: toggle_def Let_def listValue_def)
qed

end
