(* ===== verification/Policy_Dialogs.thy ===== *)
theory Policy_Dialogs
  imports Policy_Fields Route_Form
begin

text \<open>
  The dialogs of the policy pages: the state shared by their visual form and their JSON editor
  (\<open>policy-dialog-state.ts\<close>), and for the DNS server, DNS rule, route rule and rule set dialogs
  the fields of each tab, the required values and the condition for saving. Revisions are the
  counters that make the editors reload; the set of invalid fields holds their paths.
\<close>

subsection \<open>The state of a dialog\<close>

definition parseObject :: "string \<Rightarrow> jobj option" where
  "parseObject value = (case json_parse value of Some (JObj c) \<Rightarrow> Some c | _ \<Rightarrow> None)"

record dialog_state =
  ds_value :: string
  ds_object :: jobj
  ds_jsonValid :: bool
  ds_editorRevision :: nat
  ds_revision :: nat
  ds_invalid :: "string set"

definition dialog_init :: "jobj \<Rightarrow> dialog_state" where
  "dialog_init item =
     \<lparr>ds_value = json_stringify (JObj item), ds_object = item, ds_jsonValid = True,
      ds_editorRevision = 0, ds_revision = 0, ds_invalid = {}\<rparr>"

definition dialog_update :: "dialog_state \<Rightarrow> jobj \<Rightarrow> dialog_state" where
  "dialog_update st next =
     st\<lparr>ds_object := next, ds_value := json_stringify (JObj next), ds_jsonValid := True,
        ds_editorRevision := Suc (ds_editorRevision st)\<rparr>"

definition dialog_updateJSON :: "dialog_state \<Rightarrow> string \<Rightarrow> dialog_state" where
  "dialog_updateJSON st next =
     (case parseObject next of
        None \<Rightarrow> st\<lparr>ds_value := next, ds_jsonValid := False\<rparr>
      | Some parsed \<Rightarrow> st\<lparr>ds_value := next, ds_object := parsed, ds_jsonValid := True,
            ds_revision := Suc (ds_revision st), ds_invalid := {}\<rparr>)"

definition dialog_updateValidity :: "dialog_state \<Rightarrow> string \<Rightarrow> bool \<Rightarrow> dialog_state" where
  "dialog_updateValidity st path valid =
     st\<lparr>ds_invalid := (if valid then ds_invalid st - {path} else insert path (ds_invalid st))\<rparr>"

definition dialog_transform ::
  "policy_transform option \<Rightarrow> dialog_state \<Rightarrow> jobj \<Rightarrow> policy_field \<Rightarrow> string \<Rightarrow> transform_result \<times> dialog_state" where
  "dialog_transform transformField st current field raw =
     (let next = (case transformField of Some t \<Rightarrow> t current field raw | None \<Rightarrow> Unhandled)
      in (next, if next = Unhandled then st else dialog_updateValidity st (pf_path field) (next \<noteq> Rejected)))"

text \<open>What the form and the editor may do to the state, in the order it happens.\<close>

datatype dialog_event = EUpdate jobj | EJSON string | EValidity string bool | ETransform jobj policy_field string

fun dialog_step :: "policy_transform option \<Rightarrow> dialog_state \<Rightarrow> dialog_event \<Rightarrow> dialog_state" where
  "dialog_step t st (EUpdate next) = dialog_update st next"
| "dialog_step t st (EJSON text) = dialog_updateJSON st text"
| "dialog_step t st (EValidity path valid) = dialog_updateValidity st path valid"
| "dialog_step t st (ETransform current field raw) = snd (dialog_transform t st current field raw)"

definition dialog_run :: "policy_transform option \<Rightarrow> dialog_state \<Rightarrow> dialog_event list \<Rightarrow> dialog_state" where
  "dialog_run t st evs = foldl (dialog_step t) st evs"

text \<open>The save button: disabled unless the form allows it, and inert on invalid JSON.\<close>

definition dialog_canSave :: "(jobj \<Rightarrow> bool) \<Rightarrow> dialog_state \<Rightarrow> bool" where
  "dialog_canSave required st = (ds_jsonValid st \<and> required (ds_object st) \<and> ds_invalid st = {})"

definition dialog_save :: "(jobj \<Rightarrow> bool) \<Rightarrow> dialog_state \<Rightarrow> jobj option" where
  "dialog_save required st =
     (if dialog_canSave required st \<and> ds_jsonValid st then Some (ds_object st) else None)"

definition optionsWithCurrent :: "string list \<Rightarrow> string \<Rightarrow> string list" where
  "optionsWithCurrent values current = (if current \<noteq> [] \<and> current \<notin> set values then current # values else values)"

definition nonblank :: "json option \<Rightarrow> bool" where
  "nonblank v = (case v of Some (JStr s) \<Rightarrow> js_trim s \<noteq> [] | _ \<Rightarrow> False)"

definition nonempty :: "json option \<Rightarrow> bool" where
  "nonempty v = (case v of Some (JStr s) \<Rightarrow> s \<noteq> [] | _ \<Rightarrow> False)"

subsection \<open>The DNS server dialog\<close>

datatype server_tab = STBasic | STDialer | STTls | STSpecial

definition dns_tagField :: "policy_field list" where
  "dns_tagField = [(pfield ''tag'' ''tag'')\<lparr>pf_required := True, pf_section := Some ''basic''\<rparr>]"

definition basicPaths :: "string list" where
  "basicPaths = [''address'', ''server'', ''server_port'']"

definition tlsPaths :: "string list" where
  "tlsPaths = [''tls.enabled'', ''tls.disable_sni'', ''tls.server_name'', ''tls.insecure'', ''tls.alpn'',
     ''tls.certificate'', ''tls.certificate_path'']"

definition httpPaths :: "string list" where
  "httpPaths = [''path'', ''method'', ''headers'']"

definition specialPaths :: "string \<Rightarrow> string list" where
  "specialPaths type =
     (if type = ''local'' then [''prefer_go'']
      else if type = ''hosts'' then [''path'', ''predefined'']
      else if type = ''dhcp'' then [''prefer_go'', ''interface'']
      else if type = ''fakeip'' then [''inet4_range'', ''inet6_range'']
      else [])"

definition remoteTypes :: "string list" where
  "remoteTypes = [''udp'', ''tcp'', ''tls'', ''quic'', ''https'', ''h3'']"

fun serverFieldOn :: "string \<Rightarrow> server_tab \<Rightarrow> string \<Rightarrow> bool" where
  "serverFieldOn type STBasic path = (path \<in> set basicPaths)"
| "serverFieldOn type STTls path =
     (path \<in> set tlsPaths \<or> (type \<in> {''https'', ''h3''} \<and> path \<in> set httpPaths))"
| "serverFieldOn type STSpecial path = (path \<in> set (specialPaths type))"
| "serverFieldOn type STDialer path =
     (path \<notin> set basicPaths \<and> path \<notin> set tlsPaths \<and> path \<notin> set httpPaths \<and> path \<notin> set (specialPaths type))"

definition serverFields :: "string \<Rightarrow> server_tab \<Rightarrow> policy_field list res" where
  "serverFields type section =
     bind_res (registry_get dnsServerFields type) (\<lambda>fs.
       Inr (filter (\<lambda>field. serverFieldOn type section (pf_path field)) fs))"

definition requiredServerValues :: "jobj \<Rightarrow> bool" where
  "requiredServerValues ob =
     (let type = inferDNSServerType ob
      in if \<not> nonblank (obj_get ob ''tag'') then False
         else if type = ''legacy'' then nonblank (obj_get ob ''address'')
         else if type \<in> set remoteTypes then nonblank (obj_get ob ''server'')
         else if type = ''fakeip'' then nonblank (obj_get ob ''inet4_range'') \<or> nonblank (obj_get ob ''inet6_range'')
         else True)"

definition serverTypeField_options :: "jobj \<Rightarrow> string list" where
  "serverTypeField_options ob = optionsWithCurrent dnsServerTypes (inferDNSServerType ob)"

definition serverTypeField_change :: "dialog_state \<Rightarrow> string \<Rightarrow> dialog_state res" where
  "serverTypeField_change st value =
     bind_res (changeDNSServerType (ds_object st) value) (\<lambda>next. Inr (dialog_update st next))"

definition serverFields_change :: "dialog_state \<Rightarrow> jobj \<Rightarrow> dialog_state res" where
  "serverFields_change st next =
     bind_res (applyDNSServerFieldChange (inferDNSServerType (ds_object st)) next) (\<lambda>ob. Inr (dialog_update st ob))"

definition dnsServerDialog_save :: "dialog_state \<Rightarrow> jobj option" where
  "dnsServerDialog_save = dialog_save requiredServerValues"

subsection \<open>The DNS rule dialog\<close>

definition dns_fieldsAt :: "string list \<Rightarrow> policy_field list" where
  "dns_fieldsAt paths = filter (\<lambda>field. pf_path field \<in> set paths) dnsRuleMatchFields"

definition dns_basicFields :: "policy_field list" where
  "dns_basicFields = dns_fieldsAt [''inbound'', ''ip_version'', ''query_type'', ''network'', ''auth_user'', ''protocol'']"

definition dns_domainFields :: "policy_field list" where
  "dns_domainFields = dns_fieldsAt [''domain'', ''domain_suffix'', ''domain_keyword'', ''domain_regex'', ''source_ip_cidr'',
     ''source_ip_is_private'', ''ip_cidr'', ''ip_is_private'']"

definition dns_processFields :: "policy_field list" where
  "dns_processFields = dns_fieldsAt [''source_port'', ''source_port_range'', ''port'', ''port_range'', ''process_name'',
     ''process_path'', ''process_path_regex'', ''package_name'', ''user'', ''user_id'', ''outbound'', ''clash_mode'',
     ''rule_set'', ''rule_set_ip_cidr_match_source'', ''network_type'', ''network_is_expensive'',
     ''network_is_constrained'', ''wifi_ssid'', ''wifi_bssid'']"

definition dns_logicalFields :: "policy_field list" where
  "dns_logicalFields =
     [(pfield ''mode'' ''logicalMode'')\<lparr>pf_kind := Some PSelect, pf_options := Some [''and'', ''or''], pf_required := True\<rparr>,
      (pfield ''invert'' ''invert'')\<lparr>pf_kind := Some PBoolean\<rparr>]"

definition dns_requiredRuleValues :: "jobj \<Rightarrow> bool" where
  "dns_requiredRuleValues ob =
     (if obj_get ob ''type'' \<noteq> Some (JStr ''logical'') then True
      else nonempty (obj_get ob ''mode'') \<and> isNonEmptyJsonObjectArray (obj_get ob ''rules''))"

definition dns_requiredActionValue :: "jobj \<Rightarrow> bool" where
  "dns_requiredActionValue ob =
     (if string_or (obj_get ob ''action'') ''route'' = ''route'' then nonblank (obj_get ob ''server'') else True)"

datatype dns_rule_tab = DTBasic | DTDomain | DTProcess

fun dns_ruleTabFields :: "bool \<Rightarrow> dns_rule_tab \<Rightarrow> policy_field list" where
  "dns_ruleTabFields logical DTBasic = (if logical then dns_logicalFields else dns_basicFields @ [last dnsRuleMatchFields])"
| "dns_ruleTabFields logical DTDomain = (if logical then [] else dns_domainFields)"
| "dns_ruleTabFields logical DTProcess = (if logical then [] else dns_processFields)"

definition dns_actionTabFields :: "jobj \<Rightarrow> policy_field list res" where
  "dns_actionTabFields ob =
     (let action = string_or (obj_get ob ''action'') ''route''
      in bind_res (registry_get dnsActionFields action) (\<lambda>fs.
           Inr (if action = ''route'' then filter (\<lambda>field. pf_path field \<noteq> ''server'') fs else fs)))"

definition routeServerField_options :: "jobj \<Rightarrow> string list \<Rightarrow> string list" where
  "routeServerField_options ob tags = optionsWithCurrent tags (stringValue (obj_get ob ''server''))"

definition routeServerField_change :: "dialog_state \<Rightarrow> string option \<Rightarrow> dialog_state" where
  "routeServerField_change st value =
     dialog_update st (setPolicyPath (ds_object st) ''server''
       (case value of Some s \<Rightarrow> if s \<noteq> [] then Some (JStr s) else None | None \<Rightarrow> None))"

definition dns_ruleTypeField_change :: "dialog_state \<Rightarrow> string \<Rightarrow> dialog_state res" where
  "dns_ruleTypeField_change st value =
     bind_res (changeDNSRuleType (ds_object st) value) (\<lambda>next. Inr (dialog_update st next))"

definition dns_actionTypeField_change :: "dialog_state \<Rightarrow> string \<Rightarrow> dialog_state res" where
  "dns_actionTypeField_change st value =
     bind_res (changeDNSAction (ds_object st) value) (\<lambda>next. Inr (dialog_update st next))"

definition dns_ruleFormFields_change :: "dialog_state \<Rightarrow> jobj \<Rightarrow> dialog_state res" where
  "dns_ruleFormFields_change st next =
     bind_res (applyDNSRuleFieldChange (ds_object st) next) (\<lambda>ob. Inr (dialog_update st ob))"

definition dnsRuleDialog_save :: "dialog_state \<Rightarrow> jobj option" where
  "dnsRuleDialog_save = dialog_save (\<lambda>ob. dns_requiredRuleValues ob \<and> dns_requiredActionValue ob)"

subsection \<open>The route rule dialog\<close>

record route_rule_metadata =
  rm_name :: string
  rm_description :: string

definition emptyMetadata :: route_rule_metadata where
  "emptyMetadata = \<lparr>rm_name = [], rm_description = []\<rparr>"

definition route_paths :: "string list \<Rightarrow> policy_field list" where
  "route_paths values = filter (\<lambda>field. pf_path field \<in> set values) routeMatchFields"

definition route_basicFields :: "policy_field list" where
  "route_basicFields = route_paths [''type'', ''inbound'', ''ip_version'', ''network'', ''auth_user'', ''protocol'', ''client'', ''invert'']"

definition route_domainFields :: "policy_field list" where
  "route_domainFields = route_paths [''domain'', ''domain_suffix'', ''domain_keyword'', ''domain_regex'', ''source_ip_cidr'',
     ''source_ip_is_private'', ''ip_cidr'', ''ip_is_private'']"

definition route_processFields :: "policy_field list" where
  "route_processFields = route_paths [''source_port'', ''source_port_range'', ''port'', ''port_range'', ''process_name'',
     ''process_path'', ''process_path_regex'', ''package_name'', ''user'', ''user_id'']"

definition route_environmentFields :: "policy_field list" where
  "route_environmentFields = route_paths [''rule_set'', ''rule_set_ip_cidr_match_source'', ''clash_mode'', ''network_type'',
     ''network_is_expensive'', ''network_is_constrained'', ''wifi_ssid'', ''wifi_bssid'']"

definition route_logicalFields :: "policy_field list" where
  "route_logicalFields =
     [(pfield ''mode'' ''logicalMode'')\<lparr>pf_kind := Some PSelect, pf_options := Some [''and'', ''or''], pf_required := True\<rparr>,
      (pfield ''rules'' ''logicalRules'')\<lparr>pf_kind := Some PJsonArray, pf_required := True\<rparr>,
      last routeMatchFields]"

definition route_requiredActionValue :: "jobj \<Rightarrow> bool" where
  "route_requiredActionValue ob =
     (let action = string_or (obj_get ob ''action'') ''route''
      in if action = ''route'' \<or> action = ''bypass'' then nonempty (obj_get ob ''outbound'')
         else if action = ''resolve'' then nonempty (obj_get ob ''server'')
         else True)"

definition route_requiredRuleValue :: "jobj \<Rightarrow> bool" where
  "route_requiredRuleValue ob =
     (if obj_get ob ''type'' \<noteq> Some (JStr ''logical'') then True
      else nonempty (obj_get ob ''mode'') \<and> isNonEmptyJsonObjectArray (obj_get ob ''rules''))"

datatype route_rule_tab = RTBasic | RTDomain | RTProcess | RTEnvironment

fun route_ruleTabFields :: "bool \<Rightarrow> route_rule_tab \<Rightarrow> policy_field list" where
  "route_ruleTabFields logical RTBasic = (if logical then route_logicalFields else drop 1 route_basicFields)"
| "route_ruleTabFields logical RTDomain = (if logical then [] else route_domainFields)"
| "route_ruleTabFields logical RTProcess = (if logical then [] else route_processFields)"
| "route_ruleTabFields logical RTEnvironment = (if logical then [] else route_environmentFields)"

definition route_actionTabFields :: "jobj \<Rightarrow> policy_field list res" where
  "route_actionTabFields ob = registry_get routeActionFields (string_or (obj_get ob ''action'') ''route'')"

definition route_ruleTypeSelect_change :: "dialog_state \<Rightarrow> string \<Rightarrow> dialog_state res" where
  "route_ruleTypeSelect_change st value =
     bind_res (changeRouteRuleType (ds_object st) value) (\<lambda>next. Inr (dialog_update st next))"

definition route_action_change :: "dialog_state \<Rightarrow> string \<Rightarrow> dialog_state res" where
  "route_action_change st value =
     bind_res (changeRouteAction (ds_object st) value) (\<lambda>next. Inr (dialog_update st next))"

definition route_structuredFields_change :: "dialog_state \<Rightarrow> jobj \<Rightarrow> dialog_state res" where
  "route_structuredFields_change st next =
     bind_res (applyRouteRuleFieldChange (ds_object st) next) (\<lambda>ob. Inr (dialog_update st ob))"

definition routeRuleDialog_save :: "dialog_state \<Rightarrow> route_rule_metadata \<Rightarrow> (jobj \<times> route_rule_metadata) option" where
  "routeRuleDialog_save st details =
     (case dialog_save (\<lambda>ob. route_requiredRuleValue ob \<and> route_requiredActionValue ob) st of
        Some ob \<Rightarrow> Some (ob, details) | None \<Rightarrow> None)"

subsection \<open>The rule set dialog\<close>

definition rs_tagFields :: "policy_field list" where
  "rs_tagFields = [(pfield ''tag'' ''ruleSetTag'')\<lparr>pf_required := True\<rparr>]"

definition rs_formatFields :: "policy_field list" where
  "rs_formatFields = [pfield ''format'' ''format'']"

definition rs_localFields :: "policy_field list" where
  "rs_localFields = [(pfield ''path'' ''path'')\<lparr>pf_required := True\<rparr>]"

definition rs_remoteFields :: "policy_field list" where
  "rs_remoteFields =
     [(pfield ''url'' ''url'')\<lparr>pf_required := True\<rparr>,
      (pfield ''download_detour'' ''downloadDetour'')\<lparr>pf_kind := Some PRef, pf_ref := Some ROutbound\<rparr>,
      pfield ''update_interval'' ''updateInterval'']"

definition requiredFieldsPresent :: "jobj \<Rightarrow> bool" where
  "requiredFieldsPresent ob =
     (if \<not> nonempty (obj_get ob ''tag'') then False
      else if obj_get ob ''type'' = Some (JStr ''remote'') then nonempty (obj_get ob ''url'')
      else if obj_get ob ''type'' = Some (JStr ''local'') then nonempty (obj_get ob ''path'')
      else True)"

definition ruleSetFields_shown :: "jobj \<Rightarrow> policy_field list" where
  "ruleSetFields_shown ob =
     (let type = string_or (obj_get ob ''type'') ''inline''
      in rs_tagFields @ rs_formatFields
         @ (if type = ''remote'' then rs_remoteFields else if type = ''local'' then rs_localFields else []))"

definition rs_typeSelect_change :: "dialog_state \<Rightarrow> string \<Rightarrow> dialog_state res" where
  "rs_typeSelect_change st value =
     bind_res (changeRuleSetType (ds_object st) value) (\<lambda>next. Inr (dialog_update st next))"

definition ruleSetDialog_save :: "dialog_state \<Rightarrow> jobj option" where
  "ruleSetDialog_save = dialog_save requiredFieldsPresent"

subsection \<open>The form and the JSON text agree\<close>

definition dialog_agrees :: "dialog_state \<Rightarrow> bool" where
  "dialog_agrees st \<longleftrightarrow> (ds_jsonValid st \<longrightarrow> json_parse (ds_value st) = Some (JObj (ds_object st)))"

text \<open>The values the form writes: plain JSON, see \<^const>\<open>json_plain\<close>.\<close>

fun event_plain :: "dialog_event \<Rightarrow> bool" where
  "event_plain (EUpdate next) = json_plain (JObj next)"
| "event_plain _ = True"

lemma parseObject_Some: "parseObject text = Some ob \<longleftrightarrow> json_parse text = Some (JObj ob)"
  by (auto simp: parseObject_def split: option.splits json.splits)

lemma dialog_init_agrees: "json_plain (JObj item) \<Longrightarrow> dialog_agrees (dialog_init item)"
  by (simp add: dialog_agrees_def dialog_init_def json_parse_stringify)

lemma dialog_step_agrees: "dialog_agrees st \<Longrightarrow> event_plain e \<Longrightarrow> dialog_agrees (dialog_step t st e)"
  by (cases e)
     (auto simp: dialog_agrees_def dialog_update_def dialog_updateJSON_def dialog_updateValidity_def dialog_transform_def
        Let_def parseObject_Some json_parse_stringify split: option.splits)

lemma dialog_run_agrees:
  "dialog_agrees st \<Longrightarrow> \<forall>e\<in>set evs. event_plain e \<Longrightarrow> dialog_agrees (dialog_run t st evs)"
  unfolding dialog_run_def by (induction evs arbitrary: st) (auto simp: dialog_step_agrees)

text \<open>The tabs in the order of the dialogs.\<close>

definition dns_rule_tabs :: "dns_rule_tab list" where
  "dns_rule_tabs = [DTBasic, DTDomain, DTProcess]"

definition route_rule_tabs :: "route_rule_tab list" where
  "route_rule_tabs = [RTBasic, RTDomain, RTProcess, RTEnvironment]"

subsection \<open>Properties\<close>

text \<open>
  C12: However the user mixes form edits, refused inputs and edits of the JSON text, a dialog
  saves only an object that its JSON text parses to, that has the required values, and while no
  field is marked invalid. A text that is no JSON object can never be saved, and leaves the
  object of the form as it was.
\<close>

theorem policy_dialog_saves_what_it_shows:
  assumes "json_plain (JObj item)" and "\<forall>e\<in>set evs. event_plain e"
    and "dialog_save required (dialog_run t (dialog_init item) evs) = Some ob"
  shows "json_parse (ds_value (dialog_run t (dialog_init item) evs)) = Some (JObj ob)
     \<and> required ob \<and> ds_invalid (dialog_run t (dialog_init item) evs) = {}
     \<and> (parseObject text = None \<longrightarrow>
          dialog_save required (dialog_run t (dialog_init item) (evs @ [EJSON text])) = None
          \<and> ds_object (dialog_run t (dialog_init item) (evs @ [EJSON text])) = ob)"
proof -
  let ?st = "dialog_run t (dialog_init item) evs"
  have "dialog_agrees ?st" using assms(1,2) by (intro dialog_run_agrees dialog_init_agrees)
  moreover from assms(3) have "ds_jsonValid ?st" "required (ds_object ?st)" "ds_invalid ?st = {}" "ds_object ?st = ob"
    by (auto simp: dialog_save_def dialog_canSave_def split: if_splits)
  ultimately show ?thesis
    by (auto simp: dialog_agrees_def dialog_run_def dialog_updateJSON_def dialog_save_def dialog_canSave_def)
qed

theorem policy_dialog_saves_what_it_shows_witness:
  "dialog_save requiredFieldsPresent (dialog_run None (dialog_init [(''tag'', JStr ''a'')])
       [EJSON ''x'', EValidity ''tag'' False, EUpdate [(''tag'', JStr ''b'')], EValidity ''tag'' True])
     = Some [(''tag'', JStr ''b'')]
   \<and> json_parse (ds_value (dialog_run None (dialog_init [(''tag'', JStr ''a'')])
       [EJSON ''x'', EValidity ''tag'' False, EUpdate [(''tag'', JStr ''b'')], EValidity ''tag'' True]))
     = Some (JObj [(''tag'', JStr ''b'')])"
proof -
  let ?evs = "[EJSON ''x'', EValidity ''tag'' False, EUpdate [(''tag'', JStr ''b'')], EValidity ''tag'' True]"
  have "json_parse ''x'' = None" by code_simp
  then have saved: "dialog_save requiredFieldsPresent (dialog_run None (dialog_init [(''tag'', JStr ''a'')]) ?evs)
      = Some [(''tag'', JStr ''b'')]"
    by (simp add: dialog_save_def dialog_canSave_def dialog_run_def dialog_init_def dialog_update_def dialog_updateJSON_def
        dialog_updateValidity_def parseObject_def requiredFieldsPresent_def nonempty_def obj_get_def)
  have "json_plain (JObj [(''tag'', JStr ''a'')])" and "\<forall>e\<in>set ?evs. event_plain e" by simp_all
  from policy_dialog_saves_what_it_shows [OF this saved] saved show ?thesis by blast
qed

text \<open>
  A DNS server that leaves the old address form for a remote type, or enters it, cannot be
  saved as it comes out of the change: the address or host has to be filled in again.
\<close>

lemma legacy_boundary_blocks_save:
  assumes "changeDNSServerType server type = Inr server'"
    and "inferDNSServerType server = ''legacy'' \<and> type \<in> set remoteTypes
       \<or> hasOwn dnsServerCleanupFields (inferDNSServerType server) \<and> inferDNSServerType server \<noteq> ''legacy'' \<and> type = ''legacy''"
  shows "\<not> requiredServerValues server'"
proof -
  have known: "hasOwn dnsServerCleanupFields (inferDNSServerType server)" "hasOwn dnsServerCleanupFields type"
    and cross: "(inferDNSServerType server = ''legacy'') \<noteq> (type = ''legacy'')"
    using assms(2) by (auto simp: hasOwn_def dnsServerCleanupFields_def remoteTypes_def)
  have none: "obj_get server' p = None"
    if "p \<in> set (map cf_path (concat (registry_values dnsServerCleanupFields)))" "path_keys p = [p]" for p
  proof -
    have "p \<in> cf_path ` set (concat (registry_values dnsServerCleanupFields))" using that(1) by (simp only: list.set_map)
    then have "getPolicyPath server' p = None" by (rule changeDNSServerType_boundary [OF assms(1) known cross])
    then show ?thesis by (simp only: getPolicyPath_single [OF that(2)])
  qed
  have "obj_get server' ''address'' = None" by (rule none) code_simp+
  moreover have "obj_get server' ''server'' = None" by (rule none) code_simp+
  moreover have "inferDNSServerType server' = type"
    using assms(1) known(2) by (rule changeDNSServerType_infer)
  ultimately show ?thesis using assms(2) by (auto simp: requiredServerValues_def nonblank_def Let_def)
qed

lemma legacy_boundary_blocks_save_witness:
  "\<exists>server'. changeDNSServerType [(''tag'', JStr ''a''), (''address'', JStr ''8.8.8.8'')] ''udp'' = Inr server'
     \<and> \<not> requiredServerValues server'"
proof -
  let ?s = "[(''tag'', JStr ''a''), (''address'', JStr ''8.8.8.8'')]"
  have 1: "inferDNSServerType ?s = ''legacy''" "''udp'' \<in> set remoteTypes" "hasOwn dnsServerCleanupFields ''udp''" by code_simp+
  then obtain s' where "changeDNSServerType ?s ''udp'' = Inr s'"
    by (elim changeDNSServerType_known [of "''udp''" ?s]) simp_all
  with legacy_boundary_blocks_save [OF this] 1 show ?thesis by blast
qed

text \<open>
  The tabs of the dialogs cover the model: for every DNS server type of the page each field
  of the type is on exactly one tab, and in the rule dialogs each matching condition, the type
  apart, is on exactly one tab, so that no option is unreachable or shown twice.
\<close>

lemma dialog_tabs_partition:
  "list_all (\<lambda>type. case registry_get dnsServerFields type of Inl e \<Rightarrow> False
       | Inr fs \<Rightarrow> list_all (\<lambda>p. length (filter (\<lambda>tab. serverFieldOn type tab p) [STBasic, STDialer, STTls, STSpecial]) = 1)
           (map pf_path fs)) dnsServerTypes
   \<and> filter (\<lambda>p. count_list (map pf_path (concat (map (dns_ruleTabFields False) dns_rule_tabs))) p \<noteq> 1)
       (map pf_path dnsRuleMatchFields) = [''type'']
   \<and> filter (\<lambda>p. count_list (map pf_path (concat (map (route_ruleTabFields False) route_rule_tabs))) p \<noteq> 1)
       (map pf_path routeMatchFields) = [''type'']"
  by (intro conjI) code_simp+

end
