(* ===== verification/Policy_Page.thy ===== *)
theory Policy_Page
  imports Policy_Dialogs
begin

text \<open>
  The DNS and route pages: the editor of a section and what its buttons save
  (\<open>policy-page.tsx\<close>), the lists of rules, rule sets and servers with their cards
  (\<open>route-visual-editor.tsx\<close>, \<open>dns-visual-editor.tsx\<close> and the card components), and the metadata
  kept beside the route rules (\<open>route-page.tsx\<close>). The server's answers are parameters.
\<close>

subsection \<open>The editor of a section\<close>

record policy_editor =
  pe_value :: string
  pe_revision :: nat
  pe_invalid :: "string set"

definition parsePolicyObject :: "string \<Rightarrow> jobj option" where
  "parsePolicyObject value = (case json_parse value of Some (JObj c) \<Rightarrow> Some c | _ \<Rightarrow> None)"

definition pe_init :: "json \<Rightarrow> policy_editor" where
  "pe_init initialSection = \<lparr>pe_value = json_stringify initialSection, pe_revision = 0, pe_invalid = {}\<rparr>"

definition pe_object :: "policy_editor \<Rightarrow> jobj option" where
  "pe_object st = parsePolicyObject (pe_value st)"

definition pe_updateObject :: "policy_editor \<Rightarrow> jobj \<Rightarrow> policy_editor" where
  "pe_updateObject st next = st\<lparr>pe_value := json_stringify (JObj next)\<rparr>"

definition pe_updateJSON :: "policy_editor \<Rightarrow> string \<Rightarrow> policy_editor" where
  "pe_updateJSON st next = \<lparr>pe_value = next, pe_revision = Suc (pe_revision st), pe_invalid = {}\<rparr>"

definition pe_updateFieldValidity :: "policy_editor \<Rightarrow> string \<Rightarrow> bool \<Rightarrow> policy_editor" where
  "pe_updateFieldValidity st path valid =
     st\<lparr>pe_invalid := (if valid then pe_invalid st - {path} else insert path (pe_invalid st))\<rparr>"

text \<open>The visual tab is shown only for an object of the right structure.\<close>

definition pe_visual :: "policy_section \<Rightarrow> policy_editor \<Rightarrow> jobj option" where
  "pe_visual section st =
     (case pe_object st of Some ob \<Rightarrow> if isPolicySectionStructureValid section ob then Some ob else None | None \<Rightarrow> None)"

definition pe_savePolicy :: "policy_section \<Rightarrow> policy_editor \<Rightarrow> jobj option" where
  "pe_savePolicy section st =
     (case pe_object st of None \<Rightarrow> None
      | Some ob \<Rightarrow> if \<not> isPolicySectionStructureValid section ob \<or> pe_invalid st \<noteq> {} then None else Some ob)"

subsection \<open>Saving a part of a section\<close>

definition initial_object :: "json option \<Rightarrow> jobj" where
  "initial_object v = (case v of Some (JObj c) \<Rightarrow> c | _ \<Rightarrow> [])"

definition preserved :: "policy_section \<Rightarrow> jobj \<Rightarrow> jobj" where
  "preserved section ob =
     concat (map (\<lambda>k. case obj_get ob k of None \<Rightarrow> [] | Some v \<Rightarrow> [(k, v)])
       (case section of Route_section \<Rightarrow> [''rules'', ''rule_set''] | Dns_section \<Rightarrow> [''servers'', ''rules'']))"

fun section_key :: "policy_section \<Rightarrow> string" where
  "section_key Route_section = ''route''"
| "section_key Dns_section = ''dns''"

definition saveGlobal :: "policy_section \<Rightarrow> json option \<Rightarrow> jobj \<Rightarrow> jobj" where
  "saveGlobal section initialSection ob = obj_spread ob (preserved section (initial_object initialSection))"

definition policy_persist :: "policy_section \<Rightarrow> jobj \<Rightarrow> jobj \<Rightarrow> jobj" where
  "policy_persist section config ob = obj_set (section_key section) (JObj ob) config"

definition persistRules_section :: "policy_section \<Rightarrow> json option \<Rightarrow> jobj \<Rightarrow> jobj" where
  "persistRules_section section initialSection ob =
     obj_spread (initial_object initialSection) (preserved section ob)"

definition persistRules_config :: "policy_section \<Rightarrow> jobj \<Rightarrow> json option \<Rightarrow> jobj \<Rightarrow> jobj" where
  "persistRules_config section config initialSection ob =
     obj_set (section_key section) (JObj (persistRules_section section initialSection ob)) config"

datatype toast = ToastSuccess string | ToastError string

text \<open>
  What follows a save that the server answered: the toast, and the metadata sent, if any.
  \<open>send\<close> is the update request; it gives the message of its failure.
\<close>

definition persistRules_done ::
  "string \<Rightarrow> route_rule_metadata list \<Rightarrow> (route_rule_metadata list \<Rightarrow> string option) \<Rightarrow> toast \<times> route_rule_metadata list option" where
  "persistRules_done status metadata send =
     (if status = ''rolled_back'' then (ToastError ''policy.rolledBack'', None)
      else if length metadata > 0
        then (case send metadata of None \<Rightarrow> (ToastSuccess ''proxy.saved'', Some metadata)
              | Some message \<Rightarrow> (ToastError message, Some metadata))
      else (ToastSuccess ''proxy.saved'', None))"

definition persist_done :: "string \<Rightarrow> string option \<Rightarrow> toast" where
  "persist_done status afterSave =
     (if status = ''rolled_back'' then ToastError ''policy.rolledBack''
      else case afterSave of None \<Rightarrow> ToastSuccess ''proxy.saved'' | Some message \<Rightarrow> ToastError message)"

subsection \<open>Lists of items\<close>

definition emptyRuleMetadata :: route_rule_metadata where
  "emptyRuleMetadata = \<lparr>rm_name = [], rm_description = []\<rparr>"

definition alignedMetadata :: "jobj list \<Rightarrow> route_rule_metadata list \<Rightarrow> route_rule_metadata list" where
  "alignedMetadata rules metadata =
     map (\<lambda>index. if index < length metadata then metadata ! index else emptyRuleMetadata) [0..<length rules]"

definition replaceOrAppend :: "'a list \<Rightarrow> nat option \<Rightarrow> 'a \<Rightarrow> 'a list" where
  "replaceOrAppend items index item =
     (case index of None \<Rightarrow> items @ [item]
      | Some i \<Rightarrow> map (\<lambda>(currentIndex, current). if currentIndex = i then item else current) (enumerate 0 items))"

text \<open>A copy is placed behind its original; the positions come from the list itself.\<close>

definition insertMetadataCopy :: "route_rule_metadata list \<Rightarrow> nat \<Rightarrow> route_rule_metadata list" where
  "insertMetadataCopy items index = take (index + 1) items @ [items ! index] @ drop (index + 1) items"

definition insertCopy :: "jobj list \<Rightarrow> nat \<Rightarrow> jobj list" where
  "insertCopy items index = take (index + 1) items @ [cloneJsonObject (items ! index)] @ drop (index + 1) items"

subsection \<open>The route rules and their metadata\<close>

datatype rule_op =
    RuleCopy nat
  | RuleMoveUp nat
  | RuleMoveDown nat
  | RuleDelete nat
  | RuleSave "nat option" jobj route_rule_metadata

fun route_ruleOp :: "rule_op \<Rightarrow> jobj list \<Rightarrow> route_rule_metadata list \<Rightarrow> jobj list \<times> route_rule_metadata list" where
  "route_ruleOp (RuleCopy i) rules metadata = (insertCopy rules i, insertMetadataCopy metadata i)"
| "route_ruleOp (RuleMoveUp i) rules metadata = (moveItem rules (int i) (-1), moveItem metadata (int i) (-1))"
| "route_ruleOp (RuleMoveDown i) rules metadata = (moveItem rules (int i) 1, moveItem metadata (int i) 1)"
| "route_ruleOp (RuleDelete i) rules metadata = (remove_at i rules, remove_at i metadata)"
| "route_ruleOp (RuleSave index item nextMetadata) rules metadata =
     (replaceOrAppend rules index item, replaceOrAppend metadata index nextMetadata)"

text \<open>The section and the metadata after an operation, as \<open>updateBoth\<close> and \<open>saveSelection\<close> pass them on.\<close>

definition route_applyRuleOp :: "jobj \<Rightarrow> route_rule_metadata list \<Rightarrow> rule_op \<Rightarrow> jobj \<times> route_rule_metadata list" where
  "route_applyRuleOp ob metadata op =
     (let rules = routeRules ob; (nextRules, nextMetadata) = route_ruleOp op rules (alignedMetadata rules metadata)
      in (setRouteRules ob nextRules, nextMetadata))"

definition route_newRule :: "jobj \<times> route_rule_metadata" where
  "route_newRule = ([(''action'', JStr ''route'')], emptyRuleMetadata)"

definition route_newRuleSet :: jobj where
  "route_newRuleSet = [(''type'', JStr ''inline'')]"

definition route_saveRuleSet :: "jobj \<Rightarrow> nat option \<Rightarrow> jobj \<Rightarrow> jobj" where
  "route_saveRuleSet ob index item = setRouteRuleSets ob (replaceOrAppend (routeRuleSets ob) index item)"

definition route_copyRuleSet :: "jobj \<Rightarrow> nat \<Rightarrow> jobj" where
  "route_copyRuleSet ob index = setRouteRuleSets ob (insertCopy (routeRuleSets ob) index)"

definition route_deleteRuleSet :: "jobj \<Rightarrow> nat \<Rightarrow> jobj" where
  "route_deleteRuleSet ob index = setRouteRuleSets ob (remove_at index (routeRuleSets ob))"

record rule_set_status =
  rst_tag :: string
  rst_builtin :: bool
  rst_updatable :: bool
  rst_update_interval :: "string option"
  rst_last_updated :: "string option"
  rst_note :: "string option"

definition statusByTag :: "rule_set_status list \<Rightarrow> string \<Rightarrow> rule_set_status option" where
  "statusByTag items tag = last_by rst_tag items tag"

definition updatableCount :: "rule_set_status list \<Rightarrow> jobj list \<Rightarrow> nat" where
  "updatableCount status ruleSets =
     length (filter (\<lambda>item. case statusByTag status (stringValue (obj_get item ''tag'')) of
         Some st \<Rightarrow> rst_updatable st | None \<Rightarrow> False) ruleSets)"

definition ruleSetUpdate_toast :: "nat option \<Rightarrow> nat option \<Rightarrow> string" where
  "ruleSetUpdate_toast updated_count failed_count =
     (let updated = (case updated_count of Some n \<Rightarrow> n | None \<Rightarrow> 0); failed = (case failed_count of Some n \<Rightarrow> n | None \<Rightarrow> 0)
      in if failed > 0 \<and> updated > 0 then ''policy.route.ruleSetUpdatePartial''
         else if failed > 0 then ''policy.route.ruleSetUpdateFailed''
         else ''policy.route.ruleSetUpdateSuccess'')"

subsection \<open>The metadata draft of the route page\<close>

definition routePage_metadata :: "route_rule_metadata list option \<Rightarrow> route_rule_metadata list option \<Rightarrow> route_rule_metadata list" where
  "routePage_metadata draft data = (case draft of Some m \<Rightarrow> m | None \<Rightarrow> (case data of Some m \<Rightarrow> m | None \<Rightarrow> []))"

text \<open>After a save of the section the draft is sent, if there is one; the answer becomes the data.\<close>

definition routePage_saveMetadata ::
  "(route_rule_metadata list \<Rightarrow> string + route_rule_metadata list) \<Rightarrow> route_rule_metadata list option \<Rightarrow> route_rule_metadata list option \<Rightarrow>
     string + (route_rule_metadata list option \<times> route_rule_metadata list option)" where
  "routePage_saveMetadata send draft data =
     (case draft of None \<Rightarrow> Inr (None, data)
      | Some m \<Rightarrow> (case send m of Inl e \<Rightarrow> Inl e | Inr saved \<Rightarrow> Inr (None, Some saved)))"

subsection \<open>The DNS servers and rules\<close>

datatype list_op = LCopy nat | LMoveUp nat | LMoveDown nat | LDelete nat | LSave "nat option" jobj

fun dns_listOp :: "list_op \<Rightarrow> jobj list \<Rightarrow> jobj list" where
  "dns_listOp (LCopy i) items = insertCopy items i"
| "dns_listOp (LMoveUp i) items = moveItem items (int i) (-1)"
| "dns_listOp (LMoveDown i) items = moveItem items (int i) 1"
| "dns_listOp (LDelete i) items = remove_at i items"
| "dns_listOp (LSave index item) items = replaceOrAppend items index item"

definition dns_applyServerOp :: "jobj \<Rightarrow> list_op \<Rightarrow> jobj" where
  "dns_applyServerOp ob op = setDNSServers ob (dns_listOp op (dnsServers ob))"

definition dns_applyRuleOp :: "jobj \<Rightarrow> list_op \<Rightarrow> jobj" where
  "dns_applyRuleOp ob op = setDNSRules ob (dns_listOp op (dnsRules ob))"

definition dns_serverTags :: "jobj \<Rightarrow> string list" where
  "dns_serverTags ob =
     concat (map (\<lambda>server. case obj_get server ''tag'' of Some (JStr t) \<Rightarrow> if t \<noteq> [] then [t] else [] | _ \<Rightarrow> []) (dnsServers ob))"

definition dns_newRule :: jobj where
  "dns_newRule = [(''action'', JStr ''route'')]"

subsection \<open>The cards\<close>

definition outboundTagsOf :: "json option \<Rightarrow> string list" where
  "outboundTagsOf v =
     (case v of Some (JArr vs) \<Rightarrow>
        concat (map (\<lambda>item. case item of JObj c \<Rightarrow> (case obj_get c ''tag'' of Some (JStr t) \<Rightarrow> [t] | _ \<Rightarrow> []) | _ \<Rightarrow> []) vs)
      | _ \<Rightarrow> [])"

definition finalOutbound_options :: "jobj \<Rightarrow> json option \<Rightarrow> string list" where
  "finalOutbound_options ob outbounds =
     (let current = stringValue (getPolicyPath ob ''final''); tags = outboundTagsOf outbounds
      in if current \<noteq> [] \<and> current \<notin> set tags then current # tags else tags)"

definition finalOutbound_update :: "jobj \<Rightarrow> string option \<Rightarrow> jobj" where
  "finalOutbound_update ob next =
     setPolicyPath ob ''final'' (case next of Some s \<Rightarrow> if s \<noteq> [] then Some (JStr s) else None | None \<Rightarrow> None)"

definition routeGlobal_context :: "json option \<Rightarrow> json option \<Rightarrow> json option \<Rightarrow> string list \<times> string list" where
  "routeGlobal_context outbounds configOutbounds dns =
     (if length (outboundTagsOf outbounds) > 0 then outboundTagsOf outbounds else policyConfigTags configOutbounds None,
      policyDNSServerTags dns)"

definition dnsGlobal_context :: "json option \<Rightarrow> jobj \<Rightarrow> string list" where
  "dnsGlobal_context dns ob = policyDNSServerTags (nullish dns (Some (JObj ob)))"

record rule_card =
  rc_title :: string
  rc_description :: string
  rc_matches :: "string list"
  rc_action :: string
  rc_upDisabled :: bool
  rc_downDisabled :: bool

text \<open>\<open>title\<close> is the translated text of the generated title; \<open>labels\<close> are the translated labels.\<close>

definition routeRuleCard :: "(nat \<Rightarrow> string) \<Rightarrow> route_labels \<Rightarrow> nat \<Rightarrow> nat \<Rightarrow> jobj \<Rightarrow> route_rule_metadata option \<Rightarrow> rule_card" where
  "routeRuleCard title labels rules_count index item metadata =
     (let (matches, action) = summarizeRouteRule item labels;
          name = (case metadata of Some m \<Rightarrow> js_trim (rm_name m) | None \<Rightarrow> []);
          description = (case metadata of Some m \<Rightarrow> js_trim (rm_description m) | None \<Rightarrow> [])
      in \<lparr>rc_title = (if name \<noteq> [] then name else title (index + 1)),
          rc_description = (if description \<noteq> [] then description else string_or (obj_get item ''type'') ''default''),
          rc_matches = take 3 matches, rc_action = action,
          rc_upDisabled = (index = 0), rc_downDisabled = (Suc index = rules_count)\<rparr>)"

definition dnsRuleCard :: "(nat \<Rightarrow> string) \<Rightarrow> rule_labels \<Rightarrow> nat \<Rightarrow> nat \<Rightarrow> jobj \<Rightarrow> rule_card" where
  "dnsRuleCard title labels rules_count index item =
     (let (matches, action) = summarizeDNSRule item labels
      in \<lparr>rc_title = title (index + 1), rc_description = string_or (obj_get item ''type'') ''default'',
          rc_matches = take 4 matches, rc_action = action,
          rc_upDisabled = (index = 0), rc_downDisabled = (Suc index = rules_count)\<rparr>)"

definition card_tag :: "string \<Rightarrow> jobj \<Rightarrow> string" where
  "card_tag unnamed item = (case obj_get item ''tag'' of Some (JStr t) \<Rightarrow> if t \<noteq> [] then t else unnamed | _ \<Rightarrow> unnamed)"

definition dnsServerCard :: "string \<Rightarrow> server_labels \<Rightarrow> jobj \<Rightarrow> string \<times> string \<times> string option" where
  "dnsServerCard unnamed labels item =
     (let (type, detail) = summarizeDNSServer item labels
      in (card_tag unnamed item, type, if detail \<noteq> [] then Some detail else None))"

definition ruleSetCard :: "string \<Rightarrow> string \<Rightarrow> jobj \<Rightarrow> rule_set_status option \<Rightarrow> bool \<Rightarrow> string \<times> string \<times> string \<times> bool" where
  "ruleSetCard unnamed missing item status hasUpdate =
     (let (type, detail) = summarizeRuleSet item
      in (card_tag unnamed item, type, if detail \<noteq> [] then detail else missing,
          (case status of Some st \<Rightarrow> rst_updatable st | None \<Rightarrow> False) \<and> hasUpdate))"

subsection \<open>Rules with their metadata\<close>

text \<open>
  The abstract list: each rule with its metadata. An operation acts on the pairs.
\<close>

type_synonym described_rule = "jobj \<times> route_rule_metadata"

definition described_rules :: "jobj \<Rightarrow> route_rule_metadata list \<Rightarrow> described_rule list" where
  "described_rules ob metadata = zip (routeRules ob) (alignedMetadata (routeRules ob) metadata)"

fun described_op :: "rule_op \<Rightarrow> described_rule list \<Rightarrow> described_rule list" where
  "described_op (RuleCopy i) ps = take (Suc i) ps @ [ps ! i] @ drop (Suc i) ps"
| "described_op (RuleMoveUp i) ps = moveItem ps (int i) (-1)"
| "described_op (RuleMoveDown i) ps = moveItem ps (int i) 1"
| "described_op (RuleDelete i) ps = remove_at i ps"
| "described_op (RuleSave None item m) ps = ps @ [(item, m)]"
| "described_op (RuleSave (Some i) item m) ps = ps[i := (item, m)]"

text \<open>The cards offer an operation only at the position of a rule.\<close>

fun op_in_range :: "rule_op \<Rightarrow> nat \<Rightarrow> bool" where
  "op_in_range (RuleCopy i) n = (i < n)"
| "op_in_range (RuleMoveUp i) n = (i < n)"
| "op_in_range (RuleMoveDown i) n = (i < n)"
| "op_in_range (RuleDelete i) n = (i < n)"
| "op_in_range (RuleSave index item m) n = (case index of None \<Rightarrow> True | Some i \<Rightarrow> i < n)"

lemma length_alignedMetadata [simp]: "length (alignedMetadata rules metadata) = length rules"
  by (simp add: alignedMetadata_def)

lemma alignedMetadata_id: "length metadata = length rules \<Longrightarrow> alignedMetadata rules metadata = metadata"
  by (auto simp: alignedMetadata_def intro!: nth_equalityI)

lemma routeRules_set [simp]: "routeRules (setRouteRules ob rules) = rules"
  by (simp add: routeRules_def setRouteRules_def)

lemma replaceOrAppend_eq:
  "replaceOrAppend items index item = (case index of None \<Rightarrow> items @ [item] | Some i \<Rightarrow> items[i := item])"
proof (cases index)
  case (Some i)
  have "map (\<lambda>(currentIndex, current). if currentIndex = i then item else current) (enumerate 0 items) = items[i := item]"
    by (auto intro!: nth_equalityI simp: nth_enumerate_eq nth_list_update)
  with Some show ?thesis by (simp add: replaceOrAppend_def)
qed (simp add: replaceOrAppend_def)

lemma length_moveItem [simp]: "length (moveItem xs i d) = length xs"
  by (simp add: moveItem_def Let_def)

lemma zip_moveItem: "length xs = length ys \<Longrightarrow> zip (moveItem xs i d) (moveItem ys i d) = moveItem (zip xs ys) i d"
  by (auto simp: moveItem_def Let_def update_zip)

lemma zip_remove_at: "zip (remove_at i xs) (remove_at i ys) = remove_at i (zip xs ys)" if "length xs = length ys"
  using that by (simp add: remove_at_def take_zip drop_zip)

lemma route_ruleOp_zip:
  assumes "length rules = length metadata" and "op_in_range op (length rules)"
  shows "length (fst (route_ruleOp op rules metadata)) = length (snd (route_ruleOp op rules metadata))
     \<and> zip (fst (route_ruleOp op rules metadata)) (snd (route_ruleOp op rules metadata))
         = described_op op (zip rules metadata)"
  using assms
  by (cases op)
     (auto simp: insertCopy_def insertMetadataCopy_def cloneJsonObject_def take_zip drop_zip zip_moveItem zip_remove_at
        length_remove_at replaceOrAppend_eq update_zip split: option.splits)

lemma preserved_get:
  "obj_get (preserved section ob) k = (if k \<in> set (sectionArrayPaths section) then obj_get ob k else None)"
  by (cases "section") (auto simp: preserved_def obj_get_def split: option.splits)

lemma preserved_distinct: "distinct (map fst (preserved section ob))"
  by (cases "section") (auto simp: preserved_def split: option.splits)

lemmas spread_preserved = obj_get_spread [OF preserved_distinct]

subsection \<open>Properties\<close>

text \<open>
  C9: A route rule keeps its name and description: copying, moving, deleting, adding and editing
  a rule act on the list of rules with their metadata as on one list of pairs, the two lists
  stay of equal length, also when the stored metadata was too short or too long, and no other
  key of the section changes.
\<close>

theorem route_rules_keep_metadata:
  assumes "op_in_range op (length (routeRules ob))" and "route_applyRuleOp ob metadata op = (ob', metadata')"
    and "k \<noteq> ''rules''"
  shows "described_rules ob' metadata' = described_op op (described_rules ob metadata)
     \<and> length metadata' = length (routeRules ob') \<and> obj_get ob' k = obj_get ob k"
proof -
  let ?r = "routeRules ob" and ?m = "alignedMetadata (routeRules ob) metadata"
  from assms(2) have ob': "ob' = setRouteRules ob (fst (route_ruleOp op ?r ?m))" "metadata' = snd (route_ruleOp op ?r ?m)"
    by (auto simp: route_applyRuleOp_def Let_def split: prod.splits)
  with route_ruleOp_zip [of ?r ?m op] assms(1) have "length metadata' = length (routeRules ob')"
    and "zip (routeRules ob') metadata' = described_op op (zip ?r ?m)" by simp_all
  then show ?thesis
    using assms(3) ob' by (simp add: described_rules_def alignedMetadata_id setRouteRules_def)
qed

theorem route_rules_keep_metadata_witness:
  "\<exists>ob' metadata'. route_applyRuleOp [(''final'', JNull), (''rules'', JArr [JObj [], JObj [(''a'', JNull)]])] [\<lparr>rm_name = ''n'', rm_description = []\<rparr>] (RuleMoveUp 1)
       = (ob', metadata')
     \<and> described_rules ob' metadata' = [([(''a'', JNull)], emptyRuleMetadata), ([], \<lparr>rm_name = ''n'', rm_description = []\<rparr>)]"
proof -
  let ?ob = "[(''final'', JNull), (''rules'', JArr [JObj [], JObj [(''a'', JNull)]])]"
  let ?m = "[\<lparr>rm_name = ''n'', rm_description = []\<rparr>]"
  obtain ob' m' where 1: "route_applyRuleOp ?ob ?m (RuleMoveUp 1) = (ob', m')" by fastforce
  have rules: "routeRules ?ob = [[], [(''a'', JNull)]]" by (simp add: routeRules_def object_list_def obj_get_def)
  have "described_op (RuleMoveUp 1) (described_rules ?ob ?m)
      = [([(''a'', JNull)], emptyRuleMetadata), ([], \<lparr>rm_name = ''n'', rm_description = []\<rparr>)]"
    by (simp add: described_rules_def rules alignedMetadata_def upt_rec moveItem_def)
  then show ?thesis using route_rules_keep_metadata [OF _ 1, of "''final''"] 1 by (auto simp: rules)
qed

text \<open>
  The two kinds of saves of a page do not disturb each other: saving the rules stores the
  edited lists over the stored section and none of the unsaved global edits; saving the global
  settings stores the edited settings over the stored lists.
\<close>

lemma section_saves_split:
  "obj_get (persistRules_section section initialSection ob) k =
       (if k \<in> set (sectionArrayPaths section) \<and> obj_get ob k \<noteq> None then obj_get ob k
        else obj_get (initial_object initialSection) k)
   \<and> obj_get (saveGlobal section initialSection ob) k =
       (if k \<in> set (sectionArrayPaths section) \<and> obj_get (initial_object initialSection) k \<noteq> None
        then obj_get (initial_object initialSection) k else obj_get ob k)"
  by (auto simp: persistRules_section_def saveGlobal_def spread_preserved preserved_get split: option.splits)

text \<open>
  Deleting the last route rule leaves its name and description stored: the metadata to send
  is the empty list, and an empty list is never sent, whereas a non-empty one always is after
  a save that was not rolled back.
\<close>

lemma last_rule_metadata_stays:
  "route_applyRuleOp (setRouteRules ob [rule]) [metadata] (RuleDelete 0) = (setRouteRules (setRouteRules ob [rule]) [], [])
     \<and> persistRules_done ''ok'' [] send = (ToastSuccess ''proxy.saved'', None)
     \<and> snd (persistRules_done ''ok'' (m # ms) send) = Some (m # ms)
     \<and> snd (persistRules_done ''rolled_back'' (m # ms) send) = None"
  by (simp add: route_applyRuleOp_def remove_at_def persistRules_done_def split: option.split)

end
