(* ===== verification/Proxy_Fields.thy ===== *)
theory Proxy_Fields
  imports Policy_Fields Inbound_Form
begin

text \<open>
  The fields of the proxy forms, \<open>features/proxy/proxy-form-fields.tsx\<close>,
  \<open>inbound-users-field.tsx\<close>, \<open>inbound-form-fields.tsx\<close> and \<open>outbound-form-fields.tsx\<close>: what a
  field shows, the edit it makes, the selectors of listening addresses and interfaces with
  their manual inputs, and the table of users.
\<close>

record proxy_context =
  px_inboundTags :: "string list option"
  px_outboundTags :: "string list option"
  px_dnsServerTags :: "string list option"
  px_currentTag :: "string option"
  px_inboundType :: "string option"

type_synonym proxy_transform = "jobj \<Rightarrow> proxy_field \<Rightarrow> string \<Rightarrow> transform_result res"

subsection \<open>Edits of text\<close>

definition proxy_textValue :: "json option \<Rightarrow> string" where
  "proxy_textValue v =
     (case v of Some (JArr vs) \<Rightarrow> js_join newline (map js_String vs)
      | Some (JStr s) \<Rightarrow> js_String (JStr s)
      | Some (JNum n) \<Rightarrow> js_String (JNum n)
      | Some (JBool b) \<Rightarrow> js_String (JBool b)
      | _ \<Rightarrow> [])"

definition proxy_parseList :: "string \<Rightarrow> string list option" where
  "proxy_parseList value =
     (let values = list_tokens value in if length values > 0 then Some values else None)"

definition defaultUpdate :: "jobj \<Rightarrow> proxy_field \<Rightarrow> string \<Rightarrow> jobj option" where
  "defaultUpdate ob field raw =
     (if ff_kind field = Some FList then Some (setPath ob (ff_path field) (str_list (proxy_parseList raw)))
      else if ff_kind field = Some FNumberList then
        (case proxy_parseList raw of
           None \<Rightarrow> Some (setPath ob (ff_path field) None)
         | Some values \<Rightarrow> let numbers = map string_to_number values
             in if list_all num_isFinite numbers
                then Some (setPath ob (ff_path field) (Some (JArr (map JNum numbers)))) else None)
      else if ff_kind field = Some FNumber then
        Some (setPath ob (ff_path field) (if raw = [] then None else Some (JNum (string_to_number raw))))
      else Some (setPath ob (ff_path field) (if raw = [] then None else Some (JStr raw))))"

definition proxy_update :: "proxy_transform option \<Rightarrow> jobj \<Rightarrow> proxy_field \<Rightarrow> string \<Rightarrow> jobj option res" where
  "proxy_update transformField ob field raw =
     bind_res (case transformField of Some t \<Rightarrow> t ob field raw | None \<Rightarrow> Inr Unhandled) (\<lambda>transformed.
       Inr (case transformed of Unhandled \<Rightarrow> defaultUpdate ob field raw | Rejected \<Rightarrow> None | Updated next \<Rightarrow> Some next))"

text \<open>The transforms of the two pages: the transport type is an edit of its own.\<close>

definition inbound_transformField :: "string \<Rightarrow> proxy_transform" where
  "inbound_transformField type current field raw =
     (if ff_path field = ''transport.type''
      then bind_res (changeTransportType current raw) (\<lambda>next.
           bind_res (applyInboundFieldChange current next type) (\<lambda>ob. Inr (Updated ob)))
      else Inr Unhandled)"

definition outbound_transformField :: "string \<Rightarrow> proxy_transform" where
  "outbound_transformField type current field raw =
     (if ff_path field = ''transport.type''
      then bind_res (changeOutboundTransportType current raw) (\<lambda>next.
           bind_res (applyOutboundFieldChange current next type) (\<lambda>ob. Inr (Updated ob)))
      else Inr Unhandled)"

definition inbound_onChange :: "string \<Rightarrow> jobj \<Rightarrow> jobj \<Rightarrow> jobj res" where
  "inbound_onChange type ob next = applyInboundFieldChange ob next type"

definition outbound_onChange :: "string \<Rightarrow> jobj \<Rightarrow> jobj \<Rightarrow> jobj res" where
  "outbound_onChange type ob next = applyOutboundFieldChange ob next type"

subsection \<open>Selectors\<close>

definition unset_option :: string where
  "unset_option = ''__unset__''"

definition proxy_select_raw :: "string \<Rightarrow> string" where
  "proxy_select_raw next = (if next = unset_option then [] else next)"

definition proxy_selectOptions :: "proxy_field \<Rightarrow> string \<Rightarrow> string list" where
  "proxy_selectOptions field value =
     (let base = filter (\<lambda>s. s \<noteq> []) (case ff_options field of Some os \<Rightarrow> os | None \<Rightarrow> [])
      in if value \<noteq> [] \<and> value \<notin> set base then value # base else base)"

definition proxy_refOptions :: "proxy_field \<Rightarrow> proxy_context option \<Rightarrow> string list" where
  "proxy_refOptions field context =
     (let tags = (\<lambda>sel. case context of None \<Rightarrow> [] | Some c \<Rightarrow> (case sel c of None \<Rightarrow> [] | Some ts \<Rightarrow> ts))
      in case ff_ref field of
           Some FRInbound \<Rightarrow> tags px_inboundTags
         | Some FROutbound \<Rightarrow> tags px_outboundTags
         | Some FRDnsServer \<Rightarrow> tags px_dnsServerTags
         | _ \<Rightarrow> (case ff_options field of Some os \<Rightarrow> os | None \<Rightarrow> []))"

definition proxy_refItems :: "proxy_field \<Rightarrow> string \<Rightarrow> proxy_context option \<Rightarrow> string list" where
  "proxy_refItems field value context =
     (let list = proxy_refOptions field context
      in filter (\<lambda>item. item \<noteq> unset_option) (if value \<noteq> [] \<and> value \<notin> set list then value # list else list))"

definition interfaceMultiOptions :: "string list \<Rightarrow> string list \<Rightarrow> string list" where
  "interfaceMultiOptions names value = js_unique (names @ value)"

definition proxy_toggle :: "string list \<Rightarrow> string \<Rightarrow> bool \<Rightarrow> string list option" where
  "proxy_toggle value option checked =
     (let next = (if checked then js_unique (value @ [option]) else filter (\<lambda>item. item \<noteq> option) value)
      in if length next > 0 then Some next else None)"

definition interfaceLabel :: "string \<Rightarrow> string list option \<Rightarrow> string" where
  "interfaceLabel name ips =
     (let shown = filter (\<lambda>s. s \<noteq> []) (case ips of Some xs \<Rightarrow> xs | None \<Rightarrow> [])
      in if length shown > 0 then name @ '' ('' @ js_join '', '' shown @ '')'' else name)"

subsection \<open>Listening addresses\<close>

text \<open>
  The selector keeps its own mode; the manual input shows nothing for a value that the selector
  has as a preset. A selection gives the new state and the edit it makes, if any.
\<close>

definition isPreset :: "string \<Rightarrow> bool" where
  "isPreset candidate = (candidate = ''0.0.0.0'' \<or> candidate = ''::'')"

definition listen_deriveMode :: "string \<Rightarrow> string" where
  "listen_deriveMode candidate =
     (if isPreset candidate then candidate else if candidate \<noteq> [] then ''manual'' else ''unset'')"

definition listen_init :: "nat \<Rightarrow> string \<Rightarrow> interface_state" where
  "listen_init revision value = \<lparr>if_source = digits_of (int revision), if_mode = listen_deriveMode value\<rparr>"

definition listen_render :: "nat \<Rightarrow> string \<Rightarrow> interface_state \<Rightarrow> interface_state" where
  "listen_render revision value st =
     (if if_source st \<noteq> digits_of (int revision) then listen_init revision value else st)"

definition listen_select :: "string \<Rightarrow> interface_state \<Rightarrow> string \<Rightarrow> interface_state \<times> string option" where
  "listen_select value st selected =
     (if selected = ''unset'' then (st\<lparr>if_mode := ''unset''\<rparr>, Some [])
      else if selected = ''manual'' then (st\<lparr>if_mode := ''manual''\<rparr>, if isPreset value then Some [] else None)
      else (st\<lparr>if_mode := selected\<rparr>, Some selected))"

definition listen_inputText :: "string \<Rightarrow> string" where
  "listen_inputText value = (if isPreset value then [] else value)"

subsection \<open>Network interfaces\<close>

definition proxy_interface_deriveMode :: "string list \<Rightarrow> string \<Rightarrow> string" where
  "proxy_interface_deriveMode names candidate =
     (if candidate = [] then ''unset'' else if candidate \<in> set names then candidate else ''manual'')"

definition proxy_interface_source :: "nat \<Rightarrow> string list \<Rightarrow> string" where
  "proxy_interface_source revision names = digits_of (int revision) @ '':'' @ js_join ''|'' names"

definition proxy_interface_init :: "nat \<Rightarrow> string list \<Rightarrow> string \<Rightarrow> interface_state" where
  "proxy_interface_init revision names value =
     \<lparr>if_source = proxy_interface_source revision names, if_mode = proxy_interface_deriveMode names value\<rparr>"

definition proxy_interface_render :: "nat \<Rightarrow> string list \<Rightarrow> string \<Rightarrow> interface_state \<Rightarrow> interface_state" where
  "proxy_interface_render revision names value st =
     (if if_source st \<noteq> proxy_interface_source revision names then proxy_interface_init revision names value else st)"

definition proxy_interface_select ::
  "string list \<Rightarrow> string \<Rightarrow> interface_state \<Rightarrow> string \<Rightarrow> interface_state \<times> string option" where
  "proxy_interface_select names value st selected =
     (if selected = ''unset'' then (st\<lparr>if_mode := ''unset''\<rparr>, Some [])
      else if selected = ''manual''
        then (st\<lparr>if_mode := ''manual''\<rparr>, if value \<in> set names then Some [] else None)
      else (st\<lparr>if_mode := selected\<rparr>, Some selected))"

definition proxy_interface_inputText :: "string list \<Rightarrow> string \<Rightarrow> string" where
  "proxy_interface_inputText names value = (if value \<in> set names then [] else value)"

subsection \<open>The JSON field\<close>

definition json_objects :: "json \<Rightarrow> bool" where
  "json_objects v = (case v of JArr vs \<Rightarrow> list_all (\<lambda>item. is_obj (Some item)) vs | _ \<Rightarrow> False)"

definition json_field_update :: "nat \<Rightarrow> bool \<Rightarrow> draft \<Rightarrow> string \<Rightarrow> draft \<times> bool \<times> json option option" where
  "json_field_update revision array d text =
     (if js_trim text = [] then (\<lparr>d_raw = text, d_source = source_key revision [], d_invalid = False\<rparr>, True, Some None)
      else case json_parse text of
          None \<Rightarrow> (d\<lparr>d_raw := text, d_invalid := True\<rparr>, False, None)
        | Some parsed \<Rightarrow>
            let valid = (if array then json_objects parsed else is_obj (Some parsed))
            in if valid
               then (\<lparr>d_raw = text, d_source = source_key revision (json_stringify parsed), d_invalid = False\<rparr>, True, Some (Some parsed))
               else (d\<lparr>d_raw := text, d_invalid := True\<rparr>, False, None))"

subsection \<open>The users of an inbound\<close>

fun user_key_name :: "user_key \<Rightarrow> string" where
  "user_key_name KName = ''name''"
| "user_key_name KUsername = ''username''"
| "user_key_name KPassword = ''password''"
| "user_key_name KUuid = ''uuid''"
| "user_key_name KFlow = ''flow''"
| "user_key_name KAlterId = ''alterId''"

definition asUsers :: "json option \<Rightarrow> jobj list option" where
  "asUsers v =
     (case v of None \<Rightarrow> Some []
      | Some (JArr vs) \<Rightarrow> if list_all (\<lambda>item. is_obj (Some item)) vs then Some (object_list v) else None
      | _ \<Rightarrow> None)"

definition emptyUser :: "user_key list \<Rightarrow> jobj" where
  "emptyUser keys = foldl (\<lambda>ob key. obj_set (user_key_name key) (JStr []) ob) [] keys"

definition users_value :: "jobj list \<Rightarrow> json option" where
  "users_value users = (if length users > 0 then Some (JArr (map JObj users)) else None)"

definition set_user_key :: "user_key \<Rightarrow> string \<Rightarrow> jobj \<Rightarrow> jobj" where
  "set_user_key key nextValue user =
     (if nextValue = [] then obj_del (user_key_name key) user
      else obj_set (user_key_name key)
             (if key = KAlterId then JNum (string_to_number nextValue) else JStr nextValue) user)"

definition users_updateAt :: "jobj list \<Rightarrow> nat \<Rightarrow> user_key \<Rightarrow> string \<Rightarrow> jobj list" where
  "users_updateAt users index key nextValue =
     map (\<lambda>(userIndex, user). if userIndex \<noteq> index then user else set_user_key key nextValue user)
       (enumerate 0 users)"

definition users_removeAt :: "jobj list \<Rightarrow> nat \<Rightarrow> jobj list" where
  "users_removeAt users index =
     map snd (filter (\<lambda>(userIndex, user). userIndex \<noteq> index) (enumerate 0 users))"

definition users_add :: "string \<Rightarrow> jobj list \<Rightarrow> jobj list" where
  "users_add type users = users @ [emptyUser (userSchema type)]"

definition user_text :: "jobj \<Rightarrow> user_key \<Rightarrow> string" where
  "user_text user key = string_or (obj_get user (user_key_name key)) []"

text \<open>
  Users that are no list of objects are edited as text. The text shown is always the stored
  value; the handler gives the validity it reports and the change.
\<close>

definition users_rawText :: "json option \<Rightarrow> string" where
  "users_rawText v = serialized v"

definition users_editText :: "string \<Rightarrow> bool \<times> json option option" where
  "users_editText text =
     (let next = js_trim text
      in if next = [] then (True, Some None)
         else case json_parse next of
             None \<Rightarrow> (False, None)
           | Some parsed \<Rightarrow> if json_objects parsed then (True, Some (Some parsed)) else (False, None))"

subsection \<open>A field and a form\<close>

datatype proxy_control =
    PCSwitch bool
  | PCSelect "string option" "string list"
  | PCListen string
  | PCInterface string
  | PCInterfaceMulti "string list"
  | PCNetworks "(string \<times> bool) list"
  | PCUsers "jobj list option"
  | PCJson string bool
  | PCText string bool

definition proxyControl :: "bool \<Rightarrow> proxy_context option \<Rightarrow> jobj \<Rightarrow> proxy_field \<Rightarrow> proxy_control" where
  "proxyControl inbound context ob field =
     (let value = getPath ob (ff_path field); text = proxy_textValue value;
          chosen = (if text = [] then None else Some text)
      in case ff_kind field of
           Some FBoolean \<Rightarrow> PCSwitch (value = Some (JBool True))
         | Some FSelect \<Rightarrow> PCSelect chosen (proxy_selectOptions field text)
         | Some FListenAddress \<Rightarrow> PCListen text
         | Some FNetworkInterface \<Rightarrow> PCInterface text
         | Some FRef \<Rightarrow> if ff_ref field = Some FRNetworkInterfaceMulti then PCInterfaceMulti (listValue value)
             else PCSelect chosen (proxy_refItems field text context)
         | Some FNetworkMulti \<Rightarrow> PCNetworks (map (\<lambda>option. (option, option \<in> set (listValue value))) [''tcp'', ''udp''])
         | Some FUsers \<Rightarrow> if inbound then PCUsers (asUsers value) else PCJson (serialized value) True
         | Some FJsonObject \<Rightarrow> PCJson (serialized value) False
         | k \<Rightarrow> PCText text (k \<in> {Some FTextarea, Some FList, Some FNumberList}))"

text \<open>Switching an option off removes it.\<close>

definition proxy_boolean_update :: "jobj \<Rightarrow> proxy_field \<Rightarrow> bool \<Rightarrow> jobj" where
  "proxy_boolean_update ob field checked = setPath ob (ff_path field) (if checked then Some (JBool True) else None)"

definition proxyFormGroups :: "proxy_field list \<Rightarrow> jobj \<Rightarrow> (string option \<times> proxy_field list) list" where
  "proxyFormGroups specs ob = groupFieldsBySection (visibleFields specs ob)"

subsection \<open>Lemmas\<close>

text \<open>Typing in a manual input: each key appends to the text shown.\<close>

definition type_text :: "(string \<Rightarrow> string) \<Rightarrow> string \<Rightarrow> string \<Rightarrow> string" where
  "type_text shown value keys = foldl (\<lambda>v c. shown v @ [c]) value keys"

lemma type_text_prefixes:
  assumes "\<And>t u. keys = t @ u \<Longrightarrow> u \<noteq> [] \<Longrightarrow> shown (start @ t) = start @ t"
  shows "type_text shown start keys = start @ keys"
  using assms
proof (induction keys rule: rev_induct)
  case Nil
  then show ?case by (simp add: type_text_def)
next
  case (snoc c keys)
  have "type_text shown start keys = start @ keys" using snoc.prems by (intro snoc.IH) auto
  moreover have "shown (start @ keys) = start @ keys" using snoc.prems [of keys "[c]"] by simp
  ultimately show ?case by (simp add: type_text_def)
qed

lemma length_users_updateAt [simp]: "length (users_updateAt users i key v) = length users"
  by (simp add: users_updateAt_def)

lemma nth_users_updateAt:
  "j < length users \<Longrightarrow> users_updateAt users i key v ! j = (if j = i then set_user_key key v (users ! j) else users ! j)"
  by (simp add: users_updateAt_def nth_enumerate_eq)

lemma users_removeAt_remove_at: "users_removeAt users i = remove_at i users"
proof -
  have "map snd (filter (\<lambda>(j, user). j \<noteq> i) (enumerate n users)) = (if n \<le> i then remove_at (i - n) users else users)" for n
  proof (induction users arbitrary: n)
    case (Cons u users)
    consider "n = i" | "n < i" | "i < n" by linarith
    then show ?case
    proof cases
      case 2
      then obtain m where "i = Suc (n + m)" by (auto simp: less_iff_Suc_add)
      with Cons.IH [of "Suc n"] show ?thesis by (simp add: remove_at_def)
    qed (auto simp: Cons.IH remove_at_def)
  qed (simp add: remove_at_def)
  from this [of 0] show ?thesis by (simp add: users_removeAt_def)
qed

lemma inj_user_key_name: "user_key_name a = user_key_name b \<longleftrightarrow> a = b"
  by (cases a; cases b) simp_all

subsection \<open>Properties\<close>

text \<open>
  An edit in the table of users changes that field of that user and nothing else: the number
  of users, the other users and the other fields of the user stay, the field shows what was
  typed (an empty text removes it), and removing a user keeps the others in their order.
\<close>

lemma users_edit_exact:
  assumes "i < length users" and "key \<noteq> KAlterId"
  shows "length (users_updateAt users i key v) = length users
     \<and> user_text (users_updateAt users i key v ! i) key = v
     \<and> (\<forall>k. k \<noteq> user_key_name key \<longrightarrow> obj_get (users_updateAt users i key v ! i) k = obj_get (users ! i) k)
     \<and> (\<forall>j. j < length users \<and> j \<noteq> i \<longrightarrow> users_updateAt users i key v ! j = users ! j)
     \<and> users_removeAt users i = take i users @ drop (Suc i) users
     \<and> asUsers (users_value (users_updateAt users i key v)) = Some (users_updateAt users i key v)"
proof -
  have "asUsers (users_value us) = Some us" for us
    by (cases us) (auto simp: asUsers_def users_value_def object_list_def list_all_iff o_def)
  with assms show ?thesis
    by (simp add: nth_users_updateAt set_user_key_def user_text_def users_removeAt_remove_at remove_at_def)
qed

lemma users_edit_exact_example:
  "user_text (users_updateAt [[(''name'', JStr ''a'')], []] 1 KPassword ''p'' ! 1) KPassword = ''p''"
  using users_edit_exact [of 1 "[[(''name'', JStr ''a'')], []]" KPassword "''p''"] by simp

text \<open>
  The manual input of a listening address keeps what is typed as long as no prefix of it is
  one of the selector's presets; the address \<open>::1\<close> cannot be typed, since the input empties
  itself at \<open>::\<close> and the value becomes \<open>1\<close>. The input of an interface does the same with
  a name that another interface's name extends.
\<close>

lemma manual_typing:
  "((\<forall>t u. s = t @ u \<and> u \<noteq> [] \<longrightarrow> \<not> isPreset t) \<longrightarrow> type_text listen_inputText [] s = s)
     \<and> type_text listen_inputText [] ''::1'' = ''1''
     \<and> type_text (proxy_interface_inputText [''eth1'']) [] ''eth10'' = ''0''"
proof (intro conjI impI)
  assume s: "\<forall>t u. s = t @ u \<and> u \<noteq> [] \<longrightarrow> \<not> isPreset t"
  have "type_text listen_inputText [] s = [] @ s"
    using s by (intro type_text_prefixes) (auto simp: listen_inputText_def)
  then show "type_text listen_inputText [] s = s" by simp
qed code_simp+

lemma manual_typing_witness: "type_text listen_inputText [] ''10'' = ''10''"
proof -
  have "\<forall>t u. ''10'' = t @ u \<and> u \<noteq> [] \<longrightarrow> \<not> isPreset t" by (auto simp: isPreset_def Cons_eq_append_conv)
  then show ?thesis using manual_typing [of "''10''"] by blast
qed

text \<open>
  Users stored in another shape are edited as JSON text: a text is accepted exactly when it
  is blank or parses to a list of objects, and then the table takes over; a refused text
  is reported as invalid and changes nothing, so that the field goes on showing the stored
  value.
\<close>

lemma users_text_accepts_tables:
  "(case users_editText text of (valid, change) \<Rightarrow>
      (valid \<longleftrightarrow> change \<noteq> None)
      \<and> (case change of None \<Rightarrow> True | Some v \<Rightarrow> asUsers v \<noteq> None)
      \<and> (valid \<longleftrightarrow> js_trim text = [] \<or> (\<exists>us. json_parse (js_trim text) = Some (JArr (map JObj us)))))"
proof -
  have objs: "json_objects v \<longleftrightarrow> (\<exists>us. v = JArr (map JObj us))" for v
  proof -
    have "list_all (\<lambda>item. is_obj (Some item)) vs \<longleftrightarrow> (\<exists>us. vs = map JObj us)" for vs
      by (induction vs) (auto simp: Cons_eq_map_conv)
    then show ?thesis by (cases v) (auto simp: json_objects_def)
  qed
  show ?thesis
    by (cases "json_parse (js_trim text)")
       (auto simp: users_editText_def Let_def objs asUsers_def list_all_iff)
qed

end
