(* ===== verification/Proxy_Dialogs.thy ===== *)
theory Proxy_Dialogs
  imports Proxy_Fields Policy_Dialogs
begin

text \<open>
  The editors of inbounds and outbounds and the list pages: \<open>outbound-editor-dialog.tsx\<close>,
  \<open>inbound-editor-dialog.tsx\<close>, \<open>proxy-list-page.tsx\<close>, \<open>outbound-card.tsx\<close> and
  \<open>inbound-card.tsx\<close> of \<open>features/proxy\<close>. These dialogs keep only the JSON text; the object of the
  form is parsed from it at every render. A missing text on a card, shown as a dash, is
  \<^const>\<open>None\<close>.
\<close>

subsection \<open>The state of a dialog\<close>

definition isValidJSON :: "string \<Rightarrow> bool" where
  "isValidJSON value = (json_parse value \<noteq> None)"

definition proxy_parseObject :: "string \<Rightarrow> jobj option" where
  "proxy_parseObject value =
     (if \<not> isValidJSON value then None
      else case json_parse value of Some (JObj c) \<Rightarrow> Some c | _ \<Rightarrow> None)"

record proxy_dialog =
  pd_value :: string
  pd_revision :: nat
  pd_invalid :: "string set"

definition pd_init :: "jobj \<Rightarrow> proxy_dialog" where
  "pd_init item = \<lparr>pd_value = json_stringify (JObj item), pd_revision = 0, pd_invalid = {}\<rparr>"

definition pd_object :: "proxy_dialog \<Rightarrow> jobj option" where
  "pd_object st = proxy_parseObject (pd_value st)"

definition pd_update :: "proxy_dialog \<Rightarrow> jobj \<Rightarrow> proxy_dialog" where
  "pd_update st next = st\<lparr>pd_value := json_stringify (JObj next)\<rparr>"

definition pd_updateJSON :: "proxy_dialog \<Rightarrow> string \<Rightarrow> proxy_dialog" where
  "pd_updateJSON st next = st\<lparr>pd_value := next, pd_revision := Suc (pd_revision st)\<rparr>"

definition pd_updateValidity :: "proxy_dialog \<Rightarrow> string \<Rightarrow> bool \<Rightarrow> proxy_dialog" where
  "pd_updateValidity st path valid =
     st\<lparr>pd_invalid := (if valid then pd_invalid st - {path} else insert path (pd_invalid st))\<rparr>"

definition pd_saveDisabled :: "proxy_dialog \<Rightarrow> bool" where
  "pd_saveDisabled st =
     (case pd_object st of None \<Rightarrow> True
      | Some ob \<Rightarrow> \<not> nonempty (obj_get ob ''type'') \<or> pd_invalid st \<noteq> {})"

definition pd_save :: "proxy_dialog \<Rightarrow> jobj option" where
  "pd_save st = (if pd_saveDisabled st then None else pd_object st)"

subsection \<open>The outbound dialog\<close>

definition outbound_typeOptions :: "string \<Rightarrow> string list" where
  "outbound_typeOptions type = (if type \<noteq> [] \<and> type \<notin> set outboundTypes then type # outboundTypes else outboundTypes)"

definition text_or_unset :: "string \<Rightarrow> json option" where
  "text_or_unset s = (if s = [] then None else Some (JStr s))"

datatype outbound_base_field = OBTag | OBType | OBServer | OBServerPort

definition outbound_baseFields :: "jobj \<Rightarrow> outbound_base_field list" where
  "outbound_baseFields ob =
     [OBTag, OBType] @ (if string_or (obj_get ob ''type'') [] \<in> set serverTypes then [OBServer, OBServerPort] else [])"

fun outbound_baseChange :: "jobj \<Rightarrow> outbound_base_field \<Rightarrow> string \<Rightarrow> jobj res" where
  "outbound_baseChange ob OBTag value = Inr (setPath ob ''tag'' (text_or_unset value))"
| "outbound_baseChange ob OBType value = changeOutboundType ob value"
| "outbound_baseChange ob OBServer value = Inr (setPath ob ''server'' (text_or_unset value))"
| "outbound_baseChange ob OBServerPort value =
     Inr (setPath ob ''server_port'' (if value = [] then None else Some (JNum (string_to_number value))))"

definition group_members :: "jobj \<Rightarrow> string list" where
  "group_members ob =
     (case obj_get ob ''outbounds'' of
        Some (JArr vs) \<Rightarrow> concat (map (\<lambda>item. case item of JStr s \<Rightarrow> [s] | _ \<Rightarrow> []) vs) | _ \<Rightarrow> [])"

definition group_candidates :: "json option \<Rightarrow> jobj \<Rightarrow> string list" where
  "group_candidates outbounds ob =
     (case outbounds of
        Some (JArr vs) \<Rightarrow>
          filter (\<lambda>tag. tag \<noteq> [] \<and> tag \<noteq> string_or (obj_get ob ''tag'') [] \<and> tag \<notin> set (group_members ob))
            (map (\<lambda>item. case item of JObj c \<Rightarrow> string_or (obj_get c ''tag'') [] | _ \<Rightarrow> []) vs)
      | _ \<Rightarrow> [])"

definition group_setMembers :: "jobj \<Rightarrow> string list \<Rightarrow> jobj" where
  "group_setMembers ob next =
     (let nextObject = setPath ob ''outbounds'' (if length next > 0 then Some (JArr (map JStr next)) else None);
          currentDefault = stringValue (obj_get nextObject ''default'')
      in if currentDefault \<noteq> [] \<and> currentDefault \<notin> set next then setPath nextObject ''default'' None else nextObject)"

definition group_removeMember :: "jobj \<Rightarrow> string \<Rightarrow> jobj" where
  "group_removeMember ob member = group_setMembers ob (filter (\<lambda>item. item \<noteq> member) (group_members ob))"

definition group_addMember :: "jobj \<Rightarrow> string \<Rightarrow> jobj" where
  "group_addMember ob value = group_setMembers ob (group_members ob @ [value])"

definition group_setDefault :: "jobj \<Rightarrow> string option \<Rightarrow> jobj" where
  "group_setDefault ob value =
     setPath ob ''default'' (case value of Some s \<Rightarrow> text_or_unset s | None \<Rightarrow> None)"

datatype outbound_tab = OTDialer | OTProtocol | OTTls | OTTransport

definition outbound_tabs :: "string \<Rightarrow> outbound_tab list" where
  "outbound_tabs type =
     (if type \<in> set dialerTypes then [OTDialer] else []) @ [OTProtocol]
     @ (if type \<in> set outboundTLSTypes then [OTTls] else [])
     @ (if type \<in> set outboundTransportTypes \<or> type \<in> set outboundMultiplexTypes then [OTTransport] else [])"

fun outbound_tabFields :: "string \<Rightarrow> string \<Rightarrow> outbound_tab \<Rightarrow> proxy_field list res" where
  "outbound_tabFields type transportType OTDialer = Inr outbound_dialerFields"
| "outbound_tabFields type transportType OTProtocol =
     (if type \<in> set groupTypes
      then bind_res (groupFields type) (\<lambda>fs.
             Inr (filter (\<lambda>field. ff_path field \<noteq> ''outbounds'' \<and> ff_path field \<noteq> ''default'') fs))
      else outbound_protocolFields type)"
| "outbound_tabFields type transportType OTTls = Inr outboundTLSFields"
| "outbound_tabFields type transportType OTTransport =
     bind_res (if type \<in> set outboundTransportTypes then outbound_transportTypeFields transportType else Inr []) (\<lambda>fs.
       Inr (fs @ (if type \<in> set outboundMultiplexTypes then outboundMultiplexFields else [])))"

subsection \<open>The inbound dialog\<close>

definition inbound_typeOptions :: "string \<Rightarrow> string list" where
  "inbound_typeOptions type = (if type \<noteq> [] \<and> type \<notin> set inboundTypes then type # inboundTypes else inboundTypes)"

definition inbound_tagChange :: "jobj \<Rightarrow> string \<Rightarrow> jobj" where
  "inbound_tagChange ob value = obj_spread ob [(''tag'', JStr value)]"

definition inbound_typeChange :: "jobj \<Rightarrow> string \<Rightarrow> jobj res" where
  "inbound_typeChange ob value = changeInboundType ob value"

datatype inbound_tab = ITBasic | ITListen | ITProtocol | ITTls | ITTransport

definition inbound_tabs :: "string \<Rightarrow> inbound_tab list" where
  "inbound_tabs type =
     [ITBasic, ITListen, ITProtocol] @ (if type \<in> set inbound_tlsTypes then [ITTls] else [])
     @ (if type \<in> set inbound_transportTypes \<or> type \<in> set inbound_multiplexTypes then [ITTransport] else [])"

fun inbound_tabFields :: "string \<Rightarrow> string \<Rightarrow> inbound_tab \<Rightarrow> proxy_field list res" where
  "inbound_tabFields type transportType ITBasic = Inr (if type = ''tun'' then take 4 tunFields else take 2 listenFields)"
| "inbound_tabFields type transportType ITListen = Inr (if type = ''tun'' then drop 4 tunFields else drop 2 listenFields)"
| "inbound_tabFields type transportType ITProtocol = inbound_protocolFields type"
| "inbound_tabFields type transportType ITTls = Inr inbound_tlsFields"
| "inbound_tabFields type transportType ITTransport =
     bind_res (if type \<in> set inbound_transportTypes then inbound_transportTypeFields transportType else Inr []) (\<lambda>fs.
       Inr (fs @ (if type \<in> set inbound_multiplexTypes then inbound_multiplexFields else [])))"

subsection \<open>The list pages\<close>

definition proxy_items :: "jobj \<Rightarrow> string \<Rightarrow> jobj list" where
  "proxy_items config key = object_list (obj_get config key)"

definition proxy_persist :: "jobj \<Rightarrow> string \<Rightarrow> jobj list \<Rightarrow> jobj" where
  "proxy_persist config key nextItems = obj_set key (JArr (map JObj nextItems)) config"

text \<open>\<^const>\<open>None\<close> is the index -1 of a new item.\<close>

definition proxy_saveItem :: "jobj \<Rightarrow> string \<Rightarrow> nat option \<Rightarrow> jobj \<Rightarrow> jobj" where
  "proxy_saveItem config key index item =
     (let items = proxy_items config key
      in proxy_persist config key (case index of None \<Rightarrow> items @ [item] | Some i \<Rightarrow> items[i := item]))"

definition proxy_deleteItem :: "jobj \<Rightarrow> string \<Rightarrow> nat \<Rightarrow> jobj" where
  "proxy_deleteItem config key index =
     proxy_persist config key (remove_at index (proxy_items config key))"

record outbound_group =
  og_type :: string
  og_tag :: string
  og_all :: "string list"
  og_now :: string

definition configGroup :: "jobj \<Rightarrow> outbound_group option" where
  "configGroup item =
     (let type = string_or (obj_get item ''type'') []; tag = string_or (obj_get item ''tag'') [];
          all = group_members item
      in if tag = [] \<or> type \<notin> {''selector'', ''urltest''} \<or> all = [] then None
         else Some \<lparr>og_type = type, og_tag = tag, og_all = all,
                og_now = (case obj_get item ''default'' of Some (JStr d) \<Rightarrow> d | _ \<Rightarrow> hd all)\<rparr>)"

text \<open>A subscription, as far as the page reads it: its name and the tags of its outbounds.\<close>

record subscription =
  su_name :: string
  su_outbounds :: "string list option"

definition subscription_tags :: "subscription list \<Rightarrow> string list" where
  "subscription_tags subs = concat (map (\<lambda>s. case su_outbounds s of Some ts \<Rightarrow> ts | None \<Rightarrow> []) subs)"

definition independent_outbounds :: "subscription list \<Rightarrow> jobj list \<Rightarrow> (nat \<times> jobj) list" where
  "independent_outbounds subs items =
     filter (\<lambda>(index, item). string_or (obj_get item ''tag'') [] \<notin> set (subscription_tags subs)
          \<and> string_or (obj_get item ''tag'') [] \<notin> set (map su_name subs))
       (enumerate 0 items)"

definition subscription_groups :: "subscription list \<Rightarrow> outbound_group list \<Rightarrow> jobj list \<Rightarrow> outbound_group list" where
  "subscription_groups subs runtime items =
     concat (map (\<lambda>s.
       if su_outbounds s = None \<or> su_outbounds s = Some [] then []
       else case last_by og_tag runtime (su_name s) of
           Some g \<Rightarrow> [g]
         | None \<Rightarrow> (case find (\<lambda>item. obj_get item ''tag'' = Some (JStr (su_name s))) items of
               None \<Rightarrow> []
             | Some item \<Rightarrow> (case configGroup item of None \<Rightarrow> [] | Some g \<Rightarrow> [g]))) subs)"

subsection \<open>The cards\<close>

definition card_text :: "json option \<Rightarrow> string option" where
  "card_text v = (case v of Some (JStr s) \<Rightarrow> Some s | Some (JNum n) \<Rightarrow> Some (number_to_string n) | _ \<Rightarrow> None)"

definition js_truthy :: "json option \<Rightarrow> bool" where
  "js_truthy v = (case v of None \<Rightarrow> False | Some JNull \<Rightarrow> False | Some (JBool b) \<Rightarrow> b
     | Some (JNum n) \<Rightarrow> n \<noteq> Fin 0 \<and> n \<noteq> NegZero \<and> n \<noteq> NaN | Some (JStr s) \<Rightarrow> s \<noteq> [] | _ \<Rightarrow> True)"

text \<open>The parts of an outbound card, in order; the server and its port are joined by a colon.\<close>

record outbound_card =
  oc_tag :: "string option"
  oc_type :: "string option"
  oc_server :: "(string option \<times> string option option) option"
  oc_tls :: bool
  oc_transport :: "string option"
  oc_members :: "string list"
  oc_detour :: "string option option"

definition outboundCard :: "jobj \<Rightarrow> outbound_card" where
  "outboundCard item =
     \<lparr>oc_tag = card_text (obj_get item ''tag''),
      oc_type = card_text (obj_get item ''type''),
      oc_server = (if obj_get item ''server'' = None then None
        else Some (card_text (obj_get item ''server''),
               if obj_get item ''server_port'' = None then None else Some (card_text (obj_get item ''server_port'')))),
      oc_tls = (case obj_get item ''tls'' of Some (JObj c) \<Rightarrow> obj_get c ''enabled'' = Some (JBool True) | _ \<Rightarrow> False),
      oc_transport = (case obj_get item ''transport'' of
          Some (JObj c) \<Rightarrow> (case card_text (obj_get c ''type'') of Some t \<Rightarrow> if t = [] then None else Some t | None \<Rightarrow> None)
        | _ \<Rightarrow> None),
      oc_members = group_members item,
      oc_detour = (if js_truthy (obj_get item ''detour'') then Some (card_text (obj_get item ''detour'')) else None)\<rparr>"

record inbound_card =
  ic_tag :: "string option"
  ic_type :: "string option"
  ic_address :: "string option"
  ic_port :: "string option option"

text \<open>A missing port, and an empty text, has no badge.\<close>

definition inboundCard :: "jobj \<Rightarrow> inbound_card" where
  "inboundCard item =
     \<lparr>ic_tag = card_text (obj_get item ''tag''),
      ic_type = card_text (obj_get item ''type''),
      ic_address = card_text (nullish (obj_get item ''listen'') (obj_get item ''interface_name'')),
      ic_port = (case obj_get item ''listen_port'' of None \<Rightarrow> None
        | v \<Rightarrow> (if card_text v = Some [] then None else Some (card_text v)))\<rparr>"

subsection \<open>Lemmas\<close>

lemma setPath_single: "path_keys k = [k] \<Longrightarrow> setPath ob k v = (case v of None \<Rightarrow> obj_del k ob | Some w \<Rightarrow> obj_set k w ob)"
  by (cases v) (simp_all add: setPath_setPolicyPath setPolicyPath_single)

lemma group_keys: "path_keys ''outbounds'' = [''outbounds'']" "path_keys ''default'' = [''default'']"
  by code_simp+

lemma strings_of_strs: "concat (map (\<lambda>item. case item of JStr s \<Rightarrow> [s] | _ \<Rightarrow> []) (map JStr ts)) = ts"
  by (induction ts) simp_all

lemma proxy_items_persist [simp]: "proxy_items (proxy_persist config key items) key = items"
  by (simp add: proxy_items_def proxy_persist_def)

lemma proxy_persist_other: "k \<noteq> key \<Longrightarrow> obj_get (proxy_persist config key items) k = obj_get config k"
  by (simp add: proxy_persist_def)

lemma pd_object_update: "json_plain (JObj next) \<Longrightarrow> pd_object (pd_update st next) = Some next"
  by (simp add: pd_object_def pd_update_def proxy_parseObject_def isValidJSON_def json_parse_stringify)

lemma pd_object_Some: "pd_object st = Some ob \<longleftrightarrow> json_parse (pd_value st) = Some (JObj ob)"
  by (auto simp: pd_object_def proxy_parseObject_def isValidJSON_def split: json.splits option.splits if_splits)

subsection \<open>Properties\<close>



text \<open>
  The proxy dialogs save what their text says: a saved object is what the text parses to,
  has a type, and is saved only while no field is invalid; and an edit of the form to a plain
  object with a type is saved as that very object.
\<close>

lemma proxy_dialog_saves_what_it_shows:
  assumes "pd_save st = Some ob" and "json_plain (JObj next)" and "nonempty (obj_get next ''type'')"
  shows "json_parse (pd_value st) = Some (JObj ob) \<and> nonempty (obj_get ob ''type'') \<and> pd_invalid st = {}
     \<and> pd_save (pd_update st next) = Some next"
proof -
  from assms(1) have ob: "pd_object st = Some ob" "nonempty (obj_get ob ''type'')" "pd_invalid st = {}"
    by (auto simp: pd_save_def pd_saveDisabled_def split: if_splits option.splits)
  moreover have "pd_save (pd_update st next) = Some next"
    using assms(2,3) ob(3) by (simp add: pd_save_def pd_saveDisabled_def pd_object_update) (simp add: pd_update_def)
  ultimately show ?thesis by (simp add: pd_object_Some)
qed

lemma proxy_dialog_saves_what_it_shows_example:
  "pd_save (pd_update (pd_init [(''type'', JStr ''block'')]) [(''type'', JStr ''direct'')]) = Some [(''type'', JStr ''direct'')]"
proof -
  have p: "json_plain (JObj [(''type'', JStr t)])" and n: "nonempty (obj_get [(''type'', JStr (CHR ''b'' # t))] ''type'')" for t
    by (simp_all add: nonempty_def obj_get_def)
  have "pd_object (pd_init [(''type'', JStr ''block'')]) = Some [(''type'', JStr ''block'')]"
    using json_parse_stringify [OF p] by (simp add: pd_object_Some pd_init_def)
  then have "pd_save (pd_init [(''type'', JStr ''block'')]) = Some [(''type'', JStr ''block'')]"
    using n by (simp add: pd_save_def pd_saveDisabled_def) (simp add: pd_init_def)
  moreover have "nonempty (obj_get [(''type'', JStr ''direct'')] ''type'')" by (simp add: nonempty_def obj_get_def)
  ultimately show ?thesis using p proxy_dialog_saves_what_it_shows by blast
qed

text \<open>
  A refused edit of the users' text is remembered for good: rewriting the whole configuration
  of the inbound as valid JSON does not make the dialog savable again, nor does a change
  of its type, because the proxy dialogs, unlike the policy dialogs, never clear their invalid
  fields.
\<close>

lemma refused_users_block_save:
  "users_editText ''x'' = (False, None)
     \<and> pd_save (pd_updateJSON (pd_updateValidity st ''users'' (fst (users_editText ''x''))) text) = None
     \<and> pd_save (pd_update (pd_updateValidity st ''users'' (fst (users_editText ''x''))) ob) = None
     \<and> (case parseObject text of None \<Rightarrow> True
        | Some _ \<Rightarrow> ds_invalid (dialog_updateJSON (dialog_updateValidity ds ''users'' False) text) = {})"
proof -
  have "users_editText ''x'' = (False, None)" by code_simp
  then show ?thesis
    by (auto simp: pd_save_def pd_saveDisabled_def pd_updateJSON_def pd_updateValidity_def pd_update_def
        dialog_updateJSON_def split: option.splits)
qed

text \<open>
  Every field an outbound tab shows is among the fields the form prunes with each change,
  and each of those fields is on a tab of the dialog, the members and the default of a group
  apart, which have controls of their own.
\<close>

lemma outbound_tabs_cover_managed:
  assumes "managedOutboundFields type transportType = Inr ms"
  shows "(\<forall>tab\<in>set (outbound_tabs type). \<exists>fs. outbound_tabFields type transportType tab = Inr fs \<and> set fs \<subseteq> set ms)
     \<and> (\<forall>f\<in>set ms. ff_path f \<in> {''outbounds'', ''default''}
          \<or> (\<exists>tab\<in>set (outbound_tabs type). \<exists>fs. outbound_tabFields type transportType tab = Inr fs \<and> f \<in> set fs))"
proof -
  let ?own = "if type \<in> set groupTypes then groupFields type else outbound_protocolFields type"
  let ?tr = "if type \<in> set outboundTransportTypes then outbound_transportTypeFields transportType else Inr []"
  obtain own tr where own: "?own = Inr own" and tr: "?tr = Inr tr"
    and ms: "ms = (if type \<in> set dialerTypes then outbound_dialerFields else []) @ own
         @ (if type \<in> set outboundTLSTypes then outboundTLSFields else []) @ tr
         @ (if type \<in> set outboundMultiplexTypes then outboundMultiplexFields else [])"
    using assms by (auto simp: managedOutboundFields_def bind_res_eq_Inr Let_def)
  obtain pfs where pfs: "outbound_tabFields type transportType OTProtocol = Inr pfs"
    and pfs_sub: "set pfs \<subseteq> set own" "\<forall>f\<in>set own. ff_path f \<in> {''outbounds'', ''default''} \<or> f \<in> set pfs"
    using own by (cases "type \<in> set groupTypes") auto
  have trs: "outbound_tabFields type transportType OTTransport =
      Inr (tr @ (if type \<in> set outboundMultiplexTypes then outboundMultiplexFields else []))"
    using tr by simp
  have "type \<notin> set outboundTransportTypes \<Longrightarrow> tr = []" using tr by simp
  then show ?thesis
    unfolding ms
    by (intro conjI ballI)
       (use pfs pfs_sub trs in \<open>auto simp: outbound_tabs_def simp del: outbound_tabFields.simps(2,4) split: if_splits\<close>)
qed

lemma outbound_tabs_cover_managed_witness:
  "\<exists>ms. managedOutboundFields ''block'' [] = Inr ms
     \<and> (\<forall>tab\<in>set (outbound_tabs ''block''). \<exists>fs. outbound_tabFields ''block'' [] tab = Inr fs \<and> set fs \<subseteq> set ms)"
proof -
  have 1: "managedOutboundFields ''block'' [] = Inr []" by code_simp
  from outbound_tabs_cover_managed [OF 1] 1 show ?thesis by blast
qed

text \<open>
  C27: On the list pages a card edits and deletes the item it shows: a card of the outbounds page
  carries the position of its item in the configuration, whatever the subscriptions hide;
  saving replaces that item only, a new item comes last, deleting removes that item only, and
  the other sections of the configuration stay.
\<close>

theorem proxy_list_edits_the_item_shown:
  assumes "(i, item) \<in> set (independent_outbounds subs (proxy_items config key))" and "k \<noteq> key"
  shows "i < length (proxy_items config key) \<and> proxy_items config key ! i = item
     \<and> proxy_items (proxy_saveItem config key (Some i) new) key = (proxy_items config key)[i := new]
     \<and> proxy_items (proxy_saveItem config key None new) key = proxy_items config key @ [new]
     \<and> proxy_items (proxy_deleteItem config key i) key = take i (proxy_items config key) @ drop (Suc i) (proxy_items config key)
     \<and> obj_get (proxy_saveItem config key (Some i) new) k = obj_get config k
     \<and> obj_get (proxy_deleteItem config key i) k = obj_get config k"
  using assms
  by (auto simp: independent_outbounds_def in_set_enumerate_eq proxy_saveItem_def proxy_deleteItem_def Let_def
      proxy_persist_other remove_at_def)

theorem proxy_list_edits_the_item_shown_witness:
  "proxy_items (proxy_deleteItem [(''outbounds'', JArr [JObj [(''tag'', JStr ''s1'')], JObj [(''tag'', JStr ''mine'')]]), (''log'', JNull)] ''outbounds'' 1) ''outbounds''
     = [[(''tag'', JStr ''s1'')]]"
proof -
  let ?c = "[(''outbounds'', JArr [JObj [(''tag'', JStr ''s1'')], JObj [(''tag'', JStr ''mine'')]]), (''log'', JNull)]"
  have items: "proxy_items ?c ''outbounds'' = [[(''tag'', JStr ''s1'')], [(''tag'', JStr ''mine'')]]" by code_simp
  have "(1, [(''tag'', JStr ''mine'')]) \<in> set (independent_outbounds [\<lparr>su_name = ''s'', su_outbounds = Some [''s1'']\<rparr>] (proxy_items ?c ''outbounds''))"
    unfolding items by (simp add: independent_outbounds_def subscription_tags_def obj_get_def)
  from proxy_list_edits_the_item_shown [OF this, of "''log''"] show ?thesis by (simp add: items)
qed

end
