(* ===== verification/Advanced_Tables.thy ===== *)
theory Advanced_Tables
  imports Policy_Form
begin

text \<open>
  The field tables of the advanced pages: \<open>endpoints-form-model.ts\<close> and
  \<open>experimental-form-model.ts\<close> of \<open>features/advanced\<close>.
\<close>

subsection \<open>Fields of an endpoint\<close>

definition endpointTypes :: "string list" where
  "endpointTypes = [''wireguard'', ''tailscale'']"

definition endpoint_isWireGuard :: "field_when" where
  "endpoint_isWireGuard = when_is ''type'' (JStr ''wireguard'')"

definition endpoint_isTailscale :: "field_when" where
  "endpoint_isTailscale = when_is ''type'' (JStr ''tailscale'')"

definition endpoint_keepAliveOn :: "field_when" where
  "endpoint_keepAliveOn = when_falsy ''disable_tcp_keep_alive''"

definition endpoint_resolverOn :: "field_when" where
  "endpoint_resolverOn = when_set ''domain_resolver.server''"

definition endpoint_exitNodeOn :: "field_when" where
  "endpoint_exitNodeOn = when_set ''exit_node''"

definition endpoint_systemIfOn :: "field_when" where
  "endpoint_systemIfOn = when_is ''system_interface'' (JBool True)"

definition endpointIdentityFields :: "policy_field list" where
  "endpointIdentityFields =
     [(pfield ''type'' ''type'')\<lparr>pf_kind := Some PSelect, pf_options := Some endpointTypes, pf_required := True, pf_section := Some ''basic''\<rparr>,
      (pfield ''tag'' ''tag'')\<lparr>pf_required := True, pf_section := Some ''basic''\<rparr>]"

definition wireGuardFields :: "policy_field list" where
  "wireGuardFields =
     [(pfield ''system'' ''system'')\<lparr>pf_kind := Some PBoolean, pf_section := Some ''wireguard'', pf_when := Some (WhenOne endpoint_isWireGuard)\<rparr>,
      (pfield ''name'' ''interfaceName'')\<lparr>pf_section := Some ''wireguard'', pf_when := Some (WhenOne endpoint_isWireGuard)\<rparr>,
      (pfield ''mtu'' ''mtu'')\<lparr>pf_kind := Some PNumber, pf_section := Some ''wireguard'', pf_when := Some (WhenOne endpoint_isWireGuard)\<rparr>,
      (pfield ''address'' ''address'')\<lparr>pf_kind := Some PList, pf_required := True, pf_section := Some ''wireguard'', pf_when := Some (WhenOne endpoint_isWireGuard)\<rparr>,
      (pfield ''private_key'' ''privateKey'')\<lparr>pf_required := True, pf_section := Some ''wireguard'', pf_when := Some (WhenOne endpoint_isWireGuard)\<rparr>,
      (pfield ''listen_port'' ''listenPort'')\<lparr>pf_kind := Some PNumber, pf_section := Some ''wireguard'', pf_when := Some (WhenOne endpoint_isWireGuard)\<rparr>,
      (pfield ''peers'' ''peers'')\<lparr>pf_kind := Some PJsonArray, pf_section := Some ''wireguard'', pf_when := Some (WhenOne endpoint_isWireGuard)\<rparr>,
      (pfield ''udp_timeout'' ''udpTimeout'')\<lparr>pf_section := Some ''wireguard'', pf_when := Some (WhenOne endpoint_isWireGuard)\<rparr>,
      (pfield ''workers'' ''workers'')\<lparr>pf_kind := Some PNumber, pf_section := Some ''wireguard'', pf_when := Some (WhenOne endpoint_isWireGuard)\<rparr>]"

definition tailscaleFields :: "policy_field list" where
  "tailscaleFields =
     [(pfield ''state_directory'' ''stateDirectory'')\<lparr>pf_section := Some ''tailscale'', pf_when := Some (WhenOne endpoint_isTailscale)\<rparr>,
      (pfield ''auth_key'' ''authKey'')\<lparr>pf_section := Some ''tailscale'', pf_when := Some (WhenOne endpoint_isTailscale)\<rparr>,
      (pfield ''control_url'' ''controlURL'')\<lparr>pf_section := Some ''tailscale'', pf_when := Some (WhenOne endpoint_isTailscale)\<rparr>,
      (pfield ''ephemeral'' ''ephemeral'')\<lparr>pf_kind := Some PBoolean, pf_section := Some ''tailscale'', pf_when := Some (WhenOne endpoint_isTailscale)\<rparr>,
      (pfield ''hostname'' ''hostname'')\<lparr>pf_section := Some ''tailscale'', pf_when := Some (WhenOne endpoint_isTailscale)\<rparr>,
      (pfield ''accept_routes'' ''acceptRoutes'')\<lparr>pf_kind := Some PBoolean, pf_section := Some ''tailscale'', pf_when := Some (WhenOne endpoint_isTailscale)\<rparr>,
      (pfield ''exit_node'' ''exitNode'')\<lparr>pf_section := Some ''tailscale'', pf_when := Some (WhenOne endpoint_isTailscale)\<rparr>,
      (pfield ''exit_node_allow_lan_access'' ''exitNodeAllowLANAccess'')\<lparr>pf_kind := Some PBoolean, pf_section := Some ''tailscale'', pf_when := Some (WhenAll [endpoint_isTailscale, endpoint_exitNodeOn])\<rparr>,
      (pfield ''advertise_routes'' ''advertiseRoutes'')\<lparr>pf_kind := Some PList, pf_section := Some ''tailscale'', pf_when := Some (WhenOne endpoint_isTailscale)\<rparr>,
      (pfield ''advertise_exit_node'' ''advertiseExitNode'')\<lparr>pf_kind := Some PBoolean, pf_section := Some ''tailscale'', pf_when := Some (WhenOne endpoint_isTailscale)\<rparr>,
      (pfield ''advertise_tags'' ''advertiseTags'')\<lparr>pf_kind := Some PList, pf_section := Some ''tailscale'', pf_when := Some (WhenOne endpoint_isTailscale)\<rparr>,
      (pfield ''relay_server_port'' ''relayServerPort'')\<lparr>pf_kind := Some PNumber, pf_section := Some ''tailscale'', pf_when := Some (WhenOne endpoint_isTailscale)\<rparr>,
      (pfield ''relay_server_static_endpoints'' ''relayServerStaticEndpoints'')\<lparr>pf_kind := Some PList, pf_section := Some ''tailscale'', pf_when := Some (WhenOne endpoint_isTailscale)\<rparr>,
      (pfield ''system_interface'' ''systemInterface'')\<lparr>pf_kind := Some PBoolean, pf_section := Some ''tailscale'', pf_when := Some (WhenOne endpoint_isTailscale)\<rparr>,
      (pfield ''system_interface_name'' ''systemInterfaceName'')\<lparr>pf_section := Some ''tailscale'', pf_when := Some (WhenAll [endpoint_isTailscale, endpoint_systemIfOn])\<rparr>,
      (pfield ''system_interface_mtu'' ''systemInterfaceMTU'')\<lparr>pf_kind := Some PNumber, pf_section := Some ''tailscale'', pf_when := Some (WhenAll [endpoint_isTailscale, endpoint_systemIfOn])\<rparr>,
      (pfield ''udp_timeout'' ''udpTimeout'')\<lparr>pf_section := Some ''tailscale'', pf_when := Some (WhenOne endpoint_isTailscale)\<rparr>]"

definition endpointDialerFields :: "policy_field list" where
  "endpointDialerFields =
     [(pfield ''detour'' ''detour'')\<lparr>pf_kind := Some PRef, pf_ref := Some ROutbound, pf_section := Some ''dialer''\<rparr>,
      (pfield ''bind_interface'' ''bindInterface'')\<lparr>pf_kind := Some PNetworkInterface, pf_section := Some ''dialer''\<rparr>,
      (pfield ''inet4_bind_address'' ''inet4BindAddress'')\<lparr>pf_section := Some ''dialer''\<rparr>,
      (pfield ''inet6_bind_address'' ''inet6BindAddress'')\<lparr>pf_section := Some ''dialer''\<rparr>,
      (pfield ''bind_address_no_port'' ''bindAddressNoPort'')\<lparr>pf_kind := Some PBoolean, pf_section := Some ''dialer''\<rparr>,
      (pfield ''protect_path'' ''protectPath'')\<lparr>pf_section := Some ''dialer''\<rparr>,
      (pfield ''routing_mark'' ''routingMark'')\<lparr>pf_section := Some ''dialer''\<rparr>,
      (pfield ''reuse_addr'' ''reuseAddress'')\<lparr>pf_kind := Some PBoolean, pf_section := Some ''dialer''\<rparr>,
      (pfield ''netns'' ''networkNamespace'')\<lparr>pf_section := Some ''dialer''\<rparr>,
      (pfield ''connect_timeout'' ''connectTimeout'')\<lparr>pf_section := Some ''dialer''\<rparr>,
      (pfield ''tcp_fast_open'' ''tcpFastOpen'')\<lparr>pf_kind := Some PBoolean, pf_section := Some ''dialer''\<rparr>,
      (pfield ''tcp_multi_path'' ''tcpMultiPath'')\<lparr>pf_kind := Some PBoolean, pf_section := Some ''dialer''\<rparr>,
      (pfield ''disable_tcp_keep_alive'' ''disableTCPKeepAlive'')\<lparr>pf_kind := Some PBoolean, pf_section := Some ''dialer''\<rparr>,
      (pfield ''tcp_keep_alive'' ''tcpKeepAlive'')\<lparr>pf_section := Some ''dialer'', pf_when := Some (WhenOne endpoint_keepAliveOn)\<rparr>,
      (pfield ''tcp_keep_alive_interval'' ''tcpKeepAliveInterval'')\<lparr>pf_section := Some ''dialer'', pf_when := Some (WhenOne endpoint_keepAliveOn)\<rparr>,
      (pfield ''udp_fragment'' ''udpFragment'')\<lparr>pf_kind := Some PBoolean, pf_section := Some ''dialer''\<rparr>,
      (pfield ''domain_resolver.server'' ''domainResolverServer'')\<lparr>pf_kind := Some PRef, pf_ref := Some RDnsServer, pf_section := Some ''dialer''\<rparr>,
      (pfield ''domain_resolver.strategy'' ''domainResolverStrategy'')\<lparr>pf_kind := Some PSelect, pf_options := Some [''prefer_ipv4'', ''prefer_ipv6'', ''ipv4_only'', ''ipv6_only''], pf_section := Some ''dialer'', pf_when := Some (WhenOne endpoint_resolverOn)\<rparr>,
      (pfield ''domain_resolver.disable_cache'' ''domainResolverDisableCache'')\<lparr>pf_kind := Some PBoolean, pf_section := Some ''dialer'', pf_when := Some (WhenOne endpoint_resolverOn)\<rparr>,
      (pfield ''domain_resolver.rewrite_ttl'' ''domainResolverRewriteTTL'')\<lparr>pf_kind := Some PNumber, pf_section := Some ''dialer'', pf_when := Some (WhenOne endpoint_resolverOn)\<rparr>,
      (pfield ''domain_resolver.client_subnet'' ''domainResolverClientSubnet'')\<lparr>pf_section := Some ''dialer'', pf_when := Some (WhenOne endpoint_resolverOn)\<rparr>,
      (pfield ''network_strategy'' ''networkStrategy'')\<lparr>pf_kind := Some PSelect, pf_options := Some [''default'', ''fallback'', ''hybrid'', ''prefer_ipv4'', ''prefer_ipv6''], pf_section := Some ''dialer''\<rparr>,
      (pfield ''network_type'' ''networkType'')\<lparr>pf_kind := Some PList, pf_section := Some ''dialer''\<rparr>,
      (pfield ''fallback_network_type'' ''fallbackNetworkType'')\<lparr>pf_kind := Some PList, pf_section := Some ''dialer''\<rparr>,
      (pfield ''fallback_delay'' ''fallbackDelay'')\<lparr>pf_section := Some ''dialer''\<rparr>]"

definition endpointFields :: "policy_field list" where
  "endpointFields =
     endpointIdentityFields @ wireGuardFields @ tailscaleFields @ endpointDialerFields"

subsection \<open>Fields of the experimental section\<close>

definition experimental_cacheOn :: "field_when" where
  "experimental_cacheOn =
     when_is ''cache_file.enabled'' (JBool True)"

definition experimental_rdrcOn :: "field_when list" where
  "experimental_rdrcOn =
     [when_is ''cache_file.enabled'' (JBool True), when_is ''cache_file.store_rdrc'' (JBool True)]"

definition experimental_statsOn :: "field_when" where
  "experimental_statsOn =
     when_is ''v2ray_api.stats.enabled'' (JBool True)"

definition experimentalCacheFields :: "policy_field list" where
  "experimentalCacheFields =
     [(pfield ''cache_file.enabled'' ''cacheEnabled'')\<lparr>pf_kind := Some PBoolean\<rparr>,
      (pfield ''cache_file.path'' ''cachePath'')\<lparr>pf_when := Some (WhenOne experimental_cacheOn)\<rparr>,
      (pfield ''cache_file.cache_id'' ''cacheID'')\<lparr>pf_when := Some (WhenOne experimental_cacheOn)\<rparr>,
      (pfield ''cache_file.store_fakeip'' ''storeFakeIP'')\<lparr>pf_kind := Some PBoolean, pf_when := Some (WhenOne experimental_cacheOn)\<rparr>,
      (pfield ''cache_file.store_rdrc'' ''storeRDRC'')\<lparr>pf_kind := Some PBoolean, pf_when := Some (WhenOne experimental_cacheOn)\<rparr>,
      (pfield ''cache_file.rdrc_timeout'' ''rdrcTimeout'')\<lparr>pf_when := Some (WhenAll experimental_rdrcOn)\<rparr>]"

definition experimentalClashFields :: "policy_field list" where
  "experimentalClashFields =
     [pfield ''clash_api.external_controller'' ''externalController'',
      pfield ''clash_api.external_ui'' ''externalUI'',
      pfield ''clash_api.external_ui_download_url'' ''externalUIDownloadURL'',
      (pfield ''clash_api.external_ui_download_detour'' ''externalUIDownloadDetour'')\<lparr>pf_kind := Some PRef, pf_ref := Some ROutbound\<rparr>,
      pfield ''clash_api.secret'' ''clashSecret'',
      (pfield ''clash_api.default_mode'' ''defaultMode'')\<lparr>pf_kind := Some PSelect, pf_options := Some [''rule'', ''global'', ''direct'']\<rparr>,
      (pfield ''clash_api.access_control_allow_origin'' ''accessControlAllowOrigin'')\<lparr>pf_kind := Some PList\<rparr>,
      (pfield ''clash_api.access_control_allow_private_network'' ''accessControlAllowPrivateNetwork'')\<lparr>pf_kind := Some PBoolean\<rparr>]"

definition experimentalV2RayFields :: "policy_field list" where
  "experimentalV2RayFields =
     [pfield ''v2ray_api.listen'' ''v2rayListen'',
      (pfield ''v2ray_api.stats.enabled'' ''statsEnabled'')\<lparr>pf_kind := Some PBoolean\<rparr>,
      (pfield ''v2ray_api.stats.inbounds'' ''statsInbounds'')\<lparr>pf_kind := Some PRefMulti, pf_ref := Some RInbound, pf_when := Some (WhenOne experimental_statsOn)\<rparr>,
      (pfield ''v2ray_api.stats.outbounds'' ''statsOutbounds'')\<lparr>pf_kind := Some PRefMulti, pf_ref := Some ROutbound, pf_when := Some (WhenOne experimental_statsOn)\<rparr>,
      (pfield ''v2ray_api.stats.users'' ''statsUsers'')\<lparr>pf_kind := Some PList, pf_when := Some (WhenOne experimental_statsOn)\<rparr>]"

definition experimentalFields :: "policy_field list" where
  "experimentalFields =
     experimentalCacheFields @ experimentalClashFields @ experimentalV2RayFields"

end
