(* ===== verification/Advanced.thy ===== *)
theory Advanced
  imports Advanced_Tables Policy_Page
begin

text \<open>
  The advanced pages, \<open>features/advanced\<close>: the model of endpoints, their editor dialog and
  list, the experimental section, and the plain JSON pages; and the updates of a configuration
  array of \<open>features/config/config-update.ts\<close>.
\<close>

subsection \<open>Endpoints\<close>

definition isEndpointObject :: "json option \<Rightarrow> bool" where
  "isEndpointObject v = isJsonObject v"

definition isEndpointsStructureValid :: "json option \<Rightarrow> bool" where
  "isEndpointsStructureValid v = (case v of Some (JArr vs) \<Rightarrow> list_all (\<lambda>x. isJsonObject (Some x)) vs | _ \<Rightarrow> False)"

definition normalizeEndpoints :: "json option \<Rightarrow> jobj list" where
  "normalizeEndpoints v = (if isEndpointsStructureValid v then object_list v else [])"

definition inferEndpointType :: "jobj \<Rightarrow> string" where
  "inferEndpointType item = (if obj_get item ''type'' = Some (JStr ''tailscale'') then ''tailscale'' else ''wireguard'')"

definition createEndpointDraft :: "string \<Rightarrow> jobj" where
  "createEndpointDraft type =
     (if type = ''tailscale'' then [(''type'', JStr ''tailscale''), (''tag'', JStr [])]
      else [(''type'', JStr ''wireguard''), (''tag'', JStr []), (''address'', JArr []), (''private_key'', JStr []), (''peers'', JArr [])])"

definition prepareEndpointObject :: "jobj \<Rightarrow> jobj" where
  "prepareEndpointObject item = pruneInvisiblePolicyFields item endpointFields"

definition changeEndpointType :: "jobj \<Rightarrow> string \<Rightarrow> jobj" where
  "changeEndpointType item type =
     (let nextType = (if type = ''tailscale'' then ''tailscale'' else ''wireguard'');
          base = createEndpointDraft nextType;
          base' = (case obj_get item ''tag'' of
              Some (JStr tag) \<Rightarrow> if tag \<noteq> [] then obj_set ''tag'' (JStr tag) base else base | _ \<Rightarrow> base)
      in prepareEndpointObject base')"

definition prepareEndpoints :: "jobj list \<Rightarrow> jobj list" where
  "prepareEndpoints items = map prepareEndpointObject items"

definition isEndpointReady :: "jobj \<Rightarrow> bool" where
  "isEndpointReady item =
     (if \<not> nonblank (obj_get item ''tag'') then False
      else if inferEndpointType item = ''wireguard'' then
        (let hasAddress = (case obj_get item ''address'' of
               Some (JArr vs) \<Rightarrow> list_ex (\<lambda>entry. nonblank (Some entry)) vs | v \<Rightarrow> nonblank v)
         in hasAddress \<and> nonblank (obj_get item ''private_key''))
      else True)"

record endpoint_summary =
  es_type :: string
  es_detail :: "string option"
  es_meta :: nat

definition summarizeEndpoint :: "jobj \<Rightarrow> endpoint_summary" where
  "summarizeEndpoint item =
     (let type = inferEndpointType item
      in if type = ''wireguard'' then
           (let peers = (case obj_get item ''peers'' of Some (JArr vs) \<Rightarrow> length vs | _ \<Rightarrow> 0);
                address = (case obj_get item ''address'' of
                    Some (JArr vs) \<Rightarrow> js_join '', '' (concat (map (\<lambda>x. case x of JStr s \<Rightarrow> [s] | _ \<Rightarrow> []) vs))
                  | Some (JStr s) \<Rightarrow> s | _ \<Rightarrow> [])
            in \<lparr>es_type = type, es_detail = (if address \<noteq> [] then Some address else None), es_meta = peers\<rparr>)
         else
           (let hostname = stringValue (obj_get item ''hostname''); exitNode = stringValue (obj_get item ''exit_node'');
                detail = (if hostname \<noteq> [] then hostname else exitNode)
            in \<lparr>es_type = type, es_detail = (if detail \<noteq> [] then Some detail else None), es_meta = 0\<rparr>))"

text \<open>The title, the subtitle and the badges of a card: the type, the number of peers, the detail.\<close>

definition endpointCard :: "string \<Rightarrow> jobj \<Rightarrow> string \<times> string \<times> string \<times> nat option \<times> string option" where
  "endpointCard unnamed item =
     (let summary = summarizeEndpoint item
      in (card_tag unnamed item,
          (case es_detail summary of Some d \<Rightarrow> d | None \<Rightarrow> es_type summary),
          es_type summary,
          (if es_type summary = ''wireguard'' \<and> es_meta summary > 0 then Some (es_meta summary) else None),
          (case es_detail summary of Some d \<Rightarrow> if d \<noteq> es_type summary then Some d else None | None \<Rightarrow> None)))"

subsection \<open>The endpoint dialog\<close>

definition endpoint_parseObject :: "string \<Rightarrow> jobj option" where
  "endpoint_parseObject value = (case json_parse value of Some (JObj c) \<Rightarrow> Some c | _ \<Rightarrow> None)"

datatype endpoint_section = ESBasic | ESType | ESDialer

fun endpoint_sectionFields :: "endpoint_section \<Rightarrow> policy_field list" where
  "endpoint_sectionFields ESBasic = filter (\<lambda>field. pf_path field \<noteq> ''type'') endpointIdentityFields"
| "endpoint_sectionFields ESType = wireGuardFields @ tailscaleFields"
| "endpoint_sectionFields ESDialer = endpointDialerFields"

record endpoint_dialog =
  ed_object :: jobj
  ed_revision :: nat
  ed_json :: string
  ed_invalid :: "string set"

definition ed_init :: "jobj \<Rightarrow> endpoint_dialog" where
  "ed_init item =
     \<lparr>ed_object = prepareEndpointObject item, ed_revision = 0, ed_json = json_stringify (JObj item), ed_invalid = {}\<rparr>"

definition ed_updateVisual :: "endpoint_dialog \<Rightarrow> jobj \<Rightarrow> endpoint_dialog" where
  "ed_updateVisual st next =
     (let prepared = prepareEndpointObject next
      in st\<lparr>ed_object := prepared, ed_json := json_stringify (JObj prepared)\<rparr>)"

definition ed_updateJSON :: "endpoint_dialog \<Rightarrow> string \<Rightarrow> endpoint_dialog" where
  "ed_updateJSON st next =
     (let st' = st\<lparr>ed_json := next, ed_revision := Suc (ed_revision st), ed_invalid := {}\<rparr>
      in case endpoint_parseObject next of
           Some parsedNext \<Rightarrow> st'\<lparr>ed_object := prepareEndpointObject parsedNext\<rparr> | None \<Rightarrow> st')"

definition ed_updateValidity :: "endpoint_dialog \<Rightarrow> string \<Rightarrow> bool \<Rightarrow> endpoint_dialog" where
  "ed_updateValidity st path valid =
     st\<lparr>ed_invalid := (if valid then ed_invalid st - {path} else insert path (ed_invalid st))\<rparr>"

definition ed_visualReady :: "endpoint_dialog \<Rightarrow> bool" where
  "ed_visualReady st = (isEndpointReady (ed_object st) \<and> ed_invalid st = {})"

definition ed_jsonReady :: "endpoint_dialog \<Rightarrow> bool" where
  "ed_jsonReady st = (case endpoint_parseObject (ed_json st) of Some parsed \<Rightarrow> isEndpointReady parsed | None \<Rightarrow> False)"

definition ed_saveEnabled :: "endpoint_dialog \<Rightarrow> bool" where
  "ed_saveEnabled st = (ed_visualReady st \<or> ed_jsonReady st)"

definition ed_persist :: "endpoint_dialog \<Rightarrow> jobj option" where
  "ed_persist st =
     (case (case endpoint_parseObject (ed_json st) of
         Some parsed \<Rightarrow> if isEndpointReady parsed then Some (prepareEndpointObject parsed) else None
       | None \<Rightarrow> None) of
        Some candidate \<Rightarrow> Some candidate
      | None \<Rightarrow> if ed_visualReady st then Some (prepareEndpointObject (ed_object st)) else None)"

subsection \<open>The endpoint page\<close>

definition parseEndpoints :: "string \<Rightarrow> jobj list option" where
  "parseEndpoints value =
     (case json_parse value of
        Some v \<Rightarrow> if isEndpointsStructureValid (Some v) then Some (object_list (Some v)) else None
      | None \<Rightarrow> None)"

definition endpoints_init :: "json option \<Rightarrow> string" where
  "endpoints_init initial = json_stringify (JArr (map JObj (normalizeEndpoints initial)))"

definition endpoints_updateItems :: "jobj list \<Rightarrow> string" where
  "endpoints_updateItems next = json_stringify (JArr (map JObj next))"

definition endpoints_edit :: "jobj list \<Rightarrow> nat option \<Rightarrow> jobj" where
  "endpoints_edit items index =
     (case index of None \<Rightarrow> createEndpointDraft ''wireguard'' | Some i \<Rightarrow> cloneJsonObject (items ! i))"

definition endpoints_replaceOrAppend :: "jobj list \<Rightarrow> nat option \<Rightarrow> jobj \<Rightarrow> jobj list" where
  "endpoints_replaceOrAppend items index item =
     (case index of None \<Rightarrow> items @ [item]
      | Some i \<Rightarrow> map (\<lambda>(currentIndex, current). if currentIndex = i then item else current) (enumerate 0 items))"

definition endpoints_remove :: "jobj list \<Rightarrow> nat \<Rightarrow> jobj list" where
  "endpoints_remove items index = remove_at index items"

definition endpoints_save :: "jobj \<Rightarrow> string \<Rightarrow> jobj option" where
  "endpoints_save config value =
     (case parseEndpoints value of None \<Rightarrow> None
      | Some items \<Rightarrow> Some (obj_set ''endpoints'' (JArr (map JObj (prepareEndpoints items))) config))"

subsection \<open>The experimental section\<close>

definition isExperimentalStructureValid :: "json option \<Rightarrow> bool" where
  "isExperimentalStructureValid v = isJsonObject (nullish v None)"

definition normalizeExperimentalObject :: "json option \<Rightarrow> jobj" where
  "normalizeExperimentalObject v = (case v of Some (JObj c) \<Rightarrow> c | _ \<Rightarrow> [])"

definition prepareExperimentalObject :: "jobj \<Rightarrow> jobj" where
  "prepareExperimentalObject ob = pruneInvisiblePolicyFields ob experimentalFields"

definition experimental_init :: "json option \<Rightarrow> policy_editor" where
  "experimental_init initial =
     \<lparr>pe_value = json_stringify (JObj (normalizeExperimentalObject initial)), pe_revision = 0, pe_invalid = {}\<rparr>"

definition experimental_cards :: "policy_field list list" where
  "experimental_cards = [experimentalCacheFields, experimentalClashFields, experimentalV2RayFields]"

definition experimental_save :: "jobj \<Rightarrow> policy_editor \<Rightarrow> jobj option" where
  "experimental_save config st =
     (case pe_object st of None \<Rightarrow> None
      | Some ob \<Rightarrow>
          if isExperimentalStructureValid (Some (JObj ob)) \<and> pe_invalid st = {}
          then Some (obj_set ''experimental'' (JObj (prepareExperimentalObject ob)) config) else None)"

subsection \<open>Plain JSON pages\<close>

definition raw_save :: "string \<Rightarrow> bool \<Rightarrow> json option" where
  "raw_save value pending = (if json_parse value = None \<or> pending then None else json_parse value)"

definition section_initial :: "jobj \<Rightarrow> string \<Rightarrow> json" where
  "section_initial config section =
     (case nullish (obj_get config section) None of Some v \<Rightarrow> v
      | None \<Rightarrow> if section = ''endpoints'' then JArr [] else JObj [])"

definition section_save :: "jobj \<Rightarrow> string \<Rightarrow> string \<Rightarrow> jobj option" where
  "section_save config section value =
     (case json_parse value of None \<Rightarrow> None | Some v \<Rightarrow> Some (obj_set section v config))"

subsection \<open>Updates of a configuration array\<close>

definition configArray :: "jobj \<Rightarrow> string \<Rightarrow> json list" where
  "configArray config key = (case obj_get config key of Some (JArr vs) \<Rightarrow> vs | _ \<Rightarrow> [])"

definition replaceConfigSection :: "jobj \<Rightarrow> string \<Rightarrow> json \<Rightarrow> jobj" where
  "replaceConfigSection config key value = obj_set key value config"

text \<open>
  An assignment beyond the end leaves holes, which the request body prints as \<open>null\<close>; at a negative index it gives the array a property
  that is no element, which the body leaves out. The values here are as a request sends them.
\<close>

definition js_assign :: "json list \<Rightarrow> int \<Rightarrow> json \<Rightarrow> json list" where
  "js_assign items index v =
     (if index < 0 then items
      else if nat index < length items then items[nat index := v]
      else items @ replicate (nat index - length items) JNull @ [v])"

definition replaceConfigArrayItem :: "jobj \<Rightarrow> string \<Rightarrow> int \<Rightarrow> jobj \<Rightarrow> jobj" where
  "replaceConfigArrayItem config key index patch =
     (let items = configArray config key;
          current = (if 0 \<le> index \<and> nat index < length items then Some (items ! nat index) else None)
      in replaceConfigSection config key (JArr (js_assign items index
           (case current of Some (JObj c) \<Rightarrow> JObj (obj_spread c patch) | _ \<Rightarrow> JObj patch))))"

definition removeConfigArrayItem :: "jobj \<Rightarrow> string \<Rightarrow> int \<Rightarrow> jobj" where
  "removeConfigArrayItem config key index =
     (let items = configArray config key
      in replaceConfigSection config key (JArr (if index < 0 then items else remove_at (nat index) items)))"

text \<open>\<open>splice\<close> counts a negative start from the end and clips one beyond the end.\<close>

definition splice_start :: "nat \<Rightarrow> int \<Rightarrow> nat" where
  "splice_start len i = (if i < 0 then nat (max (int len + i) 0) else min (nat i) len)"

definition moveConfigArrayItem :: "jobj \<Rightarrow> string \<Rightarrow> int \<Rightarrow> int \<Rightarrow> jobj" where
  "moveConfigArrayItem config key from_ix to_ix =
     (let items = configArray config key; f = splice_start (length items) from_ix; rest = remove_at f items
      in replaceConfigSection config key (JArr
           (if f < length items
            then (let t = splice_start (length rest) to_ix in take t rest @ [items ! f] @ drop t rest)
            else rest)))"

subsection \<open>Lemmas\<close>

lemma type_key: "path_keys ''type'' = [''type'']"
  by code_simp

text \<open>No endpoint field but the type itself overlaps the type.\<close>

lemma endpoint_type_indep: "\<forall>f\<in>set endpointFields. pf_when f = None \<or> path_indep (pf_path f) ''type''"
proof -
  have "list_all (\<lambda>f. pf_when f = None \<or> path_indep (pf_path f) ''type'') endpointFields" by code_simp
  then show ?thesis by (simp only: list_all_iff)
qed

lemma prepare_type: "obj_get (prepareEndpointObject item) ''type'' = obj_get item ''type''"
proof -
  have "\<forall>f\<in>set endpointFields. path_indep (pf_path f) ''type'' \<or> (\<forall>ob. isPolicyFieldVisible ob f)"
    using endpoint_type_indep by (auto simp: isPolicyFieldVisible_def)
  then have "getPolicyPath (prepareEndpointObject item) ''type'' = getPolicyPath item ''type''"
    unfolding prepareEndpointObject_def by (rule policy_prune_keeps)
  then show ?thesis by (simp add: getPolicyPath_single [OF type_key])
qed

lemma wireguard_visible:
  assumes "pf_when f = Some (WhenOne endpoint_isWireGuard)"
  shows "isPolicyFieldVisible ob f \<longleftrightarrow> obj_get ob ''type'' = Some (JStr ''wireguard'')"
  using assms by (simp add: isPolicyFieldVisible_def matchesWhen_def endpoint_isWireGuard_def when_is_def
      getPolicyPath_single [OF type_key])

lemma tailscale_visible:
  assumes "pf_when f = Some (WhenOne endpoint_isTailscale)"
  shows "isPolicyFieldVisible ob f \<longleftrightarrow> obj_get ob ''type'' = Some (JStr ''tailscale'')"
  using assms by (simp add: isPolicyFieldVisible_def matchesWhen_def endpoint_isTailscale_def when_is_def
      getPolicyPath_single [OF type_key])

lemma prepare_settled:
  "f \<in> set endpointFields \<Longrightarrow>
     isPolicyFieldVisible (prepareEndpointObject item) f \<or> getPolicyPath (prepareEndpointObject item) (pf_path f) = None"
  unfolding prepareEndpointObject_def by (rule policy_prune_settled)

lemma wireguard_hidden:
  assumes "f \<in> set wireGuardFields" and "obj_get item ''type'' \<noteq> Some (JStr ''wireguard'')"
  shows "getPolicyPath (prepareEndpointObject item) (pf_path f) = None"
proof -
  have "list_all (\<lambda>f. pf_when f = Some (WhenOne endpoint_isWireGuard)) wireGuardFields" by code_simp
  with assms(1) have "pf_when f = Some (WhenOne endpoint_isWireGuard)" unfolding list_all_iff by blast
  then show ?thesis using assms prepare_settled [of f item]
    by (simp add: wireguard_visible prepare_type endpointFields_def)
qed

lemma udp_timeout_hidden: "getPolicyPath (prepareEndpointObject item) ''udp_timeout'' = None"
proof (cases "obj_get item ''type'' = Some (JStr ''wireguard'')")
  case False
  have "list_ex (\<lambda>f. pf_path f = ''udp_timeout'') wireGuardFields" by code_simp
  then obtain f where "f \<in> set wireGuardFields" "pf_path f = ''udp_timeout''" unfolding list_ex_iff by blast
  with False show ?thesis using wireguard_hidden by metis
next
  case True
  have "list_ex (\<lambda>f. pf_path f = ''udp_timeout'' \<and> pf_when f = Some (WhenOne endpoint_isTailscale)) tailscaleFields"
    by code_simp
  then obtain f where f: "f \<in> set endpointFields" "pf_path f = ''udp_timeout''" "pf_when f = Some (WhenOne endpoint_isTailscale)"
    unfolding list_ex_iff endpointFields_def by auto
  with True prepare_settled [of f item] show ?thesis by (simp add: tailscale_visible prepare_type)
qed

text \<open>What a wireguard endpoint keeps.\<close>

definition wireguard_kept :: "string list" where
  "wireguard_kept = [''system'', ''name'', ''mtu'', ''address'', ''private_key'', ''listen_port'', ''peers'', ''workers'']"

lemma prepare_wireguard:
  assumes "obj_get item ''type'' = Some (JStr ''wireguard'')" and "q \<in> set wireguard_kept"
  shows "getPolicyPath (prepareEndpointObject item) q = getPolicyPath item q"
proof -
  have tab: "list_all (\<lambda>q. list_all (\<lambda>f. pf_when f = None \<or> pf_when f = Some (WhenOne endpoint_isWireGuard)
      \<or> path_indep (pf_path f) q) endpointFields) wireguard_kept" by code_simp
  let ?P = "\<lambda>nxt. obj_get nxt ''type'' = Some (JStr ''wireguard'') \<and> getPolicyPath nxt q = getPolicyPath item q"
  have "?P (prepareEndpointObject item)"
    unfolding prepareEndpointObject_def
  proof (rule policy.prune_loop_induct [of "\<lambda>ob. pruneInvisiblePolicyFields ob endpointFields", OF policy_prune_eq, where P = ?P])
    show "?P item" using assms(1) by simp
  next
    fix nxt f assume f: "f \<in> set endpointFields" and P: "?P nxt" and hidden: "\<not> isPolicyFieldVisible nxt f"
    have cond: "pf_when f \<noteq> None" using hidden by (cases "pf_when f") (auto simp: isPolicyFieldVisible_def)
    have ind: "path_indep (pf_path f) ''type''" using bspec [OF endpoint_type_indep f] cond by argo
    have "pf_when f \<noteq> Some (WhenOne endpoint_isWireGuard)" using hidden P by (auto simp: wireguard_visible)
    have "path_indep (pf_path f) q"
      using bspec [OF bspec [OF tab [unfolded list_all_iff] assms(2)] f] cond
        \<open>pf_when f \<noteq> Some (WhenOne endpoint_isWireGuard)\<close> by argo
    then show "?P (setPolicyPath nxt (pf_path f) None)"
      using P policy.get_put_indep [OF ind, of nxt None] by (simp add: policy.get_put_indep getPolicyPath_single [OF type_key])
  qed
  then show ?thesis by blast
qed

subsection \<open>Properties\<close>

text \<open>
  Preparing an endpoint for the save loses data: \<open>udp_timeout\<close> is listed under both types with
  opposite conditions, so it never survives, whatever the type; and an endpoint without a type
  counts as a wireguard endpoint everywhere, may be ready to save, and loses its address, private
  key and peers.
\<close>

lemma prepareEndpointObject_loses:
  assumes "obj_get untyped ''type'' = None"
  shows "getPolicyPath (prepareEndpointObject item) ''udp_timeout'' = None
     \<and> inferEndpointType untyped = ''wireguard''
     \<and> (\<forall>q\<in>set [''address'', ''private_key'', ''peers'']. getPolicyPath (prepareEndpointObject untyped) q = None)
     \<and> isEndpointReady [(''tag'', JStr ''wg''), (''address'', JStr ''10.0.0.1/32''), (''private_key'', JStr ''k'')]"
proof (intro conjI ballI)
  fix q assume q: "q \<in> set [''address'', ''private_key'', ''peers'']"
  have "list_all (\<lambda>q. list_ex (\<lambda>f. pf_path f = q) wireGuardFields) [''address'', ''private_key'', ''peers'']" by code_simp
  with q obtain f where "f \<in> set wireGuardFields" "pf_path f = q" unfolding list_all_iff list_ex_iff by blast
  with assms show "getPolicyPath (prepareEndpointObject untyped) q = None" using wireguard_hidden [of f untyped] by simp
next
  show "isEndpointReady [(''tag'', JStr ''wg''), (''address'', JStr ''10.0.0.1/32''), (''private_key'', JStr ''k'')]" by code_simp
qed (use assms in \<open>simp_all add: udp_timeout_hidden inferEndpointType_def\<close>)

lemma prepareEndpointObject_loses_witness:
  "getPolicyPath (prepareEndpointObject [(''tag'', JStr ''wg''), (''private_key'', JStr ''k'')]) ''private_key'' = None"
  using prepareEndpointObject_loses [of "[(''tag'', JStr ''wg''), (''private_key'', JStr ''k'')]" "[]"]
  by (simp add: obj_get_def)

text \<open>
  An endpoint of type wireguard keeps every wireguard field but the UDP timeout, and the save
  of the dialog stores what its JSON text says, prepared; with a text that is no JSON
  object the dialog falls back to the object of the visual form, so the button stays enabled
  and saves something other than what the editor shows.
\<close>

lemma endpoint_dialog_saves:
  assumes "obj_get item ''type'' = Some (JStr ''wireguard'')" and "q \<in> set wireguard_kept"
    and "json_plain (JObj item)" and "isEndpointReady item"
  shows "ed_persist (ed_updateJSON st (json_stringify (JObj item))) = Some (prepareEndpointObject item)
     \<and> getPolicyPath (prepareEndpointObject item) q = getPolicyPath item q
     \<and> (isEndpointReady (prepareEndpointObject item) \<and> endpoint_parseObject text = None \<longrightarrow>
          ed_persist (ed_updateJSON (ed_updateJSON st (json_stringify (JObj item))) text)
            = Some (prepareEndpointObject (prepareEndpointObject item)))"
proof -
  have parse: "endpoint_parseObject (json_stringify (JObj item)) = Some item"
    using json_parse_stringify [OF assms(3)] by (simp add: endpoint_parseObject_def)
  have "ed_persist (ed_updateJSON st (json_stringify (JObj item))) = Some (prepareEndpointObject item)"
    using assms(4) by (simp add: ed_persist_def ed_updateJSON_def parse)
  moreover have "ed_persist (ed_updateJSON (ed_updateJSON st (json_stringify (JObj item))) text)
      = Some (prepareEndpointObject (prepareEndpointObject item))"
    if "isEndpointReady (prepareEndpointObject item)" "endpoint_parseObject text = None"
    using that by (simp add: ed_persist_def ed_updateJSON_def parse ed_visualReady_def Let_def)
  ultimately show ?thesis using prepare_wireguard [OF assms(1,2)] by blast
qed

lemma endpoint_dialog_saves_example:
  "getPolicyPath (prepareEndpointObject
       [(''type'', JStr ''wireguard''), (''tag'', JStr ''wg''), (''address'', JStr ''a''), (''private_key'', JStr ''k'')]) ''private_key''
     = Some (JStr ''k'')"
proof -
  let ?i = "[(''type'', JStr ''wireguard''), (''tag'', JStr ''wg''), (''address'', JStr ''a''), (''private_key'', JStr ''k'')]"
  have "obj_get ?i ''type'' = Some (JStr ''wireguard'')" "''private_key'' \<in> set wireguard_kept"
    "json_plain (JObj ?i)" "isEndpointReady ?i" "getPolicyPath ?i ''private_key'' = Some (JStr ''k'')" by code_simp+
  then show ?thesis using endpoint_dialog_saves [of ?i "''private_key''"] by simp
qed

end
