(* ===== verification/Sse.thy ===== *)
theory Sse
  imports Json_Text
begin

text \<open>
  The event stream client, \<open>lib/api/sse.ts\<close>: how a block of lines becomes an event
  (\<open>eventData\<close>, \<open>parseEvent\<close>), how the decoded reads of a response body are cut into
  blocks (\<open>consumeSSEStream\<close>), and the connection with its retries (\<open>openSSE\<close>), a state
  machine driven by what the network, the timer and the caller do. The callback \<open>onEvent\<close> is a
  parameter that returns the message of the error it throws, if it throws one. A read is given
  as the text the decoder makes of it, so that the texts of all reads put together are the
  decoded body.
\<close>

subsection \<open>Lines and blocks\<close>

abbreviation LF :: char where "LF \<equiv> CHR 0x0A"
abbreviation CR :: char where "CR \<equiv> CHR 0x0D"

definition cons_hd :: "char \<Rightarrow> string list \<Rightarrow> string list" where
  "cons_hd c ts = (case ts of [] \<Rightarrow> [[c]] | t # us \<Rightarrow> (c # t) # us)"

text \<open>\<open>s.split(/\r?\n/)\<close>.\<close>

fun split_lines :: "string \<Rightarrow> string list" where
  "split_lines [] = [[]]"
| "split_lines (c # cs) =
     (if c = LF then [] # split_lines cs
      else if c = CR then
        (case cs of
           [] \<Rightarrow> [[c]]
         | d # ds \<Rightarrow> if d = LF then [] # split_lines ds else cons_hd c (split_lines cs))
      else cons_hd c (split_lines cs))"

text \<open>What follows a match of \<open>\r?\n\<close>, and of \<open>\r?\n\r?\n\<close>, at the head of a text.\<close>

fun eat_nl :: "string \<Rightarrow> string option" where
  "eat_nl [] = None"
| "eat_nl (c # cs) =
     (if c = LF then Some cs
      else if c = CR then (case cs of d # ds \<Rightarrow> if d = LF then Some ds else None | [] \<Rightarrow> None)
      else None)"

definition eat_sep :: "string \<Rightarrow> string option" where
  "eat_sep s = Option.bind (eat_nl s) eat_nl"

text \<open>The text before the leftmost separator, and the text after it.\<close>

fun take_block :: "string \<Rightarrow> (string \<times> string) option" where
  "take_block [] = None"
| "take_block (c # cs) =
     (case eat_sep (c # cs) of Some r \<Rightarrow> Some ([], r) | None \<Rightarrow> cons_fst c (take_block cs))"

lemma eat_nl_shorter: "eat_nl s = Some r \<Longrightarrow> length r < length s"
  by (cases s) (auto split: if_splits list.splits)

lemma eat_sep_shorter: "eat_sep s = Some r \<Longrightarrow> length r < length s"
  by (auto simp: eat_sep_def bind_eq_Some_conv dest!: eat_nl_shorter)

lemma take_block_shorter: "take_block s = Some (b, r) \<Longrightarrow> length r < length s"
proof (induction s arbitrary: b r)
  case Nil
  then show ?case by simp
next
  case (Cons c s)
  then show ?case using eat_sep_shorter [of "c # s"]
    by (fastforce simp: cons_fst_Some split: option.splits)
qed

text \<open>\<open>s.split(/\r?\n\r?\n/)\<close>.\<close>

function split_blocks :: "string \<Rightarrow> string list" where
  "split_blocks s = (case take_block s of None \<Rightarrow> [s] | Some (b, r) \<Rightarrow> b # split_blocks r)"
  by pat_completeness auto
termination
  by (relation "measure length") (auto dest: take_block_shorter)

declare split_blocks.simps [simp del]

subsection \<open>Events\<close>

definition eventData :: "string \<Rightarrow> string" where
  "eventData block =
     js_join [LF] (map (\<lambda>line. js_trimStart (drop 5 line)) (filter (js_startsWith ''data:'') (split_lines block)))"

text \<open>\<open>Inl\<close> is the error thrown, \<open>Inr None\<close> is \<open>undefined\<close>.\<close>

definition parseEvent :: "string \<Rightarrow> string + json option" where
  "parseEvent block =
     (if eventData block = [] then Inr None
      else (case json_parse (eventData block) of
          Some v \<Rightarrow> Inr (Some v)
        | None \<Rightarrow> Inl ''Invalid SSE event data''))"

type_synonym handler = "json \<Rightarrow> string option"

text \<open>The events passed to the callback, and the error that ended the loop over the blocks.\<close>

fun deliver_blocks :: "handler \<Rightarrow> string list \<Rightarrow> json list \<times> string option" where
  "deliver_blocks onEvent [] = ([], None)"
| "deliver_blocks onEvent (b # bs) =
     (case parseEvent b of
        Inl e \<Rightarrow> ([], Some e)
      | Inr None \<Rightarrow> deliver_blocks onEvent bs
      | Inr (Some v) \<Rightarrow>
          (case onEvent v of
             Some e \<Rightarrow> ([v], Some e)
           | None \<Rightarrow> apfst (Cons v) (deliver_blocks onEvent bs)))"

definition then_deliver :: "json list \<times> string option \<Rightarrow> json list \<times> string option \<Rightarrow> json list \<times> string option" where
  "then_deliver a b = (case a of (vs, None) \<Rightarrow> apfst (append vs) b | (vs, Some e) \<Rightarrow> (vs, Some e))"

subsection \<open>Consuming a stream\<close>

text \<open>A read of the body: the text decoded from it, or the rejection of the read.\<close>

datatype sse_read = ReadText string | ReadRejected string

fun consume_loop :: "handler \<Rightarrow> string \<Rightarrow> sse_read list \<Rightarrow> json list \<times> string option" where
  "consume_loop onEvent buffer [] = deliver_blocks onEvent [buffer]"
| "consume_loop onEvent buffer (ReadRejected e # reads) = ([], Some e)"
| "consume_loop onEvent buffer (ReadText text # reads) =
     (let blocks = split_blocks (buffer @ text)
      in then_deliver (deliver_blocks onEvent (butlast blocks)) (consume_loop onEvent (last blocks) reads))"

definition consumeSSEStream :: "handler \<Rightarrow> sse_read list \<Rightarrow> json list \<times> string option" where
  "consumeSSEStream onEvent reads = consume_loop onEvent [] reads"

subsection \<open>Lemmas on blocks\<close>

lemma split_blocks_not_Nil [simp]: "split_blocks s \<noteq> []"
  by (subst split_blocks.simps) (auto split: option.splits)

lemma eat_nl_append: "eat_nl s = Some r \<Longrightarrow> eat_nl (s @ t) = Some (r @ t)"
  by (cases s) (auto split: if_splits list.splits)

lemma eat_sep_append: "eat_sep s = Some r \<Longrightarrow> eat_sep (s @ t) = Some (r @ t)"
  by (auto simp: eat_sep_def bind_eq_Some_conv eat_nl_append)

lemma eat_nl_Some_iff: "eat_nl s = Some r \<longleftrightarrow> s = LF # r \<or> s = CR # LF # r"
  by (cases s) (auto split: if_splits list.splits)

lemma eat_sep_Some_iff:
  "eat_sep s = Some r \<longleftrightarrow> s \<in> {[LF, LF] @ r, [LF, CR, LF] @ r, [CR, LF, LF] @ r, [CR, LF, CR, LF] @ r}"
  by (auto simp: eat_sep_def bind_eq_Some_conv eat_nl_Some_iff)

text \<open>A separator that is complete only with later text leaves no block in the text before it.\<close>

lemma eat_sep_straddle:
  assumes "eat_sep (c # cs) = None" and "eat_sep ((c # cs) @ t) = Some r"
  shows "take_block cs = None"
proof -
  from assms(2) have "(c # cs) @ t \<in> {[LF, LF] @ r, [LF, CR, LF] @ r, [CR, LF, LF] @ r, [CR, LF, CR, LF] @ r}"
    by (simp only: eat_sep_Some_iff)
  with assms(1) have "cs \<in> {[], [LF], [CR], [LF, CR]}"
    by (cases cs rule: remdups_adj.cases; auto simp: eat_sep_def Cons_eq_append_conv append_eq_Cons_conv)
  then show ?thesis by (auto simp: eat_sep_def cons_fst_def)
qed

lemma take_block_append: "take_block s = Some (b, r) \<Longrightarrow> take_block (s @ t) = Some (b, r @ t)"
proof (induction s arbitrary: b r)
  case Nil
  then show ?case by simp
next
  case (Cons c s)
  show ?case
  proof (cases "eat_sep (c # s)")
    case (Some u)
    with Cons.prems eat_sep_append [OF Some, of t] show ?thesis by simp
  next
    case None
    with Cons.prems obtain b' where b: "take_block s = Some (b', r)" "b = c # b'"
      by (auto simp: cons_fst_Some)
    then have "eat_sep ((c # s) @ t) = None"
      using eat_sep_straddle [OF None, of t] by (cases "eat_sep ((c # s) @ t)") auto
    with Cons.IH b show ?thesis by (simp add: cons_fst_def)
  qed
qed

lemma split_blocks_None: "take_block s = None \<Longrightarrow> split_blocks s = [s]"
  by (subst split_blocks.simps) simp

lemma split_blocks_Some: "take_block s = Some (b, r) \<Longrightarrow> split_blocks s = b # split_blocks r"
  by (subst split_blocks.simps) simp

lemma last_split_blocks: "take_block (last (split_blocks s)) = None"
proof (induction s rule: split_blocks.induct)
  case (1 s)
  show ?case
  proof (cases "take_block s")
    case None
    then show ?thesis by (simp add: split_blocks_None)
  next
    case (Some br)
    then obtain b r where "take_block s = Some (b, r)" by (cases br) auto
    with 1 show ?thesis by (simp add: split_blocks_Some)
  qed
qed

text \<open>Cutting a longer text keeps every block already complete.\<close>

lemma split_blocks_append:
  "split_blocks (s @ t) = butlast (split_blocks s) @ split_blocks (last (split_blocks s) @ t)"
proof (induction s rule: split_blocks.induct)
  case (1 s)
  show ?case
  proof (cases "take_block s")
    case None
    then show ?thesis by (simp add: split_blocks_None)
  next
    case (Some br)
    then obtain b r where s: "take_block s = Some (b, r)" by (cases br) auto
    with 1 show ?thesis
      by (simp add: split_blocks_Some [OF s] split_blocks_Some [OF take_block_append [OF s]])
  qed
qed

lemma deliver_blocks_append:
  "deliver_blocks h (xs @ ys) = then_deliver (deliver_blocks h xs) (deliver_blocks h ys)"
proof (induction xs)
  case Nil
  then show ?case by (simp add: then_deliver_def apfst_def map_prod_def split: prod.splits)
next
  case (Cons b xs)
  obtain vs e where d: "deliver_blocks h xs = (vs, e)" by force
  obtain ws e' where d': "deliver_blocks h ys = (ws, e')" by force
  show ?case using Cons
    by (auto simp: d d' then_deliver_def split: sum.splits option.splits)
qed

lemma then_deliver_assoc: "then_deliver (then_deliver a b) c = then_deliver a (then_deliver b c)"
proof -
  obtain va ea vb eb vc ec where "a = (va, ea)" "b = (vb, eb)" "c = (vc, ec)" by (cases a, cases b, cases c)
  then show ?thesis by (cases ea; cases eb) (auto simp: then_deliver_def)
qed

lemma then_deliver_Nil [simp]: "then_deliver ([], None) b = b"
  by (cases b) (simp add: then_deliver_def)

text \<open>Two reads count as the one of their texts together.\<close>

lemma consume_loop_merge:
  "consume_loop h buffer (ReadText s # ReadText t # rest) = consume_loop h buffer (ReadText (s @ t) # rest)"
  using split_blocks_append [of "buffer @ s" t]
  by (simp add: Let_def deliver_blocks_append then_deliver_assoc butlast_append)

lemma consume_loop_empty: "take_block buffer = None \<Longrightarrow> consume_loop h buffer (ReadText [] # rest) = consume_loop h buffer rest"
  by (simp add: split_blocks_None)

lemma consume_loop_texts:
  "take_block buffer = None \<Longrightarrow>
     consume_loop h buffer (map ReadText cs @ rest) = consume_loop h buffer (ReadText (concat cs) # rest)"
proof (induction cs arbitrary: buffer)
  case Nil
  then show ?case by (simp add: consume_loop_empty del: consume_loop.simps)
next
  case (Cons c cs)
  have "consume_loop h buffer (ReadText c # map ReadText cs @ rest)
      = consume_loop h buffer (ReadText c # ReadText (concat cs) # rest)"
    using Cons.IH [OF last_split_blocks [of "buffer @ c"]] by (simp add: Let_def)
  then show ?case by (simp add: consume_loop_merge del: consume_loop.simps)
qed

text \<open>A text without line breaks is one line, and its frame is one block.\<close>

definition single_line :: "string \<Rightarrow> bool" where
  "single_line p \<longleftrightarrow> LF \<notin> set p \<and> CR \<notin> set p"

lemma split_lines_single: "single_line p \<Longrightarrow> split_lines p = [p]"
  by (induction p) (auto simp: single_line_def cons_hd_def)

lemma take_block_frame: "single_line p \<Longrightarrow> take_block (p @ [LF, LF] @ r) = Some (p, r)"
  by (induction p) (auto simp: single_line_def eat_sep_def cons_fst_def)

lemma eventData_data:
  assumes "single_line p" and "p \<noteq> []" and "\<not> is_ws (hd p)"
  shows "eventData (''data: '' @ p) = p"
proof -
  have "single_line (''data: '' @ p)" using assms(1) by (simp add: single_line_def)
  moreover have "is_ws CHR '' ''" by (simp add: is_ws_def)
  ultimately show ?thesis using assms(2,3)
    by (simp only: eventData_def split_lines_single) (simp add: js_startsWith_def js_trimStart_def dropWhile_id)
qed

lemma eventData_comment:
  assumes "single_line p"
  shows "eventData (CHR '':'' # p) = []"
proof -
  have "single_line (CHR '':'' # p)" using assms by (simp add: single_line_def)
  then show ?thesis
    by (simp only: eventData_def split_lines_single) (simp add: js_startsWith_def)
qed

text \<open>A frame as the server writes it: an event with its JSON text on one line, or a comment.\<close>

datatype sse_frame = EventFrame string | CommentFrame string

fun frame_block :: "sse_frame \<Rightarrow> string" where
  "frame_block (EventFrame p) = ''data: '' @ p"
| "frame_block (CommentFrame p) = CHR '':'' # p"

definition frame_text :: "sse_frame \<Rightarrow> string" where
  "frame_text fr = frame_block fr @ [LF, LF]"

fun frame_ok :: "sse_frame \<Rightarrow> bool" where
  "frame_ok (EventFrame p) \<longleftrightarrow> single_line p \<and> p \<noteq> [] \<and> \<not> is_ws (hd p) \<and> json_parse p \<noteq> None"
| "frame_ok (CommentFrame p) \<longleftrightarrow> single_line p"

fun frame_events :: "sse_frame \<Rightarrow> json list" where
  "frame_events (EventFrame p) = (case json_parse p of Some v \<Rightarrow> [v] | None \<Rightarrow> [])"
| "frame_events (CommentFrame p) = []"

lemma single_line_block: "frame_ok fr \<Longrightarrow> single_line (frame_block fr)"
  by (cases fr) (simp_all add: single_line_def)

lemma split_frames:
  "list_all frame_ok frs \<Longrightarrow> split_blocks (concat (map frame_text frs)) = map frame_block frs @ [[]]"
proof (induction frs)
  case Nil
  then show ?case by (simp add: split_blocks_None)
next
  case (Cons fr frs)
  have "take_block (concat (map frame_text (fr # frs))) = Some (frame_block fr, concat (map frame_text frs))"
    using take_block_frame [of "frame_block fr" "concat (map frame_text frs)"] Cons.prems
    by (simp add: single_line_block frame_text_def)
  from split_blocks_Some [OF this] Cons show ?case by simp
qed

lemma parse_frame:
  "frame_ok fr \<Longrightarrow> parseEvent (frame_block fr) = Inr (case frame_events fr of [] \<Rightarrow> None | v # vs \<Rightarrow> Some v)"
  using eventData_data eventData_comment
  by (cases fr) (auto simp: parseEvent_def simp del: append.simps)

lemma deliver_frames:
  "list_all frame_ok frs \<Longrightarrow>
     deliver_blocks (\<lambda>v. None) (map frame_block frs) = (concat (map frame_events frs), None)"
proof (induction frs)
  case Nil
  then show ?case by simp
next
  case (Cons fr frs)
  then show ?case
    by (cases fr) (auto simp: parse_frame simp del: frame_block.simps split: option.splits)
qed

subsection \<open>The connection\<close>

text \<open>What the client does to the outside: it starts a request, passes an event or an error on,
  or reports that the session is no longer accepted.\<close>

datatype sse_effect = Fetch string string | OnEvent json | OnError string | NotifyUnauthorized

text \<open>Where the connection is: the request is pending, the body is being read (with the buffer),
  the timer runs (with its delay in milliseconds), or nothing is under way.\<close>

datatype sse_phase = Fetching | Streaming string | Waiting nat | Idle

record sse =
  sse_path :: string
  sse_token :: string
  sse_attempt :: nat
  sse_stopped :: bool
  sse_aborted :: bool
  sse_phase :: sse_phase
  sse_log :: "sse_effect list"

definition emit :: "sse_effect list \<Rightarrow> sse \<Rightarrow> sse" where
  "emit es s = s\<lparr>sse_log := sse_log s @ es\<rparr>"

text \<open>\<open>connect\<close> up to its first \<open>await\<close>; the header carries the token.\<close>

definition sse_connect :: "sse \<Rightarrow> sse" where
  "sse_connect s = emit [Fetch (sse_path s) (''Bearer '' @ sse_token s)]
     (s\<lparr>sse_aborted := False, sse_phase := Fetching\<rparr>)"

definition openSSE :: "string \<Rightarrow> string \<Rightarrow> sse" where
  "openSSE path token = sse_connect \<lparr>sse_path = path, sse_token = token, sse_attempt = 0,
     sse_stopped = False, sse_aborted = False, sse_phase = Idle, sse_log = []\<rparr>"

text \<open>\<open>stop\<close>: a pending timer is cleared; a pending request or read goes on until it settles.\<close>

definition sse_stop :: "sse \<Rightarrow> sse" where
  "sse_stop s = s\<lparr>sse_stopped := True, sse_aborted := True,
     sse_phase := (case sse_phase s of Waiting d \<Rightarrow> Idle | ph \<Rightarrow> ph)\<rparr>"

definition retry_delay :: "nat \<Rightarrow> nat" where
  "retry_delay attempt = min (1000 * 2 ^ attempt) 10000"

definition sse_retry :: "sse \<Rightarrow> sse" where
  "sse_retry s =
     (if sse_stopped s then s\<lparr>sse_phase := Idle\<rparr>
      else s\<lparr>sse_attempt := sse_attempt s + 1, sse_phase := Waiting (retry_delay (sse_attempt s))\<rparr>)"

text \<open>The \<open>catch\<close> clause; \<^const>\<open>None\<close> stands for a reason that is no \<open>Error\<close>.\<close>

definition sse_catch :: "string option \<Rightarrow> sse \<Rightarrow> sse" where
  "sse_catch reason s =
     (if sse_stopped s \<or> sse_aborted s then s\<lparr>sse_phase := Idle\<rparr>
      else sse_retry (emit [OnError (case reason of Some m \<Rightarrow> m | None \<Rightarrow> ''SSE connection failed'')] s))"

definition response_ok :: "nat \<Rightarrow> bool" where
  "response_ok status \<longleftrightarrow> 200 \<le> status \<and> status \<le> 299"

definition sse_response :: "nat \<Rightarrow> bool \<Rightarrow> sse \<Rightarrow> sse" where
  "sse_response status has_body s =
     (if status = 401 then
        emit [NotifyUnauthorized, OnError ''SSE request failed with status 401'']
          (s\<lparr>sse_stopped := True, sse_phase := Idle\<rparr>)
      else if \<not> response_ok status \<or> \<not> has_body then
        sse_catch (Some (''SSE request failed with status '' @ digits_of (int status))) s
      else s\<lparr>sse_attempt := 0, sse_phase := Streaming []\<rparr>)"

definition emit_events :: "json list \<Rightarrow> sse \<Rightarrow> sse" where
  "emit_events vs s = emit (map OnEvent vs) s"

text \<open>One turn of the loop of \<open>consumeSSEStream\<close> for a read that is not the last.\<close>

definition sse_chunk :: "handler \<Rightarrow> string \<Rightarrow> string \<Rightarrow> sse \<Rightarrow> sse" where
  "sse_chunk onEvent buffer text s =
     (let blocks = split_blocks (buffer @ text)
      in case deliver_blocks onEvent (butlast blocks) of
           (vs, Some e) \<Rightarrow> sse_catch (Some e) (emit_events vs s)
         | (vs, None) \<Rightarrow> emit_events vs (s\<lparr>sse_phase := Streaming (last blocks)\<rparr>))"

text \<open>The last turn, with the text the decoder still held, and what follows the loop.\<close>

definition sse_done :: "handler \<Rightarrow> string \<Rightarrow> string \<Rightarrow> sse \<Rightarrow> sse" where
  "sse_done onEvent buffer text s =
     (case consume_loop onEvent buffer [ReadText text] of
        (vs, Some e) \<Rightarrow> sse_catch (Some e) (emit_events vs s)
      | (vs, None) \<Rightarrow> sse_retry (emit_events vs s))"

datatype sse_input = Response nat bool | FetchRejected "string option" | ReadResolved string
  | ReadDone string | ReadFailed string | TimerFired | Stopped

inductive sse_step :: "handler \<Rightarrow> sse \<Rightarrow> sse_input \<Rightarrow> sse \<Rightarrow> bool" for h where
  step_response: "sse_phase s = Fetching \<Longrightarrow> sse_step h s (Response st body) (sse_response st body s)"
| step_rejected: "sse_phase s = Fetching \<Longrightarrow> sse_step h s (FetchRejected r) (sse_catch r s)"
| step_read: "sse_phase s = Streaming buf \<Longrightarrow> sse_step h s (ReadResolved t) (sse_chunk h buf t s)"
| step_done: "sse_phase s = Streaming buf \<Longrightarrow> sse_step h s (ReadDone t) (sse_done h buf t s)"
| step_failed: "sse_phase s = Streaming buf \<Longrightarrow> sse_step h s (ReadFailed e) (sse_catch (Some e) s)"
| step_timer: "sse_phase s = Waiting d \<Longrightarrow> sse_step h s TimerFired (sse_connect s)"
| step_stop: "sse_step h s Stopped (sse_stop s)"

inductive sse_run :: "handler \<Rightarrow> sse \<Rightarrow> sse_input list \<Rightarrow> sse \<Rightarrow> bool" for h where
  run_Nil: "sse_run h s [] s"
| run_Cons: "sse_step h s i u \<Longrightarrow> sse_run h u ins t \<Longrightarrow> sse_run h s (i # ins) t"

inductive_cases sse_stepE: "sse_step h s i t"
inductive_simps sse_run_simps: "sse_run h s [] t" "sse_run h s (i # ins) t"

subsection \<open>Invariants of the connection\<close>

definition fetches :: "sse \<Rightarrow> nat" where
  "fetches s = length (filter (\<lambda>e. \<exists>p k. e = Fetch p k) (sse_log s))"

text \<open>A stopped connection has no timer; a request is aborted only by stopping; the running timer has
  the delay of the attempts before the last one counted.\<close>

definition sse_inv :: "sse \<Rightarrow> bool" where
  "sse_inv s \<longleftrightarrow> (sse_aborted s \<longrightarrow> sse_stopped s) \<and>
     (\<forall>d. sse_phase s = Waiting d \<longrightarrow> \<not> sse_stopped s \<and> 0 < sse_attempt s \<and> d = retry_delay (sse_attempt s - 1))"

lemmas sse_defs = emit_def emit_events_def sse_connect_def sse_stop_def sse_retry_def sse_catch_def
  sse_response_def sse_chunk_def sse_done_def Let_def

text \<open>A read is one of a rejected turn, a turn that goes on, or a turn after which the stream ended.\<close>

lemma sse_chunk_cases:
  obtains vs e where "sse_chunk h buf t s = sse_catch (Some e) (emit_events vs s)"
  | vs buf' where "sse_chunk h buf t s = emit_events vs (s\<lparr>sse_phase := Streaming buf'\<rparr>)"
  by (cases "deliver_blocks h (butlast (split_blocks (buf @ t)))"; cases "snd (deliver_blocks h (butlast (split_blocks (buf @ t))))")
    (auto simp: sse_chunk_def Let_def)

lemma sse_done_cases:
  obtains vs e where "sse_done h buf t s = sse_catch (Some e) (emit_events vs s)"
  | vs where "sse_done h buf t s = sse_retry (emit_events vs s)"
  by (cases "consume_loop h buf [ReadText t]"; cases "snd (consume_loop h buf [ReadText t])")
    (auto simp: sse_done_def simp del: consume_loop.simps)

text \<open>What a turn keeps, for the four ways it can end.\<close>

definition keeps :: "sse \<Rightarrow> sse \<Rightarrow> bool" where
  "keeps s t \<longleftrightarrow> fetches t = fetches s \<and> (sse_stopped s \<longrightarrow> sse_stopped t) \<and> (sse_inv s \<longrightarrow> sse_inv t)"

lemma fetches_events: "filter (\<lambda>e. \<exists>p k. e = Fetch p k) (map OnEvent vs) = []"
  by (induction vs) auto

lemma keeps_emit_events: "keeps s (emit_events vs s)"
  by (simp add: keeps_def fetches_def sse_inv_def emit_events_def emit_def fetches_events)

lemma keeps_streaming: "keeps s (emit_events vs (s\<lparr>sse_phase := Streaming b\<rparr>))"
  by (simp add: keeps_def fetches_def sse_inv_def emit_events_def emit_def fetches_events)

lemma keeps_retry: "keeps s (sse_retry s)"
  by (auto simp: keeps_def fetches_def sse_inv_def sse_retry_def)

lemma keeps_catch: "keeps s (sse_catch r s)"
  by (auto simp: keeps_def fetches_def sse_inv_def sse_catch_def sse_retry_def emit_def)

lemma keeps_trans: "keeps s t \<Longrightarrow> keeps t u \<Longrightarrow> keeps s u"
  by (simp add: keeps_def)

lemma keeps_response: "keeps s (sse_response st body s)"
  using keeps_catch [of s] by (auto simp: sse_response_def) (auto simp: keeps_def fetches_def sse_inv_def emit_def)

lemma keeps_stop: "keeps s (sse_stop s)"
  by (auto simp: keeps_def fetches_def sse_inv_def sse_stop_def split: sse_phase.splits)

lemma keeps_chunk: "keeps s (sse_chunk h buf t s)"
  by (cases rule: sse_chunk_cases [of h buf t s])
    (simp_all add: keeps_streaming keeps_trans [OF keeps_emit_events keeps_catch])

lemma keeps_done: "keeps s (sse_done h buf t s)"
  by (cases rule: sse_done_cases [of h buf t s])
    (simp_all add: keeps_trans [OF keeps_emit_events keeps_retry] keeps_trans [OF keeps_emit_events keeps_catch])

lemma step_keeps: "sse_step h s i t \<Longrightarrow> i \<noteq> TimerFired \<Longrightarrow> keeps s t"
  by (erule sse_stepE)
    (simp_all add: keeps_response keeps_catch keeps_chunk keeps_done keeps_stop)

lemma timer_stepD:
  assumes "sse_step h s TimerFired t"
  obtains d where "sse_phase s = Waiting d" and "t = sse_connect s"
  using assms by (auto elim: sse_stepE)

lemma connect_inv: "sse_inv s \<Longrightarrow> sse_inv (sse_connect s) \<and> fetches (sse_connect s) = Suc (fetches s)"
  by (simp add: sse_inv_def sse_connect_def emit_def fetches_def)

lemma step_inv:
  assumes "sse_step h s i t" and "sse_inv s"
  shows "sse_inv t \<and> fetches t = fetches s + (if i = TimerFired then 1 else 0) \<and> (sse_stopped s \<longrightarrow> sse_stopped t \<and> fetches t = fetches s)"
proof (cases "i = TimerFired")
  case True
  with assms obtain d where "sse_phase s = Waiting d" "t = sse_connect s" by (auto elim: timer_stepD)
  then show ?thesis using True assms(2) connect_inv [OF assms(2)] by (auto simp: sse_inv_def)
next
  case False
  then show ?thesis using step_keeps [OF assms(1)] assms(2) by (simp add: keeps_def)
qed

lemma run_inv:
  "sse_run h s ins t \<Longrightarrow> sse_inv s \<Longrightarrow>
     sse_inv t \<and> fetches t = fetches s + length (filter (\<lambda>i. i = TimerFired) ins) \<and> (sse_stopped s \<longrightarrow> sse_stopped t \<and> fetches t = fetches s)"
proof (induction rule: sse_run.induct)
  case (run_Nil s)
  then show ?case by simp
next
  case (run_Cons s i u ins t)
  from step_inv [OF run_Cons.hyps(1) run_Cons.prems] run_Cons.IH show ?case by auto
qed

lemma open_inv: "sse_inv (openSSE p k) \<and> fetches (openSSE p k) = 1"
  by (simp add: openSSE_def sse_connect_def sse_inv_def emit_def fetches_def)

lemma run_append: "sse_run h s ins u \<Longrightarrow> sse_run h u ins' t \<Longrightarrow> sse_run h s (ins @ ins') t"
  by (induction rule: sse_run.induct) (auto intro: run_Cons)

lemma run_one: "sse_step h s i t \<Longrightarrow> sse_run h s [i] t"
  by (blast intro: sse_run.intros)

lemma retry_delay_bounds: "1000 \<le> retry_delay n \<and> retry_delay n \<le> 10000 \<and> (4 \<le> n \<longrightarrow> retry_delay n = 10000)"
proof -
  have "(2::nat) ^ 4 \<le> 2 ^ n" if "4 \<le> n" using that by (intro power_increasing) simp_all
  then show ?thesis by (auto simp: retry_delay_def)
qed

subsection \<open>Outages\<close>

text \<open>One failed attempt to connect: the timer fires and the request is rejected.\<close>

lemma outage_step:
  assumes "sse_inv s" and "sse_phase s = Waiting d"
  shows "\<exists>t. sse_run h s [TimerFired, FetchRejected r] t \<and> sse_inv t \<and> sse_attempt t = Suc (sse_attempt s)
      \<and> sse_phase t = Waiting (retry_delay (sse_attempt s)) \<and> fetches t = Suc (fetches s)"
proof -
  let ?u = "sse_connect s" let ?t = "sse_catch r ?u"
  have u: "sse_phase ?u = Fetching" "\<not> sse_stopped ?u" "\<not> sse_aborted ?u" "sse_attempt ?u = sse_attempt s"
    using assms by (simp_all add: sse_connect_def emit_def sse_inv_def)
  have run: "sse_run h s [TimerFired, FetchRejected r] ?t"
    using assms(2) u(1) by (blast intro: sse_run.intros sse_step.intros)
  moreover have "sse_attempt ?t = Suc (sse_attempt s)" "sse_phase ?t = Waiting (retry_delay (sse_attempt s))"
    using u by (simp_all add: sse_catch_def sse_retry_def emit_def)
  ultimately show ?thesis using run_inv [OF run assms(1)] by auto
qed

lemma outage_run:
  "sse_inv s \<Longrightarrow> sse_phase s = Waiting d \<Longrightarrow>
     \<exists>t. sse_run h s (concat (replicate k [TimerFired, FetchRejected r])) t \<and> sse_inv t \<and> sse_attempt t = sse_attempt s + k
      \<and> (\<exists>d'. sse_phase t = Waiting d') \<and> fetches t = fetches s + k"
proof (induction k)
  case 0
  then show ?case by (auto intro: run_Nil)
next
  case (Suc k)
  then obtain t d' where t: "sse_run h s (concat (replicate k [TimerFired, FetchRejected r])) t" "sse_inv t"
    "sse_attempt t = sse_attempt s + k" "sse_phase t = Waiting d'" "fetches t = fetches s + k" by blast
  from outage_step [OF t(2,4), of h r] obtain u where u: "sse_run h t [TimerFired, FetchRejected r] u" "sse_inv u"
    "sse_attempt u = Suc (sse_attempt t)" "sse_phase u = Waiting (retry_delay (sse_attempt t))" "fetches u = Suc (fetches t)" by blast
  have "concat (replicate (Suc k) [TimerFired, FetchRejected r]) = concat (replicate k [TimerFired, FetchRejected r]) @ [TimerFired, FetchRejected r]"
    by (induction k) simp_all
  with run_append [OF t(1) u(1)] t u show ?case by auto
qed

text \<open>The connection reads a body exactly as \<open>consumeSSEStream\<close> does.\<close>

lemma stream_run:
  "sse_phase s = Streaming buf \<Longrightarrow> consume_loop h buf (map ReadText (ts @ [t])) = (vs, None) \<Longrightarrow>
     \<exists>u. sse_run h s (map ReadResolved ts @ [ReadDone t]) u
       \<and> u = sse_retry (emit_events vs (s\<lparr>sse_phase := sse_phase u\<rparr>))"
proof (induction ts arbitrary: s buf vs)
  case Nil
  then have "sse_done h buf t s = sse_retry (emit_events vs s)"
    by (simp add: sse_done_def del: consume_loop.simps)
  moreover have "sse_retry (emit_events vs s) = sse_retry (emit_events vs (s\<lparr>sse_phase := sse_phase (sse_retry (emit_events vs s))\<rparr>))"
    by (simp add: sse_retry_def emit_events_def emit_def)
  ultimately show ?case using run_one [OF step_done [of s buf h t, OF Nil(1)]] by auto
next
  case (Cons t' ts)
  let ?bs = "split_blocks (buf @ t')"
  obtain ws where d: "deliver_blocks h (butlast ?bs) = (ws, None)"
    using Cons.prems(2) by (cases "deliver_blocks h (butlast ?bs)"; cases "snd (deliver_blocks h (butlast ?bs))")
      (auto simp: Let_def then_deliver_def)
  obtain xs where x: "consume_loop h (last ?bs) (map ReadText (ts @ [t])) = (xs, None)" "vs = ws @ xs"
    using Cons.prems(2) d
    by (cases "consume_loop h (last ?bs) (map ReadText (ts @ [t]))") (auto simp: Let_def then_deliver_def)
  let ?s = "emit_events ws (s\<lparr>sse_phase := Streaming (last ?bs)\<rparr>)"
  have step: "sse_step h s (ReadResolved t') ?s"
    using step_read [of s buf h t', OF Cons.prems(1)] d by (simp add: sse_chunk_def Let_def)
  have ph: "sse_phase ?s = Streaming (last ?bs)" by (simp add: emit_events_def emit_def)
  from Cons.IH [OF ph x(1)] obtain u where u: "sse_run h ?s (map ReadResolved ts @ [ReadDone t]) u"
    "u = sse_retry (emit_events xs (?s\<lparr>sse_phase := sse_phase u\<rparr>))" by blast
  have "emit_events xs (?s\<lparr>sse_phase := sse_phase u\<rparr>) = emit_events vs (s\<lparr>sse_phase := sse_phase u\<rparr>)"
    using x(2) by (simp add: emit_events_def emit_def)
  with u(2) have "u = sse_retry (emit_events vs (s\<lparr>sse_phase := sse_phase u\<rparr>))" by metis
  moreover have "sse_run h s (map ReadResolved (t' # ts) @ [ReadDone t]) u"
    using run_Cons [OF step u(1)] by simp
  ultimately show ?case by blast
qed

subsection \<open>Properties\<close>

text \<open>
  C2: The events delivered from a stream, and the error that ends it, do not depend on how the
  network cuts its text into reads: any reads give what one read of the whole text gives, whatever
  comes after them, with separators, lines and JSON texts cut anywhere.
\<close>

theorem consumeSSEStream_chunking:
  "consumeSSEStream h (map ReadText cs @ rest) = consumeSSEStream h (ReadText (concat cs) # rest)"
  unfolding consumeSSEStream_def by (rule consume_loop_texts) simp

text \<open>
  C20: A stream the server writes as frames, each an event with its JSON text on one line or a
  comment, is read back as exactly those events in their order, with no error, whatever
  the reads are.
\<close>

theorem consumeSSEStream_frames:
  assumes "list_all frame_ok frs" and "concat cs = concat (map frame_text frs)"
  shows "consumeSSEStream (\<lambda>v. None) (map ReadText cs) = (concat (map frame_events frs), None)"
proof -
  have "parseEvent [] = Inr None" by (simp add: parseEvent_def eventData_def js_startsWith_def)
  then show ?thesis
    using consume_loop_texts [of "[]" "\<lambda>v. None" cs "[]"] assms
    by (simp add: consumeSSEStream_def split_frames deliver_frames then_deliver_def butlast_append Let_def)
qed

theorem consumeSSEStream_frames_witness:
  "consumeSSEStream (\<lambda>v. None) (map ReadText [''data: tru'', ''e'' @ [LF], [LF] @ '':ok'' @ [LF, LF]]) = ([JBool True], None)"
proof -
  have p: "json_parse ''true'' = Some (JBool True)" by code_simp
  have "frame_ok (EventFrame ''true'')" "frame_ok (CommentFrame ''ok'')"
    by (simp_all add: p single_line_def is_ws_def)
  then show ?thesis
    using consumeSSEStream_frames [of "[EventFrame ''true'', CommentFrame ''ok'']" "[''data: tru'', ''e'' @ [LF], [LF] @ '':ok'' @ [LF, LF]]"]
    by (simp add: frame_text_def p)
qed



text \<open>
  C3: A stopped connection never connects again: whatever happens after the caller stopped it, or
  after the server answered 401, no request is started, no timer runs and it stays stopped; and in
  every run the requests are the first one and one for each firing of the timer.
\<close>

theorem openSSE_stays_stopped:
  assumes "sse_run h (openSSE path token) ins s" and "sse_step h s i t" and "i = Stopped \<or> (\<exists>body. i = Response 401 body)"
    and "sse_run h t ins' u"
  shows "fetches s = 1 + length (filter (\<lambda>x. x = TimerFired) ins) \<and> fetches u = fetches s
    \<and> sse_stopped u \<and> (\<forall>d. sse_phase u \<noteq> Waiting d) \<and> TimerFired \<notin> set ins'"
proof -
  have s: "sse_inv s" "fetches s = 1 + length (filter (\<lambda>x. x = TimerFired) ins)"
    using run_inv [OF assms(1)] open_inv [of path token] by auto
  have st: "sse_stopped t" using assms(2,3) by (auto elim!: sse_stepE simp: sse_stop_def sse_response_def emit_def)
  have t: "sse_inv t" "fetches t = fetches s" using step_inv [OF assms(2) s(1)] assms(3) by auto
  have u: "sse_inv u" "sse_stopped u" "fetches u = fetches t"
    and n: "fetches u = fetches t + length (filter (\<lambda>x. x = TimerFired) ins')"
    using run_inv [OF assms(4) t(1)] st by auto
  from n u(3) have "TimerFired \<notin> set ins'" by (auto simp: filter_empty_conv)
  with s t u show ?thesis by (auto simp: sse_inv_def)
qed

theorem openSSE_stays_stopped_witness:
  "sse_stopped (sse_catch None (sse_stop (openSSE ''/api/stats/logs'' ''t'')))
     \<and> fetches (sse_catch None (sse_stop (openSSE ''/api/stats/logs'' ''t''))) = 1"
proof -
  let ?s = "openSSE ''/api/stats/logs'' ''t''"
  have "sse_phase (sse_stop ?s) = Fetching" by (simp add: openSSE_def sse_connect_def emit_def sse_stop_def)
  then have "sse_run (\<lambda>v. None) (sse_stop ?s) [FetchRejected None] (sse_catch None (sse_stop ?s))"
    by (intro run_one step_rejected)
  from openSSE_stays_stopped [OF run_Nil step_stop _ this] show ?thesis by simp
qed

text \<open>
  C16: The retries back off and recover: a running timer always has the delay
  \<open>min(1000 * 2^n, 10000)\<close> for the \<open>n\<close> failures since the last accepted response, between
  one and ten seconds; an outage of any length is survived, with one request per failed
  attempt, and the first accepted response after it brings the delay back to one second.
\<close>

theorem openSSE_backoff:
  assumes "sse_run h (openSSE path token) ins s" and "sse_phase s = Waiting d"
  shows "d = retry_delay (sse_attempt s - 1) \<and> 1000 \<le> d \<and> d \<le> 10000 \<and>
    (\<exists>t. sse_run h s (concat (replicate k [TimerFired, FetchRejected r])) t \<and> fetches t = fetches s + k
       \<and> sse_phase t = Waiting (retry_delay (sse_attempt s + k - 1))
       \<and> (\<exists>u. sse_run h t [TimerFired, Response 200 True, ReadDone []] u \<and> sse_phase u = Waiting 1000))"
proof -
  have s: "sse_inv s" using run_inv [OF assms(1)] open_inv [of path token] by auto
  then have d: "d = retry_delay (sse_attempt s - 1)" using assms(2) by (auto simp: sse_inv_def)
  from outage_run [OF s assms(2)] obtain t d' where t: "sse_run h s (concat (replicate k [TimerFired, FetchRejected r])) t"
    "sse_inv t" "sse_attempt t = sse_attempt s + k" "sse_phase t = Waiting d'" "fetches t = fetches s + k" by blast
  from t(2,4) have d': "d' = retry_delay (sse_attempt t - 1)" and live: "\<not> sse_stopped t" by (auto simp: sse_inv_def)
  let ?v = "sse_response 200 True (sse_connect t)"
  have v: "sse_phase ?v = Streaming []" "\<not> sse_stopped ?v" "sse_attempt ?v = 0" "sse_phase (sse_connect t) = Fetching"
    using live by (simp_all add: sse_response_def response_ok_def sse_connect_def emit_def)
  have "consume_loop h [] (map ReadText ([] @ [[]])) = ([], None)"
    by (simp add: split_blocks_None parseEvent_def eventData_def js_startsWith_def)
  from stream_run [OF v(1) this] obtain u where u: "sse_run h ?v [ReadDone []] u"
    "u = sse_retry (emit_events [] (?v\<lparr>sse_phase := sse_phase u\<rparr>))" by auto
  have "sse_phase u = Waiting 1000"
    by (subst u(2)) (use v in \<open>simp add: sse_retry_def emit_events_def emit_def retry_delay_def\<close>)
  moreover have "sse_run h t [TimerFired, Response 200 True, ReadDone []] u"
    using run_Cons [OF step_timer [OF t(4)] run_Cons [OF step_response [OF v(4)] u(1)]] .
  ultimately show ?thesis using d d' t retry_delay_bounds [of "sse_attempt s - 1"] by auto
qed

theorem openSSE_backoff_witness:
  "sse_phase (sse_catch None (openSSE ''/api/stats/logs'' ''t'')) = Waiting 1000
     \<and> (\<exists>t. sse_run (\<lambda>v. None) (sse_catch None (openSSE ''/api/stats/logs'' ''t''))
          (concat (replicate 4 [TimerFired, FetchRejected None])) t \<and> sse_phase t = Waiting 10000)"
proof -
  let ?s = "openSSE ''/api/stats/logs'' ''t''" let ?u = "sse_catch None ?s"
  have run: "sse_run (\<lambda>v. None) ?s [FetchRejected None] ?u"
    by (intro run_one step_rejected) (simp add: openSSE_def sse_connect_def emit_def)
  have u: "sse_phase ?u = Waiting 1000" "sse_attempt ?u = 1"
    by (simp_all add: openSSE_def sse_connect_def emit_def sse_catch_def sse_retry_def retry_delay_def)
  from openSSE_backoff [OF run u(1), of 4 None] u show ?thesis by (auto simp: retry_delay_def)
qed

end
