(* ===== verification/Api.thy ===== *)
theory Api
  imports Json_Text
begin

text \<open>
  The API client and what the browser keeps between visits: \<open>lib/api/client.ts\<close> (headers,
  envelopes, errors, the 401 handler), \<open>lib/session.ts\<close> and \<open>lib/storage.ts\<close> (the session and
  the preferences in web storage), \<open>features/auth/auth-context.tsx\<close> (the session of the
  application), and \<open>groupNodeTestResults\<close> of \<open>lib/api/endpoints.ts\<close>. The clock,
  \<open>Date.parse\<close>, the server and the failures of web storage are parameters.
\<close>

subsection \<open>Web storage\<close>

text \<open>A storage area: its items, and whether reading, writing and removing throw.\<close>

record web_storage =
  ws_items :: "string \<Rightarrow> string option"
  ws_getThrows :: bool
  ws_setThrows :: bool
  ws_removeThrows :: bool

definition getItem :: "web_storage \<Rightarrow> string \<Rightarrow> string option res" where
  "getItem st k = (if ws_getThrows st then Inl (JsError ''SecurityError'') else Inr (ws_items st k))"

text \<open>Writing and removing with the error caught and dropped, as both stores do.\<close>

definition setItem :: "string \<Rightarrow> string \<Rightarrow> web_storage \<Rightarrow> web_storage" where
  "setItem k v st = (if ws_setThrows st then st else st\<lparr>ws_items := (ws_items st)(k \<mapsto> v)\<rparr>)"

definition removeItem :: "string \<Rightarrow> web_storage \<Rightarrow> web_storage" where
  "removeItem k st = (if ws_removeThrows st then st else st\<lparr>ws_items := (ws_items st)(k := None)\<rparr>)"

definition storage_works :: "web_storage \<Rightarrow> bool" where
  "storage_works st \<longleftrightarrow> \<not> ws_getThrows st \<and> \<not> ws_setThrows st \<and> \<not> ws_removeThrows st"

text \<open>A property of a value; reading one of a primitive or an array gives \<open>undefined\<close>.\<close>

fun json_prop :: "json \<Rightarrow> string \<Rightarrow> json option" where
  "json_prop (JObj c) k = obj_get c k"
| "json_prop _ k = None"

text \<open>\<open>JSON.stringify\<close> without indentation of an object of strings.\<close>

definition text_member :: "string \<times> string \<Rightarrow> string" where
  "text_member kv = quote (fst kv) @ '':'' @ quote (snd kv)"

definition stringify_strings :: "(string \<times> string) list \<Rightarrow> string" where
  "stringify_strings kvs = ''{'' @ js_join '','' (map text_member kvs) @ ''}''"

subsection \<open>The session\<close>

record session =
  sn_token :: string
  sn_expiresAt :: string

definition SESSION_KEY :: string where
  "SESSION_KEY = ''boxd.session.v1''"

definition isSession :: "json \<Rightarrow> session option" where
  "isSession v =
     (case (json_prop v ''token'', json_prop v ''expiresAt'') of
        (Some (JStr t), Some (JStr e)) \<Rightarrow> Some \<lparr>sn_token = t, sn_expiresAt = e\<rparr>
      | _ \<Rightarrow> None)"

definition removeSession :: "web_storage \<Rightarrow> web_storage" where
  "removeSession st = removeItem SESSION_KEY st"

text \<open>\<open>sessionStore.get\<close>; \<open>parse\<close> is \<open>Date.parse\<close>, \<open>now\<close> the value of \<open>Date.now()\<close>.\<close>

definition session_get :: "(string \<Rightarrow> jsnum) \<Rightarrow> jsnum \<Rightarrow> web_storage \<Rightarrow> session option \<times> web_storage" where
  "session_get parse now st =
     (case getItem st SESSION_KEY of
        Inl e \<Rightarrow> (None, removeSession st)
      | Inr raw \<Rightarrow>
          (case raw of
             None \<Rightarrow> (None, st)
           | Some text \<Rightarrow>
               if text = [] then (None, st)
               else (case json_parse text of
                   None \<Rightarrow> (None, removeSession st)
                 | Some v \<Rightarrow>
                     (case isSession v of
                        None \<Rightarrow> (None, removeSession st)
                      | Some s \<Rightarrow>
                          if num_le (parse (sn_expiresAt s)) now then (None, removeSession st) else (Some s, st)))))"

definition session_text :: "session \<Rightarrow> string" where
  "session_text s = stringify_strings [(''token'', sn_token s), (''expiresAt'', sn_expiresAt s)]"

definition session_set :: "session \<Rightarrow> web_storage \<Rightarrow> web_storage" where
  "session_set s st = setItem SESSION_KEY (session_text s) st"

definition session_isValid :: "(string \<Rightarrow> jsnum) \<Rightarrow> jsnum \<Rightarrow> web_storage \<Rightarrow> bool" where
  "session_isValid parse now st = (fst (session_get parse now st) \<noteq> None)"

subsection \<open>The preferences\<close>

datatype log_threshold = TAll | TDebug | TInfo | TWarn | TError

definition logThresholds :: "(string \<times> log_threshold) list" where
  "logThresholds = [(''all'', TAll), (''debug'', TDebug), (''info'', TInfo), (''warn'', TWarn), (''error'', TError)]"

definition isLogThreshold :: "json option \<Rightarrow> log_threshold option" where
  "isLogThreshold v = (case v of Some (JStr s) \<Rightarrow> map_of logThresholds s | _ \<Rightarrow> None)"

text \<open>\<open>levelRanks[level.toLowerCase()]\<close>; an inherited property is no number and compares false.\<close>

definition levelRanks :: "(string \<times> nat) list" where
  "levelRanks = [(''debug'', 0), (''info'', 1), (''warn'', 2), (''error'', 3)]"

fun threshold_rank :: "log_threshold \<Rightarrow> nat" where
  "threshold_rank TAll = 0"
| "threshold_rank TDebug = 0"
| "threshold_rank TInfo = 1"
| "threshold_rank TWarn = 2"
| "threshold_rank TError = 3"

definition meetsLogThreshold :: "string \<Rightarrow> log_threshold \<Rightarrow> bool" where
  "meetsLogThreshold level threshold =
     (threshold = TAll \<or>
      (case map_of levelRanks (toLowerCase level) of Some rank \<Rightarrow> threshold_rank threshold \<le> rank | None \<Rightarrow> False))"

datatype theme = Light | Dark | System
datatype language = Zh | En

record preferences =
  pr_theme :: theme
  pr_language :: language
  pr_minimumLogLevel :: log_threshold

definition PREFERENCES_KEY :: string where
  "PREFERENCES_KEY = ''boxd.preferences.v1''"

definition preference_defaults :: preferences where
  "preference_defaults = \<lparr>pr_theme = System, pr_language = Zh, pr_minimumLogLevel = TAll\<rparr>"

definition themes :: "(string \<times> theme) list" where
  "themes = [(''light'', Light), (''dark'', Dark), (''system'', System)]"

definition languages :: "(string \<times> language) list" where
  "languages = [(''zh'', Zh), (''en'', En)]"

definition read_name :: "(string \<times> 'a) list \<Rightarrow> json option \<Rightarrow> 'a option" where
  "read_name table v = (case v of Some (JStr s) \<Rightarrow> map_of table s | _ \<Rightarrow> None)"

definition normalizePreferences :: "json \<Rightarrow> preferences option" where
  "normalizePreferences v =
     (case (read_name themes (json_prop v ''theme''), read_name languages (json_prop v ''language'')) of
        (Some th, Some la) \<Rightarrow> Some \<lparr>pr_theme = th, pr_language = la,
            pr_minimumLogLevel = (case isLogThreshold (json_prop v ''minimumLogLevel'') of
                Some l \<Rightarrow> l | None \<Rightarrow> pr_minimumLogLevel preference_defaults)\<rparr>
      | _ \<Rightarrow> None)"

definition preferences_get :: "web_storage \<Rightarrow> preferences" where
  "preferences_get st =
     (case getItem st PREFERENCES_KEY of
        Inl e \<Rightarrow> preference_defaults
      | Inr None \<Rightarrow> preference_defaults
      | Inr (Some text) \<Rightarrow>
          if text = [] then preference_defaults
          else (case json_parse text of
              None \<Rightarrow> preference_defaults
            | Some v \<Rightarrow> (case normalizePreferences v of Some p \<Rightarrow> p | None \<Rightarrow> preference_defaults)))"

text \<open>The name of a constructor in its table.\<close>

definition name_of :: "(string \<times> 'a) list \<Rightarrow> 'a \<Rightarrow> string" where
  "name_of table x = (case filter (\<lambda>kv. snd kv = x) table of [] \<Rightarrow> [] | kv # _ \<Rightarrow> fst kv)"

definition preferences_set :: "preferences \<Rightarrow> web_storage \<Rightarrow> web_storage" where
  "preferences_set p st = setItem PREFERENCES_KEY
     (stringify_strings [(''theme'', name_of themes (pr_theme p)), (''language'', name_of languages (pr_language p)),
        (''minimumLogLevel'', name_of logThresholds (pr_minimumLogLevel p))]) st"

subsection \<open>Requests\<close>

type_synonym headers = "(string \<times> string) list"

text \<open>Names are compared without regard to case: they are kept in lower case.\<close>

definition headers_set :: "string \<Rightarrow> string \<Rightarrow> headers \<Rightarrow> headers" where
  "headers_set name v hs = AList.update (toLowerCase name) v hs"

definition headers_of :: "(string \<times> string) list \<Rightarrow> headers" where
  "headers_of init = foldl (\<lambda>hs (k, v). headers_set k v hs) [] init"

definition createHeaders :: "(string \<times> string) list \<Rightarrow> string option \<Rightarrow> session option \<Rightarrow> headers" where
  "createHeaders init body session =
     (let hs = headers_set ''Accept'' ''application/json'' (headers_of init);
          hs = (if body \<noteq> None \<and> map_of hs ''content-type'' = None
                then headers_set ''Content-Type'' ''application/json'' hs else hs)
      in (case session of
            Some s \<Rightarrow> if sn_token s \<noteq> [] then headers_set ''Authorization'' (''Bearer '' @ sn_token s) hs else hs
          | None \<Rightarrow> hs))"

record response =
  rp_status :: nat
  rp_statusText :: string
  rp_text :: string

record api_error =
  ae_message :: string
  ae_status :: nat
  ae_code :: json

datatype api_exn = ApiError api_error | NetworkError string

record envelope =
  en_status :: "json option"
  en_data :: "json option"
  en_error :: "json option"
  en_meta :: "json option"

definition isEnvelope :: "json option \<Rightarrow> bool" where
  "isEnvelope v = (case v of Some (JObj c) \<Rightarrow> obj_get c ''status'' \<noteq> None \<and> obj_get c ''data'' \<noteq> None | _ \<Rightarrow> False)"

definition envelope_of :: "jobj \<Rightarrow> envelope" where
  "envelope_of c = \<lparr>en_status = obj_get c ''status'', en_data = obj_get c ''data'',
     en_error = obj_get c ''error'', en_meta = obj_get c ''meta''\<rparr>"

definition errorBody :: "json option \<Rightarrow> json option" where
  "errorBody v =
     (case v of
        Some p \<Rightarrow> (case (json_prop p ''code'', json_prop p ''message'') of
            (Some (JStr c), Some (JStr m)) \<Rightarrow> Some (JObj [(''code'', JStr c), (''message'', JStr m)])
          | _ \<Rightarrow> None)
      | None \<Rightarrow> None)"

text \<open>The body of a response: \<open>undefined\<close> without one, an error when it is no JSON.\<close>

definition parseResponse :: "response \<Rightarrow> api_exn + json option" where
  "parseResponse r =
     (if rp_status r = 204 \<or> rp_text r = [] then Inr None
      else (case json_parse (rp_text r) of
          Some v \<Rightarrow> Inr (Some v)
        | None \<Rightarrow> Inl (ApiError \<lparr>ae_message = ''Invalid JSON response'', ae_status = rp_status r,
                     ae_code = JStr ''invalid_response''\<rparr>)))"

text \<open>\<open>body?.message ?? statusText\<close>, and \<open>body?.code\<close> with the default of the constructor.\<close>

definition responseError :: "response \<Rightarrow> json option \<Rightarrow> envelope option \<Rightarrow> api_error" where
  "responseError r payload envelope =
     (let body = (case nullish (case envelope of Some e \<Rightarrow> en_error e | None \<Rightarrow> None) None of
            Some b \<Rightarrow> Some b | None \<Rightarrow> errorBody payload);
          field = (\<lambda>k. case body of Some b \<Rightarrow> json_prop b k | None \<Rightarrow> None)
      in \<lparr>ae_message = (case nullish (field ''message'') None of Some m \<Rightarrow> js_String m | None \<Rightarrow> rp_statusText r),
          ae_status = rp_status r,
          ae_code = (case field ''code'' of Some c \<Rightarrow> c | None \<Rightarrow> JStr ''request_failed'')\<rparr>)"

definition resp_ok :: "response \<Rightarrow> bool" where
  "resp_ok r \<longleftrightarrow> 200 \<le> rp_status r \<and> rp_status r \<le> 299"

text \<open>The result of a request, and whether the unauthorized handler was called.\<close>

definition apiRequestEnvelope :: "string + response \<Rightarrow> (api_exn + envelope) \<times> bool" where
  "apiRequestEnvelope fetched =
     (case fetched of
        Inl m \<Rightarrow> (Inl (NetworkError m), False)
      | Inr r \<Rightarrow>
          (case parseResponse r of
             Inl e \<Rightarrow> (Inl e, False)
           | Inr payload \<Rightarrow>
               (let envelope = (case payload of Some (JObj c) \<Rightarrow> if isEnvelope payload then Some (envelope_of c) else None | _ \<Rightarrow> None)
                in if \<not> resp_ok r then (Inl (ApiError (responseError r payload envelope)), rp_status r = 401)
                   else (Inr (case envelope of Some e \<Rightarrow> e
                      | None \<Rightarrow> \<lparr>en_status = Some (JStr ''ok''), en_data = payload, en_error = Some JNull, en_meta = Some JNull\<rparr>), False))))"

definition apiRequest :: "string + response \<Rightarrow> (api_exn + json option) \<times> bool" where
  "apiRequest fetched = (case apiRequestEnvelope fetched of (Inl e, n) \<Rightarrow> (Inl e, n) | (Inr e, n) \<Rightarrow> (Inr (en_data e), n))"

subsection \<open>The session of the application\<close>

record auth =
  au_session :: "session option"
  au_storage :: web_storage

definition auth_mount :: "(string \<Rightarrow> jsnum) \<Rightarrow> jsnum \<Rightarrow> web_storage \<Rightarrow> auth" where
  "auth_mount parse now st = (case session_get parse now st of (s, st') \<Rightarrow> \<lparr>au_session = s, au_storage = st'\<rparr>)"

definition auth_clear :: "auth \<Rightarrow> auth" where
  "auth_clear a = \<lparr>au_session = None, au_storage = removeSession (au_storage a)\<rparr>"

text \<open>
  Any request of the application: it reads the session for its header, which drops an expired
  one from the storage, and a 401 clears the session.
\<close>

definition auth_request :: "(string \<Rightarrow> jsnum) \<Rightarrow> jsnum \<Rightarrow> string + response \<Rightarrow> auth \<Rightarrow> auth \<times> (api_exn + json option) \<times> headers" where
  "auth_request parse now fetched a =
     (let (s, st) = session_get parse now (au_storage a);
          a' = a\<lparr>au_storage := st\<rparr>; (result, unauthorized) = apiRequest fetched
      in (if unauthorized then auth_clear a' else a', result, createHeaders [] None s))"

text \<open>The answer to a login is an \<open>AuthResponse\<close>, the token and its expiry as strings; an answer of
  another shape breaks the type of the API, and the model leaves the state as it is then.\<close>

definition auth_login :: "(string \<Rightarrow> jsnum) \<Rightarrow> jsnum \<Rightarrow> string + response \<Rightarrow> auth \<Rightarrow> auth" where
  "auth_login parse now fetched a =
     (case auth_request parse now fetched a of
        (a', Inl e, _) \<Rightarrow> a'
      | (a', Inr v, _) \<Rightarrow>
          (case v of
             Some d \<Rightarrow> (case (json_prop d ''token'', json_prop d ''expires_at'') of
                 (Some (JStr t), Some (JStr e)) \<Rightarrow>
                   (let s = \<lparr>sn_token = t, sn_expiresAt = e\<rparr>
                    in \<lparr>au_session = Some s, au_storage = session_set s (au_storage a')\<rparr>)
               | _ \<Rightarrow> a')
           | None \<Rightarrow> a'))"

definition auth_logout :: "(string \<Rightarrow> jsnum) \<Rightarrow> jsnum \<Rightarrow> string + response \<Rightarrow> auth \<Rightarrow> auth" where
  "auth_logout parse now fetched a = auth_clear (fst (auth_request parse now fetched a))"

inductive auth_reach :: "(string \<Rightarrow> jsnum) \<Rightarrow> web_storage \<Rightarrow> auth \<Rightarrow> bool" for parse st where
  reach_mount: "auth_reach parse st (auth_mount parse now st)"
| reach_request: "auth_reach parse st a \<Longrightarrow> auth_reach parse st (fst (auth_request parse now fetched a))"
| reach_login: "auth_reach parse st a \<Longrightarrow> auth_reach parse st (auth_login parse now fetched a)"
| reach_logout: "auth_reach parse st a \<Longrightarrow> auth_reach parse st (auth_logout parse now fetched a)"
| reach_clear: "auth_reach parse st a \<Longrightarrow> auth_reach parse st (auth_clear a)"

subsection \<open>Test results of nodes\<close>

record test_result =
  tr_tag :: string
  tr_test_type :: string
  tr_success :: bool
  tr_latency :: "jsnum option"
  tr_error :: "string option"

type_synonym by_type = "(string \<times> test_result) list"

text \<open>
  One result: a tag that names an inherited property finds an object there, which then gets
  the result, so \<open>grouped\<close> itself has nothing under it; an assignment to \<open>__proto__\<close> adds no
  property either.
\<close>

definition group_result :: "test_result \<Rightarrow> (string \<times> by_type) list \<Rightarrow> (string \<times> by_type) list" where
  "group_result r grouped =
     (if tr_tag r = [] \<or> tr_test_type r = [] \<or> tr_tag r \<in> set objectPrototypeKeys then grouped
      else (let grouped = (if map_of grouped (tr_tag r) = None then AList.update (tr_tag r) [] grouped else grouped)
            in if tr_test_type r = ''__proto__'' then grouped
               else AList.update (tr_tag r) (AList.update (tr_test_type r) r (the (map_of grouped (tr_tag r)))) grouped))"

definition groupNodeTestResults :: "(string \<times> by_type) list \<Rightarrow> (string \<times> by_type) list" where
  "groupNodeTestResults results = foldl (\<lambda>grouped r. group_result r grouped) [] (concat (map (map snd \<circ> snd) results))"

subsection \<open>Stored texts read back\<close>

lemma member_step:
  "parse_members (Suc (Suc m)) (text_member (k, v) @ c # r) =
     (if c = CHR '','' then cons_fst (k, JStr v) (parse_members (Suc m) r)
      else if c = CHR ''}'' then Some ([(k, JStr v)], r) else
        (case skip_ws (c # r) of [] \<Rightarrow> None
          | c2 # r4 \<Rightarrow> if c2 = CHR '','' then cons_fst (k, JStr v) (parse_members (Suc m) r4)
              else if c2 = CHR ''}'' then Some ([(k, JStr v)], r4) else None))"
  by (simp add: text_member_def quote_def skip_ws_char parse_quoted)

lemma members_strings:
  "kvs \<noteq> [] \<Longrightarrow> Suc (length kvs) \<le> n \<Longrightarrow>
     parse_members n (js_join '','' (map text_member kvs) @ ''}'') = Some (map (\<lambda>(k, v). (k, JStr v)) kvs, [])"
proof (induction kvs arbitrary: n)
  case Nil
  then show ?case by simp
next
  case (Cons kv kvs)
  obtain k v where kv: "kv = (k, v)" by force
  obtain m where n: "n = Suc (Suc m)" using Cons.prems(2) by (cases n; cases "n - 1") auto
  show ?case
  proof (cases kvs)
    case Nil
    then show ?thesis using member_step [of m k v "CHR ''}''" "[]"] by (simp add: n kv del: parse_members.simps)
  next
    case (Cons kv' kvs')
    then have "parse_members (Suc m) (js_join '','' (map text_member kvs) @ ''}'') = Some (map (\<lambda>(k, v). (k, JStr v)) kvs, [])"
      using Cons.IH [of "Suc m"] Cons.prems n by simp
    then show ?thesis using member_step [of m k v "CHR '',''" "js_join '','' (map text_member kvs) @ ''}''"] Cons
      by (simp add: n kv cons_fst_def del: parse_members.simps)
  qed
qed

lemma length_js_join: "length xs \<le> Suc (length (js_join '','' (map text_member xs)))"
proof (induction xs)
  case (Cons x xs)
  then show ?case by (cases xs) (auto simp: text_member_def quote_def)
qed simp

lemma parse_strings:
  assumes "kvs \<noteq> []" and "distinct (map fst kvs)"
  shows "json_parse (stringify_strings kvs) = Some (JObj (map (\<lambda>(k, v). (k, JStr v)) kvs))"
proof -
  let ?b = "js_join '','' (map text_member kvs) @ ''}''"
  obtain kv kvs' where kvs: "kvs = kv # kvs'" using assms(1) by (cases kvs) auto
  have b: "skip_ws ?b = CHR 0x22 # tl ?b"
    using kvs by (cases kvs') (auto simp: text_member_def quote_def skip_ws_char)
  have "obj_of (map (\<lambda>(k, v). (k, JStr v)) kvs) = map (\<lambda>(k, v). (k, JStr v)) kvs"
    using assms(2) by (intro obj_of_distinct) (simp add: comp_def case_prod_beta)
  moreover have "parse_members (2 * length (stringify_strings kvs)) ?b = Some (map (\<lambda>(k, v). (k, JStr v)) kvs, [])"
    using length_js_join [of kvs] by (intro members_strings assms(1)) (simp add: stringify_strings_def)
  ultimately have "parse_value (Suc (2 * length (stringify_strings kvs))) (stringify_strings kvs)
      = Some (JObj (map (\<lambda>(k, v). (k, JStr v)) kvs), [])"
    using b by (simp add: stringify_strings_def skip_ws_char del: parse_members.simps)
  then show ?thesis by (simp add: json_parse_def skip_ws_def)
qed

subsection \<open>Lemmas on the session\<close>

text \<open>The session a storage area holds, expired or not.\<close>

definition stored_session :: "web_storage \<Rightarrow> session option" where
  "stored_session st = (case ws_items st SESSION_KEY of None \<Rightarrow> None
     | Some text \<Rightarrow> (case json_parse text of None \<Rightarrow> None | Some v \<Rightarrow> isSession v))"

lemma json_parse_empty: "json_parse [] = None"
  by (simp add: json_parse_def skip_ws_def)

lemma stored_removed: "storage_works st \<Longrightarrow> stored_session (removeSession st) = None"
  by (simp add: stored_session_def removeSession_def removeItem_def storage_works_def)

lemma works_updates [simp]:
  "storage_works (removeItem k st) = storage_works st" "storage_works (setItem k v st) = storage_works st"
  by (simp_all add: storage_works_def removeItem_def setItem_def)

lemma session_get_eq:
  assumes "storage_works st"
  shows "session_get parse now st =
    (case stored_session st of
       None \<Rightarrow> (None, if ws_items st SESSION_KEY = None \<or> ws_items st SESSION_KEY = Some [] then st else removeSession st)
     | Some s \<Rightarrow> if num_le (parse (sn_expiresAt s)) now then (None, removeSession st) else (Some s, st))"
  using assms by (auto simp: session_get_def getItem_def storage_works_def stored_session_def json_parse_empty split: option.splits)

lemma session_get_stored:
  assumes "storage_works st"
  shows "storage_works (snd (session_get parse now st))
    \<and> stored_session (snd (session_get parse now st)) = fst (session_get parse now st)
    \<and> (fst (session_get parse now st) = None \<or> fst (session_get parse now st) = stored_session st)"
  using assms stored_removed [OF assms]
  by (auto simp: session_get_eq removeSession_def split: option.splits)

lemma isSession_text: "json_parse (session_text s) = Some v \<Longrightarrow> isSession v = Some s"
proof -
  have "json_parse (session_text s) = Some (JObj [(''token'', JStr (sn_token s)), (''expiresAt'', JStr (sn_expiresAt s))])"
    by (simp add: session_text_def parse_strings)
  then show "json_parse (session_text s) = Some v \<Longrightarrow> isSession v = Some s"
    by (auto simp: isSession_def obj_get_def)
qed

lemma stored_set: "storage_works st \<Longrightarrow> stored_session (session_set s st) = Some s"
proof -
  have "json_parse (session_text s) \<noteq> None" by (simp add: session_text_def parse_strings)
  then show "storage_works st \<Longrightarrow> stored_session (session_set s st) = Some s"
    using isSession_text by (auto simp: stored_session_def session_set_def setItem_def storage_works_def)
qed

lemma works_set [simp]: "storage_works (session_set s st) = storage_works st"
  by (simp add: session_set_def)

subsection \<open>The session of the application stays that of the storage\<close>

definition auth_inv :: "auth \<Rightarrow> bool" where
  "auth_inv a \<longleftrightarrow> storage_works (au_storage a) \<and> (stored_session (au_storage a) = None \<or> stored_session (au_storage a) = au_session a)"

lemma auth_inv_clear: "auth_inv a \<Longrightarrow> auth_inv (auth_clear a) \<and> au_session (auth_clear a) = None"
  by (simp add: auth_inv_def auth_clear_def stored_removed) (simp add: removeSession_def)

lemma auth_inv_request:
  assumes "auth_inv a"
  shows "auth_inv (fst (auth_request parse now fetched a))"
proof -
  let ?st = "snd (session_get parse now (au_storage a))"
  have "auth_inv (a\<lparr>au_storage := ?st\<rparr>)"
    using assms session_get_stored [of "au_storage a" parse now] by (auto simp: auth_inv_def)
  then show ?thesis using auth_inv_clear by (auto simp: auth_request_def Let_def split: prod.splits)
qed

lemma auth_inv_login: "auth_inv a \<Longrightarrow> auth_inv (auth_login parse now fetched a)"
proof -
  assume "auth_inv a"
  then have "auth_inv (fst (auth_request parse now fetched a))" by (rule auth_inv_request)
  then show ?thesis
    by (auto simp: auth_login_def Let_def auth_inv_def stored_set split: prod.splits sum.splits option.splits json.splits)
qed

lemma auth_reach_inv:
  assumes "auth_reach parse st a" and "storage_works st"
  shows "auth_inv a"
  using assms(1)
proof induction
  case (reach_mount now)
  show ?case using session_get_stored [OF assms(2), of parse now]
    by (simp add: auth_mount_def auth_inv_def case_prod_beta)
next
  case (reach_logout a now fetched)
  then show ?case by (simp add: auth_logout_def auth_inv_request auth_inv_clear)
qed (simp_all add: auth_inv_request auth_inv_login auth_inv_clear)

subsection \<open>Lemmas on the test results\<close>

definition result_of :: "(string \<times> by_type) list \<Rightarrow> string \<Rightarrow> string \<Rightarrow> test_result option" where
  "result_of grouped tag type = (case map_of grouped tag of None \<Rightarrow> None | Some bt \<Rightarrow> map_of bt type)"

definition all_results :: "(string \<times> by_type) list \<Rightarrow> test_result list" where
  "all_results results = concat (map (map snd \<circ> snd) results)"

definition groupable :: "string \<Rightarrow> string \<Rightarrow> bool" where
  "groupable tag type \<longleftrightarrow> tag \<noteq> [] \<and> type \<noteq> [] \<and> tag \<notin> set objectPrototypeKeys \<and> type \<noteq> ''__proto__''"

lemma group_result_of:
  "result_of (group_result r grouped) tag type =
     (if tr_tag r = tag \<and> tr_test_type r = type \<and> groupable tag type then Some r else result_of grouped tag type)"
  by (auto simp: result_of_def group_result_def groupable_def Let_def update_conv' split: option.splits)

lemma group_results_of:
  "result_of (foldl (\<lambda>grouped r. group_result r grouped) [] rs) tag type =
     (if groupable tag type then find (\<lambda>r. tr_tag r = tag \<and> tr_test_type r = type) (rev rs) else None)"
proof (induction rs rule: rev_induct)
  case Nil
  then show ?case by (simp add: result_of_def)
next
  case (snoc r rs)
  then show ?case by (auto simp: group_result_of)
qed

subsection \<open>Properties\<close>

text \<open>
  C32: A session that was stored is what reading gives until it expires; from then on reading gives
  nothing and removes it. An expiry that \<open>Date.parse\<close> does not understand never comes: such a
  session stays valid for ever. Whatever the storage holds, after a reading that gives nothing
  no session is stored any more.
\<close>

theorem session_roundtrip:
  assumes "storage_works st"
  shows "session_get parse now (session_set s st) =
      (if num_le (parse (sn_expiresAt s)) now then (None, removeSession (session_set s st)) else (Some s, session_set s st))
    \<and> (parse (sn_expiresAt s) = NaN \<longrightarrow> session_isValid parse now (session_set s st))
    \<and> (\<not> session_isValid parse now st \<longrightarrow> stored_session (snd (session_get parse now st)) = None)"
proof -
  have "ws_items (session_set s st) SESSION_KEY = Some (session_text s)" "session_text s \<noteq> []"
    using assms by (simp_all add: session_set_def setItem_def storage_works_def session_text_def stringify_strings_def)
  then have get: "session_get parse now (session_set s st) =
      (if num_le (parse (sn_expiresAt s)) now then (None, removeSession (session_set s st)) else (Some s, session_set s st))"
    using assms by (simp add: session_get_eq stored_set)
  then show ?thesis using session_get_stored [OF assms, of parse now] by (auto simp: session_isValid_def)
qed

theorem session_roundtrip_witness:
  "fst (session_get (\<lambda>e. NaN) (Fin 5) (session_set \<lparr>sn_token = ''t'', sn_expiresAt = ''soon''\<rparr>
     \<lparr>ws_items = (\<lambda>k. None), ws_getThrows = False, ws_setThrows = False, ws_removeThrows = False\<rparr>))
   = Some \<lparr>sn_token = ''t'', sn_expiresAt = ''soon''\<rparr>"
  using session_roundtrip [of "\<lparr>ws_items = (\<lambda>k. None), ws_getThrows = False, ws_setThrows = False, ws_removeThrows = False\<rparr>"
      "\<lambda>e. NaN" "Fin 5" "\<lparr>sn_token = ''t'', sn_expiresAt = ''soon''\<rparr>"]
  by (simp add: storage_works_def)





text \<open>
  Regrouping the test results keeps, under each tag and test type, the last result that has them,
  whatever the server's grouping was, and nothing else; but results without a tag or type, those of
  a node named like an inherited property (such as \<open>constructor\<close>), and those of the type
  \<open>__proto__\<close> are lost.
\<close>

lemma groupNodeTestResults_exact:
  "result_of (groupNodeTestResults results) tag type =
     (if groupable tag type
      then find (\<lambda>r. tr_tag r = tag \<and> tr_test_type r = type) (rev (all_results results)) else None)"
  unfolding groupNodeTestResults_def all_results_def by (rule group_results_of)

lemma preferences_read_back:
  assumes "storage_works st"
  shows "preferences_get (preferences_set p st) = p"
proof -
  obtain th la ml where p: "p = \<lparr>pr_theme = th, pr_language = la, pr_minimumLogLevel = ml\<rparr>" by (cases p) auto
  let ?kvs = "[(''theme'', name_of themes th), (''language'', name_of languages la), (''minimumLogLevel'', name_of logThresholds ml)]"
  have "json_parse (stringify_strings ?kvs) = Some (JObj (map (\<lambda>(k, v). (k, JStr v)) ?kvs))" by (rule parse_strings) simp_all
  moreover have "map_of themes (name_of themes th) = Some th" by (cases th) (simp_all add: themes_def name_of_def)
  moreover have "map_of languages (name_of languages la) = Some la" by (cases la) (simp_all add: languages_def name_of_def)
  moreover have "map_of logThresholds (name_of logThresholds ml) = Some ml" by (cases ml) (simp_all add: logThresholds_def name_of_def)
  ultimately show ?thesis
    using assms by (simp add: preferences_get_def preferences_set_def getItem_def setItem_def storage_works_def p
        normalizePreferences_def read_name_def isLogThreshold_def obj_get_def stringify_strings_def)
qed

text \<open>
  Preferences that were stored are read back as they are; without storage, or from any text that is
  not such preferences, reading gives the defaults and never fails.
\<close>

lemma preferences_roundtrip:
  assumes "storage_works st"
  shows "preferences_get (preferences_set p st) = p
    \<and> (\<forall>text. normalizePreferences (the (json_parse text)) = None \<or> json_parse text = None \<longrightarrow>
         preferences_get (st\<lparr>ws_items := (ws_items st)(PREFERENCES_KEY \<mapsto> text)\<rparr>) = preference_defaults)
    \<and> preferences_get (st\<lparr>ws_getThrows := True\<rparr>) = preference_defaults"
  using assms preferences_read_back [OF assms]
  by (auto simp: preferences_get_def getItem_def storage_works_def split: option.splits)

lemma preferences_roundtrip_witness:
  "preferences_get (preferences_set \<lparr>pr_theme = Dark, pr_language = En, pr_minimumLogLevel = TWarn\<rparr>
     \<lparr>ws_items = (\<lambda>k. None), ws_getThrows = False, ws_setThrows = False, ws_removeThrows = False\<rparr>)
   = \<lparr>pr_theme = Dark, pr_language = En, pr_minimumLogLevel = TWarn\<rparr>"
  using preferences_roundtrip [of "\<lparr>ws_items = (\<lambda>k. None), ws_getThrows = False, ws_setThrows = False, ws_removeThrows = False\<rparr>"
      "\<lparr>pr_theme = Dark, pr_language = En, pr_minimumLogLevel = TWarn\<rparr>"]
  by (simp add: storage_works_def)

end
