(* ===== verification/Well_Formed.thy ===== *)
theory Well_Formed
  imports Outbound_Form Inbound_Form Dns_Form Route_Form
begin

text \<open>
  Type safety of the form models: every change of a type or an action, and every pruning, turns a
  well formed object into a well formed object, with no key twice at any level; and a change throws only
  when a name it looks up is one that objects inherit.
\<close>

text \<open>The outcome of a change that looks up \<open>names\<close>.\<close>

definition typed_result :: "string list \<Rightarrow> jobj res \<Rightarrow> bool" where
  "typed_result names r \<longleftrightarrow>
     (case r of Inr ob \<Rightarrow> wf_obj ob | Inl e \<Rightarrow> e = JsTypeError \<and> (\<exists>n\<in>set names. n \<in> set objectPrototypeKeys))"

lemma typed_result_simps [simp]: "typed_result names (Inr ob) = wf_obj ob"
  by (simp add: typed_result_def)

definition throws_typed :: "string list \<Rightarrow> 'a res \<Rightarrow> bool" where
  "throws_typed names m \<longleftrightarrow> (\<forall>e. m = Inl e \<longrightarrow> e = JsTypeError \<and> (\<exists>n\<in>set names. n \<in> set objectPrototypeKeys))"

lemma throws_registry: "k \<in> set names \<Longrightarrow> throws_typed names (registry_get r k)"
  by (auto simp: throws_typed_def registry_get_def split: option.splits)

lemma throws_Inr [simp]: "throws_typed names (Inr a)"
  by (simp add: throws_typed_def)

lemma throws_bind: "throws_typed names m \<Longrightarrow> (\<And>a. m = Inr a \<Longrightarrow> throws_typed names (f a)) \<Longrightarrow> throws_typed names (bind_res m f)"
  by (cases m) (auto simp: throws_typed_def)

lemma typed_bind: "throws_typed names m \<Longrightarrow> (\<And>a. m = Inr a \<Longrightarrow> typed_result names (f a)) \<Longrightarrow> typed_result names (bind_res m f)"
  by (cases m) (auto simp: throws_typed_def typed_result_def)

lemma wf_fold: "(\<And>ob x. wf_obj ob \<Longrightarrow> wf_obj (f ob x)) \<Longrightarrow> wf_obj ob \<Longrightarrow> wf_obj (foldl f ob xs)"
  by (induction xs arbitrary: ob) simp_all

lemma wf_set_str: "wf_obj ob \<Longrightarrow> wf_obj (obj_set k (JStr s) ob)"
  by (rule wf_obj_set) simp_all

lemma wf_setPath_None: "wf_obj ob \<Longrightarrow> wf_obj (setPath ob p None)"
  by (rule wf_setPath) simp_all

lemma wf_setPath_str: "wf_obj ob \<Longrightarrow> wf_obj (setPath ob p (Some (JStr s)))"
  by (rule wf_setPath) auto

lemma wf_setPolicyPath_None: "wf_obj ob \<Longrightarrow> wf_obj (setPolicyPath ob p None)"
  by (rule wf_setPolicyPath) simp_all

lemma wf_setPolicyPath_str: "wf_obj ob \<Longrightarrow> wf_obj (setPolicyPath ob p (Some (JStr s)))"
  by (rule wf_setPolicyPath) auto

lemmas wf_steps = wf_set_str wf_setPath_None wf_setPath_str wf_setPolicyPath_None wf_setPolicyPath_str

subsection \<open>The outbound and inbound models\<close>

lemma wf_removeFields: "wf_obj ob \<Longrightarrow> wf_obj (removeFields ob fs)"
  unfolding removeFields_def by (rule wf_fold) (simp_all add: wf_steps)

lemma wf_removePaths: "wf_obj ob \<Longrightarrow> wf_obj (removePaths ob ps)"
  unfolding removePaths_def by (rule wf_fold) (simp_all add: wf_steps)

lemma wf_removeIncompatibleFields: "wf_obj ob \<Longrightarrow> wf_obj (removeIncompatibleFields ob known target)"
  unfolding removeIncompatibleFields_def Let_def by (rule wf_fold) (simp_all add: wf_steps split: option.split)

lemma wf_inbound_removeFields: "wf_obj ob \<Longrightarrow> wf_obj (inbound_removeFields ob fs)"
  unfolding inbound_removeFields_def by (rule wf_fold) (simp_all add: wf_steps)

lemmas wf_removals = wf_removeFields wf_removePaths wf_removeIncompatibleFields wf_inbound_removeFields

lemma typed_outboundType: "wf_obj ob \<Longrightarrow> typed_result [type] (changeOutboundType ob type)"
  unfolding changeOutboundType_def outbound_protocolFields_def groupFields_def Let_def
  by (auto intro!: typed_bind throws_registry wf_steps wf_removals)

lemma typed_outboundTransport: "wf_obj ob \<Longrightarrow> typed_result [type] (changeOutboundTransportType ob type)"
  unfolding changeOutboundTransportType_def by (auto intro!: typed_bind throws_registry wf_steps wf_removals)

lemma typed_inboundType: "wf_obj ob \<Longrightarrow> typed_result [string_or (obj_get ob ''type'') [], type] (changeInboundType ob type)"
  unfolding changeInboundType_def inbound_protocolFields_def Let_def
  by (auto intro!: typed_bind throws_registry wf_steps wf_removals split: if_splits)

lemma typed_inboundTransport:
  "wf_obj ob \<Longrightarrow> typed_result [string_or (getPath ob ''transport.type'') [], type] (changeTransportType ob type)"
  unfolding changeTransportType_def Let_def
  by (auto intro!: typed_bind throws_registry wf_steps wf_removals split: if_splits)

subsection \<open>The route and DNS models\<close>

lemma wf_transitionFields: "wf_obj ob \<Longrightarrow> wf_obj (transitionFields ob known tr)"
  unfolding transitionFields_def by (rule wf_fold) (simp_all add: wf_steps split: option.split)

lemma throws_transition: "throws_typed [target] (fieldTransition r source target)"
  unfolding fieldTransition_def by (auto intro!: throws_bind throws_registry)

lemma typed_routeRuleType: "wf_obj ob \<Longrightarrow> typed_result [type] (changeRouteRuleType ob type)"
  unfolding changeRouteRuleType_def Let_def by (auto intro!: typed_bind throws_transition wf_steps wf_transitionFields)

lemma typed_routeAction: "wf_obj ob \<Longrightarrow> typed_result [action] (changeRouteAction ob action)"
  unfolding changeRouteAction_def Let_def by (auto intro!: typed_bind throws_transition wf_steps wf_transitionFields)

lemma typed_ruleSetType: "wf_obj ob \<Longrightarrow> typed_result [type] (changeRuleSetType ob type)"
  unfolding changeRuleSetType_def Let_def
  by (auto intro!: typed_bind throws_transition wf_steps wf_transitionFields)

lemma throws_compatible: "ct_target change \<in> set names \<Longrightarrow> throws_typed names (cleanup_compatibleFields registry change)"
  unfolding cleanup_compatibleFields_def by (auto intro!: throws_bind throws_registry split: option.split)

lemma prepare_wf:
  "throws_typed [ct_target change] (prepareDomainResolverRoot ob registry change)
    \<and> (wf_obj ob \<and> prepareDomainResolverRoot ob registry change = Inr prepared \<longrightarrow> wf_obj prepared)"
proof -
  have "throws_typed [ct_target change] (supportsDomainResolver registry (ct_target change))"
    unfolding supportsDomainResolver_def by (auto intro!: throws_bind throws_registry)
  then show ?thesis
    unfolding prepareDomainResolverRoot_def
    by (auto intro!: throws_bind wf_steps simp: bind_res_eq_Inr split: option.splits json.splits if_splits)
qed

lemma typed_cleanup:
  assumes "wf_obj ob" and "\<And>ob'. wf_obj ob' \<Longrightarrow> wf_obj (f ob')"
  shows "typed_result [ct_target change] (bind_res (transitionCleanupFields ob registry change) (\<lambda>next. Inr (f next)))"
proof -
  have "throws_typed [ct_target change] (transitionCleanupFields ob registry change)"
    unfolding transitionCleanupFields_def using prepare_wf by (auto intro!: throws_bind throws_compatible)
  moreover have "wf_obj ob'" if "transitionCleanupFields ob registry change = Inr ob'" for ob'
  proof -
    obtain fs prepared where p: "prepareDomainResolverRoot ob registry change = Inr prepared"
      and ob': "ob' = foldl (\<lambda>next field.
              case getPolicyPath next (cf_path field) of
                None \<Rightarrow> next
              | Some value \<Rightarrow> (case last_by cf_path fs (cf_path field) of
                    Some target \<Rightarrow> if cleanup_matchesField value target then next
                      else setPolicyPath next (cf_path field) None
                  | None \<Rightarrow> setPolicyPath next (cf_path field) None))
            prepared (cleanup_uniqueFields registry)"
      using \<open>transitionCleanupFields ob registry change = Inr ob'\<close>
      by (auto simp: transitionCleanupFields_def bind_res_eq_Inr)
    have "wf_obj prepared" using prepare_wf p assms(1) by blast
    then show ?thesis unfolding ob' by (rule wf_fold [rotated]) (auto intro!: wf_steps split: option.splits)
  qed
  ultimately show ?thesis using assms(2) by (intro typed_bind) auto
qed

lemma typed_change:
  "wf_obj ob \<Longrightarrow> (\<And>ob'. wf_obj ob' \<Longrightarrow> wf_obj (f ob')) \<Longrightarrow>
    typed_result [t] (bind_res (transitionCleanupFields ob registry \<lparr>ct_current = c, ct_target = t, ct_share = sh\<rparr>) (\<lambda>next. Inr (f next)))"
  using typed_cleanup [of ob f "\<lparr>ct_current = c, ct_target = t, ct_share = sh\<rparr>" registry] by simp

lemma typed_dnsServerType: "wf_obj ob \<Longrightarrow> typed_result [type] (changeDNSServerType ob type)"
  unfolding changeDNSServerType_def Let_def by (auto intro!: typed_change wf_steps)

lemma typed_dnsRuleType: "wf_obj ob \<Longrightarrow> typed_result [type] (changeDNSRuleType ob type)"
  unfolding changeDNSRuleType_def Let_def by (auto intro!: typed_change wf_steps)

lemma typed_dnsAction: "wf_obj ob \<Longrightarrow> typed_result [action] (changeDNSAction ob action)"
  unfolding changeDNSAction_def Let_def by (auto intro!: typed_change wf_steps)

subsection \<open>Pruning\<close>

lemma wf_prunePolicy: "wf_obj ob \<Longrightarrow> wf_obj (pruneInvisiblePolicyFields ob specs)"
  using policy.prune_loop_induct [of "\<lambda>ob. pruneInvisiblePolicyFields ob specs", OF policy_prune_eq, of wf_obj]
  by (simp add: wf_steps)

lemma wf_pruneProxy: "wf_obj ob \<Longrightarrow> wf_obj (pruneInvisibleFields ob specs)"
  using proxy.prune_loop_induct [of "\<lambda>ob. pruneInvisibleFields ob specs", OF proxy_prune_eq, of wf_obj]
  by (simp add: wf_steps)

subsection \<open>Properties\<close>

text \<open>
  C5: Every change of a type, transport or action of the form models, and pruning, makes of a well formed
  object a well formed object. A change fails only with a \<open>TypeError\<close>, and only when the name it
  changes to, or for an inbound the one it changes from, is a property that objects inherit, such
  as \<open>constructor\<close>; with any other name, known or not, it succeeds.
\<close>

theorem form_changes_typed:
  assumes "wf_obj ob"
  shows "typed_result [type] (changeOutboundType ob type)
    \<and> typed_result [type] (changeOutboundTransportType ob type)
    \<and> typed_result [string_or (obj_get ob ''type'') [], type] (changeInboundType ob type)
    \<and> typed_result [string_or (getPath ob ''transport.type'') [], type] (changeTransportType ob type)
    \<and> typed_result [type] (changeDNSServerType ob type)
    \<and> typed_result [type] (changeDNSRuleType ob type)
    \<and> typed_result [type] (changeDNSAction ob type)
    \<and> typed_result [type] (changeRouteRuleType ob type)
    \<and> typed_result [type] (changeRouteAction ob type)
    \<and> typed_result [type] (changeRuleSetType ob type)
    \<and> wf_obj (pruneInvisiblePolicyFields ob specs) \<and> wf_obj (pruneInvisibleFields ob fs)"
  using assms
  by (intro conjI typed_outboundType typed_outboundTransport typed_inboundType typed_inboundTransport typed_dnsServerType
      typed_dnsRuleType typed_dnsAction typed_routeRuleType typed_routeAction typed_ruleSetType wf_prunePolicy wf_pruneProxy)

theorem form_changes_typed_witness: "\<exists>r. changeOutboundType [(''type'', JStr ''socks'')] ''vless'' = Inr r \<and> wf_obj r"
proof -
  have "wf_obj [(''type'', JStr ''socks'')]" by (simp add: wf_obj_def)
  from form_changes_typed [OF this, THEN conjunct1, of "''vless''"]
  show ?thesis by (auto simp: typed_result_def objectPrototypeKeys_def split: sum.splits)
qed

end
