(* ===== verification/Js_Arith.thy ===== *)
theory Js_Arith
  imports Js_Number
begin

text \<open>
  Arithmetic on numbers: the four operations rounded to doubles, \<open>Math.max\<close>, \<open>Math.floor\<close> and
  \<open>toFixed\<close>, with the special values.
\<close>

definition num_neg :: "jsnum \<Rightarrow> bool" where
  "num_neg x = (case x of Fin r \<Rightarrow> r < 0 | NegZero \<Rightarrow> True | NegInf \<Rightarrow> True | _ \<Rightarrow> False)"

definition num_abs :: "jsnum \<Rightarrow> jsnum" where
  "num_abs x = (case x of Fin r \<Rightarrow> Fin \<bar>r\<bar> | NegZero \<Rightarrow> Fin 0 | NegInf \<Rightarrow> PosInf | _ \<Rightarrow> x)"

definition num_add :: "jsnum \<Rightarrow> jsnum \<Rightarrow> jsnum" where
  "num_add x y =
     (if x = NaN \<or> y = NaN \<or> {x, y} = {PosInf, NegInf} then NaN
      else if x \<in> {PosInf, NegInf} then x else if y \<in> {PosInf, NegInf} then y
      else if x = NegZero \<and> y = NegZero then NegZero
      else round_double (the (num_val x) + the (num_val y)))"

definition num_sub :: "jsnum \<Rightarrow> jsnum \<Rightarrow> jsnum" where
  "num_sub x y = num_add x (negate_num y)"

definition num_signed :: "bool \<Rightarrow> jsnum \<Rightarrow> jsnum" where
  "num_signed neg m = (if neg then negate_num m else m)"

definition num_mult :: "jsnum \<Rightarrow> jsnum \<Rightarrow> jsnum" where
  "num_mult x y =
     (if x = NaN \<or> y = NaN then NaN
      else num_signed (num_neg x \<noteq> num_neg y)
        (case (num_abs x, num_abs y) of
           (Fin a, Fin b) \<Rightarrow> round_double (a * b)
         | (Fin a, _) \<Rightarrow> if a = 0 then NaN else PosInf
         | (_, Fin b) \<Rightarrow> if b = 0 then NaN else PosInf
         | _ \<Rightarrow> PosInf))"

definition num_div :: "jsnum \<Rightarrow> jsnum \<Rightarrow> jsnum" where
  "num_div x y =
     (if x = NaN \<or> y = NaN then NaN
      else num_signed (num_neg x \<noteq> num_neg y)
        (case (num_abs x, num_abs y) of
           (Fin a, Fin b) \<Rightarrow> if b = 0 then (if a = 0 then NaN else PosInf) else round_double (a / b)
         | (Fin a, _) \<Rightarrow> Fin 0
         | (_, Fin b) \<Rightarrow> PosInf
         | _ \<Rightarrow> NaN))"

definition num_max :: "jsnum \<Rightarrow> jsnum \<Rightarrow> jsnum" where
  "num_max x y =
     (if x = NaN \<or> y = NaN then NaN else if num_lt x y then y else if num_lt y x then x
      else if x = NegZero then y else x)"

definition num_floor :: "jsnum \<Rightarrow> jsnum" where
  "num_floor x = (case x of Fin r \<Rightarrow> Fin (of_int \<lfloor>r\<rfloor>) | _ \<Rightarrow> x)"

text \<open>\<open>x.toFixed(f)\<close>: the decimal with \<open>f\<close> places closest to the number, the larger one of two.\<close>

definition toFixed_digits :: "nat \<Rightarrow> rat \<Rightarrow> string" where
  "toFixed_digits f r =
     (let ds = digits_of \<lfloor>r * 10 ^ f + 1 / 2\<rfloor>; ds = replicate (Suc f - length ds) CHR ''0'' @ ds; k = length ds - f
      in if f = 0 then ds else take k ds @ ''.'' @ drop k ds)"

definition js_toFixed :: "nat \<Rightarrow> jsnum \<Rightarrow> string" where
  "js_toFixed f x =
     (case x of
        Fin r \<Rightarrow> if 10 ^ 21 \<le> \<bar>r\<bar> then number_to_string x
          else if r < 0 then ''-'' @ toFixed_digits f (- r) else toFixed_digits f r
      | NegZero \<Rightarrow> toFixed_digits f 0
      | _ \<Rightarrow> number_to_string x)"

subsection \<open>Signs\<close>

lemma round_half_even_nonneg: "0 \<le> q \<Longrightarrow> 0 \<le> round_half_even q"
  using round_half_even_ge [of 0 q] by simp

text \<open>Rounding keeps the sign: a number that is not negative stays so, and is not NaN.\<close>

definition num_nonneg :: "jsnum \<Rightarrow> bool" where
  "num_nonneg x \<longleftrightarrow> x = PosInf \<or> (\<exists>r. x = Fin r \<and> 0 \<le> r)"

lemma num_nonneg_simps [simp]:
  "\<not> num_nonneg NaN" "num_nonneg (Fin r) \<longleftrightarrow> 0 \<le> r" "num_nonneg PosInf" "\<not> num_nonneg NegInf" "\<not> num_nonneg NegZero"
  by (simp_all add: num_nonneg_def)

lemma round_double_nonneg: "0 \<le> r \<Longrightarrow> num_nonneg (round_double r)"
proof -
  assume r: "0 \<le> r"
  define e where "e = max (flog 2 \<bar>r\<bar> - 52) (- 1074)"
  have e: "0 < rpow 2 e" by simp
  then have "0 \<le> round_half_even (\<bar>r\<bar> / rpow 2 e)" by (intro round_half_even_nonneg divide_nonneg_pos) simp_all
  then have v: "0 \<le> of_int (round_half_even (\<bar>r\<bar> / rpow 2 e)) * rpow 2 e" using order_less_imp_le [OF e] by (simp add: zero_le_mult_iff)
  show ?thesis
    using r v unfolding round_double_def Let_def e_def [symmetric] by (auto simp del: mult_eq_0_iff)
qed

lemma num_nonneg_cases:
  assumes "num_nonneg x"
  obtains "x = PosInf" | r where "x = Fin r" "0 \<le> r"
  using assms by (auto simp: num_nonneg_def)

lemma num_div_nonneg:
  assumes "num_nonneg x" and "num_nonneg y" and "num_isFinite x" and "y \<noteq> Fin 0"
  shows "num_nonneg (num_div x y)"
  using assms(1,2)
proof (elim num_nonneg_cases)
  fix r q assume "x = Fin r" "0 \<le> r" "y = Fin q" "0 \<le> q"
  then show ?thesis using assms(4) round_double_nonneg [of "r / q"]
    by (simp add: num_div_def num_neg_def num_abs_def num_signed_def)
qed (use assms(3) in \<open>simp_all add: num_div_def num_neg_def num_abs_def num_signed_def num_isFinite_def\<close>)

lemma num_add_nonneg:
  assumes "num_nonneg x" and "num_nonneg y"
  shows "num_nonneg (num_add x y)"
  using assms
proof (elim num_nonneg_cases)
  fix r q assume "x = Fin r" "0 \<le> r" "y = Fin q" "0 \<le> q"
  then show ?thesis using round_double_nonneg [of "r + q"] by (simp add: num_add_def doubleton_eq_iff)
qed (simp_all add: num_add_def doubleton_eq_iff)

lemma num_max_0: "x \<noteq> NaN \<Longrightarrow> num_nonneg (num_max (Fin 0) x)"
  by (cases x) (auto simp: num_max_def num_lt_def)

end
