(* ===== verification/Live_Views.thy ===== *)
theory Live_Views
  imports Sse Api Js_Arith
begin

text \<open>
  The live views: the buffer of a stream (\<open>use-stream-buffer.ts\<close>), the log panels
  (\<open>log-panel.tsx\<close>, \<open>recent-logs.tsx\<close>), the connections page, and the numbers of the dashboard
  (\<open>traffic-rate.ts\<close>, \<open>format.ts\<close>, the points of \<open>dashboard-page.tsx\<close>, the buttons of \<open>service-card.tsx\<close>).
  \<open>Date\<close> parsing and the printing of dates are parameters.
\<close>

subsection \<open>The buffer of a stream\<close>

record 'a stream_buffer =
  sb_items :: "'a list"
  sb_error :: string
  sb_paused :: bool

definition sb_init :: "'a stream_buffer" where
  "sb_init = \<lparr>sb_items = [], sb_error = [], sb_paused = False\<rparr>"

text \<open>\<open>xs.slice(-limit)\<close>; \<open>slice(-0)\<close> is the whole list.\<close>

definition slice_last :: "nat \<Rightarrow> 'a list \<Rightarrow> 'a list" where
  "slice_last limit xs = (if limit = 0 then xs else drop (length xs - limit) xs)"

definition sb_onEvent :: "nat \<Rightarrow> 'a \<Rightarrow> 'a stream_buffer \<Rightarrow> 'a stream_buffer" where
  "sb_onEvent limit item s = s\<lparr>sb_error := [], sb_items := slice_last limit (sb_items s @ [item])\<rparr>"

definition sb_onError :: "string \<Rightarrow> 'a stream_buffer \<Rightarrow> 'a stream_buffer" where
  "sb_onError reason s = s\<lparr>sb_error := reason\<rparr>"

definition sb_clear :: "'a stream_buffer \<Rightarrow> 'a stream_buffer" where
  "sb_clear s = s\<lparr>sb_items := []\<rparr>"

definition sb_setPaused :: "bool \<Rightarrow> 'a stream_buffer \<Rightarrow> 'a stream_buffer" where
  "sb_setPaused paused s = s\<lparr>sb_paused := paused\<rparr>"

text \<open>The effect opens a stream only with a token and while not paused.\<close>

definition sb_connects :: "string \<Rightarrow> 'a stream_buffer \<Rightarrow> bool" where
  "sb_connects token s \<longleftrightarrow> token \<noteq> [] \<and> \<not> sb_paused s"

datatype 'a sb_event = SBEvent 'a | SBError string | SBClear | SBPause bool

fun sb_step :: "nat \<Rightarrow> 'a stream_buffer \<Rightarrow> 'a sb_event \<Rightarrow> 'a stream_buffer" where
  "sb_step limit s (SBEvent item) = sb_onEvent limit item s"
| "sb_step limit s (SBError reason) = sb_onError reason s"
| "sb_step limit s SBClear = sb_clear s"
| "sb_step limit s (SBPause p) = sb_setPaused p s"

definition sb_run :: "nat \<Rightarrow> 'a stream_buffer \<Rightarrow> 'a sb_event list \<Rightarrow> 'a stream_buffer" where
  "sb_run limit s evs = foldl (sb_step limit) s evs"

text \<open>What the effects of a connection do to the buffer.\<close>

definition buffer_effects :: "sse_effect list \<Rightarrow> json sb_event list" where
  "buffer_effects es = concat (map (\<lambda>e. case e of OnEvent v \<Rightarrow> [SBEvent v] | OnError m \<Rightarrow> [SBError m] | _ \<Rightarrow> []) es)"

subsection \<open>Logs\<close>

record log_event =
  le_level :: string
  le_message :: string
  le_timestamp :: "string option"

definition logPanel_visible :: "string \<Rightarrow> log_threshold \<Rightarrow> log_event list \<Rightarrow> log_event list" where
  "logPanel_visible text minimum items =
     filter (\<lambda>item. meetsLogThreshold (le_level item) minimum
       \<and> js_includes (toLowerCase text) (toLowerCase (le_level item @ '' '' @ le_message item))) items"

definition recentLogs_visible :: "preferences \<Rightarrow> log_event list \<Rightarrow> log_event list" where
  "recentLogs_visible prefs items = filter (\<lambda>item. meetsLogThreshold (le_level item) (pr_minimumLogLevel prefs)) items"

text \<open>\<open>parse\<close> gives the time of a date, \<open>show\<close> prints it; the dash is the panel's mark of no date.\<close>

definition formatLogTimestamp :: "(string \<Rightarrow> jsnum) \<Rightarrow> (jsnum \<Rightarrow> string) \<Rightarrow> string \<Rightarrow> string option \<Rightarrow> string" where
  "formatLogTimestamp parse print dash timestamp =
     (case timestamp of None \<Rightarrow> dash
      | Some s \<Rightarrow> if s = [] \<or> parse s = NaN then dash else print (parse s))"

subsection \<open>Connections\<close>

definition formatDuration :: "(string \<Rightarrow> jsnum) \<Rightarrow> jsnum \<Rightarrow> string \<Rightarrow> string \<Rightarrow> string" where
  "formatDuration parse now dash start =
     (let startedAt = parse start
      in if \<not> num_isFinite startedAt then dash
         else number_to_string (num_floor (num_div (num_max (Fin 0) (num_sub now startedAt)) (Fin 1000))) @ ''s'')"

definition latest_snapshot :: "'a stream_buffer \<Rightarrow> 'a option" where
  "latest_snapshot s = (if sb_items s = [] then None else Some (last (sb_items s)))"

subsection \<open>Traffic\<close>

record traffic_point =
  tp_timestamp :: string
  tp_upload_bytes :: jsnum
  tp_download_bytes :: jsnum

record traffic_rate =
  ra_timestamp :: string
  ra_upload_rate :: jsnum
  ra_download_rate :: jsnum

definition traffic_elapsed :: "(string \<Rightarrow> jsnum) \<Rightarrow> traffic_point \<Rightarrow> traffic_point \<Rightarrow> jsnum" where
  "traffic_elapsed parse previous point = num_div (num_sub (parse (tp_timestamp point)) (parse (tp_timestamp previous))) (Fin 1000)"

definition traffic_rate_between :: "(string \<Rightarrow> jsnum) \<Rightarrow> traffic_point \<Rightarrow> traffic_point \<Rightarrow> traffic_rate" where
  "traffic_rate_between parse previous point =
     (let elapsed = traffic_elapsed parse previous point
      in if \<not> num_isFinite elapsed \<or> num_le elapsed (Fin 0)
         then \<lparr>ra_timestamp = tp_timestamp point, ra_upload_rate = Fin 0, ra_download_rate = Fin 0\<rparr>
         else \<lparr>ra_timestamp = tp_timestamp point,
               ra_upload_rate = num_div (num_max (Fin 0) (num_sub (tp_upload_bytes point) (tp_upload_bytes previous))) elapsed,
               ra_download_rate = num_div (num_max (Fin 0) (num_sub (tp_download_bytes point) (tp_download_bytes previous))) elapsed\<rparr>)"

definition calculateTrafficRates :: "(string \<Rightarrow> jsnum) \<Rightarrow> traffic_point list \<Rightarrow> traffic_rate list" where
  "calculateTrafficRates parse points =
     map (\<lambda>index. if index = 0
         then \<lparr>ra_timestamp = tp_timestamp (points ! index), ra_upload_rate = Fin 0, ra_download_rate = Fin 0\<rparr>
         else traffic_rate_between parse (points ! (index - 1)) (points ! index)) [0..<length points]"

definition dashboard_points :: "traffic_point list option \<Rightarrow> traffic_point list \<Rightarrow> traffic_point list" where
  "dashboard_points history live = slice_last 60 ((case history of Some ps \<Rightarrow> ps | None \<Rightarrow> []) @ live)"

text \<open>The loop over the units: \<open>amount\<close> and the index of its unit.\<close>

definition byte_units :: "string list" where
  "byte_units = [''KB'', ''MB'', ''GB'', ''TB'']"

fun scale_bytes :: "nat \<Rightarrow> jsnum \<Rightarrow> string \<Rightarrow> string list \<Rightarrow> jsnum \<times> string" where
  "scale_bytes n amount unit [] = (amount, unit)"
| "scale_bytes n amount unit (u # us) =
     (if num_le (Fin 1024) amount then scale_bytes n (num_div amount (Fin 1024)) u us else (amount, unit))"

definition formatBytes :: "jsnum \<Rightarrow> string" where
  "formatBytes value =
     (if num_lt value (Fin 1024) then number_to_string value @ '' B''
      else (let (amount, unit) = scale_bytes 0 (num_div value (Fin 1024)) (hd byte_units) (tl byte_units)
            in js_toFixed 2 amount @ '' '' @ unit))"

definition formatRate :: "jsnum \<Rightarrow> string" where
  "formatRate value = formatBytes value @ ''/s''"

subsection \<open>The service buttons\<close>

datatype service_action = Start | Stop | Restart

definition action_disabled :: "bool \<Rightarrow> string \<Rightarrow> service_action \<Rightarrow> bool" where
  "action_disabled running pending action =
     (pending \<noteq> [] \<or> (case action of Start \<Rightarrow> running | Stop \<Rightarrow> \<not> running | Restart \<Rightarrow> \<not> running))"

text \<open>A press starts an action; the mutation ends it on success and on failure.\<close>

definition action_name :: "service_action \<Rightarrow> string" where
  "action_name action = (case action of Start \<Rightarrow> ''start'' | Stop \<Rightarrow> ''stop'' | Restart \<Rightarrow> ''restart'')"

definition service_press :: "bool \<Rightarrow> service_action \<Rightarrow> string \<Rightarrow> string" where
  "service_press running action pending = (if action_disabled running pending action then pending else action_name action)"

definition service_settled :: "string \<Rightarrow> string" where
  "service_settled pending = []"

text \<open>What the traffic chart says in each of its modes.\<close>

definition chart_description :: "(string \<Rightarrow> string) \<Rightarrow> (string \<Rightarrow> jsnum) \<Rightarrow> string \<Rightarrow> traffic_point list \<Rightarrow> string" where
  "chart_description t parse mode points =
     (let rates = calculateTrafficRates parse points; latest = (\<lambda>f. if rates = [] then Fin 0 else f (last rates))
      in if mode = ''rate''
         then t ''dashboard.upload'' @ '' '' @ formatRate (latest ra_upload_rate) @ [CHR '' '', CHR 0xB7, CHR '' '']
            @ t ''dashboard.download'' @ '' '' @ formatRate (latest ra_download_rate)
         else t ''dashboard.upload'' @ '' '' @ formatBytes (if points = [] then Fin 0 else tp_upload_bytes (last points))
            @ [CHR '' '', CHR 0xB7, CHR '' '']
            @ t ''dashboard.download'' @ '' '' @ formatBytes (if points = [] then Fin 0 else tp_download_bytes (last points)))"

subsection \<open>Closing connections\<close>

text \<open>The buttons are disabled while a request is out.\<close>

datatype closing = ClosingAll | ClosingId string

definition connections_close :: "closing \<Rightarrow> closing option \<Rightarrow> closing option" where
  "connections_close c closingId = (if closingId \<noteq> None then closingId else Some c)"

definition connections_settled :: "closing option \<Rightarrow> closing option" where
  "connections_settled closingId = None"

subsection \<open>Lemmas\<close>

lemma slice_last_append: "0 < limit \<Longrightarrow> slice_last limit (slice_last limit xs @ ys) = slice_last limit (xs @ ys)"
  by (cases "limit \<le> length xs") (auto simp: slice_last_def add.commute)

text \<open>The events since the last clearing.\<close>

fun since_clear :: "'a list \<Rightarrow> 'a sb_event list \<Rightarrow> 'a list" where
  "since_clear acc [] = acc"
| "since_clear acc (SBEvent v # evs) = since_clear (acc @ [v]) evs"
| "since_clear acc (SBClear # evs) = since_clear [] evs"
| "since_clear acc (_ # evs) = since_clear acc evs"

lemma sb_run_items:
  assumes "0 < limit" and "sb_items s = slice_last limit acc"
  shows "sb_items (sb_run limit s evs) = slice_last limit (since_clear acc evs)"
  using assms(2)
proof (induction evs arbitrary: s acc)
  case Nil
  then show ?case by (simp add: sb_run_def)
next
  case (Cons ev evs)
  have run: "sb_run limit s (ev # evs) = sb_run limit (sb_step limit s ev) evs" by (simp add: sb_run_def)
  show ?case
  proof (cases ev)
    case (SBEvent v)
    have "sb_items (sb_step limit s ev) = slice_last limit (acc @ [v])"
      using Cons.prems assms(1) by (simp add: SBEvent sb_onEvent_def slice_last_append)
    from Cons.IH [OF this] show ?thesis unfolding run by (simp add: SBEvent)
  next
    case (SBError m)
    have "sb_items (sb_step limit s ev) = slice_last limit acc" using Cons.prems by (simp add: SBError sb_onError_def)
    from Cons.IH [OF this] show ?thesis unfolding run by (simp add: SBError)
  next
    case SBClear
    have "sb_items (sb_step limit s ev) = slice_last limit []" by (simp add: SBClear sb_clear_def slice_last_def)
    from Cons.IH [OF this] show ?thesis unfolding run by (simp add: SBClear)
  next
    case (SBPause b)
    have "sb_items (sb_step limit s ev) = slice_last limit acc" using Cons.prems by (simp add: SBPause sb_setPaused_def)
    from Cons.IH [OF this] show ?thesis unfolding run by (simp add: SBPause)
  qed
qed

lemma buffer_effects_events: "buffer_effects (map OnEvent vs) = map SBEvent vs"
  by (induction vs) (simp_all add: buffer_effects_def)

lemma since_clear_events: "since_clear acc (map SBEvent vs @ evs) = since_clear (acc @ vs) evs"
  by (induction vs arbitrary: acc) simp_all

lemma traffic_between_nonneg:
  assumes "num_isFinite (num_sub (tp_upload_bytes q) (tp_upload_bytes p))"
  shows "num_nonneg (ra_upload_rate (traffic_rate_between parse p q))"
proof -
  let ?d = "num_max (Fin 0) (num_sub (tp_upload_bytes q) (tp_upload_bytes p))"
  have d: "num_nonneg ?d" using assms by (intro num_max_0) (auto simp: num_isFinite_def)
  have fin: "num_isFinite ?d"
    using assms by (cases "num_sub (tp_upload_bytes q) (tp_upload_bytes p)") (auto simp: num_max_def num_lt_def num_isFinite_def)
  show ?thesis
  proof (cases "\<not> num_isFinite (traffic_elapsed parse p q) \<or> num_le (traffic_elapsed parse p q) (Fin 0)")
    case True
    then show ?thesis by (simp add: traffic_rate_between_def Let_def)
  next
    case False
    then have "num_nonneg (traffic_elapsed parse p q)" "traffic_elapsed parse p q \<noteq> Fin 0"
      by (cases "traffic_elapsed parse p q"; auto simp: num_isFinite_def)+
    with d fin False show ?thesis by (simp add: traffic_rate_between_def Let_def num_div_nonneg)
  qed
qed

text \<open>A stricter threshold shows a part of what a laxer one shows.\<close>

lemma meetsLogThreshold_mono:
  "threshold_rank l \<le> threshold_rank m \<Longrightarrow> l = TAll \<or> m \<noteq> TAll \<Longrightarrow> meetsLogThreshold level m \<Longrightarrow> meetsLogThreshold level l"
  by (auto simp: meetsLogThreshold_def split: option.splits)

subsection \<open>Properties\<close>

text \<open>
  C18: A live view shows exactly the last events since it was cleared, at most as many as its limit,
  whatever errors and pauses come between; and a stream that ends well fills the view with the last
  events of its text, as the connection delivers them.
\<close>

theorem stream_buffer_shows_latest:
  assumes "0 < limit" and "sse_phase s = Streaming []" and "consumeSSEStream h (map ReadText (ts @ [t])) = (vs, None)"
  shows "sb_items (sb_run limit sb_init evs) = slice_last limit (since_clear [] evs)
    \<and> length (sb_items (sb_run limit sb_init evs)) \<le> limit
    \<and> (\<exists>u es. sse_run h s (map ReadResolved ts @ [ReadDone t]) u \<and> sse_log u = sse_log s @ es
        \<and> sb_items (sb_run limit sb_init (buffer_effects es)) = slice_last limit vs)"
proof -
  have init: "sb_items (sb_run limit sb_init es) = slice_last limit (since_clear [] es)" for es :: "'b sb_event list"
    using assms(1) by (rule sb_run_items) (simp add: sb_init_def slice_last_def)
  have init': "sb_items (sb_run limit sb_init es) = slice_last limit (since_clear [] es)" for es :: "json sb_event list"
    using assms(1) by (rule sb_run_items) (simp add: sb_init_def slice_last_def)
  from stream_run [OF assms(2), of h ts t vs] assms(3) obtain u
    where run: "sse_run h s (map ReadResolved ts @ [ReadDone t]) u"
      and u: "u = sse_retry (emit_events vs (s\<lparr>sse_phase := sse_phase u\<rparr>))"
    unfolding consumeSSEStream_def by blast
  have "sse_log u = sse_log s @ map OnEvent vs"
    by (subst u) (simp add: sse_retry_def emit_events_def emit_def)
  moreover have "sb_items (sb_run limit sb_init (buffer_effects (map OnEvent vs))) = slice_last limit vs"
    using since_clear_events [of "[]" vs "[]"] by (simp add: init' buffer_effects_events)
  moreover have "length (slice_last limit xs) \<le> limit" for xs :: "'b list"
    using assms(1) by (simp add: slice_last_def)
  ultimately show ?thesis using init run by (metis (no_types, lifting))
qed

theorem stream_buffer_shows_latest_witness:
  "sb_items (sb_run 2 sb_init [SBEvent (1::nat), SBEvent 2, SBError ''x'', SBEvent 3]) = [2, 3]"
proof -
  let ?s = "sse_response 200 True (openSSE ''/api/stats/logs'' ''t'')"
  have s: "sse_phase ?s = Streaming []" by (simp add: sse_response_def response_ok_def openSSE_def sse_connect_def emit_def)
  have "consumeSSEStream (\<lambda>v. None) (map ReadText ([''data: tr''] @ [''ue''])) = ([JBool True], None)" by code_simp
  from stream_buffer_shows_latest [OF _ s this, of 2 "[SBEvent (1::nat), SBEvent 2, SBError ''x'', SBEvent 3]"]
  show ?thesis by (simp add: slice_last_def)
qed



end
