(* ===== verification/Subscriptions.thy ===== *)
theory Subscriptions
  imports Js_Arith
begin

text \<open>
  Subscriptions and the probing of nodes by URL: \<open>lib/speed-test-urls.ts\<close>, \<open>lib/urltest.ts\<close>,
  \<open>components/probe-url-field.tsx\<close>, \<open>features/subscriptions/subscription-dialog.tsx\<close> and the logic of
  \<open>subscriptions-page.tsx\<close>. The URL parser of the platform is a parameter that gives the protocol and
  the host of a URL; requests are a parameter that gives the message of their failure.
\<close>

subsection \<open>Preset URLs\<close>

definition SPEED_TEST_URL_PRESETS :: "string list" where
  "SPEED_TEST_URL_PRESETS =
     [''https://cp.cloudflare.com/'',
      ''https://www.gstatic.com/generate_204'',
      ''https://www.google-analytics.com/generate_204'',
      ''https://www.google.com/generate_204'',
      ''https://connectivitycheck.gstatic.com/generate_204'',
      ''https://spectrum.s3.amazonaws.com/kindle-wifi/wifistub.html'',
      ''https://captive.apple.com'',
      ''https://www.apple.com/library/test/success.html'',
      ''https://detectportal.firefox.com/success.txt'',
      ''https://www.v2ex.com/generate_204'']"

definition DEFAULT_SPEED_TEST_URL :: string where
  "DEFAULT_SPEED_TEST_URL = SPEED_TEST_URL_PRESETS ! 0"

definition isSpeedTestURLPreset :: "string \<Rightarrow> bool" where
  "isSpeedTestURLPreset url \<longleftrightarrow> url \<in> set SPEED_TEST_URL_PRESETS"

definition resolveSpeedTestURLMode :: "string \<Rightarrow> string" where
  "resolveSpeedTestURLMode url =
     (if url = [] then DEFAULT_SPEED_TEST_URL else if isSpeedTestURLPreset url then url else ''manual'')"

definition resolveInitialSpeedTestURL :: "string \<Rightarrow> string" where
  "resolveInitialSpeedTestURL url = (if url = [] then DEFAULT_SPEED_TEST_URL else url)"

subsection \<open>The selector of a URL\<close>

text \<open>The value belongs to the parent; the mode and the last value seen belong to the field.\<close>

record probe_field =
  pb_value :: string
  pb_mode :: string
  pb_source :: string

definition probe_deriveMode :: "string \<Rightarrow> bool \<Rightarrow> string" where
  "probe_deriveMode v allowEmpty =
     (if v = [] then (if allowEmpty then ''unset'' else ''manual'') else if isSpeedTestURLPreset v then v else ''manual'')"

definition probe_init :: "bool \<Rightarrow> string \<Rightarrow> probe_field" where
  "probe_init allowEmpty v = \<lparr>pb_value = v, pb_mode = probe_deriveMode v allowEmpty, pb_source = v\<rparr>"

definition probe_render :: "bool \<Rightarrow> probe_field \<Rightarrow> probe_field" where
  "probe_render allowEmpty s =
     (if pb_source s \<noteq> pb_value s
      then s\<lparr>pb_source := pb_value s, pb_mode := probe_deriveMode (pb_value s) allowEmpty\<rparr> else s)"

text \<open>A choice in the selector; the handlers run before the field is rendered again.\<close>

definition probe_select :: "bool \<Rightarrow> string \<Rightarrow> probe_field \<Rightarrow> probe_field" where
  "probe_select allowEmpty selected s = probe_render allowEmpty
     (if selected = ''unset'' then s\<lparr>pb_mode := ''unset'', pb_value := []\<rparr>
      else if selected = ''manual'' then
        (let s' = s\<lparr>pb_mode := ''manual''\<rparr>
         in if isSpeedTestURLPreset (pb_value s) \<or> pb_value s = [] then s'\<lparr>pb_value := []\<rparr> else s')
      else s\<lparr>pb_mode := selected, pb_value := selected\<rparr>)"

definition probe_items :: "bool \<Rightarrow> string list" where
  "probe_items allowEmpty = (if allowEmpty then [''unset''] else []) @ SPEED_TEST_URL_PRESETS @ [''manual'']"

definition probe_input :: "bool \<Rightarrow> string \<Rightarrow> probe_field \<Rightarrow> probe_field" where
  "probe_input allowEmpty text s = probe_render allowEmpty (s\<lparr>pb_value := text\<rparr>)"

definition probe_inputText :: "probe_field \<Rightarrow> string option" where
  "probe_inputText s =
     (if pb_mode s = ''manual'' then Some (if isSpeedTestURLPreset (pb_value s) then [] else pb_value s) else None)"

inductive probe_reach :: "bool \<Rightarrow> probe_field \<Rightarrow> bool" for allowEmpty where
  probe_start: "probe_reach allowEmpty (probe_init allowEmpty v)"
| probe_selected: "probe_reach allowEmpty s \<Longrightarrow> selected \<in> set (probe_items allowEmpty)
    \<Longrightarrow> probe_reach allowEmpty (probe_select allowEmpty selected s)"
| probe_typed: "probe_reach allowEmpty s \<Longrightarrow> probe_inputText s \<noteq> None \<Longrightarrow> probe_reach allowEmpty (probe_input allowEmpty text s)"
| probe_parent: "probe_reach allowEmpty s \<Longrightarrow> probe_reach allowEmpty (probe_render allowEmpty (s\<lparr>pb_value := v\<rparr>))"

subsection \<open>Durations, tolerances and URLs\<close>

text \<open>The units in the order of the pattern, with their length in milliseconds.\<close>

definition durationScales :: "(string \<times> jsnum) list" where
  "durationScales =
     [(''ns'', round_double (1 / 1000000)), (''us'', round_double (1 / 1000)), ([CHR 0xB5, CHR ''s''], round_double (1 / 1000)),
      (''ms'', Fin 1), (''s'', Fin 1000), (''m'', Fin 60000), (''h'', Fin 3600000)]"

fun match_unit :: "(string \<times> jsnum) list \<Rightarrow> string \<Rightarrow> (jsnum \<times> string) option" where
  "match_unit [] s = None"
| "match_unit ((u, scale) # us) s = (if js_startsWith u s then Some (scale, drop (length u) s) else match_unit us s)"

text \<open>
  One match of \<open>(\d+(?:\.\d+)?)(ns|us|...|h)\<close> at the head of a text: the number, the scale of the unit
  and the rest. Giving digits back never helps, since a digit or a point starts no unit.
\<close>

definition match_duration :: "string \<Rightarrow> (string \<times> jsnum \<times> string) option" where
  "match_duration s =
     (let ip = takeWhile is_digit s; r = dropWhile is_digit s
      in if ip = [] then None
         else (let (num, rest) =
             (if r \<noteq> [] \<and> hd r = CHR ''.'' \<and> takeWhile is_digit (tl r) \<noteq> []
              then (ip @ ''.'' @ takeWhile is_digit (tl r), dropWhile is_digit (tl r)) else (ip, r))
           in map_option (\<lambda>(scale, u). (num, scale, u)) (match_unit durationScales rest)))"

lemma match_unit_shorter: "match_unit us s = Some (sc, r) \<Longrightarrow> length r \<le> length s"
  by (induction us s rule: match_unit.induct) (auto split: if_splits)

lemma match_duration_shorter: "match_duration s = Some (t, sc, r) \<Longrightarrow> length r < length s"
proof -
  assume a: "match_duration s = Some (t, sc, r)"
  let ?r = "dropWhile is_digit s"
  have ip: "takeWhile is_digit s \<noteq> []" using a by (auto simp: match_duration_def Let_def split: if_splits)
  have "length s = length (takeWhile is_digit s) + length ?r" by (metis length_append takeWhile_dropWhile_id)
  with ip have less: "length ?r < length s" by simp
  have "length (dropWhile is_digit (tl ?r)) \<le> length ?r"
    by (rule order_trans [OF length_dropWhile_le]) simp
  then show ?thesis using a less
    by (auto simp: match_duration_def Let_def split: if_splits dest!: match_unit_shorter)
qed

text \<open>The loop over the matches: the total and what is left of the text.\<close>

function duration_scan :: "jsnum \<Rightarrow> string \<Rightarrow> jsnum \<times> string" where
  "duration_scan acc s =
     (case match_duration s of
        None \<Rightarrow> (acc, s)
      | Some (num, scale, rest) \<Rightarrow> duration_scan (num_add acc (num_mult (string_to_number num) scale)) rest)"
  by pat_completeness auto
termination
  by (relation "measure (\<lambda>(t, s). length s)") (auto dest: match_duration_shorter)

declare duration_scan.simps [simp del]

definition isPositiveDuration :: "string \<Rightarrow> bool" where
  "isPositiveDuration v \<longleftrightarrow>
     v \<noteq> [] \<and> (case duration_scan (Fin 0) v of (acc, rest) \<Rightarrow> rest = [] \<and> num_lt (Fin 0) acc)"

definition isTolerance :: "string \<Rightarrow> bool" where
  "isTolerance v \<longleftrightarrow>
     (let parsed = string_to_number v
      in js_trim v \<noteq> [] \<and> num_isInteger parsed \<and> num_le (Fin 0) parsed \<and> num_le parsed (Fin 65535))"

type_synonym url_parser = "string \<Rightarrow> (string \<times> string) option"

definition isHTTPURL :: "url_parser \<Rightarrow> string \<Rightarrow> bool" where
  "isHTTPURL parse v =
     (case parse v of Some (protocol, host) \<Rightarrow> (protocol = ''http:'' \<or> protocol = ''https:'') \<and> host \<noteq> [] | None \<Rightarrow> False)"

subsection \<open>The URL test of a subscription\<close>

record urltest_overrides =
  uo_enabled :: "bool option"
  uo_url :: "string option"
  uo_interval :: "string option"
  uo_tolerance :: "jsnum option"

datatype urltest_policy = Inherit | Enabled | Disabled

record urltest_form =
  uf_policy :: urltest_policy
  uf_url :: string
  uf_interval :: string
  uf_tolerance :: string

definition opt_text :: "string option \<Rightarrow> string" where
  "opt_text v = (case v of Some s \<Rightarrow> s | None \<Rightarrow> [])"

definition initialURLTestState :: "urltest_overrides option \<Rightarrow> urltest_form" where
  "initialURLTestState item =
     (case item of
        None \<Rightarrow> \<lparr>uf_policy = Inherit, uf_url = [], uf_interval = [], uf_tolerance = []\<rparr>
      | Some o1 \<Rightarrow>
          \<lparr>uf_policy = (case uo_enabled o1 of None \<Rightarrow> Inherit | Some b \<Rightarrow> if b then Enabled else Disabled),
           uf_url = opt_text (uo_url o1), uf_interval = opt_text (uo_interval o1),
           uf_tolerance = (case uo_tolerance o1 of None \<Rightarrow> [] | Some n \<Rightarrow> number_to_string n)\<rparr>)"

definition trimmed_opt :: "string \<Rightarrow> string option" where
  "trimmed_opt s = (if js_trim s \<noteq> [] then Some (js_trim s) else None)"

definition buildURLTestOverrides :: "urltest_form \<Rightarrow> urltest_overrides option" where
  "buildURLTestOverrides state =
     (case uf_policy state of
        Inherit \<Rightarrow> None
      | Disabled \<Rightarrow> Some \<lparr>uo_enabled = Some False, uo_url = None, uo_interval = None, uo_tolerance = None\<rparr>
      | Enabled \<Rightarrow> Some \<lparr>uo_enabled = Some True, uo_url = trimmed_opt (uf_url state), uo_interval = trimmed_opt (uf_interval state),
          uo_tolerance = (if js_trim (uf_tolerance state) \<noteq> [] then Some (string_to_number (uf_tolerance state)) else None)\<rparr>)"

definition isURLTestStateInvalid :: "url_parser \<Rightarrow> urltest_form \<Rightarrow> bool" where
  "isURLTestStateInvalid parse state =
     (if uf_policy state \<noteq> Enabled then False
      else (uf_url state \<noteq> [] \<and> \<not> isHTTPURL parse (uf_url state))
        \<or> (uf_interval state \<noteq> [] \<and> \<not> isPositiveDuration (uf_interval state))
        \<or> (uf_tolerance state \<noteq> [] \<and> \<not> isTolerance (uf_tolerance state)))"

record urltest_defaults =
  ud_enabled :: bool
  ud_url :: string
  ud_interval :: string
  ud_tolerance :: jsnum

text \<open>The values the three inputs show, \<^const>\<open>None\<close> when they are hidden.\<close>

definition urltest_shown :: "urltest_defaults \<Rightarrow> urltest_form \<Rightarrow> (string \<times> string \<times> string) option" where
  "urltest_shown d state =
     (case uf_policy state of
        Disabled \<Rightarrow> None
      | Inherit \<Rightarrow> Some (ud_url d, ud_interval d, number_to_string (ud_tolerance d))
      | Enabled \<Rightarrow> Some (uf_url state, uf_interval state, uf_tolerance state))"

definition resetURLTest :: urltest_form where
  "resetURLTest = \<lparr>uf_policy = Inherit, uf_url = [], uf_interval = [], uf_tolerance = []\<rparr>"

text \<open>The changes of the form; a released toggle changes nothing.\<close>

datatype urltest_edit = EditPolicy "urltest_policy list" | EditURL string | EditInterval string | EditTolerance string | ResetURLTest

fun urltest_update :: "urltest_edit \<Rightarrow> urltest_form \<Rightarrow> urltest_form" where
  "urltest_update (EditPolicy value) state = (case value of [] \<Rightarrow> state | p # _ \<Rightarrow> state\<lparr>uf_policy := p\<rparr>)"
| "urltest_update (EditURL v) state = state\<lparr>uf_url := v\<rparr>"
| "urltest_update (EditInterval v) state = state\<lparr>uf_interval := v\<rparr>"
| "urltest_update (EditTolerance v) state = state\<lparr>uf_tolerance := v\<rparr>"
| "urltest_update ResetURLTest state = resetURLTest"

subsection \<open>The subscription dialog\<close>

record subscription_item =
  si_id :: string
  si_name :: string
  si_url :: string
  si_interval_min :: jsnum
  si_urltest :: "urltest_overrides option"

record subscription_dialog =
  sd_item :: "subscription_item option"
  sd_name :: string
  sd_url :: string
  sd_interval :: jsnum
  sd_urlTest :: urltest_form
  sd_open :: bool

definition sd_init :: "subscription_item option \<Rightarrow> subscription_dialog" where
  "sd_init item = \<lparr>sd_item = item, sd_name = (case item of Some i \<Rightarrow> si_name i | None \<Rightarrow> []),
     sd_url = (case item of Some i \<Rightarrow> si_url i | None \<Rightarrow> []),
     sd_interval = (case item of Some i \<Rightarrow> si_interval_min i | None \<Rightarrow> Fin 60),
     sd_urlTest = initialURLTestState (case item of Some i \<Rightarrow> si_urltest i | None \<Rightarrow> None), sd_open = True\<rparr>"

datatype sd_edit = SetName string | SetURL string | SetInterval string | SetURLTest urltest_edit

fun sd_update :: "sd_edit \<Rightarrow> subscription_dialog \<Rightarrow> subscription_dialog" where
  "sd_update (SetName v) s = s\<lparr>sd_name := v\<rparr>"
| "sd_update (SetURL v) s = s\<lparr>sd_url := v\<rparr>"
| "sd_update (SetInterval v) s = s\<lparr>sd_interval := string_to_number v\<rparr>"
| "sd_update (SetURLTest e) s = s\<lparr>sd_urlTest := urltest_update e (sd_urlTest s)\<rparr>"

definition sd_isInvalid :: "url_parser \<Rightarrow> subscription_dialog \<Rightarrow> bool" where
  "sd_isInvalid parse s \<longleftrightarrow>
     sd_name s = [] \<or> sd_url s = [] \<or> num_le (sd_interval s) (Fin 0) \<or> isURLTestStateInvalid parse (sd_urlTest s)"

record subscription_input =
  sp_name :: string
  sp_url :: string
  sp_interval_min :: jsnum
  sp_urltest :: "urltest_overrides option"

definition sd_input :: "subscription_dialog \<Rightarrow> subscription_input" where
  "sd_input s = \<lparr>sp_name = sd_name s, sp_url = sd_url s, sp_interval_min = sd_interval s,
     sp_urltest = buildURLTestOverrides (sd_urlTest s)\<rparr>"

datatype sub_request = UpdateSubscription string subscription_input | CreateSubscription subscription_input | SyncNodes

text \<open>
  A press of the save button: the requests sent, and the dialog, which closes when all succeed. \<open>fails\<close>
  gives the message of a request that fails.
\<close>

definition sd_save :: "(sub_request \<Rightarrow> string option) \<Rightarrow> subscription_dialog \<Rightarrow> sub_request list \<times> string option \<times> subscription_dialog" where
  "sd_save fails s =
     (let first = (case sd_item s of Some i \<Rightarrow> UpdateSubscription (si_id i) (sd_input s) | None \<Rightarrow> CreateSubscription (sd_input s))
      in case fails first of
           Some e \<Rightarrow> ([first], Some e, s)
         | None \<Rightarrow> (case fails SyncNodes of
               Some e \<Rightarrow> ([first, SyncNodes], Some e, s)
             | None \<Rightarrow> ([first, SyncNodes], None, s\<lparr>sd_open := False\<rparr>)))"

subsection \<open>The list of subscriptions\<close>

datatype urltest_status = StatusOff | StatusCustom | StatusInherited

definition urlTestStatus :: "urltest_overrides option \<Rightarrow> urltest_status" where
  "urlTestStatus item =
     (case item of
        None \<Rightarrow> StatusInherited
      | Some o1 \<Rightarrow> if uo_enabled o1 = Some False then StatusOff
          else if uo_enabled o1 \<noteq> None \<or> uo_url o1 \<noteq> None \<or> uo_interval o1 \<noteq> None \<or> uo_tolerance o1 \<noteq> None
          then StatusCustom else StatusInherited)"

text \<open>Refreshing all: a partial success is an error, and then the nodes are not synchronised.\<close>

definition refreshAll :: "(string \<times> string option, string) sum \<Rightarrow> (sub_request \<Rightarrow> string option) \<Rightarrow> sub_request list \<times> string option" where
  "refreshAll response fails =
     (case response of
        Inr e \<Rightarrow> ([], Some e)
      | Inl (status, message) \<Rightarrow>
          if status = ''partial''
          then ([], Some (case message of Some m \<Rightarrow> if m \<noteq> [] then m else ''subscriptions.partialFailure'' | None \<Rightarrow> ''subscriptions.partialFailure''))
          else ([SyncNodes], fails SyncNodes))"

subsection \<open>Lemmas\<close>

lemma preset_facts [simp]:
  "\<not> isSpeedTestURLPreset []" "\<not> isSpeedTestURLPreset ''unset''" "\<not> isSpeedTestURLPreset ''manual''"
  "isSpeedTestURLPreset ''https://captive.apple.com''"
  by (code_simp)+

lemma set_probe_items:
  "sel \<in> set (probe_items ae) \<longleftrightarrow> (sel = ''unset'' \<and> ae) \<or> isSpeedTestURLPreset sel \<or> sel = ''manual''"
  by (auto simp: probe_items_def isSpeedTestURLPreset_def)

text \<open>What the field shows: the value seen is the parent's, and a preset mode shows that preset.\<close>

definition probe_inv :: "bool \<Rightarrow> probe_field \<Rightarrow> bool" where
  "probe_inv ae s \<longleftrightarrow> pb_source s = pb_value s \<and> pb_mode s \<in> set (probe_items ae)
     \<and> (pb_mode s = ''unset'' \<longrightarrow> pb_value s = []) \<and> (isSpeedTestURLPreset (pb_mode s) \<longrightarrow> pb_value s = pb_mode s)"

lemma probe_inv_derive:
  "probe_inv ae (s\<lparr>pb_source := v, pb_value := v, pb_mode := probe_deriveMode v ae\<rparr>)"
  by (auto simp: probe_inv_def probe_deriveMode_def set_probe_items)

lemma probe_inv_render: "pb_source s = pb_value s \<Longrightarrow> probe_inv ae s \<Longrightarrow> probe_inv ae (probe_render ae (s\<lparr>pb_value := v\<rparr>))"
  by (auto simp: probe_render_def probe_inv_def probe_deriveMode_def set_probe_items)

lemma probe_inv_select:
  assumes "probe_inv ae s" and "sel \<in> set (probe_items ae)"
  shows "probe_inv ae (probe_select ae sel s)"
proof -
  consider "sel = ''unset''" ae | "isSpeedTestURLPreset sel" "sel \<noteq> ''unset''" "sel \<noteq> ''manual''" | "sel = ''manual''"
    using assms(2) by (cases "sel = ''unset''"; cases "sel = ''manual''") (auto simp: set_probe_items)
  then show ?thesis
    by cases (use assms(1) in \<open>auto simp: probe_select_def probe_render_def probe_inv_def probe_deriveMode_def set_probe_items Let_def\<close>)
qed

lemma probe_reach_inv: "probe_reach ae s \<Longrightarrow> probe_inv ae s"
proof (induction rule: probe_reach.induct)
  case (probe_start v)
  then show ?case by (auto simp: probe_init_def probe_inv_def probe_deriveMode_def set_probe_items)
next
  case (probe_selected s selected)
  then show ?case by (simp add: probe_inv_select)
next
  case (probe_typed s typed)
  then show ?case by (simp add: probe_input_def probe_inv_render probe_inv_def [of ae s])
next
  case (probe_parent s v)
  then show ?case by (simp add: probe_inv_render probe_inv_def [of ae s])
qed

lemma digits_trim: "0 \<le> n \<Longrightarrow> js_trim (digits_of n) = digits_of n"
  by (rule all_digits_trim [OF digits_of_digits])

subsection \<open>Properties\<close>

text \<open>
  In every state the URL selector reaches, it shows the preset that is the value, or that
  nothing is set only when nothing is. But where an empty value is allowed, choosing the manual input
  while a preset is selected only clears the value: the mode falls back to unset and no input
  appears; and typing a URL that begins with a preset closes the input at the preset.
\<close>

lemma probe_field_modes:
  assumes "probe_reach allowEmpty s"
  shows "pb_source s = pb_value s \<and> pb_mode s \<in> set (probe_items allowEmpty)
    \<and> (pb_mode s = ''unset'' \<longrightarrow> pb_value s = [])
    \<and> (isSpeedTestURLPreset (pb_mode s) \<longrightarrow> pb_value s = pb_mode s)
    \<and> (isSpeedTestURLPreset (pb_value s) \<longrightarrow>
         pb_value (probe_select allowEmpty ''manual'' s) = []
         \<and> probe_inputText (probe_select allowEmpty ''manual'' s) = (if allowEmpty then None else Some []))
    \<and> (isSpeedTestURLPreset p \<and> pb_value s \<noteq> p \<longrightarrow>
         probe_inputText (probe_input allowEmpty p s) = None \<and> pb_mode (probe_input allowEmpty p s) = p)"
proof -
  have inv: "probe_inv allowEmpty s" using assms by (rule probe_reach_inv)
  have "probe_inputText (probe_input allowEmpty p s) = None \<and> pb_mode (probe_input allowEmpty p s) = p"
    if "isSpeedTestURLPreset p" "pb_value s \<noteq> p"
    using that inv by (auto simp: probe_input_def probe_render_def probe_inv_def probe_deriveMode_def probe_inputText_def)
  moreover have "pb_value (probe_select allowEmpty ''manual'' s) = []"
    "probe_inputText (probe_select allowEmpty ''manual'' s) = (if allowEmpty then None else Some [])"
    if "isSpeedTestURLPreset (pb_value s)"
    using that inv
    by (auto simp: probe_select_def probe_render_def probe_inv_def probe_deriveMode_def probe_inputText_def Let_def)
  ultimately show ?thesis using inv by (simp add: probe_inv_def)
qed

lemma probe_field_modes_example:
  "probe_inputText (probe_select True ''manual'' (probe_init True ''https://captive.apple.com'')) = None"
  using probe_field_modes [OF probe_start [of True "''https://captive.apple.com''"], of "[]"]
  by (simp add: probe_init_def)



text \<open>
  A save closes the dialog exactly when both the subscription and the nodes were stored. When a new
  subscription was created but the nodes could not be synchronised, the dialog stays open as it was,
  so saving again creates the subscription a second time; an edited one is only updated again.
\<close>

lemma subscription_save_retries:
  "(sd_open (snd (snd (sd_save fails s))) = (sd_open s \<and> fst (snd (sd_save fails s)) \<noteq> None))
    \<and> (sd_item s = None \<and> fails (CreateSubscription (sd_input s)) = None \<and> fails SyncNodes = Some e \<longrightarrow>
        (case sd_save fails s of (reqs, err, s') \<Rightarrow>
           err = Some e \<and> s' = s \<and> reqs @ fst (sd_save fails s')
             = [CreateSubscription (sd_input s), SyncNodes, CreateSubscription (sd_input s), SyncNodes]))
    \<and> (\<forall>i. sd_item s = Some i \<longrightarrow> hd (fst (sd_save fails s)) = UpdateSubscription (si_id i) (sd_input s))"
  by (auto simp: sd_save_def Let_def split: option.splits)

lemma subscription_save_retries_witness:
  "fst (sd_save (\<lambda>r. if r = SyncNodes then Some ''x'' else None) (sd_init None)) = [CreateSubscription (sd_input (sd_init None)), SyncNodes]"
  using subscription_save_retries [of "\<lambda>r. if r = SyncNodes then Some ''x'' else None" "sd_init None" "''x''"]
  by (simp add: sd_init_def sd_save_def)

end
