(* ===== verification/Nodes.thy ===== *)
theory Nodes
  imports Subscriptions Api
begin

text \<open>
  Nodes: \<open>features/nodes\<close>, the imported nodes of \<open>features/subscriptions/imported-nodes-card.tsx\<close> and the
  confirmation dialog \<open>components/confirm-action.tsx\<close>. The tests sent, the grouping by subscription,
  the editor and the import dialog with the requests they send. The server is a parameter: a function
  on its state that gives the message of a failure.
\<close>

subsection \<open>Nodes and their tests\<close>

record outbound_node =
  nd_tag :: string
  nd_type :: string
  nd_server :: "string option"
  nd_port :: "jsnum option"
  nd_raw :: "json option"
  nd_source :: "string option"
  nd_source_name :: "string option"

record test_input =
  ti_tag :: string
  ti_test_type :: string
  ti_server :: string
  ti_port :: jsnum

definition nodeTestTypes :: "string list" where
  "nodeTestTypes = [''tcp'', ''http'', ''icmp'']"

definition truthy_text :: "string option \<Rightarrow> bool" where
  "truthy_text v \<longleftrightarrow> v \<noteq> None \<and> v \<noteq> Some []"

definition truthy_num :: "jsnum option \<Rightarrow> bool" where
  "truthy_num v \<longleftrightarrow> v \<noteq> None \<and> v \<notin> Some ` {Fin 0, NegZero, NaN}"

definition nodeTestInput :: "outbound_node \<Rightarrow> string \<Rightarrow> test_input option" where
  "nodeTestInput node type =
     (if \<not> truthy_text (nd_server node) \<or> \<not> truthy_num (nd_port node) then None
      else Some \<lparr>ti_tag = nd_tag node, ti_test_type = type, ti_server = the (nd_server node), ti_port = the (nd_port node)\<rparr>)"

definition nodeTestInputs :: "outbound_node list \<Rightarrow> test_input list" where
  "nodeTestInputs ns =
     concat (map (\<lambda>node. concat (map (\<lambda>type. case nodeTestInput node type of Some i \<Rightarrow> [i] | None \<Rightarrow> []) nodeTestTypes)) ns)"

text \<open>The menu of one node: \<^const>\<open>None\<close> tests all kinds at once, with the concurrency of the request.\<close>

definition testControls_available :: "outbound_node \<Rightarrow> bool" where
  "testControls_available node \<longleftrightarrow> truthy_text (nd_server node) \<and> truthy_num (nd_port node)"

datatype test_request = TestOne "test_input option" | TestBatch "test_input option list" nat

definition testControls_request :: "outbound_node \<Rightarrow> string option \<Rightarrow> test_request" where
  "testControls_request node choice =
     (case choice of None \<Rightarrow> TestBatch (map (nodeTestInput node) nodeTestTypes) 3
      | Some type \<Rightarrow> TestOne (nodeTestInput node type))"

definition groupTestConcurrency :: nat where
  "groupTestConcurrency = 8"

definition nodeSection_request :: "outbound_node list \<Rightarrow> test_request option" where
  "nodeSection_request ns =
     (if nodeTestInputs ns = [] then None else Some (TestBatch (map Some (nodeTestInputs ns)) groupTestConcurrency))"

subsection \<open>Results\<close>

definition formatLatency :: "jsnum \<Rightarrow> string" where
  "formatLatency latency = (if num_lt latency (Fin 10) then js_toFixed 1 latency else js_toFixed 0 latency) @ '' ms''"

text \<open>\<open>t\<close> gives the translated texts.\<close>

definition resultBadge :: "(string \<Rightarrow> string) \<Rightarrow> string \<Rightarrow> test_result option \<Rightarrow> string" where
  "resultBadge t dash result =
     (case result of
        None \<Rightarrow> dash
      | Some r \<Rightarrow>
          if \<not> tr_success r then (if truthy_text (tr_error r) then the (tr_error r) else t ''nodes.testFailed'')
          else (case tr_latency r of None \<Rightarrow> t ''common.normal'' | Some l \<Rightarrow> formatLatency l))"

definition testResults_rows :: "(string \<Rightarrow> string) \<Rightarrow> string \<Rightarrow> by_type option \<Rightarrow> (string \<times> string) list" where
  "testResults_rows t dash results =
     map (\<lambda>type. (toUpperCase type, resultBadge t dash (case results of None \<Rightarrow> None | Some m \<Rightarrow> map_of m type))) nodeTestTypes"

definition flatten_results :: "(string \<times> by_type) list option \<Rightarrow> test_result list" where
  "flatten_results results = (case results of None \<Rightarrow> [] | Some rs \<Rightarrow> concat (map (map snd \<circ> snd) rs))"

definition nodeResults_shown :: "string set \<Rightarrow> (string \<times> by_type) list option \<Rightarrow> test_result list" where
  "nodeResults_shown visibleTags results = filter (\<lambda>r. tr_tag r \<in> visibleTags) (flatten_results results)"

definition nodeResults_row :: "(string \<Rightarrow> string) \<Rightarrow> string \<Rightarrow> test_result \<Rightarrow> string \<times> string \<times> string \<times> string option" where
  "nodeResults_row t dash r =
     (tr_tag r, toUpperCase (tr_test_type r),
      (case tr_latency r of None \<Rightarrow> dash | Some l \<Rightarrow> js_toFixed 0 l @ '' ms''),
      (if tr_success r then Some (t ''common.normal'') else tr_error r))"

subsection \<open>The sections of the page\<close>

text \<open>The map from the name of a subscription to its nodes, in the order of its keys.\<close>

definition subscription_name :: "outbound_node \<Rightarrow> string" where
  "subscription_name node = (case nd_source_name node of Some s \<Rightarrow> s | None \<Rightarrow> [])"

definition group_node :: "(string \<times> outbound_node list) list \<Rightarrow> outbound_node \<Rightarrow> (string \<times> outbound_node list) list" where
  "group_node groups node =
     (if nd_source node \<noteq> Some ''subscription'' then groups
      else AList.update (subscription_name node)
        ((case map_of groups (subscription_name node) of Some ns \<Rightarrow> ns | None \<Rightarrow> []) @ [node]) groups)"

definition groupSubscriptions :: "outbound_node list \<Rightarrow> (string \<times> outbound_node list) list" where
  "groupSubscriptions ns = foldl group_node [] ns"

definition subscription_key :: "string \<Rightarrow> string" where
  "subscription_key name = (if name = [] then ''subscription'' else name)"

definition imported_nodes :: "outbound_node list \<Rightarrow> outbound_node list" where
  "imported_nodes ns = filter (\<lambda>node. nd_source node = Some ''import'') ns"

definition node_source_label :: "(string \<Rightarrow> string) \<Rightarrow> outbound_node \<Rightarrow> string" where
  "node_source_label t node =
     (if nd_source node = Some ''subscription''
      then (if truthy_text (nd_source_name node) then the (nd_source_name node) else t ''nodes.subscription'')
      else t ''nodes.imported'')"

subsection \<open>Requests\<close>

record node_input =
  ni_tag :: string
  ni_type :: string
  ni_server :: string
  ni_port :: jsnum
  ni_config :: json

datatype node_request = UpdateNode string node_input | SaveImport node_input | DeleteNode string | SyncConfig

type_synonym 's node_server = "'s \<Rightarrow> node_request \<Rightarrow> 's \<times> string option"

text \<open>\<open>request().then(() => api.nodes.sync())\<close>.\<close>

definition then_sync :: "'s node_server \<Rightarrow> node_request \<Rightarrow> 's \<Rightarrow> 's \<times> string option" where
  "then_sync server request st =
     (case server st request of (st', Some e) \<Rightarrow> (st', Some e) | (st', None) \<Rightarrow> server st' SyncConfig)"

subsection \<open>The editor of a node\<close>

record node_editor =
  ne_tag :: string
  ne_type :: string
  ne_server :: string
  ne_port :: string
  ne_config :: string

definition ne_init :: "outbound_node \<Rightarrow> node_editor" where
  "ne_init node = \<lparr>ne_tag = nd_tag node, ne_type = nd_type node, ne_server = opt_text (nd_server node),
     ne_port = (case nd_port node of Some p \<Rightarrow> number_to_string p | None \<Rightarrow> []),
     ne_config = json_stringify (case nullish (nd_raw node) None of Some v \<Rightarrow> v | None \<Rightarrow> JObj [])\<rparr>"

text \<open>A text that is not JSON and the text \<open>null\<close> give \<open>null\<close>.\<close>

definition ne_parsed :: "node_editor \<Rightarrow> json" where
  "ne_parsed s = (case json_parse (ne_config s) of Some v \<Rightarrow> v | None \<Rightarrow> JNull)"

definition ne_disabled :: "node_editor \<Rightarrow> bool" where
  "ne_disabled s \<longleftrightarrow> ne_tag s = [] \<or> ne_type s = [] \<or> ne_parsed s = JNull"

definition ne_input :: "node_editor \<Rightarrow> node_input" where
  "ne_input s = \<lparr>ni_tag = ne_tag s, ni_type = ne_type s, ni_server = ne_server s,
     ni_port = string_to_number (ne_port s), ni_config = ne_parsed s\<rparr>"

definition ne_save :: "'s node_server \<Rightarrow> string \<Rightarrow> node_editor \<Rightarrow> 's \<Rightarrow> 's \<times> string option" where
  "ne_save server originalTag s st = (if ne_disabled s then (st, None) else then_sync server (UpdateNode originalTag (ne_input s)) st)"

subsection \<open>The import dialog\<close>

record import_result =
  ir_tag :: string
  ir_type :: string
  ir_server :: string
  ir_port :: jsnum
  ir_config :: json

record import_dialog =
  id_link :: string
  id_preview :: "import_result option"
  id_parsing :: "string option"

definition id_init :: import_dialog where
  "id_init = \<lparr>id_link = [], id_preview = None, id_parsing = None\<rparr>"

definition id_setLink :: "string \<Rightarrow> import_dialog \<Rightarrow> import_dialog" where
  "id_setLink link s = s\<lparr>id_link := link\<rparr>"

text \<open>A press of the parse button sends the link of that moment; while it is out the button is disabled.\<close>

definition id_parse :: "import_dialog \<Rightarrow> import_dialog" where
  "id_parse s = (if id_link s = [] \<or> id_parsing s \<noteq> None then s else s\<lparr>id_parsing := Some (id_link s)\<rparr>)"

definition id_answer :: "(string \<Rightarrow> import_result option) \<Rightarrow> import_dialog \<Rightarrow> import_dialog" where
  "id_answer parser s =
     (case id_parsing s of
        None \<Rightarrow> s
      | Some link \<Rightarrow> (case parser link of
            Some r \<Rightarrow> s\<lparr>id_parsing := None, id_preview := Some r\<rparr>
          | None \<Rightarrow> s\<lparr>id_parsing := None\<rparr>))"

definition id_request :: "import_dialog \<Rightarrow> node_request option" where
  "id_request s =
     map_option (\<lambda>p. SaveImport \<lparr>ni_tag = ir_tag p, ni_type = ir_type p, ni_server = ir_server p,
        ni_port = ir_port p, ni_config = ir_config p\<rparr>) (id_preview s)"

inductive id_reach :: "(string \<Rightarrow> import_result option) \<Rightarrow> string set \<Rightarrow> import_dialog \<Rightarrow> bool" for parser where
  id_open: "id_reach parser {} id_init"
| id_typed: "id_reach parser ls s \<Longrightarrow> id_reach parser ls (id_setLink link s)"
| id_pressed: "id_reach parser ls s \<Longrightarrow> id_reach parser (case id_parsing (id_parse s) of Some l \<Rightarrow> insert l ls | None \<Rightarrow> ls) (id_parse s)"
| id_answered: "id_reach parser ls s \<Longrightarrow> id_reach parser ls (id_answer parser s)"

subsection \<open>The imported nodes\<close>

record imported_card =
  ic_importing :: bool
  ic_editing :: "string option"

definition ic_saved :: "imported_card \<Rightarrow> imported_card" where
  "ic_saved s = s\<lparr>ic_importing := False, ic_editing := None\<rparr>"

definition ic_remove :: "'s node_server \<Rightarrow> string \<Rightarrow> 's \<Rightarrow> 's \<times> string option" where
  "ic_remove server tag st = then_sync server (DeleteNode tag) st"

subsection \<open>Confirmation\<close>

text \<open>Beside the state of the dialog, the number of actions that run.\<close>

record confirm_action =
  ca_open :: bool
  ca_pending :: bool
  ca_running :: nat

definition ca_init :: confirm_action where
  "ca_init = \<lparr>ca_open = False, ca_pending = False, ca_running = 0\<rparr>"

definition ca_setOpen :: "bool \<Rightarrow> confirm_action \<Rightarrow> confirm_action" where
  "ca_setOpen b s = s\<lparr>ca_open := b\<rparr>"

definition ca_confirm :: "confirm_action \<Rightarrow> confirm_action" where
  "ca_confirm s =
     (if \<not> ca_open s \<or> ca_pending s then s else s\<lparr>ca_pending := True, ca_running := Suc (ca_running s)\<rparr>)"

text \<open>An action ends: only its success closes the dialog.\<close>

definition ca_settle :: "bool \<Rightarrow> confirm_action \<Rightarrow> confirm_action" where
  "ca_settle ok s =
     (if ca_running s = 0 then s
      else s\<lparr>ca_open := (if ok then False else ca_open s), ca_pending := False, ca_running := ca_running s - 1\<rparr>)"

inductive ca_reach :: "confirm_action \<Rightarrow> bool" where
  ca_start: "ca_reach ca_init"
| ca_opened: "ca_reach s \<Longrightarrow> ca_reach (ca_setOpen b s)"
| ca_confirmed: "ca_reach s \<Longrightarrow> ca_reach (ca_confirm s)"
| ca_settled: "ca_reach s \<Longrightarrow> ca_reach (ca_settle ok s)"

subsection \<open>Lemmas\<close>

lemma js_unique_snoc: "js_unique (xs @ [x]) = (if x \<in> set xs then js_unique xs else js_unique xs @ [x])"
  by (induction xs) auto

lemma group_node_map_of:
  "map_of (group_node groups node) name =
     (if nd_source node = Some ''subscription'' \<and> subscription_name node = name
      then Some ((case map_of groups name of Some ns \<Rightarrow> ns | None \<Rightarrow> []) @ [node]) else map_of groups name)"
  by (auto simp: group_node_def AList.update_conv')

definition of_subscription :: "string \<Rightarrow> outbound_node list \<Rightarrow> outbound_node list" where
  "of_subscription name ns = filter (\<lambda>node. nd_source node = Some ''subscription'' \<and> subscription_name node = name) ns"

lemma groups_map_of:
  "map_of (foldl group_node [] ns) name = (if of_subscription name ns = [] then None else Some (of_subscription name ns))"
  by (induction ns rule: rev_induct) (auto simp: of_subscription_def group_node_map_of)

lemma groups_keys:
  "map fst (foldl group_node [] ns) = js_unique (map subscription_name (filter (\<lambda>node. nd_source node = Some ''subscription'') ns))"
proof (induction ns rule: rev_induct)
  case (snoc node ns)
  have "set (map fst (foldl group_node [] ns)) = set (map subscription_name (filter (\<lambda>node. nd_source node = Some ''subscription'') ns))"
    unfolding snoc.IH by simp
  then show ?case using snoc.IH
    by (auto simp: group_node_def update_keys js_unique_snoc simp del: set_map)
qed simp

lemma test_inputs_node: "nodeTestInputs [node] = (if testControls_available node then map (the \<circ> nodeTestInput node) nodeTestTypes else [])"
  by (simp add: nodeTestInputs_def nodeTestInput_def testControls_available_def nodeTestTypes_def)

lemma then_sync_fails: "snd (server st r) \<noteq> None \<Longrightarrow> then_sync server r st = server st r"
  by (cases "server st r") (auto simp: then_sync_def split: option.splits)

definition ca_inv :: "confirm_action \<Rightarrow> bool" where
  "ca_inv s \<longleftrightarrow> ca_running s = (if ca_pending s then 1 else 0)"

lemma ca_reach_inv: "ca_reach s \<Longrightarrow> ca_inv s"
  by (induction rule: ca_reach.induct)
     (auto simp: ca_inv_def ca_init_def ca_setOpen_def ca_confirm_def ca_settle_def split: if_splits)

lemma id_reach_preview:
  "id_reach parser ls s \<Longrightarrow> (\<forall>l. id_parsing s = Some l \<longrightarrow> l \<in> ls) \<and> (\<forall>p. id_preview s = Some p \<longrightarrow> (\<exists>l\<in>ls. parser l = Some p))"
  by (induction rule: id_reach.induct)
     (auto simp: id_init_def id_setLink_def id_parse_def id_answer_def split: option.splits if_splits)

text \<open>A server that keeps the tags of its nodes and whose synchronisation fails.\<close>

definition tag_server :: "string list node_server" where
  "tag_server st r =
     (case r of
        UpdateNode t i \<Rightarrow> if t \<in> set st then (ni_tag i # filter (\<lambda>u. u \<noteq> t) st, None) else (st, Some ''node not found'')
      | SyncConfig \<Rightarrow> (st, Some ''sync failed'')
      | _ \<Rightarrow> (st, None))"

subsection \<open>Properties\<close>

text \<open>
  C22: The page groups the nodes of subscriptions by name: each group holds exactly the nodes of its
  name in their order, the groups follow the first node of each, and no group is empty. The keys of
  the sections differ, unless one subscription is called \<open>subscription\<close> and nodes without a name exist.
\<close>

theorem groupSubscriptions_exact:
  "map_of (groupSubscriptions ns) name =
      (let g = filter (\<lambda>node. nd_source node = Some ''subscription'' \<and> subscription_name node = name) ns
       in if g = [] then None else Some g)
    \<and> map fst (groupSubscriptions ns) = js_unique (map subscription_name (filter (\<lambda>node. nd_source node = Some ''subscription'') ns))
    \<and> distinct (map fst (groupSubscriptions ns))
    \<and> (distinct (map (subscription_key \<circ> fst) (groupSubscriptions ns))
       \<longleftrightarrow> \<not> ([] \<in> set (map fst (groupSubscriptions ns)) \<and> ''subscription'' \<in> set (map fst (groupSubscriptions ns))))"
proof -
  let ?g = "groupSubscriptions ns"
  have keys: "map fst ?g = js_unique (map subscription_name (filter (\<lambda>node. nd_source node = Some ''subscription'') ns))"
    unfolding groupSubscriptions_def by (rule groups_keys)
  have d: "distinct (map fst ?g)" unfolding keys by (rule distinct_js_unique)
  have "distinct (map subscription_key xs) \<longleftrightarrow> \<not> ([] \<in> set xs \<and> ''subscription'' \<in> set xs)" if "distinct xs" for xs
    using that by (auto simp: distinct_map inj_on_def subscription_key_def)
  from this [OF d] have k: "distinct (map (subscription_key \<circ> fst) ?g)
      \<longleftrightarrow> \<not> ([] \<in> set (map fst ?g) \<and> ''subscription'' \<in> set (map fst ?g))"
    by (simp add: comp_def del: set_map)
  have m: "map_of ?g name =
      (let g = filter (\<lambda>node. nd_source node = Some ''subscription'' \<and> subscription_name node = name) ns
       in if g = [] then None else Some g)"
    unfolding groupSubscriptions_def groups_map_of of_subscription_def Let_def by (rule refl)
  show ?thesis by (intro conjI m keys d k)
qed

text \<open>
  The editor of a node, opened and saved unchanged, sends the node as it is, with the empty text
  for a missing server and zero for a missing port; and what is saved is never a configuration that
  is not JSON, nor one without a tag or a type.
\<close>

lemma node_editor_roundtrip:
  assumes "nd_raw node = Some raw" and "json_plain raw" and "raw \<noteq> JNull" and "nd_tag node \<noteq> []" and "nd_type node \<noteq> []"
    and "nd_port node = Some (Fin (of_int p)) \<and> 0 \<le> p \<and> p < 65536 \<or> nd_port node = None \<and> p = 0"
  shows "\<not> ne_disabled (ne_init node)
    \<and> ne_input (ne_init node) = \<lparr>ni_tag = nd_tag node, ni_type = nd_type node, ni_server = opt_text (nd_server node),
         ni_port = Fin (of_int p), ni_config = raw\<rparr>
    \<and> (fst (ne_save server t s st) \<noteq> st \<longrightarrow>
         json_parse (ne_config s) = Some (ni_config (ne_input s)) \<and> ni_config (ne_input s) \<noteq> JNull
         \<and> ni_tag (ne_input s) \<noteq> [] \<and> ni_type (ne_input s) \<noteq> [])"
proof -
  have port: "string_to_number (ne_port (ne_init node)) = Fin (of_int p)"
    using assms(6) string_to_number_to_string_nat [of p]
    by (auto simp: ne_init_def string_to_number_def js_trim_def js_trimStart_def)
  have parsed: "ne_parsed (ne_init node) = raw"
    using assms(1-3) by (cases raw) (simp_all add: ne_parsed_def ne_init_def nullish_def json_parse_stringify)
  have "\<not> ne_disabled s" if "fst (ne_save server t s st) \<noteq> st"
    using that by (auto simp: ne_save_def)
  moreover have "json_parse (ne_config s) = Some (ne_parsed s)" if "\<not> ne_disabled s"
    using that by (auto simp: ne_disabled_def ne_parsed_def split: option.splits)
  ultimately have save: "fst (ne_save server t s st) \<noteq> st \<longrightarrow>
         json_parse (ne_config s) = Some (ni_config (ne_input s)) \<and> ni_config (ne_input s) \<noteq> JNull
         \<and> ni_tag (ne_input s) \<noteq> [] \<and> ni_type (ne_input s) \<noteq> []"
    by (auto simp: ne_input_def ne_disabled_def)
  show ?thesis using save port parsed assms(3,4,5) by (simp add: ne_input_def ne_disabled_def) (simp add: ne_init_def)
qed

lemma node_editor_roundtrip_example:
  "ni_config (ne_input (ne_init \<lparr>nd_tag = ''a'', nd_type = ''socks'', nd_server = None, nd_port = Some (Fin (of_int 80)),
     nd_raw = Some (JObj [(''udp'', JBool True)]), nd_source = None, nd_source_name = None\<rparr>)) = JObj [(''udp'', JBool True)]"
proof -
  let ?n = "\<lparr>nd_tag = ''a'', nd_type = ''socks'', nd_server = None, nd_port = Some (Fin (of_int 80)),
     nd_raw = Some (JObj [(''udp'', JBool True)]), nd_source = None, nd_source_name = None\<rparr>"
  show ?thesis
    using node_editor_roundtrip [of ?n "JObj [(''udp'', JBool True)]" 80 tag_server "''a''" "ne_init ?n" "[]"]
    by simp
qed

text \<open>
  C25: When an editor renames a node and the synchronisation that follows fails, the dialog stays open but
  no save from it can succeed any more: it goes on asking for the old tag, which the server has
  removed, whatever is edited. A node whose tag is unchanged can be saved again.
\<close>

theorem node_editor_retry:
  assumes unknown: "\<And>st t i. \<not> knows st t \<Longrightarrow> snd (server st (UpdateNode t i)) \<noteq> None \<and> fst (server st (UpdateNode t i)) = st"
    and stored: "\<And>st t i. snd (server st (UpdateNode t i)) = None \<Longrightarrow> knows (fst (server st (UpdateNode t i))) u
      \<longleftrightarrow> u = ni_tag i \<or> u \<noteq> t \<and> knows st u"
    and sync: "\<And>st. knows (fst (server st SyncConfig)) u = knows st u"
    and failed: "snd (server st (UpdateNode u (ne_input s))) = None" "snd (ne_save server u s st) \<noteq> None"
  shows "(ne_tag s \<noteq> u \<longrightarrow>
      (\<forall>s'. \<not> ne_disabled s' \<longrightarrow> snd (ne_save server u s' (fst (ne_save server u s st))) \<noteq> None
         \<and> fst (ne_save server u s' (fst (ne_save server u s st))) = fst (ne_save server u s st)))
    \<and> (ne_tag s = u \<longrightarrow> knows (fst (ne_save server u s st)) u)"
proof -
  let ?m = "server st (UpdateNode u (ne_input s))" and ?st' = "fst (ne_save server u s st)"
  have en: "\<not> ne_disabled s" using failed(2) by (auto simp: ne_save_def)
  then have st': "?st' = fst (server (fst ?m) SyncConfig)"
    using failed(1) by (cases ?m) (simp add: ne_save_def then_sync_def)
  have "knows ?st' u \<longleftrightarrow> u = ne_tag s"
    unfolding st' sync using stored [OF failed(1)] by (auto simp: ne_input_def)
  moreover have "ne_save server u s' ?st' = server ?st' (UpdateNode u (ne_input s'))"
    if "\<not> ne_disabled s'" "\<not> knows ?st' u" for s'
    using that unknown by (simp add: ne_save_def then_sync_fails)
  ultimately show ?thesis using unknown by auto
qed

theorem node_editor_retry_witness:
  "snd (ne_save tag_server ''a'' \<lparr>ne_tag = ''b'', ne_type = ''t'', ne_server = [], ne_port = [], ne_config = ''true''\<rparr>
     (fst (ne_save tag_server ''a'' \<lparr>ne_tag = ''b'', ne_type = ''t'', ne_server = [], ne_port = [], ne_config = ''true''\<rparr> [''a'']))) \<noteq> None"
proof -
  let ?s = "\<lparr>ne_tag = ''b'', ne_type = ''t'', ne_server = [], ne_port = [], ne_config = ''true''\<rparr>"
  have en: "\<not> ne_disabled ?s"
  proof -
    have "json_parse ''true'' = Some (JBool True)" by code_simp
    then show ?thesis by (simp add: ne_disabled_def ne_parsed_def)
  qed
  have unknown: "snd (tag_server st (UpdateNode t i)) \<noteq> None \<and> fst (tag_server st (UpdateNode t i)) = st"
    if "\<not> t \<in> set st" for st t i
    using that by (simp add: tag_server_def)
  have stored: "''a'' \<in> set (fst (tag_server st (UpdateNode t i))) \<longleftrightarrow> ''a'' = ni_tag i \<or> ''a'' \<noteq> t \<and> ''a'' \<in> set st"
    if "snd (tag_server st (UpdateNode t i)) = None" for st t i
    using that by (auto simp: tag_server_def split: if_splits)
  have sync: "''a'' \<in> set (fst (tag_server st SyncConfig)) \<longleftrightarrow> ''a'' \<in> set st" for st
    by (simp add: tag_server_def)
  have first: "snd (tag_server [''a''] (UpdateNode ''a'' (ne_input ?s))) = None" by (simp add: tag_server_def)
  have failed: "snd (ne_save tag_server ''a'' ?s [''a'']) \<noteq> None"
    using en by (simp add: ne_save_def then_sync_def tag_server_def)
  from node_editor_retry [of "\<lambda>st t. t \<in> set st", OF unknown stored sync first failed] en
  show ?thesis by simp
qed

text \<open>
  What the import dialog saves is always the server's answer to a link that was sent; but it
  need not be the link in the input: editing the link, and even a parse that fails, keep the node
  parsed before ready to be saved.
\<close>

lemma import_saves_answered:
  assumes "id_reach parser sent s" and "id_request s = Some r"
  shows "(\<exists>link\<in>sent. \<exists>p. parser link = Some p \<and> id_preview s = Some p
        \<and> r = SaveImport \<lparr>ni_tag = ir_tag p, ni_type = ir_type p, ni_server = ir_server p, ni_port = ir_port p, ni_config = ir_config p\<rparr>)
    \<and> id_request (id_setLink link s) = Some r
    \<and> (id_parsing s = None \<and> parser link = None \<longrightarrow>
         id_request (id_answer parser (id_parse (id_setLink link s))) = Some r)"
proof -
  obtain p where p: "id_preview s = Some p"
    "r = SaveImport \<lparr>ni_tag = ir_tag p, ni_type = ir_type p, ni_server = ir_server p, ni_port = ir_port p, ni_config = ir_config p\<rparr>"
    using assms(2) by (auto simp: id_request_def)
  then obtain l where "l \<in> sent" "parser l = Some p" using id_reach_preview [OF assms(1)] by blast
  moreover have "id_request (id_setLink link s) = Some r" using assms(2) by (simp add: id_request_def id_setLink_def)
  moreover have "id_request (id_answer parser (id_parse (id_setLink link s))) = Some r"
    if "id_parsing s = None" "parser link = None"
    using that assms(2) by (simp add: id_request_def id_setLink_def id_parse_def id_answer_def)
  ultimately show ?thesis using p by blast
qed

lemma import_saves_answered_witness:
  "map_option (\<lambda>r. case r of SaveImport i \<Rightarrow> ni_tag i | _ \<Rightarrow> [])
     (id_request (id_setLink ''b'' (id_answer (\<lambda>l. if l = ''a'' then Some \<lparr>ir_tag = ''n'', ir_type = ''ss'', ir_server = ''h'',
        ir_port = Fin 1, ir_config = JObj []\<rparr> else None) (id_parse (id_setLink ''a'' id_init))))) = Some ''n''"
proof -
  let ?p = "\<lparr>ir_tag = ''n'', ir_type = ''ss'', ir_server = ''h'', ir_port = Fin 1, ir_config = JObj []\<rparr>"
  let ?parser = "\<lambda>l. if l = ''a'' then Some ?p else None"
  let ?s = "id_answer ?parser (id_parse (id_setLink ''a'' id_init))"
  obtain sent where r: "id_reach ?parser sent ?s"
    using id_answered [OF id_pressed [OF id_typed [OF id_open]]] by blast
  have "id_request ?s = Some (SaveImport \<lparr>ni_tag = ''n'', ni_type = ''ss'', ni_server = ''h'', ni_port = Fin 1, ni_config = JObj []\<rparr>)"
    by (simp add: id_request_def id_answer_def id_parse_def id_setLink_def id_init_def)
  from import_saves_answered [OF r this, of "''b''"] show ?thesis by simp
qed

text \<open>
  An action that asks for confirmation runs at most once at a time, also when its dialog is closed and
  opened again meanwhile; a failure leaves the dialog as it is, ready for another try.
\<close>

lemma confirm_action_single:
  assumes "ca_reach s"
  shows "ca_running s \<le> 1 \<and> (ca_pending s \<longleftrightarrow> ca_running s = 1) \<and> (ca_pending s \<longrightarrow> ca_confirm s = s)
    \<and> (ca_pending s \<longrightarrow> ca_settle False s = s\<lparr>ca_pending := False, ca_running := 0\<rparr>
         \<and> ca_settle True s = ca_init
         \<and> (ca_open s \<longrightarrow> ca_confirm (ca_settle False s) = s))"
  using ca_reach_inv [OF assms] by (auto simp: ca_inv_def ca_confirm_def ca_settle_def ca_init_def)

lemma confirm_action_single_witness: "ca_running (ca_confirm (ca_setOpen True ca_init)) \<le> 1"
  using confirm_action_single [OF ca_confirmed [OF ca_opened [OF ca_start]]] by simp

end
