(* ===== verification/Settings.thy ===== *)
theory Settings
  imports Subscriptions Api
begin

text \<open>
  The settings: the cards of \<open>features/settings\<close> and the preferences of the panel
  (\<open>features/preferences/preferences-provider.tsx\<close>). The server is a parameter through its answers.
\<close>

subsection \<open>Preferences\<close>

record provider =
  pv_preferences :: preferences
  pv_storage :: web_storage
  pv_dark :: bool

definition applyTheme :: "bool \<Rightarrow> theme \<Rightarrow> bool" where
  "applyTheme prefersDark th = (th = Dark \<or> (th = System \<and> prefersDark))"

text \<open>The effect of a change of the preferences; \<open>prefersDark\<close> is what the platform says then.\<close>

definition provider_effect :: "bool \<Rightarrow> provider \<Rightarrow> provider" where
  "provider_effect prefersDark s =
     s\<lparr>pv_dark := applyTheme prefersDark (pr_theme (pv_preferences s)), pv_storage := preferences_set (pv_preferences s) (pv_storage s)\<rparr>"

definition provider_mount :: "bool \<Rightarrow> web_storage \<Rightarrow> provider" where
  "provider_mount prefersDark st = provider_effect prefersDark \<lparr>pv_preferences = preferences_get st, pv_storage = st, pv_dark = False\<rparr>"

datatype preference_change = SetTheme theme | SetLanguage language | SetMinimumLogLevel log_threshold

fun change_preferences :: "preference_change \<Rightarrow> preferences \<Rightarrow> preferences" where
  "change_preferences (SetTheme v) p = p\<lparr>pr_theme := v\<rparr>"
| "change_preferences (SetLanguage v) p = p\<lparr>pr_language := v\<rparr>"
| "change_preferences (SetMinimumLogLevel v) p = p\<lparr>pr_minimumLogLevel := v\<rparr>"

definition provider_change :: "bool \<times> preference_change \<Rightarrow> provider \<Rightarrow> provider" where
  "provider_change ev s = (case ev of (prefersDark, c) \<Rightarrow>
     provider_effect prefersDark (s\<lparr>pv_preferences := change_preferences c (pv_preferences s)\<rparr>))"

text \<open>A toggle group gives the values pressed; when the pressed one is released there is none.\<close>

definition toggle_group_change :: "('a \<Rightarrow> preference_change) \<Rightarrow> 'a list \<Rightarrow> preference_change option" where
  "toggle_group_change setter value = (case value of [] \<Rightarrow> None | v # _ \<Rightarrow> Some (setter v))"

subsection \<open>The account\<close>

record account_card =
  ac_current :: string
  ac_new :: string
  ac_secret :: string

definition rotate_disabled :: "account_card \<Rightarrow> bool" where
  "rotate_disabled s \<longleftrightarrow> ac_current s = [] \<or> length (ac_new s) < 8"

definition rotateJWT_disabled :: "account_card \<Rightarrow> bool" where
  "rotateJWT_disabled s \<longleftrightarrow> ac_secret s = []"

text \<open>A request whose success logs out; \<open>True\<close> when it succeeded.\<close>

definition request_then_clear :: "(string \<Rightarrow> jsnum) \<Rightarrow> jsnum \<Rightarrow> string + response \<Rightarrow> auth \<Rightarrow> auth \<times> bool" where
  "request_then_clear parse now fetched a =
     (case auth_request parse now fetched a of (a', Inl e, _) \<Rightarrow> (a', False) | (a', Inr v, _) \<Rightarrow> (auth_clear a', True))"

definition account_rotate :: "(string \<Rightarrow> jsnum) \<Rightarrow> jsnum \<Rightarrow> string + response \<Rightarrow> auth \<times> account_card \<Rightarrow> auth \<times> account_card" where
  "account_rotate parse now fetched s =
     (if rotate_disabled (snd s) then s
      else (fst (request_then_clear parse now fetched (fst s)), (snd s)\<lparr>ac_current := [], ac_new := []\<rparr>))"

definition account_rotateJWT :: "(string \<Rightarrow> jsnum) \<Rightarrow> jsnum \<Rightarrow> string + response \<Rightarrow> auth \<times> account_card \<Rightarrow> auth \<times> account_card" where
  "account_rotateJWT parse now fetched s =
     (if rotateJWT_disabled (snd s) then s
      else (fst (request_then_clear parse now fetched (fst s)), (snd s)\<lparr>ac_secret := []\<rparr>))"

subsection \<open>Autostart\<close>

text \<open>
  The switch changes at once and falls back to what it showed before when its request fails. A request that
  is out carries the value sent and the value to fall back to; the server takes a value when
  the request succeeds.
\<close>

record autostart =
  as_shown :: bool
  as_server :: bool
  as_requests :: "(bool \<times> bool) list"

definition as_init :: "bool \<Rightarrow> autostart" where
  "as_init enabled = \<lparr>as_shown = enabled, as_server = enabled, as_requests = []\<rparr>"

definition saveAutostart :: "bool \<Rightarrow> autostart \<Rightarrow> autostart" where
  "saveAutostart checked s = s\<lparr>as_shown := checked, as_requests := as_requests s @ [(checked, as_shown s)]\<rparr>"

text \<open>A press of the switch.\<close>

definition as_press :: "autostart \<Rightarrow> autostart" where
  "as_press s = saveAutostart (\<not> as_shown s) s"

text \<open>The request at position \<open>i\<close> ends.\<close>

definition as_settle :: "nat \<Rightarrow> bool \<Rightarrow> autostart \<Rightarrow> autostart" where
  "as_settle i ok s =
     (if length (as_requests s) \<le> i then s
      else (let (checked, previous) = as_requests s ! i; s' = s\<lparr>as_requests := remove_at i (as_requests s)\<rparr>
            in if ok then s'\<lparr>as_server := checked\<rparr> else s'\<lparr>as_shown := previous\<rparr>))"

text \<open>Presses one after the other, each settled before the next.\<close>

definition as_serial :: "bool list \<Rightarrow> autostart \<Rightarrow> autostart" where
  "as_serial oks s = foldl (\<lambda>s ok. as_settle 0 ok (as_press s)) s oks"

subsection \<open>The speed test URL and the defaults of the URL test\<close>

definition testURL_init :: "string \<Rightarrow> probe_field" where
  "testURL_init url = probe_init False (resolveInitialSpeedTestURL url)"

definition saveTestURL_disabled :: "string \<Rightarrow> bool" where
  "saveTestURL_disabled testURL \<longleftrightarrow> js_trim testURL = []"

record defaults_card =
  dc_enabled :: bool
  dc_url :: string
  dc_interval :: string
  dc_tolerance :: string

definition dc_init :: "urltest_defaults \<Rightarrow> defaults_card" where
  "dc_init d = \<lparr>dc_enabled = ud_enabled d, dc_url = resolveInitialSpeedTestURL (ud_url d),
     dc_interval = ud_interval d, dc_tolerance = number_to_string (ud_tolerance d)\<rparr>"

definition dc_isInvalid :: "url_parser \<Rightarrow> defaults_card \<Rightarrow> bool" where
  "dc_isInvalid parse s \<longleftrightarrow>
     \<not> isHTTPURL parse (dc_url s) \<or> \<not> isPositiveDuration (dc_interval s) \<or> \<not> isTolerance (dc_tolerance s)"

definition dc_input :: "defaults_card \<Rightarrow> urltest_defaults" where
  "dc_input s = \<lparr>ud_enabled = dc_enabled s, ud_url = dc_url s, ud_interval = dc_interval s,
     ud_tolerance = string_to_number (dc_tolerance s)\<rparr>"

text \<open>A save: what is sent, and then whether the nodes are synchronised.\<close>

definition dc_save :: "url_parser \<Rightarrow> (urltest_defaults \<Rightarrow> string option) \<Rightarrow> defaults_card \<Rightarrow> urltest_defaults option \<times> bool" where
  "dc_save parse fails s =
     (if dc_isInvalid parse s then (None, False) else (Some (dc_input s), fails (dc_input s) = None))"

subsection \<open>Automatic updates of the rule sets\<close>

record ruleset_card =
  rc_enabled :: bool
  rc_interval :: string

definition rc_init :: "bool \<Rightarrow> string \<Rightarrow> ruleset_card" where
  "rc_init enabled interval = \<lparr>rc_enabled = enabled, rc_interval = (if interval = [] then ''24h'' else interval)\<rparr>"

text \<open>\<open>/^\d+(\.\d+)?(ns|us|...|h)$/\<close>: one duration and nothing else.\<close>

definition single_duration :: "string \<Rightarrow> bool" where
  "single_duration v \<longleftrightarrow> (case match_duration v of Some (num, scale, rest) \<Rightarrow> rest = [] | None \<Rightarrow> False)"

definition rc_invalid :: "ruleset_card \<Rightarrow> bool" where
  "rc_invalid s \<longleftrightarrow> js_trim (rc_interval s) = [] \<or> \<not> single_duration (js_trim (rc_interval s))"

definition rc_input :: "ruleset_card \<Rightarrow> bool \<times> string" where
  "rc_input s = (rc_enabled s, js_trim (rc_interval s))"

subsection \<open>Loading\<close>

datatype 'a query = Loading | Failed string | Loaded 'a

definition settingsPage_error :: "unit query list \<Rightarrow> string option option" where
  "settingsPage_error qs =
     (if Loading \<in> set qs then None
      else Some (case filter (\<lambda>q. case q of Failed e \<Rightarrow> True | _ \<Rightarrow> False) qs of Failed e # _ \<Rightarrow> Some e | _ \<Rightarrow> None))"

subsection \<open>Lemmas\<close>

lemma works_preferences_set [simp]: "storage_works (preferences_set p st) = storage_works st"
  by (simp add: preferences_set_def)

definition provider_inv :: "provider \<Rightarrow> bool" where
  "provider_inv s \<longleftrightarrow> storage_works (pv_storage s) \<and> preferences_get (pv_storage s) = pv_preferences s"

lemma provider_inv_effect: "storage_works (pv_storage s) \<Longrightarrow> provider_inv (provider_effect d s)"
  by (simp add: provider_inv_def provider_effect_def preferences_read_back)

lemma provider_inv_change: "provider_inv s \<Longrightarrow> provider_inv (provider_change ev s)"
  by (cases ev) (simp add: provider_change_def provider_inv_effect provider_inv_def [of s])

lemma provider_inv_run: "provider_inv s \<Longrightarrow> provider_inv (foldl (\<lambda>s ev. provider_change ev s) s evs)"
  by (induction evs arbitrary: s) (simp_all add: provider_inv_change)

lemma serial_step: "as_requests s = [] \<Longrightarrow> as_shown s = as_server s \<Longrightarrow>
    as_settle 0 ok (as_press s) = s\<lparr>as_shown := (as_shown s \<noteq> ok), as_server := (as_server s \<noteq> ok)\<rparr>"
  by (cases s) (auto simp: as_settle_def as_press_def saveAutostart_def remove_at_def Let_def)

lemma duration_single: "match_duration v = Some (t, sc, []) \<Longrightarrow>
    isPositiveDuration v \<longleftrightarrow> num_lt (Fin 0) (num_add (Fin 0) (num_mult (string_to_number t) sc))"
proof -
  assume m: "match_duration v = Some (t, sc, [])"
  have "v \<noteq> []" using match_duration_shorter [OF m] by auto
  moreover have "match_duration [] = None" by (simp add: match_duration_def Let_def)
  then have "duration_scan a [] = (a, [])" for a by (simp add: duration_scan.simps [of a "[]"])
  ultimately show ?thesis using m by (simp add: isPositiveDuration_def duration_scan.simps [of _ v])
qed

lemma duration_examples:
  "match_duration ''0h'' = Some (''0'', Fin 3600000, [])"
  "match_duration ''1h30m'' = Some (''1'', Fin 3600000, ''30m'')"
  "match_duration ''30m'' = Some (''30'', Fin 60000, [])"
  by (simp_all add: match_duration_def durationScales_def Let_def is_digit_def js_startsWith_def)

lemma positive_1h30m: "isPositiveDuration ''1h30m''"
proof -
  have n: "string_to_number ''1'' = Fin 1" "string_to_number ''30'' = Fin 30"
    using string_to_number_digits [of "''1''"] string_to_number_digits [of "''30''"] round_double_int [of 1] round_double_int [of 30]
    by (simp_all add: all_digits_def is_digit_def digits_value_def digit_of_def)
  have r: "round_double 3600000 = Fin 3600000" "round_double 1800000 = Fin 1800000" "round_double 5400000 = Fin 5400000"
    using round_double_int [of 3600000] round_double_int [of 1800000] round_double_int [of 5400000] by simp_all
  have "match_duration [] = None" by (simp add: match_duration_def Let_def)
  then show ?thesis using n r duration_examples(2,3)
    by (simp add: isPositiveDuration_def duration_scan.simps num_add_def num_mult_def num_neg_def num_abs_def num_signed_def num_lt_def doubleton_eq_iff)
qed

subsection \<open>Properties\<close>

text \<open>
  After any sequence of changes the storage holds exactly the preferences shown, so a page loaded anew
  starts with them; and the dark style follows the theme, and for the system theme what the
  platform preferred at the last change.
\<close>

lemma preferences_shown_stored:
  assumes "storage_works st"
  shows "preferences_get (pv_storage (foldl (\<lambda>s ev. provider_change ev s) (provider_mount d st) evs))
      = pv_preferences (foldl (\<lambda>s ev. provider_change ev s) (provider_mount d st) evs)
    \<and> pv_preferences (provider_mount d' (pv_storage (foldl (\<lambda>s ev. provider_change ev s) (provider_mount d st) evs)))
      = pv_preferences (foldl (\<lambda>s ev. provider_change ev s) (provider_mount d st) evs)
    \<and> pv_preferences (foldl (\<lambda>s ev. provider_change ev s) (provider_mount d st) evs)
      = foldl (\<lambda>p ev. change_preferences (snd ev) p) (preferences_get st) evs
    \<and> pv_dark (foldl (\<lambda>s ev. provider_change ev s) (provider_mount d st) evs)
      = applyTheme (last (d # map fst evs)) (pr_theme (foldl (\<lambda>p ev. change_preferences (snd ev) p) (preferences_get st) evs))"
proof -
  let ?run = "\<lambda>evs. foldl (\<lambda>s ev. provider_change ev s) (provider_mount d st) evs"
  have "provider_inv (provider_mount d st)" using assms by (simp add: provider_mount_def provider_inv_effect)
  then have "provider_inv (?run evs)" by (rule provider_inv_run)
  then have "preferences_get (pv_storage (?run evs)) = pv_preferences (?run evs)" by (simp add: provider_inv_def)
  moreover have "pv_preferences (?run evs) = foldl (\<lambda>p ev. change_preferences (snd ev) p) (preferences_get st) evs" for evs
    by (induction evs rule: rev_induct) (auto simp: provider_mount_def provider_effect_def provider_change_def split: prod.splits)
  moreover have "pv_dark (?run evs) = applyTheme (last (d # map fst evs)) (pr_theme (pv_preferences (?run evs)))"
    by (induction evs rule: rev_induct) (auto simp: provider_mount_def provider_effect_def provider_change_def split: prod.splits)
  ultimately show ?thesis by (simp add: provider_mount_def provider_effect_def)
qed

lemma preferences_shown_stored_example:
  "pv_dark (provider_change (True, SetTheme System)
     (provider_mount False \<lparr>ws_items = (\<lambda>k. None), ws_getThrows = False, ws_setThrows = False, ws_removeThrows = False\<rparr>))"
  using preferences_shown_stored [of "\<lparr>ws_items = (\<lambda>k. None), ws_getThrows = False, ws_setThrows = False, ws_removeThrows = False\<rparr>"
      False "[(True, SetTheme System)]" True]
  by (simp add: storage_works_def applyTheme_def)

text \<open>
  C31: Pressed once at a time, the autostart switch always ends at what the server has: each success
  changes both, each failure neither. But when it is pressed twice before the first request ends and
  both requests fail, the switch ends at the opposite of what the server has.
\<close>

theorem autostart_switch:
  "(case as_serial oks (as_init b) of s \<Rightarrow>
      as_shown s = as_server s \<and> as_requests s = [] \<and> as_server s = (b \<noteq> odd (length (filter (\<lambda>ok. ok) oks))))
    \<and> as_shown (as_settle 0 False (as_settle 0 False (as_press (as_press (as_init b))))) = (\<not> b)
    \<and> as_server (as_settle 0 False (as_settle 0 False (as_press (as_press (as_init b))))) = b
    \<and> as_requests (as_settle 0 False (as_settle 0 False (as_press (as_press (as_init b))))) = []"
proof -
  have "as_serial oks (as_init b) = (as_init (b \<noteq> odd (length (filter (\<lambda>ok. ok) oks))))"
  proof (induction oks rule: rev_induct)
    case (snoc ok oks)
    then show ?case by (auto simp: as_serial_def serial_step as_init_def)
  qed (simp add: as_serial_def as_init_def)
  then show ?thesis
    by (simp add: as_init_def as_settle_def as_press_def saveAutostart_def remove_at_def)
qed

text \<open>
  Any request that changes the password or the secret clears the inputs, and logs out when it
  succeeds. But it also logs out when the server answers 401, which is its answer to a
  current password that is wrong: a mistyped password ends the session.
\<close>

lemma account_rotate_outcome:
  assumes "\<not> rotate_disabled c"
  shows "snd (account_rotate parse now fetched (a, c)) = c\<lparr>ac_current := [], ac_new := []\<rparr>
    \<and> ((\<exists>v. fst (apiRequest fetched) = Inr v) \<longrightarrow> au_session (fst (account_rotate parse now fetched (a, c))) = None)
    \<and> (au_session (fst (account_rotate parse now fetched (a, c))) =
        (if (\<exists>v. fst (apiRequest fetched) = Inr v) \<or> snd (apiRequest fetched) then None else au_session a))
    \<and> (\<forall>r. fetched = Inr r \<and> rp_status r = 401 \<and> rp_text r = [] \<longrightarrow> au_session (fst (account_rotate parse now fetched (a, c))) = None)"
  using assms
  by (auto simp: account_rotate_def request_then_clear_def auth_request_def auth_clear_def Let_def case_prod_beta
      apiRequest_def apiRequestEnvelope_def parseResponse_def resp_ok_def split: sum.splits)

lemma account_rotate_outcome_witness:
  "au_session (fst (account_rotate (\<lambda>e. NaN) (Fin 0) (Inr \<lparr>rp_status = 401, rp_statusText = [], rp_text = []\<rparr>)
     (\<lparr>au_session = Some \<lparr>sn_token = ''t'', sn_expiresAt = []\<rparr>,
       au_storage = \<lparr>ws_items = (\<lambda>k. None), ws_getThrows = False, ws_setThrows = False, ws_removeThrows = False\<rparr>\<rparr>,
      \<lparr>ac_current = ''a'', ac_new = ''12345678'', ac_secret = []\<rparr>))) = None"
proof -
  have "\<not> rotate_disabled \<lparr>ac_current = ''a'', ac_new = ''12345678'', ac_secret = []\<rparr>" by (simp add: rotate_disabled_def)
  from account_rotate_outcome [OF this, THEN conjunct2, THEN conjunct2, THEN conjunct2] show ?thesis by simp
qed

text \<open>
  The interval of the rule set updates is one duration, while the other settings take a sequence
  and require it to be positive: a single duration is accepted by both exactly when it is not
  zero, \<open>0h\<close> is accepted only here, and \<open>1h30m\<close>, which the server takes, only there, so that a card that shows
  it cannot be saved.
\<close>

lemma ruleset_interval_single:
  assumes "match_duration v = Some (t, sc, [])"
  shows "single_duration v
    \<and> (isPositiveDuration v \<longleftrightarrow> num_lt (Fin 0) (num_add (Fin 0) (num_mult (string_to_number t) sc)))
    \<and> \<not> rc_invalid (rc_init enabled ''0h'')
    \<and> isPositiveDuration ''1h30m'' \<and> rc_invalid (rc_init enabled ''1h30m'')"
proof -
  have "js_trim ''0h'' = ''0h''" "js_trim ''1h30m'' = ''1h30m''" by code_simp+
  then show ?thesis using assms duration_single [OF assms] positive_1h30m duration_examples
    by (simp add: single_duration_def rc_invalid_def rc_init_def)
qed

lemma ruleset_interval_single_witness: "single_duration ''30m'' \<and> \<not> rc_invalid (rc_init True ''0h'')"
  using ruleset_interval_single [OF duration_examples(3), of True] by simp

text \<open>
  The card of the URL test defaults sends back what it was given, with the default URL for an empty one,
  when it accepts it; and what it sends has a web address, a positive interval and a tolerance
  that is an integer of sixteen bits. Only after the server took it are the nodes synchronised.
\<close>

lemma defaults_card_saves:
  assumes "ud_tolerance d = Fin (of_int n)" and "0 \<le> n" and "n \<le> 65535"
  shows "dc_input (dc_init d) = d\<lparr>ud_url := resolveInitialSpeedTestURL (ud_url d)\<rparr>
    \<and> (fst (dc_save parse fails s) = Some sent \<longrightarrow>
        isHTTPURL parse (ud_url sent) \<and> isPositiveDuration (ud_interval sent)
        \<and> num_isInteger (ud_tolerance sent) \<and> num_le (Fin 0) (ud_tolerance sent) \<and> num_le (ud_tolerance sent) (Fin 65535))
    \<and> (snd (dc_save parse fails s) \<longrightarrow> \<not> dc_isInvalid parse s \<and> fails (dc_input s) = None)"
proof -
  have "string_to_number (number_to_string (ud_tolerance d)) = ud_tolerance d"
    using string_to_number_to_string_nat [of n] assms by simp
  then have "dc_input (dc_init d) = d\<lparr>ud_url := resolveInitialSpeedTestURL (ud_url d)\<rparr>"
    by (simp add: dc_input_def dc_init_def)
  then show ?thesis
    by (auto simp: dc_save_def dc_isInvalid_def dc_input_def isTolerance_def Let_def split: if_splits)
qed

lemma defaults_card_saves_witness:
  "dc_input (dc_init \<lparr>ud_enabled = True, ud_url = [], ud_interval = ''5m'', ud_tolerance = Fin (of_int 50)\<rparr>)
     = \<lparr>ud_enabled = True, ud_url = ''https://cp.cloudflare.com/'', ud_interval = ''5m'', ud_tolerance = Fin (of_int 50)\<rparr>"
proof -
  have "resolveInitialSpeedTestURL [] = ''https://cp.cloudflare.com/''"
    by (simp add: resolveInitialSpeedTestURL_def DEFAULT_SPEED_TEST_URL_def SPEED_TEST_URL_PRESETS_def)
  moreover have "dc_input (dc_init d) = d\<lparr>ud_url := resolveInitialSpeedTestURL (ud_url d)\<rparr>"
    if "ud_tolerance d = Fin (of_int 50)" for d
    using conjunct1 [OF defaults_card_saves [OF that]] by simp
  ultimately show ?thesis by simp
qed

end
