(* ===== verification/App_Shell.thy ===== *)
theory App_Shell
  imports Api
begin

text \<open>
  The shell of the application: the routes (\<open>app/router.tsx\<close>), the guards around the pages
  (\<open>app/protected-route.tsx\<close>, \<open>features/settings/default-password-gate.tsx\<close>), the navigation
  (\<open>app/navigation.ts\<close>, \<open>app/app-shell.tsx\<close>), the login page and the error boundary. The matcher of
  paths is the router library's: a parameter that gives the pattern a path matches.
\<close>

subsection \<open>Navigation\<close>

record nav_item =
  nv_label :: string
  nv_to :: string

record nav_group =
  ng_label :: string
  ng_items :: "nav_item list"

definition primaryItems :: "nav_item list" where
  "primaryItems = [\<lparr>nv_label = ''nav.dashboard'', nv_to = ''/dashboard''\<rparr>]"

definition navigationGroups :: "nav_group list" where
  "navigationGroups =
     [\<lparr>ng_label = ''nav.proxy'', ng_items =
        [\<lparr>nv_label = ''nav.inbounds'', nv_to = ''/proxy/inbounds''\<rparr>,
         \<lparr>nv_label = ''nav.outbounds'', nv_to = ''/proxy/outbounds''\<rparr>]\<rparr>,
      \<lparr>ng_label = ''nav.policy'', ng_items =
        [\<lparr>nv_label = ''nav.route'', nv_to = ''/policy/route''\<rparr>,
         \<lparr>nv_label = ''nav.dns'', nv_to = ''/policy/dns''\<rparr>]\<rparr>,
      \<lparr>ng_label = ''nav.resources'', ng_items =
        [\<lparr>nv_label = ''nav.nodes'', nv_to = ''/nodes''\<rparr>,
         \<lparr>nv_label = ''nav.subscriptions'', nv_to = ''/subscriptions''\<rparr>]\<rparr>,
      \<lparr>ng_label = ''nav.observability'', ng_items =
        [\<lparr>nv_label = ''nav.connections'', nv_to = ''/observability/connections''\<rparr>,
         \<lparr>nv_label = ''nav.logs'', nv_to = ''/observability/logs''\<rparr>]\<rparr>,
      \<lparr>ng_label = ''nav.advanced'', ng_items =
        [\<lparr>nv_label = ''nav.endpoints'', nv_to = ''/advanced/endpoints''\<rparr>,
         \<lparr>nv_label = ''nav.experimental'', nv_to = ''/advanced/experimental''\<rparr>,
         \<lparr>nv_label = ''nav.rawConfig'', nv_to = ''/advanced/raw''\<rparr>]\<rparr>]"

definition footerItems :: "nav_item list" where
  "footerItems = [\<lparr>nv_label = ''nav.settings'', nv_to = ''/settings''\<rparr>]"

definition find_item :: "nav_item list \<Rightarrow> string \<Rightarrow> nav_item option" where
  "find_item items pathname = find (\<lambda>item. nv_to item = pathname) items"

text \<open>The label of the group and of the item a path belongs to.\<close>

fun group_context :: "nav_group list \<Rightarrow> string \<Rightarrow> (string \<times> string) option" where
  "group_context [] pathname = None"
| "group_context (g # gs) pathname =
     (case find_item (ng_items g) pathname of
        Some item \<Rightarrow> Some (ng_label g, nv_label item)
      | None \<Rightarrow> group_context gs pathname)"

definition navigationContext :: "string \<Rightarrow> string \<times> string" where
  "navigationContext pathname =
     (case find_item primaryItems pathname of
        Some item \<Rightarrow> ([], nv_label item)
      | None \<Rightarrow> (case group_context navigationGroups pathname of
            Some c \<Rightarrow> c
          | None \<Rightarrow> (case find_item footerItems pathname of
                Some item \<Rightarrow> (''nav.settings'', nv_label item)
              | None \<Rightarrow> ([], []))))"

text \<open>What the header shows.\<close>

definition header_texts :: "(string \<Rightarrow> string) \<Rightarrow> string \<Rightarrow> string \<times> string" where
  "header_texts t pathname =
     (case navigationContext pathname of
        (grp, item) \<Rightarrow> (if grp \<noteq> [] then t grp else ''boxd'', if item \<noteq> [] then t item else ''boxd''))"

subsection \<open>Routes and guards\<close>

definition appRoutes :: "string list" where
  "appRoutes =
     [''/dashboard'', ''/proxy/inbounds'', ''/proxy/outbounds'', ''/policy/route'', ''/policy/dns'', ''/nodes'',
      ''/subscriptions'', ''/observability/connections'', ''/observability/logs'', ''/advanced/endpoints'',
      ''/advanced/experimental'', ''/advanced/raw'', ''/settings'']"

datatype screen = LoginScreen | PageScreen string bool | Redirect string

text \<open>The gate: \<open>forced\<close> only once the status is known; the page carries the banner then.\<close>

definition defaultPasswordGate :: "bool option \<Rightarrow> string \<Rightarrow> string \<Rightarrow> screen" where
  "defaultPasswordGate status pathname page =
     (let forced = status = Some True
      in if forced \<and> pathname \<noteq> ''/settings'' then Redirect ''/settings'' else PageScreen page forced)"

definition protectedRoute :: "session option \<Rightarrow> screen \<Rightarrow> screen" where
  "protectedRoute session outlet = (if session = None then Redirect ''/login'' else outlet)"

definition loginPage :: "session option \<Rightarrow> screen" where
  "loginPage session = (if session \<noteq> None then Redirect ''/dashboard'' else LoginScreen)"

definition appScreen :: "(string \<Rightarrow> string option) \<Rightarrow> session option \<Rightarrow> bool option \<Rightarrow> string \<Rightarrow> screen" where
  "appScreen matches session status pathname =
     (case matches pathname of
        None \<Rightarrow> Redirect ''/dashboard''
      | Some r \<Rightarrow> if r = ''/login'' then loginPage session
          else protectedRoute session (defaultPasswordGate status pathname r))"

text \<open>Following at most \<open>n\<close> redirections.\<close>

fun follow :: "nat \<Rightarrow> (string \<Rightarrow> string option) \<Rightarrow> session option \<Rightarrow> bool option \<Rightarrow> string \<Rightarrow> screen" where
  "follow 0 matches session status pathname = appScreen matches session status pathname"
| "follow (Suc n) matches session status pathname =
     (case appScreen matches session status pathname of
        Redirect p \<Rightarrow> follow n matches session status p
      | s \<Rightarrow> s)"

subsection \<open>Logging in and out\<close>

record login_values =
  lv_username :: string
  lv_password :: string

definition exn_message :: "api_exn \<Rightarrow> string" where
  "exn_message e = (case e of ApiError a \<Rightarrow> ae_message a | NetworkError m \<Rightarrow> m)"

text \<open>
  A submission of the form: \<open>validate\<close> is the schema's, \<open>server\<close> answers the request; the result is the
  session state, the error shown and where the page goes.
\<close>

definition login_submit ::
  "(login_values \<Rightarrow> login_values option) \<Rightarrow> (login_values \<Rightarrow> string + response) \<Rightarrow> (string \<Rightarrow> jsnum) \<Rightarrow> jsnum
    \<Rightarrow> login_values \<Rightarrow> auth \<times> string \<Rightarrow> (auth \<times> string) \<times> string option" where
  "login_submit validate server parse now values st =
     (case validate values of
        None \<Rightarrow> (st, None)
      | Some v \<Rightarrow>
          (let a' = auth_login parse now (server v) (fst st)
           in case fst (snd (auth_request parse now (server v) (fst st))) of
                Inl e \<Rightarrow> ((a', exn_message e), None)
              | Inr _ \<Rightarrow> ((a', []), Some ''/dashboard'')))"

text \<open>The logout button: the error of the request is shown, the session is gone all the same.\<close>

definition shell_logout :: "(string \<Rightarrow> jsnum) \<Rightarrow> jsnum \<Rightarrow> string + response \<Rightarrow> auth \<Rightarrow> auth \<times> string option" where
  "shell_logout parse now fetched a =
     (auth_logout parse now fetched a,
      case fst (snd (auth_request parse now fetched a)) of Inl e \<Rightarrow> Some (exn_message e) | Inr _ \<Rightarrow> None)"

subsection \<open>The error boundary\<close>

record error_boundary =
  eb_error :: "string option"

datatype boundary_event = Thrown string | Reset

definition eb_step :: "error_boundary \<Rightarrow> boundary_event \<Rightarrow> error_boundary" where
  "eb_step s ev = (case ev of Thrown e \<Rightarrow> s\<lparr>eb_error := Some e\<rparr> | Reset \<Rightarrow> s\<lparr>eb_error := None\<rparr>)"

definition eb_shows_children :: "error_boundary \<Rightarrow> bool" where
  "eb_shows_children s \<longleftrightarrow> eb_error s = None"

subsection \<open>Lemmas\<close>

lemma navigation_covers:
  "list_all (\<lambda>p. snd (navigationContext p) \<noteq> []) appRoutes"
  "map nv_to (primaryItems @ concat (map ng_items navigationGroups) @ footerItems) = appRoutes" "distinct appRoutes"
  by (code_simp)+

lemma find_item_None: "find_item items p = None \<longleftrightarrow> p \<notin> nv_to ` set items"
  by (auto simp: find_item_def find_None_iff)

lemma group_context_None: "group_context gs p = None \<longleftrightarrow> p \<notin> nv_to ` set (concat (map ng_items gs))"
proof (induction gs)
  case (Cons g gs)
  then show ?case using find_item_None [of "ng_items g" p]
    by (cases "find_item (ng_items g) p") (auto simp: image_Un)
qed simp

lemma auth_401:
  assumes "rp_text r = [] \<or> json_parse (rp_text r) \<noteq> None" and "rp_status r = 401"
  shows "au_session (fst (auth_request parse now (Inr r) a)) = None"
proof -
  have "snd (apiRequest (Inr r))"
    using assms by (auto simp: apiRequest_def apiRequestEnvelope_def parseResponse_def resp_ok_def Let_def split: option.splits)
  then show ?thesis by (simp add: auth_request_def auth_clear_def Let_def case_prod_beta)
qed

subsection \<open>Properties\<close>



text \<open>
  The menu and the router agree: the menu lists each page of the router once, in its order, and the
  header has a title for exactly the pages, with a group for all but the dashboard.
\<close>

lemma navigation_exact:
  "map nv_to (primaryItems @ concat (map ng_items navigationGroups) @ footerItems) = appRoutes \<and> distinct appRoutes
    \<and> (snd (navigationContext path) \<noteq> [] \<longleftrightarrow> path \<in> set appRoutes)"
proof -
  have "snd (navigationContext path) = []" if "path \<notin> set appRoutes"
  proof -
    have "path \<notin> nv_to ` set primaryItems" "path \<notin> nv_to ` set (concat (map ng_items navigationGroups))" "path \<notin> nv_to ` set footerItems"
      using that navigation_covers(2) by (metis UnCI image_Un set_append set_map)+
    then show ?thesis by (simp add: navigationContext_def find_item_None [THEN iffD2] group_context_None [THEN iffD2])
  qed
  then show ?thesis using navigation_covers by (auto simp: list_all_iff)
qed

text \<open>
  A login that the server accepts enters the dashboard with the session stored, and one that it refuses
  or that cannot be sent stays on the page with the reason; input the schema refuses sends nothing.
\<close>

lemma login_submit_outcome:
  assumes "storage_works (au_storage a)"
  shows "(validate v = None \<longrightarrow> login_submit validate server parse now v (a, e) = ((a, e), None))
    \<and> (validate v = Some w \<and> apiRequest (server w) = (Inl x, n) \<longrightarrow>
        snd (login_submit validate server parse now v (a, e)) = None
        \<and> snd (fst (login_submit validate server parse now v (a, e))) = exn_message x)
    \<and> (validate v = Some w \<and> apiRequest (server w) = (Inr (Some (JObj [(''token'', JStr t), (''expires_at'', JStr d)])), False) \<longrightarrow>
        (case login_submit validate server parse now v (a, e) of
           ((a', e'), goto) \<Rightarrow> goto = Some ''/dashboard'' \<and> e' = []
             \<and> au_session a' = Some \<lparr>sn_token = t, sn_expiresAt = d\<rparr>
             \<and> stored_session (au_storage a') = Some \<lparr>sn_token = t, sn_expiresAt = d\<rparr>))"
proof -
  have "storage_works (snd (session_get parse now (au_storage a)))" using session_get_stored [OF assms] by blast
  then have stored: "stored_session (session_set s (snd (session_get parse now (au_storage a)))) = Some s" for s
    by (rule stored_set)
  show ?thesis using stored
    by (auto simp: login_submit_def auth_login_def auth_request_def Let_def case_prod_beta obj_get_def)
qed

lemma login_submit_outcome_witness:
  "snd (fst (login_submit Some (\<lambda>v. Inl ''offline'') (\<lambda>e. NaN) (Fin 0) \<lparr>lv_username = ''u'', lv_password = ''p''\<rparr>
     (\<lparr>au_session = None, au_storage = \<lparr>ws_items = (\<lambda>k. None), ws_getThrows = False, ws_setThrows = False, ws_removeThrows = False\<rparr>\<rparr>, [])))
   = ''offline''"
  using login_submit_outcome [of "\<lparr>au_session = None, au_storage = \<lparr>ws_items = (\<lambda>k. None), ws_getThrows = False,
      ws_setThrows = False, ws_removeThrows = False\<rparr>\<rparr>" Some "\<lparr>lv_username = ''u'', lv_password = ''p''\<rparr>" "\<lambda>v. Inl ''offline''"
      "\<lambda>e. NaN" "Fin 0" "[]" "\<lparr>lv_username = ''u'', lv_password = ''p''\<rparr>" "NetworkError ''offline''" False]
  by (simp add: storage_works_def apiRequest_def apiRequestEnvelope_def exn_message_def)

end
