(* ===== verification/Endpoints.thy ===== *)
theory Endpoints
  imports Nodes Settings
begin

text \<open>
  The requests of the panel (\<open>lib/api/endpoints.ts\<close>): for each operation of the client its method,
  path and body. Parts of a path that come from data are encoded by \<open>encodeURIComponent\<close>, those of a query
  by \<open>URLSearchParams\<close>; both are modelled for characters below 256, in UTF-8.
\<close>

subsection \<open>Encoding\<close>

definition utf8 :: "char \<Rightarrow> nat list" where
  "utf8 c = (let n = code_of c in if n < 128 then [n] else [192 + n div 64, 128 + n mod 64])"

definition upper_hex :: "nat \<Rightarrow> char" where
  "upper_hex d = char_of (if d < 10 then 48 + d else 55 + d)"

definition escape_byte :: "nat \<Rightarrow> string" where
  "escape_byte n = [CHR 0x25, upper_hex (n div 16), upper_hex (n mod 16)]"

definition is_alnum :: "char \<Rightarrow> bool" where
  "is_alnum c \<longleftrightarrow> is_digit c \<or> (65 \<le> code_of c \<and> code_of c \<le> 90) \<or> (97 \<le> code_of c \<and> code_of c \<le> 122)"

text \<open>The characters \<open>encodeURIComponent\<close> keeps: letters, digits and \<open>- _ . ! ~ * ' ( )\<close>.\<close>

definition uri_unreserved :: "char \<Rightarrow> bool" where
  "uri_unreserved c \<longleftrightarrow> is_alnum c \<or> code_of c \<in> {45, 95, 46, 33, 126, 42, 39, 40, 41}"

definition uri_char :: "char \<Rightarrow> string" where
  "uri_char c = (if uri_unreserved c then [c] else concat (map escape_byte (utf8 c)))"

definition segment :: "string \<Rightarrow> string" where
  "segment value = concat (map uri_char value)"

definition query_char :: "char \<Rightarrow> string" where
  "query_char c =
     (if code_of c = 32 then ''+'' else if is_alnum c \<or> code_of c \<in> {42, 45, 46, 95} then [c]
      else concat (map escape_byte (utf8 c)))"

definition query_text :: "(string \<times> string) list \<Rightarrow> string" where
  "query_text kvs = js_join ''&'' (map (\<lambda>(k, v). concat (map query_char k) @ ''='' @ concat (map query_char v)) kvs)"

subsection \<open>Requests\<close>

record api_call =
  ap_method :: string
  ap_path :: string
  ap_body :: "json option"

text \<open>A request without options is a \<open>GET\<close>.\<close>

definition api_get :: "string \<Rightarrow> api_call" where
  "api_get path = \<lparr>ap_method = ''GET'', ap_path = path, ap_body = None\<rparr>"

definition api_json :: "string \<Rightarrow> string \<Rightarrow> json option \<Rightarrow> api_call" where
  "api_json path m body = \<lparr>ap_method = m, ap_path = path, ap_body = body\<rparr>"

definition obj_fields :: "(string \<times> json option) list \<Rightarrow> json" where
  "obj_fields kvs = JObj (concat (map (\<lambda>(k, v). case v of Some j \<Rightarrow> [(k, j)] | None \<Rightarrow> []) kvs))"

definition node_input_json :: "node_input \<Rightarrow> json" where
  "node_input_json i = JObj [(''tag'', JStr (ni_tag i)), (''type'', JStr (ni_type i)), (''server'', JStr (ni_server i)),
     (''port'', JNum (ni_port i)), (''config'', ni_config i)]"

definition test_input_json :: "test_input \<Rightarrow> json" where
  "test_input_json i = JObj [(''tag'', JStr (ti_tag i)), (''test_type'', JStr (ti_test_type i)),
     (''server'', JStr (ti_server i)), (''port'', JNum (ti_port i))]"

definition overrides_json :: "urltest_overrides \<Rightarrow> json" where
  "overrides_json r = obj_fields [(''enabled'', map_option JBool (uo_enabled r)), (''url'', map_option JStr (uo_url r)),
     (''interval'', map_option JStr (uo_interval r)), (''tolerance'', map_option JNum (uo_tolerance r))]"

text \<open>The dialog sends \<open>null\<close> for overrides that are inherited.\<close>

definition subscription_json :: "subscription_input \<Rightarrow> json" where
  "subscription_json i = JObj [(''name'', JStr (sp_name i)), (''url'', JStr (sp_url i)),
     (''interval_min'', JNum (sp_interval_min i)),
     (''urltest'', case sp_urltest i of Some r \<Rightarrow> overrides_json r | None \<Rightarrow> JNull)]"

definition defaults_json :: "urltest_defaults \<Rightarrow> json" where
  "defaults_json d = JObj [(''enabled'', JBool (ud_enabled d)), (''url'', JStr (ud_url d)),
     (''interval'', JStr (ud_interval d)), (''tolerance'', JNum (ud_tolerance d))]"

datatype api_config = ConfigGet | ConfigUpdate json | GetRaw | UpdateRaw json | InstallDNS | InstallRuleSets
  | RuleSetsStatus | UpdateRuleSets "json option" | RuleSetsAutoUpdate | SetRuleSetsAutoUpdate bool string
  | InstallOutbounds | InstallRoute | GetRouteRuleMetadata | UpdateRouteRuleMetadata json

fun config_call :: "api_config \<Rightarrow> api_call" where
  "config_call ConfigGet = api_get ''/api/config/''"
| "config_call (ConfigUpdate c) = api_json ''/api/config/'' ''PUT'' (Some c)"
| "config_call GetRaw = api_get ''/api/config/raw''"
| "config_call (UpdateRaw c) = api_json ''/api/config/raw'' ''PUT'' (Some c)"
| "config_call InstallDNS = api_json ''/api/config/dns/defaults'' ''POST'' None"
| "config_call InstallRuleSets = api_json ''/api/config/rule-sets/defaults'' ''POST'' None"
| "config_call RuleSetsStatus = api_get ''/api/config/rule-sets/status''"
| "config_call (UpdateRuleSets i) =
     api_json ''/api/config/rule-sets/update'' ''POST'' (Some (case i of Some v \<Rightarrow> v | None \<Rightarrow> JObj []))"
| "config_call RuleSetsAutoUpdate = api_get ''/api/config/rule-sets/auto-update''"
| "config_call (SetRuleSetsAutoUpdate e i) = api_json ''/api/config/rule-sets/auto-update'' ''PUT''
     (Some (JObj [(''enabled'', JBool e), (''interval'', JStr i)]))"
| "config_call InstallOutbounds = api_json ''/api/config/outbounds/defaults'' ''POST'' None"
| "config_call InstallRoute = api_json ''/api/config/route/defaults'' ''POST'' None"
| "config_call GetRouteRuleMetadata = api_get ''/api/config/route/rule-metadata''"
| "config_call (UpdateRouteRuleMetadata m) = api_json ''/api/config/route/rule-metadata'' ''PUT'' (Some m)"

datatype api_nodes = NodesList | NodesGet string | NodesUpdate string node_input | NodesDelete string | NodesGroups
  | NodesDelay string "string option" "jsnum option" | NodesTest test_input | NodesTestBatch "test_input list" nat
  | NodesResults | NodesSelect string string | NodesUrlTest string | NodesSync

text \<open>A timeout of zero and an empty URL are left out of the query.\<close>

definition delay_query :: "string option \<Rightarrow> jsnum option \<Rightarrow> string" where
  "delay_query url timeout =
     (let q = (if truthy_text url then [(''url'', the url)] else [])
            @ (if truthy_num timeout then [(''timeout'', number_to_string (the timeout))] else [])
      in if q = [] then [] else ''?'' @ query_text q)"

fun nodes_call :: "api_nodes \<Rightarrow> api_call" where
  "nodes_call NodesList = api_get ''/api/nodes/''"
| "nodes_call (NodesGet tag) = api_get (''/api/nodes/'' @ segment tag)"
| "nodes_call (NodesUpdate tag i) = api_json (''/api/nodes/'' @ segment tag) ''PUT'' (Some (node_input_json i))"
| "nodes_call (NodesDelete tag) = api_json (''/api/nodes/'' @ segment tag) ''DELETE'' None"
| "nodes_call NodesGroups = api_get ''/api/nodes/groups''"
| "nodes_call (NodesDelay tag url timeout) = api_get (''/api/nodes/'' @ segment tag @ ''/delay'' @ delay_query url timeout)"
| "nodes_call (NodesTest i) = api_json ''/api/nodes/test'' ''POST'' (Some (test_input_json i))"
| "nodes_call (NodesTestBatch items concurrency) = api_json ''/api/nodes/test-batch'' ''POST''
     (Some (JObj [(''items'', JArr (map test_input_json items)), (''concurrency'', JNum (Fin (of_nat concurrency)))]))"
| "nodes_call NodesResults = api_get ''/api/nodes/test-results''"
| "nodes_call (NodesSelect g tag) = api_json (''/api/nodes/selectors/'' @ segment g @ ''/select'') ''POST''
     (Some (JObj [(''tag'', JStr tag)]))"
| "nodes_call (NodesUrlTest g) = api_json (''/api/nodes/groups/'' @ segment g @ ''/urltest'') ''POST'' None"
| "nodes_call NodesSync = api_json ''/api/nodes/sync-config'' ''POST'' None"

datatype api_subscriptions = SubscriptionsList | SubscriptionsCreate subscription_input | SubscriptionsGet string
  | SubscriptionsUpdate string subscription_input | SubscriptionsDelete string | SubscriptionsRefresh string
  | SubscriptionsRefreshAll

fun subscriptions_call :: "api_subscriptions \<Rightarrow> api_call" where
  "subscriptions_call SubscriptionsList = api_get ''/api/subscriptions/''"
| "subscriptions_call (SubscriptionsCreate i) = api_json ''/api/subscriptions/'' ''POST'' (Some (subscription_json i))"
| "subscriptions_call (SubscriptionsGet i) = api_get (''/api/subscriptions/'' @ segment i)"
| "subscriptions_call (SubscriptionsUpdate i v) = api_json (''/api/subscriptions/'' @ segment i) ''PUT'' (Some (subscription_json v))"
| "subscriptions_call (SubscriptionsDelete i) = api_json (''/api/subscriptions/'' @ segment i) ''DELETE'' None"
| "subscriptions_call (SubscriptionsRefresh i) = api_json (''/api/subscriptions/'' @ segment i @ ''/refresh'') ''POST'' None"
| "subscriptions_call SubscriptionsRefreshAll = api_json ''/api/subscriptions/refresh-all'' ''POST'' None"

datatype api_settings = TestURL | SetTestURL string | UrlTestDefaults | SetURLTestDefaults urltest_defaults
  | Autostart | SetAutostart bool | Jwt | SetJWT string | Password | ChangePassword string string

fun settings_call :: "api_settings \<Rightarrow> api_call" where
  "settings_call TestURL = api_get ''/api/settings/url-test''"
| "settings_call (SetTestURL url) = api_json ''/api/settings/url-test'' ''PUT'' (Some (JObj [(''url'', JStr url)]))"
| "settings_call UrlTestDefaults = api_get ''/api/settings/urltest-defaults''"
| "settings_call (SetURLTestDefaults d) = api_json ''/api/settings/urltest-defaults'' ''PUT'' (Some (defaults_json d))"
| "settings_call Autostart = api_get ''/api/settings/kernel-autostart''"
| "settings_call (SetAutostart b) = api_json ''/api/settings/kernel-autostart'' ''PUT'' (Some (JObj [(''enabled'', JBool b)]))"
| "settings_call Jwt = api_get ''/api/settings/jwt-secret''"
| "settings_call (SetJWT s) = api_json ''/api/settings/jwt-secret'' ''PUT'' (Some (JObj [(''secret'', JStr s)]))"
| "settings_call Password = api_get ''/api/settings/password''"
| "settings_call (ChangePassword old new) = api_json ''/api/settings/password'' ''PUT''
     (Some (JObj [(''currentPassword'', JStr old), (''newPassword'', JStr new)]))"

datatype service_verb = VStart | VStop | VRestart

datatype api_misc = Login string string | Logout | ServiceStatus | ServiceDo service_verb | StatsHistory | CloseAll
  | CloseConnection string | ImportLink string | ImportSave node_input | Interfaces | RuntimeVersion | RuntimeMemory
  | RuntimeGC | FlushDNS | FlushFakeIP

fun misc_call :: "api_misc \<Rightarrow> api_call" where
  "misc_call (Login u p) = api_json ''/api/auth/login'' ''POST'' (Some (JObj [(''username'', JStr u), (''password'', JStr p)]))"
| "misc_call Logout = api_json ''/api/auth/logout'' ''POST'' None"
| "misc_call ServiceStatus = api_get ''/api/service/status''"
| "misc_call (ServiceDo v) = api_json (''/api/service/'' @
     (case v of VStart \<Rightarrow> ''start'' | VStop \<Rightarrow> ''stop'' | VRestart \<Rightarrow> ''restart'')) ''POST'' None"
| "misc_call StatsHistory = api_get ''/api/stats/traffic/history''"
| "misc_call CloseAll = api_json ''/api/stats/connections'' ''DELETE'' None"
| "misc_call (CloseConnection i) = api_json (''/api/stats/connections/'' @ segment i) ''DELETE'' None"
| "misc_call (ImportLink l) = api_json ''/api/import/link'' ''POST'' (Some (JObj [(''link'', JStr l)]))"
| "misc_call (ImportSave i) = api_json ''/api/import/save'' ''POST'' (Some (node_input_json i))"
| "misc_call Interfaces = api_get ''/api/network/interfaces''"
| "misc_call RuntimeVersion = api_get ''/api/runtime/version''"
| "misc_call RuntimeMemory = api_get ''/api/runtime/memory''"
| "misc_call RuntimeGC = api_json ''/api/runtime/gc'' ''POST'' None"
| "misc_call FlushDNS = api_json ''/api/runtime/dns/flush'' ''POST'' None"
| "misc_call FlushFakeIP = api_json ''/api/runtime/fakeip/flush'' ''POST'' None"

text \<open>The streams.\<close>

definition stats_paths :: "(string \<times> string) list" where
  "stats_paths = [(''traffic'', ''/api/stats/traffic''), (''logs'', ''/api/stats/logs''),
     (''appLogs'', ''/api/stats/app-logs''), (''connections'', ''/api/stats/connections'')]"

text \<open>The test of one node and of several, as the pages request them.\<close>

definition test_call :: "test_request \<Rightarrow> api_call option" where
  "test_call r =
     (case r of
        TestOne i \<Rightarrow> map_option (nodes_call \<circ> NodesTest) i
      | TestBatch is n \<Rightarrow> (if None \<in> set is then None else Some (nodes_call (NodesTestBatch (map the is) n))))"

subsection \<open>Lemmas\<close>

text \<open>The decoding of escapes with upper case digits, which undoes the encoding.\<close>

definition unhex :: "char \<Rightarrow> nat" where
  "unhex c = (if code_of c < 58 then code_of c - 48 else code_of c - 55)"

fun bytes_of :: "string \<Rightarrow> nat list" where
  "bytes_of [] = []"
| "bytes_of (c # cs) =
     (if c = CHR 0x25 then (case cs of a # b # r \<Rightarrow> (16 * unhex a + unhex b) # bytes_of r | _ \<Rightarrow> [])
      else code_of c # bytes_of cs)"

fun utf8_decode :: "nat list \<Rightarrow> string" where
  "utf8_decode [] = []"
| "utf8_decode (n # ns) =
     (if n < 128 then char_of n # utf8_decode ns
      else (case ns of m # r \<Rightarrow> char_of ((n - 192) * 64 + (m - 128)) # utf8_decode r | [] \<Rightarrow> []))"

definition decodeURIComponent :: "string \<Rightarrow> string" where
  "decodeURIComponent s = utf8_decode (bytes_of s)"

lemma unhex_upper: "d < 16 \<Longrightarrow> unhex (upper_hex d) = d \<and> upper_hex d \<noteq> CHR 0x25"
proof -
  have "list_all (\<lambda>d. unhex (upper_hex d) = d \<and> upper_hex d \<noteq> CHR 0x25) [0..<16]" by code_simp
  then show "d < 16 \<Longrightarrow> unhex (upper_hex d) = d \<and> upper_hex d \<noteq> CHR 0x25" by (simp add: list_all_iff)
qed

lemma bytes_escape: "n < 256 \<Longrightarrow> bytes_of (escape_byte n @ s) = n # bytes_of s"
  using unhex_upper [of "n div 16"] unhex_upper [of "n mod 16"] by (simp add: escape_byte_def less_mult_imp_div_less)

lemma utf8_bytes: "b \<in> set (utf8 c) \<Longrightarrow> b < 256"
proof -
  have "code_of c < 256" by (rule nat_of_char_less_256)
  moreover from this have "code_of c div 64 < 4" by (simp add: less_mult_imp_div_less)
  ultimately show "b \<in> set (utf8 c) \<Longrightarrow> b < 256" by (auto simp: utf8_def Let_def split: if_splits)
qed

lemma bytes_escapes: "\<forall>b\<in>set bs. b < 256 \<Longrightarrow> bytes_of (concat (map escape_byte bs) @ s) = bs @ bytes_of s"
  by (induction bs) (simp_all add: bytes_escape)

lemma unreserved_ascii: "uri_unreserved c \<Longrightarrow> code_of c < 128 \<and> c \<noteq> CHR 0x25"
  by (auto simp: uri_unreserved_def is_alnum_def is_digit_def)

lemma bytes_uri_char: "bytes_of (uri_char c @ s) = utf8 c @ bytes_of s"
  using unreserved_ascii [of c] utf8_bytes [of _ c]
  by (auto simp: uri_char_def bytes_escapes) (simp add: utf8_def)

lemma decode_utf8: "utf8_decode (utf8 c @ ns) = c # utf8_decode ns"
  by (simp add: utf8_def Let_def)

lemma decode_segment: "decodeURIComponent (segment s) = s"
proof -
  have "bytes_of (segment s) = concat (map utf8 s)"
    by (induction s) (simp_all add: segment_def bytes_uri_char)
  moreover have "utf8_decode (concat (map utf8 s)) = s" by (induction s) (simp_all add: decode_utf8)
  ultimately show ?thesis by (simp add: decodeURIComponent_def)
qed

definition path_char :: "char \<Rightarrow> bool" where
  "path_char c \<longleftrightarrow> uri_unreserved c \<or> c = CHR 0x25"

lemma upper_hex_alnum: "d < 16 \<Longrightarrow> is_alnum (upper_hex d)"
proof -
  have "list_all (\<lambda>d. is_alnum (upper_hex d)) [0..<16]" by code_simp
  then show "d < 16 \<Longrightarrow> is_alnum (upper_hex d)" by (simp add: list_all_iff)
qed

lemma segment_chars: "c \<in> set (segment s) \<Longrightarrow> path_char c"
proof -
  have "c \<in> set (escape_byte n) \<Longrightarrow> n < 256 \<Longrightarrow> path_char c" for n
    using upper_hex_alnum [of "n div 16"] upper_hex_alnum [of "n mod 16"]
    by (auto simp: escape_byte_def path_char_def uri_unreserved_def less_mult_imp_div_less)
  then show "c \<in> set (segment s) \<Longrightarrow> path_char c"
    using utf8_bytes by (auto simp: segment_def uri_char_def path_char_def split: if_splits)
qed

lemma segment_inject: "segment s = segment t \<longleftrightarrow> s = t"
  by (metis decode_segment)

lemma segment_id: "list_all uri_unreserved s \<Longrightarrow> segment s = s"
  by (induction s) (simp_all add: segment_def uri_char_def)

lemma segment_no_slash: "CHR ''/'' \<notin> set (segment s)" "CHR ''?'' \<notin> set (segment s)" "CHR ''#'' \<notin> set (segment s)"
  using segment_chars [of "CHR ''/''" s] segment_chars [of "CHR ''?''" s] segment_chars [of "CHR ''#''" s]
  by (auto simp: path_char_def uri_unreserved_def is_alnum_def is_digit_def)

lemma segment_eq: "list_all uri_unreserved u \<Longrightarrow> segment s = u \<longleftrightarrow> s = u"
  using segment_inject [of s u] by (simp add: segment_id)

subsection \<open>Properties\<close>


text \<open>
  What the pages ask to be tested is sent as it stands: the menu of an available node gives one
  request for a kind, or one batch with a test of each kind, never a missing input; the button of a
  section tests each kind of every node that has a server and a port, in order, and is disabled
  when there is none.
\<close>

lemma node_tests_sent:
  assumes "testControls_available node"
  shows "(\<exists>i. test_call (testControls_request node (Some type)) = Some (nodes_call (NodesTest i))
        \<and> i = \<lparr>ti_tag = nd_tag node, ti_test_type = type, ti_server = the (nd_server node), ti_port = the (nd_port node)\<rparr>)
    \<and> test_call (testControls_request node None) = Some (nodes_call (NodesTestBatch (nodeTestInputs [node]) 3))
    \<and> (nodeSection_request ns = None \<longleftrightarrow> list_all (\<lambda>n. \<not> testControls_available n) ns)
    \<and> (\<forall>r. nodeSection_request ns = Some r \<longrightarrow> test_call r = Some (nodes_call (NodesTestBatch
          (concat (map (\<lambda>n. map (\<lambda>type. \<lparr>ti_tag = nd_tag n, ti_test_type = type, ti_server = the (nd_server n), ti_port = the (nd_port n)\<rparr>)
             nodeTestTypes) (filter testControls_available ns))) 8)))"
proof -
  have inp: "nodeTestInput n type = (if testControls_available n
      then Some \<lparr>ti_tag = nd_tag n, ti_test_type = type, ti_server = the (nd_server n), ti_port = the (nd_port n)\<rparr> else None)" for n type
    by (simp add: nodeTestInput_def testControls_available_def)
  have ins: "nodeTestInputs ns = concat (map (\<lambda>n. map (\<lambda>type. \<lparr>ti_tag = nd_tag n, ti_test_type = type,
      ti_server = the (nd_server n), ti_port = the (nd_port n)\<rparr>) nodeTestTypes) (filter testControls_available ns))" for ns
    by (induction ns) (simp_all add: nodeTestInputs_def inp nodeTestTypes_def)
  have none: "nodeTestInputs ns = [] \<longleftrightarrow> list_all (\<lambda>n. \<not> testControls_available n) ns"
    unfolding ins by (auto simp: nodeTestTypes_def list_all_iff filter_empty_conv)
  have batch: "test_call (TestBatch (map Some is) k) = Some (nodes_call (NodesTestBatch is k))" for "is" k
    by (auto simp: test_call_def comp_def)
  show ?thesis using assms none batch
    by (simp add: testControls_request_def inp nodeSection_request_def groupTestConcurrency_def ins)
      (auto simp: test_call_def inp comp_def)
qed

lemma node_tests_sent_witness:
  "nodeSection_request [\<lparr>nd_tag = ''a'', nd_type = ''socks'', nd_server = Some ''h'', nd_port = Some (Fin 0),
     nd_raw = None, nd_source = None, nd_source_name = None\<rparr>] = None"
proof -
  have "testControls_available \<lparr>nd_tag = ''b'', nd_type = ''socks'', nd_server = Some ''h'', nd_port = Some (Fin 1),
     nd_raw = None, nd_source = None, nd_source_name = None\<rparr>" (is "testControls_available ?n")
    by (simp add: testControls_available_def truthy_text_def truthy_num_def)
  from node_tests_sent [OF this, THEN conjunct2, THEN conjunct2, THEN conjunct1,
      of "[\<lparr>nd_tag = ''a'', nd_type = ''socks'', nd_server = Some ''h'', nd_port = Some (Fin 0), nd_raw = None, nd_source = None, nd_source_name = None\<rparr>]"]
  show ?thesis by (simp add: testControls_available_def truthy_text_def truthy_num_def)
qed

end
