(* ===== verification/Config_Pages.thy ===== *)
theory Config_Pages
  imports Policy_Page Endpoints
begin

text \<open>
  The pages over the configuration as they run: the query of the configuration and the mutation that saves
  it (\<open>features/config/config-hooks.ts\<close>), the saves and the installation of defaults of the policy pages
  (\<open>policy-page.tsx\<close>, \<open>route-page.tsx\<close>, \<open>dns-page.tsx\<close>). The server is a parameter: a function on its state
  that answers a request of \<open>Endpoints\<close> with the status and data of its envelope, or the message of a failure.
\<close>

subsection \<open>The configuration\<close>

type_synonym 's config_server = "'s \<Rightarrow> api_config \<Rightarrow> 's \<times> (string + string \<times> json)"

record 's config_page =
  cp_server :: 's
  cp_data :: jobj
  cp_error :: "string option"

text \<open>\<open>refetch\<close> replaces the data, or notes an error; it never rejects.\<close>

definition config_refetch :: "'s config_server \<Rightarrow> 's config_page \<Rightarrow> 's config_page" where
  "config_refetch server p =
     (case server (cp_server p) ConfigGet of
        (st, Inr (status, JObj c)) \<Rightarrow> p\<lparr>cp_server := st, cp_data := c, cp_error := None\<rparr>
      | (st, Inr (status, v)) \<Rightarrow> p\<lparr>cp_server := st, cp_error := None\<rparr>
      | (st, Inl e) \<Rightarrow> p\<lparr>cp_server := st, cp_error := Some e\<rparr>)"

text \<open>A save; after any answer, also one that tells of a roll back, the query is fetched anew.\<close>

definition saveConfig :: "'s config_server \<Rightarrow> bool \<Rightarrow> jobj \<Rightarrow> 's config_page \<Rightarrow> 's config_page \<times> (string + string)" where
  "saveConfig server raw config p =
     (case server (cp_server p) (if raw then UpdateRaw (JObj config) else ConfigUpdate (JObj config)) of
        (st, Inl e) \<Rightarrow> (p\<lparr>cp_server := st\<rparr>, Inl e)
      | (st, Inr (status, v)) \<Rightarrow> (config_refetch server (p\<lparr>cp_server := st\<rparr>), Inr status))"

subsection \<open>Saving a section\<close>

text \<open>\<open>afterSave\<close> is what the page does then, with the message of its failure.\<close>

definition policyPage_persist ::
  "'s config_server \<Rightarrow> policy_section \<Rightarrow> ('s \<Rightarrow> 's \<times> string option) \<Rightarrow> jobj \<Rightarrow> 's config_page \<Rightarrow> 's config_page \<times> toast" where
  "policyPage_persist server section afterSave ob p =
     (case saveConfig server False (policy_persist section (cp_data p) ob) p of
        (p', Inl e) \<Rightarrow> (p', ToastError e)
      | (p', Inr status) \<Rightarrow>
          if status = ''rolled_back'' then (p', persist_done status None)
          else (case afterSave (cp_server p') of (st, r) \<Rightarrow> (p'\<lparr>cp_server := st\<rparr>, persist_done status r)))"

text \<open>The save of the lists, with the metadata of the route rules.\<close>

definition policyPage_persistRules ::
  "'s config_server \<Rightarrow> policy_section \<Rightarrow> (route_rule_metadata list \<Rightarrow> json) \<Rightarrow> jobj \<Rightarrow> route_rule_metadata list
    \<Rightarrow> 's config_page \<Rightarrow> 's config_page \<times> toast" where
  "policyPage_persistRules server section encode ob metadata p =
     (case saveConfig server False (persistRules_config section (cp_data p) (obj_get (cp_data p) (section_key section)) ob) p of
        (p', Inl e) \<Rightarrow> (p', ToastError e)
      | (p', Inr status) \<Rightarrow>
          if status = ''rolled_back'' then (p', ToastError ''policy.rolledBack'')
          else if metadata = [] then (p', ToastSuccess ''proxy.saved'')
          else (case server (cp_server p') (UpdateRouteRuleMetadata (encode metadata)) of
              (st, Inl e) \<Rightarrow> (p'\<lparr>cp_server := st\<rparr>, ToastError e)
            | (st, Inr v) \<Rightarrow> (p'\<lparr>cp_server := st\<rparr>, ToastSuccess ''proxy.saved'')))"

subsection \<open>Installing defaults\<close>

definition routePage_install :: "'s config_server \<Rightarrow> 's \<Rightarrow> 's \<times> (string + string)" where
  "routePage_install server st =
     (case server st InstallRuleSets of
        (st1, Inl e) \<Rightarrow> (st1, Inl e)
      | (st1, Inr (status, v)) \<Rightarrow>
          if status = ''rolled_back'' then (st1, Inr status)
          else (case server st1 InstallRoute of (st2, Inl e) \<Rightarrow> (st2, Inl e) | (st2, Inr (status, v)) \<Rightarrow> (st2, Inr status)))"

definition dnsPage_install :: "'s config_server \<Rightarrow> 's \<Rightarrow> 's \<times> (string + string)" where
  "dnsPage_install server st =
     (case server st InstallDNS of (st1, Inl e) \<Rightarrow> (st1, Inl e) | (st1, Inr (status, v)) \<Rightarrow> (st1, Inr status))"

definition installDefaults ::
  "'s config_server \<Rightarrow> ('s \<Rightarrow> 's \<times> (string + string)) \<Rightarrow> 's config_page \<Rightarrow> 's config_page \<times> toast" where
  "installDefaults server install p =
     (case install (cp_server p) of
        (st, Inl e) \<Rightarrow> (p\<lparr>cp_server := st\<rparr>, ToastError e)
      | (st, Inr status) \<Rightarrow>
          if status = ''rolled_back'' then (p\<lparr>cp_server := st\<rparr>, ToastError ''policy.rolledBack'')
          else (config_refetch server (p\<lparr>cp_server := st\<rparr>), ToastSuccess ''policy.installed''))"

subsection \<open>The server's configuration\<close>

text \<open>What the pages rely on: \<open>conf\<close> is the configuration the server reads out and replaces.\<close>

definition keeps_config :: "'s config_server \<Rightarrow> ('s \<Rightarrow> jobj) \<Rightarrow> bool" where
  "keeps_config server conf \<longleftrightarrow>
     (\<forall>st. server st ConfigGet = (st, Inr (''ok'', JObj (conf st))))
     \<and> (\<forall>st c. \<exists>st'. server st (ConfigUpdate (JObj c)) = (st', Inr (''ok'', JNull)) \<and> conf st' = c)"

lemma refetch_config: "keeps_config server conf \<Longrightarrow> config_refetch server p = p\<lparr>cp_data := conf (cp_server p), cp_error := None\<rparr>"
  by (simp add: keeps_config_def config_refetch_def)

lemma save_config:
  assumes "keeps_config server conf"
  shows "snd (saveConfig server False c p) = Inr ''ok'' \<and> conf (cp_server (fst (saveConfig server False c p))) = c
    \<and> cp_data (fst (saveConfig server False c p)) = c"
proof -
  obtain st' where "server (cp_server p) (ConfigUpdate (JObj c)) = (st', Inr (''ok'', JNull))" "conf st' = c"
    using assms unfolding keeps_config_def by blast
  then show ?thesis by (simp add: saveConfig_def refetch_config [OF assms])
qed

lemma persist_config:
  assumes "keeps_config server conf" and "\<And>st. afterSave st = (st, None)"
  shows "conf (cp_server (fst (policyPage_persist server section afterSave ob p))) = policy_persist section (cp_data p) ob
    \<and> cp_data (fst (policyPage_persist server section afterSave ob p)) = policy_persist section (cp_data p) ob
    \<and> snd (policyPage_persist server section afterSave ob p) = ToastSuccess ''proxy.saved''"
  using save_config [OF assms(1), of "policy_persist section (cp_data p) ob" p]
  by (auto simp: policyPage_persist_def persist_done_def assms(2) split: prod.splits)

text \<open>A server whose route cannot be installed.\<close>

definition demo_server :: "jobj config_server" where
  "demo_server c r =
     (case r of
        ConfigGet \<Rightarrow> (c, Inr (''ok'', JObj c))
      | ConfigUpdate (JObj d) \<Rightarrow> (d, Inr (''ok'', JNull))
      | InstallRuleSets \<Rightarrow> (obj_set ''route'' (JObj [(''rule_set'', JArr [JObj []])]) c, Inr (''ok'', JNull))
      | _ \<Rightarrow> (c, Inl ''unavailable''))"

lemma demo_keeps: "keeps_config demo_server (\<lambda>c. c)"
  by (simp add: keeps_config_def demo_server_def)

subsection \<open>Properties\<close>



text \<open>
  The save of one page and the save of another do not disturb each other as long as each page has
  the server's configuration: each section ends at what was saved last, and everything else stays. But
  a page that still has an older configuration undoes what was saved meanwhile.
\<close>

lemma section_saves_commute:
  assumes "keeps_config server conf" and "conf (cp_server p) = cp_data p"
  shows "conf (cp_server (fst (policyPage_persist server Route_section (\<lambda>st. (st, None)) a
        (fst (policyPage_persist server Dns_section (\<lambda>st. (st, None)) b p)))))
      = obj_set ''route'' (JObj a) (obj_set ''dns'' (JObj b) (cp_data p))
    \<and> conf (cp_server (fst (policyPage_persist server Route_section (\<lambda>st. (st, None)) a
        ((fst (policyPage_persist server Dns_section (\<lambda>st. (st, None)) b p))\<lparr>cp_data := cp_data p\<rparr>))))
      = obj_set ''route'' (JObj a) (cp_data p)"
  using persist_config [OF assms(1), of "\<lambda>st. (st, None)"] by (simp add: policy_persist_def)

lemma section_saves_commute_witness:
  "cp_server (fst (policyPage_persist demo_server Route_section (\<lambda>st. (st, None)) []
     (fst (policyPage_persist demo_server Dns_section (\<lambda>st. (st, None)) [] \<lparr>cp_server = [], cp_data = [], cp_error = None\<rparr>))))
   = [(''dns'', JObj []), (''route'', JObj [])]"
  using section_saves_commute [OF demo_keeps, of "\<lparr>cp_server = [], cp_data = [], cp_error = None\<rparr>" "[]" "[]"]
  by (simp add: obj_set_def)

end
