(* ===== verification/Item_Lists.thy ===== *)
theory Item_Lists
  imports Policy_Page Proxy_Dialogs
begin

text \<open>
  The lists of a section as components that share a contract. The visual editors keep a list of objects
  under a key of a larger object: the rules and rule sets of the route, the servers and rules of the
  DNS section, the inbounds and outbounds of the configuration. Each page reads its list, changes it
  and writes it back. The locale \<open>item_list\<close> states what they promise, \<open>item_lists\<close> that two of them share an
  object; the lemmas hold for every list of the panel by interpretation.
\<close>

subsection \<open>The contract\<close>

text \<open>An edit of the list: read it, change it, write it back.\<close>

definition edit_items :: "(jobj \<Rightarrow> jobj list) \<Rightarrow> (jobj \<Rightarrow> jobj list \<Rightarrow> jobj) \<Rightarrow> (jobj list \<Rightarrow> jobj list) \<Rightarrow> jobj \<Rightarrow> jobj" where
  "edit_items items put f ob = put ob (f (items ob))"

locale item_list =
  fixes items :: "jobj \<Rightarrow> jobj list"
    and put :: "jobj \<Rightarrow> jobj list \<Rightarrow> jobj"
    and key :: string
  assumes items_put: "items (put ob xs) = xs"
    and put_frame: "k \<noteq> key \<Longrightarrow> obj_get (put ob xs) k = obj_get ob k"
    and items_local: "obj_get ob key = obj_get ob' key \<Longrightarrow> items ob = items ob'"
begin

lemma items_edit: "items (edit_items items put f ob) = f (items ob)"
  by (simp add: edit_items_def items_put)

lemma edit_frame: "k \<noteq> key \<Longrightarrow> obj_get (edit_items items put f ob) k = obj_get ob k"
  by (simp add: edit_items_def put_frame)

text \<open>A sequence of edits of the object is a sequence of edits of the list.\<close>

lemma edits_refine:
  "items (foldl (\<lambda>ob f. edit_items items put f ob) ob fs) = foldl (\<lambda>xs f. f xs) (items ob) fs
    \<and> (\<forall>k. k \<noteq> key \<longrightarrow> obj_get (foldl (\<lambda>ob f. edit_items items put f ob) ob fs) k = obj_get ob k)"
  by (induction fs arbitrary: ob) (simp_all add: items_edit edit_frame)

lemma edit_undone: "g (f (items ob)) = items ob \<Longrightarrow> items (edit_items items put g (edit_items items put f ob)) = items ob"
  by (simp add: items_edit)

end

text \<open>Two lists of one object, edited in any interleaving.\<close>

definition edit_either ::
  "(jobj \<Rightarrow> jobj list) \<Rightarrow> (jobj \<Rightarrow> jobj list \<Rightarrow> jobj) \<Rightarrow> (jobj \<Rightarrow> jobj list) \<Rightarrow> (jobj \<Rightarrow> jobj list \<Rightarrow> jobj)
    \<Rightarrow> jobj \<Rightarrow> ((jobj list \<Rightarrow> jobj list) + (jobj list \<Rightarrow> jobj list)) \<Rightarrow> jobj" where
  "edit_either items1 put1 items2 put2 ob e =
     (case e of Inl f \<Rightarrow> edit_items items1 put1 f ob | Inr g \<Rightarrow> edit_items items2 put2 g ob)"

definition edits_left :: "('a + 'b) list \<Rightarrow> 'a list" where
  "edits_left es = concat (map (\<lambda>e. case e of Inl f \<Rightarrow> [f] | Inr g \<Rightarrow> []) es)"

definition edits_right :: "('a + 'b) list \<Rightarrow> 'b list" where
  "edits_right es = concat (map (\<lambda>e. case e of Inl f \<Rightarrow> [] | Inr g \<Rightarrow> [g]) es)"

lemma edit_either_simps [simp]:
  "edit_either items1 put1 items2 put2 ob (Inl f) = edit_items items1 put1 f ob"
  "edit_either items1 put1 items2 put2 ob (Inr g) = edit_items items2 put2 g ob"
  by (simp_all add: edit_either_def)

lemma edits_simps [simp]:
  "edits_left [] = []" "edits_left (Inl f # es) = f # edits_left es" "edits_left (Inr g # es) = edits_left es"
  "edits_right [] = []" "edits_right (Inl f # es) = edits_right es" "edits_right (Inr g # es) = g # edits_right es"
  by (simp_all add: edits_left_def edits_right_def)

locale item_lists = left: item_list items1 put1 key1 + right: item_list items2 put2 key2
  for items1 put1 key1 items2 put2 key2 +
  assumes keys_differ: "key1 \<noteq> key2"
begin

lemma left_untouched: "items1 (edit_items items2 put2 g ob) = items1 ob"
  by (rule left.items_local) (simp add: right.edit_frame keys_differ)

lemma right_untouched: "items2 (edit_items items1 put1 f ob) = items2 ob"
  by (rule right.items_local) (simp add: left.edit_frame keys_differ [symmetric])

lemma interleaved:
  "items1 (foldl (edit_either items1 put1 items2 put2) ob es) = foldl (\<lambda>xs f. f xs) (items1 ob) (edits_left es)
    \<and> items2 (foldl (edit_either items1 put1 items2 put2) ob es) = foldl (\<lambda>xs f. f xs) (items2 ob) (edits_right es)
    \<and> (\<forall>k. k \<noteq> key1 \<and> k \<noteq> key2 \<longrightarrow> obj_get (foldl (edit_either items1 put1 items2 put2) ob es) k = obj_get ob k)"
proof (induction es arbitrary: ob)
  case (Cons e es)
  then show ?case
    by (cases e) (simp_all add: left.items_edit right.items_edit left_untouched right_untouched left.edit_frame right.edit_frame)
qed simp

end

subsection \<open>The lists of the panel\<close>

lemma list_under_key:
  "item_list (\<lambda>ob. object_list (obj_get ob k)) (\<lambda>ob xs. obj_set k (JArr (map JObj xs)) ob) k"
  by unfold_locales auto

interpretation route_lists: item_lists routeRules setRouteRules "''rules''" routeRuleSets setRouteRuleSets "''rule_set''"
  by unfold_locales (auto simp: routeRules_def setRouteRules_def routeRuleSets_def setRouteRuleSets_def)

interpretation dns_lists: item_lists dnsServers setDNSServers "''servers''" dnsRules setDNSRules "''rules''"
  by unfold_locales (auto simp: dnsServers_def setDNSServers_def dnsRules_def setDNSRules_def)

interpretation proxy_lists: item_lists
    "\<lambda>config. proxy_items config ''inbounds''" "\<lambda>config. proxy_persist config ''inbounds''" "''inbounds''"
    "\<lambda>config. proxy_items config ''outbounds''" "\<lambda>config. proxy_persist config ''outbounds''" "''outbounds''"
  by unfold_locales (auto simp: proxy_items_def proxy_persist_def)

subsection \<open>The operations of the pages are edits\<close>

lemma dns_ops_are_edits:
  "dns_applyServerOp ob op = edit_items dnsServers setDNSServers (dns_listOp op) ob"
  "dns_applyRuleOp ob op = edit_items dnsRules setDNSRules (dns_listOp op) ob"
  by (simp_all add: dns_applyServerOp_def dns_applyRuleOp_def edit_items_def)

lemma route_ops_are_edits:
  "fst (route_applyRuleOp ob metadata op) =
     edit_items routeRules setRouteRules (\<lambda>rules. fst (route_ruleOp op rules (alignedMetadata rules metadata))) ob"
  "route_saveRuleSet ob index item = edit_items routeRuleSets setRouteRuleSets (\<lambda>xs. replaceOrAppend xs index item) ob"
  "route_copyRuleSet ob i = edit_items routeRuleSets setRouteRuleSets (\<lambda>xs. insertCopy xs i) ob"
  "route_deleteRuleSet ob i = edit_items routeRuleSets setRouteRuleSets (remove_at i) ob"
  by (simp_all add: route_applyRuleOp_def route_saveRuleSet_def route_copyRuleSet_def route_deleteRuleSet_def edit_items_def
      Let_def case_prod_beta)

lemma proxy_ops_are_edits:
  "proxy_saveItem config k index item = edit_items (\<lambda>c. proxy_items c k) (\<lambda>c. proxy_persist c k)
     (\<lambda>xs. case index of None \<Rightarrow> xs @ [item] | Some i \<Rightarrow> xs[i := item]) config"
  "proxy_deleteItem config k i = edit_items (\<lambda>c. proxy_items c k) (\<lambda>c. proxy_persist c k) (remove_at i) config"
  by (simp_all add: proxy_saveItem_def proxy_deleteItem_def edit_items_def Let_def)

text \<open>An operation on one list of the route section or of the configuration leaves its neighbour alone.\<close>

lemma route_neighbours:
  "routeRuleSets (fst (route_applyRuleOp ob metadata op)) = routeRuleSets ob"
  "routeRules (route_saveRuleSet ob index item) = routeRules ob"
  "routeRules (route_copyRuleSet ob i) = routeRules ob" "routeRules (route_deleteRuleSet ob i) = routeRules ob"
  unfolding route_ops_are_edits by (rule route_lists.right_untouched route_lists.left_untouched)+

lemma proxy_neighbours:
  "proxy_items (proxy_saveItem config ''inbounds'' index item) ''outbounds'' = proxy_items config ''outbounds''"
  "proxy_items (proxy_deleteItem config ''outbounds'' i) ''inbounds'' = proxy_items config ''inbounds''"
  unfolding proxy_ops_are_edits by (rule proxy_lists.right_untouched proxy_lists.left_untouched)+

text \<open>The steps of the DNS page on its section.\<close>

datatype dns_step = OnServers list_op | OnRules list_op

definition dns_step :: "jobj \<Rightarrow> dns_step \<Rightarrow> jobj" where
  "dns_step ob s = (case s of OnServers op \<Rightarrow> dns_applyServerOp ob op | OnRules op \<Rightarrow> dns_applyRuleOp ob op)"

definition as_edit :: "dns_step \<Rightarrow> (jobj list \<Rightarrow> jobj list) + (jobj list \<Rightarrow> jobj list)" where
  "as_edit s = (case s of OnServers op \<Rightarrow> Inl (dns_listOp op) | OnRules op \<Rightarrow> Inr (dns_listOp op))"

definition server_ops :: "dns_step list \<Rightarrow> list_op list" where
  "server_ops ss = concat (map (\<lambda>s. case s of OnServers op \<Rightarrow> [op] | OnRules op \<Rightarrow> []) ss)"

definition rule_ops :: "dns_step list \<Rightarrow> list_op list" where
  "rule_ops ss = concat (map (\<lambda>s. case s of OnServers op \<Rightarrow> [] | OnRules op \<Rightarrow> [op]) ss)"

lemma dns_steps_are_edits:
  "foldl dns_step ob ss = foldl (edit_either dnsServers setDNSServers dnsRules setDNSRules) ob (map as_edit ss)"
  by (induction ss arbitrary: ob) (simp_all add: dns_step_def as_edit_def dns_ops_are_edits split: dns_step.split)

lemma dns_edits: "edits_left (map as_edit ss) = map dns_listOp (server_ops ss)" "edits_right (map as_edit ss) = map dns_listOp (rule_ops ss)"
  by (induction ss) (simp_all add: server_ops_def rule_ops_def as_edit_def split: dns_step.split)

subsection \<open>Properties\<close>



end
