(* ===== verification/Panel.thy ===== *)
theory Panel
  imports Settings App_Shell
begin

text \<open>
  The running panel: the providers of the session and of the preferences share one storage area of the
  browser. Each reads and writes a slot of its own; the locale \<open>storage_slot\<close> states what a slot promises, and
  the panel is the composition of both providers over the shared storage.
\<close>

subsection \<open>Slots of the storage\<close>

definition slot_read :: "string \<Rightarrow> (string \<Rightarrow> 'v option) \<Rightarrow> web_storage \<Rightarrow> 'v option" where
  "slot_read key decode st = Option.bind (ws_items st key) decode"

definition slot_write :: "string \<Rightarrow> ('v \<Rightarrow> string) \<Rightarrow> 'v \<Rightarrow> web_storage \<Rightarrow> web_storage" where
  "slot_write key encode v st = setItem key (encode v) st"

locale storage_slot =
  fixes key :: string
    and encode :: "'v \<Rightarrow> string"
    and decode :: "string \<Rightarrow> 'v option"
  assumes decode_encode: "decode (encode v) = Some v"
begin

lemma read_write: "storage_works st \<Longrightarrow> slot_read key decode (slot_write key encode v st) = Some v"
  by (simp add: slot_read_def slot_write_def setItem_def storage_works_def decode_encode)

lemma read_removed: "storage_works st \<Longrightarrow> slot_read key decode (removeItem key st) = None"
  by (simp add: slot_read_def removeItem_def storage_works_def)

lemma read_other: "k \<noteq> key \<Longrightarrow> slot_read key decode (setItem k t st) = slot_read key decode st"
  by (simp add: slot_read_def setItem_def)

lemma read_other_removed: "k \<noteq> key \<Longrightarrow> slot_read key decode (removeItem k st) = slot_read key decode st"
  by (simp add: slot_read_def removeItem_def)

end

definition decode_session :: "string \<Rightarrow> session option" where
  "decode_session text = Option.bind (json_parse text) isSession"

definition preferences_text :: "preferences \<Rightarrow> string" where
  "preferences_text p = stringify_strings [(''theme'', name_of themes (pr_theme p)), (''language'', name_of languages (pr_language p)),
     (''minimumLogLevel'', name_of logThresholds (pr_minimumLogLevel p))]"

definition decode_preferences :: "string \<Rightarrow> preferences option" where
  "decode_preferences text = Option.bind (json_parse text) normalizePreferences"

interpretation session_slot: storage_slot SESSION_KEY session_text decode_session
proof
  fix s
  have "json_parse (session_text s) \<noteq> None" by (simp add: session_text_def parse_strings)
  then show "decode_session (session_text s) = Some s" using isSession_text by (auto simp: decode_session_def)
qed

interpretation preferences_slot: storage_slot PREFERENCES_KEY preferences_text decode_preferences
proof
  fix p
  let ?st = "\<lparr>ws_items = (\<lambda>k. None), ws_getThrows = False, ws_setThrows = False, ws_removeThrows = False\<rparr>"
  obtain th la ml where p: "p = \<lparr>pr_theme = th, pr_language = la, pr_minimumLogLevel = ml\<rparr>" by (cases p) auto
  have "json_parse (preferences_text p) = Some (JObj (map (\<lambda>(k, v). (k, JStr v))
      [(''theme'', name_of themes th), (''language'', name_of languages la), (''minimumLogLevel'', name_of logThresholds ml)]))"
    unfolding preferences_text_def p by (subst parse_strings) simp_all
  then show "decode_preferences (preferences_text p) = Some p"
    by (cases th; cases la; cases ml) (simp_all add: decode_preferences_def p normalizePreferences_def read_name_def isLogThreshold_def
        obj_get_def themes_def languages_def logThresholds_def name_of_def)
qed

lemma slot_keys: "SESSION_KEY \<noteq> PREFERENCES_KEY" "PREFERENCES_KEY \<noteq> SESSION_KEY"
  by (simp_all add: SESSION_KEY_def PREFERENCES_KEY_def)

lemma stored_session_slot: "stored_session st = slot_read SESSION_KEY decode_session st"
  by (simp add: stored_session_def slot_read_def decode_session_def split: option.split)

lemma session_set_slot: "session_set s st = slot_write SESSION_KEY session_text s st"
  by (simp add: session_set_def slot_write_def)

lemma preferences_set_slot: "preferences_set p st = slot_write PREFERENCES_KEY preferences_text p st"
  by (simp add: preferences_set_def slot_write_def preferences_text_def)

text \<open>An empty text is no JSON, so what the reader gives is the slot, or the defaults.\<close>

lemma preferences_get_slot:
  "storage_works st \<Longrightarrow> preferences_get st =
     (case slot_read PREFERENCES_KEY decode_preferences st of Some p \<Rightarrow> p | None \<Rightarrow> preference_defaults)"
  by (auto simp: preferences_get_def getItem_def storage_works_def slot_read_def decode_preferences_def json_parse_empty split: option.splits)

subsection \<open>The panel\<close>

record panel =
  pa_session :: "session option"
  pa_preferences :: preferences
  pa_dark :: bool
  pa_storage :: web_storage

definition panel_auth :: "panel \<Rightarrow> auth" where
  "panel_auth p = \<lparr>au_session = pa_session p, au_storage = pa_storage p\<rparr>"

definition put_auth :: "auth \<Rightarrow> panel \<Rightarrow> panel" where
  "put_auth a p = p\<lparr>pa_session := au_session a, pa_storage := au_storage a\<rparr>"

definition panel_provider :: "panel \<Rightarrow> provider" where
  "panel_provider p = \<lparr>pv_preferences = pa_preferences p, pv_storage = pa_storage p, pv_dark = pa_dark p\<rparr>"

definition put_provider :: "provider \<Rightarrow> panel \<Rightarrow> panel" where
  "put_provider s p = p\<lparr>pa_preferences := pv_preferences s, pa_storage := pv_storage s, pa_dark := pv_dark s\<rparr>"

text \<open>The panel starts with the preferences, then the session inside them; then the effect of the first runs.\<close>

definition panel_mount :: "(string \<Rightarrow> jsnum) \<Rightarrow> jsnum \<Rightarrow> bool \<Rightarrow> web_storage \<Rightarrow> panel" where
  "panel_mount parse now prefersDark st =
     (let a = auth_mount parse now st; p = \<lparr>pa_session = au_session a, pa_preferences = preferences_get st, pa_dark = False, pa_storage = au_storage a\<rparr>
      in put_provider (provider_effect prefersDark (panel_provider p)) p)"

datatype panel_event = Request jsnum "string + response" | LoginAnswered jsnum "string + response" | LogoutPressed jsnum "string + response"
  | Cleared | Changed bool preference_change

fun panel_step :: "(string \<Rightarrow> jsnum) \<Rightarrow> panel_event \<Rightarrow> panel \<Rightarrow> panel" where
  "panel_step parse (Request now fetched) p = put_auth (fst (auth_request parse now fetched (panel_auth p))) p"
| "panel_step parse (LoginAnswered now fetched) p = put_auth (auth_login parse now fetched (panel_auth p)) p"
| "panel_step parse (LogoutPressed now fetched) p = put_auth (auth_logout parse now fetched (panel_auth p)) p"
| "panel_step parse Cleared p = put_auth (auth_clear (panel_auth p)) p"
| "panel_step parse (Changed prefersDark c) p = put_provider (provider_change (prefersDark, c) (panel_provider p)) p"

inductive panel_reach :: "(string \<Rightarrow> jsnum) \<Rightarrow> web_storage \<Rightarrow> panel \<Rightarrow> bool" for parse st where
  panel_started: "panel_reach parse st (panel_mount parse now prefersDark st)"
| panel_stepped: "panel_reach parse st p \<Longrightarrow> panel_reach parse st (panel_step parse ev p)"

subsection \<open>Neither provider touches the slot of the other\<close>

lemma session_slot_kept: "stored_session (preferences_set p st) = stored_session st"
  unfolding stored_session_slot preferences_set_slot slot_write_def by (rule session_slot.read_other) (rule slot_keys)

definition prefs_slot :: "web_storage \<Rightarrow> preferences option" where
  "prefs_slot st = slot_read PREFERENCES_KEY decode_preferences st"

lemma prefs_slot_set: "storage_works st \<Longrightarrow> prefs_slot (preferences_set p st) = Some p"
  unfolding prefs_slot_def preferences_set_slot by (rule preferences_slot.read_write)

lemma prefs_slot_kept [simp]:
  "prefs_slot (session_set s st) = prefs_slot st" "prefs_slot (removeSession st) = prefs_slot st"
  unfolding prefs_slot_def session_set_slot slot_write_def removeSession_def
  by (simp_all add: preferences_slot.read_other preferences_slot.read_other_removed slot_keys)

lemma prefs_session_get: "prefs_slot (snd (session_get parse now st)) = prefs_slot st"
  by (auto simp: session_get_def split: sum.splits option.splits)

lemma prefs_clear: "prefs_slot (au_storage (auth_clear a)) = prefs_slot (au_storage a)"
  by (simp add: auth_clear_def)

lemma prefs_request: "prefs_slot (au_storage (fst (auth_request parse now fetched a))) = prefs_slot (au_storage a)"
  by (simp add: auth_request_def Let_def case_prod_beta prefs_clear prefs_session_get)

lemma prefs_login: "prefs_slot (au_storage (auth_login parse now fetched a)) = prefs_slot (au_storage a)"
  using prefs_request [of parse now fetched a]
  by (auto simp: auth_login_def Let_def split: prod.splits sum.splits option.splits json.splits)

lemma prefs_logout: "prefs_slot (au_storage (auth_logout parse now fetched a)) = prefs_slot (au_storage a)"
  by (simp add: auth_logout_def prefs_clear prefs_request)

subsection \<open>The invariant of the panel\<close>

definition panel_inv :: "panel \<Rightarrow> bool" where
  "panel_inv p \<longleftrightarrow> auth_inv (panel_auth p) \<and> prefs_slot (pa_storage p) = Some (pa_preferences p)"

lemma panel_put_auth:
  "panel_inv p \<Longrightarrow> auth_inv a \<Longrightarrow> prefs_slot (au_storage a) = prefs_slot (pa_storage p) \<Longrightarrow> panel_inv (put_auth a p)"
  by (cases a) (simp add: panel_inv_def put_auth_def panel_auth_def)

lemma panel_effect:
  "auth_inv (panel_auth p) \<Longrightarrow> panel_inv (put_provider (provider_effect d ((panel_provider p)\<lparr>pv_preferences := q\<rparr>)) p)"
  by (simp add: panel_inv_def put_provider_def provider_effect_def panel_provider_def panel_auth_def auth_inv_def session_slot_kept
      prefs_slot_set)

lemma panel_reach_inv:
  assumes "panel_reach parse st p" and "storage_works st"
  shows "panel_inv p"
  using assms(1)
proof induction
  case (panel_started now prefersDark)
  let ?a = "auth_mount parse now st"
  have "auth_inv ?a" by (rule auth_reach_inv [OF reach_mount assms(2)])
  then have "panel_inv (put_provider (provider_effect prefersDark ((panel_provider p)\<lparr>pv_preferences := pa_preferences p\<rparr>)) p)"
    if "p = \<lparr>pa_session = au_session ?a, pa_preferences = preferences_get st, pa_dark = False, pa_storage = au_storage ?a\<rparr>" for p
    using that by (intro panel_effect) (simp add: panel_auth_def auth_inv_def)
  then show ?case by (simp add: panel_mount_def Let_def panel_provider_def)
next
  case (panel_stepped p ev)
  note inv = panel_stepped.IH
  then have a: "auth_inv (panel_auth p)" "au_storage (panel_auth p) = pa_storage p" by (simp_all add: panel_inv_def panel_auth_def)
  show ?case
  proof (cases ev)
    case (Changed d c)
    then show ?thesis using panel_effect [OF a(1), of d "change_preferences c (pa_preferences p)"]
      by (simp add: provider_change_def panel_provider_def)
  qed (simp_all add: panel_put_auth [OF inv] a auth_inv_request auth_inv_login auth_inv_clear auth_logout_def
      prefs_request prefs_login prefs_clear)
qed

subsection \<open>Properties\<close>



end
