(* ===== verification/Locale_Texts.thy ===== *)
theory Locale_Texts
  imports Js_Prelude
begin

text \<open>
  The texts of the panel: the shape of \<open>i18n/locales/*.ts\<close>, an object of groups of texts nested by keys, and
  what the panel relies on when it asks for a text by a dotted key. A text is given by its pieces:
  what it says, as UTF-16 code units, since the Chinese texts have units a \<^typ>\<open>char\<close> cannot hold, and
  the holes, written as a name in double braces, in which a value is put.
\<close>

datatype piece = Say "nat list" | Hole string

definition say :: "string \<Rightarrow> piece" where
  "say s = Say (map of_char s)"

lemma say_simps [simp]: "say s \<noteq> Hole p" "(say s = Say []) = (s = [])"
  by (simp_all add: say_def)

type_synonym words = "piece list"

datatype texts = Words words | Group "(string \<times> texts) list"

type_synonym text_group = "(string \<times> texts) list"

subsection \<open>Reading a text by its key\<close>

fun text_at :: "string list \<Rightarrow> texts \<Rightarrow> words option" where
  "text_at [] (Words w) = Some w"
| "text_at (k # ks) (Group g) = (case map_of g k of None \<Rightarrow> None | Some t \<Rightarrow> text_at ks t)"
| "text_at _ _ = None"

definition holes :: "words \<Rightarrow> string list" where
  "holes w = concat (map (\<lambda>p. case p of Hole n \<Rightarrow> [n] | Say _ \<Rightarrow> []) w)"

lemma holes_simps [simp]: "holes [] = []" "holes (Hole n # w) = n # holes w" "holes (Say t # w) = holes w" "holes (say s # w) = holes w"
  by (simp_all add: holes_def say_def)

subsection \<open>The shape of an object of texts\<close>

text \<open>What two languages must have in common: the keys, in groups, and the holes of each text.\<close>

datatype text_shape = Takes "string list" | Keys "(string \<times> text_shape) list"

primrec shape_of :: "texts \<Rightarrow> text_shape" where
  "shape_of (Words w) = Takes (holes w)"
| "shape_of (Group g) = Keys (map (map_prod id shape_of) g)"

fun shape_at :: "string list \<Rightarrow> text_shape \<Rightarrow> string list option" where
  "shape_at [] (Takes ps) = Some ps"
| "shape_at (k # ks) (Keys g) = (case map_of g k of None \<Rightarrow> None | Some t \<Rightarrow> shape_at ks t)"
| "shape_at _ _ = None"

lemma shape_at_shape_of: "shape_at ks (shape_of t) = map_option holes (text_at ks t)"
proof (induction ks t rule: text_at.induct)
  case (2 k ks g)
  have "map_of (map (map_prod id shape_of) g) k = map_option shape_of (map_of g k)"
    by (induction g) auto
  then show ?case using 2 by (cases "map_of g k") simp_all
qed simp_all

lemma same_shape_same_texts:
  "shape_of t = shape_of u \<Longrightarrow> map_option holes (text_at ks t) = map_option holes (text_at ks u)"
  by (simp flip: shape_at_shape_of)

text \<open>Every text says something.\<close>

definition blank :: "words \<Rightarrow> bool" where
  "blank w = list_all (\<lambda>p. p = Say []) w"

lemma blank_simps [simp]: "blank []" "blank (p # w) = (p = Say [] \<and> blank w)"
  by (simp_all add: blank_def)

primrec no_blank :: "texts \<Rightarrow> bool" where
  "no_blank (Words w) = (\<not> blank w)"
| "no_blank (Group g) = list_all snd (map (map_prod id no_blank) g)"

lemma no_blank_text_at: "no_blank t \<Longrightarrow> text_at ks t = Some w \<Longrightarrow> \<not> blank w"
proof (induction ks t rule: text_at.induct)
  case (2 k ks g)
  then obtain t where t: "map_of g k = Some t" "text_at ks t = Some w" by (auto split: option.splits)
  then have "no_blank t" using 2(2) map_of_SomeD [OF t(1)] by (auto simp: list_all_iff)
  then show ?case using 2(1) t by blast
qed simp_all

end
