(* ===== verification/Locale_En.thy ===== *)
theory Locale_En
  imports Locale_Texts
begin

text \<open>The texts in English: \<open>i18n/locales/en.ts\<close>, one definition per group of the object, in its order.\<close>

subsection \<open>The texts in English\<close>

definition en_auth :: text_group where
  "en_auth =
    [(''title'', Words [say ''boxd'']), (''description'', Words [say ''Sign in to manage sing-box.'']), (''username'', Words [say ''Username'']),
     (''password'', Words [say ''Password'']), (''submit'', Words [say ''Sign in'']), (''usernameRequired'', Words [say ''Enter your username'']),
     (''passwordRequired'', Words [say ''Enter your password'']), (''failed'', Words [say ''Sign-in failed''])]"

definition en_nav :: text_group where
  "en_nav =
    [(''dashboard'', Words [say ''Dashboard'']), (''proxy'', Words [say ''Proxy configuration'']), (''inbounds'', Words [say ''Inbounds'']),
     (''outbounds'', Words [say ''Outbounds'']), (''policy'', Words [say ''Traffic policy'']), (''route'', Words [say ''Route'']),
     (''dns'', Words [say ''DNS'']), (''resources'', Words [say ''Nodes and subscriptions'']), (''nodes'', Words [say ''Nodes'']),
     (''subscriptions'', Words [say ''Subscriptions'']), (''observability'', Words [say ''Observability'']),
     (''connections'', Words [say ''Active connections'']), (''logs'', Words [say ''Logs'']), (''advanced'', Words [say ''Advanced configuration'']),
     (''endpoints'', Words [say ''Endpoints'']), (''experimental'', Words [say ''Experimental'']),
     (''rawConfig'', Words [say ''Full configuration'']), (''settings'', Words [say ''Application settings'']),
     (''logout'', Words [say ''Sign out''])]"

definition en_pages :: text_group where
  "en_pages =
    [(''dashboard'', Words [say ''Dashboard'']), (''inbounds'', Words [say ''Inbounds'']), (''outbounds'', Words [say ''Outbounds'']),
     (''route'', Words [say ''Route'']), (''dns'', Words [say ''DNS'']), (''nodes'', Words [say ''Nodes'']),
     (''subscriptions'', Words [say ''Subscriptions'']), (''connections'', Words [say ''Active connections'']), (''logs'', Words [say ''Logs'']),
     (''endpoints'', Words [say ''Endpoints'']), (''experimental'', Words [say ''Experimental'']),
     (''rawConfig'', Words [say ''Full configuration'']), (''settings'', Words [say ''Application settings'']),
     (''pending'', Words [say ''This module will connect to the existing API during the current implementation plan.''])]"

definition en_settings :: text_group where
  "en_settings =
    [(''title'', Words [say ''Application Settings'']), (''appearanceMenu'', Words [say ''Appearance'']),
     (''appearanceTitle'', Words [say ''Appearance and Language'']),
     (''appearanceDescription'', Words [say ''Preferences are stored only in this browser.'']), (''theme'', Words [say ''Theme'']),
     (''light'', Words [say ''Light'']), (''dark'', Words [say ''Dark'']), (''system'', Words [say ''System'']),
     (''language'', Words [say ''Language'']), (''minimumLogLevel'', Words [say ''Default minimum log level'']),
     (''minimumLogLevelDescription'', Words [say ''Dashboard recent logs and the logs page default to this level and above.'']),
     (''accountTitle'', Words [say ''Login and Security'']),
     (''accountDescription'', Words [say ''The login username is managed by BOXD_USERNAME or startup flags and cannot be rotated here.'']),
     (''defaultPasswordTitle'', Words [say ''Default password is still active'']),
     (''defaultPasswordDescription'', Words [say ''Rotate the administrator password immediately.'']),
     (''defaultPasswordForced'', Words [say ''Rotate the default admin password before using other panel features.'']),
     (''currentPassword'', Words [say ''Current password'']), (''newPassword'', Words [say ''New password'']),
     (''passwordHint'', Words [say ''At least 8 characters.'']), (''rotatePassword'', Words [say ''Rotate password'']),
     (''jwtSecret'', Words [say ''JWT signing secret'']), (''rotateJWT'', Words [say ''Rotate JWT secret'']),
     (''rotateJWTTitle'', Words [say ''Rotate JWT secret?'']),
     (''rotateJWTDescription'', Words [say ''All existing login sessions will be invalidated immediately.'']), (''cancel'', Words [say ''Cancel'']),
     (''confirmRotate'', Words [say ''Confirm rotation'']), (''runtimeTitle'', Words [say ''System Settings'']),
     (''runtimeDescription'', Words [say ''Configure node speed testing and kernel startup behavior.'']),
     (''testURL'', Words [say ''Speed test URL'']),
     (''testURLDescription'', Words [say ''Probe URL used by node TCP/HTTP speed tests. Choose a preset or switch to manual input for a custom URL.'']),
     (''testURLManual'', Words [say ''Manual input'']), (''testURLManualInput'', Words [say ''Custom speed test URL'']),
     (''testURLManualPlaceholder'', Words [say ''https://example.com/generate_204'']), (''saveTestURL'', Words [say ''Save speed test URL'']),
     (''autostart'', Words [say ''Kernel autostart'']), (''passwordRotated'', Words [say ''Password rotated. Sign in again.'']),
     (''jwtRotated'', Words [say ''JWT secret rotated. Sign in again.'']), (''testURLSaved'', Words [say ''Speed test URL saved'']),
     (''autostartSaved'', Words [say ''Kernel autostart updated'']), (''urlTestDefaultsTitle'', Words [say ''Subscription URLTest Defaults'']),
     (''urlTestDefaultsDescription'', Words [say ''These settings control sing-box subscription URLTest groups and do not affect node card TCP, HTTP, or ICMP tests.'']),
     (''urlTestDefaultsEnabled'', Words [say ''Enable subscription URLTest by default'']), (''urlTestURL'', Words [say ''URLTest URL'']),
     (''urlTestURLDescription'', Words [say ''Subscriptions use this URL unless they override it. Choose a preset or switch to manual input for a custom URL.'']),
     (''urlTestURLInvalid'', Words [say ''Enter a valid HTTP or HTTPS URL.'']), (''urlTestURLEmpty'', Words [say ''Leave blank to inherit'']),
     (''urlTestURLManualInput'', Words [say ''Custom URLTest URL'']), (''urlTestInterval'', Words [say ''URLTest interval'']),
     (''urlTestIntervalDescription'', Words [say ''Use a duration such as 3m or 30s.'']),
     (''urlTestIntervalInvalid'', Words [say ''Enter a duration greater than zero, such as 3m or 30s.'']),
     (''urlTestTolerance'', Words [say ''URLTest tolerance (ms)'']),
     (''urlTestToleranceDescription'', Words [say ''Avoid switching when latency differences are below this value.'']),
     (''urlTestToleranceInvalid'', Words [say ''Enter an integer from 0 to 65535.'']),
     (''saveURLTestDefaults'', Words [say ''Save URLTest defaults'']),
     (''urlTestDefaultsSaved'', Words [say ''URLTest defaults saved and synchronized'']),
     (''ruleSetAutoUpdateTitle'', Words [say ''Rule set auto update'']),
     (''ruleSetAutoUpdateDescription'', Words [say ''Only built-in local (Loyalsoldier) rule sets are auto-updated, disabled by default. Remote sets still follow kernel update_interval.'']),
     (''ruleSetAutoUpdateEnabled'', Words [say ''Enable scheduled local rule-set updates'']),
     (''ruleSetAutoUpdateInterval'', Words [say ''Auto-update interval'']), (''ruleSetAutoUpdateSaved'', Words [say ''Rule set auto-update saved''])]"

definition en_common :: text_group where
  "en_common =
    [(''loadFailed'', Words [say ''Failed to load'']), (''unexpectedError'', Words [say ''The page encountered an error'']),
     (''unexpectedErrorDescription'', Words [say ''This page could not be rendered. Retry to recover.'']), (''retry'', Words [say ''Retry'']),
     (''save'', Words [say ''Save'']), (''cancel'', Words [say ''Cancel'']), (''edit'', Words [say ''Edit'']), (''delete'', Words [say ''Delete'']),
     (''deleteTitle'', Words [say ''Confirm deletion?'']), (''deleteDescription'', Words [say ''This action cannot be undone.'']),
     (''confirmDelete'', Words [say ''Confirm delete'']), (''actions'', Words [say ''Actions'']), (''type'', Words [say ''Type'']),
     (''address'', Words [say ''Address'']), (''port'', Words [say ''Port'']), (''status'', Words [say ''Status'']),
     (''normal'', Words [say ''Healthy'']), (''empty'', Words [say ''No data'']), (''fieldHelp'', Words [say ''Field help'']),
     (''notSet'', Words [say ''Not set''])]"

definition en_dashboard :: text_group where
  "en_dashboard =
    [(''service'', Words [say ''Kernel Service'']), (''serviceDescription'', Words [say ''Control the sing-box kernel process.'']),
     (''running'', Words [say ''Running'']), (''stopped'', Words [say ''Stopped'']), (''start'', Words [say ''Start'']),
     (''stop'', Words [say ''Stop'']), (''restart'', Words [say ''Restart'']), (''memory'', Words [say ''Memory'']),
     (''memoryDescription'', Words [say ''Current Go runtime allocation.'']), (''version'', Words [say ''Version'']),
     (''versionDescription'', Words [say ''sing-box kernel version.'']), (''traffic'', Words [say ''Traffic'']),
     (''realtimeRate'', Words [say ''Real-time rate'']), (''cumulativeTraffic'', Words [say ''Cumulative traffic'']),
     (''upload'', Words [say ''Upload'']), (''download'', Words [say ''Download'']), (''maintenance'', Words [say ''Runtime Maintenance'']),
     (''maintenanceDescription'', Words [say ''Run garbage collection and clear caches.'']), (''flushDNS'', Words [say ''Flush DNS'']),
     (''flushFakeIP'', Words [say ''Flush FakeIP'']), (''recentLogs'', Words [say ''Recent Logs'']),
     (''recentLogsDescription'', Words [say ''Latest events from the sing-box kernel.'']), (''noLogs'', Words [say ''No logs'']),
     (''logsWaiting'', Words [say ''New logs appear automatically.'']), (''level'', Words [say ''Level'']), (''message'', Words [say ''Message'']),
     (''loadFailed'', Words [say ''Dashboard failed to load'']), (''actionComplete'', Words [say ''Operation completed'']),
     (''maintenanceComplete'', Words [say ''Maintenance completed'']), (''confirmActionTitle'', Words [say ''Confirm kernel operation?'']),
     (''confirmActionDescription'', Words [say ''This operation interrupts active proxy connections.'']),
     (''confirmAction'', Words [say ''Confirm operation''])]"

definition en_config :: text_group where
  "en_config =
    [(''invalidJSON'', Words [say ''Invalid JSON'']), (''invalidJSONDescription'', Words [say ''Fix the syntax before saving.''])]"

definition en_proxy_inbound_section :: text_group where
  "en_proxy_inbound_section =
    [(''bind'', Words [say ''Bind & routing'']), (''tcp'', Words [say ''TCP'']), (''udp'', Words [say ''UDP'']),
     (''auth'', Words [say ''Authentication'']), (''protocol'', Words [say ''Protocol'']), (''tunBasic'', Words [say ''TUN basics'']),
     (''tunRoute'', Words [say ''Routing'']), (''tunRedirect'', Words [say ''Auto redirect'']), (''tunFilter'', Words [say ''Advanced filters'']),
     (''tlsBasic'', Words [say ''TLS basics'']), (''tlsCert'', Words [say ''Certificates'']), (''tlsClient'', Words [say ''Client auth'']),
     (''tlsAcme'', Words [say ''ACME'']), (''tlsEch'', Words [say ''ECH'']), (''tlsReality'', Words [say ''Reality'']),
     (''transport'', Words [say ''Transport'']), (''multiplex'', Words [say ''Multiplex''])]"

definition en_proxy_inbound :: text_group where
  "en_proxy_inbound =
    [(''editorDescription'', Words [say ''Configure fields supported by sing-box 1.13; maintain complex or unknown fields in Advanced JSON.'']),
     (''basic'', Words [say ''Basic'']), (''listenAndConnection'', Words [say ''Listen & connection'']), (''protocol'', Words [say ''Protocol'']),
     (''tlsReality'', Words [say ''TLS / Reality'']), (''transportMultiplex'', Words [say ''Transport & multiplex'']),
     (''selectType'', Words [say ''Select inbound type'']), (''notSet'', Words [say ''Not set'']), (''enabled'', Words [say ''Enabled'']),
     (''disabled'', Words [say ''Disabled'']), (''listenAddress'', Words [say ''Listen address'']),
     (''listenIPv4All'', Words [say ''0.0.0.0 (all IPv4)'']), (''listenIPv6All'', Words [say '':: (all IPv6)'']),
     (''listenManual'', Words [say ''Manual input'']), (''listenManualInput'', Words [say ''Custom listen address'']),
     (''listenManualPlaceholder'', Words [say ''e.g. 127.0.0.1 or 192.168.1.10'']), (''listenPort'', Words [say ''Listen port'']),
     (''bindInterface'', Words [say ''Bind interface'']), (''routingMark'', Words [say ''Routing mark'']),
     (''reuseAddress'', Words [say ''Reuse address'']), (''networkNamespace'', Words [say ''Network namespace'']),
     (''tcpFastOpen'', Words [say ''TCP Fast Open'']), (''tcpMultiPath'', Words [say ''TCP MultiPath'']),
     (''disableTCPKeepAlive'', Words [say ''Disable TCP Keep Alive'']), (''tcpKeepAlive'', Words [say ''TCP Keep Alive'']),
     (''tcpKeepAliveInterval'', Words [say ''TCP Keep Alive interval'']), (''udpFragment'', Words [say ''UDP fragmentation'']),
     (''udpTimeout'', Words [say ''UDP timeout'']), (''detour'', Words [say ''Inbound detour'']), (''users'', Words [say ''Authentication users'']),
     (''usersJSONHint'', Words [say ''Edit users as a JSON array to preserve protocol extensions.'']),
     (''jsonObjectHint'', Words [say ''Edit this setting as a JSON object.'']),
     (''invalidStructuredJSON'', Words [say ''Enter a valid JSON structure.'']), (''domainResolver'', Words [say ''Domain resolver'']),
     (''setSystemProxy'', Words [say ''Set system proxy'']), (''network'', Words [say ''Network'']),
     (''overrideAddress'', Words [say ''Override destination address'']), (''overridePort'', Words [say ''Override destination port'']),
     (''method'', Words [say ''Method'']), (''password'', Words [say ''Password'']), (''managed'', Words [say ''Managed mode'']),
     (''fallback'', Words [say ''Fallback target'']), (''congestionControl'', Words [say ''Congestion control'']),
     (''uploadBandwidth'', Words [say ''Upload bandwidth'']), (''downloadBandwidth'', Words [say ''Download bandwidth'']),
     (''uploadMbps'', Words [say ''Upload Mbps'']), (''downloadMbps'', Words [say ''Download Mbps'']),
     (''obfuscation'', Words [say ''Obfuscation'']), (''obfuscationType'', Words [say ''Obfuscation type'']),
     (''obfuscationPassword'', Words [say ''Obfuscation password'']), (''receiveWindowConnection'', Words [say ''Connection receive window'']),
     (''receiveWindowClient'', Words [say ''Client receive window'']), (''maxClientConnections'', Words [say ''Maximum client connections'']),
     (''disableMTUDiscovery'', Words [say ''Disable MTU discovery'']), (''ignoreClientBandwidth'', Words [say ''Ignore client bandwidth'']),
     (''masquerade'', Words [say ''Masquerade URL'']), (''brutalDebug'', Words [say ''Brutal debug'']),
     (''authenticationTimeout'', Words [say ''Authentication timeout'']), (''zeroRTTHandshake'', Words [say ''0-RTT handshake'']),
     (''heartbeat'', Words [say ''Heartbeat'']), (''version'', Words [say ''Version'']), (''handshakeServer'', Words [say ''Handshake server'']),
     (''handshakePort'', Words [say ''Handshake port'']), (''strictMode'', Words [say ''Strict mode'']),
     (''wildcardSNI'', Words [say ''Wildcard SNI'']), (''paddingScheme'', Words [say ''Padding scheme'']),
     (''interfaceName'', Words [say ''Interface name'']), (''mtu'', Words [say ''MTU'']), (''tunAddress'', Words [say ''Interface address'']),
     (''stack'', Words [say ''Network stack'']), (''autoRoute'', Words [say ''Auto route'']),
     (''ipRouteTableIndex'', Words [say ''Route table index'']), (''ipRouteRuleIndex'', Words [say ''Route rule index'']),
     (''autoRedirect'', Words [say ''Auto redirect'']), (''autoRedirectInputMark'', Words [say ''Auto redirect input mark'']),
     (''autoRedirectOutputMark'', Words [say ''Auto redirect output mark'']), (''autoRedirectResetMark'', Words [say ''Auto redirect reset mark'']),
     (''autoRedirectNFQueue'', Words [say ''Auto redirect NFQueue'']),
     (''autoRedirectFallbackRuleIndex'', Words [say ''Auto redirect fallback rule index'']),
     (''loopbackAddress'', Words [say ''Loopback addresses'']), (''strictRoute'', Words [say ''Strict route'']),
     (''routeAddress'', Words [say ''Route addresses'']), (''routeAddressSet'', Words [say ''Route rule sets'']),
     (''routeExcludeAddress'', Words [say ''Excluded route addresses'']), (''routeExcludeAddressSet'', Words [say ''Excluded route rule sets'']),
     (''includeInterface'', Words [say ''Included interfaces'']), (''excludeInterface'', Words [say ''Excluded interfaces'']),
     (''includeUID'', Words [say ''Included UIDs'']), (''excludeUID'', Words [say ''Excluded UIDs'']),
     (''includeUIDRange'', Words [say ''Included UID ranges'']), (''excludeUIDRange'', Words [say ''Excluded UID ranges'']),
     (''includeAndroidUser'', Words [say ''Included Android users'']), (''includePackage'', Words [say ''Included packages'']),
     (''excludePackage'', Words [say ''Excluded packages'']), (''excludeMPTCP'', Words [say ''Exclude MPTCP'']),
     (''tlsEnabled'', Words [say ''Enable TLS'']), (''serverName'', Words [say ''Server name'']),
     (''insecure'', Words [say ''Skip certificate verification'']), (''alpn'', Words [say ''ALPN'']),
     (''minimumTLSVersion'', Words [say ''Minimum TLS version'']), (''maximumTLSVersion'', Words [say ''Maximum TLS version'']),
     (''cipherSuites'', Words [say ''Cipher suites'']), (''curvePreferences'', Words [say ''Curve preferences'']),
     (''certificate'', Words [say ''Certificate content'']), (''certificatePath'', Words [say ''Certificate path'']),
     (''privateKey'', Words [say ''Private key content'']), (''keyPath'', Words [say ''Private key path'']),
     (''clientAuthentication'', Words [say ''Client certificate authentication'']),
     (''clientCertificate'', Words [say ''Client certificate content'']), (''clientCertificatePath'', Words [say ''Client certificate paths'']),
     (''clientCertificateSHA256'', Words [say ''Client certificate public key SHA256'']), (''kernelTX'', Words [say ''Enable Kernel TLS transmit'']),
     (''kernelRX'', Words [say ''Enable Kernel TLS receive'']), (''acmeDomain'', Words [say ''ACME domains'']),
     (''acmeDataDirectory'', Words [say ''ACME data directory'']), (''acmeDefaultServerName'', Words [say ''ACME default server name'']),
     (''acmeEmail'', Words [say ''ACME email'']), (''acmeProvider'', Words [say ''ACME provider'']),
     (''disableHTTPChallenge'', Words [say ''Disable HTTP challenge'']), (''disableTLSALPNChallenge'', Words [say ''Disable TLS-ALPN challenge'']),
     (''alternativeHTTPPort'', Words [say ''Alternative HTTP port'']), (''alternativeTLSPort'', Words [say ''Alternative TLS port'']),
     (''echEnabled'', Words [say ''Enable ECH'']), (''echKey'', Words [say ''ECH keys'']), (''echKeyPath'', Words [say ''ECH key path'']),
     (''realityEnabled'', Words [say ''Enable Reality'']), (''realityHandshakeServer'', Words [say ''Reality handshake server'']),
     (''realityHandshakePort'', Words [say ''Reality handshake port'']), (''realityPrivateKey'', Words [say ''Reality private key'']),
     (''realityShortID'', Words [say ''Reality short IDs'']), (''realityMaxTimeDifference'', Words [say ''Reality maximum time difference'']),
     (''transportType'', Words [say ''Transport type'']), (''transportHost'', Words [say ''Transport host'']),
     (''transportPath'', Words [say ''Transport path'']), (''transportMethod'', Words [say ''Transport method'']),
     (''transportHeaders'', Words [say ''Transport headers'']), (''serviceName'', Words [say ''Service name'']),
     (''maxEarlyData'', Words [say ''Maximum early data'']), (''earlyDataHeaderName'', Words [say ''Early data header'']),
     (''idleTimeout'', Words [say ''Idle timeout'']), (''pingTimeout'', Words [say ''Ping timeout'']),
     (''permitWithoutStream'', Words [say ''Permit ping without stream'']), (''multiplexEnabled'', Words [say ''Enable multiplex'']),
     (''multiplexPadding'', Words [say ''Multiplex padding'']), (''brutalEnabled'', Words [say ''Enable Brutal'']),
     (''section'', Group en_proxy_inbound_section), (''addUser'', Words [say ''Add user'']), (''removeUser'', Words [say ''Remove user'']),
     (''usersEmpty'', Words [say ''No users yet. Click add to create one.'']), (''userName'', Words [say ''Name'']),
     (''username'', Words [say ''Username'']), (''uuid'', Words [say ''UUID'']), (''flow'', Words [say ''Flow'']),
     (''alterId'', Words [say ''Alter ID'']), (''tun'', Words [say ''TUN'']), (''interfaceManual'', Words [say ''Manual input'']),
     (''interfaceManualInput'', Words [say ''Custom interface name'']), (''interfaceManualPlaceholder'', Words [say ''e.g. eth0 or wlan0'']),
     (''listenAddressHelp'', Words [say ''IP address to listen on. All-zero binds every interface; choose manual input for a specific address.'']),
     (''listenPortHelp'', Words [say ''Inbound listen port. Make sure it is free and allowed by the firewall.'']),
     (''bindInterfaceHelp'', Words [say ''Bind the inbound socket to a specific network interface. Useful on multi-NIC hosts.'']),
     (''routingMarkHelp'', Words [say ''Linux routing mark (SO_MARK) applied to inbound connections for policy routing.'']),
     (''reuseAddressHelp'', Words [say ''Enable address reuse (SO_REUSEADDR) so the port can rebind quickly after restarts.'']),
     (''networkNamespaceHelp'', Words [say ''Place the inbound into a network namespace. Common for containers or isolated networks.'']),
     (''tcpFastOpenHelp'', Words [say ''Enable TCP Fast Open to reduce first-connection latency when supported.'']),
     (''tcpMultiPathHelp'', Words [say ''Enable TCP Multipath so one connection can use multiple network paths.'']),
     (''disableTCPKeepAliveHelp'', Words [say ''Disable TCP Keep Alive probes for this inbound.'']),
     (''tcpKeepAliveHelp'', Words [say ''Idle time before TCP Keep Alive probes start, for example 5m.'']),
     (''tcpKeepAliveIntervalHelp'', Words [say ''Interval between TCP Keep Alive probes, for example 30s.'']),
     (''udpFragmentHelp'', Words [say ''Whether UDP fragmentation is allowed for large datagrams.'']),
     (''udpTimeoutHelp'', Words [say ''UDP session idle timeout, for example 5m.'']),
     (''detourHelp'', Words [say ''Upstream inbound tag. Traffic is processed by that inbound first.'']),
     (''usersHelp'', Words [say ''Authentication users. Fields vary by protocol, such as username, password, or UUID.'']),
     (''domainResolverHelp'', Words [say ''DNS server tag used to resolve hostnames.'']),
     (''setSystemProxyHelp'', Words [say ''Try to configure the system proxy automatically when supported.'']),
     (''networkHelp'', Words [say ''Allowed networks such as tcp or udp.'']),
     (''overrideAddressHelp'', Words [say ''Override the original destination host.'']),
     (''overridePortHelp'', Words [say ''Override the original destination port.'']),
     (''methodHelp'', Words [say ''Encryption method, for example aes-128-gcm for Shadowsocks.'']),
     (''passwordHelp'', Words [say ''Protocol authentication password.'']),
     (''managedHelp'', Words [say ''Marks the inbound as managed by an external controller.'']),
     (''fallbackHelp'', Words [say ''Fallback target used when authentication or matching fails.'']),
     (''congestionControlHelp'', Words [say ''QUIC congestion control algorithm such as bbr or cubic.'']),
     (''uploadBandwidthHelp'', Words [say ''Upload bandwidth limit.'']), (''downloadBandwidthHelp'', Words [say ''Download bandwidth limit.'']),
     (''uploadMbpsHelp'', Words [say ''Upload rate limit in Mbps.'']), (''downloadMbpsHelp'', Words [say ''Download rate limit in Mbps.'']),
     (''obfuscationHelp'', Words [say ''Traffic obfuscation settings used to disguise protocol fingerprints.'']),
     (''obfuscationTypeHelp'', Words [say ''Obfuscation type, for example salamander.'']),
     (''obfuscationPasswordHelp'', Words [say ''Shared password used by obfuscation.'']),
     (''receiveWindowConnectionHelp'', Words [say ''QUIC connection-level receive window.'']),
     (''receiveWindowClientHelp'', Words [say ''QUIC client receive window.'']),
     (''maxClientConnectionsHelp'', Words [say ''Maximum concurrent connections allowed from one client.'']),
     (''disableMTUDiscoveryHelp'', Words [say ''Disable MTU discovery and keep a fixed path MTU.'']),
     (''ignoreClientBandwidthHelp'', Words [say ''Ignore client-reported bandwidth and use server settings instead.'']),
     (''masqueradeHelp'', Words [say ''Masquerade as another HTTP/HTTPS service.'']),
     (''brutalDebugHelp'', Words [say ''Enable Brutal debug logging.'']),
     (''authenticationTimeoutHelp'', Words [say ''Authentication timeout before the connection is closed.'']),
     (''zeroRTTHandshakeHelp'', Words [say ''Enable 0-RTT handshakes for lower reconnect latency.'']),
     (''heartbeatHelp'', Words [say ''Heartbeat interval used for keep-alive checks.'']), (''versionHelp'', Words [say ''Protocol version.'']),
     (''handshakeServerHelp'', Words [say ''Handshake camouflage server address.'']),
     (''handshakePortHelp'', Words [say ''Handshake camouflage server port.'']),
     (''strictModeHelp'', Words [say ''Enable strict validation and reject non-compliant connections.'']),
     (''wildcardSNIHelp'', Words [say ''Wildcard SNI handling policy.'']),
     (''paddingSchemeHelp'', Words [say ''Padding scheme used to obscure packet sizes.'']),
     (''interfaceNameHelp'', Words [say ''TUN interface name, for example tun0.'']),
     (''mtuHelp'', Words [say ''TUN interface MTU. Too small hurts throughput; too large may cause fragmentation.'']),
     (''tunAddressHelp'', Words [say ''TUN interface addresses, usually private ranges.'']),
     (''stackHelp'', Words [say ''TUN network stack: system, gvisor, or mixed.'']),
     (''autoRouteHelp'', Words [say ''Automatically install system routes that send matched traffic into the TUN.'']),
     (''ipRouteTableIndexHelp'', Words [say ''Policy routing table index used by auto route.'']),
     (''ipRouteRuleIndexHelp'', Words [say ''Starting priority for auto-route rules.'']),
     (''autoRedirectHelp'', Words [say ''Automatically configure transparent redirection without manual firewall rules.'']),
     (''autoRedirectInputMarkHelp'', Words [say ''Mark applied to redirected inbound traffic.'']),
     (''autoRedirectOutputMarkHelp'', Words [say ''Mark applied to redirected outbound traffic.'']),
     (''autoRedirectResetMarkHelp'', Words [say ''Reset mark used by transparent redirection.'']),
     (''autoRedirectNFQueueHelp'', Words [say ''NFQueue number used by transparent redirection.'']),
     (''autoRedirectFallbackRuleIndexHelp'', Words [say ''Fallback rule index for transparent redirection.'']),
     (''loopbackAddressHelp'', Words [say ''Loopback addresses that need special handling.'']),
     (''strictRouteHelp'', Words [say ''Enable strict routing to reduce traffic leaking around the TUN.'']),
     (''routeAddressHelp'', Words [say ''Destination addresses or prefixes routed into the TUN.'']),
     (''routeAddressSetHelp'', Words [say ''Route rule sets routed into the TUN.'']),
     (''routeExcludeAddressHelp'', Words [say ''Destination addresses excluded from the TUN.'']),
     (''routeExcludeAddressSetHelp'', Words [say ''Route rule sets excluded from the TUN.'']),
     (''includeInterfaceHelp'', Words [say ''Only accept traffic from these interfaces.'']),
     (''excludeInterfaceHelp'', Words [say ''Ignore traffic from these interfaces.'']),
     (''includeUIDHelp'', Words [say ''Only accept traffic from these Linux UIDs.'']),
     (''excludeUIDHelp'', Words [say ''Ignore traffic from these Linux UIDs.'']),
     (''includeUIDRangeHelp'', Words [say ''Only accept traffic from these UID ranges.'']),
     (''excludeUIDRangeHelp'', Words [say ''Ignore traffic from these UID ranges.'']),
     (''includeAndroidUserHelp'', Words [say ''Only accept traffic from these Android users.'']),
     (''includePackageHelp'', Words [say ''Only accept traffic from these Android packages.'']),
     (''excludePackageHelp'', Words [say ''Ignore traffic from these Android packages.'']),
     (''excludeMPTCPHelp'', Words [say ''Exclude MPTCP traffic to avoid multipath connection issues.'']),
     (''tlsEnabledHelp'', Words [say ''Enable TLS for this inbound.'']), (''serverNameHelp'', Words [say ''TLS SNI / certificate hostname.'']),
     (''insecureHelp'', Words [say ''Skip certificate verification. Use only for testing.'']),
     (''alpnHelp'', Words [say ''TLS ALPN list, for example h2 or http/1.1.'']),
     (''minimumTLSVersionHelp'', Words [say ''Minimum allowed TLS version.'']),
     (''maximumTLSVersionHelp'', Words [say ''Maximum allowed TLS version.'']), (''cipherSuitesHelp'', Words [say ''Allowed TLS cipher suites.'']),
     (''curvePreferencesHelp'', Words [say ''Preferred elliptic curves.'']), (''certificateHelp'', Words [say ''TLS certificate contents.'']),
     (''certificatePathHelp'', Words [say ''Path to the TLS certificate file.'']), (''privateKeyHelp'', Words [say ''TLS private key contents.'']),
     (''keyPathHelp'', Words [say ''Path to the TLS private key file.'']),
     (''clientAuthenticationHelp'', Words [say ''Client certificate authentication policy.'']),
     (''clientCertificateHelp'', Words [say ''Trusted client certificate contents.'']),
     (''clientCertificatePathHelp'', Words [say ''Trusted client certificate paths.'']),
     (''clientCertificateSHA256Help'', Words [say ''Trusted client certificate public-key SHA256 digests.'']),
     (''kernelTXHelp'', Words [say ''Enable kernel TLS transmit offload.'']), (''kernelRXHelp'', Words [say ''Enable kernel TLS receive offload.'']),
     (''acmeDomainHelp'', Words [say ''Domains for automatic ACME certificates.'']),
     (''acmeDataDirectoryHelp'', Words [say ''Directory used to store ACME account and certificate data.'']),
     (''acmeDefaultServerNameHelp'', Words [say ''Default server name for ACME.'']),
     (''acmeEmailHelp'', Words [say ''Email address used for ACME registration.'']),
     (''acmeProviderHelp'', Words [say ''ACME certificate provider.'']),
     (''disableHTTPChallengeHelp'', Words [say ''Disable the HTTP-01 challenge.'']),
     (''disableTLSALPNChallengeHelp'', Words [say ''Disable the TLS-ALPN-01 challenge.'']),
     (''alternativeHTTPPortHelp'', Words [say ''Alternate port used for HTTP-01 challenges.'']),
     (''alternativeTLSPortHelp'', Words [say ''Alternate port used for TLS-ALPN-01 challenges.'']),
     (''echEnabledHelp'', Words [say ''Enable Encrypted Client Hello to hide SNI.'']),
     (''echKeyHelp'', Words [say ''ECH private key configuration.'']), (''echKeyPathHelp'', Words [say ''Path to the ECH private key file.'']),
     (''realityEnabledHelp'', Words [say ''Enable Reality to camouflage as a legitimate TLS site.'']),
     (''realityHandshakeServerHelp'', Words [say ''Target server used for Reality handshake camouflage.'']),
     (''realityHandshakePortHelp'', Words [say ''Target port used for Reality handshake camouflage.'']),
     (''realityPrivateKeyHelp'', Words [say ''Reality server private key.'']), (''realityShortIDHelp'', Words [say ''Reality short ID list.'']),
     (''realityMaxTimeDifferenceHelp'', Words [say ''Maximum allowed time skew for anti-replay checks.'']),
     (''transportTypeHelp'', Words [say ''Transport type such as ws, grpc, or httpupgrade.'']),
     (''transportHostHelp'', Words [say ''Transport host header or hostname.'']), (''transportPathHelp'', Words [say ''Transport path.'']),
     (''transportHeadersHelp'', Words [say ''Custom HTTP headers used by the transport.'']),
     (''transportMethodHelp'', Words [say ''HTTP method used by the transport.'']), (''serviceNameHelp'', Words [say ''gRPC service name.'']),
     (''idleTimeoutHelp'', Words [say ''Idle timeout duration.'']), (''pingTimeoutHelp'', Words [say ''Ping timeout duration.'']),
     (''permitWithoutStreamHelp'', Words [say ''Allow the connection to stay alive without an active stream.'']),
     (''maxEarlyDataHelp'', Words [say ''Maximum early-data size in bytes.'']),
     (''earlyDataHeaderNameHelp'', Words [say ''HTTP header name used for early data.'']),
     (''multiplexEnabledHelp'', Words [say ''Enable multiplexing so multiple streams share one connection.'']),
     (''multiplexPaddingHelp'', Words [say ''Add padding to multiplexed traffic to reduce fingerprints.'']),
     (''brutalEnabledHelp'', Words [say ''Enable Brutal-related congestion control features.''])]"

definition en_proxy_outbound_section :: text_group where
  "en_proxy_outbound_section =
    [(''bind'', Words [say ''Bind & routing'']), (''tcp'', Words [say ''TCP'']), (''udp'', Words [say ''UDP'']),
     (''dns'', Words [say ''Domain resolver'']), (''strategy'', Words [say ''Network strategy'']), (''auth'', Words [say ''Authentication'']),
     (''protocol'', Words [say ''Protocol'']), (''group'', Words [say ''Group'']), (''tlsBasic'', Words [say ''TLS basics'']),
     (''tlsCert'', Words [say ''Certificates'']), (''tlsFragment'', Words [say ''TLS fragment'']), (''tlsEch'', Words [say ''ECH'']),
     (''tlsUtls'', Words [say ''uTLS'']), (''tlsReality'', Words [say ''Reality'']), (''transport'', Words [say ''Transport'']),
     (''multiplex'', Words [say ''Multiplex''])]"

definition en_proxy_outbound :: text_group where
  "en_proxy_outbound =
    [(''editorDescription'', Words [say ''Configure fields supported by sing-box 1.13; maintain complex or unknown fields in Advanced JSON.'']),
     (''groupOutbound'', Words [say ''Grouped outbound'']), (''members'', Words [say ''Members: '', Hole ''members'']),
     (''detourSummary'', Words [say ''Detour: '', Hole ''detour'']), (''basic'', Words [say ''Basic'']),
     (''dialing'', Words [say ''Dialing & network'']), (''protocol'', Words [say ''Protocol'']), (''group'', Words [say ''Group'']),
     (''tlsReality'', Words [say ''TLS / uTLS / Reality'']), (''transportMultiplex'', Words [say ''Transport & multiplex'']),
     (''selectType'', Words [say ''Select outbound type'']), (''notSet'', Words [say ''Not set'']), (''enabled'', Words [say ''Enabled'']),
     (''disabled'', Words [say ''Disabled'']), (''server'', Words [say ''Server address'']), (''serverPort'', Words [say ''Server port'']),
     (''jsonObjectHint'', Words [say ''Edit this setting as a JSON object.'']),
     (''usersJSONHint'', Words [say ''Edit this setting as a JSON array.'']),
     (''invalidStructuredJSON'', Words [say ''Enter a valid JSON structure.'']),
     (''managedGroupTitle'', Words [say ''Manage subscription-generated groups from Subscriptions'']),
     (''managedGroupDescription'', Words [say ''Direct changes to generated Selector or URLTest groups may be overwritten by the next subscription synchronization.'']),
     (''section'', Group en_proxy_outbound_section), (''detour'', Words [say ''Outbound detour'']),
     (''bindInterface'', Words [say ''Bind interface'']), (''interfaceManual'', Words [say ''Manual input'']),
     (''interfaceManualInput'', Words [say ''Custom interface name'']), (''interfaceManualPlaceholder'', Words [say ''e.g. eth0 or wlan0'']),
     (''bindInterfaceHelp'', Words [say ''Bind outbound connections to a specific network interface. Useful on multi-NIC hosts when traffic must leave via one NIC.'']),
     (''inet4BindAddress'', Words [say ''IPv4 bind address'']), (''inet6BindAddress'', Words [say ''IPv6 bind address'']),
     (''bindAddressNoPort'', Words [say ''Bind address without port'']), (''protectPath'', Words [say ''Protect path'']),
     (''routingMark'', Words [say ''Routing mark'']), (''reuseAddress'', Words [say ''Reuse address'']),
     (''networkNamespace'', Words [say ''Network namespace'']), (''connectTimeout'', Words [say ''Connect timeout'']),
     (''tcpFastOpen'', Words [say ''TCP Fast Open'']), (''tcpMultiPath'', Words [say ''TCP MultiPath'']),
     (''disableTCPKeepAlive'', Words [say ''Disable TCP Keep Alive'']), (''tcpKeepAlive'', Words [say ''TCP Keep Alive'']),
     (''tcpKeepAliveInterval'', Words [say ''TCP Keep Alive interval'']), (''udpFragment'', Words [say ''UDP fragmentation'']),
     (''domainResolverServer'', Words [say ''Domain resolver server'']), (''domainResolverStrategy'', Words [say ''Domain resolver strategy'']),
     (''domainResolverDisableCache'', Words [say ''Disable resolver cache'']), (''domainResolverRewriteTTL'', Words [say ''Resolver rewrite TTL'']),
     (''domainResolverClientSubnet'', Words [say ''Resolver client subnet'']), (''networkStrategy'', Words [say ''Network strategy'']),
     (''networkType'', Words [say ''Network types'']), (''fallbackNetworkType'', Words [say ''Fallback network types'']),
     (''fallbackDelay'', Words [say ''Fallback delay'']), (''version'', Words [say ''Version'']), (''username'', Words [say ''Username'']),
     (''password'', Words [say ''Password'']), (''network'', Words [say ''Network'']), (''udpOverTCPEnabled'', Words [say ''Enable UDP over TCP'']),
     (''udpOverTCPVersion'', Words [say ''UDP over TCP version'']), (''httpPath'', Words [say ''HTTP path'']),
     (''headers'', Words [say ''Request headers'']), (''method'', Words [say ''Method'']), (''plugin'', Words [say ''Plugin'']),
     (''pluginOptions'', Words [say ''Plugin options'']), (''uuid'', Words [say ''UUID'']), (''security'', Words [say ''Security'']),
     (''alterId'', Words [say ''Alter ID'']), (''globalPadding'', Words [say ''Global padding'']),
     (''authenticatedLength'', Words [say ''Authenticated length'']), (''packetEncoding'', Words [say ''Packet encoding'']),
     (''flow'', Words [say ''Flow'']), (''insecureConcurrency'', Words [say ''Insecure concurrency'']),
     (''extraHeaders'', Words [say ''Extra headers'']), (''streamReceiveWindow'', Words [say ''Stream receive window'']),
     (''quic'', Words [say ''Enable QUIC'']), (''quicCongestionControl'', Words [say ''QUIC congestion control'']),
     (''quicSessionReceiveWindow'', Words [say ''QUIC session receive window'']), (''serverPorts'', Words [say ''Server ports'']),
     (''hopInterval'', Words [say ''Port hopping interval'']), (''uploadBandwidth'', Words [say ''Upload bandwidth'']),
     (''uploadMbps'', Words [say ''Upload Mbps'']), (''downloadBandwidth'', Words [say ''Download bandwidth'']),
     (''downloadMbps'', Words [say ''Download Mbps'']), (''obfuscation'', Words [say ''Obfuscation'']),
     (''auth'', Words [say ''Authentication data (Base64)'']), (''authString'', Words [say ''Authentication string'']),
     (''receiveWindowConnection'', Words [say ''Connection receive window'']), (''receiveWindow'', Words [say ''Receive window'']),
     (''disableMTUDiscovery'', Words [say ''Disable MTU discovery'']), (''obfuscationType'', Words [say ''Obfuscation type'']),
     (''obfuscationPassword'', Words [say ''Obfuscation password'']), (''brutalDebug'', Words [say ''Brutal debug'']),
     (''congestionControl'', Words [say ''Congestion control'']), (''udpRelayMode'', Words [say ''UDP relay mode'']),
     (''udpOverStream'', Words [say ''UDP over stream'']), (''zeroRTTHandshake'', Words [say ''0-RTT handshake'']),
     (''heartbeat'', Words [say ''Heartbeat'']), (''sshUser'', Words [say ''SSH user'']), (''privateKey'', Words [say ''Private key content'']),
     (''privateKeyPath'', Words [say ''Private key path'']), (''privateKeyPassphrase'', Words [say ''Private key passphrase'']),
     (''hostKey'', Words [say ''Host keys'']), (''hostKeyAlgorithms'', Words [say ''Host key algorithms'']),
     (''clientVersion'', Words [say ''Client version'']), (''executablePath'', Words [say ''Executable path'']),
     (''extraArguments'', Words [say ''Extra arguments'']), (''dataDirectory'', Words [say ''Data directory'']),
     (''torOptions'', Words [say ''Tor options'']), (''idleSessionCheckInterval'', Words [say ''Idle session check interval'']),
     (''idleSessionTimeout'', Words [say ''Idle session timeout'']), (''minimumIdleSession'', Words [say ''Minimum idle sessions'']),
     (''groupOutbounds'', Words [say ''Group members'']), (''groupDefault'', Words [say ''Default member'']),
     (''interruptConnections'', Words [say ''Interrupt existing connections on switch'']), (''urlTestURL'', Words [say ''Test URL'']),
     (''urlTestInterval'', Words [say ''Test interval'']), (''urlTestTolerance'', Words [say ''Test tolerance'']),
     (''idleTimeout'', Words [say ''Idle timeout'']), (''tlsEnabled'', Words [say ''Enable TLS'']), (''disableSNI'', Words [say ''Disable SNI'']),
     (''serverName'', Words [say ''Server name'']), (''insecure'', Words [say ''Skip certificate verification'']), (''alpn'', Words [say ''ALPN'']),
     (''minimumTLSVersion'', Words [say ''Minimum TLS version'']), (''maximumTLSVersion'', Words [say ''Maximum TLS version'']),
     (''cipherSuites'', Words [say ''Cipher suites'']), (''curvePreferences'', Words [say ''Curve preferences'']),
     (''certificate'', Words [say ''CA certificate content'']), (''certificatePath'', Words [say ''CA certificate path'']),
     (''certificateSHA256'', Words [say ''Certificate public key SHA256'']), (''clientCertificate'', Words [say ''Client certificate content'']),
     (''clientCertificatePath'', Words [say ''Client certificate path'']), (''clientKey'', Words [say ''Client key content'']),
     (''clientKeyPath'', Words [say ''Client key path'']), (''tlsFragment'', Words [say ''TLS fragmentation'']),
     (''fragmentFallbackDelay'', Words [say ''Fragment fallback delay'']), (''recordFragment'', Words [say ''TLS record fragmentation'']),
     (''kernelTX'', Words [say ''Enable Kernel TLS transmit'']), (''kernelRX'', Words [say ''Enable Kernel TLS receive'']),
     (''echEnabled'', Words [say ''Enable ECH'']), (''echConfig'', Words [say ''ECH config'']), (''echConfigPath'', Words [say ''ECH config path'']),
     (''echQueryServerName'', Words [say ''ECH query server name'']), (''utlsEnabled'', Words [say ''Enable uTLS'']),
     (''utlsFingerprint'', Words [say ''uTLS fingerprint'']), (''realityEnabled'', Words [say ''Enable Reality'']),
     (''realityPublicKey'', Words [say ''Reality public key'']), (''realityShortID'', Words [say ''Reality short ID'']),
     (''transportType'', Words [say ''Transport type'']), (''transportHost'', Words [say ''Transport host'']),
     (''transportPath'', Words [say ''Transport path'']), (''transportMethod'', Words [say ''Transport method'']),
     (''transportHeaders'', Words [say ''Transport headers'']), (''serviceName'', Words [say ''Service name'']),
     (''maxEarlyData'', Words [say ''Maximum early data'']), (''earlyDataHeaderName'', Words [say ''Early data header'']),
     (''pingTimeout'', Words [say ''Ping timeout'']), (''permitWithoutStream'', Words [say ''Permit ping without stream'']),
     (''multiplexEnabled'', Words [say ''Enable multiplex'']), (''multiplexProtocol'', Words [say ''Multiplex protocol'']),
     (''maxConnections'', Words [say ''Maximum connections'']), (''minStreams'', Words [say ''Minimum streams'']),
     (''maxStreams'', Words [say ''Maximum streams'']), (''multiplexPadding'', Words [say ''Multiplex padding'']),
     (''brutalEnabled'', Words [say ''Enable Brutal'']), (''detourHelp'', Words [say ''Upstream outbound tag used before the final destination.'']),
     (''connectTimeoutHelp'', Words [say ''Dial timeout, e.g. 5s.'']),
     (''domainResolverServerHelp'', Words [say ''DNS server tag used to resolve the outbound host.'']),
     (''domainResolverStrategyHelp'', Words [say ''Domain resolve strategy.'']),
     (''domainResolverDisableCacheHelp'', Words [say ''Disable resolver cache.'']),
     (''domainResolverRewriteTTLHelp'', Words [say ''Rewrite resolved TTL in seconds.'']),
     (''domainResolverClientSubnetHelp'', Words [say ''EDNS Client Subnet.'']),
     (''networkStrategyHelp'', Words [say ''Dual-stack network strategy.'']), (''networkTypeHelp'', Words [say ''Preferred network types.'']),
     (''fallbackNetworkTypeHelp'', Words [say ''Fallback network types.'']), (''fallbackDelayHelp'', Words [say ''Fallback delay.'']),
     (''tlsEnabledHelp'', Words [say ''Enable TLS.'']), (''disableSNIHelp'', Words [say ''Omit SNI in ClientHello.'']),
     (''serverNameHelp'', Words [say ''TLS SNI / certificate hostname.'']),
     (''insecureHelp'', Words [say ''Skip certificate verification (testing only).'']), (''alpnHelp'', Words [say ''ALPN list.'']),
     (''minimumTLSVersionHelp'', Words [say ''Minimum allowed TLS version.'']),
     (''maximumTLSVersionHelp'', Words [say ''Maximum allowed TLS version.'']), (''utlsEnabledHelp'', Words [say ''Enable uTLS fingerprinting.'']),
     (''utlsFingerprintHelp'', Words [say ''uTLS fingerprint, e.g. chrome.'']), (''realityEnabledHelp'', Words [say ''Enable Reality.'']),
     (''realityPublicKeyHelp'', Words [say ''Reality public key.'']), (''realityShortIDHelp'', Words [say ''Reality short ID.'']),
     (''echEnabledHelp'', Words [say ''Enable ECH.'']), (''multiplexEnabledHelp'', Words [say ''Enable multiplexing.'']),
     (''brutalEnabledHelp'', Words [say ''Enable Brutal.'']), (''udpOverTCPEnabledHelp'', Words [say ''Enable UDP over TCP.'']),
     (''methodHelp'', Words [say ''Encryption method.'']), (''networkHelp'', Words [say ''Allowed networks.''])]"

definition en_proxy :: text_group where
  "en_proxy =
    [(''addInbound'', Words [say ''Add inbound'']), (''addOutbound'', Words [say ''Add outbound'']),
     (''installDefaults'', Words [say ''Install default outbounds'']), (''listSuffix'', Words [say '' list'']),
     (''saved'', Words [say ''Configuration saved'']), (''rolledBack'', Words [say ''Configuration rolled back'']),
     (''description'', Words [say ''The backend validates the configuration and restarts the kernel after saving.'']),
     (''empty'', Words [say ''No configuration'']), (''emptyDescription'', Words [say ''Add the first entry.'']), (''tag'', Words [say ''Tag'']),
     (''server'', Words [say ''Address'']), (''advancedJSON'', Words [say ''Advanced JSON'']),
     (''editorDescription'', Words [say ''Edit common fields here and maintain all other fields in JSON.'']), (''editPrefix'', Words [say ''Edit'']),
     (''deleteTitle'', Words [say ''Delete proxy configuration?'']),
     (''deleteDescription'', Words [Hole ''tag'', say '' will be removed and the backend will reload the configuration.'']),
     (''confirmDelete'', Words [say ''Confirm delete'']), (''inbound'', Group en_proxy_inbound), (''outbound'', Group en_proxy_outbound)]"

definition en_policy_route_section :: text_group where
  "en_policy_route_section =
    [(''basic'', Words [say ''Basics'']), (''interface'', Words [say ''Interface & routing'']), (''dns'', Words [say ''Default domain resolver'']),
     (''strategy'', Words [say ''Network strategy'']), (''domain'', Words [say ''Domain & address'']),
     (''process'', Words [say ''Ports & process'']), (''environment'', Words [say ''Rule sets & network'']), (''action'', Words [say ''Action''])]"

definition en_policy_route :: text_group where
  "en_policy_route =
    [(''globalTitle'', Words [say ''Global route settings'']),
     (''globalDescription'', Words [say ''Choose the default outbound, domain resolver, and network fallback behavior.'']),
     (''globalFooter'', Words [say ''Fields not shown here remain available in Advanced JSON.'']),
     (''outboundDescription'', Words [say ''Choose a tag from the configured outbounds.'']),
     (''outboundLoading'', Words [say ''Loading outbounds'', Say [8230]]), (''rulesTitle'', Words [say ''Route rules'']),
     (''rulesDescription'', Words [say ''Rules match from top to bottom.'']), (''addRule'', Words [say ''Add route rule'']),
     (''emptyRulesTitle'', Words [say ''No route rules'']), (''emptyRulesDescription'', Words [say ''Add the first traffic-matching rule.'']),
     (''rulesCount'', Words [Hole ''count'', say '' route rules'']), (''ruleName'', Words [say ''Rule name'']),
     (''ruleNamePlaceholder'', Words [say ''Optional; the rule number is used when empty'']),
     (''ruleNameDescription'', Words [say ''Stored by boxd only and never written to the sing-box configuration.'']),
     (''ruleDescription'', Words [say ''Rule description'']),
     (''ruleDescriptionPlaceholder'', Words [say ''Optional; describe what this rule is for'']),
     (''ruleSetsTitle'', Words [say ''Route rule sets'']),
     (''ruleSetsDescription'', Words [say ''Manage inline, local, remote, and other rule-set sources. Built-in local and remote rule sets can be updated.'']),
     (''addRuleSet'', Words [say ''Add rule set'']), (''emptyRuleSetsTitle'', Words [say ''No route rule sets'']),
     (''emptyRuleSetsDescription'', Words [say ''Add the first reusable rule set.'']),
     (''ruleSetsCount'', Words [Hole ''count'', say '' rule sets'']), (''update'', Words [say ''Update'']),
     (''updateAllRuleSets'', Words [say ''Update all rule sets'']), (''updateRuleSet'', Words [say ''Update rule set '', Hole ''tag'']),
     (''builtin'', Words [say ''Built-in'']), (''intervalBadge'', Words [say ''Every '', Hole ''interval'']),
     (''lastUpdated'', Words [say ''Last updated: '', Hole ''time'']),
     (''ruleSetUpdateSuccess'', Words [say ''Updated '', Hole ''updated'', say '' rule set(s)'']),
     (''ruleSetUpdatePartial'', Words [say ''Updated '', Hole ''updated'', say '', failed '', Hole ''failed'']),
     (''ruleSetUpdateFailed'', Words [say ''Failed to update '', Hole ''failed'', say '' rule set(s)'']),
     (''ruleSetAutoUpdateTitle'', Words [say ''Rule set auto update'']),
     (''ruleSetAutoUpdateDescription'', Words [say ''Only built-in local (Loyalsoldier) rule sets are auto-updated, disabled by default. Remote sets still follow kernel update_interval.'']),
     (''ruleSetAutoUpdateEnabled'', Words [say ''Enable scheduled local rule-set updates'']),
     (''ruleSetAutoUpdateInterval'', Words [say ''Auto-update interval'']), (''ruleSetAutoUpdateSaved'', Words [say ''Rule set auto-update saved'']),
     (''unnamed'', Words [say ''Unnamed'']), (''ruleSetLocationMissing'', Words [say ''No path or URL set'']),
     (''ruleCardTitle'', Words [say ''Route rule #'', Hole ''index'']), (''editRule'', Words [say ''Edit route rule '', Hole ''index'']),
     (''copyRule'', Words [say ''Copy route rule '', Hole ''index'']),
     (''moveRuleUp'', Words [say ''Move route rule '', Hole ''index'', say '' up'']),
     (''moveRuleDown'', Words [say ''Move route rule '', Hole ''index'', say '' down'']),
     (''deleteRule'', Words [say ''Delete route rule '', Hole ''index'']),
     (''moreRuleActions'', Words [say ''More actions for route rule '', Hole ''index'']),
     (''editRuleSet'', Words [say ''Edit rule set '', Hole ''tag'']), (''copyRuleSet'', Words [say ''Copy rule set '', Hole ''tag'']),
     (''deleteRuleSet'', Words [say ''Delete rule set '', Hole ''tag'']),
     (''moreRuleSetActions'', Words [say ''More actions for rule set '', Hole ''tag'']), (''copy'', Words [say ''Copy'']),
     (''moveUp'', Words [say ''Move up'']), (''moveDown'', Words [say ''Move down'']), (''delete'', Words [say ''Delete'']),
     (''edit'', Words [say ''Edit'']), (''deleteRuleTitle'', Words [say ''Delete route rule #'', Hole ''index'', say ''?'']),
     (''deleteRuleSetTitle'', Words [say ''Delete rule set '', Hole ''tag'', say ''?'']),
     (''deleteDescription'', Words [say ''This action cannot be undone.'']), (''cancel'', Words [say ''Cancel'']),
     (''confirmDelete'', Words [say ''Delete'']), (''save'', Words [say ''Save'']), (''addRuleTitle'', Words [say ''Add route rule'']),
     (''editRuleTitle'', Words [say ''Edit route rule '', Hole ''index'']), (''addRuleSetTitle'', Words [say ''Add rule set'']),
     (''editRuleSetTitle'', Words [say ''Edit rule set'']),
     (''ruleDialogDescription'', Words [say ''Edit common match conditions and actions visually. Unknown fields remain in Advanced JSON.'']),
     (''ruleSetDialogDescription'', Words [say ''Edit a rule set by source type. The complete object remains available in Advanced JSON.'']),
     (''ruleType'', Words [say ''Rule type'']), (''ruleSetType'', Words [say ''Rule-set type'']), (''actionType'', Words [say ''Action'']),
     (''basicTab'', Words [say ''Basics and network'']), (''domainTab'', Words [say ''Domains and addresses'']),
     (''processTab'', Words [say ''Ports and processes'']), (''environmentTab'', Words [say ''Rule sets and network context'']),
     (''actionTab'', Words [say ''Action'']), (''ruleSetBasicTab'', Words [say ''Basics'']), (''advancedJSON'', Words [say ''Advanced JSON'']),
     (''advancedJSONLabel'', Words [Hole ''title'', say '' JSON'']), (''requiredTitle'', Words [say ''Required fields missing'']),
     (''ruleRequiredDescription'', Words [say ''Complete the values required by the current rule type and action.'']),
     (''ruleSetRequiredDescription'', Words [say ''Complete the tag, path, or URL required by this rule-set type.'']),
     (''logicalTitle'', Words [say ''Logical rule'']),
     (''logicalDescription'', Words [say ''Edit child rules in this form. Keep other complex fields in Advanced JSON.'']),
     (''inlineTitle'', Words [say ''Inline rule set'']), (''inlineDescription'', Words [say ''Maintain complex inline rules in Advanced JSON.'']),
     (''notSet'', Words [say ''Not set'']), (''refMultiEmpty'', Words [say ''No options available yet. Add them in configuration first.'']),
     (''jsonArrayHint'', Words [say ''Enter a JSON array.'']), (''jsonObjectHint'', Words [say ''Enter a JSON object.'']),
     (''invalidStructuredJSON'', Words [say ''Enter a valid JSON structure.'']), (''final'', Words [say ''Final outbound'']),
     (''findProcess'', Words [say ''Find process'']),
     (''findProcessHelp'', Words [say ''When enabled, the kernel resolves source process metadata so route/DNS rules can match process name, path, or package. It has a small cost; keep it off if unused.'']),
     (''section'', Group en_policy_route_section), (''processMatchTitle'', Words [say ''How to match processes'']),
     (''processMatchDescription'', Words [say ''Enter process names (e.g. curl), full process paths, or path regexes below. Global route find_process must be enabled for these matchers to work. Multi-line values are supported.'']),
     (''processNameHelp'', Words [say ''Executable names such as curl or chrome. One per line.'']),
     (''processPathHelp'', Words [say ''Full process paths such as /usr/bin/curl. One per line.'']),
     (''processPathRegexHelp'', Words [say ''Process path regular expressions. One per line.'']),
     (''autoDetectInterface'', Words [say ''Auto-detect interface'']), (''overrideAndroidVPN'', Words [say ''Override Android VPN'']),
     (''defaultInterface'', Words [say ''Default interface'']), (''defaultMark'', Words [say ''Default mark'']),
     (''defaultDomainResolverServer'', Words [say ''Default domain resolver server'']),
     (''defaultDomainResolverStrategy'', Words [say ''Default domain resolver strategy'']),
     (''defaultDomainResolverDisableCache'', Words [say ''Disable default resolver cache'']),
     (''defaultDomainResolverRewriteTTL'', Words [say ''Default resolver rewrite TTL'']),
     (''defaultDomainResolverClientSubnet'', Words [say ''Default resolver client subnet'']),
     (''defaultNetworkStrategy'', Words [say ''Default network strategy'']), (''defaultNetworkType'', Words [say ''Default network types'']),
     (''defaultFallbackNetworkType'', Words [say ''Default fallback network types'']),
     (''defaultFallbackDelay'', Words [say ''Default fallback delay'']), (''inbound'', Words [say ''Inbound'']),
     (''ipVersion'', Words [say ''IP version'']), (''network'', Words [say ''Network'']), (''authUser'', Words [say ''Authentication users'']),
     (''protocol'', Words [say ''Protocol'']), (''client'', Words [say ''Client'']), (''invert'', Words [say ''Invert match'']),
     (''domain'', Words [say ''Domain'']), (''domainSuffix'', Words [say ''Domain suffix'']), (''domainKeyword'', Words [say ''Domain keyword'']),
     (''domainRegex'', Words [say ''Domain regex'']), (''sourceIPCIDR'', Words [say ''Source IP CIDR'']),
     (''sourceIPIsPrivate'', Words [say ''Source IP is private'']), (''ipCIDR'', Words [say ''Destination IP CIDR'']),
     (''ipIsPrivate'', Words [say ''Destination IP is private'']), (''sourcePort'', Words [say ''Source ports'']),
     (''sourcePortRange'', Words [say ''Source port ranges'']), (''port'', Words [say ''Destination ports'']),
     (''portRange'', Words [say ''Destination port ranges'']), (''processName'', Words [say ''Process names'']),
     (''processPath'', Words [say ''Process paths'']), (''processPathRegex'', Words [say ''Process path regex'']),
     (''packageName'', Words [say ''Package names'']), (''user'', Words [say ''Users'']), (''userID'', Words [say ''User IDs'']),
     (''ruleSet'', Words [say ''Rule sets'']), (''ruleSetIPCIDRMatchSource'', Words [say ''Match rule-set IP against source'']),
     (''clashMode'', Words [say ''Clash mode'']), (''networkType'', Words [say ''Network types'']),
     (''networkIsExpensive'', Words [say ''Expensive network'']), (''networkIsConstrained'', Words [say ''Constrained network'']),
     (''wifiSSID'', Words [say ''Wi-Fi SSID'']), (''wifiBSSID'', Words [say ''Wi-Fi BSSID'']), (''logicalMode'', Words [say ''Logical mode'']),
     (''logicalRules'', Words [say ''Child rules JSON'']), (''outbound'', Words [say ''Target outbound'']),
     (''overrideAddress'', Words [say ''Override destination address'']), (''overridePort'', Words [say ''Override destination port'']),
     (''networkStrategy'', Words [say ''Network strategy'']), (''fallbackDelay'', Words [say ''Fallback delay'']),
     (''udpDisableDomainUnmapping'', Words [say ''Disable UDP domain unmapping'']), (''udpConnect'', Words [say ''UDP Connect'']),
     (''udpTimeout'', Words [say ''UDP timeout'']), (''tlsFragment'', Words [say ''TLS fragmentation'']),
     (''tlsFragmentFallbackDelay'', Words [say ''TLS fragment fallback delay'']), (''tlsRecordFragment'', Words [say ''TLS record fragmentation'']),
     (''bindInterface'', Words [say ''Bind interface'']), (''inet4BindAddress'', Words [say ''IPv4 bind address'']),
     (''inet6BindAddress'', Words [say ''IPv6 bind address'']), (''bindAddressNoPort'', Words [say ''Bind address without port'']),
     (''protectPath'', Words [say ''Protect path'']), (''routingMark'', Words [say ''Routing mark'']),
     (''reuseAddress'', Words [say ''Reuse address'']), (''networkNamespace'', Words [say ''Network namespace'']),
     (''connectTimeout'', Words [say ''Connect timeout'']), (''tcpFastOpen'', Words [say ''TCP Fast Open'']),
     (''tcpMultiPath'', Words [say ''TCP MultiPath'']), (''disableTCPKeepAlive'', Words [say ''Disable TCP Keep Alive'']),
     (''tcpKeepAlive'', Words [say ''TCP Keep Alive'']), (''tcpKeepAliveInterval'', Words [say ''TCP Keep Alive interval'']),
     (''udpFragment'', Words [say ''UDP fragmentation'']), (''domainResolverServer'', Words [say ''Domain resolver server'']),
     (''domainResolverStrategy'', Words [say ''Domain resolver strategy'']),
     (''domainResolverDisableCache'', Words [say ''Disable resolver cache'']), (''domainResolverRewriteTTL'', Words [say ''Resolver rewrite TTL'']),
     (''domainResolverClientSubnet'', Words [say ''Resolver client subnet'']), (''fallbackNetworkType'', Words [say ''Fallback network types'']),
     (''rejectMethod'', Words [say ''Reject method'']), (''rejectNoDrop'', Words [say ''Do not drop'']), (''sniffer'', Words [say ''Sniffers'']),
     (''sniffTimeout'', Words [say ''Sniff timeout'']), (''resolveServer'', Words [say ''Resolver server'']),
     (''resolveStrategy'', Words [say ''Resolve strategy'']), (''resolveDisableCache'', Words [say ''Disable resolve cache'']),
     (''resolveRewriteTTL'', Words [say ''Resolve rewrite TTL'']), (''resolveClientSubnet'', Words [say ''Resolve client subnet'']),
     (''ruleSetTag'', Words [say ''Tag'']), (''format'', Words [say ''Format'']), (''path'', Words [say ''Local path'']),
     (''url'', Words [say ''Remote URL'']), (''downloadDetour'', Words [say ''Download detour'']),
     (''updateInterval'', Words [say ''Update interval'']),
     (''invalidValue'', Words [say ''Enter an in-range nonnegative integer or valid routing mark.'']),
     (''finalHelp'', Words [say ''Fallback outbound when no rule matches.'']),
     (''autoDetectInterfaceHelp'', Words [say ''Auto-detect the default outbound interface.'']),
     (''overrideAndroidVPNHelp'', Words [say ''Override Android VPN default interface behavior.'']),
     (''defaultInterfaceHelp'', Words [say ''Default bind interface for outbound routing.'']),
     (''defaultMarkHelp'', Words [say ''Default Linux routing mark (SO_MARK).'']),
     (''defaultDomainResolverServerHelp'', Words [say ''Default DNS server tag used for domain resolution.'']),
     (''defaultDomainResolverStrategyHelp'', Words [say ''Default domain resolve strategy.'']),
     (''defaultDomainResolverDisableCacheHelp'', Words [say ''Disable the default domain resolver cache.'']),
     (''defaultDomainResolverRewriteTTLHelp'', Words [say ''Rewrite default resolve TTL.'']),
     (''defaultDomainResolverClientSubnetHelp'', Words [say ''Default EDNS Client Subnet.'']),
     (''defaultNetworkStrategyHelp'', Words [say ''Default dual-stack network strategy.'']),
     (''defaultNetworkTypeHelp'', Words [say ''Preferred network types.'']),
     (''defaultFallbackNetworkTypeHelp'', Words [say ''Fallback network types.'']),
     (''defaultFallbackDelayHelp'', Words [say ''Dual-stack fallback delay.'']), (''interfaceManual'', Words [say ''Manual input'']),
     (''interfaceManualInput'', Words [say ''Custom interface name'']), (''interfaceManualPlaceholder'', Words [say ''e.g. eth0 or wlan0'']),
     (''outboundHelp'', Words [say ''Outbound tag used when the rule matches.'']), (''tlsFragmentHelp'', Words [say ''Enable TLS fragmentation.'']),
     (''tlsFragmentFallbackDelayHelp'', Words [say ''Fallback delay after TLS fragment failure.'']),
     (''domainResolverServerHelp'', Words [say ''DNS server tag used by this action.'']),
     (''resolveServerHelp'', Words [say ''DNS server tag for the resolve action.'']),
     (''downloadDetourHelp'', Words [say ''Outbound used to download remote rule sets.''])]"

definition en_policy_dns_section :: text_group where
  "en_policy_dns_section =
    [(''basic'', Words [say ''Basics'']), (''cache'', Words [say ''Cache'']), (''fakeip'', Words [say ''FakeIP'']),
     (''remote'', Words [say ''Remote'']), (''bind'', Words [say ''Bind & route'']), (''tcp'', Words [say ''TCP'']), (''udp'', Words [say ''UDP'']),
     (''resolver'', Words [say ''Domain resolver'']), (''strategy'', Words [say ''Network strategy'']), (''tls'', Words [say ''TLS'']),
     (''http'', Words [say ''HTTP'']), (''hosts'', Words [say ''Hosts'']), (''local'', Words [say ''Local'']), (''action'', Words [say ''Action'']),
     (''domain'', Words [say ''Domain & address'']), (''process'', Words [say ''Ports & environment''])]"

definition en_policy_dns :: text_group where
  "en_policy_dns =
    [(''globalTitle'', Words [say ''DNS settings'']),
     (''globalDescription'', Words [say ''Manage caching, resolution strategy, and the final DNS server.'']),
     (''globalFooter'', Words [say ''Unknown DNS settings are preserved unchanged.'']), (''fakeIPTitle'', Words [say ''Legacy FakeIP'']),
     (''fakeIPDescription'', Words [say ''Keep the top-level FakeIP configuration without moving it to a modern DNS server.'']),
     (''fakeIPFooter'', Words [say ''Only known fields are edited; other FakeIP keys stay unchanged.'']),
     (''serversTitle'', Words [say ''DNS servers'']), (''serversDescription'', Words [say ''Manage legacy and modern DNS servers together.'']),
     (''addServer'', Words [say ''Add DNS server'']), (''emptyServersTitle'', Words [say ''No DNS servers'']),
     (''emptyServersDescription'', Words [say ''Add the first DNS server.'']), (''serversCount'', Words [Hole ''count'', say '' DNS servers'']),
     (''rulesTitle'', Words [say ''DNS rules'']), (''rulesDescription'', Words [say ''Rules match from top to bottom.'']),
     (''addRule'', Words [say ''Add DNS rule'']), (''emptyRulesTitle'', Words [say ''No DNS rules'']),
     (''emptyRulesDescription'', Words [say ''Add the first DNS matching rule.'']), (''rulesCount'', Words [Hole ''count'', say '' DNS rules'']),
     (''unnamed'', Words [say ''Unnamed'']), (''serverCardType'', Words [Hole ''type'']),
     (''ruleCardTitle'', Words [say ''DNS rule #'', Hole ''index'']), (''editServer'', Words [say ''Edit DNS server '', Hole ''tag'']),
     (''copyServer'', Words [say ''Copy DNS server '', Hole ''tag'']), (''deleteServer'', Words [say ''Delete DNS server '', Hole ''tag'']),
     (''moreServerActions'', Words [say ''More actions for DNS server '', Hole ''tag'']),
     (''editRule'', Words [say ''Edit DNS rule '', Hole ''index'']), (''copyRule'', Words [say ''Copy DNS rule '', Hole ''index'']),
     (''moveRuleUp'', Words [say ''Move DNS rule '', Hole ''index'', say '' up'']),
     (''moveRuleDown'', Words [say ''Move DNS rule '', Hole ''index'', say '' down'']),
     (''deleteRule'', Words [say ''Delete DNS rule '', Hole ''index'']),
     (''moreRuleActions'', Words [say ''More actions for DNS rule '', Hole ''index'']), (''copy'', Words [say ''Copy'']),
     (''moveUp'', Words [say ''Move up'']), (''moveDown'', Words [say ''Move down'']), (''delete'', Words [say ''Delete'']),
     (''edit'', Words [say ''Edit'']), (''cancel'', Words [say ''Cancel'']), (''save'', Words [say ''Save'']),
     (''confirmDelete'', Words [say ''Delete'']), (''deleteDescription'', Words [say ''This action cannot be undone.'']),
     (''deleteServerTitle'', Words [say ''Delete DNS server '', Hole ''tag'', say ''?'']),
     (''deleteRuleTitle'', Words [say ''Delete DNS rule #'', Hole ''index'', say ''?'']), (''addServerTitle'', Words [say ''Add DNS server'']),
     (''editServerTitle'', Words [say ''Edit DNS server'']), (''addRuleTitle'', Words [say ''Add DNS rule'']),
     (''editRuleTitle'', Words [say ''Edit DNS rule '', Hole ''index'']),
     (''serverDialogDescription'', Words [say ''Edit common server fields visually. Unknown fields remain in Advanced JSON.'']),
     (''ruleDialogDescription'', Words [say ''Edit common match conditions and DNS actions visually. Complex child rules remain in Advanced JSON.'']),
     (''serverType'', Words [say ''Server type'']), (''ruleType'', Words [say ''Rule type'']), (''actionType'', Words [say ''Action'']),
     (''targetServer'', Words [say ''Target DNS server'']), (''basicTab'', Words [say ''Basics'']),
     (''ruleBasicTab'', Words [say ''Basics and network'']), (''dialerTab'', Words [say ''Dialing and resolution'']),
     (''tlsTab'', Words [say ''TLS and HTTP'']), (''specialTab'', Words [say ''Type-specific'']),
     (''domainTab'', Words [say ''Domains and addresses'']), (''processTab'', Words [say ''Ports and environment'']),
     (''actionTab'', Words [say ''Action'']), (''advancedJSON'', Words [say ''Advanced JSON'']),
     (''advancedJSONLabel'', Words [Hole ''title'', say '' JSON'']), (''requiredTitle'', Words [say ''Required fields missing'']),
     (''serverRequiredDescription'', Words [say ''Enter the tag and address required by this server type.'']),
     (''ruleRequiredDescription'', Words [say ''Complete the required logical-rule or action values.'']),
     (''logicalTitle'', Words [say ''Logical rule'']), (''logicalDescription'', Words [say ''Maintain logical child rules in Advanced JSON.'']),
     (''summaryTag'', Words [say ''Tag '', Hole ''value'']), (''summaryDetour'', Words [say ''Detour '', Hole ''value'']),
     (''summaryStrategy'', Words [say ''Strategy '', Hole ''value'']), (''summaryPath'', Words [say ''Path '', Hole ''value'']),
     (''summaryPredefined'', Words [Hole ''count'', say '' predefined entries'']), (''summaryIPv4'', Words [say ''IPv4 '', Hole ''value'']),
     (''summaryIPv6'', Words [say ''IPv6 '', Hole ''value'']), (''summaryLogicalMode'', Words [say ''Logical mode: '', Hole ''value'']),
     (''notSet'', Words [say ''Not set'']), (''refMultiEmpty'', Words [say ''No options available yet. Add them in configuration first.'']),
     (''finalHelp'', Words [say ''Fallback DNS server tag when no DNS rule matches.'']),
     (''strategyHelp'', Words [say ''Global DNS resolve strategy.'']), (''disableCacheHelp'', Words [say ''Disable DNS caching.'']),
     (''disableExpireHelp'', Words [say ''Disable DNS cache expiration.'']),
     (''independentCacheHelp'', Words [say ''Use an independent cache per server.'']),
     (''cacheCapacityHelp'', Words [say ''Maximum DNS cache capacity.'']), (''clientSubnetHelp'', Words [say ''Default EDNS Client Subnet.'']),
     (''reverseMappingHelp'', Words [say ''Enable reverse mapping from IP back to domain.'']),
     (''fakeIPEnabledHelp'', Words [say ''Enable legacy top-level FakeIP settings.'']),
     (''detourHelp'', Words [say ''Outbound tag used when dialing this DNS server.'']),
     (''bindInterfaceHelp'', Words [say ''Bind dialing sockets to a network interface.'']),
     (''domainResolverServerHelp'', Words [say ''DNS server tag used to resolve hostnames while dialing.'']),
     (''tlsEnabledHelp'', Words [say ''Enable TLS. Certificate fields appear only when enabled.'']),
     (''serverHelp'', Words [say ''DNS server address or hostname.'']),
     (''interfaceHelp'', Words [say ''Network interface used for DHCP queries.'']), (''section'', Group en_policy_dns_section),
     (''interfaceManual'', Words [say ''Manual input'']), (''interfaceManualInput'', Words [say ''Custom interface name'']),
     (''interfaceManualPlaceholder'', Words [say ''e.g. eth0 or wlan0'']), (''jsonArrayHint'', Words [say ''Enter a JSON array.'']),
     (''jsonObjectHint'', Words [say ''Enter a JSON object.'']), (''invalidStructuredJSON'', Words [say ''Enter a valid JSON structure.'']),
     (''invalidValue'', Words [say ''Enter a valid DNS number or name.'']), (''final'', Words [say ''Final DNS server'']),
     (''strategy'', Words [say ''Domain strategy'']), (''disableCache'', Words [say ''Disable cache'']),
     (''disableExpire'', Words [say ''Disable cache expiration'']), (''independentCache'', Words [say ''Independent cache'']),
     (''cacheCapacity'', Words [say ''Cache capacity'']), (''clientSubnet'', Words [say ''Client subnet'']),
     (''reverseMapping'', Words [say ''Reverse mapping'']), (''fakeIPEnabled'', Words [say ''Enable legacy FakeIP'']),
     (''fakeIPIPv4Range'', Words [say ''FakeIP IPv4 range'']), (''fakeIPIPv6Range'', Words [say ''FakeIP IPv6 range'']),
     (''tag'', Words [say ''Tag'']), (''address'', Words [say ''Legacy address'']), (''addressResolver'', Words [say ''Legacy address resolver'']),
     (''addressStrategy'', Words [say ''Legacy address strategy'']), (''addressFallbackDelay'', Words [say ''Legacy address fallback delay'']),
     (''server'', Words [say ''Server address'']), (''serverPort'', Words [say ''Server port'']), (''detour'', Words [say ''Outbound detour'']),
     (''bindInterface'', Words [say ''Bind interface'']), (''inet4BindAddress'', Words [say ''IPv4 bind address'']),
     (''inet6BindAddress'', Words [say ''IPv6 bind address'']), (''bindAddressNoPort'', Words [say ''Bind address without port'']),
     (''protectPath'', Words [say ''Protect path'']), (''routingMark'', Words [say ''Routing mark'']),
     (''reuseAddress'', Words [say ''Reuse address'']), (''networkNamespace'', Words [say ''Network namespace'']),
     (''connectTimeout'', Words [say ''Connect timeout'']), (''tcpFastOpen'', Words [say ''TCP Fast Open'']),
     (''tcpMultiPath'', Words [say ''TCP MultiPath'']), (''disableTCPKeepAlive'', Words [say ''Disable TCP Keep Alive'']),
     (''tcpKeepAlive'', Words [say ''TCP Keep Alive'']), (''tcpKeepAliveInterval'', Words [say ''TCP Keep Alive interval'']),
     (''udpFragment'', Words [say ''UDP fragmentation'']), (''domainResolverServer'', Words [say ''Domain resolver server'']),
     (''domainResolverStrategy'', Words [say ''Domain resolver strategy'']),
     (''domainResolverDisableCache'', Words [say ''Disable resolver cache'']), (''domainResolverRewriteTTL'', Words [say ''Resolver rewrite TTL'']),
     (''domainResolverClientSubnet'', Words [say ''Resolver client subnet'']), (''networkStrategy'', Words [say ''Network strategy'']),
     (''networkType'', Words [say ''Network types'']), (''fallbackNetworkType'', Words [say ''Fallback network types'']),
     (''fallbackDelay'', Words [say ''Fallback delay'']), (''preferGo'', Words [say ''Prefer Go resolver'']),
     (''path'', Words [say ''Hosts paths'']), (''predefined'', Words [say ''Predefined hosts'']), (''interface'', Words [say ''Network interface'']),
     (''tlsEnabled'', Words [say ''Enable TLS'']), (''tlsDisableSNI'', Words [say ''Disable SNI'']),
     (''tlsServerName'', Words [say ''TLS server name'']), (''tlsInsecure'', Words [say ''Skip certificate verification'']),
     (''tlsALPN'', Words [say ''TLS ALPN'']), (''tlsCertificate'', Words [say ''CA certificate content'']),
     (''tlsCertificatePath'', Words [say ''CA certificate path'']), (''httpPath'', Words [say ''HTTP path'']),
     (''method'', Words [say ''HTTP method'']), (''headers'', Words [say ''HTTP headers'']), (''type'', Words [say ''Rule type'']),
     (''inbound'', Words [say ''Inbound'']), (''ipVersion'', Words [say ''IP version'']), (''queryType'', Words [say ''Query type'']),
     (''network'', Words [say ''Network'']), (''authUser'', Words [say ''Authentication users'']), (''protocol'', Words [say ''Protocol'']),
     (''domain'', Words [say ''Domain'']), (''domainSuffix'', Words [say ''Domain suffix'']), (''domainKeyword'', Words [say ''Domain keyword'']),
     (''domainRegex'', Words [say ''Domain regex'']), (''sourceIPCIDR'', Words [say ''Source IP CIDR'']),
     (''sourceIPIsPrivate'', Words [say ''Source IP is private'']), (''ipCIDR'', Words [say ''Destination IP CIDR'']),
     (''ipIsPrivate'', Words [say ''Destination IP is private'']), (''sourcePort'', Words [say ''Source ports'']),
     (''sourcePortRange'', Words [say ''Source port ranges'']), (''port'', Words [say ''Destination ports'']),
     (''portRange'', Words [say ''Destination port ranges'']), (''processName'', Words [say ''Process names'']),
     (''processPath'', Words [say ''Process paths'']), (''processPathRegex'', Words [say ''Process path regex'']),
     (''packageName'', Words [say ''Package names'']), (''user'', Words [say ''Users'']), (''userID'', Words [say ''User IDs'']),
     (''outbound'', Words [say ''Outbounds'']), (''clashMode'', Words [say ''Clash mode'']), (''ruleSet'', Words [say ''Rule sets'']),
     (''ruleSetIPCIDRMatchSource'', Words [say ''Match rule-set IP against source'']), (''networkIsExpensive'', Words [say ''Expensive network'']),
     (''networkIsConstrained'', Words [say ''Constrained network'']), (''wifiSSID'', Words [say ''Wi-Fi SSID'']),
     (''wifiBSSID'', Words [say ''Wi-Fi BSSID'']), (''invert'', Words [say ''Invert match'']), (''logicalMode'', Words [say ''Logical mode'']),
     (''rewriteTTL'', Words [say ''Rewrite TTL'']), (''rejectMethod'', Words [say ''Reject method'']),
     (''rejectNoDrop'', Words [say ''Do not drop'']), (''rcode'', Words [say ''Response code'']), (''answer'', Words [say ''Answer records'']),
     (''nameServer'', Words [say ''NS records'']), (''extra'', Words [say ''Extra records''])]"

definition en_policy :: text_group where
  "en_policy =
    [(''description'', Words [say ''Manage the complete policy as JSON while preserving unknown fields.'']),
     (''save'', Words [say ''Save configuration'']), (''installRoute'', Words [say ''Install default route'']),
     (''installDNS'', Words [say ''Install default DNS'']), (''installed'', Words [say ''Default configuration installed'']),
     (''rolledBack'', Words [say ''Configuration rolled back'']), (''visualTab'', Words [say ''Visual editor'']),
     (''advancedTab'', Words [say ''Advanced JSON'']), (''jsonLabel'', Words [say ''Traffic policy JSON'']),
     (''invalidStructureTitle'', Words [say ''Invalid configuration structure'']),
     (''invalidStructureDescription'', Words [say ''Rule, rule-set, and server lists must be arrays containing only objects. Fix them in Advanced JSON.'']),
     (''route'', Group en_policy_route), (''dns'', Group en_policy_dns)]"

definition en_nodes :: text_group where
  "en_nodes =
    [(''title'', Words [say ''Nodes'']), (''import'', Words [say ''Import node'']),
     (''importDescription'', Words [say ''Paste a share link supported by sing-box.'']), (''link'', Words [say ''Node link'']),
     (''parse'', Words [say ''Parse'']), (''parseResult'', Words [say ''Parsed result'']), (''saveNode'', Words [say ''Save node'']),
     (''saved'', Words [say ''Node saved'']), (''sync'', Words [say ''Sync to configuration'']),
     (''synced'', Words [say ''Nodes synced to configuration'']), (''batch'', Words [say ''Batch speed test'']),
     (''batchComplete'', Words [say ''Batch speed test completed'']), (''test'', Words [say ''Speed test'']), (''testAll'', Words [say ''All'']),
     (''testFailed'', Words [say ''Speed test failed'']), (''testType'', Words [say ''Test type'']),
     (''subscriptionNode'', Words [say ''Subscription node'']), (''source'', Words [say ''Source'']),
     (''imported'', Words [say ''Manually imported'']), (''subscription'', Words [say ''Subscription'']), (''list'', Words [say ''Node List'']),
     (''description'', Words [say ''View node groups and their latest test results.'']), (''allNodes'', Words [say ''All nodes'']),
     (''allNodesDescription'', Words [say ''Shows subscription and manually imported nodes together.'']),
     (''subscriptionNodes'', Words [say ''Subscription nodes'']),
     (''subscriptionNodesDescription'', Words [say ''Groups nodes by subscription name.'']),
     (''importedNodes'', Words [say ''Manually imported nodes'']),
     (''importedNodesDescription'', Words [say ''Shows individual nodes imported from share links.'']),
     (''nodeCount'', Words [Hole ''count'', say '' nodes'']), (''server'', Words [say ''Server'']), (''empty'', Words [say ''No nodes'']),
     (''emptyDescription'', Words [say ''This group has no nodes.'']), (''edit'', Words [say ''Edit node'']),
     (''editDescription'', Words [say ''Edit common fields and preserve all other fields in advanced JSON.'']),
     (''advancedJSON'', Words [say ''Node advanced JSON'']), (''updated'', Words [say ''Node updated'']),
     (''deleted'', Words [say ''Node deleted'']), (''results'', Words [say ''Test Results'']),
     (''resultsDescription'', Words [say ''Most recent node test results stored by the backend.'']), (''latency'', Words [say ''Latency'']),
     (''runtimeGroups'', Words [say ''Runtime Groups'']),
     (''runtimeGroupsDescription'', Words [say ''Switch the current Selector member or run URLTest.'']), (''current'', Words [say ''Current node'']),
     (''runURLTest'', Words [say ''Run '', Hole ''group'', say '' URLTest''])]"

definition en_subscriptions :: text_group where
  "en_subscriptions =
    [(''title'', Words [say ''Subscriptions'']), (''add'', Words [say ''Add subscription'']), (''edit'', Words [say ''Edit subscription'']),
     (''dialogDescription'', Words [say ''Refreshing a subscription updates its nodes. Blank URLTest fields inherit global defaults.'']),
     (''name'', Words [say ''Name'']), (''url'', Words [say ''URL'']), (''subscriptionURL'', Words [say ''Subscription URL'']),
     (''interval'', Words [say ''Refresh interval (minutes)'']), (''refreshAll'', Words [say ''Refresh all'']),
     (''refresh'', Words [say ''Refresh'']), (''list'', Words [say ''Subscription List'']),
     (''description'', Words [say ''Manage subscription URLs, refresh intervals, and URLTest overrides.'']), (''nodes'', Words [say ''Nodes'']),
     (''nodeCount'', Words [Hole ''count'', say '' nodes'']), (''lastUpdated'', Words [say ''Last updated'']),
     (''saved'', Words [say ''Subscription saved'']), (''partialFailure'', Words [say ''Some subscriptions failed to refresh'']),
     (''refreshedAll'', Words [say ''All subscriptions refreshed'']), (''importedNodes'', Words [say ''Manually imported nodes'']),
     (''importedNodesDescription'', Words [say ''Import, edit, and delete individual nodes here. Configuration synchronization is automatic.'']),
     (''importedNodesEmpty'', Words [say ''No individual nodes have been imported.'']), (''urlTestPolicy'', Words [say ''URLTest group policy'']),
     (''urlTestInherit'', Words [say ''Inherit global'']), (''urlTestEnabled'', Words [say ''Enable'']),
     (''urlTestDisabled'', Words [say ''Disable'']), (''leaveBlankToInherit'', Words [say ''Leave blank to inherit the global default.'']),
     (''urlTestInheritHint'', Words [say ''Currently inheriting global defaults. These fields are read-only.'']),
     (''urlTestDisabledTitle'', Words [say ''URLTest group policy is disabled'']),
     (''urlTestDisabledDescription'', Words [say ''When disabled, this subscription group uses Selector mode: you pick the active exit node manually, with no automatic latency-based switching.'']),
     (''resetURLTest'', Words [say ''Restore all defaults'']), (''urlTestInherited'', Words [say ''URLTest: inherited'']),
     (''urlTestCustom'', Words [say ''URLTest: custom'']), (''urlTestOff'', Words [say ''URLTest: disabled''])]"

definition en_observability :: text_group where
  "en_observability =
    [(''connections'', Words [say ''Active Connections'']), (''closeAll'', Words [say ''Close all connections'']),
     (''closeAllTitle'', Words [say ''Close all active connections?'']),
     (''closeAllDescription'', Words [say ''Every current proxy connection will be interrupted immediately.'']),
     (''confirmClose'', Words [say ''Confirm close'']), (''streamError'', Words [say ''Connection stream disconnected'']),
     (''liveConnections'', Words [say ''Live Connections'']),
     (''connectionsDescription'', Words [say ''Current connections and traffic update every second.'']),
     (''noConnections'', Words [say ''No active connections'']),
     (''noConnectionsDescription'', Words [say ''New proxy connections appear automatically.'']), (''target'', Words [say ''Target'']),
     (''outbound'', Words [say ''Outbound'']), (''duration'', Words [say ''Duration'']), (''close'', Words [say ''Close'']),
     (''logs'', Words [say ''Logs'']), (''kernelLogs'', Words [say ''Kernel Logs'']), (''appLogs'', Words [say ''Application Logs'']),
     (''logDescription'', Words [say ''Display the most recently received logs in real time.'']), (''searchLogs'', Words [say ''Search logs'']),
     (''minimumLogLevel'', Words [say ''Minimum log level'']),
     (''minimumLogLevelDescription'', Words [say ''Selecting a minimum level shows logs at that level and above.'']),
     (''allLevels'', Words [say ''All'']), (''time'', Words [say ''Time'']), (''noLogs'', Words [say ''No logs'']),
     (''waitLogs'', Words [say ''Waiting for log events.'']), (''pause'', Words [say ''Pause'']), (''resume'', Words [say ''Resume'']),
     (''clear'', Words [say ''Clear display''])]"

definition en_advanced_endpoints_section :: text_group where
  "en_advanced_endpoints_section =
    [(''basic'', Words [say ''Basic'']), (''wireguard'', Words [say ''WireGuard'']), (''tailscale'', Words [say ''Tailscale'']),
     (''dialer'', Words [say ''Dialer options''])]"

definition en_advanced_endpoints :: text_group where
  "en_advanced_endpoints =
    [(''listTitle'', Words [say ''Endpoints'']), (''listDescription'', Words [say ''Manage WireGuard / Tailscale endpoint instances.'']),
     (''add'', Words [say ''Add endpoint'']), (''addTitle'', Words [say ''Add endpoint'']), (''editTitle'', Words [say ''Edit endpoint'']),
     (''editorDescription'', Words [say ''Edit common fields visually and keep advanced fields in JSON.'']),
     (''empty'', Words [say ''No endpoints'']), (''emptyDescription'', Words [say ''Add a WireGuard or Tailscale endpoint.'']),
     (''count'', Words [Hole ''count'', say '' endpoints'']), (''unnamed'', Words [say ''Unnamed endpoint'']),
     (''peerCount'', Words [Hole ''count'', say '' peers'']), (''deleteTitle'', Words [say ''Delete endpoint?'']),
     (''deleteDescription'', Words [say ''This deletes '', Hole ''tag'', say ''. The backend reloads after you save.'']),
     (''confirmDelete'', Words [say ''Confirm delete'']), (''itemJSON'', Words [say ''Endpoint JSON'']), (''type'', Words [say ''Type'']),
     (''tag'', Words [say ''Tag'']), (''system'', Words [say ''Use system WireGuard'']),
     (''systemHelp'', Words [say ''Use the kernel/system WireGuard implementation.'']), (''interfaceName'', Words [say ''Interface name'']),
     (''interfaceNameHelp'', Words [say ''Local network interface name.'']), (''mtu'', Words [say ''MTU'']),
     (''mtuHelp'', Words [say ''WireGuard interface MTU.'']), (''address'', Words [say ''Local addresses'']),
     (''addressHelp'', Words [say ''Local IPv4/IPv6 prefixes, one per line.'']), (''privateKey'', Words [say ''Private key'']),
     (''privateKeyHelp'', Words [say ''Local WireGuard private key.'']), (''listenPort'', Words [say ''Listen port'']),
     (''listenPortHelp'', Words [say ''Local UDP listen port.'']), (''peers'', Words [say ''Peers'']),
     (''peersHelp'', Words [say ''Peer array JSON. Each item may include address, port, public_key, allowed_ips, and more.'']),
     (''workers'', Words [say ''Workers'']), (''workersHelp'', Words [say ''Number of WireGuard worker threads.'']),
     (''stateDirectory'', Words [say ''State directory'']), (''stateDirectoryHelp'', Words [say ''Tailscale state directory.'']),
     (''authKey'', Words [say ''Auth key'']), (''authKeyHelp'', Words [say ''Tailscale auth key.'']), (''controlURL'', Words [say ''Control URL'']),
     (''controlURLHelp'', Words [say ''Custom coordination/control server URL.'']), (''ephemeral'', Words [say ''Ephemeral node'']),
     (''ephemeralHelp'', Words [say ''Unregister the node from the tailnet on exit.'']), (''hostname'', Words [say ''Hostname'']),
     (''hostnameHelp'', Words [say ''Hostname shown in the tailnet.'']), (''acceptRoutes'', Words [say ''Accept routes'']),
     (''acceptRoutesHelp'', Words [say ''Accept subnet routes advertised by other nodes.'']), (''exitNode'', Words [say ''Exit node'']),
     (''exitNodeHelp'', Words [say ''Tailscale node used as the exit node.'']),
     (''exitNodeAllowLANAccess'', Words [say ''Allow LAN access with exit node'']),
     (''exitNodeAllowLANAccessHelp'', Words [say ''Keep LAN access while using an exit node.'']),
     (''advertiseRoutes'', Words [say ''Advertise routes'']),
     (''advertiseRoutesHelp'', Words [say ''Local subnet routes to advertise, one per line.'']),
     (''advertiseExitNode'', Words [say ''Advertise exit node'']), (''advertiseExitNodeHelp'', Words [say ''Advertise this node as an exit node.'']),
     (''advertiseTags'', Words [say ''Advertise tags'']), (''advertiseTagsHelp'', Words [say ''ACL tags, one per line.'']),
     (''relayServerPort'', Words [say ''Relay server port'']), (''relayServerPortHelp'', Words [say ''Built-in DERP/relay server port.'']),
     (''relayServerStaticEndpoints'', Words [say ''Relay static endpoints'']),
     (''relayServerStaticEndpointsHelp'', Words [say ''Static relay endpoints, one per line.'']),
     (''systemInterface'', Words [say ''System interface'']), (''systemInterfaceHelp'', Words [say ''Create a system-level network interface.'']),
     (''systemInterfaceName'', Words [say ''System interface name'']), (''systemInterfaceNameHelp'', Words [say ''Name of the system interface.'']),
     (''systemInterfaceMTU'', Words [say ''System interface MTU'']), (''systemInterfaceMTUHelp'', Words [say ''MTU of the system interface.'']),
     (''udpTimeout'', Words [say ''UDP timeout'']), (''udpTimeoutHelp'', Words [say ''UDP session timeout, for example 5m.'']),
     (''detour'', Words [say ''Detour'']), (''detourHelp'', Words [say ''Outbound used for dialing.'']),
     (''bindInterface'', Words [say ''Bind interface'']), (''bindInterfaceHelp'', Words [say ''Local interface used for dialing.'']),
     (''inet4BindAddress'', Words [say ''IPv4 bind address'']), (''inet4BindAddressHelp'', Words [say ''IPv4 source address.'']),
     (''inet6BindAddress'', Words [say ''IPv6 bind address'']), (''inet6BindAddressHelp'', Words [say ''IPv6 source address.'']),
     (''bindAddressNoPort'', Words [say ''Bind address without port'']),
     (''bindAddressNoPortHelp'', Words [say ''Do not pin a source port when binding.'']), (''protectPath'', Words [say ''Protect path'']),
     (''protectPathHelp'', Words [say ''Android protect path.'']), (''routingMark'', Words [say ''Routing mark'']),
     (''routingMarkHelp'', Words [say ''Linux routing mark.'']), (''reuseAddress'', Words [say ''Reuse address'']),
     (''reuseAddressHelp'', Words [say ''Enable SO_REUSEADDR.'']), (''networkNamespace'', Words [say ''Network namespace'']),
     (''networkNamespaceHelp'', Words [say ''Linux netns name.'']), (''connectTimeout'', Words [say ''Connect timeout'']),
     (''connectTimeoutHelp'', Words [say ''TCP connect timeout, for example 5s.'']), (''tcpFastOpen'', Words [say ''TCP Fast Open'']),
     (''tcpFastOpenHelp'', Words [say ''Enable TCP Fast Open.'']), (''tcpMultiPath'', Words [say ''TCP Multi Path'']),
     (''tcpMultiPathHelp'', Words [say ''Enable MPTCP.'']), (''disableTCPKeepAlive'', Words [say ''Disable TCP keep-alive'']),
     (''disableTCPKeepAliveHelp'', Words [say ''Disable TCP keep-alive.'']), (''tcpKeepAlive'', Words [say ''TCP keep-alive'']),
     (''tcpKeepAliveHelp'', Words [say ''Keep-alive idle duration.'']), (''tcpKeepAliveInterval'', Words [say ''TCP keep-alive interval'']),
     (''tcpKeepAliveIntervalHelp'', Words [say ''Keep-alive probe interval.'']), (''udpFragment'', Words [say ''UDP fragment'']),
     (''udpFragmentHelp'', Words [say ''Allow UDP fragmentation.'']), (''domainResolverServer'', Words [say ''Domain resolver server'']),
     (''domainResolverServerHelp'', Words [say ''DNS server tag used for dial domain resolution.'']),
     (''domainResolverStrategy'', Words [say ''Domain resolver strategy'']),
     (''domainResolverStrategyHelp'', Words [say ''IP strategy for domain resolution.'']),
     (''domainResolverDisableCache'', Words [say ''Disable resolver cache'']),
     (''domainResolverDisableCacheHelp'', Words [say ''Disable cache during dial resolution.'']),
     (''domainResolverRewriteTTL'', Words [say ''Rewrite resolver TTL'']),
     (''domainResolverRewriteTTLHelp'', Words [say ''Override resolved TTL.'']), (''domainResolverClientSubnet'', Words [say ''Client subnet'']),
     (''domainResolverClientSubnetHelp'', Words [say ''EDNS Client Subnet.'']), (''networkStrategy'', Words [say ''Network strategy'']),
     (''networkStrategyHelp'', Words [say ''Multi-network strategy.'']), (''networkType'', Words [say ''Network type'']),
     (''networkTypeHelp'', Words [say ''Preferred network types.'']), (''fallbackNetworkType'', Words [say ''Fallback network type'']),
     (''fallbackNetworkTypeHelp'', Words [say ''Fallback network types.'']), (''fallbackDelay'', Words [say ''Fallback delay'']),
     (''fallbackDelayHelp'', Words [say ''Happy Eyeballs fallback delay.'']), (''notSet'', Words [say ''Not set'']),
     (''refMultiEmpty'', Words [say ''No options available'']), (''interfaceManual'', Words [say ''Manual input'']),
     (''interfaceManualInput'', Words [say ''Manual interface name'']), (''interfaceManualPlaceholder'', Words [say ''for example eth0'']),
     (''invalidStructuredJSON'', Words [say ''Invalid structured JSON'']), (''jsonArrayHint'', Words [say ''Enter a JSON array.'']),
     (''jsonObjectHint'', Words [say ''Enter a valid JSON object.'']), (''section'', Group en_advanced_endpoints_section)]"

definition en_advanced_experimental :: text_group where
  "en_advanced_experimental =
    [(''cacheTitle'', Words [say ''Cache file'']), (''cacheDescription'', Words [say ''Persist outbound selection, FakeIP, and rejection cache.'']),
     (''clashTitle'', Words [say ''Clash API'']), (''clashDescription'', Words [say ''Expose a Clash-compatible controller API.'']),
     (''v2rayTitle'', Words [say ''V2Ray API'']), (''v2rayDescription'', Words [say ''Expose the V2Ray stats and query API.'']),
     (''cacheEnabled'', Words [say ''Enable cache file'']),
     (''cacheEnabledHelp'', Words [say ''When enabled, the kernel stores selection, FakeIP, and rejection data locally.'']),
     (''cachePath'', Words [say ''Cache path'']),
     (''cachePathHelp'', Words [say ''Path to the cache database. Leave empty to use the default cache.db.'']),
     (''cacheID'', Words [say ''Cache ID'']), (''cacheIDHelp'', Words [say ''Identifier used to isolate instances that share one cache file.'']),
     (''storeFakeIP'', Words [say ''Persist FakeIP'']),
     (''storeFakeIPHelp'', Words [say ''Write FakeIP mappings into the cache so they survive restarts.'']),
     (''storeRDRC'', Words [say ''Persist rejection cache'']),
     (''storeRDRCHelp'', Words [say ''Store recently rejected connections to avoid repeated probes.'']),
     (''rdrcTimeout'', Words [say ''Rejection cache timeout'']),
     (''rdrcTimeoutHelp'', Words [say ''Expiration for rejection-cache entries, for example 7d.'']),
     (''externalController'', Words [say ''External controller'']),
     (''externalControllerHelp'', Words [say ''Clash API listen address, for example 127.0.0.1:9090.'']),
     (''externalUI'', Words [say ''External UI directory'']),
     (''externalUIHelp'', Words [say ''Directory that hosts Clash dashboard static files.'']),
     (''externalUIDownloadURL'', Words [say ''External UI download URL'']),
     (''externalUIDownloadURLHelp'', Words [say ''URL of the external UI archive.'']),
     (''externalUIDownloadDetour'', Words [say ''UI download outbound'']),
     (''externalUIDownloadDetourHelp'', Words [say ''Outbound used when downloading the external UI.'']),
     (''clashSecret'', Words [say ''Access secret'']), (''clashSecretHelp'', Words [say ''Bearer/secret required by the Clash API.'']),
     (''defaultMode'', Words [say ''Default mode'']), (''defaultModeHelp'', Words [say ''Default Clash mode, commonly rule / global / direct.'']),
     (''accessControlAllowOrigin'', Words [say ''CORS allow origins'']),
     (''accessControlAllowOriginHelp'', Words [say ''Allowed Origin values, one per line.'']),
     (''accessControlAllowPrivateNetwork'', Words [say ''Allow private-network CORS'']),
     (''accessControlAllowPrivateNetworkHelp'', Words [say ''Allow browser requests from private-network addresses.'']),
     (''v2rayListen'', Words [say ''V2Ray API listen'']),
     (''v2rayListenHelp'', Words [say ''V2Ray API listen address, for example 127.0.0.1:8080.'']), (''statsEnabled'', Words [say ''Enable stats'']),
     (''statsEnabledHelp'', Words [say ''Enable the V2Ray stats service.'']), (''statsInbounds'', Words [say ''Stats inbounds'']),
     (''statsInboundsHelp'', Words [say ''Inbound tags included in stats.'']), (''statsOutbounds'', Words [say ''Stats outbounds'']),
     (''statsOutboundsHelp'', Words [say ''Outbound tags included in stats.'']), (''statsUsers'', Words [say ''Stats users'']),
     (''statsUsersHelp'', Words [say ''Usernames included in stats, one per line.'']), (''notSet'', Words [say ''Not set'']),
     (''refMultiEmpty'', Words [say ''No options available'']), (''invalidStructuredJSON'', Words [say ''Invalid structured JSON'']),
     (''jsonArrayHint'', Words [say ''One value per line, or a JSON array.'']), (''jsonObjectHint'', Words [say ''Enter a valid JSON object.''])]"

definition en_advanced :: text_group where
  "en_advanced =
    [(''endpointsDescription'', Words [say ''Manage the sing-box endpoints section.'']),
     (''experimentalDescription'', Words [say ''Manage the sing-box experimental section.'']),
     (''rawDescription'', Words [say ''Edit the complete sing-box JSON. The backend validates it before saving.'']),
     (''save'', Words [say ''Save configuration'']), (''saveRaw'', Words [say ''Save full configuration'']),
     (''reset'', Words [say ''Reset changes'']), (''visualTab'', Words [say ''Visual configuration'']),
     (''advancedTab'', Words [say ''Advanced JSON'']), (''advancedJSON'', Words [say ''Advanced configuration JSON'']),
     (''experimentalJSON'', Words [say ''Experimental configuration JSON'']), (''rawJSON'', Words [say ''Full configuration JSON'']),
     (''saved'', Words [say ''Configuration saved'']), (''rawSaved'', Words [say ''Full configuration saved'']),
     (''rolledBack'', Words [say ''The backend rolled back the configuration.'']),
     (''overwriteTitle'', Words [say ''Overwrite the full configuration?'']),
     (''overwriteDescription'', Words [say ''The backend will validate and reload the entire sing-box configuration.'']),
     (''confirmOverwrite'', Words [say ''Confirm overwrite'']), (''invalidStructureTitle'', Words [say ''Invalid configuration structure'']),
     (''invalidStructureDescription'', Words [say ''The experimental section must be a JSON object. Fix it in Advanced JSON.'']),
     (''endpointsJSON'', Words [say ''Endpoints configuration JSON'']),
     (''endpointsInvalidStructureTitle'', Words [say ''Invalid endpoints structure'']),
     (''endpointsInvalidStructureDescription'', Words [say ''The endpoints section must be an array of objects. Fix it in Advanced JSON.'']),
     (''endpoints'', Group en_advanced_endpoints), (''experimental'', Group en_advanced_experimental)]"

definition en_translation :: text_group where
  "en_translation =
    [(''auth'', Group en_auth), (''nav'', Group en_nav), (''pages'', Group en_pages), (''settings'', Group en_settings),
     (''common'', Group en_common), (''dashboard'', Group en_dashboard), (''config'', Group en_config), (''proxy'', Group en_proxy),
     (''policy'', Group en_policy), (''nodes'', Group en_nodes), (''subscriptions'', Group en_subscriptions),
     (''observability'', Group en_observability), (''advanced'', Group en_advanced)]"


end
