(* ===== verification/Locale_Zh.thy ===== *)
theory Locale_Zh
  imports Locale_Texts
begin

text \<open>
  The texts in Chinese: \<open>i18n/locales/zh.ts\<close>, one definition per group of the object, in its order. Characters
  outside ASCII are given by their code units.
\<close>

subsection \<open>The texts in Chinese\<close>

definition zh_auth :: text_group where
  "zh_auth =
    [(''title'', Words [say ''boxd'']), (''description'', Words [Say [30331, 24405, 21518, 31649, 29702], say '' sing-box'', Say [12290]]),
     (''username'', Words [Say [29992, 25143, 21517]]), (''password'', Words [Say [23494, 30721]]), (''submit'', Words [Say [30331, 24405]]),
     (''usernameRequired'', Words [Say [35831, 36755, 20837, 29992, 25143, 21517]]),
     (''passwordRequired'', Words [Say [35831, 36755, 20837, 23494, 30721]]), (''failed'', Words [Say [30331, 24405, 22833, 36133]])]"

definition zh_nav :: text_group where
  "zh_nav =
    [(''dashboard'', Words [Say [20202, 34920, 30424]]), (''proxy'', Words [Say [20195, 29702, 37197, 32622]]),
     (''inbounds'', Words [Say [20837, 31449, 37197, 32622]]), (''outbounds'', Words [Say [20986, 31449, 37197, 32622]]),
     (''policy'', Words [Say [27969, 37327, 31574, 30053]]), (''route'', Words [Say [36335, 30001]]), (''dns'', Words [say ''DNS'']),
     (''resources'', Words [Say [33410, 28857, 19982, 35746, 38405]]), (''nodes'', Words [Say [33410, 28857]]),
     (''subscriptions'', Words [Say [35746, 38405]]), (''observability'', Words [Say [36816, 34892, 35266, 27979]]),
     (''connections'', Words [Say [27963, 36291, 36830, 25509]]), (''logs'', Words [Say [26085, 24535]]),
     (''advanced'', Words [Say [39640, 32423, 37197, 32622]]), (''endpoints'', Words [Say [31471, 28857]]),
     (''experimental'', Words [Say [23454, 39564, 29305, 24615]]), (''rawConfig'', Words [Say [23436, 25972, 37197, 32622]]),
     (''settings'', Words [Say [24212, 29992, 35774, 32622]]), (''logout'', Words [Say [36864, 20986, 30331, 24405]])]"

definition zh_pages :: text_group where
  "zh_pages =
    [(''dashboard'', Words [Say [20202, 34920, 30424]]), (''inbounds'', Words [Say [20837, 31449, 37197, 32622]]),
     (''outbounds'', Words [Say [20986, 31449, 37197, 32622]]), (''route'', Words [Say [36335, 30001]]), (''dns'', Words [say ''DNS'']),
     (''nodes'', Words [Say [33410, 28857]]), (''subscriptions'', Words [Say [35746, 38405]]),
     (''connections'', Words [Say [27963, 36291, 36830, 25509]]), (''logs'', Words [Say [26085, 24535]]),
     (''endpoints'', Words [Say [31471, 28857]]), (''experimental'', Words [Say [23454, 39564, 29305, 24615]]),
     (''rawConfig'', Words [Say [23436, 25972, 37197, 32622]]), (''settings'', Words [Say [24212, 29992, 35774, 32622]]),
     (''pending'', Words [Say [35813, 27169, 22359, 23558, 22312, 24403, 21069, 23454, 26045, 35745, 21010, 20013, 25509, 20837, 29616, 26377], say '' API'', Say [12290]])]"

definition zh_settings :: text_group where
  "zh_settings =
    [(''title'', Words [Say [24212, 29992, 35774, 32622]]), (''appearanceMenu'', Words [Say [22806, 35266]]),
     (''appearanceTitle'', Words [Say [22806, 35266, 19982, 35821, 35328]]),
     (''appearanceDescription'', Words [Say [20559, 22909, 20165, 20445, 23384, 22312, 24403, 21069, 27983, 35272, 22120, 12290]]),
     (''theme'', Words [Say [20027, 39064]]), (''light'', Words [Say [27973, 33394]]), (''dark'', Words [Say [28145, 33394]]),
     (''system'', Words [Say [36319, 38543, 31995, 32479]]), (''language'', Words [Say [35821, 35328]]),
     (''minimumLogLevel'', Words [Say [40664, 35748, 26368, 20302, 26085, 24535, 32423, 21035]]),
     (''minimumLogLevelDescription'', Words [Say [20202, 34920, 30424, 26368, 36817, 26085, 24535, 19982, 26085, 24535, 39029, 40664, 35748, 20165, 23637, 31034, 35813, 32423, 21035, 21450, 20197, 19978, 20869, 23481, 12290]]),
     (''accountTitle'', Words [Say [30331, 24405, 19982, 23433, 20840]]),
     (''accountDescription'', Words [Say [30331, 24405, 29992, 25143, 21517, 30001], say '' BOXD_USERNAME '', Say [25110, 21551, 21160, 21442, 25968, 31649, 29702, 65292, 21069, 31471, 19981, 21487, 36718, 25442, 12290]]),
     (''defaultPasswordTitle'', Words [Say [40664, 35748, 23494, 30721, 20173, 22312, 20351, 29992]]),
     (''defaultPasswordDescription'', Words [Say [35831, 31435, 21363, 36718, 25442, 31649, 29702, 21592, 23494, 30721, 12290]]),
     (''defaultPasswordForced'', Words [Say [35831, 20808, 36718, 25442, 40664, 35748, 31649, 29702, 21592, 23494, 30721, 21518, 65292, 25165, 33021, 20351, 29992, 20854, 20182, 38754, 26495, 21151, 33021, 12290]]),
     (''currentPassword'', Words [Say [24403, 21069, 23494, 30721]]), (''newPassword'', Words [Say [26032, 23494, 30721]]),
     (''passwordHint'', Words [Say [33267, 23569], say '' 8 '', Say [20010, 23383, 31526, 12290]]),
     (''rotatePassword'', Words [Say [36718, 25442, 23494, 30721]]), (''jwtSecret'', Words [say ''JWT '', Say [31614, 21517, 23494, 38053]]),
     (''rotateJWT'', Words [Say [36718, 25442], say '' JWT '', Say [23494, 38053]]),
     (''rotateJWTTitle'', Words [Say [36718, 25442], say '' JWT '', Say [23494, 38053, 65311]]),
     (''rotateJWTDescription'', Words [Say [25152, 26377, 29616, 26377, 30331, 24405, 20250, 35805, 37117, 20250, 31435, 21363, 22833, 25928, 65292, 38656, 35201, 37325, 26032, 30331, 24405, 12290]]),
     (''cancel'', Words [Say [21462, 28040]]), (''confirmRotate'', Words [Say [30830, 35748, 36718, 25442]]),
     (''runtimeTitle'', Words [Say [31995, 32479, 35774, 32622]]),
     (''runtimeDescription'', Words [Say [37197, 32622, 33410, 28857, 27979, 36895, 21644, 20869, 26680, 21551, 21160, 34892, 20026, 12290]]),
     (''testURL'', Words [Say [27979, 36895, 22320, 22336]]),
     (''testURLDescription'', Words [Say [33410, 28857], say '' TCP/HTTP '', Say [27979, 36895, 20351, 29992, 30340, 25506, 27979, 22320, 22336, 12290, 21487, 36873, 25321, 39044, 32622, 22320, 22336, 65292, 25110, 20999, 25442, 20026, 25163, 21160, 36755, 20837, 33258, 23450, 20041], say '' URL'', Say [12290]]),
     (''testURLManual'', Words [Say [25163, 21160, 36755, 20837]]),
     (''testURLManualInput'', Words [Say [33258, 23450, 20041, 27979, 36895, 22320, 22336]]),
     (''testURLManualPlaceholder'', Words [say ''https://example.com/generate_204'']),
     (''saveTestURL'', Words [Say [20445, 23384, 27979, 36895, 22320, 22336]]), (''autostart'', Words [Say [20869, 26680, 33258, 21551]]),
     (''passwordRotated'', Words [Say [23494, 30721, 24050, 36718, 25442, 65292, 35831, 37325, 26032, 30331, 24405]]),
     (''jwtRotated'', Words [say ''JWT '', Say [23494, 38053, 24050, 36718, 25442, 65292, 35831, 37325, 26032, 30331, 24405]]),
     (''testURLSaved'', Words [Say [27979, 36895, 22320, 22336, 24050, 20445, 23384]]),
     (''autostartSaved'', Words [Say [20869, 26680, 33258, 21551, 24050, 26356, 26032]]),
     (''urlTestDefaultsTitle'', Words [Say [35746, 38405], say '' URLTest '', Say [40664, 35748, 20540]]),
     (''urlTestDefaultsDescription'', Words [Say [27492, 37197, 32622, 29992, 20110], say '' sing-box '', Say [35746, 38405], say '' URLTest '', Say [20998, 32452, 65292, 19981, 24433, 21709, 33410, 28857, 21345, 29255, 30340], say '' TCP'', Say [12289], say ''HTTP'', Say [12289], say ''ICMP '', Say [27979, 36895, 12290]]),
     (''urlTestDefaultsEnabled'', Words [Say [40664, 35748, 21551, 29992, 35746, 38405], say '' URLTest'']),
     (''urlTestURL'', Words [say ''URLTest '', Say [27979, 35797, 22320, 22336]]),
     (''urlTestURLDescription'', Words [Say [35746, 38405, 26410, 35206, 30422, 26102, 20351, 29992, 27492, 22320, 22336, 12290, 21487, 36873, 25321, 39044, 32622, 22320, 22336, 65292, 25110, 20999, 25442, 20026, 25163, 21160, 36755, 20837, 33258, 23450, 20041], say '' URL'', Say [12290]]),
     (''urlTestURLInvalid'', Words [Say [35831, 36755, 20837, 26377, 25928, 30340], say '' HTTP '', Say [25110], say '' HTTPS '', Say [22320, 22336, 12290]]),
     (''urlTestURLEmpty'', Words [Say [30041, 31354, 32487, 25215, 20840, 23616]]),
     (''urlTestURLManualInput'', Words [Say [33258, 23450, 20041], say '' URLTest '', Say [22320, 22336]]),
     (''urlTestInterval'', Words [say ''URLTest '', Say [27979, 35797, 38388, 38548]]),
     (''urlTestIntervalDescription'', Words [Say [20351, 29992, 26102, 38271, 26684, 24335, 65292, 20363, 22914], say '' 3m '', Say [25110], say '' 30s'', Say [12290]]),
     (''urlTestIntervalInvalid'', Words [Say [35831, 36755, 20837, 22823, 20110], say '' 0 '', Say [30340, 26102, 38271, 65292, 20363, 22914], say '' 3m '', Say [25110], say '' 30s'', Say [12290]]),
     (''urlTestTolerance'', Words [say ''URLTest '', Say [20999, 25442, 23481, 24046, 65288, 27627, 31186, 65289]]),
     (''urlTestToleranceDescription'', Words [Say [24310, 36831, 24046, 24322, 23567, 20110, 27492, 20540, 26102, 36991, 20813, 39057, 32321, 20999, 25442, 12290]]),
     (''urlTestToleranceInvalid'', Words [Say [35831, 36755, 20837], say '' 0 '', Say [21040], say '' 65535 '', Say [20043, 38388, 30340, 25972, 25968, 12290]]),
     (''saveURLTestDefaults'', Words [Say [20445, 23384], say '' URLTest '', Say [40664, 35748, 20540]]),
     (''urlTestDefaultsSaved'', Words [say ''URLTest '', Say [40664, 35748, 20540, 24050, 20445, 23384, 24182, 21516, 27493]]),
     (''ruleSetAutoUpdateTitle'', Words [Say [35268, 21017, 38598, 33258, 21160, 26356, 26032]]),
     (''ruleSetAutoUpdateDescription'', Words [Say [20165, 33258, 21160, 26356, 26032, 20869, 32622], say '' local'', Say [65288], say ''Loyalsoldier'', Say [65289, 35268, 21017, 38598, 65292, 40664, 35748, 20851, 38381, 12290], say ''remote '', Say [20173, 30001, 20869, 26680, 25353], say '' update_interval '', Say [26356, 26032, 12290]]),
     (''ruleSetAutoUpdateEnabled'', Words [Say [21551, 29992], say '' local '', Say [35268, 21017, 38598, 23450, 26102, 26356, 26032]]),
     (''ruleSetAutoUpdateInterval'', Words [Say [33258, 21160, 26356, 26032, 38388, 38548]]),
     (''ruleSetAutoUpdateSaved'', Words [Say [35268, 21017, 38598, 33258, 21160, 26356, 26032, 24050, 20445, 23384]])]"

definition zh_common :: text_group where
  "zh_common =
    [(''loadFailed'', Words [Say [21152, 36733, 22833, 36133]]), (''unexpectedError'', Words [Say [39029, 38754, 20986, 29616, 24322, 24120]]),
     (''unexpectedErrorDescription'', Words [Say [24403, 21069, 39029, 38754, 26080, 27861, 27491, 24120, 26174, 31034, 65292, 21487, 20197, 37325, 35797, 24674, 22797, 12290]]),
     (''retry'', Words [Say [37325, 35797]]), (''save'', Words [Say [20445, 23384]]), (''cancel'', Words [Say [21462, 28040]]),
     (''edit'', Words [Say [32534, 36753]]), (''delete'', Words [Say [21024, 38500]]),
     (''deleteTitle'', Words [Say [30830, 35748, 21024, 38500, 65311]]),
     (''deleteDescription'', Words [Say [27492, 25805, 20316, 26080, 27861, 25764, 38144, 12290]]),
     (''confirmDelete'', Words [Say [30830, 35748, 21024, 38500]]), (''actions'', Words [Say [25805, 20316]]),
     (''type'', Words [Say [31867, 22411]]), (''address'', Words [Say [22320, 22336]]), (''port'', Words [Say [31471, 21475]]),
     (''status'', Words [Say [29366, 24577]]), (''normal'', Words [Say [27491, 24120]]), (''empty'', Words [Say [26242, 26080, 25968, 25454]]),
     (''fieldHelp'', Words [Say [23383, 27573, 35828, 26126]]), (''notSet'', Words [Say [26410, 35774, 32622]])]"

definition zh_dashboard :: text_group where
  "zh_dashboard =
    [(''service'', Words [Say [20869, 26680, 26381, 21153]]),
     (''serviceDescription'', Words [Say [25511, 21046], say '' sing-box '', Say [20869, 26680, 36827, 31243, 12290]]),
     (''running'', Words [Say [36816, 34892, 20013]]), (''stopped'', Words [Say [24050, 20572, 27490]]), (''start'', Words [Say [21551, 21160]]),
     (''stop'', Words [Say [20572, 27490]]), (''restart'', Words [Say [37325, 21551]]), (''memory'', Words [Say [20869, 23384]]),
     (''memoryDescription'', Words [say ''Go '', Say [36816, 34892, 26102, 24403, 21069, 20998, 37197, 12290]]),
     (''version'', Words [Say [29256, 26412]]), (''versionDescription'', Words [say ''sing-box '', Say [20869, 26680, 29256, 26412, 12290]]),
     (''traffic'', Words [Say [27969, 37327]]), (''realtimeRate'', Words [Say [23454, 26102, 36895, 29575]]),
     (''cumulativeTraffic'', Words [Say [32047, 35745, 27969, 37327]]), (''upload'', Words [Say [19978, 20256]]),
     (''download'', Words [Say [19979, 36733]]), (''maintenance'', Words [Say [36816, 34892, 26102, 32500, 25252]]),
     (''maintenanceDescription'', Words [Say [25191, 34892, 20869, 23384, 22238, 25910, 19982, 32531, 23384, 28165, 29702, 12290]]),
     (''flushDNS'', Words [Say [28165, 29702], say '' DNS'']), (''flushFakeIP'', Words [Say [28165, 29702], say '' FakeIP'']),
     (''recentLogs'', Words [Say [26368, 36817, 26085, 24535]]),
     (''recentLogsDescription'', Words [Say [26469, 33258], say '' sing-box '', Say [20869, 26680, 30340, 26368, 26032, 20107, 20214, 12290]]),
     (''noLogs'', Words [Say [26242, 26080, 26085, 24535]]),
     (''logsWaiting'', Words [Say [26032, 26085, 24535, 20250, 33258, 21160, 26174, 31034, 12290]]), (''level'', Words [Say [32423, 21035]]),
     (''message'', Words [Say [28040, 24687]]), (''loadFailed'', Words [Say [20202, 34920, 30424, 21152, 36733, 22833, 36133]]),
     (''actionComplete'', Words [Say [25805, 20316, 24050, 23436, 25104]]),
     (''maintenanceComplete'', Words [Say [32500, 25252, 25805, 20316, 24050, 23436, 25104]]),
     (''confirmActionTitle'', Words [Say [30830, 35748, 20869, 26680, 25805, 20316, 65311]]),
     (''confirmActionDescription'', Words [Say [35813, 25805, 20316, 20250, 20013, 26029, 24403, 21069, 20195, 29702, 36830, 25509, 12290]]),
     (''confirmAction'', Words [Say [30830, 35748, 25805, 20316]])]"

definition zh_config :: text_group where
  "zh_config =
    [(''invalidJSON'', Words [say ''JSON '', Say [26684, 24335, 26080, 25928]]),
     (''invalidJSONDescription'', Words [Say [35831, 20462, 27491, 35821, 27861, 38169, 35823, 21518, 20877, 20445, 23384, 12290]])]"

definition zh_proxy_inbound_section :: text_group where
  "zh_proxy_inbound_section =
    [(''bind'', Words [Say [32465, 23450, 19982, 36335, 30001]]), (''tcp'', Words [say ''TCP'']), (''udp'', Words [say ''UDP'']),
     (''auth'', Words [Say [35748, 35777]]), (''protocol'', Words [Say [21327, 35758, 21442, 25968]]),
     (''tunBasic'', Words [say ''TUN '', Say [22522, 30784]]), (''tunRoute'', Words [Say [36335, 30001]]),
     (''tunRedirect'', Words [Say [36879, 26126, 37325, 23450, 21521]]), (''tunFilter'', Words [Say [39640, 32423, 36807, 28388]]),
     (''tlsBasic'', Words [say ''TLS '', Say [22522, 30784]]), (''tlsCert'', Words [Say [35777, 20070]]),
     (''tlsClient'', Words [Say [23458, 25143, 31471, 35748, 35777]]), (''tlsAcme'', Words [say ''ACME'']), (''tlsEch'', Words [say ''ECH'']),
     (''tlsReality'', Words [say ''Reality'']), (''transport'', Words [Say [20256, 36755, 23618]]),
     (''multiplex'', Words [Say [22810, 36335, 22797, 29992]])]"

definition zh_proxy_inbound :: text_group where
  "zh_proxy_inbound =
    [(''editorDescription'', Words [Say [25353], say '' sing-box 1.13 '', Say [25903, 25345, 39033, 37197, 32622, 20837, 31449, 65307, 22797, 26434, 25110, 26410, 30693, 23383, 27573, 21487, 22312, 39640, 32423], say '' JSON '', Say [20013, 32500, 25252, 12290]]),
     (''basic'', Words [Say [22522, 30784]]), (''listenAndConnection'', Words [Say [30417, 21548, 19982, 36830, 25509]]),
     (''protocol'', Words [Say [21327, 35758]]), (''tlsReality'', Words [say ''TLS / Reality'']),
     (''transportMultiplex'', Words [Say [20256, 36755, 19982, 22797, 29992]]),
     (''selectType'', Words [Say [36873, 25321, 20837, 31449, 31867, 22411]]), (''notSet'', Words [Say [26410, 35774, 32622]]),
     (''enabled'', Words [Say [21551, 29992]]), (''disabled'', Words [Say [31105, 29992]]),
     (''listenAddress'', Words [Say [30417, 21548, 22320, 22336]]),
     (''listenIPv4All'', Words [say ''0.0.0.0'', Say [65288], say ''IPv4 '', Say [20840, 25509, 21475, 65289]]),
     (''listenIPv6All'', Words [say ''::'', Say [65288], say ''IPv6 '', Say [20840, 25509, 21475, 65289]]),
     (''listenManual'', Words [Say [25163, 21160, 36755, 20837]]),
     (''listenManualInput'', Words [Say [33258, 23450, 20041, 30417, 21548, 22320, 22336]]),
     (''listenManualPlaceholder'', Words [Say [20363, 22914], say '' 127.0.0.1 '', Say [25110], say '' 192.168.1.10'']),
     (''listenPort'', Words [Say [30417, 21548, 31471, 21475]]), (''bindInterface'', Words [Say [32465, 23450, 25509, 21475]]),
     (''routingMark'', Words [Say [36335, 30001, 26631, 35760]]), (''reuseAddress'', Words [Say [22797, 29992, 22320, 22336]]),
     (''networkNamespace'', Words [Say [32593, 32476, 21629, 21517, 31354, 38388]]), (''tcpFastOpen'', Words [say ''TCP Fast Open'']),
     (''tcpMultiPath'', Words [say ''TCP MultiPath'']), (''disableTCPKeepAlive'', Words [Say [31105, 29992], say '' TCP Keep Alive'']),
     (''tcpKeepAlive'', Words [say ''TCP Keep Alive'']), (''tcpKeepAliveInterval'', Words [say ''TCP Keep Alive '', Say [38388, 38548]]),
     (''udpFragment'', Words [say ''UDP '', Say [20998, 29255]]), (''udpTimeout'', Words [say ''UDP '', Say [36229, 26102]]),
     (''detour'', Words [Say [21069, 32622, 20837, 31449]]), (''users'', Words [Say [35748, 35777, 29992, 25143]]),
     (''usersJSONHint'', Words [Say [20351, 29992], say '' JSON '', Say [25968, 32452, 32534, 36753, 29992, 25143, 65292, 21487, 20445, 30041, 21327, 35758, 25193, 23637, 23383, 27573, 12290]]),
     (''jsonObjectHint'', Words [Say [20351, 29992], say '' JSON '', Say [23545, 35937, 32534, 36753, 27492, 37197, 32622, 12290]]),
     (''invalidStructuredJSON'', Words [Say [35831, 36755, 20837, 26377, 25928, 30340], say '' JSON '', Say [32467, 26500, 12290]]),
     (''domainResolver'', Words [Say [22495, 21517, 35299, 26512, 22120]]),
     (''setSystemProxy'', Words [Say [35774, 32622, 31995, 32479, 20195, 29702]]), (''network'', Words [Say [32593, 32476]]),
     (''overrideAddress'', Words [Say [35206, 30422, 30446, 26631, 22320, 22336]]),
     (''overridePort'', Words [Say [35206, 30422, 30446, 26631, 31471, 21475]]), (''method'', Words [Say [21152, 23494, 26041, 27861]]),
     (''password'', Words [Say [23494, 30721]]), (''managed'', Words [Say [25176, 31649, 27169, 24335]]),
     (''fallback'', Words [Say [22238, 33853, 30446, 26631]]), (''congestionControl'', Words [Say [25317, 22622, 25511, 21046]]),
     (''uploadBandwidth'', Words [Say [19978, 20256, 24102, 23485]]), (''downloadBandwidth'', Words [Say [19979, 36733, 24102, 23485]]),
     (''uploadMbps'', Words [Say [19978, 20256], say '' Mbps'']), (''downloadMbps'', Words [Say [19979, 36733], say '' Mbps'']),
     (''obfuscation'', Words [Say [28151, 28102]]), (''obfuscationType'', Words [Say [28151, 28102, 31867, 22411]]),
     (''obfuscationPassword'', Words [Say [28151, 28102, 23494, 30721]]),
     (''receiveWindowConnection'', Words [Say [36830, 25509, 25509, 25910, 31383, 21475]]),
     (''receiveWindowClient'', Words [Say [23458, 25143, 31471, 25509, 25910, 31383, 21475]]),
     (''maxClientConnections'', Words [Say [26368, 22823, 23458, 25143, 31471, 36830, 25509, 25968]]),
     (''disableMTUDiscovery'', Words [Say [31105, 29992], say '' MTU '', Say [25506, 27979]]),
     (''ignoreClientBandwidth'', Words [Say [24573, 30053, 23458, 25143, 31471, 24102, 23485]]),
     (''masquerade'', Words [Say [20266, 35013, 22320, 22336]]), (''brutalDebug'', Words [say ''Brutal '', Say [35843, 35797]]),
     (''authenticationTimeout'', Words [Say [35748, 35777, 36229, 26102]]), (''zeroRTTHandshake'', Words [say ''0-RTT '', Say [25569, 25163]]),
     (''heartbeat'', Words [Say [24515, 36339, 38388, 38548]]), (''version'', Words [Say [29256, 26412]]),
     (''handshakeServer'', Words [Say [25569, 25163, 26381, 21153, 22120]]), (''handshakePort'', Words [Say [25569, 25163, 31471, 21475]]),
     (''strictMode'', Words [Say [20005, 26684, 27169, 24335]]), (''wildcardSNI'', Words [Say [36890, 37197], say '' SNI'']),
     (''paddingScheme'', Words [Say [22635, 20805, 26041, 26696]]), (''interfaceName'', Words [Say [25509, 21475, 21517, 31216]]),
     (''mtu'', Words [say ''MTU'']), (''tunAddress'', Words [Say [25509, 21475, 22320, 22336]]), (''stack'', Words [Say [32593, 32476, 26632]]),
     (''autoRoute'', Words [Say [33258, 21160, 36335, 30001]]), (''ipRouteTableIndex'', Words [Say [36335, 30001, 34920, 32034, 24341]]),
     (''ipRouteRuleIndex'', Words [Say [36335, 30001, 35268, 21017, 32034, 24341]]),
     (''autoRedirect'', Words [Say [33258, 21160, 37325, 23450, 21521]]),
     (''autoRedirectInputMark'', Words [Say [33258, 21160, 37325, 23450, 21521, 20837, 31449, 26631, 35760]]),
     (''autoRedirectOutputMark'', Words [Say [33258, 21160, 37325, 23450, 21521, 20986, 31449, 26631, 35760]]),
     (''autoRedirectResetMark'', Words [Say [33258, 21160, 37325, 23450, 21521, 37325, 32622, 26631, 35760]]),
     (''autoRedirectNFQueue'', Words [Say [33258, 21160, 37325, 23450, 21521], say '' NFQueue'']),
     (''autoRedirectFallbackRuleIndex'', Words [Say [33258, 21160, 37325, 23450, 21521, 22238, 36864, 35268, 21017, 32034, 24341]]),
     (''loopbackAddress'', Words [Say [22238, 29615, 22320, 22336]]), (''strictRoute'', Words [Say [20005, 26684, 36335, 30001]]),
     (''routeAddress'', Words [Say [36335, 30001, 22320, 22336]]), (''routeAddressSet'', Words [Say [36335, 30001, 35268, 21017, 38598]]),
     (''routeExcludeAddress'', Words [Say [25490, 38500, 36335, 30001, 22320, 22336]]),
     (''routeExcludeAddressSet'', Words [Say [25490, 38500, 36335, 30001, 35268, 21017, 38598]]),
     (''includeInterface'', Words [Say [21253, 21547, 25509, 21475]]), (''excludeInterface'', Words [Say [25490, 38500, 25509, 21475]]),
     (''includeUID'', Words [Say [21253, 21547], say '' UID'']), (''excludeUID'', Words [Say [25490, 38500], say '' UID'']),
     (''includeUIDRange'', Words [Say [21253, 21547], say '' UID '', Say [33539, 22260]]),
     (''excludeUIDRange'', Words [Say [25490, 38500], say '' UID '', Say [33539, 22260]]),
     (''includeAndroidUser'', Words [Say [21253, 21547], say '' Android '', Say [29992, 25143]]),
     (''includePackage'', Words [Say [21253, 21547, 24212, 29992, 21253]]), (''excludePackage'', Words [Say [25490, 38500, 24212, 29992, 21253]]),
     (''excludeMPTCP'', Words [Say [25490, 38500], say '' MPTCP'']), (''tlsEnabled'', Words [Say [21551, 29992], say '' TLS'']),
     (''serverName'', Words [Say [26381, 21153, 22120, 21517, 31216]]), (''insecure'', Words [Say [36339, 36807, 35777, 20070, 39564, 35777]]),
     (''alpn'', Words [say ''ALPN'']), (''minimumTLSVersion'', Words [Say [26368, 20302], say '' TLS '', Say [29256, 26412]]),
     (''maximumTLSVersion'', Words [Say [26368, 39640], say '' TLS '', Say [29256, 26412]]),
     (''cipherSuites'', Words [Say [23494, 30721, 22871, 20214]]), (''curvePreferences'', Words [Say [26925, 22278, 26354, 32447, 20559, 22909]]),
     (''certificate'', Words [Say [35777, 20070, 20869, 23481]]), (''certificatePath'', Words [Say [35777, 20070, 36335, 24452]]),
     (''privateKey'', Words [Say [31169, 38053, 20869, 23481]]), (''keyPath'', Words [Say [31169, 38053, 36335, 24452]]),
     (''clientAuthentication'', Words [Say [23458, 25143, 31471, 35777, 20070, 35748, 35777]]),
     (''clientCertificate'', Words [Say [23458, 25143, 31471, 35777, 20070, 20869, 23481]]),
     (''clientCertificatePath'', Words [Say [23458, 25143, 31471, 35777, 20070, 36335, 24452]]),
     (''clientCertificateSHA256'', Words [Say [23458, 25143, 31471, 35777, 20070, 20844, 38053], say '' SHA256'']),
     (''kernelTX'', Words [Say [21551, 29992], say '' Kernel TLS '', Say [21457, 36865]]),
     (''kernelRX'', Words [Say [21551, 29992], say '' Kernel TLS '', Say [25509, 25910]]),
     (''acmeDomain'', Words [say ''ACME '', Say [22495, 21517]]), (''acmeDataDirectory'', Words [say ''ACME '', Say [25968, 25454, 30446, 24405]]),
     (''acmeDefaultServerName'', Words [say ''ACME '', Say [40664, 35748, 26381, 21153, 22120, 21517, 31216]]),
     (''acmeEmail'', Words [say ''ACME '', Say [37038, 31665]]), (''acmeProvider'', Words [say ''ACME '', Say [25552, 20379, 21830]]),
     (''disableHTTPChallenge'', Words [Say [31105, 29992], say '' HTTP Challenge'']),
     (''disableTLSALPNChallenge'', Words [Say [31105, 29992], say '' TLS-ALPN Challenge'']),
     (''alternativeHTTPPort'', Words [Say [26367, 20195], say '' HTTP '', Say [31471, 21475]]),
     (''alternativeTLSPort'', Words [Say [26367, 20195], say '' TLS '', Say [31471, 21475]]),
     (''echEnabled'', Words [Say [21551, 29992], say '' ECH'']), (''echKey'', Words [say ''ECH '', Say [23494, 38053]]),
     (''echKeyPath'', Words [say ''ECH '', Say [23494, 38053, 36335, 24452]]), (''realityEnabled'', Words [Say [21551, 29992], say '' Reality'']),
     (''realityHandshakeServer'', Words [say ''Reality '', Say [25569, 25163, 26381, 21153, 22120]]),
     (''realityHandshakePort'', Words [say ''Reality '', Say [25569, 25163, 31471, 21475]]),
     (''realityPrivateKey'', Words [say ''Reality '', Say [31169, 38053]]), (''realityShortID'', Words [say ''Reality Short ID'']),
     (''realityMaxTimeDifference'', Words [say ''Reality '', Say [26368, 22823, 26102, 38388, 24046]]),
     (''transportType'', Words [Say [20256, 36755, 31867, 22411]]), (''transportHost'', Words [Say [20256, 36755], say '' Host'']),
     (''transportPath'', Words [Say [20256, 36755, 36335, 24452]]), (''transportMethod'', Words [Say [20256, 36755, 26041, 27861]]),
     (''transportHeaders'', Words [Say [20256, 36755], say '' Headers'']), (''serviceName'', Words [Say [26381, 21153, 21517, 31216]]),
     (''maxEarlyData'', Words [Say [26368, 22823], say '' Early Data'']),
     (''earlyDataHeaderName'', Words [say ''Early Data '', Say [35831, 27714, 22836]]), (''idleTimeout'', Words [Say [31354, 38386, 36229, 26102]]),
     (''pingTimeout'', Words [say ''Ping '', Say [36229, 26102]]),
     (''permitWithoutStream'', Words [Say [26080, 27963, 21160, 27969, 26102, 20801, 35768], say '' Ping'']),
     (''multiplexEnabled'', Words [Say [21551, 29992, 22810, 36335, 22797, 29992]]),
     (''multiplexPadding'', Words [Say [22810, 36335, 22797, 29992, 22635, 20805]]),
     (''brutalEnabled'', Words [Say [21551, 29992], say '' Brutal'']), (''section'', Group zh_proxy_inbound_section),
     (''addUser'', Words [Say [28155, 21152, 29992, 25143]]), (''removeUser'', Words [Say [21024, 38500, 29992, 25143]]),
     (''usersEmpty'', Words [Say [26242, 26080, 29992, 25143, 65292, 21487, 28857, 20987, 28155, 21152, 12290]]),
     (''userName'', Words [Say [21517, 31216]]), (''username'', Words [Say [29992, 25143, 21517]]), (''uuid'', Words [say ''UUID'']),
     (''flow'', Words [say ''Flow'']), (''alterId'', Words [say ''Alter ID'']), (''tun'', Words [say ''TUN'']),
     (''interfaceManual'', Words [Say [25163, 21160, 36755, 20837]]),
     (''interfaceManualInput'', Words [Say [33258, 23450, 20041, 32593, 21345, 21517, 31216]]),
     (''interfaceManualPlaceholder'', Words [Say [20363, 22914], say '' eth0 '', Say [25110], say '' wlan0'']),
     (''listenAddressHelp'', Words [Say [20837, 31449, 30417, 21548, 30340], say '' IP '', Say [22320, 22336, 12290, 20840, 38646, 34920, 31034, 30417, 21548, 25152, 26377, 32593, 21345, 65307, 20063, 21487, 25163, 21160, 25351, 23450, 20855, 20307, 22320, 22336, 12290]]),
     (''listenPortHelp'', Words [Say [20837, 31449, 30417, 21548, 31471, 21475, 12290, 35831, 30830, 20445, 31471, 21475, 26410, 34987, 21344, 29992, 65292, 19988, 38450, 28779, 22681, 24050, 25918, 34892, 12290]]),
     (''bindInterfaceHelp'', Words [Say [23558, 20837, 31449, 22871, 25509, 23383, 32465, 23450, 21040, 25351, 23450, 32593, 21345, 12290, 24120, 29992, 20110, 22810, 32593, 21345, 29615, 22659, 65292, 21482, 22312, 26576, 19968, 24352, 32593, 21345, 19978, 25509, 25910, 36830, 25509, 12290]]),
     (''routingMarkHelp'', Words [Say [20026, 20837, 31449, 36830, 25509, 35774, 32622], say '' Linux '', Say [36335, 30001, 26631, 35760, 65288], say ''SO_MARK'', Say [65289, 65292, 29992, 20110, 31574, 30053, 36335, 30001, 20998, 27969, 12290]]),
     (''reuseAddressHelp'', Words [Say [21551, 29992, 22320, 22336, 22797, 29992, 65288], say ''SO_REUSEADDR'', Say [65289, 65292, 20415, 20110, 37325, 21551, 26381, 21153, 26102, 24555, 36895, 37325, 26032, 32465, 23450, 31471, 21475, 12290]]),
     (''networkNamespaceHelp'', Words [Say [23558, 20837, 31449, 25918, 20837, 25351, 23450, 32593, 32476, 21629, 21517, 31354, 38388, 12290, 36890, 24120, 29992, 20110, 23481, 22120, 25110, 38548, 31163, 32593, 32476, 22330, 26223, 12290]]),
     (''tcpFastOpenHelp'', Words [Say [21551, 29992], say '' TCP Fast Open'', Say [65292, 21487, 20943, 23569, 39318, 27425, 36830, 25509, 25569, 25163, 24310, 36831, 65307, 38656, 35201, 31995, 32479, 19982, 23545, 31471, 25903, 25345, 12290]]),
     (''tcpMultiPathHelp'', Words [Say [21551, 29992], say '' TCP Multipath'', Say [65292, 20801, 35768, 21516, 19968, 36830, 25509, 20351, 29992, 22810, 26465, 32593, 32476, 36335, 24452, 12290]]),
     (''disableTCPKeepAliveHelp'', Words [Say [31105, 29992], say '' TCP Keep Alive'', Say [12290, 20851, 38381, 21518, 31995, 32479, 19981, 20250, 21608, 26399, 24615, 25506, 27979, 36830, 25509, 26159, 21542, 23384, 27963, 12290]]),
     (''tcpKeepAliveHelp'', Words [say ''TCP Keep Alive '', Say [25506, 27979, 30340, 31354, 38386, 26102, 38388, 65292, 20363, 22914], say '' 5m'', Say [12290]]),
     (''tcpKeepAliveIntervalHelp'', Words [say ''TCP Keep Alive '', Say [25506, 27979, 38388, 38548, 65292, 20363, 22914], say '' 30s'', Say [12290]]),
     (''udpFragmentHelp'', Words [Say [26159, 21542, 20801, 35768], say '' UDP '', Say [20998, 29255, 12290, 20851, 38381, 21518, 22823, 21253, 21487, 33021, 34987, 20002, 24323, 65292, 24320, 21551, 21017, 20801, 35768, 20998, 29255, 20256, 36755, 12290]]),
     (''udpTimeoutHelp'', Words [say ''UDP '', Say [20250, 35805, 31354, 38386, 36229, 26102, 65292, 20363, 22914], say '' 5m'', Say [12290, 36229, 26102, 21518, 20250, 35805, 20250, 34987, 28165, 29702, 12290]]),
     (''detourHelp'', Words [Say [21069, 32622, 20837, 31449, 26631, 31614, 12290, 27969, 37327, 20250, 20808, 32463, 36807, 35813, 20837, 31449, 22788, 29702, 65292, 20877, 36827, 20837, 24403, 21069, 20837, 31449, 12290]]),
     (''usersHelp'', Words [Say [35748, 35777, 29992, 25143, 21015, 34920, 12290, 25353, 21327, 35758, 19981, 21516, 21253, 21547, 29992, 25143, 21517, 12289, 23494, 30721, 12289], say ''UUID '', Say [31561, 23383, 27573, 12290]]),
     (''domainResolverHelp'', Words [Say [29992, 20110, 35299, 26512, 22495, 21517, 30340], say '' DNS '', Say [26381, 21153, 22120, 26631, 31614, 12290]]),
     (''setSystemProxyHelp'', Words [Say [26159, 21542, 23581, 35797, 33258, 21160, 35774, 32622, 31995, 32479, 20195, 29702, 12290, 37096, 20998, 24179, 21488, 21487, 33021, 21463, 38480, 12290]]),
     (''networkHelp'', Words [Say [20801, 35768, 30340, 32593, 32476, 21327, 35758, 65292, 20363, 22914], say '' tcp'', Say [12289], say ''udp'', Say [12290]]),
     (''overrideAddressHelp'', Words [Say [35206, 30422, 21407, 22987, 30446, 26631, 22320, 22336, 65292, 23558, 35831, 27714, 36716, 21457, 21040, 25351, 23450, 20027, 26426, 12290]]),
     (''overridePortHelp'', Words [Say [35206, 30422, 21407, 22987, 30446, 26631, 31471, 21475, 12290]]),
     (''methodHelp'', Words [Say [21152, 23494, 26041, 27861, 65292, 20363, 22914], say '' shadowsocks '', Say [30340], say '' aes-128-gcm'', Say [12290]]),
     (''passwordHelp'', Words [Say [21327, 35758, 35748, 35777, 23494, 30721, 12290]]),
     (''managedHelp'', Words [Say [30001, 22806, 37096, 25176, 31649, 37197, 32622, 26102, 21551, 29992, 65292, 36890, 24120, 30001, 25511, 21046, 38754, 33258, 21160, 32500, 25252, 12290]]),
     (''fallbackHelp'', Words [Say [35748, 35777, 22833, 36133, 25110, 26410, 21305, 37197, 26102, 22238, 33853, 21040, 30340, 30446, 26631, 12290]]),
     (''congestionControlHelp'', Words [say ''QUIC '', Say [25317, 22622, 25511, 21046, 31639, 27861, 65292, 20363, 22914], say '' bbr '', Say [25110], say '' cubic'', Say [12290]]),
     (''uploadBandwidthHelp'', Words [Say [19978, 20256, 24102, 23485, 38480, 21046, 12290]]),
     (''downloadBandwidthHelp'', Words [Say [19979, 36733, 24102, 23485, 38480, 21046, 12290]]),
     (''uploadMbpsHelp'', Words [Say [19978, 20256, 36895, 29575, 19978, 38480, 65292, 21333, 20301], say '' Mbps'', Say [12290]]),
     (''downloadMbpsHelp'', Words [Say [19979, 36733, 36895, 29575, 19978, 38480, 65292, 21333, 20301], say '' Mbps'', Say [12290]]),
     (''obfuscationHelp'', Words [Say [27969, 37327, 28151, 28102, 37197, 32622, 65292, 29992, 20110, 20266, 35013, 21327, 35758, 29305, 24449, 12290]]),
     (''obfuscationTypeHelp'', Words [Say [28151, 28102, 31867, 22411, 65292, 20363, 22914], say '' salamander'', Say [12290]]),
     (''obfuscationPasswordHelp'', Words [Say [28151, 28102, 20849, 20139, 23494, 30721, 12290]]),
     (''receiveWindowConnectionHelp'', Words [say ''QUIC '', Say [36830, 25509, 32423, 25509, 25910, 31383, 21475, 22823, 23567, 12290]]),
     (''receiveWindowClientHelp'', Words [say ''QUIC '', Say [23458, 25143, 31471, 25509, 25910, 31383, 21475, 22823, 23567, 12290]]),
     (''maxClientConnectionsHelp'', Words [Say [21333, 20010, 23458, 25143, 31471, 20801, 35768, 30340, 26368, 22823, 24182, 21457, 36830, 25509, 25968, 12290]]),
     (''disableMTUDiscoveryHelp'', Words [Say [31105, 29992], say '' MTU '', Say [25506, 27979, 65292, 24378, 21046, 20351, 29992, 22266, 23450, 36335, 24452], say '' MTU'', Say [12290]]),
     (''ignoreClientBandwidthHelp'', Words [Say [24573, 30053, 23458, 25143, 31471, 19978, 25253, 24102, 23485, 65292, 25913, 29992, 26381, 21153, 31471, 37197, 32622, 12290]]),
     (''masqueradeHelp'', Words [Say [20266, 35013, 25104, 20854, 20182], say '' HTTP/HTTPS '', Say [26381, 21153, 30340, 22320, 22336, 25110, 20869, 23481, 12290]]),
     (''brutalDebugHelp'', Words [Say [24320, 21551], say '' Brutal '', Say [30456, 20851, 35843, 35797, 26085, 24535, 12290]]),
     (''authenticationTimeoutHelp'', Words [Say [35748, 35777, 36229, 26102, 26102, 38388, 65292, 36229, 26102, 21518, 26029, 24320, 36830, 25509, 12290]]),
     (''zeroRTTHandshakeHelp'', Words [Say [21551, 29992], say '' 0-RTT '', Say [25569, 25163, 20197, 38477, 20302, 37325, 36830, 24310, 36831, 65292, 23433, 20840, 24615, 30053, 20302, 12290]]),
     (''heartbeatHelp'', Words [Say [24515, 36339, 38388, 38548, 65292, 29992, 20110, 20445, 27963, 19982, 25506, 27979, 12290]]),
     (''versionHelp'', Words [Say [21327, 35758, 29256, 26412, 21495, 12290]]),
     (''handshakeServerHelp'', Words [Say [25569, 25163, 20266, 35013, 26381, 21153, 22120, 22320, 22336, 12290]]),
     (''handshakePortHelp'', Words [Say [25569, 25163, 20266, 35013, 26381, 21153, 22120, 31471, 21475, 12290]]),
     (''strictModeHelp'', Words [Say [21551, 29992, 20005, 26684, 26657, 39564, 27169, 24335, 65292, 25298, 32477, 19981, 31526, 21512, 35268, 33539, 30340, 36830, 25509, 12290]]),
     (''wildcardSNIHelp'', Words [Say [36890, 37197], say '' SNI '', Say [22788, 29702, 31574, 30053, 12290]]),
     (''paddingSchemeHelp'', Words [Say [22635, 20805, 26041, 26696, 65292, 29992, 20110, 28151, 28102, 25968, 25454, 21253, 38271, 24230, 29305, 24449, 12290]]),
     (''interfaceNameHelp'', Words [say ''TUN '', Say [34394, 25311, 32593, 21345, 21517, 31216, 65292, 20363, 22914], say '' tun0'', Say [12290]]),
     (''mtuHelp'', Words [Say [34394, 25311, 32593, 21345], say '' MTU'', Say [12290, 36807, 23567, 20250, 38477, 20302, 21534, 21520, 65292, 36807, 22823, 21487, 33021, 23548, 33268, 20998, 29255, 12290]]),
     (''tunAddressHelp'', Words [say ''TUN '', Say [25509, 21475, 22320, 22336, 65292, 36890, 24120, 26159, 31169, 26377, 32593, 27573, 22320, 22336, 12290]]),
     (''stackHelp'', Words [say ''TUN '', Say [21327, 35758, 26632, 65306], say ''system'', Say [12289], say ''gvisor '', Say [25110], say '' mixed'', Say [12290]]),
     (''autoRouteHelp'', Words [Say [33258, 21160, 20889, 20837, 31995, 32479, 36335, 30001, 65292, 25226, 21305, 37197, 27969, 37327, 23548, 20837], say '' TUN'', Say [12290]]),
     (''ipRouteTableIndexHelp'', Words [Say [33258, 21160, 36335, 30001, 20351, 29992, 30340, 31574, 30053, 36335, 30001, 34920, 32534, 21495, 12290]]),
     (''ipRouteRuleIndexHelp'', Words [Say [33258, 21160, 36335, 30001, 35268, 21017, 30340, 36215, 22987, 20248, 20808, 32423, 32534, 21495, 12290]]),
     (''autoRedirectHelp'', Words [Say [33258, 21160, 37197, 32622, 36879, 26126, 37325, 23450, 21521, 65292, 20943, 23569, 25163, 24037], say '' iptables/nftables '', Say [35774, 32622, 12290]]),
     (''autoRedirectInputMarkHelp'', Words [Say [36879, 26126, 37325, 23450, 21521, 20837, 31449, 27969, 37327, 26631, 35760, 12290]]),
     (''autoRedirectOutputMarkHelp'', Words [Say [36879, 26126, 37325, 23450, 21521, 20986, 31449, 27969, 37327, 26631, 35760, 12290]]),
     (''autoRedirectResetMarkHelp'', Words [Say [36879, 26126, 37325, 23450, 21521, 37325, 32622, 26631, 35760, 12290]]),
     (''autoRedirectNFQueueHelp'', Words [Say [36879, 26126, 37325, 23450, 21521, 20351, 29992, 30340], say '' NFQueue '', Say [38431, 21015, 21495, 12290]]),
     (''autoRedirectFallbackRuleIndexHelp'', Words [Say [36879, 26126, 37325, 23450, 21521, 22238, 36864, 35268, 21017, 32034, 24341, 12290]]),
     (''loopbackAddressHelp'', Words [Say [38656, 35201, 29305, 27530, 22788, 29702, 30340, 22238, 29615, 22320, 22336, 21015, 34920, 12290]]),
     (''strictRouteHelp'', Words [Say [21551, 29992, 20005, 26684, 36335, 30001, 65292, 36991, 20813, 27969, 37327, 32469, 36807], say '' TUN'', Say [12290]]),
     (''routeAddressHelp'', Words [Say [38656, 35201, 23548, 20837], say '' TUN '', Say [30340, 30446, 26631, 22320, 22336, 25110, 32593, 27573, 12290]]),
     (''routeAddressSetHelp'', Words [Say [38656, 35201, 23548, 20837], say '' TUN '', Say [30340, 36335, 30001, 35268, 21017, 38598, 12290]]),
     (''routeExcludeAddressHelp'', Words [Say [25490, 38500, 22312], say '' TUN '', Say [20043, 22806, 30340, 30446, 26631, 22320, 22336, 25110, 32593, 27573, 12290]]),
     (''routeExcludeAddressSetHelp'', Words [Say [25490, 38500, 22312], say '' TUN '', Say [20043, 22806, 30340, 36335, 30001, 35268, 21017, 38598, 12290]]),
     (''includeInterfaceHelp'', Words [Say [20165, 21253, 21547, 26469, 33258, 36825, 20123, 32593, 21345, 30340, 27969, 37327, 12290]]),
     (''excludeInterfaceHelp'', Words [Say [25490, 38500, 26469, 33258, 36825, 20123, 32593, 21345, 30340, 27969, 37327, 12290]]),
     (''includeUIDHelp'', Words [Say [20165, 21253, 21547, 36825, 20123], say '' Linux UID '', Say [30340, 27969, 37327, 12290]]),
     (''excludeUIDHelp'', Words [Say [25490, 38500, 36825, 20123], say '' Linux UID '', Say [30340, 27969, 37327, 12290]]),
     (''includeUIDRangeHelp'', Words [Say [20165, 21253, 21547, 36825, 20123], say '' UID '', Say [33539, 22260, 30340, 27969, 37327, 12290]]),
     (''excludeUIDRangeHelp'', Words [Say [25490, 38500, 36825, 20123], say '' UID '', Say [33539, 22260, 30340, 27969, 37327, 12290]]),
     (''includeAndroidUserHelp'', Words [Say [20165, 21253, 21547, 36825, 20123], say '' Android '', Say [29992, 25143, 30340, 27969, 37327, 12290]]),
     (''includePackageHelp'', Words [Say [20165, 21253, 21547, 36825, 20123], say '' Android '', Say [24212, 29992, 21253, 21517, 12290]]),
     (''excludePackageHelp'', Words [Say [25490, 38500, 36825, 20123], say '' Android '', Say [24212, 29992, 21253, 21517, 12290]]),
     (''excludeMPTCPHelp'', Words [Say [25490, 38500], say '' MPTCP '', Say [27969, 37327, 65292, 36991, 20813, 22810, 36335, 24452, 36830, 25509, 24322, 24120, 12290]]),
     (''tlsEnabledHelp'', Words [Say [21551, 29992], say '' TLS'', Say [12290, 24320, 21551, 21518, 23458, 25143, 31471, 38656, 25353], say '' TLS '', Say [26041, 24335, 36830, 25509, 12290]]),
     (''serverNameHelp'', Words [say ''TLS SNI / '', Say [35777, 20070, 22495, 21517, 12290]]),
     (''insecureHelp'', Words [Say [36339, 36807, 35777, 20070, 26657, 39564, 12290, 20165, 24314, 35758, 29992, 20110, 27979, 35797, 29615, 22659, 12290]]),
     (''alpnHelp'', Words [say ''TLS ALPN '', Say [21015, 34920, 65292, 20363, 22914], say '' h2'', Say [12289], say ''http/1.1'', Say [12290]]),
     (''minimumTLSVersionHelp'', Words [Say [20801, 35768, 30340, 26368, 20302], say '' TLS '', Say [29256, 26412, 12290]]),
     (''maximumTLSVersionHelp'', Words [Say [20801, 35768, 30340, 26368, 39640], say '' TLS '', Say [29256, 26412, 12290]]),
     (''cipherSuitesHelp'', Words [Say [20801, 35768, 30340], say '' TLS '', Say [23494, 30721, 22871, 20214, 21015, 34920, 12290]]),
     (''curvePreferencesHelp'', Words [Say [26925, 22278, 26354, 32447, 20559, 22909, 21015, 34920, 12290]]),
     (''certificateHelp'', Words [say ''TLS '', Say [35777, 20070, 20869, 23481, 12290]]),
     (''certificatePathHelp'', Words [say ''TLS '', Say [35777, 20070, 25991, 20214, 36335, 24452, 12290]]),
     (''privateKeyHelp'', Words [say ''TLS '', Say [31169, 38053, 20869, 23481, 12290]]),
     (''keyPathHelp'', Words [say ''TLS '', Say [31169, 38053, 25991, 20214, 36335, 24452, 12290]]),
     (''clientAuthenticationHelp'', Words [Say [23458, 25143, 31471, 35777, 20070, 35748, 35777, 31574, 30053, 12290]]),
     (''clientCertificateHelp'', Words [Say [21463, 20449, 20219, 23458, 25143, 31471, 35777, 20070, 20869, 23481, 12290]]),
     (''clientCertificatePathHelp'', Words [Say [21463, 20449, 20219, 23458, 25143, 31471, 35777, 20070, 36335, 24452, 12290]]),
     (''clientCertificateSHA256Help'', Words [Say [21463, 20449, 20219, 23458, 25143, 31471, 35777, 20070, 20844, 38053], say '' SHA256'', Say [12290]]),
     (''kernelTXHelp'', Words [Say [21551, 29992, 20869, 26680], say '' TLS '', Say [21457, 36865, 21368, 36733, 12290]]),
     (''kernelRXHelp'', Words [Say [21551, 29992, 20869, 26680], say '' TLS '', Say [25509, 25910, 21368, 36733, 12290]]),
     (''acmeDomainHelp'', Words [say ''ACME '', Say [33258, 21160, 30003, 35831, 35777, 20070, 30340, 22495, 21517, 21015, 34920, 12290]]),
     (''acmeDataDirectoryHelp'', Words [say ''ACME '', Say [35777, 20070, 19982, 36134, 25143, 25968, 25454, 30446, 24405, 12290]]),
     (''acmeDefaultServerNameHelp'', Words [say ''ACME '', Say [40664, 35748, 26381, 21153, 22120, 21517, 31216, 12290]]),
     (''acmeEmailHelp'', Words [say ''ACME '', Say [27880, 20876, 37038, 31665, 12290]]),
     (''acmeProviderHelp'', Words [say ''ACME '', Say [35777, 20070, 25552, 20379, 21830, 12290]]),
     (''disableHTTPChallengeHelp'', Words [Say [31105, 29992], say '' HTTP-01 '', Say [26657, 39564, 12290]]),
     (''disableTLSALPNChallengeHelp'', Words [Say [31105, 29992], say '' TLS-ALPN-01 '', Say [26657, 39564, 12290]]),
     (''alternativeHTTPPortHelp'', Words [say ''HTTP-01 '', Say [26657, 39564, 20351, 29992, 30340, 22791, 29992, 31471, 21475, 12290]]),
     (''alternativeTLSPortHelp'', Words [say ''TLS-ALPN-01 '', Say [26657, 39564, 20351, 29992, 30340, 22791, 29992, 31471, 21475, 12290]]),
     (''echEnabledHelp'', Words [Say [21551, 29992], say '' Encrypted Client Hello'', Say [65292, 38544, 34255], say '' SNI'', Say [12290]]),
     (''echKeyHelp'', Words [say ''ECH '', Say [31169, 38053, 37197, 32622, 12290]]),
     (''echKeyPathHelp'', Words [say ''ECH '', Say [31169, 38053, 25991, 20214, 36335, 24452, 12290]]),
     (''realityEnabledHelp'', Words [Say [21551, 29992], say '' Reality'', Say [65292, 29992, 20110, 20266, 35013, 25104, 21512, 27861], say '' TLS '', Say [31449, 28857, 12290]]),
     (''realityHandshakeServerHelp'', Words [say ''Reality '', Say [25569, 25163, 20266, 35013, 30446, 26631, 26381, 21153, 22120, 12290]]),
     (''realityHandshakePortHelp'', Words [say ''Reality '', Say [25569, 25163, 20266, 35013, 30446, 26631, 31471, 21475, 12290]]),
     (''realityPrivateKeyHelp'', Words [say ''Reality '', Say [26381, 21153, 31471, 31169, 38053, 12290]]),
     (''realityShortIDHelp'', Words [say ''Reality Short ID '', Say [21015, 34920, 12290]]),
     (''realityMaxTimeDifferenceHelp'', Words [Say [20801, 35768, 30340, 26368, 22823, 26102, 38388, 20559, 24046, 65292, 29992, 20110, 38450, 37325, 25918, 12290]]),
     (''transportTypeHelp'', Words [Say [20256, 36755, 23618, 31867, 22411, 65292, 20363, 22914], say '' ws'', Say [12289], say ''grpc'', Say [12289], say ''httpupgrade'', Say [12290]]),
     (''transportHostHelp'', Words [Say [20256, 36755, 23618], say '' Host '', Say [22836, 25110, 20027, 26426, 21517, 12290]]),
     (''transportPathHelp'', Words [Say [20256, 36755, 23618, 36335, 24452, 12290]]),
     (''transportHeadersHelp'', Words [Say [20256, 36755, 23618, 33258, 23450, 20041], say '' HTTP '', Say [22836, 12290]]),
     (''transportMethodHelp'', Words [Say [20256, 36755, 23618], say '' HTTP '', Say [26041, 27861, 12290]]),
     (''serviceNameHelp'', Words [say ''gRPC service name'', Say [12290]]),
     (''idleTimeoutHelp'', Words [Say [31354, 38386, 36229, 26102, 26102, 38388, 12290]]),
     (''pingTimeoutHelp'', Words [Say [24515, 36339, 36229, 26102, 26102, 38388, 12290]]),
     (''permitWithoutStreamHelp'', Words [Say [20801, 35768, 22312, 27809, 26377], say '' stream '', Say [26102, 32500, 25345, 36830, 25509, 12290]]),
     (''maxEarlyDataHelp'', Words [Say [26368, 22823], say '' early data '', Say [23383, 33410, 25968, 12290]]),
     (''earlyDataHeaderNameHelp'', Words [say ''early data '', Say [20351, 29992, 30340], say '' HTTP '', Say [22836, 21517, 31216, 12290]]),
     (''multiplexEnabledHelp'', Words [Say [21551, 29992, 22810, 36335, 22797, 29992, 65292, 22312, 21333, 36830, 25509, 19978, 25215, 36733, 22810, 26465, 36923, 36753, 27969, 12290]]),
     (''multiplexPaddingHelp'', Words [Say [20026, 22810, 36335, 22797, 29992, 27969, 37327, 28155, 21152, 22635, 20805, 65292, 38477, 20302, 29305, 24449, 12290]]),
     (''brutalEnabledHelp'', Words [Say [21551, 29992], say '' Brutal '', Say [25317, 22622, 25511, 21046, 30456, 20851, 33021, 21147, 12290]])]"

definition zh_proxy_outbound_section :: text_group where
  "zh_proxy_outbound_section =
    [(''bind'', Words [Say [32465, 23450, 19982, 36335, 30001]]), (''tcp'', Words [say ''TCP'']), (''udp'', Words [say ''UDP'']),
     (''dns'', Words [Say [22495, 21517, 35299, 26512]]), (''strategy'', Words [Say [32593, 32476, 31574, 30053]]),
     (''auth'', Words [Say [35748, 35777]]), (''protocol'', Words [Say [21327, 35758, 21442, 25968]]), (''group'', Words [Say [20998, 32452]]),
     (''tlsBasic'', Words [say ''TLS '', Say [22522, 30784]]), (''tlsCert'', Words [Say [35777, 20070]]),
     (''tlsFragment'', Words [say ''TLS '', Say [20998, 29255]]), (''tlsEch'', Words [say ''ECH'']), (''tlsUtls'', Words [say ''uTLS'']),
     (''tlsReality'', Words [say ''Reality'']), (''transport'', Words [Say [20256, 36755, 23618]]),
     (''multiplex'', Words [Say [22810, 36335, 22797, 29992]])]"

definition zh_proxy_outbound :: text_group where
  "zh_proxy_outbound =
    [(''editorDescription'', Words [Say [25353], say '' sing-box 1.13 '', Say [25903, 25345, 39033, 37197, 32622, 20986, 31449, 65307, 22797, 26434, 25110, 26410, 30693, 23383, 27573, 21487, 22312, 39640, 32423], say '' JSON '', Say [20013, 32500, 25252, 12290]]),
     (''groupOutbound'', Words [Say [20998, 32452, 20986, 31449]]), (''members'', Words [Say [25104, 21592, 65306], Hole ''members'']),
     (''detourSummary'', Words [Say [21069, 32622, 20986, 31449, 65306], Hole ''detour'']), (''basic'', Words [Say [22522, 30784]]),
     (''dialing'', Words [Say [25320, 21495, 19982, 32593, 32476]]), (''protocol'', Words [Say [21327, 35758]]),
     (''group'', Words [Say [20998, 32452]]), (''tlsReality'', Words [say ''TLS / uTLS / Reality'']),
     (''transportMultiplex'', Words [Say [20256, 36755, 19982, 22797, 29992]]),
     (''selectType'', Words [Say [36873, 25321, 20986, 31449, 31867, 22411]]), (''notSet'', Words [Say [26410, 35774, 32622]]),
     (''enabled'', Words [Say [21551, 29992]]), (''disabled'', Words [Say [31105, 29992]]),
     (''server'', Words [Say [26381, 21153, 22120, 22320, 22336]]), (''serverPort'', Words [Say [26381, 21153, 22120, 31471, 21475]]),
     (''jsonObjectHint'', Words [Say [20351, 29992], say '' JSON '', Say [23545, 35937, 32534, 36753, 27492, 37197, 32622, 12290]]),
     (''usersJSONHint'', Words [Say [20351, 29992], say '' JSON '', Say [25968, 32452, 32534, 36753, 27492, 37197, 32622, 12290]]),
     (''invalidStructuredJSON'', Words [Say [35831, 36755, 20837, 26377, 25928, 30340], say '' JSON '', Say [32467, 26500, 12290]]),
     (''managedGroupTitle'', Words [Say [35746, 38405, 33258, 21160, 29983, 25104, 30340, 20998, 32452, 35831, 22312, 35746, 38405, 39029, 38754, 31649, 29702]]),
     (''managedGroupDescription'', Words [Say [30452, 25509, 32534, 36753, 33258, 21160, 29983, 25104, 30340], say '' Selector '', Say [25110], say '' URLTest'', Say [65292, 21487, 33021, 22312, 19979, 27425, 35746, 38405, 21516, 27493, 26102, 34987, 35206, 30422, 12290]]),
     (''section'', Group zh_proxy_outbound_section), (''detour'', Words [Say [21069, 32622, 20986, 31449]]),
     (''bindInterface'', Words [Say [32465, 23450, 25509, 21475]]), (''interfaceManual'', Words [Say [25163, 21160, 36755, 20837]]),
     (''interfaceManualInput'', Words [Say [33258, 23450, 20041, 32593, 21345, 21517, 31216]]),
     (''interfaceManualPlaceholder'', Words [Say [20363, 22914], say '' eth0 '', Say [25110], say '' wlan0'']),
     (''bindInterfaceHelp'', Words [Say [23558, 20986, 31449, 36830, 25509, 32465, 23450, 21040, 25351, 23450, 32593, 21345, 12290, 24120, 29992, 20110, 22810, 32593, 21345, 29615, 22659, 65292, 24378, 21046, 20174, 26576, 19968, 24352, 32593, 21345, 25320, 20986, 12290]]),
     (''inet4BindAddress'', Words [say ''IPv4 '', Say [32465, 23450, 22320, 22336]]),
     (''inet6BindAddress'', Words [say ''IPv6 '', Say [32465, 23450, 22320, 22336]]),
     (''bindAddressNoPort'', Words [Say [32465, 23450, 22320, 22336, 26102, 24573, 30053, 31471, 21475]]),
     (''protectPath'', Words [Say [20445, 25252, 36335, 24452]]), (''routingMark'', Words [Say [36335, 30001, 26631, 35760]]),
     (''reuseAddress'', Words [Say [22797, 29992, 22320, 22336]]), (''networkNamespace'', Words [Say [32593, 32476, 21629, 21517, 31354, 38388]]),
     (''connectTimeout'', Words [Say [36830, 25509, 36229, 26102]]), (''tcpFastOpen'', Words [say ''TCP Fast Open'']),
     (''tcpMultiPath'', Words [say ''TCP MultiPath'']), (''disableTCPKeepAlive'', Words [Say [31105, 29992], say '' TCP Keep Alive'']),
     (''tcpKeepAlive'', Words [say ''TCP Keep Alive'']), (''tcpKeepAliveInterval'', Words [say ''TCP Keep Alive '', Say [38388, 38548]]),
     (''udpFragment'', Words [say ''UDP '', Say [20998, 29255]]),
     (''domainResolverServer'', Words [Say [22495, 21517, 35299, 26512, 26381, 21153, 22120]]),
     (''domainResolverStrategy'', Words [Say [22495, 21517, 35299, 26512, 31574, 30053]]),
     (''domainResolverDisableCache'', Words [Say [22495, 21517, 35299, 26512, 31105, 29992, 32531, 23384]]),
     (''domainResolverRewriteTTL'', Words [Say [22495, 21517, 35299, 26512, 37325, 20889], say '' TTL'']),
     (''domainResolverClientSubnet'', Words [Say [22495, 21517, 35299, 26512, 23458, 25143, 31471, 23376, 32593]]),
     (''networkStrategy'', Words [Say [32593, 32476, 31574, 30053]]), (''networkType'', Words [Say [32593, 32476, 31867, 22411]]),
     (''fallbackNetworkType'', Words [Say [22238, 36864, 32593, 32476, 31867, 22411]]),
     (''fallbackDelay'', Words [Say [22238, 36864, 24310, 36831]]), (''version'', Words [Say [29256, 26412]]),
     (''username'', Words [Say [29992, 25143, 21517]]), (''password'', Words [Say [23494, 30721]]), (''network'', Words [Say [32593, 32476]]),
     (''udpOverTCPEnabled'', Words [Say [21551, 29992], say '' UDP over TCP'']),
     (''udpOverTCPVersion'', Words [say ''UDP over TCP '', Say [29256, 26412]]), (''httpPath'', Words [say ''HTTP '', Say [36335, 24452]]),
     (''headers'', Words [Say [35831, 27714], say '' Headers'']), (''method'', Words [Say [21152, 23494, 26041, 27861]]),
     (''plugin'', Words [Say [25554, 20214]]), (''pluginOptions'', Words [Say [25554, 20214, 21442, 25968]]), (''uuid'', Words [say ''UUID'']),
     (''security'', Words [Say [23433, 20840, 31867, 22411]]), (''alterId'', Words [say ''Alter ID'']),
     (''globalPadding'', Words [Say [20840, 23616, 22635, 20805]]), (''authenticatedLength'', Words [Say [35748, 35777, 38271, 24230]]),
     (''packetEncoding'', Words [Say [25968, 25454, 21253, 32534, 30721]]), (''flow'', Words [say ''Flow'']),
     (''insecureConcurrency'', Words [Say [19981, 23433, 20840, 24182, 21457, 25968]]),
     (''extraHeaders'', Words [Say [39069, 22806], say '' Headers'']), (''streamReceiveWindow'', Words [Say [27969, 25509, 25910, 31383, 21475]]),
     (''quic'', Words [Say [21551, 29992], say '' QUIC'']), (''quicCongestionControl'', Words [say ''QUIC '', Say [25317, 22622, 25511, 21046]]),
     (''quicSessionReceiveWindow'', Words [say ''QUIC '', Say [20250, 35805, 25509, 25910, 31383, 21475]]),
     (''serverPorts'', Words [Say [26381, 21153, 22120, 31471, 21475, 21015, 34920]]),
     (''hopInterval'', Words [Say [31471, 21475, 36339, 36291, 38388, 38548]]), (''uploadBandwidth'', Words [Say [19978, 20256, 24102, 23485]]),
     (''uploadMbps'', Words [Say [19978, 20256], say '' Mbps'']), (''downloadBandwidth'', Words [Say [19979, 36733, 24102, 23485]]),
     (''downloadMbps'', Words [Say [19979, 36733], say '' Mbps'']), (''obfuscation'', Words [Say [28151, 28102]]),
     (''auth'', Words [Say [35748, 35777, 25968, 25454, 65288], say ''Base64'', Say [65289]]),
     (''authString'', Words [Say [35748, 35777, 23383, 31526, 20018]]),
     (''receiveWindowConnection'', Words [Say [36830, 25509, 25509, 25910, 31383, 21475]]),
     (''receiveWindow'', Words [Say [25509, 25910, 31383, 21475]]),
     (''disableMTUDiscovery'', Words [Say [31105, 29992], say '' MTU '', Say [25506, 27979]]),
     (''obfuscationType'', Words [Say [28151, 28102, 31867, 22411]]), (''obfuscationPassword'', Words [Say [28151, 28102, 23494, 30721]]),
     (''brutalDebug'', Words [say ''Brutal '', Say [35843, 35797]]), (''congestionControl'', Words [Say [25317, 22622, 25511, 21046]]),
     (''udpRelayMode'', Words [say ''UDP '', Say [36716, 21457, 27169, 24335]]), (''udpOverStream'', Words [say ''UDP over Stream'']),
     (''zeroRTTHandshake'', Words [say ''0-RTT '', Say [25569, 25163]]), (''heartbeat'', Words [Say [24515, 36339, 38388, 38548]]),
     (''sshUser'', Words [say ''SSH '', Say [29992, 25143]]), (''privateKey'', Words [Say [31169, 38053, 20869, 23481]]),
     (''privateKeyPath'', Words [Say [31169, 38053, 36335, 24452]]), (''privateKeyPassphrase'', Words [Say [31169, 38053, 23494, 30721]]),
     (''hostKey'', Words [Say [20027, 26426, 23494, 38053]]), (''hostKeyAlgorithms'', Words [Say [20027, 26426, 23494, 38053, 31639, 27861]]),
     (''clientVersion'', Words [Say [23458, 25143, 31471, 29256, 26412]]),
     (''executablePath'', Words [Say [21487, 25191, 34892, 25991, 20214, 36335, 24452]]),
     (''extraArguments'', Words [Say [39069, 22806, 21442, 25968]]), (''dataDirectory'', Words [Say [25968, 25454, 30446, 24405]]),
     (''torOptions'', Words [say ''Tor '', Say [37197, 32622]]),
     (''idleSessionCheckInterval'', Words [Say [31354, 38386, 20250, 35805, 26816, 26597, 38388, 38548]]),
     (''idleSessionTimeout'', Words [Say [31354, 38386, 20250, 35805, 36229, 26102]]),
     (''minimumIdleSession'', Words [Say [26368, 23567, 31354, 38386, 20250, 35805, 25968]]),
     (''groupOutbounds'', Words [Say [20998, 32452, 25104, 21592]]), (''groupDefault'', Words [Say [40664, 35748, 25104, 21592]]),
     (''interruptConnections'', Words [Say [20999, 25442, 26102, 20013, 26029, 29616, 26377, 36830, 25509]]),
     (''urlTestURL'', Words [Say [27979, 35797, 22320, 22336]]), (''urlTestInterval'', Words [Say [27979, 35797, 38388, 38548]]),
     (''urlTestTolerance'', Words [Say [27979, 35797, 23481, 24046]]), (''idleTimeout'', Words [Say [31354, 38386, 36229, 26102]]),
     (''tlsEnabled'', Words [Say [21551, 29992], say '' TLS'']), (''disableSNI'', Words [Say [31105, 29992], say '' SNI'']),
     (''serverName'', Words [Say [26381, 21153, 22120, 21517, 31216]]), (''insecure'', Words [Say [36339, 36807, 35777, 20070, 39564, 35777]]),
     (''alpn'', Words [say ''ALPN'']), (''minimumTLSVersion'', Words [Say [26368, 20302], say '' TLS '', Say [29256, 26412]]),
     (''maximumTLSVersion'', Words [Say [26368, 39640], say '' TLS '', Say [29256, 26412]]),
     (''cipherSuites'', Words [Say [23494, 30721, 22871, 20214]]), (''curvePreferences'', Words [Say [26925, 22278, 26354, 32447, 20559, 22909]]),
     (''certificate'', Words [say ''CA '', Say [35777, 20070, 20869, 23481]]),
     (''certificatePath'', Words [say ''CA '', Say [35777, 20070, 36335, 24452]]),
     (''certificateSHA256'', Words [Say [35777, 20070, 20844, 38053], say '' SHA256'']),
     (''clientCertificate'', Words [Say [23458, 25143, 31471, 35777, 20070, 20869, 23481]]),
     (''clientCertificatePath'', Words [Say [23458, 25143, 31471, 35777, 20070, 36335, 24452]]),
     (''clientKey'', Words [Say [23458, 25143, 31471, 31169, 38053, 20869, 23481]]),
     (''clientKeyPath'', Words [Say [23458, 25143, 31471, 31169, 38053, 36335, 24452]]), (''tlsFragment'', Words [say ''TLS '', Say [20998, 29255]]),
     (''fragmentFallbackDelay'', Words [Say [20998, 29255, 22238, 36864, 24310, 36831]]),
     (''recordFragment'', Words [say ''TLS '', Say [35760, 24405, 20998, 29255]]),
     (''kernelTX'', Words [Say [21551, 29992], say '' Kernel TLS '', Say [21457, 36865]]),
     (''kernelRX'', Words [Say [21551, 29992], say '' Kernel TLS '', Say [25509, 25910]]),
     (''echEnabled'', Words [Say [21551, 29992], say '' ECH'']), (''echConfig'', Words [say ''ECH '', Say [37197, 32622]]),
     (''echConfigPath'', Words [say ''ECH '', Say [37197, 32622, 36335, 24452]]),
     (''echQueryServerName'', Words [say ''ECH '', Say [26597, 35810, 26381, 21153, 22120, 21517, 31216]]),
     (''utlsEnabled'', Words [Say [21551, 29992], say '' uTLS'']), (''utlsFingerprint'', Words [say ''uTLS '', Say [25351, 32441]]),
     (''realityEnabled'', Words [Say [21551, 29992], say '' Reality'']), (''realityPublicKey'', Words [say ''Reality '', Say [20844, 38053]]),
     (''realityShortID'', Words [say ''Reality Short ID'']), (''transportType'', Words [Say [20256, 36755, 31867, 22411]]),
     (''transportHost'', Words [Say [20256, 36755], say '' Host'']), (''transportPath'', Words [Say [20256, 36755, 36335, 24452]]),
     (''transportMethod'', Words [Say [20256, 36755, 26041, 27861]]), (''transportHeaders'', Words [Say [20256, 36755], say '' Headers'']),
     (''serviceName'', Words [Say [26381, 21153, 21517, 31216]]), (''maxEarlyData'', Words [Say [26368, 22823], say '' Early Data'']),
     (''earlyDataHeaderName'', Words [say ''Early Data '', Say [35831, 27714, 22836]]), (''pingTimeout'', Words [say ''Ping '', Say [36229, 26102]]),
     (''permitWithoutStream'', Words [Say [26080, 27963, 21160, 27969, 26102, 20801, 35768], say '' Ping'']),
     (''multiplexEnabled'', Words [Say [21551, 29992, 22810, 36335, 22797, 29992]]),
     (''multiplexProtocol'', Words [Say [22810, 36335, 22797, 29992, 21327, 35758]]),
     (''maxConnections'', Words [Say [26368, 22823, 36830, 25509, 25968]]), (''minStreams'', Words [Say [26368, 23567, 27969, 25968, 37327]]),
     (''maxStreams'', Words [Say [26368, 22823, 27969, 25968, 37327]]),
     (''multiplexPadding'', Words [Say [22810, 36335, 22797, 29992, 22635, 20805]]),
     (''brutalEnabled'', Words [Say [21551, 29992], say '' Brutal'']),
     (''detourHelp'', Words [Say [21069, 32622, 20986, 31449, 26631, 31614, 12290, 36830, 25509, 20250, 20808, 32463, 36807, 35813, 20986, 31449, 20877, 21040, 36798, 26368, 32456, 30446, 26631, 12290]]),
     (''connectTimeoutHelp'', Words [Say [25320, 21495, 36830, 25509, 36229, 26102, 65292, 20363, 22914], say '' 5s'', Say [12290]]),
     (''domainResolverServerHelp'', Words [Say [29992, 20110, 35299, 26512, 20986, 31449, 26381, 21153, 22120, 22495, 21517, 30340], say '' DNS server '', Say [26631, 31614, 12290]]),
     (''domainResolverStrategyHelp'', Words [Say [22495, 21517, 35299, 26512, 31574, 30053, 12290]]),
     (''domainResolverDisableCacheHelp'', Words [Say [31105, 29992, 35813, 35299, 26512, 22120, 30340, 32531, 23384, 12290]]),
     (''domainResolverRewriteTTLHelp'', Words [Say [37325, 20889, 35299, 26512, 32467, 26524], say '' TTL'', Say [65288, 31186, 65289, 12290]]),
     (''domainResolverClientSubnetHelp'', Words [say ''EDNS Client Subnet'', Say [12290]]),
     (''networkStrategyHelp'', Words [Say [21452, 26632, 32593, 32476, 31574, 30053, 12290]]),
     (''networkTypeHelp'', Words [Say [20248, 20808, 32593, 32476, 31867, 22411, 21015, 34920, 12290]]),
     (''fallbackNetworkTypeHelp'', Words [Say [22238, 36864, 32593, 32476, 31867, 22411, 21015, 34920, 12290]]),
     (''fallbackDelayHelp'', Words [Say [22238, 36864, 24310, 36831, 12290]]),
     (''tlsEnabledHelp'', Words [Say [21551, 29992], say '' TLS'', Say [12290]]),
     (''disableSNIHelp'', Words [Say [21457, 36865], say '' ClientHello '', Say [26102, 19981, 21253, 21547], say '' SNI'', Say [12290]]),
     (''serverNameHelp'', Words [say ''TLS SNI / '', Say [35777, 20070, 22495, 21517, 12290]]),
     (''insecureHelp'', Words [Say [36339, 36807, 35777, 20070, 26657, 39564, 65292, 20165, 24314, 35758, 27979, 35797, 29615, 22659, 12290]]),
     (''alpnHelp'', Words [say ''ALPN '', Say [21015, 34920, 12290]]),
     (''minimumTLSVersionHelp'', Words [Say [20801, 35768, 30340, 26368, 20302], say '' TLS '', Say [29256, 26412, 12290]]),
     (''maximumTLSVersionHelp'', Words [Say [20801, 35768, 30340, 26368, 39640], say '' TLS '', Say [29256, 26412, 12290]]),
     (''utlsEnabledHelp'', Words [Say [21551, 29992], say '' uTLS '', Say [25351, 32441, 20266, 35013, 12290]]),
     (''utlsFingerprintHelp'', Words [say ''uTLS '', Say [25351, 32441, 65292, 20363, 22914], say '' chrome'', Say [12290]]),
     (''realityEnabledHelp'', Words [Say [21551, 29992], say '' Reality'', Say [12290]]),
     (''realityPublicKeyHelp'', Words [say ''Reality '', Say [20844, 38053, 12290]]),
     (''realityShortIDHelp'', Words [say ''Reality Short ID'', Say [12290]]),
     (''echEnabledHelp'', Words [Say [21551, 29992], say '' ECH'', Say [12290]]),
     (''multiplexEnabledHelp'', Words [Say [21551, 29992, 22810, 36335, 22797, 29992, 12290]]),
     (''brutalEnabledHelp'', Words [Say [21551, 29992], say '' Brutal'', Say [12290]]),
     (''udpOverTCPEnabledHelp'', Words [Say [21551, 29992], say '' UDP over TCP'', Say [12290]]),
     (''methodHelp'', Words [Say [21152, 23494, 26041, 27861, 12290]]),
     (''networkHelp'', Words [Say [20801, 35768, 30340, 32593, 32476, 21327, 35758, 12290]])]"

definition zh_proxy :: text_group where
  "zh_proxy =
    [(''addInbound'', Words [Say [26032, 22686, 20837, 31449]]), (''addOutbound'', Words [Say [26032, 22686, 20986, 31449]]),
     (''installDefaults'', Words [Say [23433, 35013, 40664, 35748, 20986, 31449]]), (''listSuffix'', Words [Say [21015, 34920]]),
     (''saved'', Words [Say [37197, 32622, 24050, 20445, 23384]]), (''rolledBack'', Words [Say [37197, 32622, 24050, 22238, 28378]]),
     (''description'', Words [Say [20445, 23384, 21518, 21518, 31471, 20250, 26657, 39564, 24182, 33258, 21160, 37325, 21551, 20869, 26680, 12290]]),
     (''empty'', Words [Say [26242, 26080, 37197, 32622]]),
     (''emptyDescription'', Words [Say [28155, 21152, 31532, 19968, 39033, 37197, 32622, 12290]]), (''tag'', Words [say ''Tag'']),
     (''server'', Words [Say [22320, 22336]]), (''advancedJSON'', Words [Say [39640, 32423], say '' JSON'']),
     (''editorDescription'', Words [Say [24120, 29992, 23383, 27573, 32467, 26500, 21270, 32534, 36753, 65292, 20854, 20182, 23383, 27573, 21487, 22312], say '' JSON '', Say [20013, 32500, 25252, 12290]]),
     (''editPrefix'', Words [Say [32534, 36753]]), (''deleteTitle'', Words [Say [21024, 38500, 20195, 29702, 37197, 32622, 65311]]),
     (''deleteDescription'', Words [Say [23558, 21024, 38500], say '' '', Hole ''tag'', Say [65292, 20445, 23384, 21518, 21518, 31471, 20250, 37325, 26032, 21152, 36733, 37197, 32622, 12290]]),
     (''confirmDelete'', Words [Say [30830, 35748, 21024, 38500]]), (''inbound'', Group zh_proxy_inbound), (''outbound'', Group zh_proxy_outbound)]"

definition zh_policy_route_section :: text_group where
  "zh_policy_route_section =
    [(''basic'', Words [Say [22522, 30784]]), (''interface'', Words [Say [25509, 21475, 19982, 36335, 30001]]),
     (''dns'', Words [Say [40664, 35748, 22495, 21517, 35299, 26512]]), (''strategy'', Words [Say [32593, 32476, 31574, 30053]]),
     (''domain'', Words [Say [22495, 21517, 19982, 22320, 22336]]), (''process'', Words [Say [31471, 21475, 19982, 36827, 31243]]),
     (''environment'', Words [Say [35268, 21017, 38598, 19982, 32593, 32476, 29615, 22659]]), (''action'', Words [Say [25191, 34892, 21160, 20316]])]"

definition zh_policy_route :: text_group where
  "zh_policy_route =
    [(''globalTitle'', Words [Say [20840, 23616, 36335, 30001, 35774, 32622]]),
     (''globalDescription'', Words [Say [37197, 32622, 40664, 35748, 20986, 31449, 12289, 22495, 21517, 35299, 26512, 19982, 32593, 32476, 22238, 36864, 34892, 20026, 12290]]),
     (''globalFooter'', Words [Say [26410, 23637, 31034, 30340, 23383, 27573, 20250, 20445, 30041, 22312, 39640, 32423], say '' JSON '', Say [20013, 12290]]),
     (''outboundDescription'', Words [Say [21482, 33021, 36873, 25321, 24403, 21069, 20986, 31449, 37197, 32622, 20013, 30340], say '' Tag'', Say [12290]]),
     (''outboundLoading'', Words [Say [27491, 22312, 21152, 36733, 20986, 31449, 37197, 32622, 8230]]),
     (''rulesTitle'', Words [Say [36335, 30001, 35268, 21017]]),
     (''rulesDescription'', Words [Say [35268, 21017, 25353, 21015, 34920, 39034, 24207, 20381, 27425, 21305, 37197, 12290]]),
     (''addRule'', Words [Say [26032, 22686, 35268, 21017]]), (''emptyRulesTitle'', Words [Say [26242, 26080, 36335, 30001, 35268, 21017]]),
     (''emptyRulesDescription'', Words [Say [26032, 22686, 31532, 19968, 26465, 21305, 37197, 35268, 21017, 12290]]),
     (''rulesCount'', Words [Say [20849], say '' '', Hole ''count'', say '' '', Say [26465, 35268, 21017]]),
     (''ruleName'', Words [Say [35268, 21017, 21517, 31216]]),
     (''ruleNamePlaceholder'', Words [Say [21487, 36873, 65292, 30041, 31354, 26102, 26174, 31034, 35268, 21017, 24207, 21495]]),
     (''ruleNameDescription'', Words [Say [21517, 31216, 20165, 30001], say '' boxd '', Say [20445, 23384, 65292, 19981, 20250, 20889, 20837], say '' sing-box '', Say [37197, 32622, 12290]]),
     (''ruleDescription'', Words [Say [35268, 21017, 25551, 36848]]),
     (''ruleDescriptionPlaceholder'', Words [Say [21487, 36873, 65292, 35828, 26126, 36825, 26465, 35268, 21017, 30340, 29992, 36884]]),
     (''ruleSetsTitle'', Words [Say [36335, 30001, 35268, 21017, 38598]]),
     (''ruleSetsDescription'', Words [Say [31649, 29702, 20869, 32852, 12289, 26412, 22320, 12289, 36828, 31243, 21450, 20854, 20182, 31867, 22411, 30340, 35268, 21017, 38598, 12290]]),
     (''addRuleSet'', Words [Say [26032, 22686, 35268, 21017, 38598]]),
     (''emptyRuleSetsTitle'', Words [Say [26242, 26080, 36335, 30001, 35268, 21017, 38598]]),
     (''emptyRuleSetsDescription'', Words [Say [26032, 22686, 31532, 19968, 39033, 35268, 21017, 38598, 12290]]),
     (''ruleSetsCount'', Words [Say [20849], say '' '', Hole ''count'', say '' '', Say [20010, 35268, 21017, 38598]]),
     (''update'', Words [Say [26356, 26032]]), (''updateAllRuleSets'', Words [Say [26356, 26032, 20840, 37096, 35268, 21017, 38598]]),
     (''updateRuleSet'', Words [Say [26356, 26032, 35268, 21017, 38598], say '' '', Hole ''tag'']), (''builtin'', Words [Say [20869, 32622]]),
     (''intervalBadge'', Words [Say [38388, 38548], say '' '', Hole ''interval'']),
     (''lastUpdated'', Words [Say [19978, 27425, 26356, 26032, 65306], Hole ''time'']),
     (''ruleSetUpdateSuccess'', Words [Say [24050, 26356, 26032], say '' '', Hole ''updated'', say '' '', Say [20010, 35268, 21017, 38598]]),
     (''ruleSetUpdatePartial'', Words [Say [24050, 26356, 26032], say '' '', Hole ''updated'', say '' '', Say [20010, 65292, 22833, 36133], say '' '', Hole ''failed'', say '' '', Say [20010]]),
     (''ruleSetUpdateFailed'', Words [Hole ''failed'', say '' '', Say [20010, 35268, 21017, 38598, 26356, 26032, 22833, 36133]]),
     (''ruleSetAutoUpdateTitle'', Words [Say [35268, 21017, 38598, 33258, 21160, 26356, 26032]]),
     (''ruleSetAutoUpdateDescription'', Words [Say [20165, 33258, 21160, 26356, 26032, 20869, 32622], say '' local'', Say [65288], say ''Loyalsoldier'', Say [65289, 35268, 21017, 38598, 65292, 40664, 35748, 20851, 38381, 12290], say ''remote '', Say [20173, 30001, 20869, 26680, 25353], say '' update_interval '', Say [26356, 26032, 12290]]),
     (''ruleSetAutoUpdateEnabled'', Words [Say [21551, 29992], say '' local '', Say [35268, 21017, 38598, 23450, 26102, 26356, 26032]]),
     (''ruleSetAutoUpdateInterval'', Words [Say [33258, 21160, 26356, 26032, 38388, 38548]]),
     (''ruleSetAutoUpdateSaved'', Words [Say [35268, 21017, 38598, 33258, 21160, 26356, 26032, 24050, 20445, 23384]]),
     (''unnamed'', Words [Say [26410, 21629, 21517]]),
     (''ruleSetLocationMissing'', Words [Say [26410, 35774, 32622, 36335, 24452, 25110], say '' URL'']),
     (''ruleCardTitle'', Words [Say [35268, 21017], say '' #'', Hole ''index'']),
     (''editRule'', Words [Say [32534, 36753, 35268, 21017], say '' '', Hole ''index'']),
     (''copyRule'', Words [Say [22797, 21046, 35268, 21017], say '' '', Hole ''index'']),
     (''moveRuleUp'', Words [Say [19978, 31227, 35268, 21017], say '' '', Hole ''index'']),
     (''moveRuleDown'', Words [Say [19979, 31227, 35268, 21017], say '' '', Hole ''index'']),
     (''deleteRule'', Words [Say [21024, 38500, 35268, 21017], say '' '', Hole ''index'']),
     (''moreRuleActions'', Words [Say [26356, 22810, 35268, 21017], say '' '', Hole ''index'']),
     (''editRuleSet'', Words [Say [32534, 36753, 35268, 21017, 38598], say '' '', Hole ''tag'']),
     (''copyRuleSet'', Words [Say [22797, 21046, 35268, 21017, 38598], say '' '', Hole ''tag'']),
     (''deleteRuleSet'', Words [Say [21024, 38500, 35268, 21017, 38598], say '' '', Hole ''tag'']),
     (''moreRuleSetActions'', Words [Say [26356, 22810, 35268, 21017, 38598], say '' '', Hole ''tag'']), (''copy'', Words [Say [22797, 21046]]),
     (''moveUp'', Words [Say [19978, 31227]]), (''moveDown'', Words [Say [19979, 31227]]), (''delete'', Words [Say [21024, 38500]]),
     (''edit'', Words [Say [32534, 36753]]),
     (''deleteRuleTitle'', Words [Say [21024, 38500, 35268, 21017], say '' #'', Hole ''index'', Say [65311]]),
     (''deleteRuleSetTitle'', Words [Say [21024, 38500, 35268, 21017, 38598], say '' '', Hole ''tag'', Say [65311]]),
     (''deleteDescription'', Words [Say [27492, 25805, 20316, 26080, 27861, 25764, 38144, 12290]]), (''cancel'', Words [Say [21462, 28040]]),
     (''confirmDelete'', Words [Say [30830, 35748, 21024, 38500]]), (''save'', Words [Say [20445, 23384]]),
     (''addRuleTitle'', Words [Say [26032, 22686, 35268, 21017]]),
     (''editRuleTitle'', Words [Say [32534, 36753, 35268, 21017], say '' '', Hole ''index'']),
     (''addRuleSetTitle'', Words [Say [26032, 22686, 35268, 21017, 38598]]), (''editRuleSetTitle'', Words [Say [32534, 36753, 35268, 21017, 38598]]),
     (''ruleDialogDescription'', Words [Say [21487, 35270, 21270, 32534, 36753, 24120, 29992, 21305, 37197, 26465, 20214, 19982, 25191, 34892, 21160, 20316, 65292, 26410, 30693, 23383, 27573, 20445, 30041, 22312, 39640, 32423], say '' JSON '', Say [20013, 12290]]),
     (''ruleSetDialogDescription'', Words [Say [25353, 26469, 28304, 31867, 22411, 32534, 36753, 35268, 21017, 38598, 65292, 23436, 25972, 23545, 35937, 21487, 22312, 39640, 32423], say '' JSON '', Say [20013, 32500, 25252, 12290]]),
     (''ruleType'', Words [Say [35268, 21017, 31867, 22411]]), (''ruleSetType'', Words [Say [35268, 21017, 38598, 31867, 22411]]),
     (''actionType'', Words [Say [25191, 34892, 21160, 20316]]), (''basicTab'', Words [Say [22522, 30784, 19982, 32593, 32476]]),
     (''domainTab'', Words [Say [22495, 21517, 19982, 22320, 22336]]), (''processTab'', Words [Say [31471, 21475, 19982, 36827, 31243]]),
     (''environmentTab'', Words [Say [35268, 21017, 38598, 19982, 32593, 32476, 29615, 22659]]),
     (''actionTab'', Words [Say [25191, 34892, 21160, 20316]]), (''ruleSetBasicTab'', Words [Say [22522, 30784]]),
     (''advancedJSON'', Words [Say [39640, 32423], say '' JSON'']), (''advancedJSONLabel'', Words [Hole ''title'', say '' JSON'']),
     (''requiredTitle'', Words [Say [32570, 23569, 24517, 22635, 23383, 27573]]),
     (''ruleRequiredDescription'', Words [Say [35831, 34917, 20840, 24403, 21069, 35268, 21017, 31867, 22411, 21644, 21160, 20316, 25152, 38656, 30340, 20540, 12290]]),
     (''ruleSetRequiredDescription'', Words [Say [35831, 34917, 20840, 24403, 21069, 35268, 21017, 38598, 31867, 22411, 25152, 38656, 30340], say '' Tag'', Say [12289, 36335, 24452, 25110], say '' URL'', Say [12290]]),
     (''logicalTitle'', Words [Say [36923, 36753, 35268, 21017]]),
     (''logicalDescription'', Words [Say [36923, 36753, 23376, 35268, 21017, 21487, 22312, 24403, 21069, 34920, 21333, 20013, 32534, 36753, 65292, 20854, 20182, 22797, 26434, 23383, 27573, 21487, 22312, 39640, 32423], say '' JSON '', Say [20013, 32500, 25252, 12290]]),
     (''inlineTitle'', Words [say ''Inline '', Say [35268, 21017, 38598]]),
     (''inlineDescription'', Words [Say [22797, 26434], say '' inline '', Say [35268, 21017, 20869, 23481, 35831, 22312, 39640, 32423], say '' JSON '', Say [20013, 32500, 25252, 12290]]),
     (''notSet'', Words [Say [26410, 35774, 32622]]),
     (''refMultiEmpty'', Words [Say [26242, 26080, 21487, 36873, 39033, 65292, 21487, 20808, 22312, 37197, 32622, 20013, 28155, 21152, 12290]]),
     (''jsonArrayHint'', Words [Say [35831, 36755, 20837], say '' JSON '', Say [25968, 32452, 12290]]),
     (''jsonObjectHint'', Words [Say [35831, 36755, 20837], say '' JSON '', Say [23545, 35937, 12290]]),
     (''invalidStructuredJSON'', Words [Say [35831, 36755, 20837, 26377, 25928, 30340], say '' JSON '', Say [32467, 26500, 12290]]),
     (''final'', Words [Say [26368, 32456, 20986, 31449]]), (''findProcess'', Words [Say [26597, 25214, 36827, 31243]]),
     (''findProcessHelp'', Words [Say [24320, 21551, 21518, 65292, 20869, 26680, 20250, 35299, 26512, 36830, 25509, 26469, 28304, 36827, 31243, 20449, 24687, 65292, 36335, 30001], say ''/DNS '', Say [35268, 21017, 25165, 33021, 25353, 36827, 31243, 21517, 12289, 36827, 31243, 36335, 24452, 12289, 21253, 21517, 31561, 21305, 37197, 12290, 20250, 22686, 21152, 23569, 37327, 24320, 38144, 65307, 26410, 20351, 29992, 36827, 31243, 21305, 37197, 26102, 21487, 20851, 38381, 12290]]),
     (''section'', Group zh_policy_route_section), (''processMatchTitle'', Words [Say [22914, 20309, 25351, 23450, 36827, 31243]]),
     (''processMatchDescription'', Words [Say [22312, 19979, 26041, 22635, 20889, 36827, 31243, 21517, 65288, 22914], say '' curl'', Say [65289, 12289, 23436, 25972, 36827, 31243, 36335, 24452, 65292, 25110, 36335, 24452, 27491, 21017, 12290, 20840, 23616, 36335, 30001, 38656, 20808, 24320, 21551, 12300, 26597, 25214, 36827, 31243, 12301, 65292, 36825, 20123, 26465, 20214, 25165, 20250, 29983, 25928, 12290, 21487, 22635, 22810, 34892, 12290]]),
     (''processNameHelp'', Words [Say [36827, 31243, 21487, 25191, 34892, 25991, 20214, 21517, 65292, 20363, 22914], say '' curl'', Say [12289], say ''chrome'', Say [12290, 25903, 25345, 22810, 34892, 12290]]),
     (''processPathHelp'', Words [Say [36827, 31243, 23436, 25972, 36335, 24452, 65292, 20363, 22914], say '' /usr/bin/curl'', Say [12290, 25903, 25345, 22810, 34892, 12290]]),
     (''processPathRegexHelp'', Words [Say [36827, 31243, 36335, 24452, 27491, 21017, 34920, 36798, 24335, 12290, 25903, 25345, 22810, 34892, 12290]]),
     (''autoDetectInterface'', Words [Say [33258, 21160, 26816, 27979, 25509, 21475]]),
     (''overrideAndroidVPN'', Words [Say [35206, 30422], say '' Android VPN'']), (''defaultInterface'', Words [Say [40664, 35748, 25509, 21475]]),
     (''defaultMark'', Words [Say [40664, 35748, 26631, 35760]]),
     (''defaultDomainResolverServer'', Words [Say [40664, 35748, 22495, 21517, 35299, 26512, 26381, 21153, 22120]]),
     (''defaultDomainResolverStrategy'', Words [Say [40664, 35748, 22495, 21517, 35299, 26512, 31574, 30053]]),
     (''defaultDomainResolverDisableCache'', Words [Say [31105, 29992, 40664, 35748, 35299, 26512, 32531, 23384]]),
     (''defaultDomainResolverRewriteTTL'', Words [Say [40664, 35748, 35299, 26512, 37325, 20889], say '' TTL'']),
     (''defaultDomainResolverClientSubnet'', Words [Say [40664, 35748, 35299, 26512, 23458, 25143, 31471, 23376, 32593]]),
     (''defaultNetworkStrategy'', Words [Say [40664, 35748, 32593, 32476, 31574, 30053]]),
     (''defaultNetworkType'', Words [Say [40664, 35748, 32593, 32476, 31867, 22411]]),
     (''defaultFallbackNetworkType'', Words [Say [40664, 35748, 22238, 36864, 32593, 32476, 31867, 22411]]),
     (''defaultFallbackDelay'', Words [Say [40664, 35748, 22238, 36864, 24310, 36831]]), (''inbound'', Words [Say [20837, 31449]]),
     (''ipVersion'', Words [say ''IP '', Say [29256, 26412]]), (''network'', Words [Say [32593, 32476]]),
     (''authUser'', Words [Say [35748, 35777, 29992, 25143]]), (''protocol'', Words [Say [21327, 35758]]),
     (''client'', Words [Say [23458, 25143, 31471]]), (''invert'', Words [Say [21453, 21521, 21305, 37197]]),
     (''domain'', Words [Say [22495, 21517]]), (''domainSuffix'', Words [Say [22495, 21517, 21518, 32512]]),
     (''domainKeyword'', Words [Say [22495, 21517, 20851, 38190, 23383]]), (''domainRegex'', Words [Say [22495, 21517, 27491, 21017]]),
     (''sourceIPCIDR'', Words [Say [28304], say '' IP CIDR'']),
     (''sourceIPIsPrivate'', Words [Say [28304], say '' IP '', Say [20026, 31169, 26377, 22320, 22336]]),
     (''ipCIDR'', Words [Say [30446, 26631], say '' IP CIDR'']),
     (''ipIsPrivate'', Words [Say [30446, 26631], say '' IP '', Say [20026, 31169, 26377, 22320, 22336]]),
     (''sourcePort'', Words [Say [28304, 31471, 21475]]), (''sourcePortRange'', Words [Say [28304, 31471, 21475, 33539, 22260]]),
     (''port'', Words [Say [30446, 26631, 31471, 21475]]), (''portRange'', Words [Say [30446, 26631, 31471, 21475, 33539, 22260]]),
     (''processName'', Words [Say [36827, 31243, 21517]]), (''processPath'', Words [Say [36827, 31243, 36335, 24452]]),
     (''processPathRegex'', Words [Say [36827, 31243, 36335, 24452, 27491, 21017]]), (''packageName'', Words [Say [24212, 29992, 21253, 21517]]),
     (''user'', Words [Say [29992, 25143]]), (''userID'', Words [Say [29992, 25143], say '' ID'']), (''ruleSet'', Words [Say [35268, 21017, 38598]]),
     (''ruleSetIPCIDRMatchSource'', Words [Say [35268, 21017, 38598], say '' IP '', Say [21305, 37197, 28304, 22320, 22336]]),
     (''clashMode'', Words [say ''Clash '', Say [27169, 24335]]), (''networkType'', Words [Say [32593, 32476, 31867, 22411]]),
     (''networkIsExpensive'', Words [Say [35745, 36153, 32593, 32476]]), (''networkIsConstrained'', Words [Say [21463, 38480, 32593, 32476]]),
     (''wifiSSID'', Words [say ''Wi-Fi SSID'']), (''wifiBSSID'', Words [say ''Wi-Fi BSSID'']),
     (''logicalMode'', Words [Say [36923, 36753, 27169, 24335]]), (''logicalRules'', Words [Say [23376, 35268, 21017], say '' JSON'']),
     (''outbound'', Words [Say [30446, 26631, 20986, 31449]]), (''overrideAddress'', Words [Say [35206, 30422, 30446, 26631, 22320, 22336]]),
     (''overridePort'', Words [Say [35206, 30422, 30446, 26631, 31471, 21475]]), (''networkStrategy'', Words [Say [32593, 32476, 31574, 30053]]),
     (''fallbackDelay'', Words [Say [22238, 36864, 24310, 36831]]),
     (''udpDisableDomainUnmapping'', Words [Say [31105, 29992], say '' UDP '', Say [22495, 21517, 21453, 26144, 23556]]),
     (''udpConnect'', Words [say ''UDP Connect'']), (''udpTimeout'', Words [say ''UDP '', Say [36229, 26102]]),
     (''tlsFragment'', Words [say ''TLS '', Say [20998, 29255]]),
     (''tlsFragmentFallbackDelay'', Words [say ''TLS '', Say [20998, 29255, 22238, 36864, 24310, 36831]]),
     (''tlsRecordFragment'', Words [say ''TLS '', Say [35760, 24405, 20998, 29255]]), (''bindInterface'', Words [Say [32465, 23450, 25509, 21475]]),
     (''inet4BindAddress'', Words [say ''IPv4 '', Say [32465, 23450, 22320, 22336]]),
     (''inet6BindAddress'', Words [say ''IPv6 '', Say [32465, 23450, 22320, 22336]]),
     (''bindAddressNoPort'', Words [Say [32465, 23450, 22320, 22336, 26102, 24573, 30053, 31471, 21475]]),
     (''protectPath'', Words [Say [20445, 25252, 36335, 24452]]), (''routingMark'', Words [Say [36335, 30001, 26631, 35760]]),
     (''reuseAddress'', Words [Say [22797, 29992, 22320, 22336]]), (''networkNamespace'', Words [Say [32593, 32476, 21629, 21517, 31354, 38388]]),
     (''connectTimeout'', Words [Say [36830, 25509, 36229, 26102]]), (''tcpFastOpen'', Words [say ''TCP Fast Open'']),
     (''tcpMultiPath'', Words [say ''TCP MultiPath'']), (''disableTCPKeepAlive'', Words [Say [31105, 29992], say '' TCP Keep Alive'']),
     (''tcpKeepAlive'', Words [say ''TCP Keep Alive'']), (''tcpKeepAliveInterval'', Words [say ''TCP Keep Alive '', Say [38388, 38548]]),
     (''udpFragment'', Words [say ''UDP '', Say [20998, 29255]]),
     (''domainResolverServer'', Words [Say [22495, 21517, 35299, 26512, 26381, 21153, 22120]]),
     (''domainResolverStrategy'', Words [Say [22495, 21517, 35299, 26512, 31574, 30053]]),
     (''domainResolverDisableCache'', Words [Say [31105, 29992, 35299, 26512, 32531, 23384]]),
     (''domainResolverRewriteTTL'', Words [Say [35299, 26512, 37325, 20889], say '' TTL'']),
     (''domainResolverClientSubnet'', Words [Say [35299, 26512, 23458, 25143, 31471, 23376, 32593]]),
     (''fallbackNetworkType'', Words [Say [22238, 36864, 32593, 32476, 31867, 22411]]), (''rejectMethod'', Words [Say [25298, 32477, 26041, 24335]]),
     (''rejectNoDrop'', Words [Say [31105, 27490, 20002, 24323]]), (''sniffer'', Words [Say [21957, 25506, 22120]]),
     (''sniffTimeout'', Words [Say [21957, 25506, 36229, 26102]]), (''resolveServer'', Words [Say [35299, 26512, 26381, 21153, 22120]]),
     (''resolveStrategy'', Words [Say [35299, 26512, 31574, 30053]]),
     (''resolveDisableCache'', Words [Say [31105, 29992, 35299, 26512, 32531, 23384]]),
     (''resolveRewriteTTL'', Words [Say [35299, 26512, 37325, 20889], say '' TTL'']),
     (''resolveClientSubnet'', Words [Say [35299, 26512, 23458, 25143, 31471, 23376, 32593]]), (''ruleSetTag'', Words [say ''Tag'']),
     (''format'', Words [Say [26684, 24335]]), (''path'', Words [Say [26412, 22320, 36335, 24452]]),
     (''url'', Words [Say [36828, 31243], say '' URL'']), (''downloadDetour'', Words [Say [19979, 36733, 20986, 31449]]),
     (''updateInterval'', Words [Say [26356, 26032, 38388, 38548]]),
     (''invalidValue'', Words [Say [35831, 36755, 20837, 33539, 22260, 20869, 30340, 38750, 36127, 25972, 25968, 25110, 21512, 27861, 36335, 30001, 26631, 35760, 12290]]),
     (''finalHelp'', Words [Say [26410, 21629, 20013, 20219, 20309, 35268, 21017, 26102, 20351, 29992, 30340, 26368, 32456, 20986, 31449, 12290]]),
     (''autoDetectInterfaceHelp'', Words [Say [33258, 21160, 26816, 27979, 40664, 35748, 20986, 31449, 32593, 21345, 65292, 24120, 29992, 20110, 22810, 32593, 21345, 29615, 22659, 12290]]),
     (''overrideAndroidVPNHelp'', Words [say ''Android '', Say [19978, 35206, 30422], say '' VPN '', Say [40664, 35748, 25509, 21475, 34892, 20026, 12290]]),
     (''defaultInterfaceHelp'', Words [Say [40664, 35748, 20986, 31449, 32465, 23450, 32593, 21345, 12290]]),
     (''defaultMarkHelp'', Words [Say [40664, 35748], say '' Linux '', Say [36335, 30001, 26631, 35760, 65288], say ''SO_MARK'', Say [65289, 12290]]),
     (''defaultDomainResolverServerHelp'', Words [Say [40664, 35748, 29992, 20110, 35299, 26512, 22495, 21517, 30340], say '' DNS '', Say [26381, 21153, 22120, 26631, 31614, 12290]]),
     (''defaultDomainResolverStrategyHelp'', Words [Say [40664, 35748, 22495, 21517, 35299, 26512, 31574, 30053, 12290]]),
     (''defaultDomainResolverDisableCacheHelp'', Words [Say [31105, 29992, 40664, 35748, 22495, 21517, 35299, 26512, 32531, 23384, 12290]]),
     (''defaultDomainResolverRewriteTTLHelp'', Words [Say [37325, 20889, 40664, 35748, 35299, 26512, 32467, 26524], say '' TTL'', Say [12290]]),
     (''defaultDomainResolverClientSubnetHelp'', Words [Say [40664, 35748], say '' EDNS Client Subnet'', Say [12290]]),
     (''defaultNetworkStrategyHelp'', Words [Say [40664, 35748, 21452, 26632, 32593, 32476, 31574, 30053, 12290]]),
     (''defaultNetworkTypeHelp'', Words [Say [20248, 20808, 32593, 32476, 31867, 22411, 21015, 34920, 12290]]),
     (''defaultFallbackNetworkTypeHelp'', Words [Say [22238, 36864, 32593, 32476, 31867, 22411, 21015, 34920, 12290]]),
     (''defaultFallbackDelayHelp'', Words [Say [21452, 26632, 22238, 36864, 24310, 36831, 12290]]),
     (''interfaceManual'', Words [Say [25163, 21160, 36755, 20837]]),
     (''interfaceManualInput'', Words [Say [33258, 23450, 20041, 32593, 21345, 21517, 31216]]),
     (''interfaceManualPlaceholder'', Words [Say [20363, 22914], say '' eth0 '', Say [25110], say '' wlan0'']),
     (''outboundHelp'', Words [Say [21629, 20013, 35268, 21017, 21518, 20351, 29992, 30340, 20986, 31449, 26631, 31614, 12290]]),
     (''tlsFragmentHelp'', Words [Say [21551, 29992], say '' TLS '', Say [20998, 29255, 12290]]),
     (''tlsFragmentFallbackDelayHelp'', Words [say ''TLS '', Say [20998, 29255, 22833, 36133, 21518, 30340, 22238, 36864, 24310, 36831, 12290]]),
     (''domainResolverServerHelp'', Words [Say [35813, 21160, 20316, 20351, 29992, 30340, 22495, 21517, 35299, 26512], say '' DNS '', Say [26381, 21153, 22120, 26631, 31614, 12290]]),
     (''resolveServerHelp'', Words [say ''resolve '', Say [21160, 20316, 20351, 29992, 30340], say '' DNS '', Say [26381, 21153, 22120, 26631, 31614, 12290]]),
     (''downloadDetourHelp'', Words [Say [19979, 36733, 36828, 31243, 35268, 21017, 38598, 26102, 20351, 29992, 30340, 20986, 31449, 12290]])]"

definition zh_policy_dns_section :: text_group where
  "zh_policy_dns_section =
    [(''basic'', Words [Say [22522, 30784]]), (''cache'', Words [Say [32531, 23384]]), (''fakeip'', Words [say ''FakeIP'']),
     (''remote'', Words [Say [36828, 31471]]), (''bind'', Words [Say [32465, 23450, 19982, 36335, 30001]]), (''tcp'', Words [say ''TCP'']),
     (''udp'', Words [say ''UDP'']), (''resolver'', Words [Say [22495, 21517, 35299, 26512]]),
     (''strategy'', Words [Say [32593, 32476, 31574, 30053]]), (''tls'', Words [say ''TLS'']), (''http'', Words [say ''HTTP'']),
     (''hosts'', Words [say ''Hosts'']), (''local'', Words [Say [26412, 22320]]), (''action'', Words [Say [25191, 34892, 21160, 20316]]),
     (''domain'', Words [Say [22495, 21517, 19982, 22320, 22336]]), (''process'', Words [Say [31471, 21475, 19982, 29615, 22659]])]"

definition zh_policy_dns :: text_group where
  "zh_policy_dns =
    [(''globalTitle'', Words [say ''DNS '', Say [20840, 23616, 35774, 32622]]),
     (''globalDescription'', Words [Say [31649, 29702, 32531, 23384, 12289, 35299, 26512, 31574, 30053, 19982, 26368, 32456], say '' DNS '', Say [26381, 21153, 22120, 12290]]),
     (''globalFooter'', Words [Say [26410, 30693, 20840, 23616, 23383, 27573, 20250, 21407, 26679, 20445, 30041, 12290]]),
     (''fakeIPTitle'', Words [Say [26087, 24335], say '' FakeIP'']),
     (''fakeIPDescription'', Words [Say [20860, 23481, 39030, 23618], say '' FakeIP '', Say [37197, 32622, 65292, 19981, 36801, 31227, 21040, 29616, 20195], say '' DNS '', Say [26381, 21153, 22120, 12290]]),
     (''fakeIPFooter'', Words [Say [20165, 32534, 36753, 24050, 30693, 23383, 27573, 65292, 20854, 20182], say '' FakeIP '', Say [38190, 20445, 25345, 19981, 21464, 12290]]),
     (''serversTitle'', Words [say ''DNS '', Say [26381, 21153, 22120]]),
     (''serversDescription'', Words [Say [32479, 19968, 31649, 29702, 26087, 24335, 19982, 29616, 20195], say '' DNS '', Say [26381, 21153, 22120, 12290]]),
     (''addServer'', Words [Say [26032, 22686], say '' DNS '', Say [26381, 21153, 22120]]),
     (''emptyServersTitle'', Words [Say [26242, 26080], say '' DNS '', Say [26381, 21153, 22120]]),
     (''emptyServersDescription'', Words [Say [26032, 22686, 31532, 19968, 21488], say '' DNS '', Say [26381, 21153, 22120, 12290]]),
     (''serversCount'', Words [Say [20849], say '' '', Hole ''count'', say '' '', Say [21488, 26381, 21153, 22120]]),
     (''rulesTitle'', Words [say ''DNS '', Say [35268, 21017]]),
     (''rulesDescription'', Words [Say [35268, 21017, 25353, 21015, 34920, 39034, 24207, 20381, 27425, 21305, 37197, 12290]]),
     (''addRule'', Words [Say [26032, 22686], say '' DNS '', Say [35268, 21017]]),
     (''emptyRulesTitle'', Words [Say [26242, 26080], say '' DNS '', Say [35268, 21017]]),
     (''emptyRulesDescription'', Words [Say [26032, 22686, 31532, 19968, 26465], say '' DNS '', Say [21305, 37197, 35268, 21017, 12290]]),
     (''rulesCount'', Words [Say [20849], say '' '', Hole ''count'', say '' '', Say [26465, 35268, 21017]]),
     (''unnamed'', Words [Say [26410, 21629, 21517]]), (''serverCardType'', Words [Hole ''type'']),
     (''ruleCardTitle'', Words [say ''DNS '', Say [35268, 21017], say '' #'', Hole ''index'']),
     (''editServer'', Words [Say [32534, 36753], say '' DNS '', Say [26381, 21153, 22120], say '' '', Hole ''tag'']),
     (''copyServer'', Words [Say [22797, 21046], say '' DNS '', Say [26381, 21153, 22120], say '' '', Hole ''tag'']),
     (''deleteServer'', Words [Say [21024, 38500], say '' DNS '', Say [26381, 21153, 22120], say '' '', Hole ''tag'']),
     (''moreServerActions'', Words [Say [26356, 22810], say '' DNS '', Say [26381, 21153, 22120], say '' '', Hole ''tag'']),
     (''editRule'', Words [Say [32534, 36753], say '' DNS '', Say [35268, 21017], say '' '', Hole ''index'']),
     (''copyRule'', Words [Say [22797, 21046], say '' DNS '', Say [35268, 21017], say '' '', Hole ''index'']),
     (''moveRuleUp'', Words [Say [19978, 31227], say '' DNS '', Say [35268, 21017], say '' '', Hole ''index'']),
     (''moveRuleDown'', Words [Say [19979, 31227], say '' DNS '', Say [35268, 21017], say '' '', Hole ''index'']),
     (''deleteRule'', Words [Say [21024, 38500], say '' DNS '', Say [35268, 21017], say '' '', Hole ''index'']),
     (''moreRuleActions'', Words [Say [26356, 22810], say '' DNS '', Say [35268, 21017], say '' '', Hole ''index'']),
     (''copy'', Words [Say [22797, 21046]]), (''moveUp'', Words [Say [19978, 31227]]), (''moveDown'', Words [Say [19979, 31227]]),
     (''delete'', Words [Say [21024, 38500]]), (''edit'', Words [Say [32534, 36753]]), (''cancel'', Words [Say [21462, 28040]]),
     (''save'', Words [Say [20445, 23384]]), (''confirmDelete'', Words [Say [30830, 35748, 21024, 38500]]),
     (''deleteDescription'', Words [Say [27492, 25805, 20316, 26080, 27861, 25764, 38144, 12290]]),
     (''deleteServerTitle'', Words [Say [21024, 38500], say '' DNS '', Say [26381, 21153, 22120], say '' '', Hole ''tag'', Say [65311]]),
     (''deleteRuleTitle'', Words [Say [21024, 38500], say '' DNS '', Say [35268, 21017], say '' #'', Hole ''index'', Say [65311]]),
     (''addServerTitle'', Words [Say [26032, 22686], say '' DNS '', Say [26381, 21153, 22120]]),
     (''editServerTitle'', Words [Say [32534, 36753], say '' DNS '', Say [26381, 21153, 22120]]),
     (''addRuleTitle'', Words [Say [26032, 22686], say '' DNS '', Say [35268, 21017]]),
     (''editRuleTitle'', Words [Say [32534, 36753], say '' DNS '', Say [35268, 21017], say '' '', Hole ''index'']),
     (''serverDialogDescription'', Words [Say [21487, 35270, 21270, 32534, 36753, 24120, 29992, 26381, 21153, 22120, 23383, 27573, 65292, 26410, 30693, 23383, 27573, 20445, 30041, 22312, 39640, 32423], say '' JSON '', Say [20013, 12290]]),
     (''ruleDialogDescription'', Words [Say [21487, 35270, 21270, 32534, 36753, 24120, 29992, 21305, 37197, 26465, 20214, 19982], say '' DNS '', Say [21160, 20316, 65292, 22797, 26434, 23376, 35268, 21017, 20445, 30041, 22312, 39640, 32423], say '' JSON '', Say [20013, 12290]]),
     (''serverType'', Words [Say [26381, 21153, 22120, 31867, 22411]]), (''ruleType'', Words [Say [35268, 21017, 31867, 22411]]),
     (''actionType'', Words [Say [25191, 34892, 21160, 20316]]),
     (''targetServer'', Words [Say [30446, 26631], say '' DNS '', Say [26381, 21153, 22120]]), (''basicTab'', Words [Say [22522, 30784]]),
     (''ruleBasicTab'', Words [Say [22522, 30784, 19982, 32593, 32476]]), (''dialerTab'', Words [Say [25320, 21495, 19982, 35299, 26512]]),
     (''tlsTab'', Words [say ''TLS '', Say [19982], say '' HTTP'']), (''specialTab'', Words [Say [31867, 22411, 19987, 23646]]),
     (''domainTab'', Words [Say [22495, 21517, 19982, 22320, 22336]]), (''processTab'', Words [Say [31471, 21475, 19982, 29615, 22659]]),
     (''actionTab'', Words [Say [25191, 34892, 21160, 20316]]), (''advancedJSON'', Words [Say [39640, 32423], say '' JSON'']),
     (''advancedJSONLabel'', Words [Hole ''title'', say '' JSON'']), (''requiredTitle'', Words [Say [32570, 23569, 24517, 22635, 23383, 27573]]),
     (''serverRequiredDescription'', Words [Say [35831, 22635, 20889, 24403, 21069, 26381, 21153, 22120, 31867, 22411, 25152, 38656, 30340], say '' Tag '', Say [21644, 22320, 22336, 20449, 24687, 12290]]),
     (''ruleRequiredDescription'', Words [Say [35831, 34917, 20840, 36923, 36753, 35268, 21017, 25110, 24403, 21069, 21160, 20316, 30340, 24517, 22635, 20540, 12290]]),
     (''logicalTitle'', Words [Say [36923, 36753, 35268, 21017]]),
     (''logicalDescription'', Words [Say [36923, 36753, 23376, 35268, 21017, 35831, 22312, 39640, 32423], say '' JSON '', Say [20013, 32500, 25252, 12290]]),
     (''summaryTag'', Words [Say [26631, 31614], say '' '', Hole ''value'']),
     (''summaryDetour'', Words [Say [21069, 32622, 20986, 31449], say '' '', Hole ''value'']),
     (''summaryStrategy'', Words [Say [31574, 30053], say '' '', Hole ''value'']),
     (''summaryPath'', Words [Say [36335, 24452], say '' '', Hole ''value'']),
     (''summaryPredefined'', Words [Say [39044, 23450, 20041], say '' '', Hole ''count'', say '' '', Say [39033]]),
     (''summaryIPv4'', Words [say ''IPv4 '', Hole ''value'']), (''summaryIPv6'', Words [say ''IPv6 '', Hole ''value'']),
     (''summaryLogicalMode'', Words [Say [36923, 36753, 27169, 24335, 65306], Hole ''value'']), (''notSet'', Words [Say [26410, 35774, 32622]]),
     (''refMultiEmpty'', Words [Say [26242, 26080, 21487, 36873, 39033, 65292, 21487, 20808, 22312, 37197, 32622, 20013, 28155, 21152, 12290]]),
     (''finalHelp'', Words [Say [26410, 21629, 20013, 20219, 20309], say '' DNS '', Say [35268, 21017, 26102, 20351, 29992, 30340, 26368, 32456], say '' DNS '', Say [26381, 21153, 22120], say '' Tag'', Say [12290]]),
     (''strategyHelp'', Words [Say [20840, 23616], say '' DNS '', Say [35299, 26512, 31574, 30053, 12290]]),
     (''disableCacheHelp'', Words [Say [31105, 29992], say '' DNS '', Say [32531, 23384, 12290]]),
     (''disableExpireHelp'', Words [Say [31105, 29992], say '' DNS '', Say [32531, 23384, 36807, 26399, 12290]]),
     (''independentCacheHelp'', Words [Say [27599, 20010, 26381, 21153, 22120, 20351, 29992, 29420, 31435, 32531, 23384, 12290]]),
     (''cacheCapacityHelp'', Words [say ''DNS '', Say [32531, 23384, 23481, 37327, 19978, 38480, 12290]]),
     (''clientSubnetHelp'', Words [Say [40664, 35748], say '' EDNS Client Subnet'', Say [12290]]),
     (''reverseMappingHelp'', Words [Say [21551, 29992, 21453, 21521, 26144, 23556, 65292, 20415, 20110, 25353], say '' IP '', Say [36824, 21407, 22495, 21517, 12290]]),
     (''fakeIPEnabledHelp'', Words [Say [21551, 29992, 39030, 23618], say '' FakeIP '', Say [20860, 23481, 37197, 32622, 12290]]),
     (''detourHelp'', Words [Say [25320, 21495, 26102, 20351, 29992, 30340, 21069, 32622, 20986, 31449], say '' Tag'', Say [12290]]),
     (''bindInterfaceHelp'', Words [Say [32465, 23450, 21040, 25351, 23450, 32593, 21345, 12290]]),
     (''domainResolverServerHelp'', Words [Say [35813, 26381, 21153, 22120, 25320, 21495, 26102, 29992, 20110, 35299, 26512, 22495, 21517, 30340], say '' DNS '', Say [26381, 21153, 22120], say '' Tag'', Say [12290]]),
     (''tlsEnabledHelp'', Words [Say [21551, 29992], say '' TLS'', Say [12290, 20851, 38381, 21518, 38544, 34255, 35777, 20070, 31561], say '' TLS '', Say [21442, 25968, 12290]]),
     (''serverHelp'', Words [say ''DNS '', Say [26381, 21153, 22120, 22320, 22336, 25110, 20027, 26426, 21517, 12290]]),
     (''interfaceHelp'', Words [say ''DHCP '', Say [26597, 35810, 20351, 29992, 30340, 32593, 21345, 12290]]),
     (''section'', Group zh_policy_dns_section), (''interfaceManual'', Words [Say [25163, 21160, 36755, 20837]]),
     (''interfaceManualInput'', Words [Say [33258, 23450, 20041, 32593, 21345, 21517, 31216]]),
     (''interfaceManualPlaceholder'', Words [Say [20363, 22914], say '' eth0 '', Say [25110], say '' wlan0'']),
     (''jsonArrayHint'', Words [Say [35831, 36755, 20837], say '' JSON '', Say [25968, 32452, 12290]]),
     (''jsonObjectHint'', Words [Say [35831, 36755, 20837], say '' JSON '', Say [23545, 35937, 12290]]),
     (''invalidStructuredJSON'', Words [Say [35831, 36755, 20837, 26377, 25928, 30340], say '' JSON '', Say [32467, 26500, 12290]]),
     (''invalidValue'', Words [Say [35831, 36755, 20837, 26377, 25928, 30340], say '' DNS '', Say [25968, 20540, 25110, 21517, 31216, 12290]]),
     (''final'', Words [Say [26368, 32456], say '' DNS '', Say [26381, 21153, 22120]]), (''strategy'', Words [Say [22495, 21517, 31574, 30053]]),
     (''disableCache'', Words [Say [31105, 29992, 32531, 23384]]), (''disableExpire'', Words [Say [31105, 29992, 32531, 23384, 36807, 26399]]),
     (''independentCache'', Words [Say [29420, 31435, 32531, 23384]]), (''cacheCapacity'', Words [Say [32531, 23384, 23481, 37327]]),
     (''clientSubnet'', Words [Say [23458, 25143, 31471, 23376, 32593]]), (''reverseMapping'', Words [Say [21453, 21521, 26144, 23556]]),
     (''fakeIPEnabled'', Words [Say [21551, 29992, 26087, 24335], say '' FakeIP'']),
     (''fakeIPIPv4Range'', Words [say ''FakeIP IPv4 '', Say [33539, 22260]]),
     (''fakeIPIPv6Range'', Words [say ''FakeIP IPv6 '', Say [33539, 22260]]), (''tag'', Words [say ''Tag'']),
     (''address'', Words [Say [26087, 24335, 22320, 22336]]), (''addressResolver'', Words [Say [26087, 24335, 22320, 22336, 35299, 26512, 22120]]),
     (''addressStrategy'', Words [Say [26087, 24335, 22320, 22336, 31574, 30053]]),
     (''addressFallbackDelay'', Words [Say [26087, 24335, 22320, 22336, 22238, 36864, 24310, 36831]]),
     (''server'', Words [Say [26381, 21153, 22120, 22320, 22336]]), (''serverPort'', Words [Say [26381, 21153, 22120, 31471, 21475]]),
     (''detour'', Words [Say [21069, 32622, 20986, 31449]]), (''bindInterface'', Words [Say [32465, 23450, 25509, 21475]]),
     (''inet4BindAddress'', Words [say ''IPv4 '', Say [32465, 23450, 22320, 22336]]),
     (''inet6BindAddress'', Words [say ''IPv6 '', Say [32465, 23450, 22320, 22336]]),
     (''bindAddressNoPort'', Words [Say [32465, 23450, 22320, 22336, 26102, 24573, 30053, 31471, 21475]]),
     (''protectPath'', Words [Say [20445, 25252, 36335, 24452]]), (''routingMark'', Words [Say [36335, 30001, 26631, 35760]]),
     (''reuseAddress'', Words [Say [22797, 29992, 22320, 22336]]), (''networkNamespace'', Words [Say [32593, 32476, 21629, 21517, 31354, 38388]]),
     (''connectTimeout'', Words [Say [36830, 25509, 36229, 26102]]), (''tcpFastOpen'', Words [say ''TCP Fast Open'']),
     (''tcpMultiPath'', Words [say ''TCP MultiPath'']), (''disableTCPKeepAlive'', Words [Say [31105, 29992], say '' TCP Keep Alive'']),
     (''tcpKeepAlive'', Words [say ''TCP Keep Alive'']), (''tcpKeepAliveInterval'', Words [say ''TCP Keep Alive '', Say [38388, 38548]]),
     (''udpFragment'', Words [say ''UDP '', Say [20998, 29255]]),
     (''domainResolverServer'', Words [Say [22495, 21517, 35299, 26512, 26381, 21153, 22120]]),
     (''domainResolverStrategy'', Words [Say [22495, 21517, 35299, 26512, 31574, 30053]]),
     (''domainResolverDisableCache'', Words [Say [31105, 29992, 35299, 26512, 32531, 23384]]),
     (''domainResolverRewriteTTL'', Words [Say [35299, 26512, 37325, 20889], say '' TTL'']),
     (''domainResolverClientSubnet'', Words [Say [35299, 26512, 23458, 25143, 31471, 23376, 32593]]),
     (''networkStrategy'', Words [Say [32593, 32476, 31574, 30053]]), (''networkType'', Words [Say [32593, 32476, 31867, 22411]]),
     (''fallbackNetworkType'', Words [Say [22238, 36864, 32593, 32476, 31867, 22411]]),
     (''fallbackDelay'', Words [Say [22238, 36864, 24310, 36831]]),
     (''preferGo'', Words [Say [20248, 20808], say '' Go '', Say [35299, 26512, 22120]]), (''path'', Words [say ''Hosts '', Say [36335, 24452]]),
     (''predefined'', Words [Say [39044, 23450, 20041], say '' Hosts'']), (''interface'', Words [Say [32593, 32476, 25509, 21475]]),
     (''tlsEnabled'', Words [Say [21551, 29992], say '' TLS'']), (''tlsDisableSNI'', Words [Say [31105, 29992], say '' SNI'']),
     (''tlsServerName'', Words [say ''TLS '', Say [26381, 21153, 22120, 21517, 31216]]),
     (''tlsInsecure'', Words [Say [36339, 36807, 35777, 20070, 39564, 35777]]), (''tlsALPN'', Words [say ''TLS ALPN'']),
     (''tlsCertificate'', Words [say ''CA '', Say [35777, 20070, 20869, 23481]]),
     (''tlsCertificatePath'', Words [say ''CA '', Say [35777, 20070, 36335, 24452]]), (''httpPath'', Words [say ''HTTP '', Say [36335, 24452]]),
     (''method'', Words [say ''HTTP Method'']), (''headers'', Words [say ''HTTP Headers'']), (''type'', Words [Say [35268, 21017, 31867, 22411]]),
     (''inbound'', Words [Say [20837, 31449]]), (''ipVersion'', Words [say ''IP '', Say [29256, 26412]]),
     (''queryType'', Words [Say [26597, 35810, 31867, 22411]]), (''network'', Words [Say [32593, 32476]]),
     (''authUser'', Words [Say [35748, 35777, 29992, 25143]]), (''protocol'', Words [Say [21327, 35758]]), (''domain'', Words [Say [22495, 21517]]),
     (''domainSuffix'', Words [Say [22495, 21517, 21518, 32512]]), (''domainKeyword'', Words [Say [22495, 21517, 20851, 38190, 23383]]),
     (''domainRegex'', Words [Say [22495, 21517, 27491, 21017]]), (''sourceIPCIDR'', Words [Say [28304], say '' IP CIDR'']),
     (''sourceIPIsPrivate'', Words [Say [28304], say '' IP '', Say [20026, 31169, 26377, 22320, 22336]]),
     (''ipCIDR'', Words [Say [30446, 26631], say '' IP CIDR'']),
     (''ipIsPrivate'', Words [Say [30446, 26631], say '' IP '', Say [20026, 31169, 26377, 22320, 22336]]),
     (''sourcePort'', Words [Say [28304, 31471, 21475]]), (''sourcePortRange'', Words [Say [28304, 31471, 21475, 33539, 22260]]),
     (''port'', Words [Say [30446, 26631, 31471, 21475]]), (''portRange'', Words [Say [30446, 26631, 31471, 21475, 33539, 22260]]),
     (''processName'', Words [Say [36827, 31243, 21517]]), (''processPath'', Words [Say [36827, 31243, 36335, 24452]]),
     (''processPathRegex'', Words [Say [36827, 31243, 36335, 24452, 27491, 21017]]), (''packageName'', Words [Say [24212, 29992, 21253, 21517]]),
     (''user'', Words [Say [29992, 25143]]), (''userID'', Words [Say [29992, 25143], say '' ID'']), (''outbound'', Words [Say [20986, 31449]]),
     (''clashMode'', Words [say ''Clash '', Say [27169, 24335]]), (''ruleSet'', Words [Say [35268, 21017, 38598]]),
     (''ruleSetIPCIDRMatchSource'', Words [Say [35268, 21017, 38598], say '' IP '', Say [21305, 37197, 28304, 22320, 22336]]),
     (''networkIsExpensive'', Words [Say [35745, 36153, 32593, 32476]]), (''networkIsConstrained'', Words [Say [21463, 38480, 32593, 32476]]),
     (''wifiSSID'', Words [say ''Wi-Fi SSID'']), (''wifiBSSID'', Words [say ''Wi-Fi BSSID'']),
     (''invert'', Words [Say [21453, 21521, 21305, 37197]]), (''logicalMode'', Words [Say [36923, 36753, 27169, 24335]]),
     (''rewriteTTL'', Words [Say [37325, 20889], say '' TTL'']), (''rejectMethod'', Words [Say [25298, 32477, 26041, 24335]]),
     (''rejectNoDrop'', Words [Say [31105, 27490, 20002, 24323]]), (''rcode'', Words [Say [21709, 24212, 30721]]),
     (''answer'', Words [say ''Answer '', Say [35760, 24405]]), (''nameServer'', Words [say ''NS '', Say [35760, 24405]]),
     (''extra'', Words [Say [39069, 22806, 35760, 24405]])]"

definition zh_policy :: text_group where
  "zh_policy =
    [(''description'', Words [Say [32467, 26500, 21270, 37197, 32622, 21487, 36890, 36807], say '' JSON '', Say [23436, 25972, 31649, 29702, 65292, 24182, 20445, 30041, 26410, 30693, 23383, 27573, 12290]]),
     (''save'', Words [Say [20445, 23384, 37197, 32622]]), (''installRoute'', Words [Say [23433, 35013, 40664, 35748, 36335, 30001]]),
     (''installDNS'', Words [Say [23433, 35013, 40664, 35748], say '' DNS'']),
     (''installed'', Words [Say [40664, 35748, 37197, 32622, 24050, 23433, 35013]]),
     (''rolledBack'', Words [Say [37197, 32622, 24050, 22238, 28378]]), (''visualTab'', Words [Say [21487, 35270, 21270, 37197, 32622]]),
     (''advancedTab'', Words [Say [39640, 32423], say '' JSON'']), (''jsonLabel'', Words [Say [27969, 37327, 31574, 30053], say '' JSON'']),
     (''invalidStructureTitle'', Words [Say [37197, 32622, 32467, 26500, 26080, 25928]]),
     (''invalidStructureDescription'', Words [Say [35268, 21017, 12289, 35268, 21017, 38598, 25110, 26381, 21153, 22120, 21015, 34920, 24517, 39035, 26159, 20165, 21253, 21547, 23545, 35937, 30340, 25968, 32452, 12290, 35831, 22312, 39640, 32423], say '' JSON '', Say [20013, 20462, 22797, 12290]]),
     (''route'', Group zh_policy_route), (''dns'', Group zh_policy_dns)]"

definition zh_nodes :: text_group where
  "zh_nodes =
    [(''title'', Words [Say [33410, 28857]]), (''import'', Words [Say [23548, 20837, 33410, 28857]]),
     (''importDescription'', Words [Say [31896, 36148], say '' sing-box '', Say [25903, 25345, 30340, 20998, 20139, 38142, 25509, 12290]]),
     (''link'', Words [Say [33410, 28857, 38142, 25509]]), (''parse'', Words [Say [35299, 26512]]),
     (''parseResult'', Words [Say [35299, 26512, 32467, 26524]]), (''saveNode'', Words [Say [20445, 23384, 33410, 28857]]),
     (''saved'', Words [Say [33410, 28857, 24050, 20445, 23384]]), (''sync'', Words [Say [21516, 27493, 21040, 37197, 32622]]),
     (''synced'', Words [Say [33410, 28857, 24050, 21516, 27493, 21040, 37197, 32622]]), (''batch'', Words [Say [25209, 37327, 27979, 36895]]),
     (''batchComplete'', Words [Say [25209, 37327, 27979, 36895, 23436, 25104]]), (''test'', Words [Say [27979, 36895]]),
     (''testAll'', Words [Say [20840, 37096]]), (''testFailed'', Words [Say [27979, 36895, 22833, 36133]]),
     (''testType'', Words [Say [27979, 36895, 31867, 22411]]), (''subscriptionNode'', Words [Say [35746, 38405, 33410, 28857]]),
     (''source'', Words [Say [26469, 28304]]), (''imported'', Words [Say [25163, 21160, 23548, 20837]]),
     (''subscription'', Words [Say [35746, 38405]]), (''list'', Words [Say [33410, 28857, 21015, 34920]]),
     (''description'', Words [Say [26597, 30475, 33410, 28857, 20998, 32452, 19982, 26368, 36817, 27979, 36895, 32467, 26524, 12290]]),
     (''allNodes'', Words [Say [25152, 26377, 33410, 28857]]),
     (''allNodesDescription'', Words [Say [23436, 25972, 23637, 31034, 35746, 38405, 33410, 28857, 21644, 25163, 21160, 23548, 20837, 33410, 28857, 12290]]),
     (''subscriptionNodes'', Words [Say [35746, 38405, 33410, 28857]]),
     (''subscriptionNodesDescription'', Words [Say [25353, 29031, 35746, 38405, 21517, 31216, 20998, 32452, 23637, 31034, 33410, 28857, 12290]]),
     (''importedNodes'', Words [Say [25163, 21160, 23548, 20837, 33410, 28857]]),
     (''importedNodesDescription'', Words [Say [23637, 31034, 36890, 36807, 20998, 20139, 38142, 25509, 23548, 20837, 30340, 21333, 33410, 28857, 12290]]),
     (''nodeCount'', Words [Hole ''count'', say '' '', Say [20010, 33410, 28857]]), (''server'', Words [Say [26381, 21153, 22120]]),
     (''empty'', Words [Say [26242, 26080, 33410, 28857]]),
     (''emptyDescription'', Words [Say [24403, 21069, 20998, 32452, 27809, 26377, 33410, 28857, 12290]]),
     (''edit'', Words [Say [32534, 36753, 33410, 28857]]),
     (''editDescription'', Words [Say [24120, 29992, 23383, 27573, 32467, 26500, 21270, 32534, 36753, 65292, 20854, 20182, 23383, 27573, 20445, 30041, 22312, 39640, 32423], say '' JSON '', Say [20013, 12290]]),
     (''advancedJSON'', Words [Say [33410, 28857, 39640, 32423], say '' JSON'']), (''updated'', Words [Say [33410, 28857, 24050, 26356, 26032]]),
     (''deleted'', Words [Say [33410, 28857, 24050, 21024, 38500]]), (''results'', Words [Say [27979, 36895, 32467, 26524]]),
     (''resultsDescription'', Words [Say [21518, 31471, 20445, 23384, 30340, 26368, 36817, 19968, 27425, 33410, 28857, 27979, 36895, 32467, 26524, 12290]]),
     (''latency'', Words [Say [24310, 36831]]), (''runtimeGroups'', Words [Say [36816, 34892, 26102, 20998, 32452]]),
     (''runtimeGroupsDescription'', Words [Say [20999, 25442], say '' Selector '', Say [24403, 21069, 33410, 28857, 25110, 35302, 21457], say '' URLTest '', Say [27979, 36895, 12290]]),
     (''current'', Words [Say [24403, 21069, 33410, 28857]]),
     (''runURLTest'', Words [Say [36816, 34892], say '' '', Hole ''group'', say '' URLTest''])]"

definition zh_subscriptions :: text_group where
  "zh_subscriptions =
    [(''title'', Words [Say [35746, 38405]]), (''add'', Words [Say [26032, 22686, 35746, 38405]]),
     (''edit'', Words [Say [32534, 36753, 35746, 38405]]),
     (''dialogDescription'', Words [Say [35746, 38405, 21047, 26032, 21518, 20250, 26356, 26032, 23545, 24212, 33410, 28857, 65307], say ''URLTest '', Say [30041, 31354, 23383, 27573, 32487, 25215, 20840, 23616, 40664, 35748, 20540, 12290]]),
     (''name'', Words [Say [21517, 31216]]), (''url'', Words [say ''URL'']), (''subscriptionURL'', Words [Say [35746, 38405], say '' URL'']),
     (''interval'', Words [Say [21047, 26032, 38388, 38548, 65288, 20998, 38047, 65289]]),
     (''refreshAll'', Words [Say [21047, 26032, 20840, 37096]]), (''refresh'', Words [Say [21047, 26032]]),
     (''list'', Words [Say [35746, 38405, 21015, 34920]]),
     (''description'', Words [Say [31649, 29702, 35746, 38405, 22320, 22336, 12289, 21047, 26032, 38388, 38548, 19982], say '' URLTest '', Say [35206, 30422, 12290]]),
     (''nodes'', Words [Say [33410, 28857]]), (''nodeCount'', Words [Hole ''count'', say '' '', Say [20010, 33410, 28857]]),
     (''lastUpdated'', Words [Say [26368, 36817, 26356, 26032]]), (''saved'', Words [Say [35746, 38405, 24050, 20445, 23384]]),
     (''partialFailure'', Words [Say [37096, 20998, 35746, 38405, 21047, 26032, 22833, 36133]]),
     (''refreshedAll'', Words [Say [20840, 37096, 35746, 38405, 24050, 21047, 26032]]),
     (''importedNodes'', Words [Say [25163, 21160, 23548, 20837, 33410, 28857]]),
     (''importedNodesDescription'', Words [Say [22312, 36825, 37324, 23548, 20837, 12289, 32534, 36753, 21644, 21024, 38500, 21333, 33410, 28857, 12290, 37197, 32622, 21516, 27493, 20250, 33258, 21160, 23436, 25104, 12290]]),
     (''importedNodesEmpty'', Words [Say [23578, 26410, 23548, 20837, 21333, 33410, 28857, 12290]]),
     (''urlTestPolicy'', Words [say ''URLTest '', Say [32452, 31574, 30053]]), (''urlTestInherit'', Words [Say [32487, 25215, 20840, 23616]]),
     (''urlTestEnabled'', Words [Say [21551, 29992]]), (''urlTestDisabled'', Words [Say [20851, 38381]]),
     (''leaveBlankToInherit'', Words [Say [30041, 31354, 21017, 32487, 25215, 20840, 23616, 40664, 35748, 20540, 12290]]),
     (''urlTestInheritHint'', Words [Say [24403, 21069, 32487, 25215, 20840, 23616, 40664, 35748, 20540, 65292, 21442, 25968, 21482, 35835, 23637, 31034, 12290]]),
     (''urlTestDisabledTitle'', Words [Say [24050, 20851, 38381], say '' URLTest '', Say [32452, 31574, 30053]]),
     (''urlTestDisabledDescription'', Words [Say [20851, 38381, 21518, 35813, 35746, 38405, 32452, 23558, 20351, 29992], say '' Selector '', Say [31574, 30053, 65306, 30001, 20320, 25163, 21160, 36873, 25321, 24403, 21069, 20986, 21475, 33410, 28857, 65292, 19981, 20250, 33258, 21160, 25353, 24310, 36831, 20999, 25442, 12290]]),
     (''resetURLTest'', Words [Say [24674, 22797, 20840, 37096, 40664, 35748, 20540]]),
     (''urlTestInherited'', Words [say ''URLTest'', Say [65306, 32487, 25215, 20840, 23616]]),
     (''urlTestCustom'', Words [say ''URLTest'', Say [65306, 33258, 23450, 20041]]),
     (''urlTestOff'', Words [say ''URLTest'', Say [65306, 24050, 20851, 38381]])]"

definition zh_observability :: text_group where
  "zh_observability =
    [(''connections'', Words [Say [27963, 36291, 36830, 25509]]), (''closeAll'', Words [Say [20851, 38381, 20840, 37096, 36830, 25509]]),
     (''closeAllTitle'', Words [Say [20851, 38381, 20840, 37096, 27963, 36291, 36830, 25509, 65311]]),
     (''closeAllDescription'', Words [Say [25152, 26377, 24403, 21069, 20195, 29702, 36830, 25509, 37117, 20250, 31435, 21363, 20013, 26029, 12290]]),
     (''confirmClose'', Words [Say [30830, 35748, 20851, 38381]]), (''streamError'', Words [Say [36830, 25509, 27969, 24050, 26029, 24320]]),
     (''liveConnections'', Words [Say [23454, 26102, 36830, 25509]]),
     (''connectionsDescription'', Words [Say [27599, 31186, 26356, 26032, 24403, 21069, 36830, 25509, 21450, 27969, 37327, 12290]]),
     (''noConnections'', Words [Say [26242, 26080, 27963, 36291, 36830, 25509]]),
     (''noConnectionsDescription'', Words [Say [26032, 30340, 20195, 29702, 36830, 25509, 20250, 33258, 21160, 26174, 31034, 12290]]),
     (''target'', Words [Say [30446, 26631]]), (''outbound'', Words [Say [20986, 31449]]), (''duration'', Words [Say [26102, 38271]]),
     (''close'', Words [Say [20851, 38381]]), (''logs'', Words [Say [26085, 24535]]), (''kernelLogs'', Words [Say [20869, 26680, 26085, 24535]]),
     (''appLogs'', Words [Say [24212, 29992, 26085, 24535]]),
     (''logDescription'', Words [Say [23454, 26102, 23637, 31034, 26368, 36817, 25910, 21040, 30340, 26085, 24535, 12290]]),
     (''searchLogs'', Words [Say [25628, 32034, 26085, 24535]]), (''minimumLogLevel'', Words [Say [26368, 20302, 26085, 24535, 32423, 21035]]),
     (''minimumLogLevelDescription'', Words [Say [36873, 25321, 26368, 20302, 26085, 24535, 32423, 21035, 21518, 65292, 23558, 26174, 31034, 35813, 32423, 21035, 21450, 20197, 19978, 26085, 24535, 12290]]),
     (''allLevels'', Words [Say [20840, 37096]]), (''time'', Words [Say [26102, 38388]]), (''noLogs'', Words [Say [26242, 26080, 26085, 24535]]),
     (''waitLogs'', Words [Say [31561, 24453, 26032, 30340, 26085, 24535, 20107, 20214, 12290]]), (''pause'', Words [Say [26242, 20572]]),
     (''resume'', Words [Say [32487, 32493]]), (''clear'', Words [Say [28165, 31354, 26174, 31034]])]"

definition zh_advanced_endpoints_section :: text_group where
  "zh_advanced_endpoints_section =
    [(''basic'', Words [Say [22522, 30784]]), (''wireguard'', Words [say ''WireGuard'']), (''tailscale'', Words [say ''Tailscale'']),
     (''dialer'', Words [Say [25320, 21495, 36873, 39033]])]"

definition zh_advanced_endpoints :: text_group where
  "zh_advanced_endpoints =
    [(''listTitle'', Words [Say [31471, 28857]]),
     (''listDescription'', Words [Say [31649, 29702], say '' WireGuard / Tailscale '', Say [31561, 31471, 28857, 23454, 20363, 12290]]),
     (''add'', Words [Say [26032, 22686, 31471, 28857]]), (''addTitle'', Words [Say [26032, 22686, 31471, 28857]]),
     (''editTitle'', Words [Say [32534, 36753, 31471, 28857]]),
     (''editorDescription'', Words [Say [24120, 29992, 23383, 27573, 21487, 35270, 21270, 37197, 32622, 65292, 20854, 20182, 23383, 27573, 21487, 22312, 39640, 32423], say '' JSON '', Say [20013, 32500, 25252, 12290]]),
     (''empty'', Words [Say [26242, 26080, 31471, 28857]]),
     (''emptyDescription'', Words [Say [28155, 21152], say '' WireGuard '', Say [25110], say '' Tailscale '', Say [31471, 28857, 12290]]),
     (''count'', Words [Say [20849], say '' '', Hole ''count'', say '' '', Say [20010, 31471, 28857]]),
     (''unnamed'', Words [Say [26410, 21629, 21517, 31471, 28857]]), (''peerCount'', Words [Hole ''count'', say '' '', Say [20010], say '' Peer'']),
     (''deleteTitle'', Words [Say [21024, 38500, 31471, 28857, 65311]]),
     (''deleteDescription'', Words [Say [23558, 21024, 38500], say '' '', Hole ''tag'', Say [65292, 20445, 23384, 37197, 32622, 21518, 21518, 31471, 20250, 37325, 26032, 21152, 36733, 12290]]),
     (''confirmDelete'', Words [Say [30830, 35748, 21024, 38500]]), (''itemJSON'', Words [Say [31471, 28857], say '' JSON'']),
     (''type'', Words [Say [31867, 22411]]), (''tag'', Words [say ''Tag'']),
     (''system'', Words [Say [20351, 29992, 31995, 32479], say '' WireGuard'']),
     (''systemHelp'', Words [Say [21551, 29992, 21518, 20351, 29992, 20869, 26680], say ''/'', Say [31995, 32479], say '' WireGuard '', Say [23454, 29616, 12290]]),
     (''interfaceName'', Words [Say [25509, 21475, 21517, 31216]]),
     (''interfaceNameHelp'', Words [Say [26412, 22320, 32593, 32476, 25509, 21475, 21517, 31216, 12290]]), (''mtu'', Words [say ''MTU'']),
     (''mtuHelp'', Words [say ''WireGuard '', Say [25509, 21475], say '' MTU'', Say [12290]]),
     (''address'', Words [Say [26412, 31471, 22320, 22336]]),
     (''addressHelp'', Words [Say [26412, 31471], say '' IPv4/IPv6 '', Say [21069, 32512, 21015, 34920, 65292, 27599, 34892, 19968, 20010, 12290]]),
     (''privateKey'', Words [Say [31169, 38053]]), (''privateKeyHelp'', Words [say ''WireGuard '', Say [26412, 31471, 31169, 38053, 12290]]),
     (''listenPort'', Words [Say [30417, 21548, 31471, 21475]]),
     (''listenPortHelp'', Words [Say [26412, 31471], say '' UDP '', Say [30417, 21548, 31471, 21475, 12290]]), (''peers'', Words [say ''Peers'']),
     (''peersHelp'', Words [say ''Peer '', Say [25968, 32452], say '' JSON'', Say [12290, 27599, 39033, 21487, 21547], say '' address'', Say [12289], say ''port'', Say [12289], say ''public_key'', Say [12289], say ''allowed_ips '', Say [31561, 12290]]),
     (''workers'', Words [Say [24037, 20316, 32447, 31243]]),
     (''workersHelp'', Words [say ''WireGuard '', Say [22788, 29702, 32447, 31243, 25968, 12290]]),
     (''stateDirectory'', Words [Say [29366, 24577, 30446, 24405]]),
     (''stateDirectoryHelp'', Words [say ''Tailscale '', Say [29366, 24577, 25991, 20214, 30446, 24405, 12290]]),
     (''authKey'', Words [say ''Auth Key'']), (''authKeyHelp'', Words [say ''Tailscale '', Say [30331, 24405, 25480, 26435, 23494, 38053, 12290]]),
     (''controlURL'', Words [Say [25511, 21046, 26381, 21153, 22120], say '' URL'']),
     (''controlURLHelp'', Words [Say [33258, 23450, 20041], say '' coordination/control '', Say [26381, 21153, 22120, 22320, 22336, 12290]]),
     (''ephemeral'', Words [Say [20020, 26102, 33410, 28857]]),
     (''ephemeralHelp'', Words [Say [21551, 29992, 21518, 33410, 28857, 36864, 20986, 26102, 33258, 21160, 20174], say '' Tailnet '', Say [27880, 38144, 12290]]),
     (''hostname'', Words [Say [20027, 26426, 21517]]),
     (''hostnameHelp'', Words [Say [22312], say '' Tailnet '', Say [20013, 23637, 31034, 30340, 20027, 26426, 21517, 12290]]),
     (''acceptRoutes'', Words [Say [25509, 21463, 23376, 32593, 36335, 30001]]),
     (''acceptRoutesHelp'', Words [Say [25509, 21463, 20854, 20182, 33410, 28857, 36890, 21578, 30340, 23376, 32593, 36335, 30001, 12290]]),
     (''exitNode'', Words [Say [20986, 21475, 33410, 28857]]),
     (''exitNodeHelp'', Words [Say [25351, 23450, 20316, 20026, 20986, 21475, 30340], say '' Tailscale '', Say [33410, 28857, 12290]]),
     (''exitNodeAllowLANAccess'', Words [Say [20986, 21475, 33410, 28857, 20801, 35768, 35775, 38382, 23616, 22495, 32593]]),
     (''exitNodeAllowLANAccessHelp'', Words [Say [20351, 29992, 20986, 21475, 33410, 28857, 26102, 20173, 20801, 35768, 35775, 38382, 23616, 22495, 32593, 12290]]),
     (''advertiseRoutes'', Words [Say [36890, 21578, 36335, 30001]]),
     (''advertiseRoutesHelp'', Words [Say [21521], say '' Tailnet '', Say [36890, 21578, 30340, 26412, 22320, 23376, 32593, 36335, 30001, 65292, 27599, 34892, 19968, 20010, 12290]]),
     (''advertiseExitNode'', Words [Say [36890, 21578, 20026, 20986, 21475, 33410, 28857]]),
     (''advertiseExitNodeHelp'', Words [Say [23558, 26412, 33410, 28857, 36890, 21578, 20026, 20986, 21475, 33410, 28857, 12290]]),
     (''advertiseTags'', Words [Say [36890, 21578, 26631, 31614]]),
     (''advertiseTagsHelp'', Words [say ''ACL '', Say [26631, 31614, 21015, 34920, 65292, 27599, 34892, 19968, 20010, 12290]]),
     (''relayServerPort'', Words [Say [20013, 32487, 26381, 21153, 31471, 21475]]),
     (''relayServerPortHelp'', Words [Say [20869, 32622], say '' DERP/'', Say [20013, 32487, 26381, 21153, 31471, 21475, 12290]]),
     (''relayServerStaticEndpoints'', Words [Say [20013, 32487, 38745, 24577, 31471, 28857]]),
     (''relayServerStaticEndpointsHelp'', Words [Say [20013, 32487, 26381, 21153, 38745, 24577, 22320, 22336, 21015, 34920, 65292, 27599, 34892, 19968, 20010, 12290]]),
     (''systemInterface'', Words [Say [31995, 32479, 25509, 21475]]),
     (''systemInterfaceHelp'', Words [Say [21019, 24314, 31995, 32479, 32423, 32593, 32476, 25509, 21475, 12290]]),
     (''systemInterfaceName'', Words [Say [31995, 32479, 25509, 21475, 21517, 31216]]),
     (''systemInterfaceNameHelp'', Words [Say [31995, 32479, 25509, 21475, 21517, 31216, 12290]]),
     (''systemInterfaceMTU'', Words [Say [31995, 32479, 25509, 21475], say '' MTU'']),
     (''systemInterfaceMTUHelp'', Words [Say [31995, 32479, 25509, 21475], say '' MTU'', Say [12290]]),
     (''udpTimeout'', Words [say ''UDP '', Say [36229, 26102]]),
     (''udpTimeoutHelp'', Words [say ''UDP '', Say [20250, 35805, 36229, 26102, 65292, 20363, 22914], say '' 5m'', Say [12290]]),
     (''detour'', Words [Say [20986, 31449]]), (''detourHelp'', Words [Say [25320, 21495, 26102, 20351, 29992, 30340, 20986, 31449, 12290]]),
     (''bindInterface'', Words [Say [32465, 23450, 32593, 21345]]),
     (''bindInterfaceHelp'', Words [Say [25320, 21495, 32465, 23450, 30340, 26412, 26426, 32593, 21345, 12290]]),
     (''inet4BindAddress'', Words [say ''IPv4 '', Say [32465, 23450, 22320, 22336]]),
     (''inet4BindAddressHelp'', Words [say ''IPv4 '', Say [28304, 22320, 22336, 12290]]),
     (''inet6BindAddress'', Words [say ''IPv6 '', Say [32465, 23450, 22320, 22336]]),
     (''inet6BindAddressHelp'', Words [say ''IPv6 '', Say [28304, 22320, 22336, 12290]]),
     (''bindAddressNoPort'', Words [Say [32465, 23450, 22320, 22336, 19981, 21547, 31471, 21475]]),
     (''bindAddressNoPortHelp'', Words [Say [32465, 23450, 22320, 22336, 26102, 19981, 22266, 23450, 28304, 31471, 21475, 12290]]),
     (''protectPath'', Words [say ''Protect '', Say [36335, 24452]]), (''protectPathHelp'', Words [say ''Android protect path'', Say [12290]]),
     (''routingMark'', Words [Say [36335, 30001, 26631, 35760]]),
     (''routingMarkHelp'', Words [say ''Linux '', Say [36335, 30001], say '' mark'', Say [12290]]),
     (''reuseAddress'', Words [Say [22797, 29992, 22320, 22336]]),
     (''reuseAddressHelp'', Words [Say [21551, 29992], say '' SO_REUSEADDR'', Say [12290]]),
     (''networkNamespace'', Words [Say [32593, 32476, 21629, 21517, 31354, 38388]]),
     (''networkNamespaceHelp'', Words [say ''Linux netns '', Say [21517, 31216, 12290]]),
     (''connectTimeout'', Words [Say [36830, 25509, 36229, 26102]]),
     (''connectTimeoutHelp'', Words [say ''TCP '', Say [36830, 25509, 36229, 26102, 65292, 20363, 22914], say '' 5s'', Say [12290]]),
     (''tcpFastOpen'', Words [say ''TCP Fast Open'']), (''tcpFastOpenHelp'', Words [Say [21551, 29992], say '' TCP Fast Open'', Say [12290]]),
     (''tcpMultiPath'', Words [say ''TCP Multi Path'']), (''tcpMultiPathHelp'', Words [Say [21551, 29992], say '' MPTCP'', Say [12290]]),
     (''disableTCPKeepAlive'', Words [Say [31105, 29992], say '' TCP Keep-Alive'']),
     (''disableTCPKeepAliveHelp'', Words [Say [20851, 38381], say '' TCP keep-alive'', Say [12290]]),
     (''tcpKeepAlive'', Words [say ''TCP Keep-Alive'']),
     (''tcpKeepAliveHelp'', Words [say ''Keep-alive '', Say [31354, 38386, 26102, 38388, 12290]]),
     (''tcpKeepAliveInterval'', Words [say ''TCP Keep-Alive '', Say [38388, 38548]]),
     (''tcpKeepAliveIntervalHelp'', Words [say ''Keep-alive '', Say [25506, 27979, 38388, 38548, 12290]]),
     (''udpFragment'', Words [say ''UDP '', Say [20998, 29255]]),
     (''udpFragmentHelp'', Words [Say [20801, 35768], say '' UDP '', Say [20998, 29255, 12290]]),
     (''domainResolverServer'', Words [Say [22495, 21517, 35299, 26512, 26381, 21153, 22120]]),
     (''domainResolverServerHelp'', Words [Say [25320, 21495, 22495, 21517, 35299, 26512, 20351, 29992, 30340], say '' DNS '', Say [26381, 21153, 22120], say '' tag'', Say [12290]]),
     (''domainResolverStrategy'', Words [Say [22495, 21517, 35299, 26512, 31574, 30053]]),
     (''domainResolverStrategyHelp'', Words [Say [22495, 21517, 35299, 26512], say '' IP '', Say [31574, 30053, 12290]]),
     (''domainResolverDisableCache'', Words [Say [31105, 29992, 35299, 26512, 32531, 23384]]),
     (''domainResolverDisableCacheHelp'', Words [Say [25320, 21495, 35299, 26512, 26102, 31105, 29992, 32531, 23384, 12290]]),
     (''domainResolverRewriteTTL'', Words [Say [37325, 20889, 35299, 26512], say '' TTL'']),
     (''domainResolverRewriteTTLHelp'', Words [Say [35206, 30422, 35299, 26512, 32467, 26524], say '' TTL'', Say [12290]]),
     (''domainResolverClientSubnet'', Words [say ''Client Subnet'']),
     (''domainResolverClientSubnetHelp'', Words [say ''EDNS Client Subnet'', Say [12290]]),
     (''networkStrategy'', Words [Say [32593, 32476, 31574, 30053]]),
     (''networkStrategyHelp'', Words [Say [22810, 32593, 32476, 31574, 30053, 12290]]), (''networkType'', Words [Say [32593, 32476, 31867, 22411]]),
     (''networkTypeHelp'', Words [Say [20248, 20808, 32593, 32476, 31867, 22411, 21015, 34920, 12290]]),
     (''fallbackNetworkType'', Words [Say [22238, 36864, 32593, 32476, 31867, 22411]]),
     (''fallbackNetworkTypeHelp'', Words [Say [22238, 36864, 32593, 32476, 31867, 22411, 21015, 34920, 12290]]),
     (''fallbackDelay'', Words [Say [22238, 36864, 24310, 36831]]),
     (''fallbackDelayHelp'', Words [say ''Happy Eyeballs '', Say [22238, 36864, 24310, 36831, 12290]]),
     (''notSet'', Words [Say [26410, 35774, 32622]]), (''refMultiEmpty'', Words [Say [24403, 21069, 27809, 26377, 21487, 36873, 39033]]),
     (''interfaceManual'', Words [Say [25163, 21160, 36755, 20837]]),
     (''interfaceManualInput'', Words [Say [25163, 21160, 36755, 20837, 25509, 21475, 21517]]),
     (''interfaceManualPlaceholder'', Words [Say [20363, 22914], say '' eth0'']),
     (''invalidStructuredJSON'', Words [say ''JSON '', Say [32467, 26500, 26080, 25928]]),
     (''jsonArrayHint'', Words [Say [35831, 36755, 20837], say '' JSON '', Say [25968, 32452, 12290]]),
     (''jsonObjectHint'', Words [Say [35831, 36755, 20837, 21512, 27861], say '' JSON '', Say [23545, 35937, 12290]]),
     (''section'', Group zh_advanced_endpoints_section)]"

definition zh_advanced_experimental :: text_group where
  "zh_advanced_experimental =
    [(''cacheTitle'', Words [Say [32531, 23384, 25991, 20214]]),
     (''cacheDescription'', Words [Say [25345, 20037, 21270, 36873, 36335, 12289], say ''FakeIP '', Say [19982, 25298, 32477, 32531, 23384, 12290]]),
     (''clashTitle'', Words [say ''Clash API'']),
     (''clashDescription'', Words [Say [23545, 22806, 25552, 20379], say '' Clash '', Say [20860, 23481, 25511, 21046, 25509, 21475, 12290]]),
     (''v2rayTitle'', Words [say ''V2Ray API'']),
     (''v2rayDescription'', Words [Say [25552, 20379], say '' V2Ray '', Say [32479, 35745, 19982, 26597, 35810, 25509, 21475, 12290]]),
     (''cacheEnabled'', Words [Say [21551, 29992, 32531, 23384, 25991, 20214]]),
     (''cacheEnabledHelp'', Words [Say [24320, 21551, 21518, 20869, 26680, 20250, 20351, 29992, 26412, 22320, 32531, 23384, 25991, 20214, 20445, 23384, 36873, 36335, 32467, 26524, 12289], say ''FakeIP '', Say [19982, 25298, 32477, 35760, 24405, 12290]]),
     (''cachePath'', Words [Say [32531, 23384, 36335, 24452]]),
     (''cachePathHelp'', Words [Say [32531, 23384, 25991, 20214, 36335, 24452, 12290, 30041, 31354, 26102, 20869, 26680, 20351, 29992, 40664, 35748, 36335, 24452], say '' cache.db'', Say [12290]]),
     (''cacheID'', Words [Say [32531, 23384], say '' ID'']),
     (''cacheIDHelp'', Words [Say [21516, 19968, 32531, 23384, 25991, 20214, 19979, 29992, 20110, 38548, 31163, 19981, 21516, 37197, 32622, 23454, 20363, 30340, 26631, 35782, 12290]]),
     (''storeFakeIP'', Words [Say [25345, 20037, 21270], say '' FakeIP'']),
     (''storeFakeIPHelp'', Words [Say [23558], say '' FakeIP '', Say [26144, 23556, 20889, 20837, 32531, 23384, 65292, 37325, 21551, 21518, 21487, 22797, 29992, 12290]]),
     (''storeRDRC'', Words [Say [25345, 20037, 21270, 25298, 32477, 32531, 23384]]),
     (''storeRDRCHelp'', Words [Say [20445, 23384, 26368, 36817, 34987, 25298, 32477, 30340, 36830, 25509, 32467, 26524, 65292, 20943, 23569, 37325, 22797, 25506, 27979, 12290]]),
     (''rdrcTimeout'', Words [Say [25298, 32477, 32531, 23384, 36229, 26102]]),
     (''rdrcTimeoutHelp'', Words [Say [25298, 32477, 32531, 23384, 26465, 30446, 30340, 36807, 26399, 26102, 38388, 65292, 20363, 22914], say '' 7d'', Say [12290]]),
     (''externalController'', Words [Say [22806, 37096, 25511, 21046, 22120]]),
     (''externalControllerHelp'', Words [say ''Clash API '', Say [30417, 21548, 22320, 22336, 65292, 20363, 22914], say '' 127.0.0.1:9090'', Say [12290]]),
     (''externalUI'', Words [Say [22806, 37096], say '' UI '', Say [30446, 24405]]),
     (''externalUIHelp'', Words [say ''Clash '', Say [38754, 26495, 38745, 24577, 36164, 28304, 30446, 24405, 12290]]),
     (''externalUIDownloadURL'', Words [Say [22806, 37096], say '' UI '', Say [19979, 36733, 22320, 22336]]),
     (''externalUIDownloadURLHelp'', Words [Say [22806, 37096], say '' UI '', Say [21387, 32553, 21253, 19979, 36733], say '' URL'', Say [12290]]),
     (''externalUIDownloadDetour'', Words [say ''UI '', Say [19979, 36733, 20986, 31449]]),
     (''externalUIDownloadDetourHelp'', Words [Say [19979, 36733, 22806, 37096], say '' UI '', Say [26102, 20351, 29992, 30340, 20986, 31449, 12290]]),
     (''clashSecret'', Words [Say [35775, 38382, 23494, 38053]]),
     (''clashSecretHelp'', Words [Say [35775, 38382], say '' Clash API '', Say [30340], say '' Bearer/'', Say [23494, 38053, 12290]]),
     (''defaultMode'', Words [Say [40664, 35748, 27169, 24335]]),
     (''defaultModeHelp'', Words [say ''Clash API '', Say [40664, 35748, 27169, 24335, 65292, 24120, 29992], say '' rule / global / direct'', Say [12290]]),
     (''accessControlAllowOrigin'', Words [say ''CORS '', Say [20801, 35768, 26469, 28304]]),
     (''accessControlAllowOriginHelp'', Words [Say [20801, 35768, 36328, 22495, 35775, 38382, 30340], say '' Origin '', Say [21015, 34920, 65292, 27599, 34892, 19968, 20010, 12290]]),
     (''accessControlAllowPrivateNetwork'', Words [Say [20801, 35768, 31169, 26377, 32593, 32476], say '' CORS'']),
     (''accessControlAllowPrivateNetworkHelp'', Words [Say [20801, 35768, 26469, 33258, 31169, 26377, 32593, 32476, 22320, 22336, 30340, 27983, 35272, 22120, 36328, 22495, 35775, 38382, 12290]]),
     (''v2rayListen'', Words [say ''V2Ray API '', Say [30417, 21548]]),
     (''v2rayListenHelp'', Words [say ''V2Ray API '', Say [30417, 21548, 22320, 22336, 65292, 20363, 22914], say '' 127.0.0.1:8080'', Say [12290]]),
     (''statsEnabled'', Words [Say [21551, 29992, 27969, 37327, 32479, 35745]]),
     (''statsEnabledHelp'', Words [Say [24320, 21551], say '' V2Ray Stats '', Say [26381, 21153, 12290]]),
     (''statsInbounds'', Words [Say [32479, 35745, 20837, 31449]]),
     (''statsInboundsHelp'', Words [Say [38656, 35201, 32479, 35745, 30340, 20837, 31449], say '' tag '', Say [21015, 34920, 12290]]),
     (''statsOutbounds'', Words [Say [32479, 35745, 20986, 31449]]),
     (''statsOutboundsHelp'', Words [Say [38656, 35201, 32479, 35745, 30340, 20986, 31449], say '' tag '', Say [21015, 34920, 12290]]),
     (''statsUsers'', Words [Say [32479, 35745, 29992, 25143]]),
     (''statsUsersHelp'', Words [Say [38656, 35201, 32479, 35745, 30340, 29992, 25143, 21517, 21015, 34920, 65292, 27599, 34892, 19968, 20010, 12290]]),
     (''notSet'', Words [Say [26410, 35774, 32622]]), (''refMultiEmpty'', Words [Say [24403, 21069, 27809, 26377, 21487, 36873, 39033]]),
     (''invalidStructuredJSON'', Words [say ''JSON '', Say [32467, 26500, 26080, 25928]]),
     (''jsonArrayHint'', Words [Say [27599, 34892, 19968, 20010, 20540, 65292, 25110, 20351, 29992], say '' JSON '', Say [25968, 32452, 12290]]),
     (''jsonObjectHint'', Words [Say [35831, 36755, 20837, 21512, 27861], say '' JSON '', Say [23545, 35937, 12290]])]"

definition zh_advanced :: text_group where
  "zh_advanced =
    [(''endpointsDescription'', Words [Say [31649, 29702], say '' sing-box '', Say [31471, 28857, 37197, 32622, 27573, 12290]]),
     (''experimentalDescription'', Words [Say [31649, 29702], say '' sing-box '', Say [23454, 39564, 29305, 24615, 37197, 32622, 27573, 12290]]),
     (''rawDescription'', Words [Say [30452, 25509, 32534, 36753], say '' sing-box '', Say [23436, 25972], say '' JSON'', Say [65292, 20445, 23384, 21069, 20250, 30001, 21518, 31471, 26657, 39564, 12290]]),
     (''save'', Words [Say [20445, 23384, 37197, 32622]]), (''saveRaw'', Words [Say [20445, 23384, 23436, 25972, 37197, 32622]]),
     (''reset'', Words [Say [37325, 32622, 20462, 25913]]), (''visualTab'', Words [Say [21487, 35270, 21270, 37197, 32622]]),
     (''advancedTab'', Words [Say [39640, 32423], say '' JSON'']), (''advancedJSON'', Words [Say [39640, 32423, 37197, 32622], say '' JSON'']),
     (''experimentalJSON'', Words [Say [23454, 39564, 29305, 24615, 37197, 32622], say '' JSON'']),
     (''rawJSON'', Words [Say [23436, 25972, 37197, 32622], say '' JSON'']), (''saved'', Words [Say [37197, 32622, 24050, 20445, 23384]]),
     (''rawSaved'', Words [Say [23436, 25972, 37197, 32622, 24050, 20445, 23384]]),
     (''rolledBack'', Words [Say [37197, 32622, 20445, 23384, 26410, 29983, 25928, 65292, 21518, 31471, 24050, 22238, 28378, 12290]]),
     (''overwriteTitle'', Words [Say [35206, 30422, 23436, 25972, 37197, 32622, 65311]]),
     (''overwriteDescription'', Words [Say [21518, 31471, 20250, 26657, 39564, 24182, 37325, 36733, 25972, 20010], say '' sing-box '', Say [37197, 32622, 12290]]),
     (''confirmOverwrite'', Words [Say [30830, 35748, 35206, 30422]]),
     (''invalidStructureTitle'', Words [Say [37197, 32622, 32467, 26500, 26080, 25928]]),
     (''invalidStructureDescription'', Words [Say [23454, 39564, 29305, 24615, 37197, 32622, 27573, 24517, 39035, 26159], say '' JSON '', Say [23545, 35937, 12290, 35831, 22312, 39640, 32423], say '' JSON '', Say [20013, 20462, 22797, 12290]]),
     (''endpointsJSON'', Words [Say [31471, 28857, 37197, 32622], say '' JSON'']),
     (''endpointsInvalidStructureTitle'', Words [Say [31471, 28857, 32467, 26500, 26080, 25928]]),
     (''endpointsInvalidStructureDescription'', Words [Say [31471, 28857, 37197, 32622, 27573, 24517, 39035, 26159, 20165, 21253, 21547, 23545, 35937, 30340, 25968, 32452, 12290, 35831, 22312, 39640, 32423], say '' JSON '', Say [20013, 20462, 22797, 12290]]),
     (''endpoints'', Group zh_advanced_endpoints), (''experimental'', Group zh_advanced_experimental)]"

definition zh_translation :: text_group where
  "zh_translation =
    [(''auth'', Group zh_auth), (''nav'', Group zh_nav), (''pages'', Group zh_pages), (''settings'', Group zh_settings),
     (''common'', Group zh_common), (''dashboard'', Group zh_dashboard), (''config'', Group zh_config), (''proxy'', Group zh_proxy),
     (''policy'', Group zh_policy), (''nodes'', Group zh_nodes), (''subscriptions'', Group zh_subscriptions),
     (''observability'', Group zh_observability), (''advanced'', Group zh_advanced)]"

end
