(* ===== verification/Locales.thy ===== *)
theory Locales
  imports Locale_En Locale_Zh Api
begin

text \<open>
  The texts the panel has to show: \<open>i18n/index.ts\<close> gives the library both objects of texts, the language of
  the preferences, and Chinese to fall back to. The library itself is not part of the program; what
  the panel needs of it is that a key with a text in the language shown gives that text, with
  the parameters replaced.
\<close>

fun resources :: "language \<Rightarrow> texts" where
  "resources En = Group en_translation"
| "resources Zh = Group zh_translation"

definition fallbackLng :: language where
  "fallbackLng = Zh"

definition initial_lng :: "web_storage \<Rightarrow> language" where
  "initial_lng st = pr_language (preferences_get st)"

definition text_of :: "language \<Rightarrow> string \<Rightarrow> words option" where
  "text_of lng key = text_at (js_split (\<lambda>c. c = CHR ''.'') key) (resources lng)"

text \<open>A key with a text in every language whose parameters are among those given.\<close>

definition known_text :: "string \<Rightarrow> string list \<Rightarrow> bool" where
  "known_text key given = list_all (\<lambda>lng. case text_of lng key of None \<Rightarrow> False
     | Some w \<Rightarrow> list_all (\<lambda>p. List.member given p) (holes w)) [En, Zh]"

subsection \<open>The two objects agree\<close>

lemma shape_auth: "map (map_prod id shape_of) en_auth = map (map_prod id shape_of) zh_auth"
  by (simp add: en_auth_def zh_auth_def)

lemma shape_nav: "map (map_prod id shape_of) en_nav = map (map_prod id shape_of) zh_nav"
  by (simp add: en_nav_def zh_nav_def)

lemma shape_pages: "map (map_prod id shape_of) en_pages = map (map_prod id shape_of) zh_pages"
  by (simp add: en_pages_def zh_pages_def)

lemma shape_settings: "map (map_prod id shape_of) en_settings = map (map_prod id shape_of) zh_settings"
  by (simp add: en_settings_def zh_settings_def)

lemma shape_common: "map (map_prod id shape_of) en_common = map (map_prod id shape_of) zh_common"
  by (simp add: en_common_def zh_common_def)

lemma shape_dashboard: "map (map_prod id shape_of) en_dashboard = map (map_prod id shape_of) zh_dashboard"
  by (simp add: en_dashboard_def zh_dashboard_def)

lemma shape_config: "map (map_prod id shape_of) en_config = map (map_prod id shape_of) zh_config"
  by (simp add: en_config_def zh_config_def)

lemma shape_proxy_inbound_section: "map (map_prod id shape_of) en_proxy_inbound_section = map (map_prod id shape_of) zh_proxy_inbound_section"
  by (simp add: en_proxy_inbound_section_def zh_proxy_inbound_section_def)

lemma shape_proxy_inbound: "map (map_prod id shape_of) en_proxy_inbound = map (map_prod id shape_of) zh_proxy_inbound"
  by (simp add: en_proxy_inbound_def zh_proxy_inbound_def shape_proxy_inbound_section)

lemma shape_proxy_outbound_section: "map (map_prod id shape_of) en_proxy_outbound_section = map (map_prod id shape_of) zh_proxy_outbound_section"
  by (simp add: en_proxy_outbound_section_def zh_proxy_outbound_section_def)

lemma shape_proxy_outbound: "map (map_prod id shape_of) en_proxy_outbound = map (map_prod id shape_of) zh_proxy_outbound"
  by (simp add: en_proxy_outbound_def zh_proxy_outbound_def shape_proxy_outbound_section)

lemma shape_proxy: "map (map_prod id shape_of) en_proxy = map (map_prod id shape_of) zh_proxy"
  by (simp add: en_proxy_def zh_proxy_def shape_proxy_inbound_section shape_proxy_inbound shape_proxy_outbound_section shape_proxy_outbound)

lemma shape_policy_route_section: "map (map_prod id shape_of) en_policy_route_section = map (map_prod id shape_of) zh_policy_route_section"
  by (simp add: en_policy_route_section_def zh_policy_route_section_def)

lemma shape_policy_route: "map (map_prod id shape_of) en_policy_route = map (map_prod id shape_of) zh_policy_route"
  by (simp add: en_policy_route_def zh_policy_route_def shape_policy_route_section)

lemma shape_policy_dns_section: "map (map_prod id shape_of) en_policy_dns_section = map (map_prod id shape_of) zh_policy_dns_section"
  by (simp add: en_policy_dns_section_def zh_policy_dns_section_def)

lemma shape_policy_dns: "map (map_prod id shape_of) en_policy_dns = map (map_prod id shape_of) zh_policy_dns"
  by (simp add: en_policy_dns_def zh_policy_dns_def shape_policy_dns_section)

lemma shape_policy: "map (map_prod id shape_of) en_policy = map (map_prod id shape_of) zh_policy"
  by (simp add: en_policy_def zh_policy_def shape_policy_route_section shape_policy_route shape_policy_dns_section shape_policy_dns)

lemma shape_nodes: "map (map_prod id shape_of) en_nodes = map (map_prod id shape_of) zh_nodes"
  by (simp add: en_nodes_def zh_nodes_def)

lemma shape_subscriptions: "map (map_prod id shape_of) en_subscriptions = map (map_prod id shape_of) zh_subscriptions"
  by (simp add: en_subscriptions_def zh_subscriptions_def)

lemma shape_observability: "map (map_prod id shape_of) en_observability = map (map_prod id shape_of) zh_observability"
  by (simp add: en_observability_def zh_observability_def)

lemma shape_advanced_endpoints_section: "map (map_prod id shape_of) en_advanced_endpoints_section = map (map_prod id shape_of) zh_advanced_endpoints_section"
  by (simp add: en_advanced_endpoints_section_def zh_advanced_endpoints_section_def)

lemma shape_advanced_endpoints: "map (map_prod id shape_of) en_advanced_endpoints = map (map_prod id shape_of) zh_advanced_endpoints"
  by (simp add: en_advanced_endpoints_def zh_advanced_endpoints_def shape_advanced_endpoints_section)

lemma shape_advanced_experimental: "map (map_prod id shape_of) en_advanced_experimental = map (map_prod id shape_of) zh_advanced_experimental"
  by (simp add: en_advanced_experimental_def zh_advanced_experimental_def)

lemma shape_advanced: "map (map_prod id shape_of) en_advanced = map (map_prod id shape_of) zh_advanced"
  by (simp add: en_advanced_def zh_advanced_def shape_advanced_endpoints_section shape_advanced_endpoints shape_advanced_experimental)

lemma shape_translation: "map (map_prod id shape_of) en_translation = map (map_prod id shape_of) zh_translation"
  by (simp add: en_translation_def zh_translation_def shape_auth shape_nav shape_pages shape_settings shape_common shape_dashboard shape_config shape_proxy_inbound_section shape_proxy_inbound shape_proxy_outbound_section shape_proxy_outbound shape_proxy shape_policy_route_section shape_policy_route shape_policy_dns_section shape_policy_dns shape_policy shape_nodes shape_subscriptions shape_observability shape_advanced_endpoints_section shape_advanced_endpoints shape_advanced_experimental shape_advanced)

lemma full_en_auth: "list_all snd (map (map_prod id no_blank) en_auth)"
  by (simp add: en_auth_def)

lemma full_en_nav: "list_all snd (map (map_prod id no_blank) en_nav)"
  by (simp add: en_nav_def)

lemma full_en_pages: "list_all snd (map (map_prod id no_blank) en_pages)"
  by (simp add: en_pages_def)

lemma full_en_settings: "list_all snd (map (map_prod id no_blank) en_settings)"
  by (simp add: en_settings_def)

lemma full_en_common: "list_all snd (map (map_prod id no_blank) en_common)"
  by (simp add: en_common_def)

lemma full_en_dashboard: "list_all snd (map (map_prod id no_blank) en_dashboard)"
  by (simp add: en_dashboard_def)

lemma full_en_config: "list_all snd (map (map_prod id no_blank) en_config)"
  by (simp add: en_config_def)

lemma full_en_proxy_inbound_section: "list_all snd (map (map_prod id no_blank) en_proxy_inbound_section)"
  by (simp add: en_proxy_inbound_section_def)

lemma full_en_proxy_inbound: "list_all snd (map (map_prod id no_blank) en_proxy_inbound)"
  by (simp add: en_proxy_inbound_def full_en_proxy_inbound_section)

lemma full_en_proxy_outbound_section: "list_all snd (map (map_prod id no_blank) en_proxy_outbound_section)"
  by (simp add: en_proxy_outbound_section_def)

lemma full_en_proxy_outbound: "list_all snd (map (map_prod id no_blank) en_proxy_outbound)"
  by (simp add: en_proxy_outbound_def full_en_proxy_outbound_section)

lemma full_en_proxy: "list_all snd (map (map_prod id no_blank) en_proxy)"
  by (simp add: en_proxy_def full_en_proxy_inbound_section full_en_proxy_inbound full_en_proxy_outbound_section full_en_proxy_outbound)

lemma full_en_policy_route_section: "list_all snd (map (map_prod id no_blank) en_policy_route_section)"
  by (simp add: en_policy_route_section_def)

lemma full_en_policy_route: "list_all snd (map (map_prod id no_blank) en_policy_route)"
  by (simp add: en_policy_route_def full_en_policy_route_section)

lemma full_en_policy_dns_section: "list_all snd (map (map_prod id no_blank) en_policy_dns_section)"
  by (simp add: en_policy_dns_section_def)

lemma full_en_policy_dns: "list_all snd (map (map_prod id no_blank) en_policy_dns)"
  by (simp add: en_policy_dns_def full_en_policy_dns_section)

lemma full_en_policy: "list_all snd (map (map_prod id no_blank) en_policy)"
  by (simp add: en_policy_def full_en_policy_route_section full_en_policy_route full_en_policy_dns_section full_en_policy_dns)

lemma full_en_nodes: "list_all snd (map (map_prod id no_blank) en_nodes)"
  by (simp add: en_nodes_def)

lemma full_en_subscriptions: "list_all snd (map (map_prod id no_blank) en_subscriptions)"
  by (simp add: en_subscriptions_def)

lemma full_en_observability: "list_all snd (map (map_prod id no_blank) en_observability)"
  by (simp add: en_observability_def)

lemma full_en_advanced_endpoints_section: "list_all snd (map (map_prod id no_blank) en_advanced_endpoints_section)"
  by (simp add: en_advanced_endpoints_section_def)

lemma full_en_advanced_endpoints: "list_all snd (map (map_prod id no_blank) en_advanced_endpoints)"
  by (simp add: en_advanced_endpoints_def full_en_advanced_endpoints_section)

lemma full_en_advanced_experimental: "list_all snd (map (map_prod id no_blank) en_advanced_experimental)"
  by (simp add: en_advanced_experimental_def)

lemma full_en_advanced: "list_all snd (map (map_prod id no_blank) en_advanced)"
  by (simp add: en_advanced_def full_en_advanced_endpoints_section full_en_advanced_endpoints full_en_advanced_experimental)

lemma full_en_translation: "list_all snd (map (map_prod id no_blank) en_translation)"
  by (simp add: en_translation_def full_en_auth full_en_nav full_en_pages full_en_settings full_en_common full_en_dashboard full_en_config full_en_proxy_inbound_section full_en_proxy_inbound full_en_proxy_outbound_section full_en_proxy_outbound full_en_proxy full_en_policy_route_section full_en_policy_route full_en_policy_dns_section full_en_policy_dns full_en_policy full_en_nodes full_en_subscriptions full_en_observability full_en_advanced_endpoints_section full_en_advanced_endpoints full_en_advanced_experimental full_en_advanced)

lemma full_zh_auth: "list_all snd (map (map_prod id no_blank) zh_auth)"
  by (simp add: zh_auth_def)

lemma full_zh_nav: "list_all snd (map (map_prod id no_blank) zh_nav)"
  by (simp add: zh_nav_def)

lemma full_zh_pages: "list_all snd (map (map_prod id no_blank) zh_pages)"
  by (simp add: zh_pages_def)

lemma full_zh_settings: "list_all snd (map (map_prod id no_blank) zh_settings)"
  by (simp add: zh_settings_def)

lemma full_zh_common: "list_all snd (map (map_prod id no_blank) zh_common)"
  by (simp add: zh_common_def)

lemma full_zh_dashboard: "list_all snd (map (map_prod id no_blank) zh_dashboard)"
  by (simp add: zh_dashboard_def)

lemma full_zh_config: "list_all snd (map (map_prod id no_blank) zh_config)"
  by (simp add: zh_config_def)

lemma full_zh_proxy_inbound_section: "list_all snd (map (map_prod id no_blank) zh_proxy_inbound_section)"
  by (simp add: zh_proxy_inbound_section_def)

lemma full_zh_proxy_inbound: "list_all snd (map (map_prod id no_blank) zh_proxy_inbound)"
  by (simp add: zh_proxy_inbound_def full_zh_proxy_inbound_section)

lemma full_zh_proxy_outbound_section: "list_all snd (map (map_prod id no_blank) zh_proxy_outbound_section)"
  by (simp add: zh_proxy_outbound_section_def)

lemma full_zh_proxy_outbound: "list_all snd (map (map_prod id no_blank) zh_proxy_outbound)"
  by (simp add: zh_proxy_outbound_def full_zh_proxy_outbound_section)

lemma full_zh_proxy: "list_all snd (map (map_prod id no_blank) zh_proxy)"
  by (simp add: zh_proxy_def full_zh_proxy_inbound_section full_zh_proxy_inbound full_zh_proxy_outbound_section full_zh_proxy_outbound)

lemma full_zh_policy_route_section: "list_all snd (map (map_prod id no_blank) zh_policy_route_section)"
  by (simp add: zh_policy_route_section_def)

lemma full_zh_policy_route: "list_all snd (map (map_prod id no_blank) zh_policy_route)"
  by (simp add: zh_policy_route_def full_zh_policy_route_section)

lemma full_zh_policy_dns_section: "list_all snd (map (map_prod id no_blank) zh_policy_dns_section)"
  by (simp add: zh_policy_dns_section_def)

lemma full_zh_policy_dns: "list_all snd (map (map_prod id no_blank) zh_policy_dns)"
  by (simp add: zh_policy_dns_def full_zh_policy_dns_section)

lemma full_zh_policy: "list_all snd (map (map_prod id no_blank) zh_policy)"
  by (simp add: zh_policy_def full_zh_policy_route_section full_zh_policy_route full_zh_policy_dns_section full_zh_policy_dns)

lemma full_zh_nodes: "list_all snd (map (map_prod id no_blank) zh_nodes)"
  by (simp add: zh_nodes_def)

lemma full_zh_subscriptions: "list_all snd (map (map_prod id no_blank) zh_subscriptions)"
  by (simp add: zh_subscriptions_def)

lemma full_zh_observability: "list_all snd (map (map_prod id no_blank) zh_observability)"
  by (simp add: zh_observability_def)

lemma full_zh_advanced_endpoints_section: "list_all snd (map (map_prod id no_blank) zh_advanced_endpoints_section)"
  by (simp add: zh_advanced_endpoints_section_def)

lemma full_zh_advanced_endpoints: "list_all snd (map (map_prod id no_blank) zh_advanced_endpoints)"
  by (simp add: zh_advanced_endpoints_def full_zh_advanced_endpoints_section)

lemma full_zh_advanced_experimental: "list_all snd (map (map_prod id no_blank) zh_advanced_experimental)"
  by (simp add: zh_advanced_experimental_def)

lemma full_zh_advanced: "list_all snd (map (map_prod id no_blank) zh_advanced)"
  by (simp add: zh_advanced_def full_zh_advanced_endpoints_section full_zh_advanced_endpoints full_zh_advanced_experimental)

lemma full_zh_translation: "list_all snd (map (map_prod id no_blank) zh_translation)"
  by (simp add: zh_translation_def full_zh_auth full_zh_nav full_zh_pages full_zh_settings full_zh_common full_zh_dashboard full_zh_config full_zh_proxy_inbound_section full_zh_proxy_inbound full_zh_proxy_outbound_section full_zh_proxy_outbound full_zh_proxy full_zh_policy_route_section full_zh_policy_route full_zh_policy_dns_section full_zh_policy_dns full_zh_policy full_zh_nodes full_zh_subscriptions full_zh_observability full_zh_advanced_endpoints_section full_zh_advanced_endpoints full_zh_advanced_experimental full_zh_advanced)

lemma locale_shapes: "shape_of (Group en_translation) = shape_of (Group zh_translation)"
  by (simp add: shape_translation)

lemma locales_complete: "no_blank (resources lng)"
  by (cases lng) (simp_all add: full_en_translation full_zh_translation)

lemma same_parameters: "map_option holes (text_of lng key) = map_option holes (text_of lng' key)"
proof -
  have "shape_of (resources lng) = shape_of (resources lng')"
    using locale_shapes by (cases lng; cases lng') simp_all
  then show ?thesis unfolding text_of_def by (rule same_shape_same_texts)
qed

lemma known_text_En:
  "known_text key given \<longleftrightarrow> (case text_of En key of None \<Rightarrow> False
     | Some w \<Rightarrow> list_all (\<lambda>p. List.member given p) (holes w))"
  using same_parameters [of En key Zh] by (auto simp: known_text_def split: option.splits)

text \<open>
  C40: The two languages have the same texts: a key has a text in one exactly when it has one in the other, with the
  same parameters in the same order, and no text is empty. So a change of the language never shows
  a key, a text of the other language, or a value left out.
\<close>

theorem locales_agree:
  "(text_of lng key = None \<longleftrightarrow> text_of fallbackLng key = None)
    \<and> map_option holes (text_of lng key) = map_option holes (text_of lng' key)
    \<and> map_option blank (text_of lng key) \<noteq> Some True"
proof -
  have "map_option blank (text_of lng key) \<noteq> Some True"
    using no_blank_text_at [OF locales_complete] by (auto simp: text_of_def)
  then show ?thesis
    using same_parameters [of lng key lng'] same_parameters [of lng key fallbackLng] by (metis option.map_disc_iff)
qed

end
