(* ===== verification/Text_Keys.thy ===== *)
theory Text_Keys
  imports Locales
begin

text \<open>
  Which texts are known: for each group of texts, that the keys in it have a text in both languages, as
  rewrite rules for the theories of the pages. The rules are derived from the groups, not stated one by one.
\<close>

text \<open>Looking up a key in a literal group, in steps that the simplifier takes one by one.\<close>

fun same :: "string \<Rightarrow> string \<Rightarrow> bool" where
  "same [] [] = True"
| "same (c # k) (d # l) = (if c = d then same k l else False)"
| "same [] (d # l) = False"
| "same (c # k) [] = False"

fun lookup :: "string \<Rightarrow> (string \<times> 'a) list \<Rightarrow> 'a option" where
  "lookup k [] = None"
| "lookup k ((k', t) # g) = (if same k k' then Some t else lookup k g)"

fun among :: "string \<Rightarrow> string list \<Rightarrow> bool" where
  "among k [] = False"
| "among k (k' # G) = (if same k k' then True else among k G)"

lemma same_cong: "same k l = same k l" ..
lemma lookup_cong: "lookup k g = lookup k g" ..
lemma among_cong: "among k G = among k G" ..

lemma same_iff: "same k l \<longleftrightarrow> k = l" by (induction k l rule: same.induct) auto
lemma lookup_map_of: "lookup k g = map_of g k" by (induction k g rule: lookup.induct) (auto simp: same_iff)
lemma among_iff: "among k G \<longleftrightarrow> k \<in> set G" by (induction k G rule: among.induct) (auto simp: same_iff)

fun group_at :: "string list \<Rightarrow> texts \<Rightarrow> text_group option" where
  "group_at [] (Group g) = Some g"
| "group_at (k # ks) (Group g) = (case lookup k g of None \<Rightarrow> None | Some t \<Rightarrow> group_at ks t)"
| "group_at _ _ = None"

lemma text_at_in_group: "group_at ks t = Some g \<Longrightarrow> text_at (ks @ [k]) t = (case map_of g k of Some (Words w) \<Rightarrow> Some w | _ \<Rightarrow> None)"
proof (induction ks t rule: group_at.induct)
  case (1 g)
  then show ?case by (cases "map_of g k") (auto split: texts.split)
qed (auto simp: lookup_map_of split: option.splits)

fun dot_free :: "string \<Rightarrow> bool" where
  "dot_free [] = True"
| "dot_free (Char a b c d e f g h # k) =
     (if g then dot_free k else if Char a b c d e f g h = CHR ''.'' then False else dot_free k)"

lemma dot_free_cong: "dot_free k = dot_free k" ..

lemma dot_free_iff: "dot_free k \<longleftrightarrow> CHR ''.'' \<notin> set k"
  by (induction k rule: dot_free.induct) auto

text \<open>The key \<open>k\<close> in the group \<open>p\<close>.\<close>

fun key_in :: "string \<Rightarrow> string \<Rightarrow> string" where
  "key_in [] k = CHR ''.'' # k"
| "key_in (c # p) k = c # key_in p k"

lemma key_in_cong [cong]: "key_in p k = key_in p k" ..

lemma key_in_append: "key_in p k = p @ ''.'' @ k" by (induction p k rule: key_in.induct) auto

lemma js_split_append: "P d \<Longrightarrow> js_split P (s @ d # r) = js_split P s @ js_split P r"
  by (induction s) (auto split: list.split)

text \<open>
  A group has subgroups \<open>G\<close>, texts with the holes \<open>H\<close>, and only texts without holes besides. Whether a group has a key
  twice does not matter then.
\<close>

fun entry_ok :: "string list \<Rightarrow> (string \<times> string list) list \<Rightarrow> string \<times> texts \<Rightarrow> bool" where
  "entry_ok G H (k, Words w) =
     (if among k G then False else if dot_free k then (case lookup k H of None \<Rightarrow> holes w = [] | Some hs \<Rightarrow> holes w = hs) else False)"
| "entry_ok G H (k, Group h) = among k G"

text \<open>A long literal list is gone through sixteen elements at a time, since each step handles the whole rest of it.\<close>

definition every :: "('a \<Rightarrow> bool) \<Rightarrow> 'a list \<Rightarrow> bool" where
  "every P xs = list_all P xs"

lemma every_simps [simp]:
  "every P [] = True"
  "every P [x1] = P x1"
  "every P [x1, x2] = (P x1 \<and> P x2)"
  "every P [x1, x2, x3] = (P x1 \<and> P x2 \<and> P x3)"
  "every P [x1, x2, x3, x4] = (P x1 \<and> P x2 \<and> P x3 \<and> P x4)"
  "every P [x1, x2, x3, x4, x5] = (P x1 \<and> P x2 \<and> P x3 \<and> P x4 \<and> P x5)"
  "every P [x1, x2, x3, x4, x5, x6] = (P x1 \<and> P x2 \<and> P x3 \<and> P x4 \<and> P x5 \<and> P x6)"
  "every P [x1, x2, x3, x4, x5, x6, x7] = (P x1 \<and> P x2 \<and> P x3 \<and> P x4 \<and> P x5 \<and> P x6 \<and> P x7)"
  "every P [x1, x2, x3, x4, x5, x6, x7, x8] = (P x1 \<and> P x2 \<and> P x3 \<and> P x4 \<and> P x5 \<and> P x6 \<and> P x7 \<and> P x8)"
  "every P [x1, x2, x3, x4, x5, x6, x7, x8, x9] = (P x1 \<and> P x2 \<and> P x3 \<and> P x4 \<and> P x5 \<and> P x6 \<and> P x7 \<and> P x8 \<and> P x9)"
  "every P [x1, x2, x3, x4, x5, x6, x7, x8, x9, x10] = (P x1 \<and> P x2 \<and> P x3 \<and> P x4 \<and> P x5 \<and> P x6 \<and> P x7 \<and> P x8 \<and> P x9 \<and> P x10)"
  "every P [x1, x2, x3, x4, x5, x6, x7, x8, x9, x10, x11] = (P x1 \<and> P x2 \<and> P x3 \<and> P x4 \<and> P x5 \<and> P x6 \<and> P x7 \<and> P x8 \<and> P x9 \<and> P x10 \<and> P x11)"
  "every P [x1, x2, x3, x4, x5, x6, x7, x8, x9, x10, x11, x12] = (P x1 \<and> P x2 \<and> P x3 \<and> P x4 \<and> P x5 \<and> P x6 \<and> P x7 \<and> P x8 \<and> P x9 \<and> P x10 \<and> P x11 \<and> P x12)"
  "every P [x1, x2, x3, x4, x5, x6, x7, x8, x9, x10, x11, x12, x13] = (P x1 \<and> P x2 \<and> P x3 \<and> P x4 \<and> P x5 \<and> P x6 \<and> P x7 \<and> P x8 \<and> P x9 \<and> P x10 \<and> P x11 \<and> P x12 \<and> P x13)"
  "every P [x1, x2, x3, x4, x5, x6, x7, x8, x9, x10, x11, x12, x13, x14] = (P x1 \<and> P x2 \<and> P x3 \<and> P x4 \<and> P x5 \<and> P x6 \<and> P x7 \<and> P x8 \<and> P x9 \<and> P x10 \<and> P x11 \<and> P x12 \<and> P x13 \<and> P x14)"
  "every P [x1, x2, x3, x4, x5, x6, x7, x8, x9, x10, x11, x12, x13, x14, x15] = (P x1 \<and> P x2 \<and> P x3 \<and> P x4 \<and> P x5 \<and> P x6 \<and> P x7 \<and> P x8 \<and> P x9 \<and> P x10 \<and> P x11 \<and> P x12 \<and> P x13 \<and> P x14 \<and> P x15)"
  "every P (x1 # x2 # x3 # x4 # x5 # x6 # x7 # x8 # x9 # x10 # x11 # x12 # x13 # x14 # x15 # x16 # xs) =
    (P x1 \<and> P x2 \<and> P x3 \<and> P x4 \<and> P x5 \<and> P x6 \<and> P x7 \<and> P x8 \<and> P x9 \<and> P x10 \<and> P x11 \<and> P x12 \<and> P x13 \<and> P x14 \<and> P x15 \<and> P x16 \<and> every P xs)"
  by (simp_all add: every_def)

lemma every_cong [cong]: "every P xs = every P xs" ..

definition group_ok :: "string list \<Rightarrow> (string \<times> string list) list \<Rightarrow> text_group \<Rightarrow> bool" where
  "group_ok G H g = every (entry_ok G H) g"

definition entry_holes :: "(string \<times> string list) list \<Rightarrow> string \<Rightarrow> string list" where
  "entry_holes H k = (case map_of H k of None \<Rightarrow> [] | Some hs \<Rightarrow> hs)"

lemma group_ok_entry:
  "group_ok G H g \<Longrightarrow> (k, Words w) \<in> set g \<Longrightarrow> k \<notin> set G \<and> dot_free k \<and> holes w = entry_holes H k"
  "group_ok G H g \<Longrightarrow> (k, Group h) \<in> set g \<Longrightarrow> k \<in> set G"
  by (fastforce simp: group_ok_def every_def list_all_iff entry_holes_def lookup_map_of among_iff split: if_splits option.splits)+

lemma known_entry:
  assumes "group_at ks (resources En) = Some g" and "js_split (\<lambda>c. c = CHR ''.'') p = ks" and ok: "group_ok G H g"
    and "(k, Words w) \<in> set g"
  shows "known_text (p @ ''.'' @ k) (holes w)"
proof -
  have k: "k \<notin> set G" "dot_free k" using group_ok_entry(1) [OF ok assms(4)] by auto
  obtain t where t: "map_of g k = Some t" using assms(4) by (cases "map_of g k") (auto simp: map_of_eq_None_iff image_iff)
  then have mem: "(k, t) \<in> set g" by (rule map_of_SomeD)
  then obtain w' where w': "t = Words w'" using group_ok_entry(2) [OF ok] k(1) by (cases t) auto
  have "js_split (\<lambda>c. c = CHR ''.'') (p @ ''.'' @ k) = ks @ [k]"
    using js_split_append [of "\<lambda>c. c = CHR ''.''" "CHR ''.''" p k] js_split_id [of k "\<lambda>c. c = CHR ''.''"] k(2) assms(2)
    by (auto simp: dot_free_iff)
  then have "text_of En (p @ ''.'' @ k) = Some w'"
    using text_at_in_group [OF assms(1), of k] by (simp add: text_of_def t w')
  moreover have "holes w' = holes w" using group_ok_entry(1) [OF ok, of k] mem assms(4) unfolding w' by metis
  ultimately show ?thesis by (auto simp: known_text_En list_all_iff)
qed

fun entry_known :: "string \<Rightarrow> string \<times> texts \<Rightarrow> bool" where
  "entry_known p (k, Words w) = known_text (key_in p k) (holes w)"
| "entry_known p (k, Group h) = True"

lemma holes_cong [cong]: "holes w = holes w" ..

lemma known_in_group:
  assumes "group_at ks (resources En) = Some g" and "js_split (\<lambda>c. c = CHR ''.'') p = ks" and "group_ok G H g" and "g = h"
  shows "every (entry_known p) h"
proof -
  have "entry_known p e" if "e \<in> set h" for e
    using known_entry [OF assms(1,2,3)] assms(4) that by (cases "(p, e)" rule: entry_known.cases) (auto simp: key_in_append)
  then show ?thesis by (simp add: every_def list_all_iff)
qed

text \<open>The first sixteen conjuncts, and the others: rules are taken out of a conjunction faster when it is not deep.\<close>

lemma head16: "A1 \<and> A2 \<and> A3 \<and> A4 \<and> A5 \<and> A6 \<and> A7 \<and> A8 \<and> A9 \<and> A10 \<and> A11 \<and> A12 \<and> A13 \<and> A14 \<and> A15 \<and> A16 \<and> R \<Longrightarrow>
    A1 \<and> A2 \<and> A3 \<and> A4 \<and> A5 \<and> A6 \<and> A7 \<and> A8 \<and> A9 \<and> A10 \<and> A11 \<and> A12 \<and> A13 \<and> A14 \<and> A15 \<and> A16" by blast
lemma tail16: "A1 \<and> A2 \<and> A3 \<and> A4 \<and> A5 \<and> A6 \<and> A7 \<and> A8 \<and> A9 \<and> A10 \<and> A11 \<and> A12 \<and> A13 \<and> A14 \<and> A15 \<and> A16 \<and> R \<Longrightarrow> R" by blast

lemma known_text_mono: "known_text k ps \<Longrightarrow> set ps \<subseteq> set qs \<Longrightarrow> known_text k qs"
  by (auto simp: known_text_En list_all_iff split: option.splits)

subsection \<open>The groups\<close>

lemma sub_auth: "lookup ''auth'' en_translation = Some (Group en_auth)"
  unfolding en_translation_def by (simp cong: same_cong lookup_cong if_weak_cong)

lemma group_auth: "group_at [''auth''] (resources En) = Some en_auth"
  by (simp add: sub_auth)

lemma ok_auth:
  "group_ok []
     [] en_auth"
  unfolding en_auth_def by (simp add: group_ok_def cong: dot_free_cong same_cong lookup_cong among_cong if_weak_cong option.case_cong_weak)

lemmas known_auth =
  known_in_group [where p = "''auth''", OF group_auth _ ok_auth en_auth_def, simplified]

lemmas texts_auth [simp] =
  known_auth

lemma sub_nav: "lookup ''nav'' en_translation = Some (Group en_nav)"
  unfolding en_translation_def by (simp cong: same_cong lookup_cong if_weak_cong)

lemma group_nav: "group_at [''nav''] (resources En) = Some en_nav"
  by (simp add: sub_nav)

lemma ok_nav:
  "group_ok []
     [] en_nav"
  unfolding en_nav_def by (simp add: group_ok_def cong: dot_free_cong same_cong lookup_cong among_cong if_weak_cong option.case_cong_weak)

lemmas known_nav =
  known_in_group [where p = "''nav''", OF group_nav _ ok_nav en_nav_def, simplified]

lemmas known_nav_1 = known_nav [THEN tail16]

lemmas texts_nav [simp] =
  known_nav [THEN head16]
  known_nav_1

lemma sub_pages: "lookup ''pages'' en_translation = Some (Group en_pages)"
  unfolding en_translation_def by (simp cong: same_cong lookup_cong if_weak_cong)

lemma group_pages: "group_at [''pages''] (resources En) = Some en_pages"
  by (simp add: sub_pages)

lemma ok_pages:
  "group_ok []
     [] en_pages"
  unfolding en_pages_def by (simp add: group_ok_def cong: dot_free_cong same_cong lookup_cong among_cong if_weak_cong option.case_cong_weak)

lemmas known_pages =
  known_in_group [where p = "''pages''", OF group_pages _ ok_pages en_pages_def, simplified]

lemmas texts_pages [simp] =
  known_pages

lemma sub_settings: "lookup ''settings'' en_translation = Some (Group en_settings)"
  unfolding en_translation_def by (simp cong: same_cong lookup_cong if_weak_cong)

lemma group_settings: "group_at [''settings''] (resources En) = Some en_settings"
  by (simp add: sub_settings)

lemma ok_settings:
  "group_ok []
     [] en_settings"
  unfolding en_settings_def by (simp add: group_ok_def cong: dot_free_cong same_cong lookup_cong among_cong if_weak_cong option.case_cong_weak)

lemmas known_settings =
  known_in_group [where p = "''settings''", OF group_settings _ ok_settings en_settings_def, simplified]

lemmas known_settings_1 = known_settings [THEN tail16]

lemmas known_settings_2 = known_settings_1 [THEN tail16]

lemmas known_settings_3 = known_settings_2 [THEN tail16]

lemmas texts_settings [simp] =
  known_settings [THEN head16]
  known_settings_1 [THEN head16]
  known_settings_2 [THEN head16]
  known_settings_3

lemma sub_common: "lookup ''common'' en_translation = Some (Group en_common)"
  unfolding en_translation_def by (simp cong: same_cong lookup_cong if_weak_cong)

lemma group_common: "group_at [''common''] (resources En) = Some en_common"
  by (simp add: sub_common)

lemma ok_common:
  "group_ok []
     [] en_common"
  unfolding en_common_def by (simp add: group_ok_def cong: dot_free_cong same_cong lookup_cong among_cong if_weak_cong option.case_cong_weak)

lemmas known_common =
  known_in_group [where p = "''common''", OF group_common _ ok_common en_common_def, simplified]

lemmas known_common_1 = known_common [THEN tail16]

lemmas texts_common [simp] =
  known_common [THEN head16]
  known_common_1

lemma sub_dashboard: "lookup ''dashboard'' en_translation = Some (Group en_dashboard)"
  unfolding en_translation_def by (simp cong: same_cong lookup_cong if_weak_cong)

lemma group_dashboard: "group_at [''dashboard''] (resources En) = Some en_dashboard"
  by (simp add: sub_dashboard)

lemma ok_dashboard:
  "group_ok []
     [] en_dashboard"
  unfolding en_dashboard_def by (simp add: group_ok_def cong: dot_free_cong same_cong lookup_cong among_cong if_weak_cong option.case_cong_weak)

lemmas known_dashboard =
  known_in_group [where p = "''dashboard''", OF group_dashboard _ ok_dashboard en_dashboard_def, simplified]

lemmas known_dashboard_1 = known_dashboard [THEN tail16]

lemmas texts_dashboard [simp] =
  known_dashboard [THEN head16]
  known_dashboard_1

lemma sub_config: "lookup ''config'' en_translation = Some (Group en_config)"
  unfolding en_translation_def by (simp cong: same_cong lookup_cong if_weak_cong)

lemma group_config: "group_at [''config''] (resources En) = Some en_config"
  by (simp add: sub_config)

lemma ok_config:
  "group_ok []
     [] en_config"
  unfolding en_config_def by (simp add: group_ok_def cong: dot_free_cong same_cong lookup_cong among_cong if_weak_cong option.case_cong_weak)

lemmas known_config =
  known_in_group [where p = "''config''", OF group_config _ ok_config en_config_def, simplified]

lemmas texts_config [simp] =
  known_config

lemma sub_proxy: "lookup ''proxy'' en_translation = Some (Group en_proxy)"
  unfolding en_translation_def by (simp cong: same_cong lookup_cong if_weak_cong)

lemma group_proxy: "group_at [''proxy''] (resources En) = Some en_proxy"
  by (simp add: sub_proxy)

lemma ok_proxy:
  "group_ok [''inbound'', ''outbound'']
     [(''deleteDescription'', [''tag''])] en_proxy"
  unfolding en_proxy_def by (simp add: group_ok_def cong: dot_free_cong same_cong lookup_cong among_cong if_weak_cong option.case_cong_weak)

lemmas known_proxy =
  known_in_group [where p = "''proxy''", OF group_proxy _ ok_proxy en_proxy_def, simplified]

lemmas known_proxy_1 = known_proxy [THEN tail16]

lemmas texts_proxy [simp] =
  known_proxy [THEN head16]
  known_proxy_1

lemma sub_proxy_inbound: "lookup ''inbound'' en_proxy = Some (Group en_proxy_inbound)"
  unfolding en_proxy_def by (simp cong: same_cong lookup_cong if_weak_cong)

lemma group_proxy_inbound: "group_at [''proxy'', ''inbound''] (resources En) = Some en_proxy_inbound"
  by (simp add: sub_proxy sub_proxy_inbound)

lemma ok_proxy_inbound:
  "group_ok [''section'']
     [] en_proxy_inbound"
  unfolding en_proxy_inbound_def by (simp add: group_ok_def cong: dot_free_cong same_cong lookup_cong among_cong if_weak_cong option.case_cong_weak)

lemmas known_proxy_inbound =
  known_in_group [where p = "''proxy.inbound''", OF group_proxy_inbound _ ok_proxy_inbound en_proxy_inbound_def, simplified]

lemmas known_proxy_inbound_1 = known_proxy_inbound [THEN tail16]

lemmas known_proxy_inbound_2 = known_proxy_inbound_1 [THEN tail16]

lemmas known_proxy_inbound_3 = known_proxy_inbound_2 [THEN tail16]

lemmas known_proxy_inbound_4 = known_proxy_inbound_3 [THEN tail16]

lemmas known_proxy_inbound_5 = known_proxy_inbound_4 [THEN tail16]

lemmas known_proxy_inbound_6 = known_proxy_inbound_5 [THEN tail16]

lemmas known_proxy_inbound_7 = known_proxy_inbound_6 [THEN tail16]

lemmas known_proxy_inbound_8 = known_proxy_inbound_7 [THEN tail16]

lemmas known_proxy_inbound_9 = known_proxy_inbound_8 [THEN tail16]

lemmas known_proxy_inbound_10 = known_proxy_inbound_9 [THEN tail16]

lemmas known_proxy_inbound_11 = known_proxy_inbound_10 [THEN tail16]

lemmas known_proxy_inbound_12 = known_proxy_inbound_11 [THEN tail16]

lemmas known_proxy_inbound_13 = known_proxy_inbound_12 [THEN tail16]

lemmas known_proxy_inbound_14 = known_proxy_inbound_13 [THEN tail16]

lemmas known_proxy_inbound_15 = known_proxy_inbound_14 [THEN tail16]

lemmas known_proxy_inbound_16 = known_proxy_inbound_15 [THEN tail16]

lemmas known_proxy_inbound_17 = known_proxy_inbound_16 [THEN tail16]

lemmas texts_proxy_inbound [simp] =
  known_proxy_inbound [THEN head16]
  known_proxy_inbound_1 [THEN head16]
  known_proxy_inbound_2 [THEN head16]
  known_proxy_inbound_3 [THEN head16]
  known_proxy_inbound_4 [THEN head16]
  known_proxy_inbound_5 [THEN head16]
  known_proxy_inbound_6 [THEN head16]
  known_proxy_inbound_7 [THEN head16]
  known_proxy_inbound_8 [THEN head16]
  known_proxy_inbound_9 [THEN head16]
  known_proxy_inbound_10 [THEN head16]
  known_proxy_inbound_11 [THEN head16]
  known_proxy_inbound_12 [THEN head16]
  known_proxy_inbound_13 [THEN head16]
  known_proxy_inbound_14 [THEN head16]
  known_proxy_inbound_15 [THEN head16]
  known_proxy_inbound_16 [THEN head16]
  known_proxy_inbound_17

lemma sub_proxy_inbound_section: "lookup ''section'' en_proxy_inbound = Some (Group en_proxy_inbound_section)"
  unfolding en_proxy_inbound_def by (simp cong: same_cong lookup_cong if_weak_cong)

lemma group_proxy_inbound_section: "group_at [''proxy'', ''inbound'', ''section''] (resources En) = Some en_proxy_inbound_section"
  by (simp add: sub_proxy sub_proxy_inbound sub_proxy_inbound_section)

lemma ok_proxy_inbound_section:
  "group_ok []
     [] en_proxy_inbound_section"
  unfolding en_proxy_inbound_section_def by (simp add: group_ok_def cong: dot_free_cong same_cong lookup_cong among_cong if_weak_cong option.case_cong_weak)

lemmas known_proxy_inbound_section =
  known_in_group [where p = "''proxy.inbound.section''", OF group_proxy_inbound_section _ ok_proxy_inbound_section en_proxy_inbound_section_def, simplified]

lemmas known_proxy_inbound_section_1 = known_proxy_inbound_section [THEN tail16]

lemmas texts_proxy_inbound_section [simp] =
  known_proxy_inbound_section [THEN head16]
  known_proxy_inbound_section_1

lemma sub_proxy_outbound: "lookup ''outbound'' en_proxy = Some (Group en_proxy_outbound)"
  unfolding en_proxy_def by (simp cong: same_cong lookup_cong if_weak_cong)

lemma group_proxy_outbound: "group_at [''proxy'', ''outbound''] (resources En) = Some en_proxy_outbound"
  by (simp add: sub_proxy sub_proxy_outbound)

lemma ok_proxy_outbound:
  "group_ok [''section'']
     [(''members'', [''members'']), (''detourSummary'', [''detour''])] en_proxy_outbound"
  unfolding en_proxy_outbound_def by (simp add: group_ok_def cong: dot_free_cong same_cong lookup_cong among_cong if_weak_cong option.case_cong_weak)

lemmas known_proxy_outbound =
  known_in_group [where p = "''proxy.outbound''", OF group_proxy_outbound _ ok_proxy_outbound en_proxy_outbound_def, simplified]

lemmas known_proxy_outbound_1 = known_proxy_outbound [THEN tail16]

lemmas known_proxy_outbound_2 = known_proxy_outbound_1 [THEN tail16]

lemmas known_proxy_outbound_3 = known_proxy_outbound_2 [THEN tail16]

lemmas known_proxy_outbound_4 = known_proxy_outbound_3 [THEN tail16]

lemmas known_proxy_outbound_5 = known_proxy_outbound_4 [THEN tail16]

lemmas known_proxy_outbound_6 = known_proxy_outbound_5 [THEN tail16]

lemmas known_proxy_outbound_7 = known_proxy_outbound_6 [THEN tail16]

lemmas known_proxy_outbound_8 = known_proxy_outbound_7 [THEN tail16]

lemmas known_proxy_outbound_9 = known_proxy_outbound_8 [THEN tail16]

lemmas known_proxy_outbound_10 = known_proxy_outbound_9 [THEN tail16]

lemmas known_proxy_outbound_11 = known_proxy_outbound_10 [THEN tail16]

lemmas texts_proxy_outbound [simp] =
  known_proxy_outbound [THEN head16]
  known_proxy_outbound_1 [THEN head16]
  known_proxy_outbound_2 [THEN head16]
  known_proxy_outbound_3 [THEN head16]
  known_proxy_outbound_4 [THEN head16]
  known_proxy_outbound_5 [THEN head16]
  known_proxy_outbound_6 [THEN head16]
  known_proxy_outbound_7 [THEN head16]
  known_proxy_outbound_8 [THEN head16]
  known_proxy_outbound_9 [THEN head16]
  known_proxy_outbound_10 [THEN head16]
  known_proxy_outbound_11

lemma sub_proxy_outbound_section: "lookup ''section'' en_proxy_outbound = Some (Group en_proxy_outbound_section)"
  unfolding en_proxy_outbound_def by (simp cong: same_cong lookup_cong if_weak_cong)

lemma group_proxy_outbound_section: "group_at [''proxy'', ''outbound'', ''section''] (resources En) = Some en_proxy_outbound_section"
  by (simp add: sub_proxy sub_proxy_outbound sub_proxy_outbound_section)

lemma ok_proxy_outbound_section:
  "group_ok []
     [] en_proxy_outbound_section"
  unfolding en_proxy_outbound_section_def by (simp add: group_ok_def cong: dot_free_cong same_cong lookup_cong among_cong if_weak_cong option.case_cong_weak)

lemmas known_proxy_outbound_section =
  known_in_group [where p = "''proxy.outbound.section''", OF group_proxy_outbound_section _ ok_proxy_outbound_section en_proxy_outbound_section_def, simplified]

lemmas texts_proxy_outbound_section [simp] =
  known_proxy_outbound_section

lemma sub_policy: "lookup ''policy'' en_translation = Some (Group en_policy)"
  unfolding en_translation_def by (simp cong: same_cong lookup_cong if_weak_cong)

lemma group_policy: "group_at [''policy''] (resources En) = Some en_policy"
  by (simp add: sub_policy)

lemma ok_policy:
  "group_ok [''route'', ''dns'']
     [] en_policy"
  unfolding en_policy_def by (simp add: group_ok_def cong: dot_free_cong same_cong lookup_cong among_cong if_weak_cong option.case_cong_weak)

lemmas known_policy =
  known_in_group [where p = "''policy''", OF group_policy _ ok_policy en_policy_def, simplified]

lemmas texts_policy [simp] =
  known_policy

lemma sub_policy_route: "lookup ''route'' en_policy = Some (Group en_policy_route)"
  unfolding en_policy_def by (simp cong: same_cong lookup_cong if_weak_cong)

lemma group_policy_route: "group_at [''policy'', ''route''] (resources En) = Some en_policy_route"
  by (simp add: sub_policy sub_policy_route)

lemma ok_policy_route:
  "group_ok [''section'']
     [(''rulesCount'', [''count'']), (''ruleSetsCount'', [''count'']), (''updateRuleSet'', [''tag'']), (''intervalBadge'', [''interval'']),
      (''lastUpdated'', [''time'']), (''ruleSetUpdateSuccess'', [''updated'']), (''ruleSetUpdatePartial'', [''updated'', ''failed'']),
      (''ruleSetUpdateFailed'', [''failed'']), (''ruleCardTitle'', [''index'']), (''editRule'', [''index'']), (''copyRule'', [''index'']),
      (''moveRuleUp'', [''index'']), (''moveRuleDown'', [''index'']), (''deleteRule'', [''index'']), (''moreRuleActions'', [''index'']),
      (''editRuleSet'', [''tag'']), (''copyRuleSet'', [''tag'']), (''deleteRuleSet'', [''tag'']), (''moreRuleSetActions'', [''tag'']),
      (''deleteRuleTitle'', [''index'']), (''deleteRuleSetTitle'', [''tag'']), (''editRuleTitle'', [''index'']), (''advancedJSONLabel'', [''title''])] en_policy_route"
  unfolding en_policy_route_def by (simp add: group_ok_def cong: dot_free_cong same_cong lookup_cong among_cong if_weak_cong option.case_cong_weak)

lemmas known_policy_route =
  known_in_group [where p = "''policy.route''", OF group_policy_route _ ok_policy_route en_policy_route_def, simplified]

lemmas known_policy_route_1 = known_policy_route [THEN tail16]

lemmas known_policy_route_2 = known_policy_route_1 [THEN tail16]

lemmas known_policy_route_3 = known_policy_route_2 [THEN tail16]

lemmas known_policy_route_4 = known_policy_route_3 [THEN tail16]

lemmas known_policy_route_5 = known_policy_route_4 [THEN tail16]

lemmas known_policy_route_6 = known_policy_route_5 [THEN tail16]

lemmas known_policy_route_7 = known_policy_route_6 [THEN tail16]

lemmas known_policy_route_8 = known_policy_route_7 [THEN tail16]

lemmas known_policy_route_9 = known_policy_route_8 [THEN tail16]

lemmas known_policy_route_10 = known_policy_route_9 [THEN tail16]

lemmas known_policy_route_11 = known_policy_route_10 [THEN tail16]

lemmas known_policy_route_12 = known_policy_route_11 [THEN tail16]

lemmas known_policy_route_13 = known_policy_route_12 [THEN tail16]

lemmas texts_policy_route [simp] =
  known_policy_route [THEN head16]
  known_policy_route_1 [THEN head16]
  known_policy_route_2 [THEN head16]
  known_policy_route_3 [THEN head16]
  known_policy_route_4 [THEN head16]
  known_policy_route_5 [THEN head16]
  known_policy_route_6 [THEN head16]
  known_policy_route_7 [THEN head16]
  known_policy_route_8 [THEN head16]
  known_policy_route_9 [THEN head16]
  known_policy_route_10 [THEN head16]
  known_policy_route_11 [THEN head16]
  known_policy_route_12 [THEN head16]
  known_policy_route_13

lemma sub_policy_route_section: "lookup ''section'' en_policy_route = Some (Group en_policy_route_section)"
  unfolding en_policy_route_def by (simp cong: same_cong lookup_cong if_weak_cong)

lemma group_policy_route_section: "group_at [''policy'', ''route'', ''section''] (resources En) = Some en_policy_route_section"
  by (simp add: sub_policy sub_policy_route sub_policy_route_section)

lemma ok_policy_route_section:
  "group_ok []
     [] en_policy_route_section"
  unfolding en_policy_route_section_def by (simp add: group_ok_def cong: dot_free_cong same_cong lookup_cong among_cong if_weak_cong option.case_cong_weak)

lemmas known_policy_route_section =
  known_in_group [where p = "''policy.route.section''", OF group_policy_route_section _ ok_policy_route_section en_policy_route_section_def, simplified]

lemmas texts_policy_route_section [simp] =
  known_policy_route_section

lemma sub_policy_dns: "lookup ''dns'' en_policy = Some (Group en_policy_dns)"
  unfolding en_policy_def by (simp cong: same_cong lookup_cong if_weak_cong)

lemma group_policy_dns: "group_at [''policy'', ''dns''] (resources En) = Some en_policy_dns"
  by (simp add: sub_policy sub_policy_dns)

lemma ok_policy_dns:
  "group_ok [''section'']
     [(''serversCount'', [''count'']), (''rulesCount'', [''count'']), (''serverCardType'', [''type'']), (''ruleCardTitle'', [''index'']),
      (''editServer'', [''tag'']), (''copyServer'', [''tag'']), (''deleteServer'', [''tag'']), (''moreServerActions'', [''tag'']),
      (''editRule'', [''index'']), (''copyRule'', [''index'']), (''moveRuleUp'', [''index'']), (''moveRuleDown'', [''index'']),
      (''deleteRule'', [''index'']), (''moreRuleActions'', [''index'']), (''deleteServerTitle'', [''tag'']), (''deleteRuleTitle'', [''index'']),
      (''editRuleTitle'', [''index'']), (''advancedJSONLabel'', [''title'']), (''summaryTag'', [''value'']), (''summaryDetour'', [''value'']),
      (''summaryStrategy'', [''value'']), (''summaryPath'', [''value'']), (''summaryPredefined'', [''count'']), (''summaryIPv4'', [''value'']),
      (''summaryIPv6'', [''value'']), (''summaryLogicalMode'', [''value''])] en_policy_dns"
  unfolding en_policy_dns_def by (simp add: group_ok_def cong: dot_free_cong same_cong lookup_cong among_cong if_weak_cong option.case_cong_weak)

lemmas known_policy_dns =
  known_in_group [where p = "''policy.dns''", OF group_policy_dns _ ok_policy_dns en_policy_dns_def, simplified]

lemmas known_policy_dns_1 = known_policy_dns [THEN tail16]

lemmas known_policy_dns_2 = known_policy_dns_1 [THEN tail16]

lemmas known_policy_dns_3 = known_policy_dns_2 [THEN tail16]

lemmas known_policy_dns_4 = known_policy_dns_3 [THEN tail16]

lemmas known_policy_dns_5 = known_policy_dns_4 [THEN tail16]

lemmas known_policy_dns_6 = known_policy_dns_5 [THEN tail16]

lemmas known_policy_dns_7 = known_policy_dns_6 [THEN tail16]

lemmas known_policy_dns_8 = known_policy_dns_7 [THEN tail16]

lemmas known_policy_dns_9 = known_policy_dns_8 [THEN tail16]

lemmas known_policy_dns_10 = known_policy_dns_9 [THEN tail16]

lemmas known_policy_dns_11 = known_policy_dns_10 [THEN tail16]

lemmas known_policy_dns_12 = known_policy_dns_11 [THEN tail16]

lemmas texts_policy_dns [simp] =
  known_policy_dns [THEN head16]
  known_policy_dns_1 [THEN head16]
  known_policy_dns_2 [THEN head16]
  known_policy_dns_3 [THEN head16]
  known_policy_dns_4 [THEN head16]
  known_policy_dns_5 [THEN head16]
  known_policy_dns_6 [THEN head16]
  known_policy_dns_7 [THEN head16]
  known_policy_dns_8 [THEN head16]
  known_policy_dns_9 [THEN head16]
  known_policy_dns_10 [THEN head16]
  known_policy_dns_11 [THEN head16]
  known_policy_dns_12

lemma sub_policy_dns_section: "lookup ''section'' en_policy_dns = Some (Group en_policy_dns_section)"
  unfolding en_policy_dns_def by (simp cong: same_cong lookup_cong if_weak_cong)

lemma group_policy_dns_section: "group_at [''policy'', ''dns'', ''section''] (resources En) = Some en_policy_dns_section"
  by (simp add: sub_policy sub_policy_dns sub_policy_dns_section)

lemma ok_policy_dns_section:
  "group_ok []
     [] en_policy_dns_section"
  unfolding en_policy_dns_section_def by (simp add: group_ok_def cong: dot_free_cong same_cong lookup_cong among_cong if_weak_cong option.case_cong_weak)

lemmas known_policy_dns_section =
  known_in_group [where p = "''policy.dns.section''", OF group_policy_dns_section _ ok_policy_dns_section en_policy_dns_section_def, simplified]

lemmas texts_policy_dns_section [simp] =
  known_policy_dns_section

lemma sub_nodes: "lookup ''nodes'' en_translation = Some (Group en_nodes)"
  unfolding en_translation_def by (simp cong: same_cong lookup_cong if_weak_cong)

lemma group_nodes: "group_at [''nodes''] (resources En) = Some en_nodes"
  by (simp add: sub_nodes)

lemma ok_nodes:
  "group_ok []
     [(''nodeCount'', [''count'']), (''runURLTest'', [''group''])] en_nodes"
  unfolding en_nodes_def by (simp add: group_ok_def cong: dot_free_cong same_cong lookup_cong among_cong if_weak_cong option.case_cong_weak)

lemmas known_nodes =
  known_in_group [where p = "''nodes''", OF group_nodes _ ok_nodes en_nodes_def, simplified]

lemmas known_nodes_1 = known_nodes [THEN tail16]

lemmas known_nodes_2 = known_nodes_1 [THEN tail16]

lemmas texts_nodes [simp] =
  known_nodes [THEN head16]
  known_nodes_1 [THEN head16]
  known_nodes_2

lemma sub_subscriptions: "lookup ''subscriptions'' en_translation = Some (Group en_subscriptions)"
  unfolding en_translation_def by (simp cong: same_cong lookup_cong if_weak_cong)

lemma group_subscriptions: "group_at [''subscriptions''] (resources En) = Some en_subscriptions"
  by (simp add: sub_subscriptions)

lemma ok_subscriptions:
  "group_ok []
     [(''nodeCount'', [''count''])] en_subscriptions"
  unfolding en_subscriptions_def by (simp add: group_ok_def cong: dot_free_cong same_cong lookup_cong among_cong if_weak_cong option.case_cong_weak)

lemmas known_subscriptions =
  known_in_group [where p = "''subscriptions''", OF group_subscriptions _ ok_subscriptions en_subscriptions_def, simplified]

lemmas known_subscriptions_1 = known_subscriptions [THEN tail16]

lemmas known_subscriptions_2 = known_subscriptions_1 [THEN tail16]

lemmas texts_subscriptions [simp] =
  known_subscriptions [THEN head16]
  known_subscriptions_1 [THEN head16]
  known_subscriptions_2

lemma sub_observability: "lookup ''observability'' en_translation = Some (Group en_observability)"
  unfolding en_translation_def by (simp cong: same_cong lookup_cong if_weak_cong)

lemma group_observability: "group_at [''observability''] (resources En) = Some en_observability"
  by (simp add: sub_observability)

lemma ok_observability:
  "group_ok []
     [] en_observability"
  unfolding en_observability_def by (simp add: group_ok_def cong: dot_free_cong same_cong lookup_cong among_cong if_weak_cong option.case_cong_weak)

lemmas known_observability =
  known_in_group [where p = "''observability''", OF group_observability _ ok_observability en_observability_def, simplified]

lemmas known_observability_1 = known_observability [THEN tail16]

lemmas texts_observability [simp] =
  known_observability [THEN head16]
  known_observability_1

lemma sub_advanced: "lookup ''advanced'' en_translation = Some (Group en_advanced)"
  unfolding en_translation_def by (simp cong: same_cong lookup_cong if_weak_cong)

lemma group_advanced: "group_at [''advanced''] (resources En) = Some en_advanced"
  by (simp add: sub_advanced)

lemma ok_advanced:
  "group_ok [''endpoints'', ''experimental'']
     [] en_advanced"
  unfolding en_advanced_def by (simp add: group_ok_def cong: dot_free_cong same_cong lookup_cong among_cong if_weak_cong option.case_cong_weak)

lemmas known_advanced =
  known_in_group [where p = "''advanced''", OF group_advanced _ ok_advanced en_advanced_def, simplified]

lemmas known_advanced_1 = known_advanced [THEN tail16]

lemmas texts_advanced [simp] =
  known_advanced [THEN head16]
  known_advanced_1

lemma sub_advanced_endpoints: "lookup ''endpoints'' en_advanced = Some (Group en_advanced_endpoints)"
  unfolding en_advanced_def by (simp cong: same_cong lookup_cong if_weak_cong)

lemma group_advanced_endpoints: "group_at [''advanced'', ''endpoints''] (resources En) = Some en_advanced_endpoints"
  by (simp add: sub_advanced sub_advanced_endpoints)

lemma ok_advanced_endpoints:
  "group_ok [''section'']
     [(''count'', [''count'']), (''peerCount'', [''count'']), (''deleteDescription'', [''tag''])] en_advanced_endpoints"
  unfolding en_advanced_endpoints_def by (simp add: group_ok_def cong: dot_free_cong same_cong lookup_cong among_cong if_weak_cong option.case_cong_weak)

lemmas known_advanced_endpoints =
  known_in_group [where p = "''advanced.endpoints''", OF group_advanced_endpoints _ ok_advanced_endpoints en_advanced_endpoints_def, simplified]

lemmas known_advanced_endpoints_1 = known_advanced_endpoints [THEN tail16]

lemmas known_advanced_endpoints_2 = known_advanced_endpoints_1 [THEN tail16]

lemmas known_advanced_endpoints_3 = known_advanced_endpoints_2 [THEN tail16]

lemmas known_advanced_endpoints_4 = known_advanced_endpoints_3 [THEN tail16]

lemmas known_advanced_endpoints_5 = known_advanced_endpoints_4 [THEN tail16]

lemmas known_advanced_endpoints_6 = known_advanced_endpoints_5 [THEN tail16]

lemmas known_advanced_endpoints_7 = known_advanced_endpoints_6 [THEN tail16]

lemmas texts_advanced_endpoints [simp] =
  known_advanced_endpoints [THEN head16]
  known_advanced_endpoints_1 [THEN head16]
  known_advanced_endpoints_2 [THEN head16]
  known_advanced_endpoints_3 [THEN head16]
  known_advanced_endpoints_4 [THEN head16]
  known_advanced_endpoints_5 [THEN head16]
  known_advanced_endpoints_6 [THEN head16]
  known_advanced_endpoints_7

lemma sub_advanced_endpoints_section: "lookup ''section'' en_advanced_endpoints = Some (Group en_advanced_endpoints_section)"
  unfolding en_advanced_endpoints_def by (simp cong: same_cong lookup_cong if_weak_cong)

lemma group_advanced_endpoints_section: "group_at [''advanced'', ''endpoints'', ''section''] (resources En) = Some en_advanced_endpoints_section"
  by (simp add: sub_advanced sub_advanced_endpoints sub_advanced_endpoints_section)

lemma ok_advanced_endpoints_section:
  "group_ok []
     [] en_advanced_endpoints_section"
  unfolding en_advanced_endpoints_section_def by (simp add: group_ok_def cong: dot_free_cong same_cong lookup_cong among_cong if_weak_cong option.case_cong_weak)

lemmas known_advanced_endpoints_section =
  known_in_group [where p = "''advanced.endpoints.section''", OF group_advanced_endpoints_section _ ok_advanced_endpoints_section en_advanced_endpoints_section_def, simplified]

lemmas texts_advanced_endpoints_section [simp] =
  known_advanced_endpoints_section

lemma sub_advanced_experimental: "lookup ''experimental'' en_advanced = Some (Group en_advanced_experimental)"
  unfolding en_advanced_def by (simp cong: same_cong lookup_cong if_weak_cong)

lemma group_advanced_experimental: "group_at [''advanced'', ''experimental''] (resources En) = Some en_advanced_experimental"
  by (simp add: sub_advanced sub_advanced_experimental)

lemma ok_advanced_experimental:
  "group_ok []
     [] en_advanced_experimental"
  unfolding en_advanced_experimental_def by (simp add: group_ok_def cong: dot_free_cong same_cong lookup_cong among_cong if_weak_cong option.case_cong_weak)

lemmas known_advanced_experimental =
  known_in_group [where p = "''advanced.experimental''", OF group_advanced_experimental _ ok_advanced_experimental en_advanced_experimental_def, simplified]

lemmas known_advanced_experimental_1 = known_advanced_experimental [THEN tail16]

lemmas known_advanced_experimental_2 = known_advanced_experimental_1 [THEN tail16]

lemmas known_advanced_experimental_3 = known_advanced_experimental_2 [THEN tail16]

lemmas texts_advanced_experimental [simp] =
  known_advanced_experimental [THEN head16]
  known_advanced_experimental_1 [THEN head16]
  known_advanced_experimental_2 [THEN head16]
  known_advanced_experimental_3

end
