(* ===== verification/View.thy ===== *)
theory View
  imports Text_Keys
begin

text \<open>
  What a component shows: the tree of elements its render function gives. An element has a tag, attributes
  and children; texts of the panel stand in the tree by key, with the values given for their holes (\<open>Tr k names values\<close>), and
  single characters beyond those of strings by their code (\<open>Sym\<close>). Left out are
  class names and styles, icons, and event handlers, which the theories of the components model as
  functions on their states. An attribute that is \<open>false\<close> or \<open>undefined\<close> is \<open>Flag False\<close>.
\<close>

datatype label = Tr string "string list" "label list" | Str string | Sym nat | Cat "label list"

datatype attr = Lab label | Flag bool | Val string | Chosen "string option" | Choices "(string option \<times> label) list"

datatype view = Txt label | El string "(string \<times> attr) list" "view list"

definition tr :: "string \<Rightarrow> label" where
  "tr k = Tr k [] []"

definition tr1 :: "string \<Rightarrow> string \<Rightarrow> label \<Rightarrow> label" where
  "tr1 k hole l = Tr k [hole] [l]"

definition when_view :: "bool \<Rightarrow> view \<Rightarrow> view list" where
  "when_view b v = (if b then [v] else [])"

definition option_view :: "('a \<Rightarrow> view) \<Rightarrow> 'a option \<Rightarrow> view list" where
  "option_view f x = (case x of None \<Rightarrow> [] | Some a \<Rightarrow> [f a])"

definition text_el :: "string \<Rightarrow> label \<Rightarrow> view" where
  "text_el tag l = El tag [] [Txt l]"

text \<open>An element around a text, and a select with its items: the pattern of every select of the panel.\<close>

definition select_item :: "string option \<times> label \<Rightarrow> view" where
  "select_item item = El ''SelectItem'' [(''value'', Chosen (fst item))] [Txt (snd item)]"

definition select_view :: "(string \<times> attr) list \<Rightarrow> string option \<Rightarrow> (string option \<times> label) list \<Rightarrow> (string \<times> attr) list \<Rightarrow>
    (string option \<times> label) list \<Rightarrow> view" where
  "select_view attrs value items trigger shown =
     El ''Select'' ([(''items'', Choices items), (''value'', Chosen value)] @ attrs)
       [El ''SelectTrigger'' trigger [El ''SelectValue'' [] []],
        El ''SelectContent'' [] [El ''SelectGroup'' [] (map select_item shown)]]"

definition type_select :: "string \<Rightarrow> string \<Rightarrow> string \<Rightarrow> string list \<Rightarrow> view" where
  "type_select ident key current options =
     (let items = map (\<lambda>v. (Some v, Str v)) options
      in El ''Field'' [] [El ''FieldLabel'' [(''htmlFor'', Val ident)] [Txt (tr key)],
           select_view [] (Some current) items [(''id'', Val ident), (''aria-label'', Lab (tr key))] items])"

definition tab_trigger :: "string \<times> string \<Rightarrow> view" where
  "tab_trigger tab = El ''TabsTrigger'' [(''value'', Val (fst tab))] [Txt (tr (snd tab))]"

definition tab_content :: "string \<Rightarrow> view list \<Rightarrow> view" where
  "tab_content v vs = El ''TabsContent'' [(''value'', Val v)] vs"

definition tabs_view :: "string \<Rightarrow> (string \<times> string) list \<Rightarrow> view list \<Rightarrow> view" where
  "tabs_view initial triggers contents =
     El ''Tabs'' [(''defaultValue'', Val initial)] (El ''TabsList'' [] (map tab_trigger triggers) # contents)"

definition alert_view :: "bool \<Rightarrow> label \<Rightarrow> label \<Rightarrow> view" where
  "alert_view destructive title description =
     El ''Alert'' (if destructive then [(''variant'', Val ''destructive'')] else [])
       [text_el ''AlertTitle'' title, text_el ''AlertDescription'' description]"

definition button_view :: "(string \<times> attr) list \<Rightarrow> label \<Rightarrow> view" where
  "button_view attrs l = El ''Button'' attrs [Txt l]"

subsection \<open>The texts of a tree\<close>

text \<open>Every text of the tree, in content or attributes, is known and has the values it needs.\<close>

fun label_known :: "label \<Rightarrow> bool" where
  "label_known (Tr k given ls) = (known_text k given \<and> list_all label_known ls)"
| "label_known (Str s) = True"
| "label_known (Sym c) = True"
| "label_known (Cat ls) = list_all label_known ls"

definition items_known :: "(string option \<times> label) list \<Rightarrow> bool" where
  "items_known items = list_all (\<lambda>item. label_known (snd item)) items"

lemma items_known_simps [simp]:
  "items_known []" "items_known ((v, l) # items) = (label_known l \<and> items_known items)"
  "items_known (xs @ ys) = (items_known xs \<and> items_known ys)"
  "items_known (map f zs) = list_all (\<lambda>z. label_known (snd (f z))) zs"
  by (simp_all add: items_known_def list.pred_map o_def)

fun attr_known :: "attr \<Rightarrow> bool" where
  "attr_known (Lab l) = label_known l"
| "attr_known (Choices items) = items_known items"
| "attr_known _ = True"

definition attrs_known :: "(string \<times> attr) list \<Rightarrow> bool" where
  "attrs_known attrs = list_all (\<lambda>a. attr_known (snd a)) attrs"

lemma attrs_known_simps [simp]:
  "attrs_known []" "attrs_known ((n, a) # attrs) = (attr_known a \<and> attrs_known attrs)"
  "attrs_known (xs @ ys) = (attrs_known xs \<and> attrs_known ys)"
  by (simp_all add: attrs_known_def)

primrec translated :: "view \<Rightarrow> bool" where
  "translated (Txt l) = label_known l"
| "translated (El tag attrs vs) = (attrs_known attrs \<and> list_all id (map translated vs))"

lemma translated_El [simp]:
  "translated (El tag attrs vs) = (attrs_known attrs \<and> list_all translated vs)"
  by (simp add: list.pred_map)

declare translated.simps(2) [simp del]

lemma label_known_tr [simp]: "label_known (tr k) = known_text k []" "label_known (tr1 k hole l) = (known_text k [hole] \<and> label_known l)"
  by (simp_all add: tr_def tr1_def)

lemma translated_parts [simp]:
  "list_all translated (when_view b v) = (b \<longrightarrow> translated v)"
  "translated (text_el tag l) = label_known l"
  "translated (select_item item) = label_known (snd item)"
  "translated (select_view attrs value items trigger shown) =
     (items_known items \<and> attrs_known attrs \<and> attrs_known trigger \<and> items_known shown)"
  "translated (type_select ident key current options) = known_text key []"
  "translated (tab_trigger tab) = known_text (snd tab) []"
  "translated (tab_content w vs) = list_all translated vs"
  "translated (tabs_view w tabs vs) = (list_all (\<lambda>tab. known_text (snd tab) []) tabs \<and> list_all translated vs)"
  "translated (alert_view destructive l m) = (label_known l \<and> label_known m)"
  "translated (button_view attrs l) = (attrs_known attrs \<and> label_known l)"
  by (simp_all add: when_view_def option_view_def text_el_def select_item_def select_view_def list.pred_map o_def type_select_def
      tab_trigger_def tab_content_def tabs_view_def alert_view_def button_view_def Let_def items_known_def list_all_iff)

lemma translated_option [simp]: "list_all translated (option_view f x) = (case x of None \<Rightarrow> True | Some a \<Rightarrow> translated (f a))"
  by (simp add: option_view_def split: option.split)

lemma translated_map [simp]: "list_all translated (map f xs) = (\<forall>x\<in>set xs. translated (f x))"
  by (simp add: list_all_iff)

lemma translated_concat [simp]: "list_all translated (concat xss) = (\<forall>xs\<in>set xss. list_all translated xs)"
  by (auto simp: list_all_iff)

lemma in_enumerate: "p \<in> set (enumerate n xs) \<Longrightarrow> snd p \<in> set xs"
  by (metis map_snd_enumerate image_eqI list.set_map)

lemma translated_enumerate [simp]:
  "(\<And>i x. x \<in> set xs \<Longrightarrow> translated (f i x)) \<Longrightarrow> list_all translated (map (\<lambda>(i, x). f i x) (enumerate n xs))"
  by (auto dest: in_enumerate)

subsection \<open>The controls of a tree\<close>

text \<open>The elements with a tag, in the order of the tree, and whether a flag is set.\<close>

primrec elements :: "string \<Rightarrow> view \<Rightarrow> ((string \<times> attr) list \<times> view list) list" where
  "elements tag (Txt l) = []"
| "elements tag (El t attrs vs) = (if t = tag then [(attrs, vs)] else []) @ concat (map (elements tag) vs)"

definition flagged :: "string \<Rightarrow> (string \<times> attr) list \<Rightarrow> bool" where
  "flagged name attrs \<longleftrightarrow> map_of attrs name = Some (Flag True)"

text \<open>The disabled flags of the elements with a tag that say a text.\<close>

definition says :: "label \<Rightarrow> view list \<Rightarrow> bool" where
  "says l vs \<longleftrightarrow> Txt l \<in> set vs"

definition disabled_of :: "string \<Rightarrow> label \<Rightarrow> view \<Rightarrow> bool list" where
  "disabled_of tag l v = map (\<lambda>(attrs, vs). flagged ''disabled'' attrs) (filter (\<lambda>(attrs, vs). says l vs) (elements tag v))"

text \<open>The keys given to the children of an element, which tell them apart between renders.\<close>

definition child_keys :: "view list \<Rightarrow> string list" where
  "child_keys vs = concat (map (\<lambda>v. case v of El t attrs _ \<Rightarrow> (case map_of attrs ''key'' of Some (Val k) \<Rightarrow> [k] | _ \<Rightarrow> []) | Txt _ \<Rightarrow> []) vs)"

end
