(* ===== verification/Sidebar_Kit.thy ===== *)
theory Sidebar_Kit
  imports View App_Shell
begin

text \<open>
  The sidebar of the shell, \<open>components/ui/sidebar.tsx\<close>, with the narrow-window hook it rests on, \<open>hooks/use-mobile.ts\<close>:
  the state the provider keeps, the cookie it writes and its keyboard shortcut.
\<close>

subsection \<open>Narrow windows\<close>

text \<open>
  The hook reads the width once, and again whenever the media query for a width of at most 767 changes.
  Widths are whole pixels; the listener is taken to be there from the first render.
\<close>

definition mobile_breakpoint :: nat where
  "mobile_breakpoint = 768"

record narrow_window =
  nw_width :: nat
  nw_matches :: bool
  nw_isMobile :: bool

definition narrow_init :: "nat \<Rightarrow> narrow_window" where
  "narrow_init width = \<lparr>nw_width = width, nw_matches = (width \<le> mobile_breakpoint - 1), nw_isMobile = (width < mobile_breakpoint)\<rparr>"

definition narrow_resize :: "nat \<Rightarrow> narrow_window \<Rightarrow> narrow_window" where
  "narrow_resize width w =
     (let matches = (width \<le> mobile_breakpoint - 1)
      in w\<lparr>nw_width := width, nw_matches := matches,
           nw_isMobile := (if matches \<noteq> nw_matches w then width < mobile_breakpoint else nw_isMobile w)\<rparr>)"

definition narrow_ok :: "narrow_window \<Rightarrow> bool" where
  "narrow_ok w \<longleftrightarrow> nw_isMobile w = (nw_width w < 768) \<and> nw_matches w = (nw_width w < 768)"

lemma narrow_ok_kept: "narrow_ok (narrow_init width)" "narrow_ok w \<Longrightarrow> narrow_ok (narrow_resize width w)"
  by (auto simp: narrow_ok_def narrow_init_def narrow_resize_def mobile_breakpoint_def Let_def)

subsection \<open>The provider\<close>

text \<open>
  The component may be controlled from outside, by a value and by a handler. The callbacks use the values of the last
  render, which the state keeps apart: \<open>sk_shown\<close> and \<open>sk_shownMobile\<close>.
\<close>

record sidebar_props =
  sq_defaultOpen :: bool
  sq_open :: "bool option"
  sq_handled :: bool

record sidebar =
  sk_open :: bool
  sk_openMobile :: bool
  sk_cookie :: "string option"
  sk_window :: narrow_window
  sk_shown :: bool
  sk_shownMobile :: bool

definition sidebar_isOpen :: "sidebar_props \<Rightarrow> sidebar \<Rightarrow> bool" where
  "sidebar_isOpen props st = (case sq_open props of Some b \<Rightarrow> b | None \<Rightarrow> sk_open st)"

definition sidebar_render :: "sidebar_props \<Rightarrow> sidebar \<Rightarrow> sidebar" where
  "sidebar_render props st = st\<lparr>sk_shown := sidebar_isOpen props st, sk_shownMobile := nw_isMobile (sk_window st)\<rparr>"

text \<open>A load of the page, with the cookie an earlier visit left: nothing reads it.\<close>

definition sidebar_load :: "sidebar_props \<Rightarrow> string option \<Rightarrow> nat \<Rightarrow> sidebar" where
  "sidebar_load props cookie width =
     sidebar_render props \<lparr>sk_open = sq_defaultOpen props, sk_openMobile = False, sk_cookie = cookie, sk_window = narrow_init width,
       sk_shown = False, sk_shownMobile = False\<rparr>"

definition bool_text :: "bool \<Rightarrow> string" where
  "bool_text b = (if b then ''true'' else ''false'')"

definition sidebar_cookie :: "bool \<Rightarrow> string" where
  "sidebar_cookie openState = ''sidebar_state='' @ bool_text openState @ ''; path=/; max-age='' @ digits_of (60 * 60 * 24 * 7)"

datatype set_value = SetTo bool | SetBy "bool \<Rightarrow> bool"

text \<open>The state, and what the handler from outside is told.\<close>

definition sidebar_setOpen :: "sidebar_props \<Rightarrow> set_value \<Rightarrow> sidebar \<Rightarrow> sidebar \<times> bool option" where
  "sidebar_setOpen props value st =
     (let openState = (case value of SetTo b \<Rightarrow> b | SetBy f \<Rightarrow> f (sk_shown st));
          st' = (if sq_handled props then st else st\<lparr>sk_open := openState\<rparr>)
      in (st'\<lparr>sk_cookie := Some (sidebar_cookie openState)\<rparr>, if sq_handled props then Some openState else None))"

definition sidebar_setOpenMobile :: "set_value \<Rightarrow> sidebar \<Rightarrow> sidebar" where
  "sidebar_setOpenMobile value st = st\<lparr>sk_openMobile := (case value of SetTo b \<Rightarrow> b | SetBy f \<Rightarrow> f (sk_openMobile st))\<rparr>"

definition toggleSidebar :: "sidebar_props \<Rightarrow> sidebar \<Rightarrow> sidebar \<times> bool option" where
  "toggleSidebar props st = (if sk_shownMobile st then (sidebar_setOpenMobile (SetBy Not) st, None) else sidebar_setOpen props (SetBy Not) st)"

record key_press =
  kp_key :: string
  kp_meta :: bool
  kp_ctrl :: bool

text \<open>The shortcut; the second part tells whether the key's own effect is prevented.\<close>

definition sidebar_isShortcut :: "key_press \<Rightarrow> bool" where
  "sidebar_isShortcut ev \<longleftrightarrow> kp_key ev = ''b'' \<and> (kp_meta ev \<or> kp_ctrl ev)"

definition sidebar_key :: "sidebar_props \<Rightarrow> key_press \<Rightarrow> sidebar \<Rightarrow> sidebar \<times> bool" where
  "sidebar_key props ev st = (if sidebar_isShortcut ev then (fst (toggleSidebar props st), True) else (st, False))"

definition sidebar_resize :: "nat \<Rightarrow> sidebar \<Rightarrow> sidebar" where
  "sidebar_resize width st = st\<lparr>sk_window := narrow_resize width (sk_window st)\<rparr>"

text \<open>What happens to a sidebar: handlers run with the values of the last render, until the next one.\<close>

datatype sidebar_event = SDSet bool | SDToggle | SDSetMobile bool | SDKey key_press | SDResize nat | SDRender

fun sidebar_step :: "sidebar_props \<Rightarrow> sidebar_event \<Rightarrow> sidebar \<Rightarrow> sidebar" where
  "sidebar_step props (SDSet b) st = fst (sidebar_setOpen props (SetTo b) st)"
| "sidebar_step props SDToggle st = fst (toggleSidebar props st)"
| "sidebar_step props (SDSetMobile b) st = sidebar_setOpenMobile (SetTo b) st"
| "sidebar_step props (SDKey ev) st = fst (sidebar_key props ev st)"
| "sidebar_step props (SDResize width) st = sidebar_resize width st"
| "sidebar_step props SDRender st = sidebar_render props st"

inductive sidebar_reach :: "sidebar_props \<Rightarrow> string option \<Rightarrow> sidebar \<Rightarrow> bool" for props cookie where
  sidebar_loaded: "sidebar_reach props cookie (sidebar_load props cookie width)"
| sidebar_stepped: "sidebar_reach props cookie st \<Longrightarrow> sidebar_reach props cookie (sidebar_step props ev st)"

subsection \<open>Lemmas\<close>

definition sidebar_inv :: "sidebar_props \<Rightarrow> string option \<Rightarrow> sidebar \<Rightarrow> bool" where
  "sidebar_inv props cookie st \<longleftrightarrow>
     (sk_cookie st = cookie \<and> sk_open st = sq_defaultOpen props \<or> sk_cookie st = Some (sidebar_cookie (sk_open st))) \<and> narrow_ok (sk_window st)"

lemmas sidebar_defs = sidebar_render_def sidebar_setOpen_def sidebar_setOpenMobile_def toggleSidebar_def sidebar_key_def sidebar_resize_def

lemma sidebar_inv_step:
  assumes "\<not> sq_handled props" and "sidebar_inv props cookie st"
  shows "sidebar_inv props cookie (sidebar_step props ev st)"
  using assms by (cases ev) (auto simp: sidebar_inv_def sidebar_defs Let_def narrow_ok_kept)

lemma sidebar_reach_inv:
  assumes "sidebar_reach props cookie st" and "\<not> sq_handled props"
  shows "sidebar_inv props cookie st"
  using assms
  by (induction rule: sidebar_reach.induct) (simp_all add: sidebar_inv_step, simp add: sidebar_inv_def sidebar_load_def sidebar_render_def narrow_ok_kept)

lemma bool_text_inj: "bool_text a = bool_text b \<longleftrightarrow> a = b"
  by (simp add: bool_text_def)

lemma sidebar_cookie_text: "sidebar_cookie b = ''sidebar_state='' @ bool_text b @ ''; path=/; max-age=604800''"
proof -
  have "digits_of (60 * 60 * 24 * 7) = ''604800''" by code_simp
  then show ?thesis by (simp only: sidebar_cookie_def) simp
qed

text \<open>Two toggles before a render are one on a wide window, where each negates what was shown, and cancel on a narrow one.\<close>

lemma toggle_twice:
  assumes "\<not> sq_handled props"
  shows "fst (toggleSidebar props (fst (toggleSidebar props st))) = (if sk_shownMobile st then st else fst (toggleSidebar props st))"
  using assms by (simp add: sidebar_defs Let_def)

text \<open>
  C35: The sidebar and its cookie. In every state that can be reached after a load, for a sidebar that keeps its own state (as the
  shell's does), either nothing was set and it is as the load made it, or the cookie, with its path and its week, records
  exactly the state of the sidebar; whether the window counts as narrow always agrees with its width; and a toggle or
  the shortcut after a render turns the sidebar of the current width over, and no other key does anything. But a
  load shows the default whatever the cookie of the last visit records.
\<close>

theorem sidebar_cookie_records:
  assumes "sidebar_reach props cookie st" and "\<not> sq_handled props" and "sq_open props = None" and "sidebar_isShortcut ev"
    and "\<not> sidebar_isShortcut other"
  shows "(sk_cookie st = cookie \<and> sk_open st = sq_defaultOpen props
       \<or> sk_cookie st = Some (''sidebar_state='' @ bool_text (sk_open st) @ ''; path=/; max-age=604800''))
    \<and> nw_isMobile (sk_window st) = (nw_width (sk_window st) < 768)
    \<and> (let st' = sidebar_step props (SDKey ev) (sidebar_render props st)
       in if nw_width (sk_window st) < 768 then sk_openMobile st' = (\<not> sk_openMobile st) \<and> sk_open st' = sk_open st \<and> sk_cookie st' = sk_cookie st
          else sk_openMobile st' = sk_openMobile st \<and> sk_open st' = (\<not> sk_open st)
             \<and> sk_cookie st' = Some (''sidebar_state='' @ bool_text (\<not> sk_open st) @ ''; path=/; max-age=604800''))
    \<and> sidebar_step props (SDKey other) st = st
    \<and> sk_shown (sidebar_load props (sk_cookie st) width) = sq_defaultOpen props"
proof -
  have inv: "sidebar_inv props cookie st" using assms(1,2) by (rule sidebar_reach_inv)
  then have wide: "nw_isMobile (sk_window st) = (nw_width (sk_window st) < 768)" by (simp add: sidebar_inv_def narrow_ok_def)
  show ?thesis
    using inv assms(2-5) wide unfolding sidebar_inv_def sidebar_cookie_text
    by (auto simp: sidebar_defs sidebar_isOpen_def sidebar_cookie_text sidebar_load_def Let_def)
qed

definition shell_props :: sidebar_props where
  "shell_props = \<lparr>sq_defaultOpen = True, sq_open = None, sq_handled = False\<rparr>"

lemma sidebar_cookie_records_witness:
  "(let st = sidebar_step shell_props SDToggle (sidebar_load shell_props None 1024)
    in sk_cookie st = Some ''sidebar_state=false; path=/; max-age=604800'' \<and> \<not> sk_open st \<and> sk_shown (sidebar_load shell_props (sk_cookie st) 1024))"
proof -
  let ?st = "sidebar_step shell_props SDToggle (sidebar_load shell_props None 1024)"
  let ?b = "\<lparr>kp_key = ''b'', kp_meta = False, kp_ctrl = True\<rparr>" and ?x = "\<lparr>kp_key = ''x'', kp_meta = True, kp_ctrl = True\<rparr>"
  have reach: "sidebar_reach shell_props None ?st" by (intro sidebar_reach.intros)
  have closed: "\<not> sk_open ?st" "sk_cookie ?st \<noteq> None" by code_simp+
  have "sidebar_isShortcut ?b" "\<not> sidebar_isShortcut ?x" "\<not> sq_handled shell_props" "sq_open shell_props = None"
    by (simp_all add: sidebar_isShortcut_def shell_props_def)
  from sidebar_cookie_records [OF reach this(3,4,1,2), of 1024] closed
  have "sk_cookie ?st = Some (''sidebar_state='' @ bool_text (sk_open ?st) @ ''; path=/; max-age=604800'')"
    and "sk_shown (sidebar_load shell_props (sk_cookie ?st) 1024) = sq_defaultOpen shell_props" by blast+
  with closed(1) show ?thesis by (simp only: Let_def) (simp add: bool_text_def shell_props_def)
qed

end
