(* ===== verification/Shell_Views.thy ===== *)
theory Shell_Views
  imports Sidebar_Kit Settings
begin

text \<open>
  What the frame of the application shows: the parts of the sidebar, \<open>components/ui/sidebar.tsx\<close>, the menu of appearances,
  \<open>features/preferences/appearance-menu.tsx\<close>, the shell of \<open>app/app-shell.tsx\<close> that is made of them, the guard's banner, the login page, the
  placeholder and the error boundary. The library that merges a part with the element it is rendered as is used as documented:
  values of its state become \<open>data\<close> attributes, and attributes of the element win.
\<close>

subsection \<open>Parts of the sidebar\<close>

text \<open>Attributes given to a part replace its own.\<close>

definition spread :: "(string \<times> attr) list \<Rightarrow> (string \<times> attr) list \<Rightarrow> (string \<times> attr) list" where
  "spread own given = filter (\<lambda>a. fst a \<notin> fst ` set given) own @ given"

definition slot_view :: "string \<Rightarrow> string \<Rightarrow> string \<Rightarrow> (string \<times> attr) list \<Rightarrow> view list \<Rightarrow> view" where
  "slot_view tag slot part attrs vs = El tag (spread [(''data-slot'', Val slot), (''data-sidebar'', Val part)] attrs) vs"

definition sidebarProvider_view :: "(string \<times> attr) list \<Rightarrow> view list \<Rightarrow> view" where
  "sidebarProvider_view attrs children = El ''div'' (spread [(''data-slot'', Val ''sidebar-wrapper'')] attrs) children"

datatype collapsible = Offcanvas | IconOnly | NotCollapsible

definition collapsible_text :: "collapsible \<Rightarrow> string" where
  "collapsible_text c = (case c of Offcanvas \<Rightarrow> ''offcanvas'' | IconOnly \<Rightarrow> ''icon'' | NotCollapsible \<Rightarrow> ''none'')"

definition sidebar_state :: "sidebar \<Rightarrow> string" where
  "sidebar_state st = (if sk_shown st then ''expanded'' else ''collapsed'')"

text \<open>A sidebar is plain, a sheet on narrow windows, or a collapsible column.\<close>

definition sidebar_view :: "string \<Rightarrow> string \<Rightarrow> collapsible \<Rightarrow> (string \<times> attr) list \<Rightarrow> sidebar \<Rightarrow> view list \<Rightarrow> view" where
  "sidebar_view side variant collapsible attrs st children =
     (if collapsible = NotCollapsible then El ''div'' (spread [(''data-slot'', Val ''sidebar'')] attrs) children
      else if sk_shownMobile st then
        El ''Sheet'' (spread [(''open'', Flag (sk_openMobile st))] attrs)
          [El ''SheetContent'' [(''data-sidebar'', Val ''sidebar''), (''data-slot'', Val ''sidebar''), (''data-mobile'', Val ''true''), (''side'', Val side)]
            [El ''SheetHeader'' [] [text_el ''SheetTitle'' (Str ''Sidebar''), text_el ''SheetDescription'' (Str ''Displays the mobile sidebar.'')],
             El ''div'' [] children]]
      else
        El ''div''
          [(''data-state'', Val (sidebar_state st)),
           (''data-collapsible'', Val (if sidebar_state st = ''collapsed'' then collapsible_text collapsible else [])),
           (''data-variant'', Val variant), (''data-side'', Val side), (''data-slot'', Val ''sidebar'')]
          [El ''div'' [(''data-slot'', Val ''sidebar-gap'')] [],
           El ''div'' (spread [(''data-slot'', Val ''sidebar-container''), (''data-side'', Val side)] attrs)
             [El ''div'' [(''data-sidebar'', Val ''sidebar''), (''data-slot'', Val ''sidebar-inner'')] children]])"

definition sidebarTrigger_view :: "(string \<times> attr) list \<Rightarrow> view" where
  "sidebarTrigger_view attrs =
     El ''Button'' (spread [(''data-sidebar'', Val ''trigger''), (''data-slot'', Val ''sidebar-trigger''), (''variant'', Val ''ghost''), (''size'', Val ''icon-sm'')] attrs)
       [text_el ''span'' (Str ''Toggle Sidebar'')]"

definition sidebarRail_view :: "(string \<times> attr) list \<Rightarrow> view" where
  "sidebarRail_view attrs =
     El ''button'' (spread [(''data-sidebar'', Val ''rail''), (''data-slot'', Val ''sidebar-rail''), (''aria-label'', Lab (Str ''Toggle Sidebar'')),
       (''tabIndex'', Val ''-1''), (''title'', Lab (Str ''Toggle Sidebar''))] attrs) []"

definition sidebarInset_view :: "(string \<times> attr) list \<Rightarrow> view list \<Rightarrow> view" where
  "sidebarInset_view attrs = El ''main'' (spread [(''data-slot'', Val ''sidebar-inset'')] attrs)"

definition sidebarInput_view :: "(string \<times> attr) list \<Rightarrow> view list \<Rightarrow> view" where
  "sidebarInput_view = slot_view ''Input'' ''sidebar-input'' ''input''"

definition sidebarHeader_view :: "(string \<times> attr) list \<Rightarrow> view list \<Rightarrow> view" where
  "sidebarHeader_view = slot_view ''div'' ''sidebar-header'' ''header''"

definition sidebarFooter_view :: "(string \<times> attr) list \<Rightarrow> view list \<Rightarrow> view" where
  "sidebarFooter_view = slot_view ''div'' ''sidebar-footer'' ''footer''"

definition sidebarSeparator_view :: "(string \<times> attr) list \<Rightarrow> view list \<Rightarrow> view" where
  "sidebarSeparator_view = slot_view ''Separator'' ''sidebar-separator'' ''separator''"

definition sidebarContent_view :: "(string \<times> attr) list \<Rightarrow> view list \<Rightarrow> view" where
  "sidebarContent_view = slot_view ''div'' ''sidebar-content'' ''content''"

definition sidebarGroup_view :: "(string \<times> attr) list \<Rightarrow> view list \<Rightarrow> view" where
  "sidebarGroup_view = slot_view ''div'' ''sidebar-group'' ''group''"

text \<open>Parts that may be rendered as another element, with the attributes of that element.\<close>

type_synonym render_as = "(string \<times> (string \<times> attr) list) option"

definition rendered :: "string \<Rightarrow> (string \<times> attr) list \<Rightarrow> (string \<times> attr) list \<Rightarrow> render_as \<Rightarrow> view list \<Rightarrow> view" where
  "rendered tag state attrs render vs =
     (case render of None \<Rightarrow> El tag (spread state attrs) vs | Some (t, own) \<Rightarrow> El t (spread (spread state attrs) own) vs)"

definition sidebarGroupLabel_view :: "(string \<times> attr) list \<Rightarrow> render_as \<Rightarrow> view list \<Rightarrow> view" where
  "sidebarGroupLabel_view = rendered ''div'' [(''data-slot'', Val ''sidebar-group-label''), (''data-sidebar'', Val ''group-label'')]"

definition sidebarGroupAction_view :: "(string \<times> attr) list \<Rightarrow> render_as \<Rightarrow> view list \<Rightarrow> view" where
  "sidebarGroupAction_view = rendered ''button'' [(''data-slot'', Val ''sidebar-group-action''), (''data-sidebar'', Val ''group-action'')]"

definition sidebarGroupContent_view :: "(string \<times> attr) list \<Rightarrow> view list \<Rightarrow> view" where
  "sidebarGroupContent_view = slot_view ''div'' ''sidebar-group-content'' ''group-content''"

definition sidebarMenu_view :: "(string \<times> attr) list \<Rightarrow> view list \<Rightarrow> view" where
  "sidebarMenu_view = slot_view ''ul'' ''sidebar-menu'' ''menu''"

definition sidebarMenuItem_view :: "(string \<times> attr) list \<Rightarrow> view list \<Rightarrow> view" where
  "sidebarMenuItem_view = slot_view ''li'' ''sidebar-menu-item'' ''menu-item''"

text \<open>A button of the menu; its tooltip is hidden unless the sidebar is a collapsed column.\<close>

definition sidebarMenuButton_view ::
  "sidebar \<Rightarrow> bool \<Rightarrow> string \<Rightarrow> label option \<Rightarrow> (string \<times> attr) list \<Rightarrow> render_as \<Rightarrow> view list \<Rightarrow> view" where
  "sidebarMenuButton_view st isActive sz tooltip attrs render vs =
     (let comp = rendered ''button'' [(''data-slot'', Val ''sidebar-menu-button''), (''data-sidebar'', Val ''menu-button''),
            (''data-size'', Val sz), (''data-active'', Flag isActive)] attrs render vs
      in case tooltip of None \<Rightarrow> comp
         | Some l \<Rightarrow> El ''Tooltip'' [] [comp,
             El ''TooltipContent'' [(''side'', Val ''right''), (''align'', Val ''center''),
               (''hidden'', Flag (sidebar_state st \<noteq> ''collapsed'' \<or> sk_shownMobile st))] [Txt l]])"

definition sidebarMenuAction_view :: "(string \<times> attr) list \<Rightarrow> render_as \<Rightarrow> view list \<Rightarrow> view" where
  "sidebarMenuAction_view = rendered ''button'' [(''data-slot'', Val ''sidebar-menu-action''), (''data-sidebar'', Val ''menu-action'')]"

definition sidebarMenuBadge_view :: "(string \<times> attr) list \<Rightarrow> view list \<Rightarrow> view" where
  "sidebarMenuBadge_view = slot_view ''div'' ''sidebar-menu-badge'' ''menu-badge''"

text \<open>The width drawn once from a random number below 1, given as the fraction a over b, and the placeholder of that width.\<close>

definition skeleton_width :: "nat \<Rightarrow> nat \<Rightarrow> string" where
  "skeleton_width a b = digits_of (int (a * 40 div b + 50)) @ ''%''"

definition sidebarMenuSkeleton_view :: "bool \<Rightarrow> string \<Rightarrow> (string \<times> attr) list \<Rightarrow> view" where
  "sidebarMenuSkeleton_view showIcon width attrs =
     slot_view ''div'' ''sidebar-menu-skeleton'' ''menu-skeleton'' attrs
       (when_view showIcon (El ''Skeleton'' [(''data-sidebar'', Val ''menu-skeleton-icon'')] [])
        @ [El ''Skeleton'' [(''data-sidebar'', Val ''menu-skeleton-text''), (''--skeleton-width'', Val width)] []])"

definition sidebarMenuSub_view :: "(string \<times> attr) list \<Rightarrow> view list \<Rightarrow> view" where
  "sidebarMenuSub_view = slot_view ''ul'' ''sidebar-menu-sub'' ''menu-sub''"

definition sidebarMenuSubItem_view :: "(string \<times> attr) list \<Rightarrow> view list \<Rightarrow> view" where
  "sidebarMenuSubItem_view = slot_view ''li'' ''sidebar-menu-sub-item'' ''menu-sub-item''"

definition sidebarMenuSubButton_view :: "string \<Rightarrow> bool \<Rightarrow> (string \<times> attr) list \<Rightarrow> render_as \<Rightarrow> view list \<Rightarrow> view" where
  "sidebarMenuSubButton_view sz isActive =
     rendered ''a'' [(''data-slot'', Val ''sidebar-menu-sub-button''), (''data-sidebar'', Val ''menu-sub-button''), (''data-size'', Val sz),
       (''data-active'', Flag isActive)]"

subsection \<open>The menu of appearances\<close>

definition radio_item :: "string \<Rightarrow> label \<Rightarrow> view" where
  "radio_item value l = El ''DropdownMenuRadioItem'' [(''value'', Val value)] [Txt l]"

definition appearanceMenu_view :: "preferences \<Rightarrow> view" where
  "appearanceMenu_view p =
     El ''DropdownMenu'' []
       [El ''DropdownMenuTrigger'' [] [El ''Button'' [(''variant'', Val ''ghost''), (''size'', Val ''icon-sm''), (''aria-label'', Lab (tr ''settings.appearanceMenu''))] []],
        El ''DropdownMenuContent'' [(''align'', Val ''end'')]
          [El ''DropdownMenuGroup'' []
             [text_el ''DropdownMenuLabel'' (tr ''settings.theme''),
              El ''DropdownMenuRadioGroup'' [(''value'', Val (name_of themes (pr_theme p)))]
                [radio_item ''light'' (tr ''settings.light''), radio_item ''dark'' (tr ''settings.dark''), radio_item ''system'' (tr ''settings.system'')]],
           El ''DropdownMenuSeparator'' [] [],
           El ''DropdownMenuGroup'' []
             [text_el ''DropdownMenuLabel'' (tr ''settings.language''),
              El ''DropdownMenuRadioGroup'' [(''value'', Val (name_of languages (pr_language p)))]
                [radio_item ''zh'' (Cat [Sym 20013, Sym 25991]), radio_item ''en'' (Str ''English'')]]]]"

text \<open>A choice in one of the two groups, as a change of the preferences; other values are not offered.\<close>

definition appearance_choose :: "bool \<Rightarrow> string \<Rightarrow> preference_change option" where
  "appearance_choose is_theme value =
     (if is_theme then map_option SetTheme (map_of themes value) else map_option SetLanguage (map_of languages value))"

subsection \<open>The shell\<close>

definition navItems_view :: "sidebar \<Rightarrow> string \<Rightarrow> nav_item list \<Rightarrow> view" where
  "navItems_view st pathname items =
     sidebarMenu_view [] (map (\<lambda>item. sidebarMenuItem_view [(''key'', Val (nv_to item))]
       [sidebarMenuButton_view st (pathname = nv_to item) ''default'' (Some (tr (nv_label item))) []
          (Some (''NavLink'', [(''to'', Val (nv_to item)), (''aria-label'', Lab (tr (nv_label item)))]))
          [text_el ''span'' (tr (nv_label item))]]) items)"

definition appSidebar_view :: "sidebar \<Rightarrow> string \<Rightarrow> bool \<Rightarrow> view" where
  "appSidebar_view st pathname loggingOut =
     sidebar_view ''left'' ''sidebar'' IconOnly [] st
       [sidebarHeader_view [] [sidebarMenu_view [] [sidebarMenuItem_view []
          [sidebarMenuButton_view st False ''lg'' (Some (Str ''boxd'')) [] (Some (''NavLink'', [(''to'', Val ''/dashboard''), (''aria-label'', Lab (Str ''boxd''))]))
            [El ''span'' [] [text_el ''span'' (Str ''boxd''), text_el ''span'' (Str ''sing-box control plane'')]]]]],
        sidebarContent_view []
          (sidebarGroup_view [] [sidebarGroupContent_view [] [navItems_view st pathname primaryItems]]
           # map (\<lambda>g. sidebarGroup_view [(''key'', Val (ng_label g))]
               [sidebarGroupLabel_view [] None [Txt (tr (ng_label g))], sidebarGroupContent_view [] [navItems_view st pathname (ng_items g)]]) navigationGroups),
        sidebarFooter_view []
          [navItems_view st pathname footerItems,
           sidebarMenu_view [] [sidebarMenuItem_view []
             [sidebarMenuButton_view st False ''default'' (Some (tr ''nav.logout'')) [(''disabled'', Flag loggingOut), (''aria-label'', Lab (tr ''nav.logout''))] None
               (when_view loggingOut (El ''Spinner'' [(''aria-hidden'', Val ''true'')] []) @ [text_el ''span'' (tr ''nav.logout'')])]]]]"

definition context_label :: "string \<Rightarrow> label" where
  "context_label key = (if key \<noteq> [] then tr key else Str ''boxd'')"

definition defaultPasswordBanner_view :: view where
  "defaultPasswordBanner_view = alert_view True (tr ''settings.defaultPasswordTitle'') (tr ''settings.defaultPasswordForced'')"

text \<open>What the gate shows: the page, under the banner if the password is the default; elsewhere than in the settings it redirects then.\<close>

definition defaultPasswordGate_view :: "bool option \<Rightarrow> string \<Rightarrow> view \<Rightarrow> view" where
  "defaultPasswordGate_view status pathname page =
     (let forced = (status = Some True)
      in if forced \<and> pathname \<noteq> ''/settings'' then El ''Navigate'' [(''to'', Val ''/settings''), (''replace'', Flag True)] []
         else El ''div'' [] (when_view forced defaultPasswordBanner_view @ [page]))"

definition appShell_view :: "sidebar \<Rightarrow> preferences \<Rightarrow> bool \<Rightarrow> bool option \<Rightarrow> string \<Rightarrow> view \<Rightarrow> view" where
  "appShell_view st p loggingOut status pathname page =
     (let (grp, item) = navigationContext pathname
      in sidebarProvider_view []
           [appSidebar_view st pathname loggingOut,
            sidebarInset_view []
              [El ''header'' []
                 [sidebarTrigger_view [], El ''Separator'' [(''orientation'', Val ''vertical'')] [],
                  El ''div'' [] [text_el ''span'' (context_label grp), text_el ''span'' (context_label item)],
                  appearanceMenu_view p],
               El ''main'' [] [defaultPasswordGate_view status pathname page]]])"

subsection \<open>The login page and the boundary\<close>

text \<open>The fields' own errors are given by the schema's messages, \<open>auth.usernameRequired\<close> and \<open>auth.passwordRequired\<close>.\<close>

definition login_field_view :: "string \<Rightarrow> (string \<times> attr) list \<Rightarrow> label \<Rightarrow> bool \<Rightarrow> string \<Rightarrow> view" where
  "login_field_view ident attrs l invalid message =
     El ''Field'' [(''data-invalid'', Flag invalid)]
       ([El ''FieldLabel'' [(''htmlFor'', Val ident)] [Txt l],
         El ''Input'' ([(''id'', Val ident)] @ attrs @ [(''aria-invalid'', Flag invalid), (''name'', Val ident)]) []]
        @ when_view invalid (text_el ''FieldDescription'' (tr message)))"

definition loginPage_view :: "bool \<Rightarrow> string \<Rightarrow> bool \<Rightarrow> bool \<Rightarrow> bool \<Rightarrow> view" where
  "loginPage_view session error usernameInvalid passwordInvalid isSubmitting =
     (if session then El ''Navigate'' [(''to'', Val ''/dashboard''), (''replace'', Flag True)] []
      else El ''main'' [] [El ''form'' [] [El ''Card'' []
        [El ''CardHeader'' [] [El ''CardTitle'' [(''role'', Val ''heading''), (''aria-level'', Val ''1'')] [Txt (tr ''auth.title'')],
           text_el ''CardDescription'' (tr ''auth.description'')],
         El ''CardContent'' []
           (when_view (error \<noteq> []) (alert_view True (tr ''auth.failed'') (Str error))
            @ [El ''FieldGroup'' []
                [login_field_view ''username'' [(''autoComplete'', Val ''username'')] (tr ''auth.username'') usernameInvalid ''auth.usernameRequired'',
                 login_field_view ''password'' [(''type'', Val ''password''), (''autoComplete'', Val ''current-password'')] (tr ''auth.password'') passwordInvalid
                   ''auth.passwordRequired'']]),
         El ''CardFooter'' [] [El ''Button'' [(''type'', Val ''submit''), (''disabled'', Flag isSubmitting)]
           (when_view isSubmitting (El ''Spinner'' [(''aria-hidden'', Val ''true'')] []) @ [Txt (tr ''auth.submit'')])]]]])"

definition pagePlaceholder_view :: "string \<Rightarrow> view" where
  "pagePlaceholder_view titleKey =
     El ''Card'' []
       [El ''CardHeader'' [] [El ''CardTitle'' [(''role'', Val ''heading''), (''aria-level'', Val ''1'')] [Txt (tr titleKey)],
          text_el ''CardDescription'' (tr ''pages.pending'')],
        El ''CardContent'' [] []]"

definition routeLoading_view :: view where
  "routeLoading_view =
     El ''main'' [(''role'', Val ''status''), (''aria-live'', Val ''polite''), (''aria-label'', Lab (Str ''Loading page''))]
       [El ''Skeleton'' [] [], El ''Skeleton'' [] []]"

definition errorBoundary_view :: "error_boundary \<Rightarrow> view \<Rightarrow> view" where
  "errorBoundary_view s children =
     (case eb_error s of None \<Rightarrow> children
      | Some message \<Rightarrow> El ''main'' [] [El ''Card'' []
          [El ''CardHeader'' [] [text_el ''CardTitle'' (tr ''common.unexpectedError'')],
           El ''CardContent'' [] [alert_view True (tr ''common.unexpectedErrorDescription'') (Str message)],
           El ''CardFooter'' [] [button_view [] (tr ''common.retry'')]]])"

subsection \<open>Lemmas\<close>

lemma attrs_known_filter: "attrs_known attrs \<Longrightarrow> attrs_known (filter P attrs)"
  by (auto simp: attrs_known_def list_all_iff)

lemma attrs_known_spread: "attrs_known own \<Longrightarrow> attrs_known (spread own given) = attrs_known given"
  by (auto simp: spread_def attrs_known_filter)

definition render_known :: "render_as \<Rightarrow> bool" where
  "render_known render = (case render of None \<Rightarrow> True | Some (t, own) \<Rightarrow> attrs_known own)"

lemma render_known_simps [simp]: "render_known None" "render_known (Some (t, own)) = attrs_known own"
  by (simp_all add: render_known_def)

lemma rendered_translated:
  assumes "attrs_known state"
  shows "attrs_known attrs \<Longrightarrow> render_known render \<Longrightarrow> list_all translated vs \<Longrightarrow> translated (rendered tag state attrs render vs)"
proof -
  assume known: "attrs_known attrs" "render_known render" "list_all translated vs"
  have "attrs_known (spread state attrs)" using assms known(1) by (simp add: attrs_known_spread)
  then show ?thesis using known by (auto simp: rendered_def attrs_known_spread split: option.split prod.split)
qed

lemma slot_translated [simp]: "translated (slot_view tag slot part attrs vs) = (attrs_known attrs \<and> list_all translated vs)"
  by (simp add: slot_view_def attrs_known_spread)

lemma slots_translated [simp]:
  "translated (sidebarHeader_view attrs vs) = (attrs_known attrs \<and> list_all translated vs)"
  "translated (sidebarFooter_view attrs vs) = (attrs_known attrs \<and> list_all translated vs)"
  "translated (sidebarContent_view attrs vs) = (attrs_known attrs \<and> list_all translated vs)"
  "translated (sidebarGroup_view attrs vs) = (attrs_known attrs \<and> list_all translated vs)"
  "translated (sidebarGroupContent_view attrs vs) = (attrs_known attrs \<and> list_all translated vs)"
  "translated (sidebarMenu_view attrs vs) = (attrs_known attrs \<and> list_all translated vs)"
  "translated (sidebarMenuItem_view attrs vs) = (attrs_known attrs \<and> list_all translated vs)"
  by (simp_all add: sidebarHeader_view_def sidebarFooter_view_def sidebarContent_view_def sidebarGroup_view_def sidebarGroupContent_view_def
      sidebarMenu_view_def sidebarMenuItem_view_def)

lemma sidebar_parts_translated [simp]:
  "translated (sidebarProvider_view attrs vs) = (attrs_known attrs \<and> list_all translated vs)"
  "translated (sidebarTrigger_view attrs) = attrs_known attrs"
  "translated (sidebarInset_view attrs vs) = (attrs_known attrs \<and> list_all translated vs)"
  "attrs_known attrs \<Longrightarrow> list_all translated vs \<Longrightarrow> translated (sidebar_view side variant collapsible attrs st vs)"
  "attrs_known attrs \<Longrightarrow> render_known render \<Longrightarrow> list_all translated vs \<Longrightarrow> translated (sidebarGroupLabel_view attrs render vs)"
  by (simp_all add: sidebarProvider_view_def sidebarTrigger_view_def sidebarInset_view_def sidebar_view_def attrs_known_spread
      sidebarGroupLabel_view_def rendered_translated)

lemma menuButton_translated [simp]:
  assumes "attrs_known attrs" and "render_known render" and "list_all translated vs"
    and "pred_option label_known tooltip"
  shows "translated (sidebarMenuButton_view st isActive sz tooltip attrs render vs)"
  using assms by (auto simp: sidebarMenuButton_view_def Let_def intro!: rendered_translated split: option.split)

lemma navItems_translated [simp]:
  "list_all (\<lambda>item. known_text (nv_label item) []) items \<Longrightarrow> translated (navItems_view st pathname items)"
  by (simp add: navItems_view_def list_all_iff)

lemma navigation_known:
  "list_all (\<lambda>item. known_text (nv_label item) []) primaryItems"
  "list_all (\<lambda>item. known_text (nv_label item) []) footerItems"
  "list_all (\<lambda>g. known_text (ng_label g) [] \<and> list_all (\<lambda>item. known_text (nv_label item) []) (ng_items g)) navigationGroups"
  by (simp_all add: primaryItems_def footerItems_def navigationGroups_def)

lemma find_item_known:
  "list_all (\<lambda>item. known_text (nv_label item) []) items \<Longrightarrow> find_item items pathname = Some item \<Longrightarrow> known_text (nv_label item) []"
  by (auto simp: find_item_def list_all_iff find_Some_iff)

lemma group_context_known:
  assumes "list_all (\<lambda>g. known_text (ng_label g) [] \<and> list_all (\<lambda>item. known_text (nv_label item) []) (ng_items g)) gs"
    and "group_context gs pathname = Some (grp, item)"
  shows "known_text grp [] \<and> known_text item []"
  using assms by (induction gs) (auto split: option.splits dest: find_item_known)

lemma navigationContext_known:
  assumes "navigationContext pathname = (grp, item)"
  shows "label_known (context_label grp) \<and> label_known (context_label item)"
  using assms navigation_known
  by (auto simp: navigationContext_def context_label_def dest: find_item_known group_context_known split: option.splits)

lemma appearanceMenu_translated [simp]: "translated (appearanceMenu_view p)"
  by (simp add: radio_item_def appearanceMenu_view_def)

lemma appSidebar_translated [simp]: "translated (appSidebar_view st pathname loggingOut)"
proof -
  have groups: "list_all translated (map (\<lambda>g. sidebarGroup_view [(''key'', Val (ng_label g))]
      [sidebarGroupLabel_view [] None [Txt (tr (ng_label g))], sidebarGroupContent_view [] [navItems_view st pathname (ng_items g)]]) navigationGroups)"
    using navigation_known(3) by (simp add: list_all_iff)
  show ?thesis
    unfolding appSidebar_view_def
    by (rule sidebar_parts_translated(4))
      (use groups in \<open>simp_all add: navigation_known del: translated_map\<close>)
qed

lemma shell_parts_translated [simp]:
  "translated defaultPasswordBanner_view"
  "translated page \<Longrightarrow> translated (defaultPasswordGate_view status pathname page)"
  "translated (login_field_view ident attrs l invalid message) = (attrs_known attrs \<and> label_known l \<and> (invalid \<longrightarrow> known_text message []))"
  by (simp_all add: defaultPasswordBanner_view_def defaultPasswordGate_view_def Let_def login_field_view_def conj_ac)

text \<open>The frame adds known texts only, whatever the state of the sidebar, the preferences and the session.\<close>

lemma frame_translated:
  "translated page \<Longrightarrow> translated (appShell_view st p loggingOut status pathname page)"
  "translated (loginPage_view session error usernameInvalid passwordInvalid isSubmitting)"
  "known_text titleKey [] \<Longrightarrow> translated (pagePlaceholder_view titleKey)"
  "translated routeLoading_view"
  "translated page \<Longrightarrow> translated (errorBoundary_view s page)"
proof -
  show "translated (appShell_view st p loggingOut status pathname page)" if "translated page"
    using that navigationContext_known [of pathname]
    by (simp add: appShell_view_def split: prod.split)
  show "translated (loginPage_view session error usernameInvalid passwordInvalid isSubmitting)"
    by (simp add: loginPage_view_def)
qed (simp_all add: pagePlaceholder_view_def routeLoading_view_def errorBoundary_view_def split: option.split)

text \<open>A tooltip of the menu can be seen only on the collapsed column, where the texts beside the icons are hidden.\<close>

lemma tooltip_hidden:
  "map (\<lambda>(attrs, vs). flagged ''hidden'' attrs) (elements ''TooltipContent'' (sidebarMenuButton_view st a sz (Some l) attrs None [text_el ''span'' m]))
     = [sk_shown st \<or> sk_shownMobile st]"
  by (simp add: sidebarMenuButton_view_def Let_def rendered_def text_el_def flagged_def sidebar_state_def)

end
