(* ===== verification/Charts.thy ===== *)
theory Charts
  imports View Live_Views Proxy_Dialogs
begin

text \<open>
  The chart kit, \<open>components/ui/chart.tsx\<close>: the style sheet that gives each series its colours, the configuration found for an
  item of a payload, tooltips and legends; and the traffic chart, \<open>features/dashboard/traffic-chart.tsx\<close>, made of them. The library
  that draws is a parameter: it gives the payloads. Items of a payload are objects of the language.
\<close>

subsection \<open>The configuration\<close>

record chart_item =
  ch_label :: "label option"
  ch_icon :: bool
  ch_color :: "string option"
  ch_theme :: "(string \<times> string) option"

type_synonym chart_config = "(string \<times> chart_item) list"

text \<open>The identity in the page: given, or the library's without its colons.\<close>

definition chart_id :: "string option \<Rightarrow> string \<Rightarrow> string" where
  "chart_id ident uniqueId = ''chart-'' @ (case ident of Some i \<Rightarrow> i | None \<Rightarrow> filter (\<lambda>c. c \<noteq> CHR '':'') uniqueId)"

definition chart_coloured :: "chart_config \<Rightarrow> chart_config" where
  "chart_coloured config = filter (\<lambda>entry. ch_theme (snd entry) \<noteq> None \<or> (ch_color (snd entry) \<noteq> None \<and> ch_color (snd entry) \<noteq> Some [])) config"

text \<open>The colour in a theme: the theme's, an empty one included, or else the one of the item.\<close>

definition chart_color :: "bool \<Rightarrow> chart_item \<Rightarrow> string option" where
  "chart_color dark item =
     (case ch_theme item of Some (l, d) \<Rightarrow> Some (if dark then d else l) | None \<Rightarrow> ch_color item)"

definition nl :: string where
  "nl = [CHR 0x0A]"

definition chart_rule :: "bool \<Rightarrow> string \<times> chart_item \<Rightarrow> string" where
  "chart_rule dark entry =
     (case chart_color dark (snd entry) of
        None \<Rightarrow> []
      | Some color \<Rightarrow> if color = [] then [] else ''  --color-'' @ fst entry @ '': '' @ color @ '';'')"

definition chart_sheet :: "string \<Rightarrow> chart_config \<Rightarrow> bool \<Rightarrow> string" where
  "chart_sheet ident colorConfig dark =
     nl @ (if dark then ''.dark'' else []) @ '' [data-chart='' @ ident @ ''] {'' @ nl @ js_join nl (map (chart_rule dark) colorConfig) @ nl @ ''}'' @ nl"

definition chartStyle :: "string \<Rightarrow> chart_config \<Rightarrow> string option" where
  "chartStyle ident config =
     (let colorConfig = chart_coloured config
      in if colorConfig = [] then None else Some (js_join nl (map (chart_sheet ident colorConfig) [False, True])))"

definition chartContainer_view :: "string \<Rightarrow> chart_config \<Rightarrow> view list \<Rightarrow> view" where
  "chartContainer_view ident config children =
     El ''div'' [(''data-slot'', Val ''chart''), (''data-chart'', Val ident)]
       (option_view (\<lambda>css. El ''style'' [] [Txt (Str css)]) (chartStyle ident config) @ [El ''ResponsiveContainer'' [] children])"

subsection \<open>Items of a payload\<close>

text \<open>
  \<open>k in config\<close> holds for inherited keys as well; what they give has neither label nor icon, which is the same as nothing.
\<close>

definition config_at :: "chart_config \<Rightarrow> string \<Rightarrow> string \<Rightarrow> chart_item option" where
  "config_at config k key = (if map_of config k \<noteq> None \<or> k \<in> set objectPrototypeKeys then map_of config k else map_of config key)"

definition getPayloadConfigFromPayload :: "chart_config \<Rightarrow> jobj \<Rightarrow> string \<Rightarrow> chart_item option" where
  "getPayloadConfigFromPayload config payload key =
     (let payloadPayload = (case obj_get payload ''payload'' of Some (JObj c) \<Rightarrow> c | _ \<Rightarrow> []);
          configLabelKey =
            (case obj_get payload key of
               Some (JStr s) \<Rightarrow> s
             | _ \<Rightarrow> (case obj_get payloadPayload key of Some (JStr s) \<Rightarrow> s | _ \<Rightarrow> key))
      in config_at config configLabelKey key)"

definition item_label :: "chart_item option \<Rightarrow> label option" where
  "item_label item = Option.bind item ch_label"

subsection \<open>The tooltip\<close>

record chart_tooltip =
  ct_active :: bool
  ct_indicator :: string
  ct_hideLabel :: bool
  ct_hideIndicator :: bool
  ct_label :: "json option"
  ct_labelFormatter :: "(label option \<Rightarrow> label) option"
  ct_formatter :: "(json \<Rightarrow> label) option"
  ct_nameKey :: "json option"
  ct_labelKey :: "json option"
  ct_locale :: "jsnum \<Rightarrow> string"

definition tooltip_defaults :: "(jsnum \<Rightarrow> string) \<Rightarrow> chart_tooltip" where
  "tooltip_defaults locale_number =
     \<lparr>ct_active = True, ct_indicator = ''dot'', ct_hideLabel = False, ct_hideIndicator = False, ct_label = None, ct_labelFormatter = None,
      ct_formatter = None, ct_nameKey = None, ct_labelKey = None, ct_locale = locale_number\<rparr>"

definition tooltip_labelValue :: "chart_tooltip \<Rightarrow> chart_config \<Rightarrow> jobj \<Rightarrow> label option" where
  "tooltip_labelValue p config item =
     (let key = string_or (nullish (ct_labelKey p) (nullish (obj_get item ''dataKey'') (obj_get item ''name''))) ''value'';
          itemConfig = getPayloadConfigFromPayload config item key
      in case (js_truthy (ct_labelKey p), ct_label p) of
           (False, Some (JStr s)) \<Rightarrow> (case item_label (map_of config s) of Some l \<Rightarrow> Some l | None \<Rightarrow> Some (Str s))
         | _ \<Rightarrow> item_label itemConfig)"

definition tooltip_label :: "chart_tooltip \<Rightarrow> chart_config \<Rightarrow> jobj list \<Rightarrow> view list" where
  "tooltip_label p config payload =
     (if ct_hideLabel p \<or> payload = [] then []
      else (let value = tooltip_labelValue p config (hd payload)
            in case ct_labelFormatter p of
                 Some f \<Rightarrow> [text_el ''div'' (f value)]
               | None \<Rightarrow> (case value of None \<Rightarrow> [] | Some l \<Rightarrow> if l = Str [] then [] else [text_el ''div'' l])))"

definition tooltip_value :: "chart_tooltip \<Rightarrow> json option \<Rightarrow> view list" where
  "tooltip_value p value =
     (case value of None \<Rightarrow> [] | Some JNull \<Rightarrow> []
      | Some (JNum n) \<Rightarrow> [text_el ''span'' (Str (ct_locale p n))]
      | Some v \<Rightarrow> [text_el ''span'' (Str (js_String v))])"

text \<open>A row: what the formatter gives, if there is one and the item has a value and a name, or the name and the value.\<close>

definition tooltip_row :: "chart_tooltip \<Rightarrow> chart_config \<Rightarrow> view list \<Rightarrow> bool \<Rightarrow> jobj \<Rightarrow> view" where
  "tooltip_row p config labels nestLabel item =
     (let key = string_or (nullish (ct_nameKey p) (nullish (obj_get item ''name'') (obj_get item ''dataKey''))) ''value'';
          itemConfig = getPayloadConfigFromPayload config item key;
          plain = (when_view ((itemConfig \<noteq> None \<and> ch_icon (the itemConfig)) \<or> \<not> ct_hideIndicator p) (El ''div'' [] [])
            @ [El ''div'' []
                (El ''div'' []
                   ((if nestLabel then labels else [])
                    @ [text_el ''span'' (case item_label itemConfig of Some l \<Rightarrow> l | None \<Rightarrow> Str (string_or (obj_get item ''name'') []))])
                 # tooltip_value p (obj_get item ''value''))])
      in El ''div'' []
           (case (ct_formatter p, obj_get item ''value'') of
              (Some f, Some v) \<Rightarrow> if js_truthy (obj_get item ''name'') then [Txt (f v)] else plain
            | _ \<Rightarrow> plain))"

definition chart_shown :: "jobj list \<Rightarrow> jobj list" where
  "chart_shown payload = filter (\<lambda>item. obj_get item ''type'' \<noteq> Some (JStr ''none'')) payload"

definition chartTooltipContent_view :: "chart_tooltip \<Rightarrow> chart_config \<Rightarrow> jobj list \<Rightarrow> view list" where
  "chartTooltipContent_view p config payload =
     (if \<not> ct_active p \<or> payload = [] then []
      else (let labels = tooltip_label p config payload; nestLabel = (length payload = 1 \<and> ct_indicator p \<noteq> ''dot'')
            in [El ''div'' []
                 ((if nestLabel then [] else labels)
                  @ [El ''div'' [] (map (tooltip_row p config labels nestLabel) (chart_shown payload))])]))"

subsection \<open>The legend\<close>

definition chartLegendContent_view :: "bool \<Rightarrow> json option \<Rightarrow> chart_config \<Rightarrow> jobj list \<Rightarrow> view list" where
  "chartLegendContent_view hideIcon nameKey config payload =
     (if payload = [] then []
      else [El ''div'' [] (map (\<lambda>item.
        let key = string_or (nullish nameKey (obj_get item ''dataKey'')) ''value''; itemConfig = getPayloadConfigFromPayload config item key
        in El ''div'' []
             ((if itemConfig \<noteq> None \<and> ch_icon (the itemConfig) \<and> \<not> hideIcon then El ''icon'' [] [] else El ''div'' [] [])
              # option_view Txt (item_label itemConfig))) (chart_shown payload))])"

subsection \<open>The traffic chart\<close>

definition totalConfig :: chart_config where
  "totalConfig =
     [(''upload_bytes'', \<lparr>ch_label = Some (tr ''dashboard.upload''), ch_icon = False, ch_color = Some ''var(--chart-2)'', ch_theme = None\<rparr>),
      (''download_bytes'', \<lparr>ch_label = Some (tr ''dashboard.download''), ch_icon = False, ch_color = Some ''var(--chart-1)'', ch_theme = None\<rparr>)]"

definition rateConfig :: chart_config where
  "rateConfig =
     [(''upload_rate'', \<lparr>ch_label = Some (tr ''dashboard.upload''), ch_icon = False, ch_color = Some ''var(--chart-2)'', ch_theme = None\<rparr>),
      (''download_rate'', \<lparr>ch_label = Some (tr ''dashboard.download''), ch_icon = False, ch_color = Some ''var(--chart-1)'', ch_theme = None\<rparr>)]"

text \<open>\<open>Number(value)\<close> for the values a series has.\<close>

definition value_number :: "json \<Rightarrow> jsnum" where
  "value_number v = (case v of JNum n \<Rightarrow> n | JStr s \<Rightarrow> string_to_number s | _ \<Rightarrow> NaN)"

definition traffic_tooltip :: "(jsnum \<Rightarrow> string) \<Rightarrow> (jsnum \<Rightarrow> string) \<Rightarrow> json option \<Rightarrow> chart_tooltip" where
  "traffic_tooltip locale_number formatter timestamp =
     (tooltip_defaults locale_number)\<lparr>ct_label := timestamp, ct_formatter := Some (\<lambda>value. Str (formatter (value_number value)))\<rparr>"

definition line_stroke :: "string \<Rightarrow> string" where
  "line_stroke key = ''var(--color-'' @ key @ '')''"

definition trafficLines_view :: "string \<Rightarrow> string \<Rightarrow> string \<Rightarrow> chart_config \<Rightarrow> view" where
  "trafficLines_view ident uploadKey downloadKey config =
     chartContainer_view ident config
       [El ''LineChart'' []
         [El ''CartesianGrid'' [(''vertical'', Flag False)] [], El ''YAxis'' [] [], El ''XAxis'' [(''dataKey'', Val ''timestamp'')] [],
          El ''ChartTooltip'' [] [],
          El ''Line'' [(''dataKey'', Val uploadKey), (''stroke'', Val (line_stroke uploadKey))] [],
          El ''Line'' [(''dataKey'', Val downloadKey), (''stroke'', Val (line_stroke downloadKey))] []]]"

definition rate_text :: "(string \<Rightarrow> jsnum) \<Rightarrow> traffic_point list \<Rightarrow> bool \<Rightarrow> label" where
  "rate_text parse points upload =
     (let rates = calculateTrafficRates parse points; f = (if upload then ra_upload_rate else ra_download_rate)
      in Str (formatRate (if rates = [] then Fin 0 else f (last rates))))"

definition total_text :: "traffic_point list \<Rightarrow> bool \<Rightarrow> label" where
  "total_text points upload =
     (let f = (if upload then tp_upload_bytes else tp_download_bytes)
      in Str (formatBytes (if points = [] then Fin 0 else f (last points))))"

definition trafficChart_view :: "string \<Rightarrow> string \<Rightarrow> (string \<Rightarrow> jsnum) \<Rightarrow> string \<Rightarrow> traffic_point list \<Rightarrow> view" where
  "trafficChart_view rateId totalId parse mode points =
     (let shown = (if mode = ''rate'' then rate_text parse points else total_text points)
      in El ''Card'' [] [El ''Tabs'' [(''value'', Val mode)]
        [El ''CardHeader'' []
           [text_el ''CardTitle'' (tr ''dashboard.traffic''),
            text_el ''CardDescription'' (Cat [tr ''dashboard.upload'', Str '' '', shown True, Str '' '', Sym 183, Str '' '', tr ''dashboard.download'', Str '' '', shown False]),
            El ''TabsList'' [] [tab_trigger (''rate'', ''dashboard.realtimeRate''), tab_trigger (''total'', ''dashboard.cumulativeTraffic'')]],
         tab_content ''rate'' [El ''CardContent'' [] [trafficLines_view rateId ''upload_rate'' ''download_rate'' rateConfig]],
         tab_content ''total'' [El ''CardContent'' [] [trafficLines_view totalId ''upload_bytes'' ''download_bytes'' totalConfig]]]])"

subsection \<open>Lemmas\<close>

text \<open>The texts of a tree, in their order.\<close>

primrec view_texts :: "view \<Rightarrow> label list" where
  "view_texts (Txt l) = [l]"
| "view_texts (El tag attrs vs) = concat (map view_texts vs)"

lemma view_texts_parts [simp]: "view_texts (text_el tag l) = [l]"
  by (simp add: text_el_def)

lemma chart_translated:
  "translated (chartContainer_view ident config vs) = list_all translated vs"
  "translated (trafficChart_view rateId totalId parse mode points)"
proof -
  show container: "translated (chartContainer_view ident config vs) = list_all translated vs" for ident config vs
    by (simp add: chartContainer_view_def split: option.split)
  show "translated (trafficChart_view rateId totalId parse mode points)"
    by (simp add: trafficChart_view_def trafficLines_view_def container rate_text_def total_text_def Let_def)
qed

text \<open>Every colour a series of the traffic chart is drawn with is defined in both themes.\<close>

lemma traffic_sheets:
  "chart_sheet ident rateConfig dark =
     nl @ (if dark then ''.dark'' else []) @ '' [data-chart='' @ ident @ ''] {'' @ nl
     @ ''  --color-upload_rate: var(--chart-2);'' @ nl @ ''  --color-download_rate: var(--chart-1);'' @ nl @ ''}'' @ nl"
  "chart_sheet ident totalConfig dark =
     nl @ (if dark then ''.dark'' else []) @ '' [data-chart='' @ ident @ ''] {'' @ nl
     @ ''  --color-upload_bytes: var(--chart-2);'' @ nl @ ''  --color-download_bytes: var(--chart-1);'' @ nl @ ''}'' @ nl"
  by (simp_all add: chart_sheet_def rateConfig_def totalConfig_def chart_rule_def chart_color_def nl_def)

lemma chart_defines_colors:
  assumes "(key, item) \<in> set config" and "chart_color dark item = Some color" and "color \<noteq> []"
    and "\<And>c. ch_theme item = None \<Longrightarrow> ch_color item = Some c \<Longrightarrow> c \<noteq> []"
  shows "''  --color-'' @ key @ '': '' @ color @ '';'' \<in> set (map (chart_rule dark) (chart_coloured config))"
proof -
  have "(key, item) \<in> set (chart_coloured config)"
    using assms by (auto simp: chart_coloured_def chart_color_def split: option.splits)
  moreover have "chart_rule dark (key, item) = ''  --color-'' @ key @ '': '' @ color @ '';''" using assms by (simp add: chart_rule_def)
  ultimately show ?thesis by (metis image_eqI list.set_map)
qed

definition traffic_item :: "jobj \<Rightarrow> bool" where
  "traffic_item item \<longleftrightarrow> js_truthy (obj_get item ''name'') \<and> obj_get item ''value'' \<noteq> None \<and> obj_get item ''type'' \<noteq> Some (JStr ''none'')"

lemma traffic_row_texts:
  assumes "traffic_item item"
  shows "view_texts (tooltip_row (traffic_tooltip locale_number formatter timestamp) config labels nestLabel item)
    = [Str (formatter (value_number (the (obj_get item ''value''))))]"
  using assms by (auto simp: traffic_item_def tooltip_row_def traffic_tooltip_def Let_def)

text \<open>
  C36: What the tooltip of the traffic chart says. Over any point with a time, whatever the configuration of the series, its texts are the time as it was sent and
  then the bare amounts, in the order of the series, and nothing else: the formatter given replaces whole rows, so
  neither \<open>Upload\<close> nor \<open>Download\<close>, which the configuration names, nor the colour of a series is shown beside an amount. Without the formatter
  each row would have its name and its amount.
\<close>

theorem traffic_tooltip_texts:
  assumes "payload \<noteq> []" and "list_all traffic_item payload" and "time \<noteq> []" and "map_of config time = None"
    and "p = traffic_tooltip locale_number formatter (Some (JStr time))"
  shows "concat (map view_texts (chartTooltipContent_view p config payload))
      = Str time # map (\<lambda>item. Str (formatter (value_number (the (obj_get item ''value''))))) payload
    \<and> view_texts (tooltip_row (p\<lparr>ct_formatter := None\<rparr>) rateConfig [] False
        [(''name'', JStr ''upload_rate''), (''dataKey'', JStr ''upload_rate''), (''value'', JNum n)])
      = [tr ''dashboard.upload'', Str (locale_number n)]"
proof -
  have labels: "tooltip_label p config payload = [text_el ''div'' (Str time)]"
    using assms by (simp add: tooltip_label_def tooltip_labelValue_def traffic_tooltip_def tooltip_defaults_def item_label_def js_truthy_def Let_def)
  have dot: "ct_active p" "ct_indicator p = ''dot''" using assms(5) by (simp_all add: traffic_tooltip_def tooltip_defaults_def)
  have "map view_texts (map (tooltip_row p config [text_el ''div'' (Str time)] False) payload)
      = map (\<lambda>item. [Str (formatter (value_number (the (obj_get item ''value''))))]) payload"
    using assms(2) by (auto simp: list_all_iff assms(5) traffic_row_texts)
  moreover have "chart_shown payload = payload"
    using assms(2) by (auto simp: chart_shown_def list_all_iff traffic_item_def filter_id_conv)
  ultimately have rows: "concat (map view_texts (map (tooltip_row p config [text_el ''div'' (Str time)] False) (chart_shown payload)))
      = map (\<lambda>item. Str (formatter (value_number (the (obj_get item ''value''))))) payload"
    by (simp only: concat_map_singleton)
  have "concat (map view_texts (chartTooltipContent_view p config payload))
      = Str time # map (\<lambda>item. Str (formatter (value_number (the (obj_get item ''value''))))) payload"
    using assms(1) rows by (simp add: chartTooltipContent_view_def labels dot Let_def del: map_map)
  moreover have "view_texts (tooltip_row (p\<lparr>ct_formatter := None\<rparr>) rateConfig [] False
        [(''name'', JStr ''upload_rate''), (''dataKey'', JStr ''upload_rate''), (''value'', JNum n)])
      = [tr ''dashboard.upload'', Str (locale_number n)]"
    using assms(5) by (simp add: tooltip_row_def traffic_tooltip_def tooltip_defaults_def getPayloadConfigFromPayload_def config_at_def obj_get_def
        rateConfig_def item_label_def tooltip_value_def Let_def nullish_def when_view_def string_or_def)
  ultimately show ?thesis by simp
qed

lemma traffic_tooltip_texts_witness:
  "(let up = [(''name'', JStr ''upload_rate''), (''dataKey'', JStr ''upload_rate''), (''value'', JNum (Fin 512))];
        down = [(''name'', JStr ''download_rate''), (''dataKey'', JStr ''download_rate''), (''value'', JNum (Fin 64))]
    in concat (map view_texts (chartTooltipContent_view (traffic_tooltip number_to_string formatRate (Some (JStr ''2026-01-01''))) rateConfig [up, down]))
       = [Str ''2026-01-01'', Str (formatRate (Fin 512)), Str (formatRate (Fin 64))])"
proof -
  let ?p = "[[(''name'', JStr ''upload_rate''), (''dataKey'', JStr ''upload_rate''), (''value'', JNum (Fin 512))],
    [(''name'', JStr ''download_rate''), (''dataKey'', JStr ''download_rate''), (''value'', JNum (Fin 64))]]"
  have "list_all traffic_item ?p" by (simp add: traffic_item_def obj_get_def js_truthy_def)
  moreover have "map_of rateConfig ''2026-01-01'' = None" by (simp add: rateConfig_def)
  ultimately show ?thesis
    using traffic_tooltip_texts [of ?p "''2026-01-01''" rateConfig _ number_to_string formatRate, OF _ _ _ _ refl]
    by (simp add: value_number_def obj_get_def Let_def)
qed

end
