(* ===== verification/Kit.thy ===== *)
theory Kit
  imports Shell_Views Charts
begin

text \<open>
  The kit of styled elements, \<open>components/ui\<close>: what each of its components makes of the attributes and children given to it. Each
  wraps an element of the page or of the library of primitives, marks it by a slot, takes the attributes that
  choose a style, and hands the others on, so that they replace its own. The trees of the other theories are made of such
  components; \<open>expand\<close> turns them into trees of primitives. Class names, styles and event handlers are left out; an
  element given as \<open>render\<close> is a child of its part.
\<close>

subsection \<open>Attributes\<close>

type_synonym attributes = "(string \<times> attr) list"
type_synonym kit_render = "attributes \<Rightarrow> view list \<Rightarrow> view"

definition given_or :: "attributes \<Rightarrow> string \<Rightarrow> attr \<Rightarrow> attr" where
  "given_or given n d = (case map_of given n of Some a \<Rightarrow> a | None \<Rightarrow> d)"

definition kit_rest :: "string list \<Rightarrow> attributes \<Rightarrow> attributes" where
  "kit_rest taken given = filter (\<lambda>a. fst a \<notin> set taken) given"

definition passed :: "string \<Rightarrow> string \<Rightarrow> attributes \<Rightarrow> attributes" where
  "passed data n given = (case map_of given n of Some a \<Rightarrow> [(data, a)] | None \<Rightarrow> [])"

definition part_with :: "string \<Rightarrow> string \<Rightarrow> (attributes \<Rightarrow> attributes) \<Rightarrow> string list \<Rightarrow> kit_render" where
  "part_with base slot own taken given vs = El base (spread ((''data-slot'', Val slot) # own given) (kit_rest taken given)) vs"

definition part :: "string \<Rightarrow> string \<Rightarrow> kit_render" where
  "part base slot = part_with base slot (\<lambda>given. []) []"

text \<open>What a group of toggles hands to its items.\<close>

record toggle_context =
  tg_variant :: "attr option"
  tg_size :: "attr option"
  tg_spacing :: attr

definition toggle_default :: toggle_context where
  "toggle_default = \<lparr>tg_variant = Some (Val ''default''), tg_size = Some (Val ''default''), tg_spacing = Val ''2''\<rparr>"

definition toggle_given :: "attributes \<Rightarrow> toggle_context" where
  "toggle_given given = \<lparr>tg_variant = map_of given ''variant'', tg_size = map_of given ''size'', tg_spacing = given_or given ''spacing'' (Val ''2'')\<rparr>"

subsection \<open>Texts, fields and marks\<close>

definition skeleton_kit :: "kit_render" where
  "skeleton_kit = part ''div'' ''skeleton''"

definition spinner_kit :: "kit_render" where
  "spinner_kit = part_with ''Loader2Icon'' ''spinner'' (\<lambda>given. [(''role'', Val ''status''), (''aria-label'', Lab (Str ''Loading''))]) []"

definition textarea_kit :: "kit_render" where
  "textarea_kit = part ''textarea'' ''textarea''"

definition input_kit :: "kit_render" where
  "input_kit = part ''InputPrimitive'' ''input''"

definition label_kit :: "kit_render" where
  "label_kit = part ''label'' ''label''"

definition separator_kit :: "kit_render" where
  "separator_kit = part_with ''SeparatorPrimitive'' ''separator'' (\<lambda>given. [(''orientation'', given_or given ''orientation'' (Val ''horizontal''))]) [''orientation'']"

definition badge_kit :: "kit_render" where
  "badge_kit = part_with ''span'' ''badge'' (\<lambda>given. [(''data-variant'', given_or given ''variant'' (Val ''default''))]) [''variant'']"

definition button_kit :: "kit_render" where
  "button_kit = part_with ''ButtonPrimitive'' ''button'' (\<lambda>given. []) [''variant'', ''size'']"

definition toggle_kit :: "kit_render" where
  "toggle_kit = part_with ''TogglePrimitive'' ''toggle'' (\<lambda>given. []) [''variant'', ''size'']"

definition checkbox_kit :: "kit_render" where
  "checkbox_kit given vs = El ''CheckboxPrimitive.Root'' (spread [(''data-slot'', Val ''checkbox'')] given)
     [El ''CheckboxPrimitive.Indicator'' [(''data-slot'', Val ''checkbox-indicator'')] [El ''CheckIcon'' [] []]]"

definition switch_kit :: "kit_render" where
  "switch_kit given vs = El ''SwitchPrimitive.Root'' (spread [(''data-slot'', Val ''switch''), (''data-size'', given_or given ''size'' (Val ''default''))] (kit_rest [''size''] given))
     [El ''SwitchPrimitive.Thumb'' [(''data-slot'', Val ''switch-thumb'')] []]"

definition collapsible_kit :: "kit_render" where
  "collapsible_kit = part ''CollapsiblePrimitive.Root'' ''collapsible''"

definition collapsibleTrigger_kit :: "kit_render" where
  "collapsibleTrigger_kit = part ''CollapsiblePrimitive.Trigger'' ''collapsible-trigger''"

definition collapsibleContent_kit :: "kit_render" where
  "collapsibleContent_kit = part ''CollapsiblePrimitive.Panel'' ''collapsible-content''"

subsection \<open>Cards, alerts, tables and empty lists\<close>

definition card_kit :: "kit_render" where
  "card_kit = part_with ''div'' ''card'' (\<lambda>given. [(''data-size'', given_or given ''size'' (Val ''default''))]) [''size'']"

definition cardHeader_kit :: "kit_render" where
  "cardHeader_kit = part ''div'' ''card-header''"

definition cardTitle_kit :: "kit_render" where
  "cardTitle_kit = part ''div'' ''card-title''"

definition cardDescription_kit :: "kit_render" where
  "cardDescription_kit = part ''div'' ''card-description''"

definition cardAction_kit :: "kit_render" where
  "cardAction_kit = part ''div'' ''card-action''"

definition cardContent_kit :: "kit_render" where
  "cardContent_kit = part ''div'' ''card-content''"

definition cardFooter_kit :: "kit_render" where
  "cardFooter_kit = part ''div'' ''card-footer''"

definition alert_kit :: "kit_render" where
  "alert_kit = part_with ''div'' ''alert'' (\<lambda>given. [(''role'', Val ''alert'')]) [''variant'']"

definition alertTitle_kit :: "kit_render" where
  "alertTitle_kit = part ''div'' ''alert-title''"

definition alertDescription_kit :: "kit_render" where
  "alertDescription_kit = part ''div'' ''alert-description''"

definition alertAction_kit :: "kit_render" where
  "alertAction_kit = part ''div'' ''alert-action''"

definition empty_kit :: "kit_render" where
  "empty_kit = part ''div'' ''empty''"

definition emptyHeader_kit :: "kit_render" where
  "emptyHeader_kit = part ''div'' ''empty-header''"

definition emptyTitle_kit :: "kit_render" where
  "emptyTitle_kit = part ''div'' ''empty-title''"

definition emptyDescription_kit :: "kit_render" where
  "emptyDescription_kit = part ''div'' ''empty-description''"

definition emptyContent_kit :: "kit_render" where
  "emptyContent_kit = part ''div'' ''empty-content''"

definition emptyMedia_kit :: "kit_render" where
  "emptyMedia_kit = part_with ''div'' ''empty-icon'' (\<lambda>given. [(''data-variant'', given_or given ''variant'' (Val ''default''))]) [''variant'']"

definition table_kit :: "kit_render" where
  "table_kit given vs = El ''div'' [(''data-slot'', Val ''table-container'')] [part ''table'' ''table'' given vs]"

definition tableHeader_kit :: "kit_render" where
  "tableHeader_kit = part ''thead'' ''table-header''"

definition tableBody_kit :: "kit_render" where
  "tableBody_kit = part ''tbody'' ''table-body''"

definition tableFooter_kit :: "kit_render" where
  "tableFooter_kit = part ''tfoot'' ''table-footer''"

definition tableRow_kit :: "kit_render" where
  "tableRow_kit = part ''tr'' ''table-row''"

definition tableHead_kit :: "kit_render" where
  "tableHead_kit = part ''th'' ''table-head''"

definition tableCell_kit :: "kit_render" where
  "tableCell_kit = part ''td'' ''table-cell''"

definition tableCaption_kit :: "kit_render" where
  "tableCaption_kit = part ''caption'' ''table-caption''"

subsection \<open>Fields\<close>

definition fieldSet_kit :: "kit_render" where
  "fieldSet_kit = part ''fieldset'' ''field-set''"

definition fieldLegend_kit :: "kit_render" where
  "fieldLegend_kit = part_with ''legend'' ''field-legend'' (\<lambda>given. [(''data-variant'', given_or given ''variant'' (Val ''legend''))]) [''variant'']"

definition fieldGroup_kit :: "kit_render" where
  "fieldGroup_kit = part ''div'' ''field-group''"

definition fieldContent_kit :: "kit_render" where
  "fieldContent_kit = part ''div'' ''field-content''"

definition fieldTitle_kit :: "kit_render" where
  "fieldTitle_kit = part ''div'' ''field-label''"

definition field_kit :: "kit_render" where
  "field_kit = part_with ''div'' ''field'' (\<lambda>given. [(''role'', Val ''group''), (''data-orientation'', given_or given ''orientation'' (Val ''vertical''))]) [''orientation'']"

definition fieldLabel_kit :: "kit_render" where
  "fieldLabel_kit given vs = label_kit (spread [(''data-slot'', Val ''field-label'')] given) vs"

definition fieldDescription_kit :: "kit_render" where
  "fieldDescription_kit = part ''p'' ''field-description''"

definition fieldSeparator_kit :: "kit_render" where
  "fieldSeparator_kit given vs = El ''div'' (spread [(''data-slot'', Val ''field-separator''), (''data-content'', Flag (vs \<noteq> []))] given)
     (separator_kit [] [] # when_view (vs \<noteq> []) (El ''span'' [(''data-slot'', Val ''field-separator-content'')] vs))"

subsection \<open>Groups of inputs and toggles\<close>

definition inputGroup_kit :: "kit_render" where
  "inputGroup_kit = part_with ''div'' ''input-group'' (\<lambda>given. [(''role'', Val ''group'')]) []"

definition inputGroupAddon_kit :: "kit_render" where
  "inputGroupAddon_kit = part_with ''div'' ''input-group-addon'' (\<lambda>given. [(''role'', Val ''group''), (''data-align'', given_or given ''align'' (Val ''inline-start''))]) [''align'']"

definition inputGroupButton_kit :: "kit_render" where
  "inputGroupButton_kit given vs = button_kit (spread [(''type'', given_or given ''type'' (Val ''button'')), (''data-size'', given_or given ''size'' (Val ''xs'')), (''variant'', given_or given ''variant'' (Val ''ghost''))]
     (kit_rest [''type'', ''variant'', ''size''] given)) vs"

definition inputGroupText_kit :: "kit_render" where
  "inputGroupText_kit given vs = El ''span'' given vs"

definition inputGroupInput_kit :: "kit_render" where
  "inputGroupInput_kit given vs = input_kit (spread [(''data-slot'', Val ''input-group-control'')] given) vs"

definition inputGroupTextarea_kit :: "kit_render" where
  "inputGroupTextarea_kit given vs = textarea_kit (spread [(''data-slot'', Val ''input-group-control'')] given) vs"

definition toggleGroup_kit :: "kit_render" where
  "toggleGroup_kit = part_with ''ToggleGroupPrimitive'' ''toggle-group'' (\<lambda>given. passed ''data-variant'' ''variant'' given @ passed ''data-size'' ''size'' given
     @ [(''data-spacing'', given_or given ''spacing'' (Val ''2'')), (''data-orientation'', given_or given ''orientation'' (Val ''horizontal''))]) [''variant'', ''size'', ''spacing'', ''orientation'']"

definition toggleGroupItem_kit :: "toggle_context \<Rightarrow> kit_render" where
  "toggleGroupItem_kit ctx = part_with ''TogglePrimitive'' ''toggle-group-item'' (\<lambda>given.
     [(''data-variant'', case tg_variant ctx of Some a \<Rightarrow> a | None \<Rightarrow> given_or given ''variant'' (Val ''default'')),
      (''data-size'', case tg_size ctx of Some a \<Rightarrow> a | None \<Rightarrow> given_or given ''size'' (Val ''default'')), (''data-spacing'', tg_spacing ctx)]) [''variant'', ''size'']"

subsection \<open>Tabs\<close>

definition tabs_kit :: "kit_render" where
  "tabs_kit = part_with ''TabsPrimitive.Root'' ''tabs'' (\<lambda>given. [(''data-orientation'', given_or given ''orientation'' (Val ''horizontal''))]) [''orientation'']"

definition tabsList_kit :: "kit_render" where
  "tabsList_kit = part_with ''TabsPrimitive.List'' ''tabs-list'' (\<lambda>given. [(''data-variant'', given_or given ''variant'' (Val ''default''))]) [''variant'']"

definition tabsTrigger_kit :: "kit_render" where
  "tabsTrigger_kit = part ''TabsPrimitive.Tab'' ''tabs-trigger''"

definition tabsContent_kit :: "kit_render" where
  "tabsContent_kit = part ''TabsPrimitive.Panel'' ''tabs-content''"

subsection \<open>Scrolling\<close>

definition scrollBar_kit :: "kit_render" where
  "scrollBar_kit given vs = El ''ScrollAreaPrimitive.Scrollbar''
     (spread [(''data-slot'', Val ''scroll-area-scrollbar''), (''data-orientation'', given_or given ''orientation'' (Val ''vertical'')),
        (''orientation'', given_or given ''orientation'' (Val ''vertical''))] (kit_rest [''orientation''] given))
     [El ''ScrollAreaPrimitive.Thumb'' [(''data-slot'', Val ''scroll-area-thumb'')] []]"

definition scrollArea_kit :: "kit_render" where
  "scrollArea_kit given vs = part ''ScrollAreaPrimitive.Root'' ''scroll-area'' given
     [El ''ScrollAreaPrimitive.Viewport'' [(''data-slot'', Val ''scroll-area-viewport'')] vs, scrollBar_kit [] [], El ''ScrollAreaPrimitive.Corner'' [] []]"

subsection \<open>Choices\<close>

definition select_kit :: "kit_render" where
  "select_kit = El ''SelectPrimitive.Root''"

definition selectGroup_kit :: "kit_render" where
  "selectGroup_kit = part ''SelectPrimitive.Group'' ''select-group''"

definition selectValue_kit :: "kit_render" where
  "selectValue_kit = part ''SelectPrimitive.Value'' ''select-value''"

definition selectLabel_kit :: "kit_render" where
  "selectLabel_kit = part ''SelectPrimitive.GroupLabel'' ''select-label''"

definition selectSeparator_kit :: "kit_render" where
  "selectSeparator_kit = part ''SelectPrimitive.Separator'' ''select-separator''"

definition selectTrigger_kit :: "kit_render" where
  "selectTrigger_kit given vs = part_with ''SelectPrimitive.Trigger'' ''select-trigger'' (\<lambda>given. [(''data-size'', given_or given ''size'' (Val ''default''))]) [''size''] given
     (vs @ [El ''SelectPrimitive.Icon'' [] [El ''ChevronDownIcon'' [] []]])"

definition selectScrollUpButton_kit :: "kit_render" where
  "selectScrollUpButton_kit given vs = part ''SelectPrimitive.ScrollUpArrow'' ''select-scroll-up-button'' given [El ''ChevronUpIcon'' [] []]"

definition selectScrollDownButton_kit :: "kit_render" where
  "selectScrollDownButton_kit given vs = part ''SelectPrimitive.ScrollDownArrow'' ''select-scroll-down-button'' given [El ''ChevronDownIcon'' [] []]"

definition selectContent_kit :: "kit_render" where
  "selectContent_kit given vs = El ''SelectPrimitive.Portal'' [] [El ''SelectPrimitive.Positioner''
     [(''side'', given_or given ''side'' (Val ''bottom'')), (''sideOffset'', given_or given ''sideOffset'' (Val ''4'')), (''align'', given_or given ''align'' (Val ''center'')), (''alignOffset'', given_or given ''alignOffset'' (Val ''0'')),
      (''alignItemWithTrigger'', given_or given ''alignItemWithTrigger'' (Flag True))]
     [part_with ''SelectPrimitive.Popup'' ''select-content'' (\<lambda>given. [(''data-align-trigger'', given_or given ''alignItemWithTrigger'' (Flag True))])
        [''side'', ''sideOffset'', ''align'', ''alignOffset'', ''alignItemWithTrigger''] given
        [selectScrollUpButton_kit [] [], El ''SelectPrimitive.List'' [] vs, selectScrollDownButton_kit [] []]]]"

definition selectItem_kit :: "kit_render" where
  "selectItem_kit given vs = part ''SelectPrimitive.Item'' ''select-item'' given
     [El ''SelectPrimitive.ItemText'' [] vs, El ''SelectPrimitive.ItemIndicator'' [] [El ''span'' [] [El ''CheckIcon'' [] []]]]"

subsection \<open>Tooltips\<close>

definition tooltipProvider_kit :: "kit_render" where
  "tooltipProvider_kit = part_with ''TooltipPrimitive.Provider'' ''tooltip-provider'' (\<lambda>given. [(''delay'', given_or given ''delay'' (Val ''0''))]) [''delay'']"

definition tooltip_kit :: "kit_render" where
  "tooltip_kit = part ''TooltipPrimitive.Root'' ''tooltip''"

definition tooltipTrigger_kit :: "kit_render" where
  "tooltipTrigger_kit = part ''TooltipPrimitive.Trigger'' ''tooltip-trigger''"

definition tooltipContent_kit :: "kit_render" where
  "tooltipContent_kit given vs = El ''TooltipPrimitive.Portal'' [] [El ''TooltipPrimitive.Positioner''
     [(''align'', given_or given ''align'' (Val ''center'')), (''alignOffset'', given_or given ''alignOffset'' (Val ''0'')), (''side'', given_or given ''side'' (Val ''top'')), (''sideOffset'', given_or given ''sideOffset'' (Val ''4''))]
     [part_with ''TooltipPrimitive.Popup'' ''tooltip-content'' (\<lambda>given. []) [''align'', ''alignOffset'', ''side'', ''sideOffset''] given
        (vs @ [El ''TooltipPrimitive.Arrow'' [] []])]]"

subsection \<open>Dialogs and sheets\<close>

definition dialog_kit :: "kit_render" where
  "dialog_kit = part ''DialogPrimitive.Root'' ''dialog''"

definition dialogTrigger_kit :: "kit_render" where
  "dialogTrigger_kit = part ''DialogPrimitive.Trigger'' ''dialog-trigger''"

definition dialogPortal_kit :: "kit_render" where
  "dialogPortal_kit = part ''DialogPrimitive.Portal'' ''dialog-portal''"

definition dialogClose_kit :: "kit_render" where
  "dialogClose_kit = part ''DialogPrimitive.Close'' ''dialog-close''"

definition dialogOverlay_kit :: "kit_render" where
  "dialogOverlay_kit = part ''DialogPrimitive.Backdrop'' ''dialog-overlay''"

definition dialogTitle_kit :: "kit_render" where
  "dialogTitle_kit = part ''DialogPrimitive.Title'' ''dialog-title''"

definition dialogDescription_kit :: "kit_render" where
  "dialogDescription_kit = part ''DialogPrimitive.Description'' ''dialog-description''"

text \<open>The button in the corner: its label is fixed, for screen readers only.\<close>

definition corner_close :: "string \<Rightarrow> string \<Rightarrow> view" where
  "corner_close base slot = part base slot []
     [button_kit [(''variant'', Val ''ghost''), (''size'', Val ''icon-sm'')] [El ''XIcon'' [] [], text_el ''span'' (Str ''Close'')]]"

definition dialogContent_kit :: "kit_render" where
  "dialogContent_kit given vs = dialogPortal_kit [] [dialogOverlay_kit [] [],
     part_with ''DialogPrimitive.Popup'' ''dialog-content'' (\<lambda>given. []) [''showCloseButton''] given
       (vs @ when_view (given_or given ''showCloseButton'' (Flag True) \<noteq> Flag False) (corner_close ''DialogPrimitive.Close'' ''dialog-close''))]"

definition dialogHeader_kit :: "kit_render" where
  "dialogHeader_kit = part ''div'' ''dialog-header''"

definition dialogFooter_kit :: "kit_render" where
  "dialogFooter_kit given vs = part_with ''div'' ''dialog-footer'' (\<lambda>given. []) [''showCloseButton''] given
     (vs @ when_view (given_or given ''showCloseButton'' (Flag False) \<noteq> Flag False)
       (El ''DialogPrimitive.Close'' [] [button_kit [(''variant'', Val ''outline'')] [Txt (Str ''Close'')]]))"

definition sheet_kit :: "kit_render" where
  "sheet_kit = part ''SheetPrimitive.Root'' ''sheet''"

definition sheetTrigger_kit :: "kit_render" where
  "sheetTrigger_kit = part ''SheetPrimitive.Trigger'' ''sheet-trigger''"

definition sheetClose_kit :: "kit_render" where
  "sheetClose_kit = part ''SheetPrimitive.Close'' ''sheet-close''"

definition sheetPortal_kit :: "kit_render" where
  "sheetPortal_kit = part ''SheetPrimitive.Portal'' ''sheet-portal''"

definition sheetOverlay_kit :: "kit_render" where
  "sheetOverlay_kit = part ''SheetPrimitive.Backdrop'' ''sheet-overlay''"

definition sheetTitle_kit :: "kit_render" where
  "sheetTitle_kit = part ''SheetPrimitive.Title'' ''sheet-title''"

definition sheetDescription_kit :: "kit_render" where
  "sheetDescription_kit = part ''SheetPrimitive.Description'' ''sheet-description''"

definition sheetContent_kit :: "kit_render" where
  "sheetContent_kit given vs = sheetPortal_kit [] [sheetOverlay_kit [] [],
     part_with ''SheetPrimitive.Popup'' ''sheet-content'' (\<lambda>given. [(''data-side'', given_or given ''side'' (Val ''right''))]) [''side'', ''showCloseButton''] given
       (vs @ when_view (given_or given ''showCloseButton'' (Flag True) \<noteq> Flag False) (corner_close ''SheetPrimitive.Close'' ''sheet-close''))]"

definition sheetHeader_kit :: "kit_render" where
  "sheetHeader_kit = part ''div'' ''sheet-header''"

definition sheetFooter_kit :: "kit_render" where
  "sheetFooter_kit = part ''div'' ''sheet-footer''"

definition alertDialog_kit :: "kit_render" where
  "alertDialog_kit = part ''AlertDialogPrimitive.Root'' ''alert-dialog''"

definition alertDialogTrigger_kit :: "kit_render" where
  "alertDialogTrigger_kit = part ''AlertDialogPrimitive.Trigger'' ''alert-dialog-trigger''"

definition alertDialogPortal_kit :: "kit_render" where
  "alertDialogPortal_kit = part ''AlertDialogPrimitive.Portal'' ''alert-dialog-portal''"

definition alertDialogOverlay_kit :: "kit_render" where
  "alertDialogOverlay_kit = part ''AlertDialogPrimitive.Backdrop'' ''alert-dialog-overlay''"

definition alertDialogTitle_kit :: "kit_render" where
  "alertDialogTitle_kit = part ''AlertDialogPrimitive.Title'' ''alert-dialog-title''"

definition alertDialogDescription_kit :: "kit_render" where
  "alertDialogDescription_kit = part ''AlertDialogPrimitive.Description'' ''alert-dialog-description''"

definition alertDialogContent_kit :: "kit_render" where
  "alertDialogContent_kit given vs = alertDialogPortal_kit [] [alertDialogOverlay_kit [] [],
     part_with ''AlertDialogPrimitive.Popup'' ''alert-dialog-content'' (\<lambda>given. [(''data-size'', given_or given ''size'' (Val ''default''))]) [''size''] given vs]"

definition alertDialogHeader_kit :: "kit_render" where
  "alertDialogHeader_kit = part ''div'' ''alert-dialog-header''"

definition alertDialogFooter_kit :: "kit_render" where
  "alertDialogFooter_kit = part ''div'' ''alert-dialog-footer''"

definition alertDialogMedia_kit :: "kit_render" where
  "alertDialogMedia_kit = part ''div'' ''alert-dialog-media''"

text \<open>The action is a plain button, so pressing it does not close the dialog; the cancel button is one that does.\<close>

definition alertDialogAction_kit :: "kit_render" where
  "alertDialogAction_kit given vs = button_kit (spread [(''data-slot'', Val ''alert-dialog-action'')] given) vs"

definition alertDialogCancel_kit :: "kit_render" where
  "alertDialogCancel_kit given vs = part ''AlertDialogPrimitive.Close'' ''alert-dialog-cancel'' (kit_rest [''variant'', ''size''] given)
     [button_kit [(''variant'', given_or given ''variant'' (Val ''outline'')), (''size'', given_or given ''size'' (Val ''default''))] vs]"

subsection \<open>Menus\<close>

definition dropdownMenu_kit :: "kit_render" where
  "dropdownMenu_kit = part ''MenuPrimitive.Root'' ''dropdown-menu''"

definition dropdownMenuPortal_kit :: "kit_render" where
  "dropdownMenuPortal_kit = part ''MenuPrimitive.Portal'' ''dropdown-menu-portal''"

definition dropdownMenuTrigger_kit :: "kit_render" where
  "dropdownMenuTrigger_kit = part ''MenuPrimitive.Trigger'' ''dropdown-menu-trigger''"

definition dropdownMenuGroup_kit :: "kit_render" where
  "dropdownMenuGroup_kit = part ''MenuPrimitive.Group'' ''dropdown-menu-group''"

definition dropdownMenuSub_kit :: "kit_render" where
  "dropdownMenuSub_kit = part ''MenuPrimitive.SubmenuRoot'' ''dropdown-menu-sub''"

definition dropdownMenuRadioGroup_kit :: "kit_render" where
  "dropdownMenuRadioGroup_kit = part ''MenuPrimitive.RadioGroup'' ''dropdown-menu-radio-group''"

definition dropdownMenuSeparator_kit :: "kit_render" where
  "dropdownMenuSeparator_kit = part ''MenuPrimitive.Separator'' ''dropdown-menu-separator''"

definition dropdownMenuShortcut_kit :: "kit_render" where
  "dropdownMenuShortcut_kit = part ''span'' ''dropdown-menu-shortcut''"

definition dropdownMenuLabel_kit :: "kit_render" where
  "dropdownMenuLabel_kit = part_with ''MenuPrimitive.GroupLabel'' ''dropdown-menu-label'' (\<lambda>given. passed ''data-inset'' ''inset'' given) [''inset'']"

definition dropdownMenuItem_kit :: "kit_render" where
  "dropdownMenuItem_kit = part_with ''MenuPrimitive.Item'' ''dropdown-menu-item'' (\<lambda>given. passed ''data-inset'' ''inset'' given @ [(''data-variant'', given_or given ''variant'' (Val ''default''))]) [''inset'', ''variant'']"

definition dropdownMenuContent_kit :: "kit_render" where
  "dropdownMenuContent_kit given vs = El ''MenuPrimitive.Portal'' [] [El ''MenuPrimitive.Positioner''
     [(''align'', given_or given ''align'' (Val ''start'')), (''alignOffset'', given_or given ''alignOffset'' (Val ''0'')), (''side'', given_or given ''side'' (Val ''bottom'')), (''sideOffset'', given_or given ''sideOffset'' (Val ''4''))]
     [part_with ''MenuPrimitive.Popup'' ''dropdown-menu-content'' (\<lambda>given. []) [''align'', ''alignOffset'', ''side'', ''sideOffset''] given
        (vs)]]"

definition dropdownMenuSubTrigger_kit :: "kit_render" where
  "dropdownMenuSubTrigger_kit given vs = part_with ''MenuPrimitive.SubmenuTrigger'' ''dropdown-menu-sub-trigger'' (\<lambda>given. passed ''data-inset'' ''inset'' given) [''inset''] given
     (vs @ [El ''ChevronRightIcon'' [] []])"

definition dropdownMenuSubContent_kit :: "kit_render" where
  "dropdownMenuSubContent_kit given vs = dropdownMenuContent_kit
     (spread [(''data-slot'', Val ''dropdown-menu-sub-content''), (''align'', given_or given ''align'' (Val ''start'')), (''alignOffset'', given_or given ''alignOffset'' (Val ''-3'')), (''side'', given_or given ''side'' (Val ''right'')), (''sideOffset'', given_or given ''sideOffset'' (Val ''0''))]
       (kit_rest [''align'', ''alignOffset'', ''side'', ''sideOffset''] given)) vs"

definition dropdownMenuCheckboxItem_kit :: "kit_render" where
  "dropdownMenuCheckboxItem_kit given vs = part_with ''MenuPrimitive.CheckboxItem'' ''dropdown-menu-checkbox-item'' (\<lambda>given. passed ''data-inset'' ''inset'' given) [''inset''] given
     (El ''span'' [(''data-slot'', Val ''dropdown-menu-checkbox-item-indicator'')] [El ''MenuPrimitive.CheckboxItemIndicator'' [] [El ''CheckIcon'' [] []]] # vs)"

definition dropdownMenuRadioItem_kit :: "kit_render" where
  "dropdownMenuRadioItem_kit given vs = part_with ''MenuPrimitive.RadioItem'' ''dropdown-menu-radio-item'' (\<lambda>given. passed ''data-inset'' ''inset'' given) [''inset''] given
     (El ''span'' [(''data-slot'', Val ''dropdown-menu-radio-item-indicator'')] [El ''MenuPrimitive.RadioItemIndicator'' [] [El ''CheckIcon'' [] []]] # vs)"

subsection \<open>The kit\<close>

definition kit :: "toggle_context \<Rightarrow> (string \<times> kit_render) list" where
  "kit ctx =
     [(''Skeleton'', skeleton_kit),
      (''Spinner'', spinner_kit),
      (''Textarea'', textarea_kit),
      (''Input'', input_kit),
      (''Label'', label_kit),
      (''Separator'', separator_kit),
      (''Badge'', badge_kit),
      (''Button'', button_kit),
      (''Toggle'', toggle_kit),
      (''Checkbox'', checkbox_kit),
      (''Switch'', switch_kit),
      (''Collapsible'', collapsible_kit),
      (''CollapsibleTrigger'', collapsibleTrigger_kit),
      (''CollapsibleContent'', collapsibleContent_kit),
      (''Card'', card_kit),
      (''CardHeader'', cardHeader_kit),
      (''CardTitle'', cardTitle_kit),
      (''CardDescription'', cardDescription_kit),
      (''CardAction'', cardAction_kit),
      (''CardContent'', cardContent_kit),
      (''CardFooter'', cardFooter_kit),
      (''Alert'', alert_kit),
      (''AlertTitle'', alertTitle_kit),
      (''AlertDescription'', alertDescription_kit),
      (''AlertAction'', alertAction_kit),
      (''Empty'', empty_kit),
      (''EmptyHeader'', emptyHeader_kit),
      (''EmptyTitle'', emptyTitle_kit),
      (''EmptyDescription'', emptyDescription_kit),
      (''EmptyContent'', emptyContent_kit),
      (''EmptyMedia'', emptyMedia_kit),
      (''Table'', table_kit),
      (''TableHeader'', tableHeader_kit),
      (''TableBody'', tableBody_kit),
      (''TableFooter'', tableFooter_kit),
      (''TableRow'', tableRow_kit),
      (''TableHead'', tableHead_kit),
      (''TableCell'', tableCell_kit),
      (''TableCaption'', tableCaption_kit),
      (''FieldSet'', fieldSet_kit),
      (''FieldLegend'', fieldLegend_kit),
      (''FieldGroup'', fieldGroup_kit),
      (''FieldContent'', fieldContent_kit),
      (''FieldTitle'', fieldTitle_kit),
      (''Field'', field_kit),
      (''FieldLabel'', fieldLabel_kit),
      (''FieldDescription'', fieldDescription_kit),
      (''FieldSeparator'', fieldSeparator_kit),
      (''InputGroup'', inputGroup_kit),
      (''InputGroupAddon'', inputGroupAddon_kit),
      (''InputGroupButton'', inputGroupButton_kit),
      (''InputGroupText'', inputGroupText_kit),
      (''InputGroupInput'', inputGroupInput_kit),
      (''InputGroupTextarea'', inputGroupTextarea_kit),
      (''ToggleGroup'', toggleGroup_kit),
      (''ToggleGroupItem'', toggleGroupItem_kit ctx),
      (''Tabs'', tabs_kit),
      (''TabsList'', tabsList_kit),
      (''TabsTrigger'', tabsTrigger_kit),
      (''TabsContent'', tabsContent_kit),
      (''ScrollBar'', scrollBar_kit),
      (''ScrollArea'', scrollArea_kit),
      (''Select'', select_kit),
      (''SelectGroup'', selectGroup_kit),
      (''SelectValue'', selectValue_kit),
      (''SelectLabel'', selectLabel_kit),
      (''SelectSeparator'', selectSeparator_kit),
      (''SelectTrigger'', selectTrigger_kit),
      (''SelectScrollUpButton'', selectScrollUpButton_kit),
      (''SelectScrollDownButton'', selectScrollDownButton_kit),
      (''SelectContent'', selectContent_kit),
      (''SelectItem'', selectItem_kit),
      (''TooltipProvider'', tooltipProvider_kit),
      (''Tooltip'', tooltip_kit),
      (''TooltipTrigger'', tooltipTrigger_kit),
      (''TooltipContent'', tooltipContent_kit),
      (''Dialog'', dialog_kit),
      (''DialogTrigger'', dialogTrigger_kit),
      (''DialogPortal'', dialogPortal_kit),
      (''DialogClose'', dialogClose_kit),
      (''DialogOverlay'', dialogOverlay_kit),
      (''DialogTitle'', dialogTitle_kit),
      (''DialogDescription'', dialogDescription_kit),
      (''DialogContent'', dialogContent_kit),
      (''DialogHeader'', dialogHeader_kit),
      (''DialogFooter'', dialogFooter_kit),
      (''Sheet'', sheet_kit),
      (''SheetTrigger'', sheetTrigger_kit),
      (''SheetClose'', sheetClose_kit),
      (''SheetPortal'', sheetPortal_kit),
      (''SheetOverlay'', sheetOverlay_kit),
      (''SheetTitle'', sheetTitle_kit),
      (''SheetDescription'', sheetDescription_kit),
      (''SheetContent'', sheetContent_kit),
      (''SheetHeader'', sheetHeader_kit),
      (''SheetFooter'', sheetFooter_kit),
      (''AlertDialog'', alertDialog_kit),
      (''AlertDialogTrigger'', alertDialogTrigger_kit),
      (''AlertDialogPortal'', alertDialogPortal_kit),
      (''AlertDialogOverlay'', alertDialogOverlay_kit),
      (''AlertDialogTitle'', alertDialogTitle_kit),
      (''AlertDialogDescription'', alertDialogDescription_kit),
      (''AlertDialogContent'', alertDialogContent_kit),
      (''AlertDialogHeader'', alertDialogHeader_kit),
      (''AlertDialogFooter'', alertDialogFooter_kit),
      (''AlertDialogMedia'', alertDialogMedia_kit),
      (''AlertDialogAction'', alertDialogAction_kit),
      (''AlertDialogCancel'', alertDialogCancel_kit),
      (''DropdownMenu'', dropdownMenu_kit),
      (''DropdownMenuPortal'', dropdownMenuPortal_kit),
      (''DropdownMenuTrigger'', dropdownMenuTrigger_kit),
      (''DropdownMenuGroup'', dropdownMenuGroup_kit),
      (''DropdownMenuSub'', dropdownMenuSub_kit),
      (''DropdownMenuRadioGroup'', dropdownMenuRadioGroup_kit),
      (''DropdownMenuSeparator'', dropdownMenuSeparator_kit),
      (''DropdownMenuShortcut'', dropdownMenuShortcut_kit),
      (''DropdownMenuLabel'', dropdownMenuLabel_kit),
      (''DropdownMenuItem'', dropdownMenuItem_kit),
      (''DropdownMenuContent'', dropdownMenuContent_kit),
      (''DropdownMenuSubTrigger'', dropdownMenuSubTrigger_kit),
      (''DropdownMenuSubContent'', dropdownMenuSubContent_kit),
      (''DropdownMenuCheckboxItem'', dropdownMenuCheckboxItem_kit),
      (''DropdownMenuRadioItem'', dropdownMenuRadioItem_kit)]"

subsection \<open>Errors of a field and notices\<close>

text \<open>
  The errors of a field by their messages, which an error may lack: each once, where it first was; a single one plainly, several as a
  list. Children given take their place.
\<close>

definition fieldError_content :: "view list \<Rightarrow> string option list \<Rightarrow> view list" where
  "fieldError_content children errors =
     (if children \<noteq> [] then children
      else if errors = [] then []
      else (let uniqueErrors = js_unique errors
            in if length uniqueErrors = 1 then (case hd uniqueErrors of Some m \<Rightarrow> when_view (m \<noteq> []) (Txt (Str m)) | None \<Rightarrow> [])
               else [El ''ul'' [] (concat (map (\<lambda>(index, e). case e of
                   Some m \<Rightarrow> when_view (m \<noteq> []) (El ''li'' [(''key'', Val (digits_of (int index)))] [Txt (Str m)])
                 | None \<Rightarrow> []) (enumerate 0 uniqueErrors)))]))"

definition fieldError_kit :: "attributes \<Rightarrow> view list \<Rightarrow> string option list \<Rightarrow> view list" where
  "fieldError_kit given children errors =
     (let content = fieldError_content children errors
      in when_view (content \<noteq> []) (El ''div'' (spread [(''role'', Val ''alert''), (''data-slot'', Val ''field-error'')] given) content))"

text \<open>The notices take the theme of a provider of themes, if there is one; the panel has none.\<close>

definition toaster_kit :: "string option \<Rightarrow> attributes \<Rightarrow> view" where
  "toaster_kit provided given = El ''Sonner'' (spread [(''theme'', Val (case provided of Some t \<Rightarrow> t | None \<Rightarrow> ''system''))] given) []"

lemma when_view_simps: "when_view True v = [v]" "when_view False v = []"
  by (simp_all add: when_view_def option_view_def)

lemma error_list_texts:
  "concat (map view_texts (concat (map (\<lambda>(index, e). case e of
       Some m \<Rightarrow> when_view (m \<noteq> []) (El ''li'' [(''key'', Val (f index))] [Txt (Str m)]) | None \<Rightarrow> []) (enumerate n us))))
     = map (\<lambda>e. Str (the e)) (filter (\<lambda>e. e \<noteq> None \<and> e \<noteq> Some []) us)"
  by (induction us arbitrary: n) (auto simp: when_view_def option_view_def split: option.split)

lemma js_unique_empty [simp]: "js_unique errors = [] \<longleftrightarrow> errors = []"
  by (cases errors) simp_all

text \<open>Every message is shown once, in the order of the errors.\<close>

lemma fieldError_texts:
  "concat (map view_texts (fieldError_kit given [] errors)) = map (\<lambda>e. Str (the e)) (filter (\<lambda>e. e \<noteq> None \<and> e \<noteq> Some []) (js_unique errors))"
proof (cases "length (js_unique errors) = 1")
  case True
  then obtain e where "js_unique errors = [e]" by (auto simp: length_Suc_conv)
  then show ?thesis
    by (cases e) (auto simp: fieldError_kit_def fieldError_content_def when_view_def option_view_def Let_def)
next
  case False
  then show ?thesis
    using error_list_texts [of "\<lambda>i. digits_of (int i)" 0 "js_unique errors"]
    by (cases "errors = []") (simp_all add: fieldError_kit_def fieldError_content_def Let_def when_view_simps)
qed

subsection \<open>From the components to the primitives\<close>

text \<open>A component is replaced by what it renders, its children first; a group of toggles hands its style to what is inside.\<close>

fun expand :: "toggle_context \<Rightarrow> view \<Rightarrow> view" where
  "expand ctx (Txt l) = Txt l"
| "expand ctx (El tag attrs vs) =
     (let children = map (expand (if tag = ''ToggleGroup'' then toggle_given attrs else ctx)) vs
      in case map_of (kit ctx) tag of Some render \<Rightarrow> render attrs children | None \<Rightarrow> El tag attrs children)"

text \<open>The components that show marks of their own in place of children.\<close>

definition kit_leaves :: "string list" where
  "kit_leaves = [''Checkbox'', ''Switch'', ''ScrollBar'', ''SelectScrollUpButton'', ''SelectScrollDownButton'']"

primrec leaves_bare :: "view \<Rightarrow> bool" where
  "leaves_bare (Txt l) = True"
| "leaves_bare (El tag attrs vs) = ((tag \<in> set kit_leaves \<longrightarrow> vs = []) \<and> list_all id (map leaves_bare vs))"

text \<open>The names the kit gives or takes itself.\<close>

definition kit_names :: "string list" where
  "kit_names =
     [''data-slot'', ''data-size'', ''data-variant'', ''data-orientation'', ''data-spacing'', ''data-inset'', ''data-align'', ''data-align-trigger'',
      ''data-side'', ''data-content'', ''role'', ''type'', ''aria-label'', ''variant'', ''size'', ''orientation'', ''spacing'', ''side'', ''sideOffset'',
      ''align'', ''alignOffset'', ''alignItemWithTrigger'', ''showCloseButton'', ''inset'', ''delay'']"

text \<open>The buttons to close that a component adds, and the texts shown with them: the reference for what the kit shows.\<close>

definition kit_closes :: "string \<Rightarrow> attributes \<Rightarrow> nat" where
  "kit_closes tag attrs =
     (if tag \<in> {''DialogContent'', ''SheetContent''} \<and> given_or attrs ''showCloseButton'' (Flag True) \<noteq> Flag False
        \<or> tag = ''DialogFooter'' \<and> given_or attrs ''showCloseButton'' (Flag False) \<noteq> Flag False then 1 else 0)"

primrec kit_texts :: "view \<Rightarrow> label list" where
  "kit_texts (Txt l) = [l]"
| "kit_texts (El tag attrs vs) = concat (map kit_texts vs) @ replicate (kit_closes tag attrs) (Str ''Close'')"

primrec attrs_named :: "string \<Rightarrow> view \<Rightarrow> attributes" where
  "attrs_named n (Txt l) = []"
| "attrs_named n (El tag attrs vs) = filter (\<lambda>a. fst a = n) attrs @ concat (map (attrs_named n) vs)"

definition kit_ok :: "string \<Rightarrow> kit_render \<Rightarrow> bool" where
  "kit_ok tag render \<longleftrightarrow>
     (\<forall>given vs. attrs_known given \<longrightarrow> list_all translated vs \<longrightarrow> translated (render given vs))
     \<and> (\<forall>given vs. (tag \<in> set kit_leaves \<longrightarrow> vs = []) \<longrightarrow>
     view_texts (render given vs) = concat (map view_texts vs) @ replicate (kit_closes tag given) (Str ''Close'')
     \<and> (\<forall>n. n \<notin> set kit_names \<longrightarrow> attrs_named n (render given vs) = filter (\<lambda>a. fst a = n) given @ concat (map (attrs_named n) vs)))"

definition toggle_known :: "toggle_context \<Rightarrow> bool" where
  "toggle_known ctx \<longleftrightarrow> pred_option attr_known (tg_variant ctx) \<and> pred_option attr_known (tg_size ctx) \<and> attr_known (tg_spacing ctx)"

subsection \<open>Lemmas\<close>

lemma map_of_known: "attrs_known given \<Longrightarrow> map_of given n = Some a \<Longrightarrow> attr_known a"
  by (metis attrs_known_def list_all_iff map_of_SomeD snd_conv)

lemma known_given_or [simp]: "attrs_known given \<Longrightarrow> attr_known d \<Longrightarrow> attr_known (given_or given n d)"
  by (auto simp: given_or_def dest: map_of_known split: option.split)

lemma known_kit_rest [simp]: "attrs_known given \<Longrightarrow> attrs_known (kit_rest taken given)"
  by (simp add: kit_rest_def attrs_known_filter)

lemma known_passed [simp]: "attrs_known given \<Longrightarrow> attrs_known (passed data n given)"
  by (auto simp: passed_def dest: map_of_known split: option.split)

lemma known_spread [simp]: "attrs_known own \<Longrightarrow> attrs_known given \<Longrightarrow> attrs_known (spread own given)"
  by (simp add: attrs_known_spread)

lemma named_kit_rest [simp]: "n \<notin> set taken \<Longrightarrow> filter (\<lambda>a. fst a = n) (kit_rest taken given) = filter (\<lambda>a. fst a = n) given"
  by (auto simp: kit_rest_def intro: filter_cong)

lemma named_passed [simp]: "n \<noteq> data \<Longrightarrow> filter (\<lambda>a. fst a = n) (passed data m given) = []"
  by (simp add: passed_def split: option.split)

lemma named_spread [simp]:
  "filter (\<lambda>a. fst a = n) own = [] \<Longrightarrow> filter (\<lambda>a. fst a = n) (spread own given) = filter (\<lambda>a. fst a = n) given"
  by (auto simp: spread_def filter_empty_conv)

lemmas kit_part_simps = part_with_def part_def when_view_def option_view_def text_el_def

lemma kit_name_neq:
  "n \<notin> set kit_names \<Longrightarrow> n \<noteq> ''data-slot''" "n \<notin> set kit_names \<Longrightarrow> n \<noteq> ''data-size''"
  "n \<notin> set kit_names \<Longrightarrow> n \<noteq> ''data-variant''" "n \<notin> set kit_names \<Longrightarrow> n \<noteq> ''data-orientation''"
  "n \<notin> set kit_names \<Longrightarrow> n \<noteq> ''data-spacing''" "n \<notin> set kit_names \<Longrightarrow> n \<noteq> ''data-inset''"
  "n \<notin> set kit_names \<Longrightarrow> n \<noteq> ''data-align''" "n \<notin> set kit_names \<Longrightarrow> n \<noteq> ''data-align-trigger''"
  "n \<notin> set kit_names \<Longrightarrow> n \<noteq> ''data-side''" "n \<notin> set kit_names \<Longrightarrow> n \<noteq> ''data-content''"
  "n \<notin> set kit_names \<Longrightarrow> n \<noteq> ''role''" "n \<notin> set kit_names \<Longrightarrow> n \<noteq> ''type''"
  "n \<notin> set kit_names \<Longrightarrow> n \<noteq> ''aria-label''" "n \<notin> set kit_names \<Longrightarrow> n \<noteq> ''variant''"
  "n \<notin> set kit_names \<Longrightarrow> n \<noteq> ''size''" "n \<notin> set kit_names \<Longrightarrow> n \<noteq> ''orientation''"
  "n \<notin> set kit_names \<Longrightarrow> n \<noteq> ''spacing''" "n \<notin> set kit_names \<Longrightarrow> n \<noteq> ''side''"
  "n \<notin> set kit_names \<Longrightarrow> n \<noteq> ''sideOffset''" "n \<notin> set kit_names \<Longrightarrow> n \<noteq> ''align''"
  "n \<notin> set kit_names \<Longrightarrow> n \<noteq> ''alignOffset''"
  "n \<notin> set kit_names \<Longrightarrow> n \<noteq> ''alignItemWithTrigger''"
  "n \<notin> set kit_names \<Longrightarrow> n \<noteq> ''showCloseButton''" "n \<notin> set kit_names \<Longrightarrow> n \<noteq> ''inset''"
  "n \<notin> set kit_names \<Longrightarrow> n \<noteq> ''delay''"
  by (auto simp: kit_names_def)

lemma member_kit_names:
  "''data-slot'' \<in> set kit_names" "''data-size'' \<in> set kit_names" "''data-variant'' \<in> set kit_names" "''data-orientation'' \<in> set kit_names" "''data-spacing'' \<in> set kit_names"
  "''data-inset'' \<in> set kit_names" "''data-align'' \<in> set kit_names" "''data-align-trigger'' \<in> set kit_names" "''data-side'' \<in> set kit_names" "''data-content'' \<in> set kit_names"
  "''role'' \<in> set kit_names" "''type'' \<in> set kit_names" "''aria-label'' \<in> set kit_names" "''variant'' \<in> set kit_names" "''size'' \<in> set kit_names"
  "''orientation'' \<in> set kit_names" "''spacing'' \<in> set kit_names" "''side'' \<in> set kit_names" "''sideOffset'' \<in> set kit_names" "''align'' \<in> set kit_names"
  "''alignOffset'' \<in> set kit_names" "''alignItemWithTrigger'' \<in> set kit_names" "''showCloseButton'' \<in> set kit_names" "''inset'' \<in> set kit_names" "''delay'' \<in> set kit_names"
  by (simp_all add: kit_names_def)

lemma kit_name_in: "set taken \<subseteq> set kit_names \<longleftrightarrow> list_all (\<lambda>n. n \<in> set kit_names) taken"
  by (auto simp: list_all_iff)

lemmas kit_name_neqs = kit_name_neq kit_name_neq [symmetric]

lemma part_with_ok:
  assumes "kit_closes tag = (\<lambda>_. 0)" and "set taken \<subseteq> set kit_names"
    and "\<And>given. attrs_known given \<Longrightarrow> attrs_known (own given)"
    and "\<And>given n. n \<notin> set kit_names \<Longrightarrow> filter (\<lambda>a. fst a = n) (own given) = []"
  shows "kit_ok tag (part_with base slot own taken)"
proof -
  have names: "filter (\<lambda>a. fst a = n) (spread ((''data-slot'', Val slot) # own given) (kit_rest taken given)) = filter (\<lambda>a. fst a = n) given"
    if "n \<notin> set kit_names" for n given
  proof -
    have "n \<notin> set taken" using that assms(2) by blast
    then show ?thesis using that assms(4) kit_name_neq(1) [OF that] by simp
  qed
  then show ?thesis using assms(1,3) by (simp add: kit_ok_def part_with_def)
qed

lemma part_ok: "kit_closes tag = (\<lambda>_. 0) \<Longrightarrow> kit_ok tag (part base slot)"
  unfolding part_def by (rule part_with_ok) simp_all

lemmas kit_simple_defs =
  skeleton_kit_def spinner_kit_def textarea_kit_def input_kit_def label_kit_def separator_kit_def badge_kit_def button_kit_def toggle_kit_def
  collapsible_kit_def collapsibleTrigger_kit_def collapsibleContent_kit_def card_kit_def cardHeader_kit_def cardTitle_kit_def cardDescription_kit_def
  cardAction_kit_def cardContent_kit_def cardFooter_kit_def alert_kit_def alertTitle_kit_def alertDescription_kit_def alertAction_kit_def empty_kit_def
  emptyHeader_kit_def emptyTitle_kit_def emptyDescription_kit_def emptyContent_kit_def emptyMedia_kit_def tableHeader_kit_def tableBody_kit_def
  tableFooter_kit_def tableRow_kit_def tableHead_kit_def tableCell_kit_def tableCaption_kit_def fieldSet_kit_def fieldLegend_kit_def fieldGroup_kit_def
  fieldContent_kit_def fieldTitle_kit_def field_kit_def fieldDescription_kit_def inputGroup_kit_def inputGroupAddon_kit_def toggleGroup_kit_def
  tabs_kit_def tabsList_kit_def tabsTrigger_kit_def tabsContent_kit_def selectGroup_kit_def selectValue_kit_def selectLabel_kit_def
  selectSeparator_kit_def tooltipProvider_kit_def tooltip_kit_def tooltipTrigger_kit_def dialog_kit_def dialogTrigger_kit_def dialogPortal_kit_def
  dialogClose_kit_def dialogOverlay_kit_def dialogTitle_kit_def dialogDescription_kit_def dialogHeader_kit_def sheet_kit_def sheetTrigger_kit_def
  sheetClose_kit_def sheetPortal_kit_def sheetOverlay_kit_def sheetTitle_kit_def sheetDescription_kit_def sheetHeader_kit_def sheetFooter_kit_def
  alertDialog_kit_def alertDialogTrigger_kit_def alertDialogPortal_kit_def alertDialogOverlay_kit_def alertDialogTitle_kit_def
  alertDialogDescription_kit_def alertDialogHeader_kit_def alertDialogFooter_kit_def alertDialogMedia_kit_def dropdownMenu_kit_def
  dropdownMenuPortal_kit_def dropdownMenuTrigger_kit_def dropdownMenuGroup_kit_def dropdownMenuSub_kit_def dropdownMenuRadioGroup_kit_def
  dropdownMenuSeparator_kit_def dropdownMenuShortcut_kit_def dropdownMenuLabel_kit_def dropdownMenuItem_kit_def

lemma kit_simple_ok:
  "kit_ok ''Skeleton'' skeleton_kit" "kit_ok ''Spinner'' spinner_kit" "kit_ok ''Textarea'' textarea_kit" "kit_ok ''Input'' input_kit"
  "kit_ok ''Label'' label_kit" "kit_ok ''Separator'' separator_kit" "kit_ok ''Badge'' badge_kit" "kit_ok ''Button'' button_kit"
  "kit_ok ''Toggle'' toggle_kit" "kit_ok ''Collapsible'' collapsible_kit" "kit_ok ''CollapsibleTrigger'' collapsibleTrigger_kit"
  "kit_ok ''CollapsibleContent'' collapsibleContent_kit" "kit_ok ''Card'' card_kit" "kit_ok ''CardHeader'' cardHeader_kit"
  "kit_ok ''CardTitle'' cardTitle_kit" "kit_ok ''CardDescription'' cardDescription_kit" "kit_ok ''CardAction'' cardAction_kit"
  "kit_ok ''CardContent'' cardContent_kit" "kit_ok ''CardFooter'' cardFooter_kit" "kit_ok ''Alert'' alert_kit" "kit_ok ''AlertTitle'' alertTitle_kit"
  "kit_ok ''AlertDescription'' alertDescription_kit" "kit_ok ''AlertAction'' alertAction_kit" "kit_ok ''Empty'' empty_kit"
  "kit_ok ''EmptyHeader'' emptyHeader_kit" "kit_ok ''EmptyTitle'' emptyTitle_kit" "kit_ok ''EmptyDescription'' emptyDescription_kit"
  "kit_ok ''EmptyContent'' emptyContent_kit" "kit_ok ''EmptyMedia'' emptyMedia_kit" "kit_ok ''TableHeader'' tableHeader_kit"
  "kit_ok ''TableBody'' tableBody_kit" "kit_ok ''TableFooter'' tableFooter_kit" "kit_ok ''TableRow'' tableRow_kit" "kit_ok ''TableHead'' tableHead_kit"
  "kit_ok ''TableCell'' tableCell_kit" "kit_ok ''TableCaption'' tableCaption_kit" "kit_ok ''FieldSet'' fieldSet_kit"
  "kit_ok ''FieldLegend'' fieldLegend_kit" "kit_ok ''FieldGroup'' fieldGroup_kit" "kit_ok ''FieldContent'' fieldContent_kit"
  "kit_ok ''FieldTitle'' fieldTitle_kit" "kit_ok ''Field'' field_kit" "kit_ok ''FieldDescription'' fieldDescription_kit"
  "kit_ok ''InputGroup'' inputGroup_kit" "kit_ok ''InputGroupAddon'' inputGroupAddon_kit" "kit_ok ''ToggleGroup'' toggleGroup_kit"
  "kit_ok ''Tabs'' tabs_kit" "kit_ok ''TabsList'' tabsList_kit" "kit_ok ''TabsTrigger'' tabsTrigger_kit" "kit_ok ''TabsContent'' tabsContent_kit"
  "kit_ok ''SelectGroup'' selectGroup_kit" "kit_ok ''SelectValue'' selectValue_kit" "kit_ok ''SelectLabel'' selectLabel_kit"
  "kit_ok ''SelectSeparator'' selectSeparator_kit" "kit_ok ''TooltipProvider'' tooltipProvider_kit" "kit_ok ''Tooltip'' tooltip_kit"
  "kit_ok ''TooltipTrigger'' tooltipTrigger_kit" "kit_ok ''Dialog'' dialog_kit" "kit_ok ''DialogTrigger'' dialogTrigger_kit"
  "kit_ok ''DialogPortal'' dialogPortal_kit" "kit_ok ''DialogClose'' dialogClose_kit" "kit_ok ''DialogOverlay'' dialogOverlay_kit"
  "kit_ok ''DialogTitle'' dialogTitle_kit" "kit_ok ''DialogDescription'' dialogDescription_kit" "kit_ok ''DialogHeader'' dialogHeader_kit"
  "kit_ok ''Sheet'' sheet_kit" "kit_ok ''SheetTrigger'' sheetTrigger_kit" "kit_ok ''SheetClose'' sheetClose_kit"
  "kit_ok ''SheetPortal'' sheetPortal_kit" "kit_ok ''SheetOverlay'' sheetOverlay_kit" "kit_ok ''SheetTitle'' sheetTitle_kit"
  "kit_ok ''SheetDescription'' sheetDescription_kit" "kit_ok ''SheetHeader'' sheetHeader_kit" "kit_ok ''SheetFooter'' sheetFooter_kit"
  "kit_ok ''AlertDialog'' alertDialog_kit" "kit_ok ''AlertDialogTrigger'' alertDialogTrigger_kit" "kit_ok ''AlertDialogPortal'' alertDialogPortal_kit"
  "kit_ok ''AlertDialogOverlay'' alertDialogOverlay_kit" "kit_ok ''AlertDialogTitle'' alertDialogTitle_kit"
  "kit_ok ''AlertDialogDescription'' alertDialogDescription_kit" "kit_ok ''AlertDialogHeader'' alertDialogHeader_kit"
  "kit_ok ''AlertDialogFooter'' alertDialogFooter_kit" "kit_ok ''AlertDialogMedia'' alertDialogMedia_kit" "kit_ok ''DropdownMenu'' dropdownMenu_kit"
  "kit_ok ''DropdownMenuPortal'' dropdownMenuPortal_kit" "kit_ok ''DropdownMenuTrigger'' dropdownMenuTrigger_kit"
  "kit_ok ''DropdownMenuGroup'' dropdownMenuGroup_kit" "kit_ok ''DropdownMenuSub'' dropdownMenuSub_kit"
  "kit_ok ''DropdownMenuRadioGroup'' dropdownMenuRadioGroup_kit" "kit_ok ''DropdownMenuSeparator'' dropdownMenuSeparator_kit"
  "kit_ok ''DropdownMenuShortcut'' dropdownMenuShortcut_kit" "kit_ok ''DropdownMenuLabel'' dropdownMenuLabel_kit"
  "kit_ok ''DropdownMenuItem'' dropdownMenuItem_kit"
  unfolding kit_simple_defs
  by (intro part_ok part_with_ok; simp add: kit_closes_def kit_name_in member_kit_names fun_eq_iff kit_name_neqs)+

lemmas kit_composed_defs =
  checkbox_kit_def switch_kit_def table_kit_def fieldLabel_kit_def fieldSeparator_kit_def inputGroupButton_kit_def inputGroupText_kit_def
  inputGroupInput_kit_def inputGroupTextarea_kit_def scrollBar_kit_def scrollArea_kit_def select_kit_def selectTrigger_kit_def
  selectScrollUpButton_kit_def selectScrollDownButton_kit_def selectContent_kit_def selectItem_kit_def tooltipContent_kit_def dialogContent_kit_def
  dialogFooter_kit_def sheetContent_kit_def alertDialogContent_kit_def alertDialogAction_kit_def alertDialogCancel_kit_def dropdownMenuContent_kit_def
  dropdownMenuSubTrigger_kit_def dropdownMenuSubContent_kit_def dropdownMenuCheckboxItem_kit_def dropdownMenuRadioItem_kit_def

lemma kit_composed_ok:
  "kit_ok ''Checkbox'' checkbox_kit" "kit_ok ''Switch'' switch_kit" "kit_ok ''Table'' table_kit" "kit_ok ''FieldLabel'' fieldLabel_kit"
  "kit_ok ''FieldSeparator'' fieldSeparator_kit" "kit_ok ''InputGroupButton'' inputGroupButton_kit" "kit_ok ''InputGroupText'' inputGroupText_kit"
  "kit_ok ''InputGroupInput'' inputGroupInput_kit" "kit_ok ''InputGroupTextarea'' inputGroupTextarea_kit" "kit_ok ''ScrollBar'' scrollBar_kit"
  "kit_ok ''ScrollArea'' scrollArea_kit" "kit_ok ''Select'' select_kit" "kit_ok ''SelectTrigger'' selectTrigger_kit"
  "kit_ok ''SelectScrollUpButton'' selectScrollUpButton_kit" "kit_ok ''SelectScrollDownButton'' selectScrollDownButton_kit"
  "kit_ok ''SelectContent'' selectContent_kit" "kit_ok ''SelectItem'' selectItem_kit" "kit_ok ''TooltipContent'' tooltipContent_kit"
  "kit_ok ''DialogContent'' dialogContent_kit" "kit_ok ''DialogFooter'' dialogFooter_kit" "kit_ok ''SheetContent'' sheetContent_kit"
  "kit_ok ''AlertDialogContent'' alertDialogContent_kit" "kit_ok ''AlertDialogAction'' alertDialogAction_kit"
  "kit_ok ''AlertDialogCancel'' alertDialogCancel_kit" "kit_ok ''DropdownMenuContent'' dropdownMenuContent_kit"
  "kit_ok ''DropdownMenuSubTrigger'' dropdownMenuSubTrigger_kit" "kit_ok ''DropdownMenuSubContent'' dropdownMenuSubContent_kit"
  "kit_ok ''DropdownMenuCheckboxItem'' dropdownMenuCheckboxItem_kit" "kit_ok ''DropdownMenuRadioItem'' dropdownMenuRadioItem_kit"
  by (simp_all add: kit_composed_defs kit_simple_defs kit_ok_def kit_part_simps corner_close_def kit_closes_def kit_leaves_def kit_name_neqs)

lemma kit_item_ok:
  assumes "toggle_known ctx"
  shows "kit_ok ''ToggleGroupItem'' (toggleGroupItem_kit ctx)"
  unfolding toggleGroupItem_kit_def
  using assms by (intro part_with_ok; auto simp: kit_closes_def kit_name_in member_kit_names fun_eq_iff kit_name_neqs toggle_known_def split: option.splits)

lemma kit_parts_ok: "toggle_known ctx \<Longrightarrow> list_all (\<lambda>(tag, render). kit_ok tag render) (kit ctx)"
  by (simp add: kit_def kit_simple_ok kit_item_ok kit_composed_ok)

lemma toggle_known_default: "toggle_known toggle_default"
  by (simp add: toggle_known_def toggle_default_def)

lemma toggle_known_given: "attrs_known attrs \<Longrightarrow> toggle_known (toggle_given attrs)"
  by (auto simp: toggle_known_def toggle_given_def option.pred_set dest: map_of_known)

lemma leaves_bare_El [simp]: "leaves_bare (El tag attrs vs) \<longleftrightarrow> (tag \<in> set kit_leaves \<longrightarrow> vs = []) \<and> list_all leaves_bare vs"
  by (simp add: list.pred_map)

declare leaves_bare.simps(2) [simp del]

lemma kit_closes_none: "map_of (kit ctx) tag = None \<Longrightarrow> kit_closes tag attrs = 0"
proof -
  have "''DialogContent'' \<in> fst ` set (kit ctx)" "''SheetContent'' \<in> fst ` set (kit ctx)" "''DialogFooter'' \<in> fst ` set (kit ctx)"
    by (simp_all add: kit_def)
  moreover assume "map_of (kit ctx) tag = None"
  ultimately show ?thesis by (auto simp: kit_closes_def map_of_eq_None_iff)
qed

lemma expand_children:
  assumes "list_all translated vs" and "list_all leaves_bare vs"
    and "\<And>v. v \<in> set vs \<Longrightarrow> translated v \<Longrightarrow> leaves_bare v \<Longrightarrow> translated (f v) \<and> view_texts (f v) = kit_texts v \<and> attrs_named n (f v) = attrs_named n v"
  shows "list_all translated (map f vs)" and "concat (map view_texts (map f vs)) = concat (map kit_texts vs)"
    and "concat (map (attrs_named n) (map f vs)) = concat (map (attrs_named n) vs)"
  using assms by (auto simp: list_all_iff intro: arg_cong [where f = concat])

lemma expand_exact:
  assumes "toggle_known ctx" and "translated v" and "leaves_bare v" and "n \<notin> set kit_names"
  shows "translated (expand ctx v) \<and> view_texts (expand ctx v) = kit_texts v \<and> attrs_named n (expand ctx v) = attrs_named n v"
  using assms
proof (induction ctx v rule: expand.induct)
  case (1 ctx l)
  then show ?case by simp
next
  case (2 ctx tag attrs vs)
  let ?f = "expand (if tag = ''ToggleGroup'' then toggle_given attrs else ctx)"
  have known: "attrs_known attrs" "list_all translated vs" and bare: "tag \<in> set kit_leaves \<longrightarrow> vs = []" "list_all leaves_bare vs"
    using 2 by simp_all
  have inner: "toggle_known (if tag = ''ToggleGroup'' then toggle_given attrs else ctx)"
    using 2(2) known(1) by (simp add: toggle_known_given)
  note children = expand_children [OF known(2) bare(2) 2(1) [OF _ inner _ _ 2(5)]]
  show ?case
  proof (cases "map_of (kit ctx) tag")
    case None
    then show ?thesis using known children by (simp add: Let_def kit_closes_none)
  next
    case (Some render)
    then have "kit_ok tag render" using kit_parts_ok [OF 2(2)] by (auto simp: list_all_iff dest: map_of_SomeD)
    then show ?thesis using Some known bare children 2(5) by (simp add: Let_def kit_ok_def)
  qed
qed

lemma expand_translated: "toggle_known ctx \<Longrightarrow> translated v \<Longrightarrow> translated (expand ctx v)"
proof (induction ctx v rule: expand.induct)
  case (1 ctx l)
  then show ?case by simp
next
  case (2 ctx tag attrs vs)
  let ?f = "expand (if tag = ''ToggleGroup'' then toggle_given attrs else ctx)"
  have known: "attrs_known attrs" "list_all translated vs" using 2 by simp_all
  then have children: "list_all translated (map ?f vs)"
    using 2(1) [OF _ _] 2(2) by (auto simp: list_all_iff toggle_known_given)
  have "translated (render attrs (map ?f vs))" if "map_of (kit ctx) tag = Some render" for render
    using that kit_parts_ok [OF 2(2)] known(1) children by (force simp: list_all_iff kit_ok_def dest: map_of_SomeD)
  then show ?case using known(1) children by (cases "map_of (kit ctx) tag") (simp_all add: Let_def del: translated_map)
qed

text \<open>
  C34: What the kit makes of a page. For every tree of translated texts in which the components that show a mark of their own have no
  children, the tree of primitives it is turned into is translated too; its texts are those of the page, in their order, and
  nothing else but the word \<open>Close\<close>, in English whatever the language, once at the end of each dialog and sheet that is not told
  to leave its button out; and every attribute whose name the kit does not use itself, such as \<open>disabled\<close>, \<open>value\<close>, \<open>id\<close> or
  \<open>checked\<close>, reaches the primitives as given and in the same order, and none is added.
\<close>

theorem kit_shows_the_page:
  assumes "translated v" and "leaves_bare v"
  shows "translated (expand toggle_default v)
    \<and> view_texts (expand toggle_default v) = kit_texts v
    \<and> (n \<notin> set kit_names \<longrightarrow> attrs_named n (expand toggle_default v) = attrs_named n v)"
proof -
  have "''disabled'' \<notin> set kit_names" by (simp add: kit_names_def)
  then show ?thesis using expand_exact [OF toggle_known_default assms] by blast
qed

text \<open>A confirmation in a dialog: the texts of the page, then the one of the kit; the button is as disabled as it was.\<close>

lemma kit_shows_the_page_witness:
  "let v = El ''Dialog'' [] [El ''DialogContent'' []
       [text_el ''DialogTitle'' (tr ''common.deleteTitle''), button_view [(''disabled'', Flag True)] (tr ''common.confirmDelete'')]]
   in view_texts (expand toggle_default v) = [tr ''common.deleteTitle'', tr ''common.confirmDelete'', Str ''Close'']
      \<and> attrs_named ''disabled'' (expand toggle_default v) = [(''disabled'', Flag True)]"
  using kit_shows_the_page [of "El ''Dialog'' [] [El ''DialogContent'' []
       [text_el ''DialogTitle'' (tr ''common.deleteTitle''), button_view [(''disabled'', Flag True)] (tr ''common.confirmDelete'')]]" "''disabled''"]
  by (simp add: Let_def kit_leaves_def kit_names_def kit_closes_def given_or_def text_el_def button_view_def)

end
