(* ===== verification/Runtime_Groups.thy ===== *)
theory Runtime_Groups
  imports View Endpoints Proxy_Dialogs
begin

text \<open>
  The running groups, \<open>features/nodes/runtime-groups-card.tsx\<close>: a selector whose choice is a request, a
  button that tests a group and shows the delays answered, and the section that shows the groups of the kernel. The server is a
  parameter: a function on its state that gives a message of failure or an answer. Also the confirmation of
  \<open>components/confirm-action.tsx\<close> as it is shown.
\<close>

subsection \<open>The selector\<close>

text \<open>
  A choice is sent; only the groups fetched anew after a success show it, a failure is told. The result
  is the state of the server, the groups shown and the message.
\<close>

definition selector_choose ::
  "(api_call \<Rightarrow> 's \<Rightarrow> 's \<times> string option) \<Rightarrow> ('s \<Rightarrow> outbound_group list) \<Rightarrow> outbound_group \<Rightarrow> string \<Rightarrow>
     's \<times> outbound_group list \<Rightarrow> ('s \<times> outbound_group list) \<times> string option" where
  "selector_choose server fetch grp tag st =
     (case st of (s, shown) \<Rightarrow>
        case server (nodes_call (NodesSelect (og_tag grp) tag)) s of
          (s', None) \<Rightarrow> ((s', fetch s'), None)
        | (s', Some message) \<Rightarrow> ((s', shown), Some message))"

definition selectorControl_view :: "outbound_group \<Rightarrow> view" where
  "selectorControl_view grp =
     (let items = map (\<lambda>tag. (Some tag, Str tag)) (og_all grp)
      in select_view [] (Some (og_now grp)) items [(''aria-label'', Lab (Str (og_tag grp)))] items)"

subsection \<open>The test of a group\<close>

record group_test =
  gt_delays :: "(string \<times> jsnum) list"
  gt_pending :: bool

definition gt_init :: group_test where
  "gt_init = \<lparr>gt_delays = [], gt_pending = False\<rparr>"

text \<open>The button is disabled while a test runs; it gives the request, if any.\<close>

definition gt_press :: "outbound_group \<Rightarrow> group_test \<Rightarrow> group_test \<times> api_call option" where
  "gt_press grp st = (if gt_pending st then (st, None) else (st\<lparr>gt_pending := True\<rparr>, Some (nodes_call (NodesUrlTest (og_tag grp)))))"

text \<open>The answer replaces the delays; a failure is told and keeps them.\<close>

definition gt_settle :: "string + (string \<times> jsnum) list \<Rightarrow> group_test \<Rightarrow> group_test \<times> string option" where
  "gt_settle answer st =
     (case answer of
        Inl message \<Rightarrow> (st\<lparr>gt_pending := False\<rparr>, Some message)
      | Inr delays \<Rightarrow> (st\<lparr>gt_delays := delays, gt_pending := False\<rparr>, None))"

definition urlTestControl_view :: "outbound_group \<Rightarrow> group_test \<Rightarrow> view" where
  "urlTestControl_view grp st =
     El ''div'' []
       (button_view [(''variant'', Val ''outline''), (''size'', Val ''sm''), (''disabled'', Flag (gt_pending st))]
          (tr1 ''nodes.runURLTest'' ''group'' (Str (og_tag grp)))
        # map (\<lambda>(tag, delay). El ''span'' [(''key'', Val tag)] [Txt (Str (tag @ '': '' @ number_to_string delay @ '' ms''))]) (gt_delays st))"

subsection \<open>The cards\<close>

definition runtimeGroupCard_view :: "outbound_group \<Rightarrow> group_test \<Rightarrow> view" where
  "runtimeGroupCard_view grp st =
     El ''Card'' [(''size'', Val ''sm'')]
       [El ''CardHeader'' []
          [text_el ''CardTitle'' (Str (og_tag grp)),
           text_el ''CardDescription'' (Cat [tr ''nodes.current'', Str '': '', Str (og_now grp)]),
           El ''CardAction'' [] [El ''Badge'' [(''variant'', Val ''outline'')] [Txt (Str (og_type grp))]]],
        El ''CardContent'' []
          [if og_type grp = ''selector'' then selectorControl_view grp else urlTestControl_view grp st]]"

definition runtimeGroupsCard_view :: "outbound_group list option \<Rightarrow> (string \<Rightarrow> group_test) \<Rightarrow> view list" where
  "runtimeGroupsCard_view data tests =
     (let groups = (case data of Some gs \<Rightarrow> gs | None \<Rightarrow> [])
      in if length groups = 0 then []
         else [El ''section'' []
           [El ''div'' [] [text_el ''h2'' (tr ''nodes.runtimeGroups''), text_el ''p'' (tr ''nodes.runtimeGroupsDescription'')],
            El ''div'' [] (map (\<lambda>g. runtimeGroupCard_view g (tests (og_tag g))) groups)]])"

subsection \<open>A confirmation\<close>

definition confirmAction_view :: "view \<Rightarrow> label \<Rightarrow> label \<Rightarrow> label \<Rightarrow> string \<Rightarrow> confirm_action \<Rightarrow> view" where
  "confirmAction_view trigger title description confirmLabel confirmVariant st =
     El ''AlertDialog'' [(''open'', Flag (ca_open st))]
       [El ''AlertDialogTrigger'' [] [trigger],
        El ''AlertDialogContent'' []
          [El ''AlertDialogHeader'' [] [text_el ''AlertDialogTitle'' title, text_el ''AlertDialogDescription'' description],
           El ''AlertDialogFooter'' []
             [El ''AlertDialogCancel'' [(''disabled'', Flag (ca_pending st))] [Txt (tr ''common.cancel'')],
              El ''AlertDialogAction'' [(''variant'', Val confirmVariant), (''disabled'', Flag (ca_pending st))]
                (when_view (ca_pending st) (El ''Spinner'' [(''aria-hidden'', Val ''true'')] []) @ [Txt confirmLabel])]]]"

subsection \<open>Lemmas\<close>

lemma selectorControl_translated [simp]: "translated (selectorControl_view grp)"
  by (simp add: selectorControl_view_def Let_def list_all_iff)

lemma urlTestControl_translated [simp]: "translated (urlTestControl_view grp st)"
  by (auto simp: urlTestControl_view_def)

lemma runtime_groups_translated [simp]:
  "translated (runtimeGroupCard_view grp st)"
  "list_all translated (runtimeGroupsCard_view data tests)"
  by (simp_all add: runtimeGroupCard_view_def runtimeGroupsCard_view_def Let_def)

lemma confirmAction_translated [simp]:
  "translated (confirmAction_view trigger title description confirmLabel confirmVariant st) =
     (translated trigger \<and> label_known title \<and> label_known description \<and> label_known confirmLabel)"
  by (auto simp: confirmAction_view_def)

text \<open>The delays shown are those of the last test answered, in every sequence of presses and answers.\<close>

datatype gt_event = GTPress | GTAnswer "string + (string \<times> jsnum) list"

fun gt_step :: "outbound_group \<Rightarrow> gt_event \<Rightarrow> group_test \<Rightarrow> group_test" where
  "gt_step grp GTPress st = fst (gt_press grp st)"
| "gt_step grp (GTAnswer a) st = (if gt_pending st then fst (gt_settle a st) else st)"

fun gt_answers :: "bool \<Rightarrow> gt_event list \<Rightarrow> (string \<times> jsnum) list list" where
  "gt_answers pending [] = []"
| "gt_answers pending (GTPress # es) = gt_answers True es"
| "gt_answers pending (GTAnswer a # es) =
     (if pending then (case a of Inr d \<Rightarrow> [d] | Inl _ \<Rightarrow> []) else []) @ gt_answers False es"

lemma group_test_shows_last_answer:
  "gt_delays (fold (gt_step grp) es st) = last (gt_delays st # gt_answers (gt_pending st) es)"
proof (induction es arbitrary: st)
  case (Cons e es)
  show ?case
  proof (cases e)
    case GTPress
    then show ?thesis using Cons.IH [of "fst (gt_press grp st)"] by (simp add: gt_press_def)
  next
    case (GTAnswer a)
    then show ?thesis using Cons.IH [of st] Cons.IH [of "fst (gt_settle a st)"]
      by (auto simp: gt_settle_def split: sum.splits)
  qed
qed simp

end
