(* ===== verification/Form_Views.thy ===== *)
theory Form_Views
  imports View Policy_Fields Policy_Tables
begin

text \<open>
  What the policy forms show: \<open>features/policy/policy-form-fields.tsx\<close> and \<open>policy-transformed-field.tsx\<close>, one
  definition per component. The values come from the controls of \<open>Policy_Fields\<close>; the identities
  that \<open>useId\<close> gives are the path of the field. Whether a text exists is asked of the library of texts, so it is
  a parameter of the form; the interfaces are the answer of the server.
\<close>

type_synonym interface_info = "string \<times> string list option"

record form_env =
  fv_namespace :: string
  fv_exists :: "string \<Rightarrow> bool"
  fv_revision :: nat
  fv_context :: "form_context option"
  fv_transform :: "policy_transform option"
  fv_interfaces :: "interface_info list"
  fv_modes :: "string \<Rightarrow> interface_state"
  fv_drafts :: "string \<Rightarrow> draft"

definition in_namespace :: "string \<Rightarrow> string \<Rightarrow> string" where
  "in_namespace ns k = ns @ ''.'' @ k"

definition form_text :: "form_env \<Rightarrow> string \<Rightarrow> label" where
  "form_text env k = tr (in_namespace (fv_namespace env) k)"

subsection \<open>The heading of a field\<close>

definition fieldHelp_view :: "form_env \<Rightarrow> string \<Rightarrow> view list" where
  "fieldHelp_view env labelKey =
     (let helpKey = in_namespace (fv_namespace env) (labelKey @ ''Help'')
      in if \<not> fv_exists env helpKey then []
         else [El ''Tooltip'' []
           [El ''TooltipTrigger'' [(''type'', Val ''button''), (''aria-label'', Lab (tr ''common.fieldHelp''))] [],
            text_el ''TooltipContent'' (tr helpKey)]])"

definition fieldHeading_view :: "form_env \<Rightarrow> string \<Rightarrow> label \<Rightarrow> string \<Rightarrow> view" where
  "fieldHeading_view env target l labelKey =
     El ''div'' [] (El ''FieldLabel'' [(''htmlFor'', Val target)] [Txt l] # fieldHelp_view env labelKey)"

subsection \<open>The controls\<close>

definition booleanField_view :: "form_env \<Rightarrow> policy_field \<Rightarrow> label \<Rightarrow> bool \<Rightarrow> view" where
  "booleanField_view env field l checked =
     El ''Field'' [(''orientation'', Val ''horizontal'')]
       [fieldHeading_view env (pf_path field) l (pf_label field),
        El ''Switch'' [(''id'', Val (pf_path field)), (''aria-label'', Lab l), (''required'', Flag (pf_required field)),
          (''checked'', Flag checked)] []]"

definition option_items :: "string list \<Rightarrow> (string option \<times> label) list" where
  "option_items options = map (\<lambda>option. (Some option, Str option)) options"

definition not_set :: "form_env \<Rightarrow> string option \<times> label" where
  "not_set env = (None, form_text env ''notSet'')"

text \<open>A select of the policy forms: the first item unsets the value.\<close>

definition policySelect_view :: "form_env \<Rightarrow> policy_field \<Rightarrow> label \<Rightarrow> string option \<Rightarrow> string list \<Rightarrow> bool \<Rightarrow> view" where
  "policySelect_view env field l chosen values invalid =
     El ''Field'' [(''data-invalid'', Flag invalid)]
       [fieldHeading_view env (pf_path field) l (pf_label field),
        select_view [(''required'', Flag (pf_required field))] chosen (not_set env # option_items values)
          [(''id'', Val (pf_path field)), (''aria-label'', Lab l), (''aria-invalid'', Flag invalid)]
          (not_set env # option_items values)]"

definition selectField_view :: "form_env \<Rightarrow> policy_field \<Rightarrow> label \<Rightarrow> string \<Rightarrow> view list" where
  "selectField_view env field l value =
     (case selectControl field value of
        Select chosen values invalid \<Rightarrow> [policySelect_view env field l chosen values invalid]
      | _ \<Rightarrow> [])"

definition refSelectField_view :: "form_env \<Rightarrow> policy_field \<Rightarrow> label \<Rightarrow> string \<Rightarrow> view list" where
  "refSelectField_view env field l value =
     (case refSelectControl field value (fv_context env) of
        Input text invalid \<Rightarrow>
          [El ''Field'' [(''data-invalid'', Flag invalid)]
             [fieldHeading_view env (pf_path field) l (pf_label field),
              El ''Input'' [(''id'', Val (pf_path field)), (''aria-label'', Lab l), (''aria-invalid'', Flag invalid),
                (''required'', Flag (pf_required field)), (''value'', Val text)] []]]
      | Select chosen values invalid \<Rightarrow> [policySelect_view env field l chosen values invalid]
      | _ \<Rightarrow> [])"

definition networkMultiField_view :: "form_env \<Rightarrow> policy_field \<Rightarrow> label \<Rightarrow> string list \<Rightarrow> view list" where
  "networkMultiField_view env field l value =
     (case networkMultiControl value of
        Checks options \<Rightarrow>
          [El ''Field'' []
             [fieldHeading_view env (pf_path field) l (pf_label field),
              El ''div'' [(''role'', Val ''group''), (''aria-label'', Lab l)]
                (map (\<lambda>(option, checked). El ''label'' [(''key'', Val option)]
                   [El ''Switch'' [(''aria-label'', Lab (Cat [l, Str '' '', Str option])), (''checked'', Flag checked)] [],
                    text_el ''span'' (Str option)]) options)]]
      | _ \<Rightarrow> [])"

definition refMultiField_view :: "form_env \<Rightarrow> policy_field \<Rightarrow> label \<Rightarrow> string list \<Rightarrow> view list" where
  "refMultiField_view env field l value =
     (case refMultiControl field value (fv_context env) of
        Checks options \<Rightarrow>
          [El ''Field'' []
             [fieldHeading_view env (pf_path field) l (pf_label field),
              El ''div'' [(''role'', Val ''group''), (''aria-label'', Lab l)]
                (if length options = 0 then [text_el ''p'' (form_text env ''refMultiEmpty'')]
                 else map (\<lambda>(option, checked). El ''div'' [(''key'', Val option)]
                   [El ''Checkbox'' [(''checked'', Flag checked), (''aria-label'', Lab (Cat [l, Str '' '', Str option]))] [],
                    El ''span'' [(''aria-hidden'', Val ''true'')] [Txt (Str option)]]) options)]]
      | _ \<Rightarrow> [])"

definition policy_interfaceLabel :: "interface_info \<Rightarrow> string" where
  "policy_interfaceLabel item =
     (case item of (name, addresses) \<Rightarrow>
        (case addresses of Some (ip # ips) \<Rightarrow> name @ '' ('' @ js_join '', '' (ip # ips) @ '')'' | _ \<Rightarrow> name))"

definition interface_items :: "form_env \<Rightarrow> string list \<Rightarrow> (string option \<times> label) list" where
  "interface_items env options =
     (Some ''unset'', form_text env ''notSet'')
     # map (\<lambda>name. (Some name, Str (case map_of (fv_interfaces env) name of
          Some ips \<Rightarrow> policy_interfaceLabel (name, ips) | None \<Rightarrow> name))) options
     @ [(Some ''manual'', form_text env ''interfaceManual'')]"

definition networkInterfaceField_view :: "form_env \<Rightarrow> policy_field \<Rightarrow> label \<Rightarrow> string \<Rightarrow> view" where
  "networkInterfaceField_view env field l value =
     (let names = map fst (fv_interfaces env);
          st = interface_render (fv_revision env) value names (fv_modes env (pf_path field));
          items = interface_items env (interface_options value names st);
          inputId = pf_path field @ ''-manual''
      in El ''Field'' []
           ([fieldHeading_view env (pf_path field) l (pf_label field),
             select_view [] (Some (if if_mode st = ''manual'' then ''manual'' else if value \<noteq> [] then value else ''unset'')) items
               [(''id'', Val (pf_path field)), (''aria-label'', Lab l)] items]
            @ (if if_mode st = ''manual'' then
                 [El ''FieldLabel'' [(''htmlFor'', Val inputId)] [Txt (form_text env ''interfaceManualInput'')],
                  El ''Input'' [(''id'', Val inputId), (''aria-label'', Lab (form_text env ''interfaceManualInput'')),
                    (''value'', Val value), (''placeholder'', Lab (form_text env ''interfaceManualPlaceholder''))] []]
               else [])))"

text \<open>A text or its area; the type of the input is that of a number for a number field.\<close>

definition text_control :: "policy_field \<Rightarrow> (string \<times> attr) list \<Rightarrow> view" where
  "text_control field attrs =
     (case textControl field [] of
        Textarea _ _ \<Rightarrow> El ''Textarea'' attrs []
      | _ \<Rightarrow> El ''Input'' (attrs @ [(''type'', Val (if pf_kind field = Some PNumber then ''number'' else ''text''))]) [])"

definition textField_view :: "form_env \<Rightarrow> policy_field \<Rightarrow> label \<Rightarrow> string \<Rightarrow> view" where
  "textField_view env field l value =
     El ''Field'' []
       [fieldHeading_view env (pf_path field) l (pf_label field),
        text_control field [(''id'', Val (pf_path field)), (''aria-label'', Lab l), (''required'', Flag (pf_required field)), (''value'', Val value)]]"

definition structuredField_view :: "form_env \<Rightarrow> policy_field \<Rightarrow> label \<Rightarrow> json option \<Rightarrow> bool \<Rightarrow> view" where
  "structuredField_view env field l value array =
     (let d = structured_render (fv_revision env) value (fv_drafts env (pf_path field));
          hint = (if d_invalid d then ''invalidStructuredJSON'' else if array then ''jsonArrayHint'' else ''jsonObjectHint'')
      in El ''Field'' [(''data-invalid'', Flag (d_invalid d))]
           [fieldHeading_view env (pf_path field) l (pf_label field),
            El ''Textarea'' [(''id'', Val (pf_path field)), (''aria-label'', Lab l), (''aria-invalid'', Flag (d_invalid d)),
              (''required'', Flag (pf_required field)), (''value'', Val (d_raw d))] [],
            text_el ''FieldDescription'' (form_text env hint)])"

definition transformedField_view :: "form_env \<Rightarrow> policy_field \<Rightarrow> label \<Rightarrow> json option \<Rightarrow> view" where
  "transformedField_view env field l value =
     (let d = transformed_current (fv_revision env) value (fv_drafts env (pf_path field))
      in El ''Field'' [(''data-invalid'', Flag (d_invalid d))]
           ([fieldHeading_view env (pf_path field) l (pf_label field),
             text_control field [(''id'', Val (pf_path field)), (''aria-label'', Lab l), (''aria-invalid'', Flag (d_invalid d)),
               (''required'', Flag (pf_required field)), (''value'', Val (d_raw d))]]
            @ when_view (d_invalid d) (text_el ''FieldDescription'' (form_text env ''invalidValue''))))"

subsection \<open>A field and a form\<close>

definition policyField_view :: "form_env \<Rightarrow> jobj \<Rightarrow> policy_field \<Rightarrow> view list" where
  "policyField_view env ob field =
     (let value = getPolicyPath ob (pf_path field); l = form_text env (pf_label field)
      in case pf_kind field of
           Some PBoolean \<Rightarrow> [booleanField_view env field l (value = Some (JBool True))]
         | Some PSelect \<Rightarrow> selectField_view env field l (textValue value)
         | Some PRef \<Rightarrow> (if pf_ref field = Some RNetworkInterface then [networkInterfaceField_view env field l (textValue value)]
             else refSelectField_view env field l (textValue value))
         | Some PRefMulti \<Rightarrow> refMultiField_view env field l (listValue value)
         | Some PNetworkMulti \<Rightarrow> networkMultiField_view env field l (listValue value)
         | Some PNetworkInterface \<Rightarrow> [networkInterfaceField_view env field l (textValue value)]
         | Some PJsonObject \<Rightarrow> [structuredField_view env field l value False]
         | Some PJsonArray \<Rightarrow> [structuredField_view env field l value True]
         | _ \<Rightarrow> (if fv_transform env \<noteq> None then [transformedField_view env field l value]
               else [textField_view env field l (textValue value)]))"

text \<open>A form shows its visible fields; with sections, section by section, titled where a title exists.\<close>

definition section_view :: "form_env \<Rightarrow> jobj \<Rightarrow> nat \<Rightarrow> string option \<times> policy_field list \<Rightarrow> view" where
  "section_view env ob index grp =
     (case grp of (sec, members) \<Rightarrow>
        let titleKey = in_namespace (fv_namespace env) (''section.'' @ (case sec of Some s \<Rightarrow> s | None \<Rightarrow> []));
            hasTitle = (sec \<noteq> None \<and> sec \<noteq> Some [] \<and> fv_exists env titleKey)
        in El ''section'' [(''key'', Val ((case sec of Some s \<Rightarrow> s | None \<Rightarrow> ''default'') @ ''-'' @ digits_of (int index)))]
             (when_view hasTitle (text_el ''h3'' (tr titleKey))
              @ [El ''FieldGroup'' [] (concat (map (policyField_view env ob) members))]))"

definition policyFormFields_view :: "form_env \<Rightarrow> view list \<Rightarrow> policy_field list \<Rightarrow> jobj \<Rightarrow> view" where
  "policyFormFields_view env leading specs ob =
     (let shown = visiblePolicyFields specs ob; groups = groupPolicyFieldsBySection shown;
          hasSections = list_ex (\<lambda>(sec, members). sec \<noteq> None \<and> sec \<noteq> Some []) groups
      in if \<not> hasSections then El ''FieldGroup'' [] (leading @ concat (map (policyField_view env ob) shown))
         else El ''div'' [] ((if leading \<noteq> [] then [El ''FieldGroup'' [] leading] else [])
                @ map (\<lambda>(index, grp). section_view env ob index grp) (enumerate 0 groups)))"

subsection \<open>The texts of a form\<close>

text \<open>The library finds only texts there are: in the language shown or in Chinese, whose keys agree.\<close>

definition exists_sound :: "(string \<Rightarrow> bool) \<Rightarrow> bool" where
  "exists_sound ex \<longleftrightarrow> (\<forall>k. ex k \<longrightarrow> known_text k [])"

lemma exists_soundD: "exists_sound ex \<Longrightarrow> ex k \<Longrightarrow> known_text k []"
  by (simp add: exists_sound_def)

text \<open>The texts a field needs besides those the form looks for: its label, and those of its control.\<close>

definition control_texts :: "bool \<Rightarrow> policy_field \<Rightarrow> string list" where
  "control_texts transforms field =
     (case pf_kind field of
        Some PBoolean \<Rightarrow> [] | Some PSelect \<Rightarrow> [''notSet'']
      | Some PRef \<Rightarrow> if pf_ref field = Some RNetworkInterface
          then [''notSet'', ''interfaceManual'', ''interfaceManualInput'', ''interfaceManualPlaceholder''] else [''notSet'']
      | Some PRefMulti \<Rightarrow> [''refMultiEmpty''] | Some PNetworkMulti \<Rightarrow> []
      | Some PNetworkInterface \<Rightarrow> [''notSet'', ''interfaceManual'', ''interfaceManualInput'', ''interfaceManualPlaceholder'']
      | Some PJsonObject \<Rightarrow> [''invalidStructuredJSON'', ''jsonObjectHint''] | Some PJsonArray \<Rightarrow> [''invalidStructuredJSON'', ''jsonArrayHint'']
      | _ \<Rightarrow> if transforms then [''invalidValue''] else [])"

definition field_texts_known :: "string \<Rightarrow> bool \<Rightarrow> policy_field \<Rightarrow> bool" where
  "field_texts_known ns transforms field =
     list_all (\<lambda>k. known_text (in_namespace ns k) []) (pf_label field # control_texts transforms field)"

lemma heading_translated:
  "exists_sound (fv_exists env) \<Longrightarrow> translated (fieldHeading_view env target l labelKey) \<longleftrightarrow> label_known l"
  by (simp add: fieldHeading_view_def fieldHelp_view_def Let_def exists_soundD)

lemma form_text_known [simp]: "label_known (form_text env k) = known_text (in_namespace (fv_namespace env) k) []"
  by (simp add: form_text_def)

lemma option_items_known [simp]: "items_known (option_items options)"
  by (simp add: option_items_def list_all_iff)

lemma text_control_translated [simp]: "translated (text_control field attrs) = attrs_known attrs"
  by (simp add: text_control_def textControl_def)

lemma interface_items_known:
  "items_known (interface_items env options) \<longleftrightarrow> label_known (form_text env ''notSet'') \<and> label_known (form_text env ''interfaceManual'')"
  by (simp add: interface_items_def list_all_iff split: option.split)

lemmas field_view_defs = booleanField_view_def selectField_view_def selectControl_def policySelect_view_def not_set_def
  refSelectField_view_def refSelectControl_def refMultiField_view_def refMultiControl_def networkMultiField_view_def
  networkMultiControl_def networkInterfaceField_view_def structuredField_view_def transformedField_view_def textField_view_def

lemma policyField_translated:
  assumes "exists_sound (fv_exists env)" and "field_texts_known (fv_namespace env) (fv_transform env \<noteq> None) field"
  shows "list_all translated (policyField_view env ob field)"
proof -
  have texts: "label_known (form_text env (pf_label field))"
    "list_all (\<lambda>k. known_text (in_namespace (fv_namespace env) k) []) (control_texts (fv_transform env \<noteq> None) field)"
    using assms(2) by (simp_all add: field_texts_known_def)
  show ?thesis
  proof (cases "pf_kind field")
    case None
    then show ?thesis using texts
      by (simp add: policyField_view_def Let_def heading_translated [OF assms(1)] field_view_defs control_texts_def split: if_splits)
  next
    case (Some kind)
    then show ?thesis using texts
      by (cases kind)
        (simp_all add: policyField_view_def Let_def heading_translated [OF assms(1)] field_view_defs interface_items_known
          control_texts_def split: if_splits)
  qed
qed

lemma visible_subset: "set (visiblePolicyFields specs ob) \<subseteq> set specs"
  by (auto simp: visiblePolicyFields_def)

lemma groups_members:
  assumes "(sec, members) \<in> set (groupPolicyFieldsBySection specs)" and "f \<in> set members"
  shows "f \<in> set specs"
proof -
  have "f \<in> set (concat (map snd (groupPolicyFieldsBySection specs)))" using assms by force
  then show ?thesis using foldl_groups [of pf_section "[]" specs] by (simp add: groupPolicyFieldsBySection_def groups_ok_def)
qed

lemma policyForm_translated:
  assumes sound: "exists_sound (fv_exists env)"
    and known: "list_all (field_texts_known (fv_namespace env) (fv_transform env \<noteq> None)) specs"
    and leading: "list_all translated leading"
  shows "translated (policyFormFields_view env leading specs ob)"
proof -
  have field: "list_all translated (policyField_view env ob f)" if "f \<in> set (visiblePolicyFields specs ob)" for f
    using that visible_subset known by (intro policyField_translated [OF sound]) (auto simp: list_all_iff)
  have form: "list_all translated (concat (map (policyField_view env ob) fs))"
    if "set fs \<subseteq> set (visiblePolicyFields specs ob)" for fs
    using that field by (auto simp: list_all_iff)
  have "translated (section_view env ob index grp)"
    if "grp \<in> set (groupPolicyFieldsBySection (visiblePolicyFields specs ob))" for index grp
  proof -
    obtain sec members where grp: "grp = (sec, members)" by (cases grp)
    have "set members \<subseteq> set (visiblePolicyFields specs ob)" using that groups_members grp by blast
    then show ?thesis using form sound by (simp add: section_view_def grp Let_def exists_soundD)
  qed
  then have "list_all translated (map (\<lambda>(index, grp). section_view env ob index grp)
      (enumerate 0 (groupPolicyFieldsBySection (visiblePolicyFields specs ob))))"
    by (rule translated_enumerate)
  then show ?thesis using form leading by (simp add: policyFormFields_view_def Let_def del: translated_map translated_concat)
qed

end
