(* ===== verification/Proxy_Form_Views.thy ===== *)
theory Proxy_Form_Views
  imports Form_Views Proxy_Dialogs
begin

text \<open>
  What the proxy forms show: \<open>features/proxy/proxy-form-fields.tsx\<close>, \<open>inbound-users-field.tsx\<close>, \<open>inbound-form-fields.tsx\<close> and
  \<open>outbound-form-fields.tsx\<close>, one definition per component, over the controls and inputs of \<open>Proxy_Fields\<close>. Identities
  that \<open>useId\<close> gives are the path of the field.
\<close>

record proxy_env =
  pv_inbound :: bool
  pv_exists :: "string \<Rightarrow> bool"
  pv_revision :: nat
  pv_context :: "proxy_context option"
  pv_interfaces :: "interface_info list"
  pv_listens :: "string \<Rightarrow> interface_state"
  pv_modes :: "string \<Rightarrow> interface_state"
  pv_drafts :: "string \<Rightarrow> draft"

text \<open>The namespace of the texts is one of two.\<close>

definition pv_namespace :: "proxy_env \<Rightarrow> string" where
  "pv_namespace env = (if pv_inbound env then ''proxy.inbound'' else ''proxy.outbound'')"

definition proxy_text :: "proxy_env \<Rightarrow> string \<Rightarrow> label" where
  "proxy_text env k = tr (in_namespace (pv_namespace env) k)"

definition em_dash :: label where
  "em_dash = Sym 8212"

subsection \<open>The heading of a field\<close>

definition proxy_fieldHelp_view :: "proxy_env \<Rightarrow> string \<Rightarrow> view list" where
  "proxy_fieldHelp_view env labelKey =
     (let helpKey = in_namespace (pv_namespace env) (labelKey @ ''Help'')
      in if \<not> pv_exists env helpKey then []
         else [El ''Tooltip'' []
           [El ''TooltipTrigger'' [(''type'', Val ''button''), (''aria-label'', Lab (tr ''common.fieldHelp''))] [],
            text_el ''TooltipContent'' (tr helpKey)]])"

definition proxy_fieldHeading_view :: "proxy_env \<Rightarrow> string \<Rightarrow> label \<Rightarrow> string \<Rightarrow> view" where
  "proxy_fieldHeading_view env target l labelKey =
     El ''div'' [] (El ''FieldLabel'' [(''htmlFor'', Val target)] [Txt l] # proxy_fieldHelp_view env labelKey)"

subsection \<open>The controls\<close>

definition proxy_booleanField_view :: "proxy_env \<Rightarrow> proxy_field \<Rightarrow> label \<Rightarrow> bool \<Rightarrow> view" where
  "proxy_booleanField_view env field l checked =
     El ''Field'' [(''orientation'', Val ''horizontal'')]
       [proxy_fieldHeading_view env (ff_path field) l (ff_label field),
        El ''Switch'' [(''id'', Val (ff_path field)), (''aria-label'', Lab l), (''checked'', Flag checked)] []]"

definition proxy_notSet :: "proxy_env \<Rightarrow> string option \<times> label" where
  "proxy_notSet env = (Some unset_option, proxy_text env ''notSet'')"

definition optionLabel :: "proxy_env \<Rightarrow> string \<Rightarrow> label" where
  "optionLabel env option =
     (if option = ''true'' then proxy_text env ''enabled'' else if option = ''false'' then proxy_text env ''disabled'' else Str option)"

definition proxy_selectField_view :: "proxy_env \<Rightarrow> proxy_field \<Rightarrow> label \<Rightarrow> string \<Rightarrow> view" where
  "proxy_selectField_view env field l value =
     (let items = proxy_notSet env # map (\<lambda>option. (Some option, optionLabel env option)) (proxy_selectOptions field value)
      in El ''Field'' []
           [proxy_fieldHeading_view env (ff_path field) l (ff_label field),
            select_view [] (Some (if value \<noteq> [] then value else unset_option)) items
              [(''id'', Val (ff_path field)), (''aria-label'', Lab l)] items])"

definition listen_items :: "proxy_env \<Rightarrow> (string option \<times> label) list" where
  "listen_items env =
     [(Some ''unset'', proxy_text env ''notSet''), (Some ''0.0.0.0'', proxy_text env ''listenIPv4All''),
      (Some ''::'', proxy_text env ''listenIPv6All''), (Some ''manual'', proxy_text env ''listenManual'')]"

definition listenAddressField_view :: "proxy_env \<Rightarrow> proxy_field \<Rightarrow> label \<Rightarrow> string \<Rightarrow> view" where
  "listenAddressField_view env field l value =
     (let st = listen_render (pv_revision env) value (pv_listens env (ff_path field)); inputId = ff_path field @ ''-manual''
      in El ''Field'' []
           [proxy_fieldHeading_view env (ff_path field) l (ff_label field),
            El ''div'' []
              (select_view [] (Some (if_mode st)) (listen_items env) [(''id'', Val (ff_path field)), (''aria-label'', Lab l)] (listen_items env)
               # when_view (if_mode st = ''manual'')
                   (El ''Input'' [(''id'', Val inputId), (''aria-label'', Lab (proxy_text env ''listenManualInput'')),
                      (''value'', Val (listen_inputText value)), (''placeholder'', Lab (proxy_text env ''listenManualPlaceholder''))] []))])"

definition proxy_interface_items :: "proxy_env \<Rightarrow> (string option \<times> label) list" where
  "proxy_interface_items env =
     (Some ''unset'', proxy_text env ''notSet'')
     # map (\<lambda>(name, ips). (Some name, Str (interfaceLabel name ips))) (pv_interfaces env)
     @ [(Some ''manual'', proxy_text env ''interfaceManual'')]"

definition proxy_networkInterfaceField_view :: "proxy_env \<Rightarrow> proxy_field \<Rightarrow> label \<Rightarrow> string \<Rightarrow> view" where
  "proxy_networkInterfaceField_view env field l value =
     (let names = map fst (pv_interfaces env);
          st = proxy_interface_render (pv_revision env) names value (pv_modes env (ff_path field)); inputId = ff_path field @ ''-manual''
      in El ''Field'' []
           [proxy_fieldHeading_view env (ff_path field) l (ff_label field),
            El ''div'' []
              (select_view [] (Some (if_mode st)) (proxy_interface_items env) [(''id'', Val (ff_path field)), (''aria-label'', Lab l)]
                 (proxy_interface_items env)
               # when_view (if_mode st = ''manual'')
                   (El ''Input'' [(''id'', Val inputId), (''aria-label'', Lab (proxy_text env ''interfaceManualInput'')),
                      (''value'', Val (proxy_interface_inputText names value)),
                      (''placeholder'', Lab (proxy_text env ''interfaceManualPlaceholder''))] []))])"

definition proxy_textField_view :: "proxy_env \<Rightarrow> proxy_field \<Rightarrow> label \<Rightarrow> string \<Rightarrow> view" where
  "proxy_textField_view env field l value =
     (let attrs = [(''id'', Val (ff_path field)), (''aria-label'', Lab l), (''value'', Val value)]
      in El ''Field'' []
           [proxy_fieldHeading_view env (ff_path field) l (ff_label field),
            if ff_kind field \<in> {Some FTextarea, Some FList, Some FNumberList} then El ''Textarea'' attrs []
            else El ''Input'' (attrs @ [(''type'', Val (if ff_kind field = Some FNumber then ''number'' else ''text''))]) []])"

definition proxy_jsonField_view :: "proxy_env \<Rightarrow> proxy_field \<Rightarrow> label \<Rightarrow> json option \<Rightarrow> bool \<Rightarrow> view" where
  "proxy_jsonField_view env field l value array =
     (let d = structured_render (pv_revision env) value (pv_drafts env (ff_path field));
          hint = (if d_invalid d then ''invalidStructuredJSON'' else if array then ''usersJSONHint'' else ''jsonObjectHint'')
      in El ''Field'' [(''data-invalid'', Flag (d_invalid d))]
           [proxy_fieldHeading_view env (ff_path field) l (ff_label field),
            El ''Textarea'' [(''id'', Val (ff_path field)), (''aria-label'', Lab l), (''aria-invalid'', Flag (d_invalid d)), (''value'', Val (d_raw d))] [],
            text_el ''FieldDescription'' (proxy_text env hint)])"

definition proxy_refSelectField_view :: "proxy_env \<Rightarrow> proxy_field \<Rightarrow> label \<Rightarrow> string \<Rightarrow> view" where
  "proxy_refSelectField_view env field l value =
     (let list = proxy_refOptions field (pv_context env);
          items = proxy_notSet env # map (\<lambda>option. (Some option, Str option)) (if value \<noteq> [] \<and> value \<notin> set list then value # list else list)
      in El ''Field'' []
           [proxy_fieldHeading_view env (ff_path field) l (ff_label field),
            select_view [] (Some (if value \<noteq> [] then value else unset_option)) items [(''id'', Val (ff_path field)), (''aria-label'', Lab l)]
              (proxy_notSet env # map (\<lambda>option. (Some option, Str option)) (proxy_refItems field value (pv_context env)))])"

definition proxy_networkMultiField_view :: "proxy_env \<Rightarrow> proxy_field \<Rightarrow> label \<Rightarrow> string list \<Rightarrow> view" where
  "proxy_networkMultiField_view env field l value =
     El ''Field'' []
       [proxy_fieldHeading_view env (ff_path field) l (ff_label field),
        El ''div'' [(''role'', Val ''group''), (''aria-label'', Lab l)]
          (map (\<lambda>option. El ''Field'' [(''key'', Val option), (''orientation'', Val ''horizontal'')]
             [text_el ''FieldLabel'' (Str option),
              El ''Switch'' [(''aria-label'', Lab (Cat [l, Str '' '', Str option])), (''checked'', Flag (option \<in> set value))] []])
             [''tcp'', ''udp''])]"

definition interfaceMultiField_view :: "proxy_env \<Rightarrow> proxy_field \<Rightarrow> label \<Rightarrow> string list \<Rightarrow> view" where
  "interfaceMultiField_view env field l value =
     (let options = interfaceMultiOptions (map fst (pv_interfaces env)) value
      in El ''Field'' []
           [proxy_fieldHeading_view env (ff_path field) l (ff_label field),
            El ''div'' [(''role'', Val ''group''), (''aria-label'', Lab l)]
              (if length options = 0 then [text_el ''p'' em_dash]
               else map (\<lambda>option. El ''label'' [(''key'', Val option)]
                 [El ''Checkbox'' [(''checked'', Flag (option \<in> set value)), (''aria-label'', Lab (Cat [l, Str '' '', Str option]))] [],
                  text_el ''span'' (Str (case map_of (pv_interfaces env) option of Some ips \<Rightarrow> interfaceLabel option ips | None \<Rightarrow> option))])
                 options)])"

subsection \<open>The users of an inbound\<close>

fun userFieldLabel :: "user_key \<Rightarrow> label" where
  "userFieldLabel KAlterId = tr ''proxy.inbound.alterId''"
| "userFieldLabel KFlow = tr ''proxy.inbound.flow''"
| "userFieldLabel KUuid = tr ''proxy.inbound.uuid''"
| "userFieldLabel KUsername = tr ''proxy.inbound.username''"
| "userFieldLabel KPassword = tr ''proxy.inbound.password''"
| "userFieldLabel KName = tr ''proxy.inbound.userName''"

definition user_input_view :: "string \<Rightarrow> label \<Rightarrow> nat \<Rightarrow> jobj \<Rightarrow> user_key \<Rightarrow> view" where
  "user_input_view ident l index user key =
     (let inputId = ident @ ''-'' @ digits_of (int index) @ ''-'' @ user_key_name key
      in El ''Field'' [(''key'', Val (user_key_name key))]
           [El ''FieldLabel'' [(''htmlFor'', Val inputId)] [Txt (userFieldLabel key)],
            El ''Input'' [(''id'', Val inputId),
              (''aria-label'', Lab (Cat [l, Str ('' '' @ digits_of (int (index + 1)) @ '' ''), userFieldLabel key])),
              (''type'', Val (if key = KAlterId then ''number'' else ''text'')), (''value'', Val (user_text user key))] []])"

definition inboundUsersField_view :: "string \<Rightarrow> label \<Rightarrow> string \<Rightarrow> json option \<Rightarrow> view" where
  "inboundUsersField_view ident l type value =
     (let keys = userSchema type
      in case asUsers value of
           None \<Rightarrow> El ''Field'' []
             [El ''FieldLabel'' [(''htmlFor'', Val ident)] [Txt l],
              El ''Textarea'' [(''id'', Val ident), (''aria-label'', Lab l), (''value'', Val (users_rawText value))] [],
              text_el ''FieldDescription'' (tr ''proxy.inbound.usersJSONHint'')]
         | Some users \<Rightarrow> El ''Field'' []
             (El ''div'' [] [text_el ''FieldLabel'' l,
                button_view [(''type'', Val ''button''), (''size'', Val ''xs''), (''variant'', Val ''outline'')] (tr ''proxy.inbound.addUser'')]
              # when_view (length users = 0) (text_el ''p'' (tr ''proxy.inbound.usersEmpty''))
              @ [El ''div'' [] (map (\<lambda>(index, user).
                  El ''div'' [(''key'', Val (digits_of (int index) @ ''-'' @ js_join ''-'' (map user_key_name keys)))]
                    (map (user_input_view ident l index user) keys
                     @ [El ''div'' [] [button_view [(''type'', Val ''button''), (''size'', Val ''xs''), (''variant'', Val ''destructive'')]
                          (tr ''proxy.inbound.removeUser'')]])) (enumerate 0 users))]))"

subsection \<open>A field and a form\<close>

definition proxyField_view :: "proxy_env \<Rightarrow> jobj \<Rightarrow> proxy_field \<Rightarrow> view" where
  "proxyField_view env ob field =
     (let value = getPath ob (ff_path field); l = proxy_text env (ff_label field)
      in case ff_kind field of
           Some FBoolean \<Rightarrow> proxy_booleanField_view env field l (value = Some (JBool True))
         | Some FSelect \<Rightarrow> proxy_selectField_view env field l (proxy_textValue value)
         | Some FListenAddress \<Rightarrow> listenAddressField_view env field l (proxy_textValue value)
         | Some FNetworkInterface \<Rightarrow> proxy_networkInterfaceField_view env field l (proxy_textValue value)
         | Some FRef \<Rightarrow> if ff_ref field = Some FRNetworkInterfaceMulti then interfaceMultiField_view env field l (listValue value)
             else proxy_refSelectField_view env field l (proxy_textValue value)
         | Some FNetworkMulti \<Rightarrow> proxy_networkMultiField_view env field l (listValue value)
         | Some FUsers \<Rightarrow> if pv_inbound env
             then inboundUsersField_view (ff_path field) l (case Option.bind (pv_context env) px_inboundType of Some t \<Rightarrow> t | None \<Rightarrow> []) value
             else proxy_jsonField_view env field l value True
         | Some FJsonObject \<Rightarrow> proxy_jsonField_view env field l value False
         | _ \<Rightarrow> proxy_textField_view env field l (proxy_textValue value))"

definition proxy_section_view :: "proxy_env \<Rightarrow> jobj \<Rightarrow> nat \<Rightarrow> string option \<times> proxy_field list \<Rightarrow> view" where
  "proxy_section_view env ob index grp =
     (case grp of (sec, members) \<Rightarrow>
        let titleKey = in_namespace (pv_namespace env) (''section.'' @ (case sec of Some s \<Rightarrow> s | None \<Rightarrow> []));
            hasTitle = (sec \<noteq> None \<and> sec \<noteq> Some [] \<and> pv_exists env titleKey)
        in El ''section'' [(''key'', Val ((case sec of Some s \<Rightarrow> s | None \<Rightarrow> ''default'') @ ''-'' @ digits_of (int index)))]
             (when_view hasTitle (text_el ''h3'' (tr titleKey)) @ [El ''FieldGroup'' [] (map (proxyField_view env ob) members)]))"

definition proxyFormFields_view :: "proxy_env \<Rightarrow> proxy_field list \<Rightarrow> jobj \<Rightarrow> view" where
  "proxyFormFields_view env specs ob =
     El ''div'' [] (map (\<lambda>(index, grp). proxy_section_view env ob index grp) (enumerate 0 (groupFieldsBySection (visibleFields specs ob))))"

text \<open>The forms of the two pages set the namespace; that of an inbound also tells the fields its type.\<close>

definition inboundFormFields_view :: "proxy_env \<Rightarrow> proxy_field list \<Rightarrow> jobj \<Rightarrow> string \<Rightarrow> view" where
  "inboundFormFields_view env specs ob type =
     (let context = (case pv_context env of Some c \<Rightarrow> c
        | None \<Rightarrow> \<lparr>px_inboundTags = None, px_outboundTags = None, px_dnsServerTags = None, px_currentTag = None, px_inboundType = None\<rparr>)
      in proxyFormFields_view (env\<lparr>pv_inbound := True, pv_context := Some (context\<lparr>px_inboundType := Some type\<rparr>)\<rparr>) specs ob)"

definition outboundFormFields_view :: "proxy_env \<Rightarrow> proxy_field list \<Rightarrow> jobj \<Rightarrow> view" where
  "outboundFormFields_view env specs ob = proxyFormFields_view (env\<lparr>pv_inbound := False\<rparr>) specs ob"

subsection \<open>The texts of a form\<close>

definition proxy_control_texts :: "bool \<Rightarrow> proxy_field \<Rightarrow> string list" where
  "proxy_control_texts inbound field =
     (case ff_kind field of
        Some FSelect \<Rightarrow> [''notSet'', ''enabled'', ''disabled'']
      | Some FListenAddress \<Rightarrow> [''notSet'', ''listenIPv4All'', ''listenIPv6All'', ''listenManual'', ''listenManualInput'', ''listenManualPlaceholder'']
      | Some FNetworkInterface \<Rightarrow> [''notSet'', ''interfaceManual'', ''interfaceManualInput'', ''interfaceManualPlaceholder'']
      | Some FRef \<Rightarrow> if ff_ref field = Some FRNetworkInterfaceMulti then [] else [''notSet'']
      | Some FUsers \<Rightarrow> if inbound then [] else [''invalidStructuredJSON'', ''usersJSONHint'']
      | Some FJsonObject \<Rightarrow> [''invalidStructuredJSON'', ''jsonObjectHint'']
      | _ \<Rightarrow> [])"

definition proxy_field_known :: "bool \<Rightarrow> proxy_field \<Rightarrow> bool" where
  "proxy_field_known inbound field =
     list_all (\<lambda>k. known_text (in_namespace (if inbound then ''proxy.inbound'' else ''proxy.outbound'') k) [])
       (ff_label field # proxy_control_texts inbound field)"

lemma proxy_heading_translated:
  "exists_sound (pv_exists env) \<Longrightarrow> translated (proxy_fieldHeading_view env target l labelKey) \<longleftrightarrow> label_known l"
  by (simp add: proxy_fieldHeading_view_def proxy_fieldHelp_view_def Let_def exists_soundD)

lemma proxy_text_known [simp]:
  "label_known (proxy_text env k) = known_text (in_namespace (pv_namespace env) k) []" "label_known em_dash"
  by (simp_all add: proxy_text_def em_dash_def)

lemma userFieldLabel_known [simp]: "label_known (userFieldLabel key)"
  by (cases key) simp_all

lemma inboundUsersField_translated [simp]: "translated (inboundUsersField_view ident l type value) = label_known l"
  by (auto simp: inboundUsersField_view_def user_input_view_def Let_def split: option.split prod.split)

lemma in_when_view [simp]: "x \<in> set (when_view b v) \<longleftrightarrow> b \<and> x = v"
  by (auto simp: when_view_def)

lemmas proxy_field_view_defs = proxy_booleanField_view_def proxy_selectField_view_def optionLabel_def proxy_notSet_def
  listenAddressField_view_def listen_items_def proxy_networkInterfaceField_view_def proxy_interface_items_def proxy_textField_view_def
  proxy_jsonField_view_def proxy_refSelectField_view_def proxy_networkMultiField_view_def interfaceMultiField_view_def

lemma proxyField_translated:
  assumes sound: "exists_sound (pv_exists env)" and known: "proxy_field_known (pv_inbound env) field"
  shows "translated (proxyField_view env ob field)"
proof -
  have texts: "label_known (proxy_text env (ff_label field))"
    "list_all (\<lambda>k. known_text (in_namespace (pv_namespace env) k) []) (proxy_control_texts (pv_inbound env) field)"
    using known by (simp_all add: proxy_field_known_def pv_namespace_def)
  show ?thesis
  proof (cases "ff_kind field")
    case None
    then show ?thesis using texts
      by (simp add: proxyField_view_def Let_def proxy_heading_translated [OF sound] proxy_field_view_defs)
  next
    case (Some kind)
    then show ?thesis using texts
      by (cases kind)
        (auto simp: proxyField_view_def Let_def proxy_heading_translated [OF sound] proxy_field_view_defs proxy_control_texts_def
          list_all_iff split: if_splits prod.splits)
  qed
qed

lemma proxy_groups_members:
  assumes "(sec, members) \<in> set (groupFieldsBySection specs)" and "f \<in> set members"
  shows "f \<in> set specs"
proof -
  have "f \<in> set (concat (map snd (groupFieldsBySection specs)))" using assms by force
  then show ?thesis using foldl_groups [of ff_section "[]" specs] by (simp add: groupFieldsBySection_def groups_ok_def)
qed

lemma proxyForm_translated:
  assumes sound: "exists_sound (pv_exists env)" and known: "list_all (proxy_field_known (pv_inbound env)) specs"
  shows "translated (proxyFormFields_view env specs ob)"
proof -
  have "translated (proxy_section_view env ob index grp)" if "grp \<in> set (groupFieldsBySection (visibleFields specs ob))" for index grp
  proof -
    obtain sec members where grp: "grp = (sec, members)" by (cases grp)
    have "set members \<subseteq> set specs" using that proxy_groups_members grp by (force simp: visibleFields_def)
    then have "list_all translated (map (proxyField_view env ob) members)"
      using known proxyField_translated [OF sound] by (auto simp: list_all_iff)
    then show ?thesis using sound by (simp add: proxy_section_view_def grp Let_def exists_soundD)
  qed
  then show ?thesis by (simp add: proxyFormFields_view_def del: translated_map)
qed

lemma page_forms_translated:
  assumes "exists_sound (pv_exists env)"
  shows "list_all (proxy_field_known True) specs \<Longrightarrow> translated (inboundFormFields_view env specs ob type)"
    and "list_all (proxy_field_known False) specs \<Longrightarrow> translated (outboundFormFields_view env specs ob)"
  using assms by (auto simp: inboundFormFields_view_def outboundFormFields_view_def Let_def intro!: proxyForm_translated)

end
