(* ===== verification/Policy_Dialog_Views.thy ===== *)
theory Policy_Dialog_Views
  imports Form_Views Policy_Dialogs Policy_Page Proxy_Dialogs
begin

text \<open>
  What the policy dialogs and the cards of global settings show: \<open>dns-server-dialog.tsx\<close>, \<open>dns-rule-dialog.tsx\<close>,
  \<open>route-rule-dialog.tsx\<close>, \<open>route-rule-set-dialog.tsx\<close>, \<open>dns-global-card.tsx\<close>, \<open>route-global-card.tsx\<close> and the editor of
  \<open>config/json-editor.tsx\<close> they share. A dialog shows the state of \<open>Policy_Dialogs\<close>; a name that objects inherit
  makes a dialog throw where it looks fields up, so its view is a result.
\<close>

subsection \<open>Parts\<close>

definition jsonEditor_view :: "(string \<times> attr) list \<Rightarrow> string \<Rightarrow> label \<Rightarrow> bool \<Rightarrow> view" where
  "jsonEditor_view attrs value ariaLabel readOnly =
     El ''div'' attrs
       (El ''CodeMirror'' [(''value'', Val value), (''aria-label'', Lab ariaLabel), (''readOnly'', Flag readOnly)] []
        # when_view (\<not> isValidJSON value) (alert_view True (tr ''config.invalidJSON'') (tr ''config.invalidJSONDescription'')))"

definition config_section :: "jobj option \<Rightarrow> string \<Rightarrow> json option" where
  "config_section config k = Option.bind config (\<lambda>c. obj_get c k)"

definition form_of :: "form_env \<Rightarrow> string \<Rightarrow> nat \<Rightarrow> form_context option \<Rightarrow> policy_transform option \<Rightarrow> form_env" where
  "form_of env ns revision context transform =
     env\<lparr>fv_namespace := ns, fv_revision := revision, fv_context := context, fv_transform := transform\<rparr>"

lemma form_of_simps [simp]:
  "fv_namespace (form_of env ns revision context transform) = ns"
  "fv_exists (form_of env ns revision context transform) = fv_exists env"
  "fv_transform (form_of env ns revision context transform) = transform"
  by (simp_all add: form_of_def)

definition dns_form :: "form_env \<Rightarrow> dialog_state \<Rightarrow> form_context option \<Rightarrow> form_env" where
  "dns_form env st context = form_of env ''policy.dns'' (ds_revision st) context (Some transformDNSField)"

definition route_form :: "form_env \<Rightarrow> dialog_state \<Rightarrow> form_context option \<Rightarrow> form_env" where
  "route_form env st context = form_of env ''policy.route'' (ds_revision st) context (Some transformRouteField)"

text \<open>The advanced tab of each dialog, and its frame: the required values asked for, the body and the two buttons.\<close>

definition advancedJSON_view :: "string \<Rightarrow> dialog_state \<Rightarrow> label \<Rightarrow> view" where
  "advancedJSON_view ns st title =
     El ''FieldGroup'' [] [El ''Field'' []
       [text_el ''FieldLabel'' (tr (in_namespace ns ''advancedJSON'')),
        jsonEditor_view [(''key'', Val (digits_of (int (ds_editorRevision st))))] (ds_value st)
          (tr1 (in_namespace ns ''advancedJSONLabel'') ''title'' title) False]]"

definition policyDialog_view :: "string \<Rightarrow> label \<Rightarrow> string \<Rightarrow> string \<Rightarrow> bool \<Rightarrow> bool \<Rightarrow> view list \<Rightarrow> view" where
  "policyDialog_view ns title description required requiredValid canSave body =
     El ''Dialog'' [(''open'', Flag True)] [El ''DialogContent'' []
       [El ''DialogHeader'' [] [text_el ''DialogTitle'' title, text_el ''DialogDescription'' (tr (in_namespace ns description))],
        El ''div'' [] (when_view (\<not> requiredValid) (alert_view True (tr (in_namespace ns ''requiredTitle'')) (tr (in_namespace ns required)))
          @ body),
        El ''DialogFooter'' []
          [button_view [(''variant'', Val ''outline'')] (tr (in_namespace ns ''cancel'')),
           button_view [(''disabled'', Flag (\<not> canSave))] (tr (in_namespace ns ''save''))]]]"

subsection \<open>The DNS server dialog\<close>

definition serverTypeField_view :: "jobj \<Rightarrow> view" where
  "serverTypeField_view ob =
     type_select ''dns-server-type'' ''policy.dns.serverType'' (inferDNSServerType ob) (serverTypeField_options ob)"

definition serverFields_view :: "form_env \<Rightarrow> dialog_state \<Rightarrow> form_context option \<Rightarrow> server_tab \<Rightarrow> view res" where
  "serverFields_view env st context sec =
     bind_res (serverFields (inferDNSServerType (ds_object st)) sec)
       (\<lambda>fs. Inr (policyFormFields_view (dns_form env st context) [] fs (ds_object st)))"

definition serverTabs_view :: "form_env \<Rightarrow> jobj option \<Rightarrow> dialog_state \<Rightarrow> label \<Rightarrow> view res" where
  "serverTabs_view env config st title =
     (let ob = ds_object st;
          context = Some \<lparr>inboundTags = None, outboundTags = Some (policyConfigTags (config_section config ''outbounds'') None),
            dnsServerTags = Some (policyDNSServerTags (config_section config ''dns'')), ruleSetTags = None,
            currentTag = (case obj_get ob ''tag'' of Some (JStr t) \<Rightarrow> Some t | _ \<Rightarrow> None)\<rparr>
      in bind_res (serverFields_view env st context STBasic) (\<lambda>basic.
         bind_res (serverFields_view env st context STDialer) (\<lambda>dialer.
         bind_res (serverFields_view env st context STTls) (\<lambda>tls.
         bind_res (serverFields_view env st context STSpecial) (\<lambda>special.
         Inr (tabs_view ''basic''
           [(''basic'', ''policy.dns.basicTab''), (''dialer'', ''policy.dns.dialerTab''), (''tls'', ''policy.dns.tlsTab''),
            (''special'', ''policy.dns.specialTab''), (''advanced'', ''policy.dns.advancedJSON'')]
           [tab_content ''basic'' [El ''FieldGroup'' [] [serverTypeField_view ob,
              policyFormFields_view (dns_form env st None) [] dns_tagField ob, basic]],
            tab_content ''dialer'' [dialer], tab_content ''tls'' [tls], tab_content ''special'' [special],
            tab_content ''advanced'' [advancedJSON_view ''policy.dns'' st title]]))))))"

definition dnsServerDialog_view :: "form_env \<Rightarrow> jobj option \<Rightarrow> dialog_state \<Rightarrow> label \<Rightarrow> view res" where
  "dnsServerDialog_view env config st title =
     bind_res (serverTabs_view env config st title) (\<lambda>tabs.
       Inr (policyDialog_view ''policy.dns'' title ''serverDialogDescription'' ''serverRequiredDescription''
         (requiredServerValues (ds_object st)) (dialog_canSave requiredServerValues st) [tabs]))"

subsection \<open>The DNS rule dialog\<close>

definition dns_ruleTypeField_view :: "jobj \<Rightarrow> view" where
  "dns_ruleTypeField_view ob =
     (let current = string_or (obj_get ob ''type'') ''default''
      in type_select ''dns-rule-type'' ''policy.dns.ruleType'' current (optionsWithCurrent [''default'', ''logical''] current))"

definition dns_actionTypeField_view :: "jobj \<Rightarrow> view" where
  "dns_actionTypeField_view ob =
     (let current = string_or (obj_get ob ''action'') ''route''
      in type_select ''dns-rule-action'' ''policy.dns.actionType'' current (optionsWithCurrent dnsActions current))"

definition routeServerField_view :: "jobj \<Rightarrow> string list \<Rightarrow> view" where
  "routeServerField_view ob tags =
     (let current = stringValue (obj_get ob ''server''); l = tr ''policy.dns.targetServer'';
          items = (None, tr ''policy.dns.notSet'') # option_items (routeServerField_options ob tags)
      in El ''Field'' [(''data-invalid'', Flag (current = []))]
           [El ''FieldLabel'' [(''htmlFor'', Val ''dns-rule-server'')] [Txt l],
            select_view [] (if current = [] then None else Some current) items
              [(''id'', Val ''dns-rule-server''), (''aria-label'', Lab l), (''aria-invalid'', Flag (current = []))] items])"

definition dns_actionFields_view :: "form_env \<Rightarrow> dialog_state \<Rightarrow> form_context \<Rightarrow> string list \<Rightarrow> view res" where
  "dns_actionFields_view env st context serverTags =
     (let ob = ds_object st; action = string_or (obj_get ob ''action'') ''route''
      in bind_res (dns_actionTabFields ob) (\<lambda>fs.
           Inr (El ''FieldGroup'' [] (dns_actionTypeField_view ob # when_view (action = ''route'') (routeServerField_view ob serverTags)
             @ [policyFormFields_view (dns_form env st (Some (context\<lparr>dnsServerTags := Some serverTags\<rparr>))) [] fs ob]))))"

definition dns_ruleTabs_view :: "form_env \<Rightarrow> jobj option \<Rightarrow> dialog_state \<Rightarrow> label \<Rightarrow> string list \<Rightarrow> view res" where
  "dns_ruleTabs_view env config st title serverTags =
     (let ob = ds_object st; logical = (obj_get ob ''type'' = Some (JStr ''logical''));
          context = \<lparr>inboundTags = Some (policyConfigTags (config_section config ''inbounds'') None),
            outboundTags = Some (policyConfigTags (config_section config ''outbounds'') None), dnsServerTags = Some serverTags,
            ruleSetTags = Some (policyRuleSetTags (config_section config ''route'')), currentTag = None\<rparr>;
          form = (\<lambda>tab. policyFormFields_view (dns_form env st (Some context)) [] (dns_ruleTabFields logical tab) ob)
      in bind_res (dns_actionFields_view env st context serverTags) (\<lambda>action.
         Inr (tabs_view ''basic''
           [(''basic'', ''policy.dns.ruleBasicTab''), (''domain'', ''policy.dns.domainTab''), (''process'', ''policy.dns.processTab''),
            (''action'', ''policy.dns.actionTab''), (''advanced'', ''policy.dns.advancedJSON'')]
           [tab_content ''basic'' [El ''FieldGroup'' [] ([dns_ruleTypeField_view ob, form DTBasic]
              @ when_view logical (alert_view False (tr ''policy.dns.logicalTitle'') (tr ''policy.dns.logicalDescription'')))],
            tab_content ''domain'' [form DTDomain], tab_content ''process'' [form DTProcess], tab_content ''action'' [action],
            tab_content ''advanced'' [advancedJSON_view ''policy.dns'' st title]])))"

definition dnsRuleDialog_view :: "form_env \<Rightarrow> jobj option \<Rightarrow> dialog_state \<Rightarrow> label \<Rightarrow> string list \<Rightarrow> view res" where
  "dnsRuleDialog_view env config st title serverTags =
     (let required = (\<lambda>ob. dns_requiredRuleValues ob \<and> dns_requiredActionValue ob)
      in bind_res (dns_ruleTabs_view env config st title serverTags) (\<lambda>tabs.
           Inr (policyDialog_view ''policy.dns'' title ''ruleDialogDescription'' ''ruleRequiredDescription''
             (required (ds_object st)) (dialog_canSave required st) [tabs])))"

subsection \<open>The route rule dialog\<close>

definition metadataFields_view :: "route_rule_metadata \<Rightarrow> view" where
  "metadataFields_view metadata =
     El ''FieldGroup'' []
       [El ''Field'' []
          [El ''FieldLabel'' [(''htmlFor'', Val ''route-rule-name'')] [Txt (tr ''policy.route.ruleName'')],
           El ''Input'' [(''id'', Val ''route-rule-name''), (''maxLength'', Val ''100''), (''value'', Val (rm_name metadata)),
             (''placeholder'', Lab (tr ''policy.route.ruleNamePlaceholder''))] [],
           text_el ''FieldDescription'' (tr ''policy.route.ruleNameDescription'')],
        El ''Field'' []
          [El ''FieldLabel'' [(''htmlFor'', Val ''route-rule-description'')] [Txt (tr ''policy.route.ruleDescription'')],
           El ''Textarea'' [(''id'', Val ''route-rule-description''), (''maxLength'', Val ''500''), (''value'', Val (rm_description metadata)),
             (''placeholder'', Lab (tr ''policy.route.ruleDescriptionPlaceholder''))] []]]"

definition route_ruleTypeSelect_view :: "jobj \<Rightarrow> view" where
  "route_ruleTypeSelect_view ob =
     (let current = string_or (obj_get ob ''type'') ''default''
      in El ''FieldGroup'' [] [type_select ''route-rule-type'' ''policy.route.ruleType'' current
           (optionsWithCurrent [''default'', ''logical''] current)])"

definition route_actionFields_view :: "form_env \<Rightarrow> dialog_state \<Rightarrow> form_context \<Rightarrow> view res" where
  "route_actionFields_view env st context =
     (let ob = ds_object st; current = string_or (obj_get ob ''action'') ''route''
      in bind_res (route_actionTabFields ob) (\<lambda>fs.
           Inr (El ''div'' []
             [El ''FieldGroup'' [] [type_select ''route-rule-action'' ''policy.route.actionType'' current (optionsWithCurrent routeActions current)],
              policyFormFields_view (route_form env st (Some context)) [] fs ob])))"

definition route_ruleTabs_view :: "form_env \<Rightarrow> jobj option \<Rightarrow> dialog_state \<Rightarrow> label \<Rightarrow> view res" where
  "route_ruleTabs_view env config st title =
     (let ob = ds_object st; logical = (obj_get ob ''type'' = Some (JStr ''logical''));
          context = \<lparr>inboundTags = Some (policyConfigTags (config_section config ''inbounds'') None),
            outboundTags = Some (policyConfigTags (config_section config ''outbounds'') None),
            dnsServerTags = Some (policyDNSServerTags (config_section config ''dns'')),
            ruleSetTags = Some (policyRuleSetTags (config_section config ''route'')), currentTag = None\<rparr>;
          form = (\<lambda>tab. policyFormFields_view (route_form env st (Some context)) [] (route_ruleTabFields logical tab) ob)
      in bind_res (route_actionFields_view env st context) (\<lambda>action.
         Inr (tabs_view ''basic''
           [(''basic'', ''policy.route.basicTab''), (''domain'', ''policy.route.domainTab''), (''process'', ''policy.route.processTab''),
            (''environment'', ''policy.route.environmentTab''), (''action'', ''policy.route.actionTab''), (''advanced'', ''policy.route.advancedJSON'')]
           [tab_content ''basic'' [El ''div'' [] ([route_ruleTypeSelect_view ob, form RTBasic]
              @ when_view logical (alert_view False (tr ''policy.route.logicalTitle'') (tr ''policy.route.logicalDescription'')))],
            tab_content ''domain'' [form RTDomain],
            tab_content ''process'' [El ''div'' [] (when_view (\<not> logical)
              (alert_view False (tr ''policy.route.processMatchTitle'') (tr ''policy.route.processMatchDescription'')) @ [form RTProcess])],
            tab_content ''environment'' [form RTEnvironment], tab_content ''action'' [action],
            tab_content ''advanced'' [advancedJSON_view ''policy.route'' st title]])))"

definition routeRuleDialog_view :: "form_env \<Rightarrow> jobj option \<Rightarrow> dialog_state \<Rightarrow> route_rule_metadata \<Rightarrow> label \<Rightarrow> view res" where
  "routeRuleDialog_view env config st details title =
     (let required = (\<lambda>ob. route_requiredRuleValue ob \<and> route_requiredActionValue ob)
      in bind_res (route_ruleTabs_view env config st title) (\<lambda>tabs.
           Inr (policyDialog_view ''policy.route'' title ''ruleDialogDescription'' ''ruleRequiredDescription''
             (required (ds_object st)) (dialog_canSave required st) [metadataFields_view details, tabs])))"

subsection \<open>The rule set dialog\<close>

definition ruleSetFields_view :: "form_env \<Rightarrow> dialog_state \<Rightarrow> view" where
  "ruleSetFields_view env st =
     (let ob = ds_object st; type = string_or (obj_get ob ''type'') ''inline'';
          form = (\<lambda>fs. policyFormFields_view (form_of env ''policy.route'' (ds_revision st) None None) [] fs ob)
      in El ''div'' []
           ([form rs_tagFields,
             El ''FieldGroup'' [] [type_select ''route-rule-set-type'' ''policy.route.ruleSetType'' type (optionsWithCurrent ruleSetTypes type)],
             form rs_formatFields, form (if type = ''remote'' then rs_remoteFields else if type = ''local'' then rs_localFields else [])]
            @ when_view (type = ''inline'') (alert_view False (tr ''policy.route.inlineTitle'') (tr ''policy.route.inlineDescription''))))"

definition ruleSetDialog_view :: "form_env \<Rightarrow> dialog_state \<Rightarrow> label \<Rightarrow> view" where
  "ruleSetDialog_view env st title =
     policyDialog_view ''policy.route'' title ''ruleSetDialogDescription'' ''ruleSetRequiredDescription''
       (requiredFieldsPresent (ds_object st)) (dialog_canSave requiredFieldsPresent st)
       [tabs_view ''basic'' [(''basic'', ''policy.route.ruleSetBasicTab''), (''advanced'', ''policy.route.advancedJSON'')]
          [tab_content ''basic'' [ruleSetFields_view env st],
           tab_content ''advanced'' [advancedJSON_view ''policy.route'' st title]]]"

subsection \<open>The global settings\<close>

definition globalCard_view :: "label \<Rightarrow> label \<Rightarrow> view \<Rightarrow> label \<Rightarrow> view list \<Rightarrow> view" where
  "globalCard_view title description form footer buttons =
     El ''Card'' []
       [El ''CardHeader'' [] [text_el ''CardTitle'' title, text_el ''CardDescription'' description],
        El ''CardContent'' [] [form],
        El ''CardFooter'' [] (text_el ''p'' footer # buttons)]"

definition dnsGlobalCard_view :: "form_env \<Rightarrow> jobj option \<Rightarrow> nat \<Rightarrow> jobj \<Rightarrow> view" where
  "dnsGlobalCard_view env config revision ob =
     globalCard_view (tr ''policy.dns.globalTitle'') (tr ''policy.dns.globalDescription'')
       (policyFormFields_view (form_of env ''policy.dns'' revision
           (Some \<lparr>inboundTags = None, outboundTags = None, dnsServerTags = Some (dnsGlobal_context (config_section config ''dns'') ob),
              ruleSetTags = None, currentTag = None\<rparr>) (Some transformDNSField)) [] dnsGlobalFields ob)
       (tr ''policy.dns.globalFooter'') [button_view [] (tr ''policy.save'')]"

definition dnsFakeIPCard_view :: "form_env \<Rightarrow> nat \<Rightarrow> jobj \<Rightarrow> view" where
  "dnsFakeIPCard_view env revision ob =
     globalCard_view (tr ''policy.dns.fakeIPTitle'') (tr ''policy.dns.fakeIPDescription'')
       (policyFormFields_view (form_of env ''policy.dns'' revision None None) [] legacyFakeIPFields ob)
       (tr ''policy.dns.fakeIPFooter'') []"

definition finalOutboundField_view :: "jobj \<Rightarrow> json option \<Rightarrow> view" where
  "finalOutboundField_view ob outbounds =
     (let current = stringValue (getPolicyPath ob ''final'');
          items = (None, tr ''policy.route.notSet'') # option_items (finalOutbound_options ob outbounds)
      in El ''Field'' []
           [El ''div'' []
              [El ''FieldLabel'' [(''htmlFor'', Val ''route-final-outbound'')] [Txt (tr ''policy.route.final'')],
               El ''Tooltip'' []
                 [El ''TooltipTrigger'' [(''type'', Val ''button''), (''aria-label'', Lab (tr ''common.fieldHelp''))] [],
                  text_el ''TooltipContent'' (tr ''policy.route.finalHelp'')]],
            select_view [] (if current = [] then None else Some current) items
              [(''id'', Val ''route-final-outbound''), (''aria-label'', Lab (tr ''policy.route.final''))] items])"

definition routeGlobalCard_view :: "form_env \<Rightarrow> jobj option \<Rightarrow> json option \<Rightarrow> nat \<Rightarrow> jobj \<Rightarrow> view" where
  "routeGlobalCard_view env config outbounds revision ob =
     (let (outboundTags, serverTags) = routeGlobal_context outbounds (config_section config ''outbounds'') (config_section config ''dns'')
      in globalCard_view (tr ''policy.route.globalTitle'') (tr ''policy.route.globalDescription'')
           (policyFormFields_view (form_of env ''policy.route'' revision
               (Some \<lparr>inboundTags = None, outboundTags = Some outboundTags, dnsServerTags = Some serverTags, ruleSetTags = None, currentTag = None\<rparr>)
               (Some transformRouteField))
             [finalOutboundField_view ob (nullish outbounds (config_section config ''outbounds''))] managedRouteGlobalFields ob)
           (tr ''policy.route.globalFooter'') [button_view [] (tr ''policy.save'')])"

subsection \<open>The texts of the tables\<close>

lemma pfield_selectors: "pf_label (pfield p l) = l" "pf_kind (pfield p l) = None" "pf_ref (pfield p l) = None" "pf_path (pfield p l) = p"
  by (simp_all add: pfield_def)

lemmas field_texts_defs = field_texts_known_def control_texts_def in_namespace_def pfield_selectors

lemma dns_tables_known:
  "list_all (field_texts_known ''policy.dns'' True) dnsGlobalFields"
  "list_all (field_texts_known ''policy.dns'' True) dnsRuleMatchFields"
  "list_all (field_texts_known ''policy.dns'' True) dns_logicalFields"
  "list_all (field_texts_known ''policy.dns'' True) dns_tagField"
  "list_all (field_texts_known ''policy.dns'' False) legacyFakeIPFields"
  by (simp_all add: dnsGlobalFields_def dnsRuleMatchFields_def dns_logicalFields_def dns_tagField_def legacyFakeIPFields_def
      field_texts_defs)

lemma server_tables_known:
  "list_all (field_texts_known ''policy.dns'' True) server_dialerFields"
  "list_all (field_texts_known ''policy.dns'' True) server_remoteFields"
  "list_all (field_texts_known ''policy.dns'' True) server_tlsFields"
  "list_all (field_texts_known ''policy.dns'' True) server_legacyFields"
  "list_all (field_texts_known ''policy.dns'' True) server_httpFields"
proof -
  show dialer: "list_all (field_texts_known ''policy.dns'' True) server_dialerFields"
    by (simp add: server_dialerFields_def server_domainResolverFields_def field_texts_defs)
  show "list_all (field_texts_known ''policy.dns'' True) server_remoteFields"
    unfolding server_remoteFields_def using dialer by (simp add: field_texts_defs)
qed (simp_all add: server_tlsFields_def server_legacyFields_def server_httpFields_def field_texts_defs)

definition registry_all :: "('f \<Rightarrow> bool) \<Rightarrow> 'f registry \<Rightarrow> bool" where
  "registry_all P r = list_all (\<lambda>entry. list_all P (snd entry)) r"

lemma registry_all_get: "registry_all P r \<Longrightarrow> registry_get r k = Inr fs \<Longrightarrow> list_all P fs"
  by (auto simp: registry_all_def registry_get_def list_all_iff dest!: map_of_SomeD split: option.splits if_splits)

lemma dns_registries_known:
  "registry_all (field_texts_known ''policy.dns'' True) dnsServerFields"
  "registry_all (field_texts_known ''policy.dns'' True) dnsActionFields"
  by (simp_all add: registry_all_def dnsServerFields_def dnsActionFields_def dns_routeOptionFields_def server_tables_known)
    (simp_all add: field_texts_defs)

lemma route_tables_known:
  "list_all (field_texts_known ''policy.route'' True) routeGlobalFields"
  "list_all (\<lambda>f. pf_path f \<noteq> ''type'' \<longrightarrow> field_texts_known ''policy.route'' True f) routeMatchFields"
  "list_all (field_texts_known ''policy.route'' True) (take 2 route_logicalFields)"
  "list_all (field_texts_known ''policy.route'' True) routeOptionFields"
  "list_all (field_texts_known ''policy.route'' True) directFields"
  by (simp_all add: routeGlobalFields_def routeMatchFields_def route_logicalFields_def routeOptionFields_def directFields_def
      field_texts_defs)

text \<open>The field of the type heads the match fields, has no text of its own, and is the one the basic tab leaves out.\<close>

lemma route_basic_known: "list_all (field_texts_known ''policy.route'' True) (drop 1 route_basicFields)"
proof -
  have "list_all (\<lambda>f. pf_path f \<noteq> ''type'') (drop 1 route_basicFields)"
    by (simp add: route_basicFields_def route_paths_def routeMatchFields_def pfield_selectors)
  moreover have "list_all (\<lambda>f. pf_path f \<noteq> ''type'' \<longrightarrow> field_texts_known ''policy.route'' True f) (drop 1 route_basicFields)"
    using route_tables_known(2) by (auto simp: route_basicFields_def route_paths_def list_all_iff dest: in_set_dropD)
  ultimately show ?thesis by (simp add: list_all_iff)
qed

lemma route_registries_known:
  "registry_all (field_texts_known ''policy.route'' True) routeActionFields"
  by (simp add: registry_all_def routeActionFields_def route_outboundFields_def route_tables_known)
    (simp add: field_texts_defs)

lemma ruleSet_tables_known:
  "list_all (field_texts_known ''policy.route'' False) rs_tagFields" "list_all (field_texts_known ''policy.route'' False) rs_formatFields"
  "list_all (field_texts_known ''policy.route'' False) rs_localFields" "list_all (field_texts_known ''policy.route'' False) rs_remoteFields"
  by (simp_all add: rs_tagFields_def rs_formatFields_def rs_localFields_def rs_remoteFields_def field_texts_defs)


subsection \<open>Every text of the dialogs is known\<close>

lemma policy_forms_translated:
  assumes "exists_sound (fv_exists env)"
  shows "list_all (field_texts_known ''policy.dns'' True) specs \<Longrightarrow> translated (policyFormFields_view (dns_form env st context) [] specs ob)"
    and "list_all (field_texts_known ''policy.route'' True) specs \<Longrightarrow> translated (policyFormFields_view (route_form env st context) [] specs ob)"
    and "list_all (field_texts_known ns (transform \<noteq> None)) specs \<Longrightarrow> list_all translated leading \<Longrightarrow>
      translated (policyFormFields_view (form_of env ns revision context transform) leading specs ob)"
  using assms by (auto simp: dns_form_def route_form_def intro!: policyForm_translated)

lemma known_filter: "list_all P fs \<Longrightarrow> list_all P (filter Q fs)"
  by (auto simp: list_all_iff)

lemma serverFields_known:
  "serverFields type sec = Inr fs \<Longrightarrow> list_all (field_texts_known ''policy.dns'' True) fs"
  by (auto simp: serverFields_def bind_res_eq_Inr dest!: registry_all_get [OF dns_registries_known(1)] intro!: known_filter)

lemma dns_tabs_known:
  "list_all (field_texts_known ''policy.dns'' True) (dns_ruleTabFields logical tab)"
  "dns_actionTabFields ob = Inr fs \<Longrightarrow> list_all (field_texts_known ''policy.dns'' True) fs"
proof -
  have sub: "list_all (field_texts_known ''policy.dns'' True) fs" if "set fs \<subseteq> set dnsRuleMatchFields" for fs
    using that dns_tables_known(2) by (auto simp: list_all_iff)
  have "last dnsRuleMatchFields \<in> set dnsRuleMatchFields" by (rule last_in_set) (simp add: dnsRuleMatchFields_def)
  then have last_known: "field_texts_known ''policy.dns'' True (last dnsRuleMatchFields)"
    using dns_tables_known(2) by (simp add: list_all_iff)
  show "list_all (field_texts_known ''policy.dns'' True) (dns_ruleTabFields logical tab)"
    by (cases tab) (auto simp: dns_tables_known sub last_known dns_basicFields_def dns_domainFields_def dns_processFields_def
        dns_fieldsAt_def intro!: known_filter)
  show "list_all (field_texts_known ''policy.dns'' True) fs" if "dns_actionTabFields ob = Inr fs"
    using that by (auto simp: dns_actionTabFields_def Let_def bind_res_eq_Inr dest!: registry_all_get [OF dns_registries_known(2)]
        intro!: known_filter)
qed

lemma route_tabs_known:
  "list_all (field_texts_known ''policy.route'' True) (route_ruleTabFields logical tab)"
  "route_actionTabFields ob = Inr fs \<Longrightarrow> list_all (field_texts_known ''policy.route'' True) fs"
proof -
  have "list_all (\<lambda>f. pf_path f \<noteq> ''type'') (route_domainFields @ route_processFields @ route_environmentFields)"
    by (auto simp: route_domainFields_def route_processFields_def route_environmentFields_def route_paths_def list_all_iff)
  then have others: "list_all (field_texts_known ''policy.route'' True) (route_domainFields @ route_processFields @ route_environmentFields)"
    using route_tables_known(2)
    by (auto simp: route_domainFields_def route_processFields_def route_environmentFields_def route_paths_def list_all_iff)
  have "last routeMatchFields \<in> set routeMatchFields \<and> pf_path (last routeMatchFields) \<noteq> ''type''"
    by (simp add: routeMatchFields_def pfield_selectors)
  then have last: "field_texts_known ''policy.route'' True (last routeMatchFields)" using route_tables_known(2) by (simp add: list_all_iff)
  have "route_logicalFields = take 2 route_logicalFields @ [last routeMatchFields]" by (simp add: route_logicalFields_def)
  then have logical: "list_all (field_texts_known ''policy.route'' True) route_logicalFields"
    using route_tables_known(3) last by (metis list_all_append list.pred_inject)
  show "list_all (field_texts_known ''policy.route'' True) (route_ruleTabFields logical tab)"
    using others logical route_basic_known by (cases tab) auto
  show "list_all (field_texts_known ''policy.route'' True) fs" if "route_actionTabFields ob = Inr fs"
    using that by (auto simp: route_actionTabFields_def dest!: registry_all_get [OF route_registries_known])
qed

lemma advancedJSON_translated [simp]:
  "label_known title \<Longrightarrow> translated (advancedJSON_view ''policy.dns'' st title)"
  "label_known title \<Longrightarrow> translated (advancedJSON_view ''policy.route'' st title)"
  by (simp_all add: advancedJSON_view_def jsonEditor_view_def in_namespace_def)

lemma policyDialog_translated:
  "ns \<in> {''policy.dns'', ''policy.route''} \<Longrightarrow>
   translated (policyDialog_view ns title description required requiredValid canSave body) \<longleftrightarrow>
     label_known title \<and> known_text (in_namespace ns description) [] \<and> (\<not> requiredValid \<longrightarrow> known_text (in_namespace ns required) [])
     \<and> list_all translated body"
  by (auto simp: policyDialog_view_def in_namespace_def)

lemma dnsServerDialog_translated:
  assumes sound: "exists_sound (fv_exists env)" and title: "label_known title"
    and view: "dnsServerDialog_view env config st title = Inr v"
  shows "translated v"
proof -
  have "translated v" if "serverFields_view env st' ctx sec = Inr v" for st' ctx sec v
    using that by (auto simp: serverFields_view_def bind_res_eq_Inr dest!: serverFields_known intro!: policy_forms_translated(1) [OF sound])
  moreover have "translated (policyFormFields_view (dns_form env st None) [] dns_tagField (ds_object st))"
    by (rule policy_forms_translated(1) [OF sound dns_tables_known(4)])
  ultimately show ?thesis using view title
    by (auto simp: dnsServerDialog_view_def serverTabs_view_def Let_def bind_res_eq_Inr policyDialog_translated serverTypeField_view_def
        in_namespace_def)
qed

lemma dnsRuleDialog_translated:
  assumes sound: "exists_sound (fv_exists env)" and title: "label_known title"
    and view: "dnsRuleDialog_view env config st title serverTags = Inr v"
  shows "translated v"
proof -
  have form: "translated (policyFormFields_view (dns_form env st' ctx) [] (dns_ruleTabFields logical tab) ob)" for st' ctx logical tab ob
    by (rule policy_forms_translated(1) [OF sound dns_tabs_known(1)])
  have "translated v" if "dns_actionFields_view env st' ctx tags = Inr v" for st' ctx tags v
    using that by (auto simp: dns_actionFields_view_def Let_def bind_res_eq_Inr dns_actionTypeField_view_def routeServerField_view_def
        dest!: dns_tabs_known(2) intro!: policy_forms_translated(1) [OF sound])
  then show ?thesis using view title form
    by (auto simp: dnsRuleDialog_view_def dns_ruleTabs_view_def Let_def bind_res_eq_Inr policyDialog_translated dns_ruleTypeField_view_def
        in_namespace_def simp del: dns_ruleTabFields.simps)
qed

lemma routeRuleDialog_translated:
  assumes sound: "exists_sound (fv_exists env)" and title: "label_known title"
    and view: "routeRuleDialog_view env config st details title = Inr v"
  shows "translated v"
proof -
  have form: "translated (policyFormFields_view (route_form env st' ctx) [] (route_ruleTabFields logical tab) ob)" for st' ctx logical tab ob
    by (rule policy_forms_translated(2) [OF sound route_tabs_known(1)])
  have "translated v" if "route_actionFields_view env st' ctx = Inr v" for st' ctx v
    using that by (auto simp: route_actionFields_view_def Let_def bind_res_eq_Inr
        dest!: route_tabs_known(2) intro!: policy_forms_translated(2) [OF sound])
  then show ?thesis using view title form
    by (auto simp: routeRuleDialog_view_def route_ruleTabs_view_def Let_def bind_res_eq_Inr policyDialog_translated
        route_ruleTypeSelect_view_def metadataFields_view_def in_namespace_def simp del: route_ruleTabFields.simps)
qed

lemma ruleSetDialog_translated:
  assumes "exists_sound (fv_exists env)" and "label_known title"
  shows "translated (ruleSetDialog_view env st title)"
  using assms ruleSet_tables_known
  by (simp add: ruleSetDialog_view_def policyDialog_translated ruleSetFields_view_def Let_def policy_forms_translated(3) in_namespace_def)

lemma global_cards_translated:
  assumes "exists_sound (fv_exists env)"
  shows "translated (dnsGlobalCard_view env config revision ob)"
    and "translated (dnsFakeIPCard_view env revision ob)"
    and "translated (routeGlobalCard_view env config outbounds revision ob)"
  using assms dns_tables_known route_tables_known(1)
  by (auto simp: dnsGlobalCard_view_def dnsFakeIPCard_view_def routeGlobalCard_view_def globalCard_view_def
      finalOutboundField_view_def Let_def managedRouteGlobalFields_def intro!: policy_forms_translated(3) known_filter split: prod.splits)

end
