(* ===== verification/Policy_Page_Views.thy ===== *)
theory Policy_Page_Views
  imports Policy_Dialog_Views
begin

text \<open>
  What the DNS and route pages show: the cards of rules, servers and rule sets, the sections of the visual
  editors with the dialog that is open, and the editor of \<open>policy-page.tsx\<close> around them. \<open>tx\<close> is the
  function of the library of texts, for the texts that the code puts into other strings.
  The last part is about the hooks a render of the editor calls.
\<close>

type_synonym translator = "string \<Rightarrow> (string \<times> string) list \<Rightarrow> string"

definition numbered :: "string \<Rightarrow> nat \<Rightarrow> label" where
  "numbered key index = tr1 key ''index'' (Str (digits_of (int (index + 1))))"

definition counted :: "string \<Rightarrow> nat \<Rightarrow> label" where
  "counted key n = tr1 key ''count'' (Str (digits_of (int n)))"

definition tagged :: "string \<Rightarrow> label \<Rightarrow> label" where
  "tagged key tag = tr1 key ''tag'' tag"

lemma numbered_known [simp]:
  "label_known (numbered key index) = known_text key [''index'']"
  "label_known (counted key n) = known_text key [''count'']"
  "label_known (tagged key tag) = (known_text key [''tag''] \<and> label_known tag)"
  by (simp_all add: numbered_def counted_def tagged_def)

subsection \<open>Parts of the cards\<close>

definition icon_button :: "string \<Rightarrow> label \<Rightarrow> bool \<Rightarrow> view" where
  "icon_button variant l disabled =
     El ''Button'' [(''variant'', Val variant), (''size'', Val ''icon-xs''), (''aria-label'', Lab l), (''disabled'', Flag disabled)] []"

definition menu_item :: "string option \<Rightarrow> label \<Rightarrow> bool \<Rightarrow> view" where
  "menu_item variant l disabled =
     El ''DropdownMenuItem'' ((case variant of None \<Rightarrow> [] | Some v \<Rightarrow> [(''variant'', Val v)]) @ [(''disabled'', Flag disabled)]) [Txt l]"

definition action_menu :: "label \<Rightarrow> view list \<Rightarrow> view" where
  "action_menu l items =
     El ''DropdownMenu'' []
       [El ''DropdownMenuTrigger'' [(''variant'', Val ''outline''), (''size'', Val ''icon-xs''), (''aria-label'', Lab l)] [],
        El ''DropdownMenuContent'' [] [El ''DropdownMenuGroup'' [] items]]"

definition edit_button :: "label \<Rightarrow> label \<Rightarrow> view" where
  "edit_button aria l = El ''Button'' [(''variant'', Val ''outline''), (''size'', Val ''xs''), (''aria-label'', Lab aria)] [Txt l]"

definition badge_view :: "string option \<Rightarrow> label \<Rightarrow> view" where
  "badge_view variant l = El ''Badge'' (case variant of None \<Rightarrow> [] | Some v \<Rightarrow> [(''variant'', Val v)]) [Txt l]"

definition match_badges :: "string list \<Rightarrow> view list" where
  "match_badges matches =
     map (\<lambda>(matchIndex, m). El ''Badge'' [(''key'', Val (m @ '':'' @ digits_of (int matchIndex))), (''variant'', Val ''secondary'')] [Txt (Str m)])
       (enumerate 0 matches)"

definition delete_dialog :: "bool \<Rightarrow> label \<Rightarrow> label \<Rightarrow> label \<Rightarrow> label \<Rightarrow> view" where
  "delete_dialog deleting title description cancel confirm =
     El ''AlertDialog'' [(''open'', Flag deleting)] [El ''AlertDialogContent'' []
       [El ''AlertDialogHeader'' [] [text_el ''AlertDialogTitle'' title, text_el ''AlertDialogDescription'' description],
        El ''AlertDialogFooter'' [] [text_el ''AlertDialogCancel'' cancel,
          El ''AlertDialogAction'' [(''variant'', Val ''destructive'')] [Txt confirm]]]]"

lemma card_parts_translated [simp]:
  "translated (icon_button variant l disabled) = label_known l"
  "translated (menu_item style l disabled) = label_known l"
  "translated (action_menu l items) = (label_known l \<and> list_all translated items)"
  "translated (edit_button aria l) = (label_known aria \<and> label_known l)"
  "translated (badge_view style l) = label_known l"
  "list_all translated (match_badges matches)"
  "translated (delete_dialog deleting title description cancel confirm) =
     (label_known title \<and> label_known description \<and> label_known cancel \<and> label_known confirm)"
  by (simp_all add: icon_button_def menu_item_def action_menu_def edit_button_def badge_view_def match_badges_def delete_dialog_def
      split: option.split prod.split)

text \<open>The badges of a card are told apart by their keys, whatever is matched.\<close>

lemma match_badge_keys: "child_keys (match_badges matches) = map (\<lambda>(i, m). m @ '':'' @ digits_of (int i)) (enumerate 0 matches)"
proof -
  have "child_keys (map (\<lambda>(matchIndex, m). El ''Badge''
      [(''key'', Val (m @ '':'' @ digits_of (int matchIndex))), (''variant'', Val ''secondary'')] [Txt (Str m)]) xs) =
    map (\<lambda>(i, m). m @ '':'' @ digits_of (int i)) xs" for xs
    by (induction xs) (auto simp: child_keys_def split: prod.splits)
  then show ?thesis by (simp add: match_badges_def)
qed

subsection \<open>Rule cards\<close>

text \<open>The two files of rule cards have the same actions, in their own texts.\<close>

definition dns_DesktopActions_view :: "nat \<Rightarrow> bool \<Rightarrow> bool \<Rightarrow> view" where
  "dns_DesktopActions_view index isFirst isLast =
     El ''div'' []
       [icon_button ''outline'' (numbered ''policy.dns.copyRule'' index) False,
        icon_button ''outline'' (numbered ''policy.dns.moveRuleUp'' index) isFirst,
        icon_button ''outline'' (numbered ''policy.dns.moveRuleDown'' index) isLast,
        icon_button ''destructive'' (numbered ''policy.dns.deleteRule'' index) False]"

definition dns_MobileActions_view :: "nat \<Rightarrow> bool \<Rightarrow> bool \<Rightarrow> view" where
  "dns_MobileActions_view index isFirst isLast =
     El ''div'' [] [action_menu (numbered ''policy.dns.moreRuleActions'' index)
       [menu_item None (tr ''policy.dns.copy'') False, menu_item None (tr ''policy.dns.moveUp'') isFirst,
        menu_item None (tr ''policy.dns.moveDown'') isLast, menu_item (Some ''destructive'') (tr ''policy.dns.delete'') False]]"

definition route_DesktopActions_view :: "nat \<Rightarrow> bool \<Rightarrow> bool \<Rightarrow> view" where
  "route_DesktopActions_view index isFirst isLast =
     El ''div'' []
       [icon_button ''outline'' (numbered ''policy.route.copyRule'' index) False,
        icon_button ''outline'' (numbered ''policy.route.moveRuleUp'' index) isFirst,
        icon_button ''outline'' (numbered ''policy.route.moveRuleDown'' index) isLast,
        icon_button ''destructive'' (numbered ''policy.route.deleteRule'' index) False]"

definition route_MobileActions_view :: "nat \<Rightarrow> bool \<Rightarrow> bool \<Rightarrow> view" where
  "route_MobileActions_view index isFirst isLast =
     El ''div'' [] [action_menu (numbered ''policy.route.moreRuleActions'' index)
       [menu_item None (tr ''policy.route.copy'') False, menu_item None (tr ''policy.route.moveUp'') isFirst,
        menu_item None (tr ''policy.route.moveDown'') isLast, menu_item (Some ''destructive'') (tr ''policy.route.delete'') False]]"

text \<open>A match is named by the label of its field, the last of a path, or else by its path.\<close>

definition dns_matchLabels :: "translator \<Rightarrow> rule_labels" where
  "dns_matchLabels tx =
     \<lparr>rl_logicalMode = (\<lambda>value. tx ''policy.dns.summaryLogicalMode'' [(''value'', value)]),
      rl_matchLabel = (\<lambda>path. case last_by pf_path dnsRuleMatchFields path of
         Some field \<Rightarrow> tx (in_namespace ''policy.dns'' (pf_label field)) [] | None \<Rightarrow> path)\<rparr>"

definition route_matchLabels :: "translator \<Rightarrow> route_labels" where
  "route_matchLabels tx =
     \<lparr>ro_matchLabel = (\<lambda>path. case last_by pf_path routeMatchFields path of
         Some field \<Rightarrow> tx (in_namespace ''policy.route'' (pf_label field)) [] | None \<Rightarrow> path)\<rparr>"

definition dnsRuleCard_view :: "translator \<Rightarrow> bool \<Rightarrow> nat \<Rightarrow> jobj \<Rightarrow> bool \<Rightarrow> bool \<Rightarrow> view list" where
  "dnsRuleCard_view tx deleting index item isFirst isLast =
     (let (matches, action) = summarizeDNSRule item (dns_matchLabels tx)
      in [El ''Card'' [(''size'', Val ''sm'')]
            [El ''CardHeader'' []
               [text_el ''CardTitle'' (numbered ''policy.dns.ruleCardTitle'' index),
                text_el ''CardDescription'' (Str (string_or (obj_get item ''type'') ''default'')),
                El ''CardAction'' [] [edit_button (numbered ''policy.dns.editRule'' index) (tr ''policy.dns.edit'')]],
             El ''CardContent'' [] [El ''div'' [] (match_badges (take 4 matches) @ [badge_view None (Str action)])],
             El ''CardFooter'' [] [dns_DesktopActions_view index isFirst isLast, dns_MobileActions_view index isFirst isLast]],
          delete_dialog deleting (numbered ''policy.dns.deleteRuleTitle'' index) (tr ''policy.dns.deleteDescription'')
            (tr ''policy.dns.cancel'') (tr ''policy.dns.confirmDelete'')])"

definition routeRuleCard_view :: "translator \<Rightarrow> bool \<Rightarrow> nat \<Rightarrow> jobj \<Rightarrow> route_rule_metadata option \<Rightarrow> bool \<Rightarrow> bool \<Rightarrow> view list" where
  "routeRuleCard_view tx deleting index item metadata isFirst isLast =
     (let (matches, action) = summarizeRouteRule item (route_matchLabels tx);
          type = string_or (obj_get item ''type'') ''default'';
          name = (case metadata of Some m \<Rightarrow> js_trim (rm_name m) | None \<Rightarrow> []);
          description = (case metadata of Some m \<Rightarrow> js_trim (rm_description m) | None \<Rightarrow> [])
      in [El ''Card'' [(''size'', Val ''sm'')]
            [El ''CardHeader'' []
               [text_el ''CardTitle'' (if name \<noteq> [] then Str name else numbered ''policy.route.ruleCardTitle'' index),
                text_el ''CardDescription'' (Str (if description \<noteq> [] then description else type)),
                El ''CardAction'' [] [edit_button (numbered ''policy.route.editRule'' index) (tr ''policy.route.edit'')]],
             El ''CardContent'' [] [El ''div'' [] (match_badges (take 3 matches) @ [badge_view None (Str action)])],
             El ''CardFooter'' [] [route_DesktopActions_view index isFirst isLast, route_MobileActions_view index isFirst isLast]],
          delete_dialog deleting (numbered ''policy.route.deleteRuleTitle'' index) (tr ''policy.route.deleteDescription'')
            (tr ''policy.route.cancel'') (tr ''policy.route.confirmDelete'')])"

lemma rule_cards_translated [simp]:
  "list_all translated (dnsRuleCard_view tx deleting index item isFirst isLast)"
  "list_all translated (routeRuleCard_view tx deleting index item metadata isFirst isLast)"
  by (simp_all add: dnsRuleCard_view_def routeRuleCard_view_def dns_DesktopActions_view_def dns_MobileActions_view_def
      route_DesktopActions_view_def route_MobileActions_view_def Let_def split: prod.split)

subsection \<open>Server and rule set cards\<close>

definition item_tag :: "string \<Rightarrow> jobj \<Rightarrow> label" where
  "item_tag unnamed item = (case obj_get item ''tag'' of Some (JStr t) \<Rightarrow> if t \<noteq> [] then Str t else tr unnamed | _ \<Rightarrow> tr unnamed)"

definition dns_serverLabels :: "translator \<Rightarrow> server_labels" where
  "dns_serverLabels tx =
     \<lparr>sl_path = (\<lambda>value. tx ''policy.dns.summaryPath'' [(''value'', value)]),
      sl_predefined = (\<lambda>n. tx ''policy.dns.summaryPredefined'' [(''count'', digits_of (int n))]),
      sl_ipv4 = (\<lambda>value. tx ''policy.dns.summaryIPv4'' [(''value'', value)]),
      sl_ipv6 = (\<lambda>value. tx ''policy.dns.summaryIPv6'' [(''value'', value)]),
      sl_tag = (\<lambda>value. tx ''policy.dns.summaryTag'' [(''value'', value)]),
      sl_detour = (\<lambda>value. tx ''policy.dns.summaryDetour'' [(''value'', value)]),
      sl_strategy = (\<lambda>value. tx ''policy.dns.summaryStrategy'' [(''value'', value)])\<rparr>"

definition dnsServerCard_view :: "translator \<Rightarrow> bool \<Rightarrow> jobj \<Rightarrow> view list" where
  "dnsServerCard_view tx deleting item =
     (let tag = item_tag ''policy.dns.unnamed'' item; (type, detail) = summarizeDNSServer item (dns_serverLabels tx)
      in [El ''Card'' [(''size'', Val ''sm'')]
            [El ''CardHeader'' []
               [text_el ''CardTitle'' tag, text_el ''CardDescription'' (Str (inferDNSServerType item)),
                El ''CardAction'' [] [edit_button (tagged ''policy.dns.editServer'' tag) (tr ''policy.dns.edit'')]],
             El ''CardContent'' [] [El ''div'' []
               (badge_view None (Str type) # when_view (detail \<noteq> []) (badge_view (Some ''secondary'') (Str detail)))],
             El ''CardFooter'' []
               [El ''div'' [] [icon_button ''outline'' (tagged ''policy.dns.copyServer'' tag) False,
                  icon_button ''destructive'' (tagged ''policy.dns.deleteServer'' tag) False],
                El ''div'' [] [action_menu (tagged ''policy.dns.moreServerActions'' tag)
                  [menu_item None (tr ''policy.dns.copy'') False, menu_item (Some ''destructive'') (tr ''policy.dns.delete'') False]]]],
          delete_dialog deleting (tagged ''policy.dns.deleteServerTitle'' tag) (tr ''policy.dns.deleteDescription'')
            (tr ''policy.dns.cancel'') (tr ''policy.dns.confirmDelete'')])"

text \<open>\<open>date\<close> gives the local text of a date the platform understands.\<close>

definition formatUpdatedAt :: "(string \<Rightarrow> string option) \<Rightarrow> string option \<Rightarrow> string" where
  "formatUpdatedAt date value =
     (case value of None \<Rightarrow> [] | Some v \<Rightarrow> if v = [] then [] else (case date v of None \<Rightarrow> v | Some t \<Rightarrow> t))"

definition routeRuleSetCard_view ::
  "(string \<Rightarrow> string option) \<Rightarrow> bool \<Rightarrow> jobj \<Rightarrow> rule_set_status option \<Rightarrow> bool \<Rightarrow> bool \<Rightarrow> view list" where
  "routeRuleSetCard_view date deleting item status updating hasUpdate =
     (let tag = item_tag ''policy.route.unnamed'' item; (type, detail) = summarizeRuleSet item;
          updatable = ((case status of Some st \<Rightarrow> rst_updatable st | None \<Rightarrow> False) \<and> hasUpdate);
          text_at = (\<lambda>f. case status of Some st \<Rightarrow> (case f st of Some s \<Rightarrow> s | None \<Rightarrow> []) | None \<Rightarrow> []);
          updatedLabel = formatUpdatedAt date (Option.bind status rst_last_updated)
      in [El ''Card'' [(''size'', Val ''sm'')]
            [El ''CardHeader'' []
               [text_el ''CardTitle'' tag,
                text_el ''CardDescription'' (if detail \<noteq> [] then Str detail else tr ''policy.route.ruleSetLocationMissing''),
                El ''CardAction'' []
                  (when_view updatable (El ''Button'' [(''variant'', Val ''outline''), (''size'', Val ''xs''), (''disabled'', Flag updating),
                      (''aria-label'', Lab (tagged ''policy.route.updateRuleSet'' tag))] [Txt (tr ''policy.route.update'')])
                   @ [edit_button (tagged ''policy.route.editRuleSet'' tag) (tr ''policy.route.edit'')])],
             El ''CardContent'' []
               ([El ''div'' [] (badge_view (Some ''secondary'') (Str type)
                   # when_view (case status of Some st \<Rightarrow> rst_builtin st | None \<Rightarrow> False)
                       (badge_view (Some ''outline'') (tr ''policy.route.builtin''))
                   @ when_view (text_at rst_update_interval \<noteq> [])
                       (badge_view (Some ''outline'') (tr1 ''policy.route.intervalBadge'' ''interval'' (Str (text_at rst_update_interval)))))]
                @ when_view (updatedLabel \<noteq> []) (text_el ''p'' (tr1 ''policy.route.lastUpdated'' ''time'' (Str updatedLabel)))
                @ when_view (text_at rst_note \<noteq> []) (text_el ''p'' (Str (text_at rst_note)))),
             El ''CardFooter'' []
               [El ''div'' [] [icon_button ''outline'' (tagged ''policy.route.copyRuleSet'' tag) False,
                  icon_button ''destructive'' (tagged ''policy.route.deleteRuleSet'' tag) False],
                El ''div'' [] [action_menu (tagged ''policy.route.moreRuleSetActions'' tag)
                  (when_view updatable (menu_item None (tr ''policy.route.update'') updating)
                   @ [menu_item None (tr ''policy.route.copy'') False, menu_item (Some ''destructive'') (tr ''policy.route.delete'') False])]]],
          delete_dialog deleting (tagged ''policy.route.deleteRuleSetTitle'' tag) (tr ''policy.route.deleteDescription'')
            (tr ''policy.route.cancel'') (tr ''policy.route.confirmDelete'')])"

lemma item_tag_known [simp]: "label_known (item_tag unnamed item) \<longleftrightarrow> known_text unnamed [] \<or> (\<exists>t. obj_get item ''tag'' = Some (JStr t) \<and> t \<noteq> [])"
  by (auto simp: item_tag_def split: option.split json.split)

lemma item_cards_translated [simp]:
  "list_all translated (dnsServerCard_view tx deleting item)"
  "list_all translated (routeRuleSetCard_view date deleting item status updating hasUpdate)"
  by (simp_all add: dnsServerCard_view_def routeRuleSetCard_view_def Let_def split: prod.split)


subsection \<open>The sections of the visual editors\<close>

definition emptySection_view :: "label \<Rightarrow> label \<Rightarrow> label \<Rightarrow> view" where
  "emptySection_view title description action =
     El ''Empty'' []
       [El ''EmptyHeader'' [] [El ''EmptyMedia'' [(''variant'', Val ''icon'')] [], text_el ''EmptyTitle'' title,
          text_el ''EmptyDescription'' description],
        El ''EmptyContent'' [] [button_view [] action]]"

definition list_section :: "label \<Rightarrow> label \<Rightarrow> view list \<Rightarrow> view list \<Rightarrow> label \<Rightarrow> view" where
  "list_section title description buttons content footer =
     El ''Card'' []
       [El ''CardHeader'' [] [text_el ''CardTitle'' title, text_el ''CardDescription'' description, El ''CardAction'' [] buttons],
        El ''CardContent'' [] content,
        El ''CardFooter'' [] [text_el ''p'' footer]]"

text \<open>The cards of a list; an item is known by its position, so its open confirmation is too.\<close>

definition list_cards :: "(nat \<Rightarrow> 'a \<Rightarrow> view list) \<Rightarrow> 'a list \<Rightarrow> view" where
  "list_cards show_item items = El ''div'' [] (concat (map (\<lambda>(index, item). show_item index item) (enumerate 0 items)))"

definition serverSection_view :: "translator \<Rightarrow> (nat \<Rightarrow> bool) \<Rightarrow> jobj \<Rightarrow> view" where
  "serverSection_view tx deleting ob =
     (let servers = dnsServers ob
      in list_section (tr ''policy.dns.serversTitle'') (tr ''policy.dns.serversDescription'')
           [El ''div'' [] [button_view [(''variant'', Val ''outline'')] (tr ''policy.installDNS''), button_view [] (tr ''policy.dns.addServer'')]]
           [if length servers = 0
            then emptySection_view (tr ''policy.dns.emptyServersTitle'') (tr ''policy.dns.emptyServersDescription'') (tr ''policy.dns.addServer'')
            else list_cards (\<lambda>index item. dnsServerCard_view tx (deleting index) item) servers]
           (counted ''policy.dns.serversCount'' (length servers)))"

definition dns_ruleSection_view :: "translator \<Rightarrow> (nat \<Rightarrow> bool) \<Rightarrow> jobj \<Rightarrow> view" where
  "dns_ruleSection_view tx deleting ob =
     (let rules = dnsRules ob
      in list_section (tr ''policy.dns.rulesTitle'') (tr ''policy.dns.rulesDescription'') [button_view [] (tr ''policy.dns.addRule'')]
           [if length rules = 0
            then emptySection_view (tr ''policy.dns.emptyRulesTitle'') (tr ''policy.dns.emptyRulesDescription'') (tr ''policy.dns.addRule'')
            else list_cards (\<lambda>index item. dnsRuleCard_view tx (deleting index) index item (index = 0) (Suc index = length rules)) rules]
           (counted ''policy.dns.rulesCount'' (length rules)))"

text \<open>The metadata of the rules comes from a query of its own, which may be loading or have failed.\<close>

definition route_ruleSection_view ::
  "translator \<Rightarrow> (nat \<Rightarrow> bool) \<Rightarrow> jobj \<Rightarrow> route_rule_metadata list \<Rightarrow> bool \<Rightarrow> string option \<Rightarrow> view" where
  "route_ruleSection_view tx deleting ob metadata metadataLoading metadataError =
     (let rules = routeRules ob; failure = (case metadataError of Some m \<Rightarrow> m | None \<Rightarrow> [])
      in list_section (tr ''policy.route.rulesTitle'') (tr ''policy.route.rulesDescription'')
           [El ''div'' [] [button_view [(''variant'', Val ''outline'')] (tr ''policy.installRoute''), button_view [] (tr ''policy.route.addRule'')]]
           [if metadataLoading then El ''Skeleton'' [] []
            else if failure \<noteq> [] then alert_view True (tr ''common.loadFailed'') (Str failure)
            else if length rules = 0
            then emptySection_view (tr ''policy.route.emptyRulesTitle'') (tr ''policy.route.emptyRulesDescription'') (tr ''policy.route.addRule'')
            else list_cards (\<lambda>index item. routeRuleCard_view tx (deleting index) index item
                   (if index < length metadata then Some (metadata ! index) else None) (index = 0) (Suc index = length rules)) rules]
           (counted ''policy.route.rulesCount'' (length rules)))"

text \<open>Which rule sets are being updated: none, the one of a tag, or all, asked for as \<open>*\<close>.\<close>

definition ruleSetSection_view ::
  "(string \<Rightarrow> string option) \<Rightarrow> (nat \<Rightarrow> bool) \<Rightarrow> jobj \<Rightarrow> rule_set_status list \<Rightarrow> bool \<Rightarrow> string option \<Rightarrow> view" where
  "ruleSetSection_view date deleting ob statusItems isPending pendingTag =
     (let ruleSets = routeRuleSets ob
      in list_section (tr ''policy.route.ruleSetsTitle'') (tr ''policy.route.ruleSetsDescription'')
           [El ''div'' []
             [button_view [(''variant'', Val ''outline''), (''disabled'', Flag (isPending \<or> updatableCount statusItems ruleSets = 0))]
                (tr ''policy.route.updateAllRuleSets''),
              button_view [] (tr ''policy.route.addRuleSet'')]]
           [if length ruleSets = 0
            then emptySection_view (tr ''policy.route.emptyRuleSetsTitle'') (tr ''policy.route.emptyRuleSetsDescription'') (tr ''policy.route.addRuleSet'')
            else list_cards (\<lambda>index item.
                   let tag = stringValue (obj_get item ''tag''); status = statusByTag statusItems tag
                   in routeRuleSetCard_view date (deleting index) item status (isPending \<and> (pendingTag = Some tag \<or> pendingTag = Some ''*''))
                        (case status of Some st \<Rightarrow> rst_updatable st | None \<Rightarrow> False)) ruleSets]
           (counted ''policy.route.ruleSetsCount'' (length ruleSets)))"

lemma list_section_translated [simp]:
  "translated (emptySection_view title description action) = (label_known title \<and> label_known description \<and> label_known action)"
  "translated (list_section title description buttons content footer) =
     (label_known title \<and> label_known description \<and> list_all translated buttons \<and> list_all translated content \<and> label_known footer)"
  "(\<And>index item. list_all translated (show_item index item)) \<Longrightarrow> translated (list_cards show_item items)"
  by (auto simp: emptySection_view_def list_section_def list_cards_def)

lemma sections_translated [simp]:
  "translated (serverSection_view tx deleting ob)"
  "translated (dns_ruleSection_view tx deleting ob)"
  "translated (route_ruleSection_view tx deleting ob metadata metadataLoading metadataError)"
  "translated (ruleSetSection_view date deleting ob statusItems isPending pendingTag)"
  by (simp_all add: serverSection_view_def dns_ruleSection_view_def route_ruleSection_view_def ruleSetSection_view_def Let_def)


subsection \<open>The visual editors\<close>

text \<open>
  The item whose dialog is open, as it was when the card's button was pressed: its list, its position (none for a new
  one) and the item, with its metadata for a route rule.
\<close>

datatype selection_kind = SelServer | SelRule | SelRuleSet

record editor_selection =
  sel_kind :: selection_kind
  sel_index :: "nat option"
  sel_item :: jobj
  sel_metadata :: "route_rule_metadata option"

definition editServer :: "jobj \<Rightarrow> nat option \<Rightarrow> editor_selection" where
  "editServer ob index =
     \<lparr>sel_kind = SelServer, sel_index = index, sel_item = (case index of None \<Rightarrow> [] | Some i \<Rightarrow> dnsServers ob ! i), sel_metadata = None\<rparr>"

definition dns_editRule :: "jobj \<Rightarrow> nat option \<Rightarrow> editor_selection" where
  "dns_editRule ob index =
     \<lparr>sel_kind = SelRule, sel_index = index, sel_item = (case index of None \<Rightarrow> dns_newRule | Some i \<Rightarrow> dnsRules ob ! i), sel_metadata = None\<rparr>"

text \<open>The section a save gives, which goes to the page twice: as the object edited and to be stored.\<close>

definition dns_saveSelection :: "jobj \<Rightarrow> editor_selection option \<Rightarrow> jobj \<Rightarrow> jobj option" where
  "dns_saveSelection ob selection item =
     (case selection of None \<Rightarrow> None
      | Some sel \<Rightarrow> Some (if sel_kind sel = SelServer then setDNSServers ob (replaceOrAppend (dnsServers ob) (sel_index sel) item)
          else setDNSRules ob (replaceOrAppend (dnsRules ob) (sel_index sel) item)))"

definition route_editRule :: "jobj \<Rightarrow> route_rule_metadata list \<Rightarrow> nat option \<Rightarrow> editor_selection" where
  "route_editRule ob metadata index =
     \<lparr>sel_kind = SelRule, sel_index = index,
      sel_item = (case index of None \<Rightarrow> [(''action'', JStr ''route'')] | Some i \<Rightarrow> routeRules ob ! i),
      sel_metadata = Some (case index of None \<Rightarrow> emptyRuleMetadata | Some i \<Rightarrow> metadata ! i)\<rparr>"

definition editRuleSet :: "jobj \<Rightarrow> nat option \<Rightarrow> editor_selection" where
  "editRuleSet ob index =
     \<lparr>sel_kind = SelRuleSet, sel_index = index, sel_item = (case index of None \<Rightarrow> route_newRuleSet | Some i \<Rightarrow> routeRuleSets ob ! i),
      sel_metadata = None\<rparr>"

text \<open>What a save passes on: the metadata, for a rule only; the object; and both to be stored.\<close>

definition route_saveSelection ::
  "jobj \<Rightarrow> route_rule_metadata list \<Rightarrow> editor_selection option \<Rightarrow> jobj \<Rightarrow> route_rule_metadata option \<Rightarrow>
     (route_rule_metadata list option \<times> jobj \<times> jobj \<times> route_rule_metadata list) option" where
  "route_saveSelection ob metadata selection item nextMetadata =
     (case selection of None \<Rightarrow> None
      | Some sel \<Rightarrow>
          (let isRule = (sel_kind sel = SelRule);
               next_ob = (if isRule then setRouteRules ob (replaceOrAppend (routeRules ob) (sel_index sel) item)
                 else setRouteRuleSets ob (replaceOrAppend (routeRuleSets ob) (sel_index sel) item));
               details = replaceOrAppend metadata (sel_index sel) (case nextMetadata of Some m \<Rightarrow> m | None \<Rightarrow> emptyRuleMetadata)
           in Some (if isRule then Some details else None, next_ob, next_ob, if isRule then details else metadata)))"

text \<open>The key of a dialog: another selection is another dialog, which starts afresh.\<close>

definition selection_key :: "editor_selection \<Rightarrow> string" where
  "selection_key sel =
     (case sel_index sel of None \<Rightarrow> ''null'' | Some i \<Rightarrow> digits_of (int i)) @ '':'' @ json_stringify (JObj (sel_item sel))"

definition selected :: "editor_selection option \<Rightarrow> selection_kind \<Rightarrow> (editor_selection \<Rightarrow> view res) \<Rightarrow> view list res" where
  "selected selection kind dialog =
     (case selection of None \<Rightarrow> Inr []
      | Some sel \<Rightarrow> if sel_kind sel = kind then bind_res (dialog sel) (\<lambda>v. Inr [v]) else Inr [])"

definition dnsVisualEditor_view ::
  "form_env \<Rightarrow> translator \<Rightarrow> jobj option \<Rightarrow> nat \<Rightarrow> (selection_kind \<Rightarrow> nat \<Rightarrow> bool) \<Rightarrow> editor_selection option \<Rightarrow> dialog_state \<Rightarrow> jobj \<Rightarrow> view res" where
  "dnsVisualEditor_view env tx config revision deleting selection st ob =
     bind_res (selected selection SelServer (\<lambda>sel. dnsServerDialog_view env config st
         (tr (if sel_index sel = None then ''policy.dns.addServerTitle'' else ''policy.dns.editServerTitle'')))) (\<lambda>server.
     bind_res (selected selection SelRule (\<lambda>sel. dnsRuleDialog_view env config st
         (case sel_index sel of None \<Rightarrow> tr ''policy.dns.addRuleTitle'' | Some i \<Rightarrow> numbered ''policy.dns.editRuleTitle'' i) (dns_serverTags ob)))
     (\<lambda>rule. Inr (El ''div'' []
        ([dnsGlobalCard_view env config revision ob, dnsFakeIPCard_view env revision ob,
          serverSection_view tx (deleting SelServer) ob, dns_ruleSection_view tx (deleting SelRule) ob] @ server @ rule))))"

text \<open>What the route page knows besides the section: the metadata with its query, and the states of the rule sets.\<close>

record route_queries =
  rq_metadata :: "route_rule_metadata list"
  rq_loading :: bool
  rq_error :: "string option"
  rq_status :: "rule_set_status list"
  rq_pending :: bool
  rq_pendingTag :: "string option"

definition routeVisualEditor_view ::
  "form_env \<Rightarrow> translator \<Rightarrow> (string \<Rightarrow> string option) \<Rightarrow> jobj option \<Rightarrow> json option \<Rightarrow> nat \<Rightarrow> route_queries \<Rightarrow>
     (selection_kind \<Rightarrow> nat \<Rightarrow> bool) \<Rightarrow> editor_selection option \<Rightarrow> dialog_state \<Rightarrow> route_rule_metadata \<Rightarrow> jobj \<Rightarrow> view res" where
  "routeVisualEditor_view env tx date config outbounds revision queries deleting selection st details ob =
     (let metadata = alignedMetadata (routeRules ob) (rq_metadata queries)
      in bind_res (selected selection SelRule (\<lambda>sel. routeRuleDialog_view env config st details
             (case sel_index sel of None \<Rightarrow> tr ''policy.route.addRuleTitle'' | Some i \<Rightarrow> numbered ''policy.route.editRuleTitle'' i))) (\<lambda>rule.
         bind_res (selected selection SelRuleSet (\<lambda>sel. Inr (ruleSetDialog_view env st
             (tr (if sel_index sel = None then ''policy.route.addRuleSetTitle'' else ''policy.route.editRuleSetTitle''))))) (\<lambda>ruleSet.
         Inr (El ''div'' []
           ([routeGlobalCard_view env config outbounds revision ob,
             route_ruleSection_view tx (deleting SelRule) ob metadata (rq_loading queries) (rq_error queries),
             ruleSetSection_view date (deleting SelRuleSet) ob (rq_status queries) (rq_pending queries) (rq_pendingTag queries)]
            @ rule @ ruleSet)))))"

lemma selected_translated:
  assumes "selected selection kind dialog = Inr vs" and "\<And>sel v. dialog sel = Inr v \<Longrightarrow> translated v"
  shows "list_all translated vs"
  using assms by (auto simp: selected_def bind_res_eq_Inr split: option.splits if_splits)

lemma visual_editors_translated:
  assumes sound: "exists_sound (fv_exists env)"
  shows "dnsVisualEditor_view env tx config revision deleting selection st ob = Inr v \<Longrightarrow> translated v"
    and "routeVisualEditor_view env tx date config outbounds revision queries deleting selection st details ob = Inr v \<Longrightarrow> translated v"
proof -
  have server: "list_all translated vs" if "selected selection k (\<lambda>sel. dnsServerDialog_view env config st (t sel)) = Inr vs"
    and "\<And>sel. label_known (t sel)" for k t vs
    by (rule selected_translated [OF that(1)]) (rule dnsServerDialog_translated [OF sound that(2)])
  have dns_rule: "list_all translated vs" if "selected selection k (\<lambda>sel. dnsRuleDialog_view env config st (t sel) tags) = Inr vs"
    and "\<And>sel. label_known (t sel)" for k t tags vs
    by (rule selected_translated [OF that(1)]) (rule dnsRuleDialog_translated [OF sound that(2)])
  have route_rule: "list_all translated vs" if "selected selection k (\<lambda>sel. routeRuleDialog_view env config st details (t sel)) = Inr vs"
    and "\<And>sel. label_known (t sel)" for k t vs
    by (rule selected_translated [OF that(1)]) (rule routeRuleDialog_translated [OF sound that(2)])
  have rule_set: "list_all translated vs" if "selected selection k (\<lambda>sel. Inr (ruleSetDialog_view env st (t sel))) = Inr vs"
    and "\<And>sel. label_known (t sel)" for k t vs
    by (rule selected_translated [OF that(1)]) (use ruleSetDialog_translated [OF sound that(2)] in auto)
  show "translated v" if "dnsVisualEditor_view env tx config revision deleting selection st ob = Inr v"
    using that by (auto simp: dnsVisualEditor_view_def bind_res_eq_Inr global_cards_translated [OF sound] dest!: server dns_rule
        split: option.splits)
  show "translated v" if "routeVisualEditor_view env tx date config outbounds revision queries deleting selection st details ob = Inr v"
    using that by (auto simp: routeVisualEditor_view_def Let_def bind_res_eq_Inr global_cards_translated [OF sound]
        dest!: route_rule rule_set split: option.splits)
qed


subsection \<open>The editor and the page\<close>

text \<open>The visual tab is rendered whichever tab is shown; \<open>visual\<close> is what the page's editor gives for the object.\<close>

definition policyEditorTabs_view :: "policy_section \<Rightarrow> policy_editor \<Rightarrow> (jobj \<Rightarrow> view res) \<Rightarrow> view res" where
  "policyEditorTabs_view section ed visual =
     bind_res (case pe_visual section ed of
         Some ob \<Rightarrow> bind_res (visual ob) (\<lambda>v. Inr [v])
       | None \<Rightarrow> Inr (when_view (pe_object ed \<noteq> None)
           (alert_view True (tr ''policy.invalidStructureTitle'') (tr ''policy.invalidStructureDescription'')))) (\<lambda>shown.
     Inr (tabs_view ''visual'' [(''visual'', ''policy.visualTab''), (''json'', ''policy.advancedTab'')]
       [tab_content ''visual'' shown,
        tab_content ''json'' [El ''FieldGroup'' [] [El ''Field'' []
          [text_el ''FieldLabel'' (tr ''policy.jsonLabel''), jsonEditor_view [] (pe_value ed) (tr ''policy.jsonLabel'') False]]]]))"

definition policyEditor_view :: "policy_section \<Rightarrow> policy_editor \<Rightarrow> label \<Rightarrow> label \<Rightarrow> bool \<Rightarrow> (jobj \<Rightarrow> view res) \<Rightarrow> view res" where
  "policyEditor_view section ed title installLabel installInVisual visual =
     bind_res (policyEditorTabs_view section ed visual) (\<lambda>tabs.
       Inr (El ''Card'' []
         [El ''CardHeader'' [] [El ''CardTitle'' [(''role'', Val ''heading''), (''aria-level'', Val ''1'')] [Txt title],
            text_el ''CardDescription'' (tr ''policy.description'')],
          El ''CardContent'' [] [tabs],
          El ''CardFooter'' []
            (when_view (\<not> installInVisual) (button_view [(''variant'', Val ''outline'')] installLabel)
             @ when_view (\<not> installInVisual) (button_view [(''disabled'', Flag (pe_savePolicy section ed = None))] (tr ''policy.save'')))]))"

datatype 'a query_result = Loading | Failed string | Loaded 'a

definition policyPage_view :: "policy_section \<Rightarrow> unit query_result \<Rightarrow> policy_editor \<Rightarrow> label \<Rightarrow> label \<Rightarrow> bool \<Rightarrow> (jobj \<Rightarrow> view res) \<Rightarrow> view res" where
  "policyPage_view section query ed title installLabel installInVisual visual =
     (case query of
        Loading \<Rightarrow> Inr (El ''Skeleton'' [] [])
      | Failed message \<Rightarrow> Inr (alert_view True (tr ''common.loadFailed'') (Str message))
      | Loaded _ \<Rightarrow> policyEditor_view section ed title installLabel installInVisual visual)"

definition dnsPage_view ::
  "unit query_result \<Rightarrow> policy_editor \<Rightarrow> form_env \<Rightarrow> translator \<Rightarrow> jobj option \<Rightarrow> (selection_kind \<Rightarrow> nat \<Rightarrow> bool) \<Rightarrow>
     editor_selection option \<Rightarrow> dialog_state \<Rightarrow> view res" where
  "dnsPage_view query ed env tx config deleting selection st =
     policyPage_view Dns_section query ed (tr ''pages.dns'') (tr ''policy.installDNS'') True
       (dnsVisualEditor_view env tx config (pe_revision ed) deleting selection st)"

definition routePage_view ::
  "unit query_result \<Rightarrow> policy_editor \<Rightarrow> form_env \<Rightarrow> translator \<Rightarrow> (string \<Rightarrow> string option) \<Rightarrow> jobj option \<Rightarrow> route_queries \<Rightarrow>
     (selection_kind \<Rightarrow> nat \<Rightarrow> bool) \<Rightarrow> editor_selection option \<Rightarrow> dialog_state \<Rightarrow> route_rule_metadata \<Rightarrow> view res" where
  "routePage_view query ed env tx date config queries deleting selection st details =
     policyPage_view Route_section query ed (tr ''pages.route'') (tr ''policy.installRoute'') True
       (routeVisualEditor_view env tx date config (config_section config ''outbounds'') (pe_revision ed) queries deleting selection st details)"

lemma policyPage_translated:
  assumes view: "policyPage_view section query ed title installLabel installInVisual visual = Inr v"
    and visual: "\<And>ob v. visual ob = Inr v \<Longrightarrow> translated v" and texts: "label_known title" "label_known installLabel"
  shows "translated v"
  using view texts by (auto simp: policyPage_view_def policyEditor_view_def policyEditorTabs_view_def bind_res_eq_Inr jsonEditor_view_def
      dest: visual split: query_result.splits option.splits)

lemma policyPages_translated:
  assumes "exists_sound (fv_exists env)"
  shows "dnsPage_view query ed env tx config deleting selection st = Inr v \<Longrightarrow> translated v"
    and "routePage_view query ed env tx date config queries deleting selection st details = Inr v \<Longrightarrow> translated v"
  by (auto simp: dnsPage_view_def routePage_view_def elim!: policyPage_translated dest: visual_editors_translated [OF assms])

text \<open>
  C37: The two policy pages never show a raw key or a text with an unfilled place. Whatever is configured, loaded,
  selected or open, if the DNS page or the route page renders at all (it throws only where a rule is named like a property every
  object inherits), then each text in it, in content, labels, placeholders and options, exists in English and
  in Chinese, and is given every parameter it has. The question which help texts and section titles exist is
  answered by the library of texts, so it is assumed to answer yes only for texts there are.
\<close>

theorem policy_pages_translated:
  assumes "exists_sound (fv_exists env)"
  shows "(dnsPage_view query ed env tx config deleting selection st = Inr v \<longrightarrow> translated v)
    \<and> (routePage_view query ed env tx date config queries deleting selection st details = Inr v \<longrightarrow> translated v)"
  using policyPages_translated [OF assms] by blast

definition example_env :: form_env where
  "example_env =
     \<lparr>fv_namespace = ''policy.dns'', fv_exists = (\<lambda>k. k = ''policy.dns.globalTitle''), fv_revision = 0, fv_context = None, fv_transform = None,
      fv_interfaces = [], fv_modes = (\<lambda>_. interface_init 0 [] []), fv_drafts = (\<lambda>_. structured_init 0 None)\<rparr>"

lemma example_env_sound: "exists_sound (fv_exists example_env)"
  by (simp add: exists_sound_def example_env_def)

lemma policy_pages_translated_witness:
  "(\<exists>v. dnsPage_view (Loaded ()) (pe_init (JObj [])) example_env (\<lambda>k vs. k) None (\<lambda>_ _. False) None (dialog_init []) = Inr v \<and> translated v)
    \<and> (\<exists>v. routePage_view (Failed ''offline'') (pe_init (JObj [])) example_env (\<lambda>k vs. k) (\<lambda>_. None) None
         \<lparr>rq_metadata = [], rq_loading = False, rq_error = None, rq_status = [], rq_pending = False, rq_pendingTag = None\<rparr>
         (\<lambda>_ _. False) None (dialog_init []) emptyRuleMetadata = Inr v \<and> translated v)"
proof -
  have "\<exists>v. dnsPage_view (Loaded ()) (pe_init (JObj [])) example_env (\<lambda>k vs. k) None (\<lambda>_ _. False) None (dialog_init []) = Inr v"
    by (simp add: dnsPage_view_def policyPage_view_def policyEditor_view_def policyEditorTabs_view_def dnsVisualEditor_view_def selected_def
        split: option.split)
  moreover have "\<exists>v. routePage_view (Failed ''offline'') (pe_init (JObj [])) example_env (\<lambda>k vs. k) (\<lambda>_. None) None queries
      (\<lambda>_ _. False) None (dialog_init []) emptyRuleMetadata = Inr v" for queries
    by (simp add: routePage_view_def policyPage_view_def)
  ultimately show ?thesis using policy_pages_translated [OF example_env_sound] by meson
qed

subsection \<open>The hooks of a render\<close>

text \<open>
  React knows the state of a component by the order in which a render calls hooks, so every render
  must call the same ones. The route page wraps its visual editor in an element, which is a component
  of its own; the DNS page hands over the component itself, which \<open>PolicyEditorTabs\<close> calls as a function: its hooks
  become hooks of the tabs.
\<close>

datatype hook = UseTranslation | UseState

datatype render_visual = AsElement | AsFunction "hook list"

definition dnsVisualEditor_hooks :: "hook list" where
  "dnsVisualEditor_hooks = [UseTranslation, UseState]"

definition dnsPage_renderVisual :: render_visual where
  "dnsPage_renderVisual = AsFunction dnsVisualEditor_hooks"

definition routePage_renderVisual :: render_visual where
  "routePage_renderVisual = AsElement"

definition policyEditorTabs_hooks :: "policy_section \<Rightarrow> render_visual \<Rightarrow> policy_editor \<Rightarrow> hook list" where
  "policyEditorTabs_hooks section render ed =
     UseTranslation # (case render of AsElement \<Rightarrow> []
       | AsFunction hooks \<Rightarrow> if pe_visual section ed \<noteq> None then hooks else [])"



end
