(* ===== verification/Proxy_Views.thy ===== *)
theory Proxy_Views
  imports Proxy_Form_Views Runtime_Groups Policy_Page_Views
begin

text \<open>
  What the pages of inbounds and outbounds show: their dialogs, cards and lists, \<open>outbound-editor-dialog.tsx\<close>,
  \<open>inbound-editor-dialog.tsx\<close>, \<open>proxy-editor-dialog.tsx\<close>, \<open>outbound-card.tsx\<close>, \<open>inbound-card.tsx\<close> and \<open>proxy-list-page.tsx\<close>, over the
  states of \<open>Proxy_Dialogs\<close>. A type that is an inherited name makes the dialog throw, so its view is a result.
\<close>

subsection \<open>Parts of the dialogs\<close>

definition labelled_input :: "string \<Rightarrow> label \<Rightarrow> (string \<times> attr) list \<Rightarrow> string \<Rightarrow> view" where
  "labelled_input ident l attrs value =
     El ''Field'' [] [El ''FieldLabel'' [(''htmlFor'', Val ident)] [Txt l], El ''Input'' ([(''id'', Val ident)] @ attrs @ [(''value'', Val value)]) []]"

definition placeholder_select :: "string \<Rightarrow> label \<Rightarrow> label \<Rightarrow> string option \<Rightarrow> string list \<Rightarrow> view" where
  "placeholder_select ident l placeholder chosen options =
     (let items = map (\<lambda>v. (Some v, Str v)) options
      in El ''Field'' [] [El ''FieldLabel'' [(''htmlFor'', Val ident)] [Txt l],
           select_view [(''placeholder'', Lab placeholder)] chosen items [(''id'', Val ident), (''aria-label'', Lab l)] items])"

definition json_tab :: "proxy_dialog \<Rightarrow> label \<Rightarrow> view" where
  "json_tab st title =
     tab_content ''advanced'' [El ''Field'' []
       [text_el ''FieldLabel'' (tr ''proxy.advancedJSON''), jsonEditor_view [] (pd_value st) (Cat [title, Str '' JSON'']) False]]"

definition proxyDialog_view :: "label \<Rightarrow> label \<Rightarrow> proxy_dialog \<Rightarrow> (jobj \<Rightarrow> view res) \<Rightarrow> view res" where
  "proxyDialog_view title description st tabs =
     bind_res (case pd_object st of Some ob \<Rightarrow> tabs ob
       | None \<Rightarrow> Inr (jsonEditor_view [] (pd_value st) (Cat [title, Str '' JSON'']) False)) (\<lambda>body.
     Inr (El ''Dialog'' [(''open'', Flag True)] [El ''DialogContent'' []
       [El ''DialogHeader'' [] [text_el ''DialogTitle'' title, text_el ''DialogDescription'' description],
        El ''div'' [] [body],
        El ''DialogFooter'' [] [button_view [(''variant'', Val ''outline'')] (tr ''common.cancel''),
          button_view [(''disabled'', Flag (pd_saveDisabled st))] (tr ''common.save'')]]]))"

lemma dialog_parts_translated [simp]:
  "translated (labelled_input ident l attrs value) = (label_known l \<and> attrs_known attrs)"
  "translated (placeholder_select ident l placeholder chosen options) = (label_known l \<and> label_known placeholder)"
  "translated (jsonEditor_view attrs value l b) = (attrs_known attrs \<and> label_known l)"
  "translated (json_tab st title) = label_known title"
  by (auto simp: labelled_input_def placeholder_select_def Let_def list_all_iff jsonEditor_view_def json_tab_def)

lemma proxyDialog_translated:
  assumes "proxyDialog_view title description st tabs = Inr v" and "\<And>ob v. tabs ob = Inr v \<Longrightarrow> translated v"
    and "label_known title" and "label_known description"
  shows "translated v"
  using assms by (auto simp: proxyDialog_view_def bind_res_eq_Inr split: option.splits)

subsection \<open>The outbound dialog\<close>

definition outbound_baseFields_view :: "jobj \<Rightarrow> view" where
  "outbound_baseFields_view ob =
     (let type = string_or (obj_get ob ''type'') []
      in El ''FieldGroup'' []
           ([labelled_input ''outbound-tag'' (Str ''Tag'') [] (string_or (obj_get ob ''tag'') []),
             placeholder_select ''outbound-type'' (tr ''common.type'') (tr ''proxy.outbound.selectType'')
               (if type = [] then None else Some type) (outbound_typeOptions type)]
            @ (if type \<in> set serverTypes then
                 [labelled_input ''outbound-server'' (tr ''proxy.outbound.server'') [] (string_or (obj_get ob ''server'') []),
                  labelled_input ''outbound-port'' (tr ''proxy.outbound.serverPort'') [(''type'', Val ''number'')] (string_or (obj_get ob ''server_port'') [])]
               else [])))"

definition managedGroupAlert_view :: view where
  "managedGroupAlert_view = alert_view False (tr ''proxy.outbound.managedGroupTitle'') (tr ''proxy.outbound.managedGroupDescription'')"

definition plain_env :: "proxy_env \<Rightarrow> proxy_env" where
  "plain_env env = env\<lparr>pv_revision := 0, pv_context := None\<rparr>"

definition groupFields_view :: "proxy_env \<Rightarrow> json option \<Rightarrow> string \<Rightarrow> jobj \<Rightarrow> view res" where
  "groupFields_view env outbounds type ob =
     (let members = group_members ob; candidates = group_candidates outbounds ob
      in bind_res (outbound_tabFields type [] OTProtocol) (\<lambda>fs.
         Inr (El ''FieldGroup'' []
           ([El ''Field'' []
              [text_el ''FieldLabel'' (tr ''proxy.outbound.groupOutbounds''),
               El ''div'' [] (map (\<lambda>member. El ''Badge'' [(''key'', Val member), (''variant'', Val ''secondary'')] [Txt (Str member)]) members
                 @ when_view (length candidates = 0) (text_el ''span'' em_dash))]]
            @ when_view (length candidates > 0)
                (placeholder_select ''outbound-group-add'' (tr ''proxy.outbound.groupOutbounds'') (tr ''proxy.outbound.selectType'') None candidates)
            @ when_view (type = ''selector'')
                (placeholder_select ''outbound-default'' (tr ''proxy.outbound.groupDefault'') (tr ''proxy.outbound.notSet'')
                   (case obj_get ob ''default'' of Some (JStr d) \<Rightarrow> Some d | _ \<Rightarrow> None) members)
            @ [outboundFormFields_view (plain_env env) fs ob]))))"

definition outbound_context :: "jobj option \<Rightarrow> jobj \<Rightarrow> proxy_context" where
  "outbound_context config ob =
     (let currentTag = string_or (obj_get ob ''tag'') []
      in \<lparr>px_inboundTags = None, px_outboundTags = Some (configTags (config_section config ''outbounds'') (Some currentTag)),
          px_dnsServerTags = Some (dnsServerTags (config_section config ''dns'')), px_currentTag = Some currentTag, px_inboundType = None\<rparr>)"

definition outbound_formTabs_view :: "proxy_env \<Rightarrow> jobj option \<Rightarrow> proxy_dialog \<Rightarrow> label \<Rightarrow> jobj \<Rightarrow> view res" where
  "outbound_formTabs_view env config st title ob =
     (let type = string_or (obj_get ob ''type'') []; transportType = string_or (getPath ob ''transport.type'') [];
          tabs = outbound_tabs type; isGroup = (type \<in> set groupTypes);
          withContext = env\<lparr>pv_revision := 0, pv_context := Some (outbound_context config ob)\<rparr>;
          withRevision = withContext\<lparr>pv_revision := pd_revision st\<rparr>
      in bind_res (if isGroup then groupFields_view env (config_section config ''outbounds'') type ob
             else bind_res (outbound_tabFields type transportType OTProtocol) (\<lambda>fs. Inr (outboundFormFields_view withRevision fs ob))) (\<lambda>protocol.
         bind_res (if OTTransport \<in> set tabs then outbound_tabFields type transportType OTTransport else Inr []) (\<lambda>transport.
         Inr (tabs_view ''basic''
           ([(''basic'', ''proxy.outbound.basic'')]
            @ (if OTDialer \<in> set tabs then [(''dialer'', ''proxy.outbound.dialing'')] else [])
            @ [(''protocol'', if isGroup then ''proxy.outbound.group'' else ''proxy.outbound.protocol'')]
            @ (if OTTls \<in> set tabs then [(''tls'', ''proxy.outbound.tlsReality'')] else [])
            @ (if OTTransport \<in> set tabs then [(''transport'', ''proxy.outbound.transportMultiplex'')] else [])
            @ [(''advanced'', ''proxy.advancedJSON'')])
           ([tab_content ''basic'' [outbound_baseFields_view ob]]
            @ when_view (OTDialer \<in> set tabs) (tab_content ''dialer'' [outboundFormFields_view withContext outbound_dialerFields ob])
            @ [tab_content ''protocol'' [El ''FieldGroup'' [] (when_view isGroup managedGroupAlert_view @ [protocol])]]
            @ when_view (OTTls \<in> set tabs) (tab_content ''tls'' [outboundFormFields_view withContext outboundTLSFields ob])
            @ when_view (OTTransport \<in> set tabs) (tab_content ''transport'' [outboundFormFields_view withRevision transport ob])
            @ [json_tab st title])))))"

definition outboundEditorDialog_view :: "proxy_env \<Rightarrow> jobj option \<Rightarrow> proxy_dialog \<Rightarrow> label \<Rightarrow> view res" where
  "outboundEditorDialog_view env config st title =
     proxyDialog_view title (tr ''proxy.outbound.editorDescription'') st (outbound_formTabs_view env config st title)"

subsection \<open>The inbound dialog\<close>

definition inbound_baseFields_view :: "proxy_env \<Rightarrow> jobj \<Rightarrow> view" where
  "inbound_baseFields_view env ob =
     (let type = string_or (obj_get ob ''type'') []
      in El ''FieldGroup'' []
           [labelled_input ''inbound-tag'' (Str ''Tag'') [] (string_or (obj_get ob ''tag'') []),
            placeholder_select ''inbound-type'' (tr ''common.type'') (tr ''proxy.inbound.selectType'')
              (if type = [] then None else Some type) (inbound_typeOptions type),
            El ''div'' [] [inboundFormFields_view (plain_env env) (if type = ''tun'' then take 4 tunFields else take 2 listenFields) ob type]])"

definition inbound_context :: "jobj option \<Rightarrow> jobj \<Rightarrow> proxy_context" where
  "inbound_context config ob =
     (let currentTag = string_or (obj_get ob ''tag'') []
      in \<lparr>px_inboundTags = Some (configTags (config_section config ''inbounds'') (Some currentTag)),
          px_outboundTags = Some (configTags (config_section config ''outbounds'') (Some currentTag)),
          px_dnsServerTags = Some (dnsServerTags (config_section config ''dns'')), px_currentTag = Some currentTag,
          px_inboundType = Some (string_or (obj_get ob ''type'') [])\<rparr>)"

definition inbound_formTabs_view :: "proxy_env \<Rightarrow> jobj option \<Rightarrow> proxy_dialog \<Rightarrow> label \<Rightarrow> jobj \<Rightarrow> view res" where
  "inbound_formTabs_view env config st title ob =
     (let type = string_or (obj_get ob ''type'') []; transportType = string_or (getPath ob ''transport.type'') []; tabs = inbound_tabs type;
          withContext = env\<lparr>pv_revision := 0, pv_context := Some (inbound_context config ob)\<rparr>;
          withRevision = withContext\<lparr>pv_revision := pd_revision st\<rparr>
      in bind_res (inbound_tabFields type transportType ITProtocol) (\<lambda>protocol.
         bind_res (if ITTransport \<in> set tabs then inbound_tabFields type transportType ITTransport else Inr []) (\<lambda>transport.
         Inr (tabs_view ''basic''
           ([(''basic'', ''proxy.inbound.basic''),
             (''listen'', if type = ''tun'' then ''proxy.inbound.tun'' else ''proxy.inbound.listenAndConnection''),
             (''protocol'', ''proxy.inbound.protocol'')]
            @ (if ITTls \<in> set tabs then [(''tls'', ''proxy.inbound.tlsReality'')] else [])
            @ (if ITTransport \<in> set tabs then [(''transport'', ''proxy.inbound.transportMultiplex'')] else [])
            @ [(''advanced'', ''proxy.advancedJSON'')])
           ([tab_content ''basic'' [inbound_baseFields_view env ob],
             tab_content ''listen'' [inboundFormFields_view withContext (if type = ''tun'' then drop 4 tunFields else drop 2 listenFields) ob type],
             tab_content ''protocol'' [inboundFormFields_view withRevision protocol ob type]]
            @ when_view (ITTls \<in> set tabs) (tab_content ''tls'' [inboundFormFields_view withContext inbound_tlsFields ob type])
            @ when_view (ITTransport \<in> set tabs) (tab_content ''transport'' [inboundFormFields_view withRevision transport ob type])
            @ [json_tab st title])))))"

definition inboundEditorDialog_view :: "proxy_env \<Rightarrow> jobj option \<Rightarrow> proxy_dialog \<Rightarrow> label \<Rightarrow> view res" where
  "inboundEditorDialog_view env config st title =
     proxyDialog_view title (tr ''proxy.inbound.editorDescription'') st (inbound_formTabs_view env config st title)"

definition proxyEditorDialog_view :: "proxy_env \<Rightarrow> jobj option \<Rightarrow> proxy_dialog \<Rightarrow> label \<Rightarrow> string \<Rightarrow> view res" where
  "proxyEditorDialog_view env config st title kind =
     (if kind = ''inbounds'' then inboundEditorDialog_view env config st title else outboundEditorDialog_view env config st title)"

subsection \<open>The cards\<close>

definition card_label :: "string option \<Rightarrow> label" where
  "card_label t = (case t of Some s \<Rightarrow> Str s | None \<Rightarrow> em_dash)"

definition proxy_card :: "label \<Rightarrow> label \<Rightarrow> view list \<Rightarrow> confirm_action \<Rightarrow> view" where
  "proxy_card tag description content st =
     El ''article'' [] [El ''Card'' [(''size'', Val ''sm'')]
       [El ''CardHeader'' []
          [El ''CardTitle'' [] [text_el ''h2'' tag], text_el ''CardDescription'' description,
           El ''CardAction'' [] [button_view [(''variant'', Val ''outline''), (''size'', Val ''xs'')] (tr ''common.edit'')]],
        El ''CardContent'' [] content,
        El ''CardFooter'' []
          [confirmAction_view (button_view [(''variant'', Val ''destructive''), (''size'', Val ''xs'')] (tr ''common.delete''))
             (tr ''proxy.deleteTitle'') (tr1 ''proxy.deleteDescription'' ''tag'' tag) (tr ''proxy.confirmDelete'') ''destructive'' st]]]"

fun commas :: "string list \<Rightarrow> string" where
  "commas [] = []"
| "commas [x] = x"
| "commas (x # y # xs) = x @ '', '' @ commas (y # xs)"

definition outboundCard_view :: "confirm_action \<Rightarrow> jobj \<Rightarrow> view" where
  "outboundCard_view st item =
     (let card = outboundCard item
      in proxy_card (card_label (oc_tag card))
           (case oc_server card of None \<Rightarrow> tr ''proxy.outbound.groupOutbound''
            | Some (server, port) \<Rightarrow>
                Cat (card_label server # (case port of None \<Rightarrow> [] | Some p \<Rightarrow> [Str '':'', card_label p])))
           ([El ''div'' []
               ([badge_view None (card_label (oc_type card))]
                @ when_view (oc_tls card) (badge_view (Some ''secondary'') (Str ''TLS''))
                @ option_view (\<lambda>transport. badge_view (Some ''outline'') (Str transport))
                    (case oc_transport card of Some [] \<Rightarrow> None | t \<Rightarrow> t))]
            @ when_view (length (oc_members card) > 0)
                (text_el ''p'' (tr1 ''proxy.outbound.members'' ''members'' (Str (commas (oc_members card)))))
            @ option_view (\<lambda>detour. text_el ''p'' (tr1 ''proxy.outbound.detourSummary'' ''detour'' (card_label detour))) (oc_detour card))
           st)"

definition inboundCard_view :: "confirm_action \<Rightarrow> jobj \<Rightarrow> view" where
  "inboundCard_view st item =
     (let card = inboundCard item
      in proxy_card (card_label (ic_tag card)) (card_label (ic_address card))
           [El ''div'' []
             (badge_view None (card_label (ic_type card))
              # option_view (\<lambda>port. badge_view (Some ''secondary'') (Cat [tr ''proxy.inbound.listenPort'', Str '': '', card_label port])) (ic_port card))]
           st)"

lemma proxy_cards_translated [simp]:
  "label_known (card_label t)"
  "translated (proxy_card tag description content st) = (label_known tag \<and> label_known description \<and> list_all translated content)"
  "translated (outboundCard_view st item)" "translated (inboundCard_view st item)"
proof -
  show label [simp]: "label_known (card_label t)" for t by (simp add: card_label_def split: option.split)
  show card [simp]: "translated (proxy_card tag description content st) = (label_known tag \<and> label_known description \<and> list_all translated content)"
    for tag description content st by (auto simp: proxy_card_def)
  show "translated (outboundCard_view st item)" "translated (inboundCard_view st item)"
    by (auto simp: outboundCard_view_def inboundCard_view_def Let_def split: option.splits prod.splits list.splits)
qed

subsection \<open>The lists\<close>

text \<open>
  The cards of the items, in a grid; \<open>confirms\<close> gives the confirmation of the card at a position. The
  keys React gets are the tag and the position.
\<close>

definition inboundCards_view :: "(nat \<Rightarrow> confirm_action) \<Rightarrow> jobj list \<Rightarrow> view" where
  "inboundCards_view confirms items = El ''div'' [] (map (\<lambda>(index, item). inboundCard_view (confirms index) item) (enumerate 0 items))"

definition proxy_cardSection :: "string \<Rightarrow> view list \<Rightarrow> view" where
  "proxy_cardSection key cards =
     El ''section'' [] [El ''div'' [] [text_el ''h2'' (tr key), text_el ''p'' (tr ''proxy.description'')], El ''div'' [] cards]"

definition loadFailed_view :: "string \<Rightarrow> view" where
  "loadFailed_view message = alert_view True (tr ''common.loadFailed'') (Str message)"

text \<open>Both queries must have answered; when both failed, the message is that of the subscriptions.\<close>

definition outboundCards_view ::
  "subscription list query_result \<Rightarrow> outbound_group list query_result \<Rightarrow> (string \<Rightarrow> group_test) \<Rightarrow> (nat \<Rightarrow> confirm_action) \<Rightarrow> jobj list \<Rightarrow> view" where
  "outboundCards_view subscriptions runtime tests confirms items =
     (case (subscriptions, runtime) of
        (Loading, _) \<Rightarrow> El ''Skeleton'' [] []
      | (_, Loading) \<Rightarrow> El ''Skeleton'' [] []
      | (Failed message, _) \<Rightarrow> loadFailed_view message
      | (_, Failed message) \<Rightarrow> loadFailed_view message
      | (Loaded subs, Loaded running) \<Rightarrow>
          (let independent = independent_outbounds subs items; groups = subscription_groups subs running items
           in El ''div'' []
                (when_view (length groups > 0) (proxy_cardSection ''proxy.outbound.group'' (map (\<lambda>g. runtimeGroupCard_view g (tests (og_tag g))) groups))
                 @ when_view (length independent > 0)
                     (proxy_cardSection ''proxy.outbound.protocol'' (map (\<lambda>(index, item). outboundCard_view (confirms index) item) independent)))))"

subsection \<open>The pages\<close>

record proxy_page =
  pp_config :: "jobj query_result"
  pp_subscriptions :: "subscription list query_result"
  pp_runtime :: "outbound_group list query_result"
  pp_tests :: "string \<Rightarrow> group_test"
  pp_confirms :: "nat \<Rightarrow> confirm_action"
  pp_editing :: "(nat option \<times> jobj) option"
  pp_dialog :: proxy_dialog

definition proxy_emptyCard :: "label \<Rightarrow> label \<Rightarrow> view" where
  "proxy_emptyCard title addLabel =
     El ''Card'' []
       [El ''CardHeader'' [] [text_el ''CardTitle'' (Cat [title, tr ''proxy.listSuffix'']), text_el ''CardDescription'' (tr ''proxy.description'')],
        El ''CardContent'' [] [El ''Empty'' []
          [El ''EmptyHeader'' [] [text_el ''EmptyTitle'' (tr ''proxy.empty''), text_el ''EmptyDescription'' (tr ''proxy.emptyDescription'')],
           El ''EmptyContent'' [] [button_view [] addLabel]]]]"

definition proxy_dialogTitle :: "label \<Rightarrow> nat option \<Rightarrow> jobj \<Rightarrow> label" where
  "proxy_dialogTitle addLabel index item =
     (case index of None \<Rightarrow> addLabel
      | Some _ \<Rightarrow> Cat [tr ''proxy.editPrefix'', Str '' '', Str (string_or (obj_get item ''tag'') [])])"

definition proxyListPage_view :: "string \<Rightarrow> label \<Rightarrow> label \<Rightarrow> proxy_env \<Rightarrow> proxy_page \<Rightarrow> view res" where
  "proxyListPage_view configKey title addLabel env page =
     (case pp_config page of
        Loading \<Rightarrow> Inr (El ''Skeleton'' [] [])
      | Failed message \<Rightarrow> Inr (loadFailed_view message)
      | Loaded config \<Rightarrow>
          (let items = proxy_items config configKey
           in bind_res (case pp_editing page of None \<Rightarrow> Inr []
                | Some (index, item) \<Rightarrow>
                    bind_res (proxyEditorDialog_view env (Some config) (pp_dialog page) (proxy_dialogTitle addLabel index item) configKey) (\<lambda>v. Inr [v]))
              (\<lambda>dialog.
              Inr (El ''div'' []
                ([El ''div'' [] [text_el ''h1'' title,
                    El ''div'' []
                      (when_view (configKey = ''outbounds'') (button_view [(''variant'', Val ''outline'')] (tr ''proxy.installDefaults''))
                       @ [button_view [] addLabel])],
                  (if length items > 0
                   then if configKey = ''inbounds'' then inboundCards_view (pp_confirms page) items
                     else outboundCards_view (pp_subscriptions page) (pp_runtime page) (pp_tests page) (pp_confirms page) items
                   else proxy_emptyCard title addLabel)]
                 @ dialog)))))"

definition inboundsPage_view :: "proxy_env \<Rightarrow> proxy_page \<Rightarrow> view res" where
  "inboundsPage_view env page = proxyListPage_view ''inbounds'' (tr ''pages.inbounds'') (tr ''proxy.addInbound'') env page"

definition outboundsPage_view :: "proxy_env \<Rightarrow> proxy_page \<Rightarrow> view res" where
  "outboundsPage_view env page = proxyListPage_view ''outbounds'' (tr ''pages.outbounds'') (tr ''proxy.addOutbound'') env page"

lemma proxy_lists_translated [simp]:
  "translated (loadFailed_view message)"
  "translated (inboundCards_view confirms items)"
  "translated (proxy_cardSection key cards) = (known_text key [] \<and> list_all translated cards)"
  "translated (outboundCards_view subscriptions runtime tests confirms items)"
  "translated (proxy_emptyCard title addLabel) = (label_known title \<and> label_known addLabel)"
  "label_known (proxy_dialogTitle addLabel index item) = (index = None \<longrightarrow> label_known addLabel)"
proof -
  show [simp]: "translated (loadFailed_view message)" for message by (simp add: loadFailed_view_def)
  show "translated (inboundCards_view confirms items)" by (auto simp: inboundCards_view_def split: prod.split)
  show [simp]: "translated (proxy_cardSection key cards) = (known_text key [] \<and> list_all translated cards)" for key cards
    by (auto simp: proxy_cardSection_def)
  show "translated (outboundCards_view subscriptions runtime tests confirms items)"
    by (auto simp: outboundCards_view_def Let_def split: query_result.split prod.split)
  show "translated (proxy_emptyCard title addLabel) = (label_known title \<and> label_known addLabel)" by (auto simp: proxy_emptyCard_def)
  show "label_known (proxy_dialogTitle addLabel index item) = (index = None \<longrightarrow> label_known addLabel)"
    by (auto simp: proxy_dialogTitle_def split: option.split)
qed

subsection \<open>The fields of the tabs have texts\<close>

lemma outbound_tables_known:
  "list_all (proxy_field_known False) outbound_dialerFields"
  "list_all (proxy_field_known False) outboundTLSFields"
  "list_all (proxy_field_known False) outboundMultiplexFields"
  "list_all (proxy_field_known False) outbound_transportBase"
  "registry_all (proxy_field_known False) outbound_protocolMap"
  "registry_all (proxy_field_known False) outbound_groupMap"
  "registry_all (proxy_field_known False) outbound_transportMap"
  by (simp_all add: registry_all_def outbound_dialerFields_def outboundTLSFields_def outboundMultiplexFields_def outbound_transportBase_def
      outbound_protocolMap_def outbound_groupMap_def outbound_transportMap_def outbound_network_def outbound_udpOverTCP_def
      proxy_field_known_def proxy_control_texts_def in_namespace_def)

lemma inbound_tables_known:
  "list_all (proxy_field_known True) listenFields"
  "list_all (proxy_field_known True) tunFields"
  "list_all (proxy_field_known True) inbound_tlsFields"
  "list_all (proxy_field_known True) inbound_transportFields"
  "list_all (proxy_field_known True) inbound_multiplexFields"
  "registry_all (proxy_field_known True) inbound_protocolMap"
  "registry_all (proxy_field_known True) inbound_transportByType"
  by (simp_all add: registry_all_def listenFields_def tunFields_def inbound_tlsFields_def inbound_transportFields_def
      inbound_multiplexFields_def inbound_protocolMap_def inbound_transportByType_def inbound_network_def
      proxy_field_known_def proxy_control_texts_def in_namespace_def)

lemma outbound_tabFields_known:
  "outbound_tabFields type transportType tab = Inr fs \<Longrightarrow> list_all (proxy_field_known False) fs"
  using outbound_tables_known
  by (cases tab)
    (auto simp: groupFields_def outbound_protocolFields_def outbound_transportTypeFields_def bind_res_eq_Inr list_all_iff
      dest!: registry_all_get [OF outbound_tables_known(5)] registry_all_get [OF outbound_tables_known(6)]
        registry_all_get [OF outbound_tables_known(7)] split: if_splits)

lemma inbound_tabFields_known:
  "inbound_tabFields type transportType tab = Inr fs \<Longrightarrow> list_all (proxy_field_known True) fs"
  using inbound_tables_known
  by (cases tab)
    (auto simp: inbound_protocolFields_def inbound_transportTypeFields_def bind_res_eq_Inr list_all_iff
      dest!: registry_all_get [OF inbound_tables_known(6)] registry_all_get [OF inbound_tables_known(7)]
      dest: in_set_takeD in_set_dropD split: if_splits)

lemma list_parts_known:
  "list_all P xs \<Longrightarrow> list_all P (take n xs)" "list_all P xs \<Longrightarrow> list_all P (drop n xs)"
  by (auto simp: list_all_iff dest: in_set_takeD in_set_dropD)

subsection \<open>The texts of the dialogs and pages\<close>

lemma plain_env_exists [simp]: "pv_exists (plain_env env) = pv_exists env"
  by (simp add: plain_env_def)

lemma base_fields_translated:
  "translated (outbound_baseFields_view ob)" "translated managedGroupAlert_view"
  "exists_sound (pv_exists env) \<Longrightarrow> translated (inbound_baseFields_view env ob)"
  using inbound_tables_known
  by (auto simp: outbound_baseFields_view_def inbound_baseFields_view_def managedGroupAlert_view_def Let_def
      intro!: page_forms_translated list_parts_known)

lemma groupFields_translated:
  assumes "exists_sound (pv_exists env)" and "groupFields_view env outbounds type ob = Inr v"
  shows "translated v"
  using assms
  by (auto simp: groupFields_view_def Let_def bind_res_eq_Inr simp del: outbound_tabFields.simps dest!: outbound_tabFields_known intro!: page_forms_translated)

lemma outbound_formTabs_translated:
  assumes sound: "exists_sound (pv_exists env)" and title: "label_known title"
    and view: "outbound_formTabs_view env config st title ob = Inr v"
  shows "translated v"
  using view title sound outbound_tables_known
  by (auto simp: outbound_formTabs_view_def Let_def bind_res_eq_Inr base_fields_translated simp del: outbound_tabFields.simps
      dest!: outbound_tabFields_known groupFields_translated [OF sound] intro!: page_forms_translated split: if_splits)

lemma inbound_formTabs_translated:
  assumes sound: "exists_sound (pv_exists env)" and title: "label_known title"
    and view: "inbound_formTabs_view env config st title ob = Inr v"
  shows "translated v"
  using view title sound inbound_tables_known
  by (auto simp: inbound_formTabs_view_def Let_def bind_res_eq_Inr base_fields_translated(3) [OF sound] simp del: inbound_tabFields.simps
      dest!: inbound_tabFields_known intro!: page_forms_translated list_parts_known split: if_splits)

lemma proxyEditorDialog_translated:
  assumes sound: "exists_sound (pv_exists env)" and title: "label_known title"
    and view: "proxyEditorDialog_view env config st title kind = Inr v"
  shows "translated v"
  using view title
  by (auto simp: proxyEditorDialog_view_def inboundEditorDialog_view_def outboundEditorDialog_view_def
      elim!: proxyDialog_translated dest: outbound_formTabs_translated [OF sound title] inbound_formTabs_translated [OF sound title]
      split: if_splits)

lemma proxyListPage_translated:
  assumes sound: "exists_sound (pv_exists env)" and texts: "label_known title" "label_known addLabel"
    and view: "proxyListPage_view configKey title addLabel env page = Inr v"
  shows "translated v"
  using view texts
  by (auto simp: proxyListPage_view_def Let_def bind_res_eq_Inr dest!: proxyEditorDialog_translated [OF sound, rotated]
      split: query_result.splits option.splits)

lemma proxyPages_translated:
  assumes "exists_sound (pv_exists env)"
  shows "inboundsPage_view env page = Inr v \<Longrightarrow> translated v" and "outboundsPage_view env page = Inr v \<Longrightarrow> translated v"
  by (auto simp: inboundsPage_view_def outboundsPage_view_def elim!: proxyListPage_translated [OF assms, rotated 2])


definition example_proxy_env :: proxy_env where
  "example_proxy_env =
     \<lparr>pv_inbound = True, pv_exists = (\<lambda>_. False), pv_revision = 0, pv_context = None, pv_interfaces = [],
      pv_listens = (\<lambda>_. interface_init 0 [] []), pv_modes = (\<lambda>_. interface_init 0 [] []), pv_drafts = (\<lambda>_. structured_init 0 None)\<rparr>"

definition example_proxy_page :: "(nat option \<times> jobj) option \<Rightarrow> proxy_page" where
  "example_proxy_page editing =
     \<lparr>pp_config = Loaded [(''inbounds'', JArr [JObj [(''type'', JStr ''tun'')]])], pp_subscriptions = Loading, pp_runtime = Failed ''offline'',
      pp_tests = (\<lambda>_. gt_init), pp_confirms = (\<lambda>_. ca_init), pp_editing = editing, pp_dialog = pd_init []\<rparr>"


end
