(* ===== verification/Live_Page_Views.thy ===== *)
theory Live_Page_Views
  imports Charts Runtime_Groups Proxy_Views
begin

text \<open>
  What the live pages show: the dashboard, \<open>features/dashboard\<close>, and the connections and logs, \<open>features/observability\<close>, over the
  states of \<open>Live_Views\<close>. \<open>parse\<close> gives the time of a date and \<open>print\<close> prints it.
\<close>

subsection \<open>Tables and empty lists\<close>

definition head_cells :: "string list \<Rightarrow> view" where
  "head_cells keys = El ''TableHeader'' [] [El ''TableRow'' [] (map (\<lambda>k. text_el ''TableHead'' (tr k)) keys)]"

definition empty_view :: "string \<Rightarrow> string \<Rightarrow> view" where
  "empty_view title description =
     El ''Empty'' [] [El ''EmptyHeader'' [] [text_el ''EmptyTitle'' (tr title), text_el ''EmptyDescription'' (tr description)]]"

text \<open>A date, or the dash of the panel.\<close>

definition date_label :: "(string \<Rightarrow> jsnum) \<Rightarrow> (jsnum \<Rightarrow> string) \<Rightarrow> string option \<Rightarrow> label" where
  "date_label parse print timestamp =
     (case timestamp of None \<Rightarrow> em_dash | Some s \<Rightarrow> if s = [] \<or> parse s = NaN then em_dash else Str (print (parse s)))"

definition log_row :: "(string \<Rightarrow> jsnum) \<Rightarrow> (jsnum \<Rightarrow> string) \<Rightarrow> nat \<Rightarrow> log_event \<Rightarrow> view" where
  "log_row parse print index item =
     El ''TableRow'' [(''key'', Val ((case le_timestamp item of Some s \<Rightarrow> s | None \<Rightarrow> ''undefined'') @ ''-'' @ le_level item @ ''-'' @ digits_of (int index)))]
       [El ''TableCell'' [] [El ''time''
          (case le_timestamp item of Some s \<Rightarrow> if s = [] then [] else [(''dateTime'', Val s)] | None \<Rightarrow> []) [Txt (date_label parse print (le_timestamp item))]],
        El ''TableCell'' [] [El ''Badge'' [(''variant'', Val (if le_level item = ''error'' then ''destructive'' else ''secondary''))] [Txt (Str (le_level item))]],
        text_el ''TableCell'' (Str (le_message item))]"

definition log_table :: "(string \<Rightarrow> jsnum) \<Rightarrow> (jsnum \<Rightarrow> string) \<Rightarrow> log_event list \<Rightarrow> view" where
  "log_table parse print items =
     El ''Table'' [] [head_cells [''observability.time'', ''dashboard.level'', ''dashboard.message''],
       El ''TableBody'' [] (map (\<lambda>(index, item). log_row parse print index item) (enumerate 0 items))]"

lemma live_parts_translated [simp]:
  "translated (head_cells keys) = list_all (\<lambda>k. known_text k []) keys"
  "translated (empty_view title description) = (known_text title [] \<and> known_text description [])"
  "label_known (date_label parse print timestamp)"
  "translated (log_row parse print index item)"
  "translated (log_table parse print items)"
proof -
  show date [simp]: "label_known (date_label parse print timestamp)" for timestamp by (simp add: date_label_def split: option.split)
  show [simp]: "translated (head_cells keys) = list_all (\<lambda>k. known_text k []) keys" for keys by (simp add: head_cells_def list_all_iff)
  show "translated (empty_view title description) = (known_text title [] \<and> known_text description [])" by (simp add: empty_view_def)
  show row [simp]: "translated (log_row parse print index item)" for index item by (simp add: log_row_def split: option.split)
  show "translated (log_table parse print items)" by (auto simp: log_table_def split: prod.split)
qed

subsection \<open>The dashboard\<close>

definition actionButton_view :: "(service_action \<Rightarrow> confirm_action) \<Rightarrow> bool \<Rightarrow> string \<Rightarrow> service_action \<Rightarrow> view" where
  "actionButton_view confirms running pending action =
     (let button = El ''Button''
            [(''variant'', Val (if action = Stop then ''destructive'' else ''outline'')), (''size'', Val ''sm''), (''disabled'', Flag (action_disabled running pending action))]
            (when_view (pending = action_name action) (El ''Spinner'' [(''aria-hidden'', Val ''true'')] [])
             @ [Txt (tr (case action of Start \<Rightarrow> ''dashboard.start'' | Stop \<Rightarrow> ''dashboard.stop'' | Restart \<Rightarrow> ''dashboard.restart''))])
      in if action = Start then button
         else confirmAction_view button (tr ''dashboard.confirmActionTitle'') (tr ''dashboard.confirmActionDescription'') (tr ''dashboard.confirmAction'')
           (if action = Stop then ''destructive'' else ''default'') (confirms action))"

definition serviceCard_view :: "(service_action \<Rightarrow> confirm_action) \<Rightarrow> bool \<Rightarrow> string \<Rightarrow> string \<Rightarrow> view" where
  "serviceCard_view confirms running uptime pending =
     El ''Card'' []
       [El ''CardHeader'' [] [text_el ''CardTitle'' (tr ''dashboard.service''), text_el ''CardDescription'' (tr ''dashboard.serviceDescription'')],
        El ''CardContent'' []
          [El ''Badge'' [(''variant'', Val (if running then ''default'' else ''secondary''))] [Txt (tr (if running then ''dashboard.running'' else ''dashboard.stopped''))],
           text_el ''span'' (if uptime = [] then em_dash else Str uptime)],
        El ''CardFooter'' [] (map (actionButton_view confirms running pending) [Start, Stop, Restart])]"

definition runtimeActions_view :: "bool \<Rightarrow> view" where
  "runtimeActions_view pending =
     (let button = button_view [(''variant'', Val ''outline''), (''size'', Val ''sm''), (''disabled'', Flag pending)]
      in El ''Card'' []
           [El ''CardHeader'' [] [text_el ''CardTitle'' (tr ''dashboard.maintenance''), text_el ''CardDescription'' (tr ''dashboard.maintenanceDescription'')],
            El ''CardContent'' [] [],
            El ''CardFooter'' [] [button (Str ''GC''), button (tr ''dashboard.flushDNS''), button (tr ''dashboard.flushFakeIP'')]])"

definition recentLogs_view :: "(string \<Rightarrow> jsnum) \<Rightarrow> (jsnum \<Rightarrow> string) \<Rightarrow> preferences \<Rightarrow> log_event list \<Rightarrow> view" where
  "recentLogs_view parse print p items =
     (let visible = recentLogs_visible p items
      in El ''Card'' []
           [El ''CardHeader'' [] [text_el ''CardTitle'' (tr ''dashboard.recentLogs''), text_el ''CardDescription'' (tr ''dashboard.recentLogsDescription'')],
            El ''CardContent'' []
              [if length visible = 0 then empty_view ''dashboard.noLogs'' ''dashboard.logsWaiting'' else log_table parse print visible]])"

text \<open>The four queries, each loading, failed or loaded.\<close>

record dashboard =
  da_status :: "(bool \<times> string) query_result"
  da_history :: "traffic_point list option query_result"
  da_memory :: "jsnum query_result"
  da_version :: "string query_result"
  da_traffic :: "traffic_point stream_buffer"
  da_logs :: "log_event stream_buffer"
  da_pending :: string
  da_maintaining :: bool
  da_mode :: string
  da_confirms :: "service_action \<Rightarrow> confirm_action"

definition failure_of :: "'a query_result \<Rightarrow> string list" where
  "failure_of a = (case a of Failed m \<Rightarrow> [m] | _ \<Rightarrow> [])"

definition figure_card :: "string \<Rightarrow> string \<Rightarrow> string \<Rightarrow> view" where
  "figure_card title description figure =
     El ''Card'' []
       [El ''CardHeader'' [] [text_el ''CardTitle'' (tr title), text_el ''CardDescription'' (tr description)],
        El ''CardContent'' [] [text_el ''p'' (Str figure)]]"

definition dashboardPage_view :: "(string \<Rightarrow> jsnum) \<Rightarrow> (jsnum \<Rightarrow> string) \<Rightarrow> string \<Rightarrow> string \<Rightarrow> preferences \<Rightarrow> dashboard \<Rightarrow> view" where
  "dashboardPage_view parse print rateId totalId p d =
     (let heading = text_el ''h1'' (tr ''pages.dashboard'')
      in case (da_status d, da_history d, da_memory d, da_version d) of
           (Loaded (running, uptime), Loaded history, Loaded memory, Loaded version) \<Rightarrow>
             El ''div'' [] [heading, El ''div'' []
               [serviceCard_view (da_confirms d) running uptime (da_pending d),
                figure_card ''dashboard.memory'' ''dashboard.memoryDescription'' (formatBytes memory),
                figure_card ''dashboard.version'' ''dashboard.versionDescription'' version,
                trafficChart_view rateId totalId parse (da_mode d) (dashboard_points history (sb_items (da_traffic d))),
                runtimeActions_view (da_maintaining d),
                recentLogs_view parse print p (sb_items (da_logs d))]]
         | _ \<Rightarrow>
             if da_status d = Loading \<or> da_history d = Loading \<or> da_memory d = Loading \<or> da_version d = Loading
             then El ''div'' [] [heading, El ''Skeleton'' [] []]
             else El ''div'' [] [heading, alert_view True (tr ''dashboard.loadFailed'')
               (Str (hd (failure_of (da_status d) @ failure_of (da_history d) @ failure_of (da_memory d) @ failure_of (da_version d))))])"

subsection \<open>Connections\<close>

record connection =
  cn_id :: string
  cn_target :: string
  cn_outbound :: string
  cn_upload :: jsnum
  cn_download :: jsnum
  cn_start :: string

record connection_event =
  ce_active :: jsnum
  ce_list :: "connection list option"

definition duration_label :: "(string \<Rightarrow> jsnum) \<Rightarrow> jsnum \<Rightarrow> string \<Rightarrow> label" where
  "duration_label parse now start = (if \<not> num_isFinite (parse start) then em_dash else Str (formatDuration parse now [] start))"

definition connection_row :: "(string \<Rightarrow> jsnum) \<Rightarrow> jsnum \<Rightarrow> closing option \<Rightarrow> connection \<Rightarrow> view" where
  "connection_row parse now closingId c =
     El ''TableRow'' [(''key'', Val (cn_id c))]
       [text_el ''TableCell'' (Str (cn_target c)), text_el ''TableCell'' (Str (cn_outbound c)),
        text_el ''TableCell'' (Str (formatBytes (cn_upload c))), text_el ''TableCell'' (Str (formatBytes (cn_download c))),
        text_el ''TableCell'' (duration_label parse now (cn_start c)),
        El ''TableCell'' [] [button_view [(''size'', Val ''sm''), (''variant'', Val ''destructive''), (''disabled'', Flag (closingId \<noteq> None))] (tr ''observability.close'')]]"

definition connectionsPage_view ::
  "(string \<Rightarrow> jsnum) \<Rightarrow> jsnum \<Rightarrow> connection_event stream_buffer \<Rightarrow> closing option \<Rightarrow> confirm_action \<Rightarrow> view" where
  "connectionsPage_view parse now st closingId confirm =
     (let snapshot = latest_snapshot st;
          connections = (case Option.bind snapshot ce_list of Some cs \<Rightarrow> cs | None \<Rightarrow> []);
          active = (case snapshot of Some e \<Rightarrow> ce_active e | None \<Rightarrow> Fin 0)
      in El ''div'' []
           ([El ''div'' [] [text_el ''h1'' (tr ''observability.connections''),
               confirmAction_view
                 (button_view [(''variant'', Val ''destructive''), (''disabled'', Flag (closingId \<noteq> None))] (tr ''observability.closeAll''))
                 (tr ''observability.closeAllTitle'') (tr ''observability.closeAllDescription'') (tr ''observability.confirmClose'') ''destructive'' confirm]]
            @ when_view (sb_error st \<noteq> []) (alert_view True (tr ''observability.streamError'') (Str (sb_error st)))
            @ [El ''Card'' []
                [El ''CardHeader'' []
                   [El ''CardTitle'' [] [Txt (tr ''observability.liveConnections''), Txt (Str '' ''),
                      El ''Badge'' [(''variant'', Val ''secondary'')] [Txt (Str (number_to_string active))]],
                    text_el ''CardDescription'' (tr ''observability.connectionsDescription'')],
                 El ''CardContent'' []
                   [if length connections = 0 then empty_view ''observability.noConnections'' ''observability.noConnectionsDescription''
                    else El ''Table'' []
                      [head_cells [''observability.target'', ''observability.outbound'', ''dashboard.upload'', ''dashboard.download'',
                         ''observability.duration'', ''common.actions''],
                       El ''TableBody'' [] (map (connection_row parse now closingId) connections)]]]]))"

subsection \<open>Logs\<close>

definition log_levels :: "(string option \<times> label) list" where
  "log_levels =
     [(Some ''all'', tr ''observability.allLevels''), (Some ''debug'', Str ''Debug''), (Some ''info'', Str ''Info''), (Some ''warn'', Str ''Warn''),
      (Some ''error'', Str ''Error'')]"

definition logFilters_view :: "string \<Rightarrow> log_threshold \<Rightarrow> view" where
  "logFilters_view pattern minimum =
     El ''FieldGroup'' []
       [El ''Field'' []
          [text_el ''FieldLabel'' (tr ''observability.searchLogs''),
           El ''Input'' [(''aria-label'', Lab (tr ''observability.searchLogs'')), (''placeholder'', Lab (tr ''observability.searchLogs'')), (''value'', Val pattern)] []],
        El ''Field'' []
          [text_el ''FieldLabel'' (tr ''observability.minimumLogLevel''),
           select_view [] (Some (name_of logThresholds minimum)) log_levels [(''aria-label'', Lab (tr ''observability.minimumLogLevel''))] log_levels,
           text_el ''FieldDescription'' (tr ''observability.minimumLogLevelDescription'')]]"

text \<open>A panel: its stream, the filter typed, and the level, which starts as the preferred one.\<close>

record log_panel =
  lp_stream :: "log_event stream_buffer"
  lp_filter :: string
  lp_minimum :: log_threshold

definition lp_init :: "preferences \<Rightarrow> log_panel" where
  "lp_init p = \<lparr>lp_stream = sb_init, lp_filter = [], lp_minimum = pr_minimumLogLevel p\<rparr>"

definition logPanel_view :: "(string \<Rightarrow> jsnum) \<Rightarrow> (jsnum \<Rightarrow> string) \<Rightarrow> label \<Rightarrow> log_panel \<Rightarrow> view" where
  "logPanel_view parse print title panel =
     (let st = lp_stream panel; items = logPanel_visible (lp_filter panel) (lp_minimum panel) (sb_items st)
      in El ''Card'' []
           [El ''CardHeader'' [] [text_el ''CardTitle'' title, text_el ''CardDescription'' (tr ''observability.logDescription'')],
            El ''CardContent'' []
              (when_view (sb_error st \<noteq> []) (alert_view True (tr ''observability.streamError'') (Str (sb_error st)))
               @ [logFilters_view (lp_filter panel) (lp_minimum panel),
                  El ''ScrollArea'' [] [if length items = 0 then empty_view ''observability.noLogs'' ''observability.waitLogs'' else log_table parse print items]]),
            El ''CardFooter'' []
              [button_view [(''variant'', Val ''outline'')] (tr (if sb_paused st then ''observability.resume'' else ''observability.pause'')),
               button_view [(''variant'', Val ''outline'')] (tr ''observability.clear'')]])"

definition logsPage_view :: "(string \<Rightarrow> jsnum) \<Rightarrow> (jsnum \<Rightarrow> string) \<Rightarrow> log_panel \<Rightarrow> log_panel \<Rightarrow> view" where
  "logsPage_view parse print kernelLogs appLogs =
     El ''div'' [] [text_el ''h1'' (tr ''observability.logs''),
       tabs_view ''kernel'' [(''kernel'', ''observability.kernelLogs''), (''application'', ''observability.appLogs'')]
         [tab_content ''kernel'' [logPanel_view parse print (tr ''observability.kernelLogs'') kernelLogs],
          tab_content ''application'' [logPanel_view parse print (tr ''observability.appLogs'') appLogs]]]"

subsection \<open>Lemmas\<close>

lemma dashboard_parts_translated [simp]:
  "translated (actionButton_view confirms running pending action)"
  "translated (serviceCard_view confirms running uptime pending)"
  "translated (runtimeActions_view busy)"
  "translated (recentLogs_view parse print p items)"
  "translated (figure_card title description figure) = (known_text title [] \<and> known_text description [])"
proof -
  show button [simp]: "translated (actionButton_view confirms running pending action)" for action
    by (cases action) (simp_all add: actionButton_view_def Let_def)
  show "translated (serviceCard_view confirms running uptime pending)" by (simp add: serviceCard_view_def)
  show "translated (runtimeActions_view busy)" unfolding runtimeActions_view_def Let_def by simp
  show "translated (recentLogs_view parse print p items)" by (simp add: recentLogs_view_def Let_def)
  show "translated (figure_card title description figure) = (known_text title [] \<and> known_text description [])" by (simp add: figure_card_def)
qed

lemma live_pages_translated:
  "translated (dashboardPage_view parse print rateId totalId p d)"
  "translated (connectionsPage_view parse now st closingId confirm)"
  "translated (logsPage_view parse print kernelLogs appLogs)"
proof -
  show "translated (dashboardPage_view parse print rateId totalId p d)"
    by (simp add: dashboardPage_view_def Let_def chart_translated split: query_result.split prod.split)
  show "translated (connectionsPage_view parse now st closingId confirm)"
    by (simp add: connectionsPage_view_def Let_def connection_row_def duration_label_def)
  have "items_known log_levels" by (simp add: log_levels_def)
  then have "translated (logPanel_view parse print title panel)" if "label_known title" for title panel
    using that by (simp add: logPanel_view_def logFilters_view_def Let_def)
  then show "translated (logsPage_view parse print kernelLogs appLogs)" by (simp add: logsPage_view_def)
qed

text \<open>The dates and durations printed are those of \<open>Live_Views\<close>, whose dash is one character here.\<close>

lemma date_label_format: "date_label parse print timestamp = Str s \<Longrightarrow> formatLogTimestamp parse print dash timestamp = s"
  by (auto simp: date_label_def formatLogTimestamp_def em_dash_def split: option.splits if_splits)

text \<open>Which service buttons are disabled is what \<open>action_disabled\<close> says, on the button shown.\<close>

lemma service_buttons_disabled:
  "disabled_of ''Button'' (tr ''dashboard.stop'') (serviceCard_view confirms running uptime pending) = [action_disabled running pending Stop]"
  "disabled_of ''Button'' (tr ''dashboard.start'') (serviceCard_view confirms running uptime pending) = [action_disabled running pending Start]"
  "disabled_of ''Button'' (tr ''dashboard.restart'') (serviceCard_view confirms running uptime pending) = [action_disabled running pending Restart]"
  by (simp_all add: serviceCard_view_def actionButton_view_def disabled_of_def says_def flagged_def Let_def confirmAction_view_def when_view_def
      text_el_def tr_def)

end
