(* ===== verification/Settings_Views.thy ===== *)
theory Settings_Views
  imports Live_Page_Views Settings
begin

text \<open>
  What the settings show: \<open>features/settings\<close> and the URL field of \<open>components/probe-url-field.tsx\<close>, over the states of \<open>Settings\<close>
  and \<open>Subscriptions\<close>.
\<close>

subsection \<open>The URL field\<close>

record probe_look =
  pk_manualLabel :: "label option"
  pk_description :: "label option"
  pk_placeholder :: "string option"
  pk_disabled :: bool
  pk_invalid :: bool
  pk_emptyLabel :: "label option"

definition probe_plain :: probe_look where
  "probe_plain = \<lparr>pk_manualLabel = None, pk_description = None, pk_placeholder = None, pk_disabled = False, pk_invalid = False, pk_emptyLabel = None\<rparr>"

definition or_label :: "label option \<Rightarrow> label \<Rightarrow> label" where
  "or_label l d = (case l of Some x \<Rightarrow> x | None \<Rightarrow> d)"

definition probe_choices :: "bool \<Rightarrow> probe_look \<Rightarrow> (string option \<times> label) list" where
  "probe_choices allowEmpty look =
     (if allowEmpty then [(Some ''unset'', or_label (pk_emptyLabel look) (tr ''common.notSet''))] else [])
     @ map (\<lambda>preset. (Some preset, Str preset)) SPEED_TEST_URL_PRESETS @ [(Some ''manual'', tr ''settings.testURLManual'')]"

definition probeURLField_view :: "string \<Rightarrow> label \<Rightarrow> bool \<Rightarrow> probe_look \<Rightarrow> probe_field \<Rightarrow> view" where
  "probeURLField_view ident l allowEmpty look st =
     (let items = probe_choices allowEmpty look
      in El ''Field'' [(''data-invalid'', Flag (pk_invalid look))]
           ([El ''FieldLabel'' [(''htmlFor'', Val ident)] [Txt l],
             El ''div'' []
               (select_view [(''disabled'', Flag (pk_disabled look))] (Some (pb_mode st)) items
                  [(''id'', Val ident), (''aria-label'', Lab l), (''aria-invalid'', Flag (pk_invalid look)), (''disabled'', Flag (pk_disabled look))] items
                # (case probe_inputText st of None \<Rightarrow> []
                   | Some value \<Rightarrow> [El ''Input''
                       [(''id'', Val (ident @ ''-manual'')), (''aria-label'', Lab (or_label (pk_manualLabel look) (tr ''settings.testURLManualInput''))),
                        (''aria-invalid'', Flag (pk_invalid look)), (''disabled'', Flag (pk_disabled look)), (''value'', Val value),
                        (''placeholder'', Lab (case pk_placeholder look of Some p \<Rightarrow> Str p | None \<Rightarrow> tr ''settings.testURLManualPlaceholder''))] []]))]
            @ option_view (text_el ''FieldDescription'') (pk_description look)))"

definition look_known :: "probe_look \<Rightarrow> bool" where
  "look_known look \<longleftrightarrow> pred_option label_known (pk_manualLabel look) \<and> pred_option label_known (pk_description look)
     \<and> pred_option label_known (pk_emptyLabel look)"

lemma or_label_known: "pred_option label_known l \<Longrightarrow> label_known d \<Longrightarrow> label_known (or_label l d)"
  by (cases l) (simp_all add: or_label_def)

lemma probe_choices_known: "look_known look \<Longrightarrow> items_known (probe_choices allowEmpty look)"
  by (simp add: probe_choices_def look_known_def or_label_known list_all_iff)

lemma probeURLField_translated:
  assumes "label_known l" and "look_known look"
  shows "translated (probeURLField_view ident l allowEmpty look st)"
  using assms probe_choices_known [OF assms(2)]
  by (auto simp: probeURLField_view_def Let_def look_known_def or_label_known split: option.splits)

subsection \<open>Toggles\<close>

definition toggle_item :: "string \<times> label \<Rightarrow> view" where
  "toggle_item item = El ''ToggleGroupItem'' [(''value'', Val (fst item))] [Txt (snd item)]"

definition toggle_group :: "string \<Rightarrow> string \<Rightarrow> (string \<times> label) list \<Rightarrow> view" where
  "toggle_group labelledBy value items =
     El ''ToggleGroup'' [(''aria-labelledby'', Val labelledBy), (''value'', Val value)] (map toggle_item items)"

definition toggle_field :: "string \<Rightarrow> string \<Rightarrow> string \<Rightarrow> (string \<times> label) list \<Rightarrow> view" where
  "toggle_field ident key value items =
     El ''Field'' [(''orientation'', Val ''responsive'')] [El ''FieldTitle'' [(''id'', Val ident)] [Txt (tr key)], toggle_group ident value items]"

lemma toggles_translated [simp]:
  "translated (toggle_group labelledBy value items) = list_all (\<lambda>i. label_known (snd i)) items"
  "translated (toggle_field ident key value items) = (known_text key [] \<and> list_all (\<lambda>i. label_known (snd i)) items)"
  by (simp_all add: toggle_group_def toggle_field_def toggle_item_def list_all_iff)

subsection \<open>The cards of the settings\<close>

definition log_level_toggles :: "(string \<times> label) list" where
  "log_level_toggles = [(''all'', tr ''observability.allLevels''), (''debug'', Str ''Debug''), (''info'', Str ''Info''), (''warn'', Str ''Warn''), (''error'', Str ''Error'')]"

definition appearanceCard_view :: "preferences \<Rightarrow> view" where
  "appearanceCard_view p =
     El ''Card'' []
       [El ''CardHeader'' [] [text_el ''CardTitle'' (tr ''settings.appearanceTitle''), text_el ''CardDescription'' (tr ''settings.appearanceDescription'')],
        El ''CardContent'' [] [El ''FieldGroup'' []
          [toggle_field ''theme-label'' ''settings.theme'' (name_of themes (pr_theme p))
             [(''light'', tr ''settings.light''), (''dark'', tr ''settings.dark''), (''system'', tr ''settings.system'')],
           toggle_field ''language-label'' ''settings.language'' (name_of languages (pr_language p))
             [(''zh'', Cat [Sym 20013, Sym 25991]), (''en'', Str ''English'')],
           El ''Field'' [(''orientation'', Val ''responsive'')]
             [El ''FieldContent'' []
                [El ''FieldTitle'' [(''id'', Val ''minimum-log-level-label'')] [Txt (tr ''settings.minimumLogLevel'')],
                 text_el ''FieldDescription'' (tr ''settings.minimumLogLevelDescription'')],
              toggle_group ''minimum-log-level-label'' (name_of logThresholds (pr_minimumLogLevel p)) log_level_toggles]]]]"

definition secret_field :: "string \<Rightarrow> string \<Rightarrow> (string \<times> attr) list \<Rightarrow> string \<Rightarrow> view list \<Rightarrow> view" where
  "secret_field ident key attrs value rest =
     El ''Field'' []
       ([El ''FieldLabel'' [(''htmlFor'', Val ident)] [Txt (tr key)],
         El ''Input'' ([(''id'', Val ident), (''type'', Val ''password'')] @ attrs @ [(''value'', Val value)]) []] @ rest)"

text \<open>The hint of the secret is its mask and its length.\<close>

definition accountCard_view :: "bool \<Rightarrow> string \<times> nat \<Rightarrow> account_card \<Rightarrow> view" where
  "accountCard_view defaultPassword jwt st =
     El ''Card'' []
       [El ''CardHeader'' [] [text_el ''CardTitle'' (tr ''settings.accountTitle''), text_el ''CardDescription'' (tr ''settings.accountDescription'')],
        El ''CardContent'' []
          (when_view defaultPassword (text_el ''p'' (tr ''settings.defaultPasswordDescription''))
           @ [El ''FieldGroup'' []
                [secret_field ''current-password'' ''settings.currentPassword'' [] (ac_current st) [],
                 secret_field ''new-password'' ''settings.newPassword'' [] (ac_new st) [text_el ''FieldDescription'' (tr ''settings.passwordHint'')],
                 El ''Field'' [] [button_view [(''disabled'', Flag (rotate_disabled st))] (tr ''settings.rotatePassword'')]],
              El ''FieldGroup'' []
                [secret_field ''jwt-secret'' ''settings.jwtSecret''
                   [(''placeholder'', Val (fst jwt @ '' ('' @ digits_of (int (snd jwt)) @ '')''))] (ac_secret st) [],
                 El ''Field'' [] [El ''AlertDialog'' []
                   [El ''AlertDialogTrigger'' [] [button_view [(''variant'', Val ''destructive''), (''disabled'', Flag (rotateJWT_disabled st))] (tr ''settings.rotateJWT'')],
                    El ''AlertDialogContent'' []
                      [El ''AlertDialogHeader'' [] [text_el ''AlertDialogTitle'' (tr ''settings.rotateJWTTitle''),
                         text_el ''AlertDialogDescription'' (tr ''settings.rotateJWTDescription'')],
                       El ''AlertDialogFooter'' [] [text_el ''AlertDialogCancel'' (tr ''settings.cancel''),
                         El ''AlertDialogAction'' [(''variant'', Val ''destructive'')] [Txt (tr ''settings.confirmRotate'')]]]]]]])]"

definition runtimeSettingsCard_view :: "probe_field \<Rightarrow> autostart \<Rightarrow> view" where
  "runtimeSettingsCard_view testURL st =
     El ''Card'' []
       [El ''CardHeader'' [] [text_el ''CardTitle'' (tr ''settings.runtimeTitle''), text_el ''CardDescription'' (tr ''settings.runtimeDescription'')],
        El ''CardContent'' [] [El ''FieldGroup'' []
          [El ''div'' []
             [probeURLField_view ''test-url'' (tr ''settings.testURL'') False (probe_plain\<lparr>pk_description := Some (tr ''settings.testURLDescription'')\<rparr>) testURL,
              button_view [(''disabled'', Flag (saveTestURL_disabled (pb_value testURL)))] (tr ''settings.saveTestURL'')],
           El ''Field'' [(''orientation'', Val ''horizontal'')]
             [El ''FieldLabel'' [(''htmlFor'', Val ''autostart'')] [Txt (tr ''settings.autostart'')],
              El ''Switch'' [(''id'', Val ''autostart''), (''checked'', Flag (as_shown st))] []]]]]"

definition checked_field :: "string \<Rightarrow> label \<Rightarrow> (string \<times> attr) list \<Rightarrow> bool \<Rightarrow> string \<Rightarrow> label \<Rightarrow> view" where
  "checked_field ident l attrs invalid value description =
     El ''Field'' [(''data-invalid'', Flag invalid)]
       [El ''FieldLabel'' [(''htmlFor'', Val ident)] [Txt l],
        El ''Input'' ([(''id'', Val ident)] @ attrs @ [(''aria-invalid'', Flag invalid), (''value'', Val value)]) [],
        text_el ''FieldDescription'' description]"

definition tolerance_attrs :: "(string \<times> attr) list" where
  "tolerance_attrs = [(''type'', Val ''number''), (''min'', Val ''0''), (''max'', Val ''65535'')]"

definition urlTestDefaultsCard_view :: "url_parser \<Rightarrow> bool \<Rightarrow> probe_field \<Rightarrow> defaults_card \<Rightarrow> view" where
  "urlTestDefaultsCard_view parse pending probe st =
     (let isURLInvalid = (\<not> isHTTPURL parse (dc_url st)); isIntervalInvalid = (\<not> isPositiveDuration (dc_interval st));
          isToleranceInvalid = (\<not> isTolerance (dc_tolerance st))
      in El ''Card'' []
           [El ''CardHeader'' [] [text_el ''CardTitle'' (tr ''settings.urlTestDefaultsTitle''), text_el ''CardDescription'' (tr ''settings.urlTestDefaultsDescription'')],
            El ''CardContent'' [] [El ''FieldGroup'' []
              [El ''Field'' [(''orientation'', Val ''horizontal'')]
                 [El ''FieldLabel'' [(''htmlFor'', Val ''urltest-enabled'')] [Txt (tr ''settings.urlTestDefaultsEnabled'')],
                  El ''Switch'' [(''id'', Val ''urltest-enabled''), (''checked'', Flag (dc_enabled st))] []],
               probeURLField_view ''urltest-url'' (tr ''settings.urlTestURL'') False
                 (probe_plain\<lparr>pk_manualLabel := Some (tr ''settings.urlTestURLManualInput''), pk_invalid := isURLInvalid,
                    pk_description := Some (tr (if isURLInvalid then ''settings.urlTestURLInvalid'' else ''settings.urlTestURLDescription''))\<rparr>) probe,
               checked_field ''urltest-interval'' (tr ''settings.urlTestInterval'') [] isIntervalInvalid (dc_interval st)
                 (tr (if isIntervalInvalid then ''settings.urlTestIntervalInvalid'' else ''settings.urlTestIntervalDescription'')),
               checked_field ''urltest-tolerance'' (tr ''settings.urlTestTolerance'') tolerance_attrs isToleranceInvalid (dc_tolerance st)
                 (tr (if isToleranceInvalid then ''settings.urlTestToleranceInvalid'' else ''settings.urlTestToleranceDescription''))]],
            El ''CardFooter'' [] [button_view [(''disabled'', Flag (dc_isInvalid parse st \<or> pending))] (tr ''settings.saveURLTestDefaults'')]])"

definition ruleSetAutoUpdateCard_view :: "bool \<Rightarrow> ruleset_card \<Rightarrow> view" where
  "ruleSetAutoUpdateCard_view pending st =
     (let invalid = rc_invalid st
      in El ''Card'' []
           [El ''CardHeader'' [] [text_el ''CardTitle'' (tr ''settings.ruleSetAutoUpdateTitle''), text_el ''CardDescription'' (tr ''settings.ruleSetAutoUpdateDescription'')],
            El ''CardContent'' [] [El ''FieldGroup'' []
              [El ''Field'' [(''orientation'', Val ''horizontal'')]
                 [El ''FieldLabel'' [(''htmlFor'', Val ''ruleset-auto-enabled'')] [Txt (tr ''settings.ruleSetAutoUpdateEnabled'')],
                  El ''Switch'' [(''id'', Val ''ruleset-auto-enabled''), (''checked'', Flag (rc_enabled st))] []],
               checked_field ''ruleset-auto-interval'' (tr ''settings.ruleSetAutoUpdateInterval'') [(''placeholder'', Val ''24h'')] invalid (rc_interval st)
                 (if invalid then tr ''settings.urlTestIntervalInvalid'' else Str ''24h / 12h / 1h'')]],
            El ''CardFooter'' [] [button_view [(''disabled'', Flag (invalid \<or> pending))] (tr ''common.save'')]])"

subsection \<open>The page\<close>

text \<open>The states of the cards, which exist once the queries have answered.\<close>

record settings_page =
  se_preferences :: preferences
  se_defaultPassword :: bool
  se_jwt :: "string \<times> nat"
  se_account :: account_card
  se_testURL :: probe_field
  se_autostart :: autostart
  se_defaultsProbe :: probe_field
  se_defaults :: defaults_card
  se_savingDefaults :: bool
  se_ruleSets :: ruleset_card
  se_savingRuleSets :: bool

definition settingsPage_view :: "url_parser \<Rightarrow> unit query list \<Rightarrow> settings_page \<Rightarrow> view" where
  "settingsPage_view parse queries page =
     (case settingsPage_error queries of
        None \<Rightarrow> El ''Skeleton'' [] []
      | Some (Some message) \<Rightarrow> alert_view True (tr ''common.loadFailed'') (Str message)
      | Some None \<Rightarrow>
          El ''div'' [] [text_el ''h1'' (tr ''settings.title''), El ''div'' []
            [appearanceCard_view (se_preferences page),
             accountCard_view (se_defaultPassword page) (se_jwt page) (se_account page),
             runtimeSettingsCard_view (se_testURL page) (se_autostart page),
             urlTestDefaultsCard_view parse (se_savingDefaults page) (se_defaultsProbe page) (se_defaults page),
             ruleSetAutoUpdateCard_view (se_savingRuleSets page) (se_ruleSets page)]])"

subsection \<open>Lemmas\<close>

lemma settings_fields_translated [simp]:
  "translated (secret_field ident key attrs value rest) = (known_text key [] \<and> attrs_known attrs \<and> list_all translated rest)"
  "translated (checked_field ident l attrs invalid value description) = (label_known l \<and> attrs_known attrs \<and> label_known description)"
  "attrs_known tolerance_attrs"
  by (auto simp: secret_field_def checked_field_def tolerance_attrs_def)

lemma settings_cards_translated [simp]:
  "translated (appearanceCard_view p)"
  "translated (accountCard_view defaultPassword jwt account)"
  "translated (runtimeSettingsCard_view testURL st)"
  "translated (urlTestDefaultsCard_view parse pending probe defaults)"
  "translated (ruleSetAutoUpdateCard_view pending rules)"
proof -
  show "translated (appearanceCard_view p)" by (simp add: appearanceCard_view_def log_level_toggles_def)
  show "translated (accountCard_view defaultPassword jwt account)" by (simp add: accountCard_view_def)
  show "translated (runtimeSettingsCard_view testURL st)"
    by (simp add: runtimeSettingsCard_view_def probeURLField_translated look_known_def probe_plain_def)
  show "translated (urlTestDefaultsCard_view parse pending probe defaults)"
    by (simp add: urlTestDefaultsCard_view_def Let_def probeURLField_translated look_known_def probe_plain_def)
  show "translated (ruleSetAutoUpdateCard_view pending rules)" by (simp add: ruleSetAutoUpdateCard_view_def Let_def)
qed

lemma settingsPage_translated: "translated (settingsPage_view parse queries page)"
  by (simp add: settingsPage_view_def split: option.split)

end
