(* ===== verification/Node_Views.thy ===== *)
theory Node_Views
  imports Settings_Views
begin

text \<open>
  What the pages of nodes and subscriptions show: \<open>features/nodes\<close> and \<open>features/subscriptions\<close>, with their dialogs, over the states of
  \<open>Nodes\<close> and \<open>Subscriptions\<close>.
\<close>

subsection \<open>Nodes\<close>

definition address_label :: "outbound_node \<Rightarrow> label" where
  "address_label node =
     Cat [(case nd_server node of Some s \<Rightarrow> Str s | None \<Rightarrow> em_dash), Str '':'',
       (case nd_port node of Some p \<Rightarrow> Str (number_to_string p) | None \<Rightarrow> em_dash)]"

definition resultBadge_view :: "test_result option \<Rightarrow> view" where
  "resultBadge_view result =
     (case result of
        None \<Rightarrow> badge_view (Some ''outline'') em_dash
      | Some r \<Rightarrow>
          if \<not> tr_success r
          then badge_view (Some ''destructive'') (if truthy_text (tr_error r) then Str (the (tr_error r)) else tr ''nodes.testFailed'')
          else badge_view (Some ''secondary'') (case tr_latency r of None \<Rightarrow> tr ''common.normal'' | Some l \<Rightarrow> Str (formatLatency l)))"

definition testResults_view :: "by_type option \<Rightarrow> view" where
  "testResults_view results =
     El ''dl'' [] (map (\<lambda>type. El ''div'' [(''key'', Val type)]
       [text_el ''dt'' (Str (toUpperCase type)),
        El ''dd'' [] [resultBadge_view (case results of None \<Rightarrow> None | Some m \<Rightarrow> map_of m type)]]) nodeTestTypes)"

definition testControls_view :: "outbound_node \<Rightarrow> bool \<Rightarrow> view" where
  "testControls_view node pending =
     El ''DropdownMenu'' []
       [El ''DropdownMenuTrigger'' [] [button_view
          [(''variant'', Val ''outline''), (''size'', Val ''xs''), (''disabled'', Flag (\<not> testControls_available node \<or> pending))] (tr ''nodes.test'')],
        El ''DropdownMenuContent'' [(''align'', Val ''end'')] [El ''DropdownMenuGroup'' []
          (text_el ''DropdownMenuItem'' (tr ''nodes.testAll'')
           # map (\<lambda>type. El ''DropdownMenuItem'' [(''key'', Val type)] [Txt (Str (toUpperCase type))]) nodeTestTypes)]]"

definition source_label :: "outbound_node \<Rightarrow> label" where
  "source_label node =
     (if nd_source node = Some ''subscription''
      then (if truthy_text (nd_source_name node) then Str (the (nd_source_name node)) else tr ''nodes.subscription'')
      else tr ''nodes.imported'')"

definition nodeCard_view :: "(string \<Rightarrow> bool) \<Rightarrow> (string \<times> by_type) list option \<Rightarrow> outbound_node \<Rightarrow> view" where
  "nodeCard_view pending results node =
     El ''article'' [(''key'', Val (nd_tag node))] [El ''Card'' [(''size'', Val ''sm'')]
       [El ''CardHeader'' []
          [El ''CardTitle'' [] [text_el ''h3'' (Str (nd_tag node))], text_el ''CardDescription'' (address_label node),
           El ''CardAction'' [] [El ''div'' [] [badge_view (Some ''outline'') (Str (nd_type node)), testControls_view node (pending (nd_tag node))]]],
        El ''CardContent'' []
          [badge_view (Some ''secondary'') (source_label node),
           testResults_view (case results of None \<Rightarrow> None | Some rs \<Rightarrow> map_of rs (nd_tag node))]]]"

definition nodeSection_view ::
  "(string \<Rightarrow> bool) \<Rightarrow> bool \<Rightarrow> (string \<times> by_type) list option \<Rightarrow> label \<Rightarrow> label \<Rightarrow> outbound_node list \<Rightarrow> view" where
  "nodeSection_view pending testing results title description ns =
     El ''section'' []
       [El ''div'' []
          [El ''div'' [] [text_el ''h2'' title, text_el ''p'' description],
           button_view [(''variant'', Val ''outline''), (''size'', Val ''sm''), (''disabled'', Flag (length (nodeTestInputs ns) = 0 \<or> testing))] (tr ''nodes.batch'')],
        if length ns > 0 then El ''div'' [] (map (nodeCard_view pending results) ns) else empty_view ''nodes.empty'' ''nodes.emptyDescription'']"

text \<open>The sections of the page, each with a test of its own.\<close>

datatype node_section = AllNodes | SubscriptionNodes string | ImportedNodes

definition subscriptionSections_view ::
  "(string \<Rightarrow> bool) \<Rightarrow> (node_section \<Rightarrow> bool) \<Rightarrow> (string \<times> by_type) list option \<Rightarrow> (string \<times> outbound_node list) list \<Rightarrow> view" where
  "subscriptionSections_view pending testing results groups =
     El ''section'' []
       [El ''div'' [] [text_el ''h2'' (tr ''nodes.subscriptionNodes''), text_el ''p'' (tr ''nodes.subscriptionNodesDescription'')],
        if length groups > 0
        then El ''div'' [] (map (\<lambda>(name, ns). nodeSection_view pending (testing (SubscriptionNodes (subscription_key name))) results
               (if name = [] then tr ''nodes.subscription'' else Str name) (counted ''nodes.nodeCount'' (length ns)) ns) groups)
        else empty_view ''nodes.empty'' ''nodes.emptyDescription'']"

text \<open>The page waits for the nodes; a failure of either query is shown, that of the nodes first.\<close>

definition nodesPage_view ::
  "outbound_node list query_result \<Rightarrow> (string \<times> by_type) list query_result \<Rightarrow> (string \<Rightarrow> bool) \<Rightarrow> (node_section \<Rightarrow> bool) \<Rightarrow> view" where
  "nodesPage_view nodesQuery resultsQuery pending testing =
     (case (nodesQuery, resultsQuery) of
        (query_result.Loading, _) \<Rightarrow> El ''Skeleton'' [] []
      | (query_result.Failed message, _) \<Rightarrow> loadFailed_view message
      | (query_result.Loaded ns, query_result.Failed message) \<Rightarrow> loadFailed_view message
      | (query_result.Loaded ns, r) \<Rightarrow>
          (let results = (case r of query_result.Loaded rs \<Rightarrow> Some rs | _ \<Rightarrow> None)
           in El ''div'' []
                [text_el ''h1'' (tr ''nodes.title''),
                 nodeSection_view pending (testing AllNodes) results (tr ''nodes.allNodes'') (tr ''nodes.allNodesDescription'') ns,
                 subscriptionSections_view pending testing results (groupSubscriptions ns),
                 nodeSection_view pending (testing ImportedNodes) results (tr ''nodes.importedNodes'') (tr ''nodes.importedNodesDescription'') (imported_nodes ns)]))"

definition nodeResultsCard_view :: "string set \<Rightarrow> (string \<times> by_type) list option \<Rightarrow> view list" where
  "nodeResultsCard_view visibleTags data =
     (let results = nodeResults_shown visibleTags data
      in if length results = 0 then []
         else [El ''Card'' []
           [El ''CardHeader'' [] [text_el ''CardTitle'' (tr ''nodes.results''), text_el ''CardDescription'' (tr ''nodes.resultsDescription'')],
            El ''CardContent'' [] [El ''Table'' []
              [El ''TableHeader'' [] [El ''TableRow'' [] (text_el ''TableHead'' (Str ''Tag'')
                 # map (\<lambda>k. text_el ''TableHead'' (tr k)) [''nodes.testType'', ''nodes.latency'', ''common.status''])],
               El ''TableBody'' [] (map (\<lambda>r. El ''TableRow'' [(''key'', Val (tr_tag r @ ''-'' @ tr_test_type r))]
                 [text_el ''TableCell'' (Str (tr_tag r)), text_el ''TableCell'' (Str (toUpperCase (tr_test_type r))),
                  text_el ''TableCell'' (case tr_latency r of None \<Rightarrow> em_dash | Some l \<Rightarrow> Str (js_toFixed 0 l @ '' ms'')),
                  El ''TableCell'' [] [badge_view (Some (if tr_success r then ''secondary'' else ''destructive''))
                    (if tr_success r then tr ''common.normal'' else Str (opt_text (tr_error r)))]]) results)]]]])"

subsection \<open>The dialogs of nodes\<close>

definition plain_input :: "string \<Rightarrow> label \<Rightarrow> (string \<times> attr) list \<Rightarrow> string \<Rightarrow> view" where
  "plain_input ident l attrs value =
     El ''Field'' [] [El ''FieldLabel'' [(''htmlFor'', Val ident)] [Txt l], El ''Input'' ([(''id'', Val ident)] @ attrs @ [(''value'', Val value)]) []]"

definition dialog_frame :: "label \<Rightarrow> label \<Rightarrow> view list \<Rightarrow> view" where
  "dialog_frame title description body =
     El ''Dialog'' [(''open'', Flag True)] [El ''DialogContent'' []
       (El ''DialogHeader'' [] [text_el ''DialogTitle'' title, text_el ''DialogDescription'' description] # body)]"

definition nodeImportDialog_view :: "bool \<Rightarrow> import_dialog \<Rightarrow> view" where
  "nodeImportDialog_view saving st =
     dialog_frame (tr ''nodes.import'') (tr ''nodes.importDescription'')
       [El ''FieldGroup'' []
          (plain_input ''node-link'' (tr ''nodes.link'') [] (id_link st)
           # option_view (\<lambda>p. El ''Field'' [] [text_el ''FieldLabel'' (tr ''nodes.parseResult''),
               El ''Card'' [(''size'', Val ''sm'')]
                 [El ''CardHeader'' [] [text_el ''CardTitle'' (Str (ir_tag p)), text_el ''CardDescription'' (Str (ir_type p))],
                  text_el ''CardContent'' (Str (ir_server p @ '':'' @ number_to_string (ir_port p)))]]) (id_preview st)),
        El ''DialogFooter'' []
          [button_view [(''variant'', Val ''outline''), (''disabled'', Flag (id_link st = [] \<or> id_parsing st \<noteq> None))] (tr ''nodes.parse''),
           button_view [(''disabled'', Flag (id_preview st = None \<or> saving))] (tr ''nodes.saveNode'')]]"

definition nodeEditorForm_view :: "bool \<Rightarrow> node_editor \<Rightarrow> view list" where
  "nodeEditorForm_view saving st =
     [El ''FieldGroup'' []
        [plain_input ''node-tag'' (Str ''Tag'') [] (ne_tag st), plain_input ''node-type'' (tr ''common.type'') [] (ne_type st),
         plain_input ''node-server'' (tr ''nodes.server'') [] (ne_server st), plain_input ''node-port'' (tr ''common.port'') [(''type'', Val ''number'')] (ne_port st)],
      El ''FieldGroup'' [] [El ''Field'' [] [text_el ''FieldLabel'' (tr ''nodes.advancedJSON''), jsonEditor_view [] (ne_config st) (tr ''nodes.advancedJSON'') False]],
      El ''DialogFooter'' [] [button_view [(''disabled'', Flag (ne_disabled st \<or> saving))] (tr ''common.save'')]]"

definition nodeEditorDialog_view :: "unit query_result \<Rightarrow> bool \<Rightarrow> node_editor \<Rightarrow> view" where
  "nodeEditorDialog_view query saving st =
     dialog_frame (tr ''nodes.edit'') (tr ''nodes.editDescription'')
       (case query of
          query_result.Loading \<Rightarrow> [El ''Skeleton'' [] []]
        | query_result.Failed message \<Rightarrow> [loadFailed_view message]
        | query_result.Loaded _ \<Rightarrow> nodeEditorForm_view saving st)"

subsection \<open>Subscriptions\<close>

definition urltest_status_key :: "urltest_status \<Rightarrow> string" where
  "urltest_status_key s =
     (case s of StatusOff \<Rightarrow> ''subscriptions.urlTestOff'' | StatusCustom \<Rightarrow> ''subscriptions.urlTestCustom'' | StatusInherited \<Rightarrow> ''subscriptions.urlTestInherited'')"

record subscription_row =
  sr_item :: subscription_item
  sr_updated :: string
  sr_error :: string
  sr_nodes :: nat

definition delete_confirm :: "(string \<times> attr) list \<Rightarrow> confirm_action \<Rightarrow> view" where
  "delete_confirm attrs st =
     confirmAction_view (button_view attrs (tr ''common.delete'')) (tr ''common.deleteTitle'') (tr ''common.deleteDescription'') (tr ''common.confirmDelete'')
       ''destructive'' st"

definition subscriptionItem_view :: "(string \<Rightarrow> confirm_action) \<Rightarrow> subscription_row \<Rightarrow> view" where
  "subscriptionItem_view confirms row =
     (let item = sr_item row
      in El ''article'' [(''key'', Val (si_id item)), (''aria-label'', Lab (Str (si_name item)))] [El ''Card'' [(''size'', Val ''sm'')]
           [El ''CardHeader'' []
              [text_el ''CardTitle'' (Str (si_name item)), text_el ''CardDescription'' (Str (si_url item)),
               El ''CardAction'' [] [badge_view (Some ''outline'') (counted ''subscriptions.nodeCount'' (sr_nodes row))]],
            El ''CardContent'' []
              [text_el ''span'' (Cat [tr ''subscriptions.lastUpdated'', Str '': '', Str (sr_updated row)]),
               El ''div'' []
                 [badge_view (Some (if sr_error row \<noteq> [] then ''destructive'' else ''secondary'')) (if sr_error row \<noteq> [] then Str (sr_error row) else tr ''common.normal''),
                  badge_view (Some ''outline'') (tr (urltest_status_key (urlTestStatus (si_urltest item))))]],
            El ''CardFooter'' []
              [button_view [(''size'', Val ''sm''), (''variant'', Val ''outline'')] (tr ''common.edit''),
               button_view [(''size'', Val ''sm''), (''variant'', Val ''outline'')] (tr ''subscriptions.refresh''),
               delete_confirm [(''size'', Val ''sm''), (''variant'', Val ''destructive'')] (confirms (si_id item))]]])"

definition urlTestFields_view :: "url_parser \<Rightarrow> urltest_defaults \<Rightarrow> probe_field \<Rightarrow> urltest_form \<Rightarrow> view" where
  "urlTestFields_view parse d probe st =
     (let inherited = (uf_policy st = Inherit); off = (uf_policy st = Disabled); own = (uf_policy st = Enabled);
          isURLInvalid = (own \<and> uf_url st \<noteq> [] \<and> \<not> isHTTPURL parse (uf_url st));
          isIntervalInvalid = (own \<and> uf_interval st \<noteq> [] \<and> \<not> isPositiveDuration (uf_interval st));
          isToleranceInvalid = (own \<and> uf_tolerance st \<noteq> [] \<and> \<not> isTolerance (uf_tolerance st));
          hint = (if inherited then ''subscriptions.urlTestInheritHint'' else ''subscriptions.leaveBlankToInherit'')
      in El ''FieldGroup'' []
           (toggle_field ''subscription-urltest-policy'' ''subscriptions.urlTestPolicy''
              (case uf_policy st of Inherit \<Rightarrow> ''inherit'' | Enabled \<Rightarrow> ''enabled'' | Disabled \<Rightarrow> ''disabled'')
              [(''inherit'', tr ''subscriptions.urlTestInherit''), (''enabled'', tr ''subscriptions.urlTestEnabled''), (''disabled'', tr ''subscriptions.urlTestDisabled'')]
            # when_view off (alert_view False (tr ''subscriptions.urlTestDisabledTitle'') (tr ''subscriptions.urlTestDisabledDescription''))
            @ (case urltest_shown d st of None \<Rightarrow> []
               | Some (url, interval, tolerance) \<Rightarrow>
                   [probeURLField_view ''subscription-urltest-url'' (tr ''settings.urlTestURL'') (\<not> inherited)
                      \<lparr>pk_manualLabel = Some (tr ''settings.urlTestURLManualInput''),
                        pk_description = Some (tr (if isURLInvalid then ''settings.urlTestURLInvalid'' else hint)), pk_placeholder = Some (ud_url d),
                        pk_disabled = inherited, pk_invalid = isURLInvalid, pk_emptyLabel = Some (tr ''settings.urlTestURLEmpty'')\<rparr> probe,
                    checked_field ''subscription-urltest-interval'' (tr ''settings.urlTestInterval'')
                      [(''disabled'', Flag inherited), (''placeholder'', Val (ud_interval d))] isIntervalInvalid interval
                      (tr (if isIntervalInvalid then ''settings.urlTestIntervalInvalid'' else hint)),
                    checked_field ''subscription-urltest-tolerance'' (tr ''settings.urlTestTolerance'')
                      (tolerance_attrs @ [(''disabled'', Flag inherited), (''placeholder'', Val (number_to_string (ud_tolerance d)))]) isToleranceInvalid tolerance
                      (tr (if isToleranceInvalid then ''settings.urlTestToleranceInvalid'' else hint))])
            @ when_view (\<not> inherited) (El ''Field'' [] [button_view [(''type'', Val ''button''), (''variant'', Val ''outline'')] (tr ''subscriptions.resetURLTest'')])))"

definition subscriptionDialog_view :: "url_parser \<Rightarrow> urltest_defaults \<Rightarrow> bool \<Rightarrow> probe_field \<Rightarrow> subscription_dialog \<Rightarrow> view" where
  "subscriptionDialog_view parse d pending probe st =
     dialog_frame (tr (if sd_item st \<noteq> None then ''subscriptions.edit'' else ''subscriptions.add'')) (tr ''subscriptions.dialogDescription'')
       [El ''FieldGroup'' []
          [plain_input ''subscription-name'' (tr ''subscriptions.name'') [] (sd_name st),
           plain_input ''subscription-url'' (tr ''subscriptions.subscriptionURL'') [] (sd_url st),
           plain_input ''subscription-interval'' (tr ''subscriptions.interval'') [(''type'', Val ''number''), (''min'', Val ''1'')] (number_to_string (sd_interval st))],
        urlTestFields_view parse d probe (sd_urlTest st),
        El ''DialogFooter'' []
          [button_view [(''variant'', Val ''outline'')] (tr ''common.cancel''),
           button_view [(''disabled'', Flag (sd_isInvalid parse st \<or> pending))] (tr ''common.save'')]]"

subsection \<open>Imported nodes\<close>

definition importedNodeItem_view :: "(string \<Rightarrow> confirm_action) \<Rightarrow> outbound_node \<Rightarrow> view" where
  "importedNodeItem_view confirms node =
     El ''article'' [(''key'', Val (nd_tag node)), (''aria-label'', Lab (Str (nd_tag node)))] [El ''Card'' [(''size'', Val ''sm'')]
       [El ''CardHeader'' []
          [text_el ''CardTitle'' (Str (nd_tag node)), text_el ''CardDescription'' (address_label node),
           El ''CardAction'' [] [badge_view (Some ''outline'') (Str (nd_type node))]],
        El ''CardFooter'' []
          [button_view [(''variant'', Val ''outline''), (''size'', Val ''sm'')] (tr ''common.edit''),
           delete_confirm [(''variant'', Val ''destructive''), (''size'', Val ''sm'')] (confirms (nd_tag node))]]]"

record imported_dialogs =
  im_import :: import_dialog
  im_saving :: bool
  im_query :: "unit query_result"
  im_editor :: node_editor

definition importedNodesCard_view ::
  "outbound_node list query_result \<Rightarrow> (string \<Rightarrow> confirm_action) \<Rightarrow> imported_card \<Rightarrow> imported_dialogs \<Rightarrow> view list" where
  "importedNodesCard_view query confirms st dialogs =
     [El ''section'' []
        [El ''div'' []
           [El ''div'' [] [text_el ''h2'' (tr ''subscriptions.importedNodes''), text_el ''p'' (tr ''subscriptions.importedNodesDescription'')],
            button_view [] (tr ''nodes.import'')],
         (case query of
            query_result.Loading \<Rightarrow> El ''Skeleton'' [] []
          | query_result.Failed message \<Rightarrow> loadFailed_view message
          | query_result.Loaded data \<Rightarrow>
              (let ns = imported_nodes data
               in if length ns > 0 then El ''div'' [] (map (importedNodeItem_view confirms) ns)
                  else empty_view ''nodes.empty'' ''subscriptions.importedNodesEmpty''))]]
     @ when_view (ic_importing st) (nodeImportDialog_view (im_saving dialogs) (im_import dialogs))
     @ option_view (\<lambda>tag. nodeEditorDialog_view (im_query dialogs) (im_saving dialogs) (im_editor dialogs)) (ic_editing st)"

definition subscriptionsPage_view ::
  "url_parser \<Rightarrow> subscription_row list query_result \<Rightarrow> urltest_defaults query_result \<Rightarrow> (string \<Rightarrow> confirm_action) \<Rightarrow> view list \<Rightarrow>
     (bool \<times> probe_field \<times> subscription_dialog) option \<Rightarrow> view" where
  "subscriptionsPage_view parse query defaults confirms imported editing =
     (case (query, defaults) of
        (query_result.Loading, _) \<Rightarrow> El ''Skeleton'' [] []
      | (_, query_result.Loading) \<Rightarrow> El ''Skeleton'' [] []
      | (query_result.Failed message, _) \<Rightarrow> loadFailed_view message
      | (_, query_result.Failed message) \<Rightarrow> loadFailed_view message
      | (query_result.Loaded rows, query_result.Loaded d) \<Rightarrow>
          El ''div'' []
            ([El ''div'' [] [text_el ''h1'' (tr ''subscriptions.title''),
                El ''div'' [] [button_view [(''variant'', Val ''outline'')] (tr ''subscriptions.refreshAll''), button_view [] (tr ''subscriptions.add'')]],
              El ''section'' []
                [El ''div'' [] [text_el ''h2'' (tr ''subscriptions.list''), text_el ''p'' (tr ''subscriptions.description'')],
                 if length rows > 0 then El ''div'' [] (map (subscriptionItem_view confirms) rows) else empty_view ''common.empty'' ''subscriptions.description'']]
             @ imported
             @ option_view (\<lambda>(pending, probe, st). subscriptionDialog_view parse d pending probe st) editing))"

subsection \<open>Lemmas\<close>

lemma node_parts_translated [simp]:
  "label_known (address_label node)" "label_known (source_label node)"
  "translated (resultBadge_view result)" "translated (testResults_view results)" "translated (testControls_view node busy)"
  "translated (nodeCard_view pending answers node)"
  "translated (nodeSection_view pending testing answers title description ns) = (label_known title \<and> label_known description)"
  "translated (plain_input ident l attrs value) = (label_known l \<and> attrs_known attrs)"
  "translated (dialog_frame title description body) = (label_known title \<and> label_known description \<and> list_all translated body)"
  "translated (delete_confirm attrs st) = attrs_known attrs"
proof -
  show [simp]: "label_known (address_label node)" for node by (simp add: address_label_def split: option.split)
  show [simp]: "label_known (source_label node)" for node by (simp add: source_label_def)
  show [simp]: "translated (resultBadge_view result)" for result by (simp add: resultBadge_view_def split: option.split)
  show [simp]: "translated (testResults_view results)" for results by (simp add: testResults_view_def)
  show [simp]: "translated (testControls_view node busy)" for node busy by (simp add: testControls_view_def)
  show [simp]: "translated (nodeCard_view pending answers node)" for node by (simp add: nodeCard_view_def)
  show "translated (nodeSection_view pending testing answers title description ns) = (label_known title \<and> label_known description)"
    by (simp add: nodeSection_view_def)
  show "translated (plain_input ident l attrs value) = (label_known l \<and> attrs_known attrs)" by (simp add: plain_input_def)
  show "translated (dialog_frame title description body) = (label_known title \<and> label_known description \<and> list_all translated body)"
    by (simp add: dialog_frame_def)
  show "translated (delete_confirm attrs st) = attrs_known attrs" by (simp add: delete_confirm_def)
qed

lemma nodes_pages_translated:
  "translated (nodesPage_view nodesQuery resultsQuery pending testing)"
  "list_all translated (nodeResultsCard_view visibleTags data)"
proof -
  have "translated (subscriptionSections_view pending testing results groups)" for results groups
    by (auto simp: subscriptionSections_view_def)
  then show "translated (nodesPage_view nodesQuery resultsQuery pending testing)"
    by (simp add: nodesPage_view_def Let_def split: query_result.split)
  show "list_all translated (nodeResultsCard_view visibleTags data)"
    by (simp add: nodeResultsCard_view_def Let_def split: option.split)
qed

lemma node_dialogs_translated [simp]:
  "translated (nodeImportDialog_view saving importing)" "translated (nodeEditorDialog_view query saving editor)"
  by (simp_all add: nodeImportDialog_view_def nodeEditorDialog_view_def nodeEditorForm_view_def split: option.split query_result.split)

lemma urlTestFields_translated [simp]: "translated (urlTestFields_view parse d probe st)"
proof -
  have "translated (probeURLField_view ident (tr ''settings.urlTestURL'') b look probe)" if "look_known look" for ident b look
    using that by (simp add: probeURLField_translated)
  then show ?thesis by (simp add: urlTestFields_view_def Let_def look_known_def split: option.split)
qed

lemma subscription_pages_translated:
  "list_all translated (importedNodesCard_view nodesQuery confirms st dialogs)"
  "list_all translated imported \<Longrightarrow> translated (subscriptionsPage_view parse query defaults confirms imported editing)"
proof -
  have "translated (importedNodeItem_view confirms node)" for node by (simp add: importedNodeItem_view_def)
  then show "list_all translated (importedNodesCard_view nodesQuery confirms st dialogs)"
    by (simp add: importedNodesCard_view_def Let_def split: query_result.split option.split)
  have key: "known_text (urltest_status_key s) []" for s by (cases s) (simp_all add: urltest_status_key_def)
  have "translated (subscriptionItem_view confirms row)" for row by (simp add: subscriptionItem_view_def Let_def key)
  moreover have "translated (subscriptionDialog_view parse d pending probe st)" for d pending probe st
    by (simp add: subscriptionDialog_view_def)
  ultimately show "translated (subscriptionsPage_view parse query defaults confirms imported editing)" if "list_all translated imported"
    using that by (auto simp: subscriptionsPage_view_def split: query_result.split option.split prod.split)
qed

end
