(* ===== verification/Advanced_Views.thy ===== *)
theory Advanced_Views
  imports Policy_Page_Views Runtime_Groups Proxy_Views Advanced
begin

text \<open>
  What the advanced pages show, \<open>features/advanced\<close>: the endpoints with their dialog, the experimental section and the pages of
  plain JSON, over the states of \<open>Advanced\<close>. A query of the configuration is loading, failed or loaded.
\<close>

subsection \<open>Parts\<close>

definition page_title :: "label \<Rightarrow> view" where
  "page_title title = El ''CardTitle'' [(''role'', Val ''heading''), (''aria-level'', Val ''1'')] [Txt title]"

definition hidden_json :: "string \<Rightarrow> string \<Rightarrow> view" where
  "hidden_json key value = El ''Field'' [] [text_el ''FieldLabel'' (tr key), jsonEditor_view [] value (tr key) False]"

definition visual_json_tabs :: "view list \<Rightarrow> string \<Rightarrow> string \<Rightarrow> view" where
  "visual_json_tabs visual key value =
     tabs_view ''visual'' [(''visual'', ''advanced.visualTab''), (''json'', ''advanced.advancedTab'')]
       [tab_content ''visual'' visual, tab_content ''json'' [El ''FieldGroup'' [] [hidden_json key value]]]"

definition section_card :: "string \<Rightarrow> string \<Rightarrow> view list \<Rightarrow> string \<Rightarrow> string \<Rightarrow> bool \<Rightarrow> view" where
  "section_card title description visual key value canSave =
     El ''Card'' []
       [El ''CardHeader'' [] [page_title (tr title), text_el ''CardDescription'' (tr description)],
        El ''CardContent'' [] [visual_json_tabs visual key value],
        El ''CardFooter'' [] [button_view [(''disabled'', Flag (\<not> canSave))] (tr ''advanced.save'')]]"

definition loaded_view :: "'a query_result \<Rightarrow> ('a \<Rightarrow> view) \<Rightarrow> view" where
  "loaded_view query show_it =
     (case query of
        query_result.Loading \<Rightarrow> El ''Skeleton'' [] []
      | query_result.Failed message \<Rightarrow> loadFailed_view message
      | query_result.Loaded a \<Rightarrow> show_it a)"

lemma advanced_parts_translated [simp]:
  "translated (page_title l) = label_known l"
  "translated (hidden_json key value) = known_text key []"
  "translated (visual_json_tabs visual key value) = (list_all translated visual \<and> known_text key [])"
  "translated (section_card title description visual key value canSave) =
     (known_text title [] \<and> known_text description [] \<and> list_all translated visual \<and> known_text key [])"
  "(\<And>a. query = query_result.Loaded a \<Longrightarrow> translated (show_it a)) \<Longrightarrow> translated (loaded_view query show_it)"
  by (auto simp: page_title_def hidden_json_def visual_json_tabs_def section_card_def loaded_view_def split: query_result.split)

subsection \<open>Endpoints\<close>

definition endpointCard_view :: "confirm_action \<Rightarrow> jobj \<Rightarrow> view" where
  "endpointCard_view st item =
     (let tag = (case obj_get item ''tag'' of Some (JStr t) \<Rightarrow> if t \<noteq> [] then Str t else tr ''advanced.endpoints.unnamed'' | _ \<Rightarrow> tr ''advanced.endpoints.unnamed'');
          summary = summarizeEndpoint item
      in El ''article'' [] [El ''Card'' [(''size'', Val ''sm'')]
           [El ''CardHeader'' []
              [El ''CardTitle'' [] [text_el ''h2'' tag],
               text_el ''CardDescription'' (Str (case es_detail summary of Some d \<Rightarrow> d | None \<Rightarrow> es_type summary)),
               El ''CardAction'' [] [button_view [(''variant'', Val ''outline''), (''size'', Val ''xs'')] (tr ''common.edit'')]],
            El ''CardContent'' [] [El ''div'' []
              ([badge_view None (Str (es_type summary))]
               @ when_view (es_type summary = ''wireguard'' \<and> es_meta summary > 0) (badge_view (Some ''secondary'') (counted ''advanced.endpoints.peerCount'' (es_meta summary)))
               @ (case es_detail summary of None \<Rightarrow> []
                  | Some d \<Rightarrow> when_view (d \<noteq> [] \<and> d \<noteq> es_type summary) (badge_view (Some ''outline'') (Str d))))],
            El ''CardFooter'' []
              [confirmAction_view (button_view [(''variant'', Val ''destructive''), (''size'', Val ''xs'')] (tr ''common.delete''))
                 (tr ''advanced.endpoints.deleteTitle'') (tagged ''advanced.endpoints.deleteDescription'' tag) (tr ''advanced.endpoints.confirmDelete'') ''destructive'' st]]])"

definition endpoint_context :: "jobj option \<Rightarrow> jobj \<Rightarrow> form_context" where
  "endpoint_context config ob =
     \<lparr>inboundTags = None,
      outboundTags = Some (policyConfigTags (config_section config ''outbounds'') (case obj_get ob ''tag'' of Some (JStr t) \<Rightarrow> Some t | _ \<Rightarrow> None)),
      dnsServerTags = Some (policyDNSServerTags (config_section config ''dns'')), ruleSetTags = None, currentTag = None\<rparr>"

definition endpointForm_view :: "form_env \<Rightarrow> jobj option \<Rightarrow> endpoint_dialog \<Rightarrow> endpoint_section \<Rightarrow> view" where
  "endpointForm_view env config st section =
     policyFormFields_view (form_of env ''advanced.endpoints'' (ed_revision st) (Some (endpoint_context config (ed_object st))) None) []
       (endpoint_sectionFields section) (ed_object st)"

definition endpointEditorDialog_view :: "form_env \<Rightarrow> jobj option \<Rightarrow> endpoint_dialog \<Rightarrow> label \<Rightarrow> bool \<Rightarrow> view" where
  "endpointEditorDialog_view env config st title is_open =
     El ''Dialog'' [(''open'', Flag is_open)] [El ''DialogContent'' []
       [El ''DialogHeader'' [] [text_el ''DialogTitle'' title, text_el ''DialogDescription'' (tr ''advanced.endpoints.editorDescription'')],
        visual_json_tabs
          [El ''div'' [] (type_select ''endpoint-type'' ''advanced.endpoints.type'' (inferEndpointType (ed_object st)) endpointTypes
             # map (endpointForm_view env config st) [ESBasic, ESType, ESDialer])]
          ''advanced.endpoints.itemJSON'' (ed_json st),
        El ''DialogFooter'' []
          [button_view [(''variant'', Val ''outline'')] (tr ''common.cancel''),
           button_view [(''disabled'', Flag (\<not> ed_saveEnabled st))] (tr ''common.save'')]]]"

definition endpointsVisualEditor_view ::
  "form_env \<Rightarrow> jobj option \<Rightarrow> (nat \<Rightarrow> confirm_action) \<Rightarrow> (nat option \<times> endpoint_dialog) option \<Rightarrow> jobj list \<Rightarrow> view" where
  "endpointsVisualEditor_view env config confirms selection items =
     El ''div'' []
       ([El ''Card'' []
           [El ''CardHeader'' []
              [text_el ''CardTitle'' (tr ''advanced.endpoints.listTitle''), text_el ''CardDescription'' (tr ''advanced.endpoints.listDescription''),
               El ''CardAction'' [] [button_view [] (tr ''advanced.endpoints.add'')]],
            El ''CardContent'' []
              [if length items = 0
               then emptySection_view (tr ''advanced.endpoints.empty'') (tr ''advanced.endpoints.emptyDescription'') (tr ''advanced.endpoints.add'')
               else El ''div'' [] (map (\<lambda>(index, item). endpointCard_view (confirms index) item) (enumerate 0 items))],
            El ''CardFooter'' [] [text_el ''p'' (counted ''advanced.endpoints.count'' (length items))]]]
        @ option_view (\<lambda>(index, st). endpointEditorDialog_view env config st
             (tr (if index = None then ''advanced.endpoints.addTitle'' else ''advanced.endpoints.editTitle'')) True) selection)"

definition endpointsEditor_view ::
  "form_env \<Rightarrow> jobj option \<Rightarrow> (nat \<Rightarrow> confirm_action) \<Rightarrow> (nat option \<times> endpoint_dialog) option \<Rightarrow> string \<Rightarrow> view" where
  "endpointsEditor_view env config confirms selection value =
     section_card ''pages.endpoints'' ''advanced.endpointsDescription''
       [case parseEndpoints value of
          Some items \<Rightarrow> endpointsVisualEditor_view env config confirms selection items
        | None \<Rightarrow> alert_view True (tr ''advanced.endpointsInvalidStructureTitle'') (tr ''advanced.endpointsInvalidStructureDescription'')]
       ''advanced.endpointsJSON'' value (parseEndpoints value \<noteq> None)"

definition endpointsPage_view ::
  "form_env \<Rightarrow> jobj query_result \<Rightarrow> (nat \<Rightarrow> confirm_action) \<Rightarrow> (nat option \<times> endpoint_dialog) option \<Rightarrow> string \<Rightarrow> view" where
  "endpointsPage_view env query confirms selection value =
     loaded_view query (\<lambda>config. endpointsEditor_view env (Some config) confirms selection value)"

subsection \<open>The experimental section\<close>

definition experimental_context :: "jobj option \<Rightarrow> form_context" where
  "experimental_context config =
     \<lparr>inboundTags = Some (policyConfigTags (config_section config ''inbounds'') None), outboundTags = Some (policyConfigTags (config_section config ''outbounds'') None),
      dnsServerTags = None, ruleSetTags = None, currentTag = None\<rparr>"

definition experimentalCard_view :: "form_env \<Rightarrow> jobj option \<Rightarrow> nat \<Rightarrow> jobj \<Rightarrow> string \<Rightarrow> policy_field list \<Rightarrow> view" where
  "experimentalCard_view env config revision ob key specs =
     El ''Card'' [(''key'', Val key)]
       [El ''CardHeader'' [] [text_el ''CardTitle'' (tr (''advanced.experimental.'' @ key @ ''Title'')), text_el ''CardDescription'' (tr (''advanced.experimental.'' @ key @ ''Description''))],
        El ''CardContent'' [] [policyFormFields_view (form_of env ''advanced.experimental'' revision (Some (experimental_context config)) None) [] specs ob]]"

definition experimentalVisualEditor_view :: "form_env \<Rightarrow> jobj option \<Rightarrow> nat \<Rightarrow> jobj \<Rightarrow> view" where
  "experimentalVisualEditor_view env config revision ob =
     El ''div'' []
       [experimentalCard_view env config revision ob ''cache'' experimentalCacheFields,
        experimentalCard_view env config revision ob ''clash'' experimentalClashFields,
        experimentalCard_view env config revision ob ''v2ray'' experimentalV2RayFields]"

definition experimentalEditor_view :: "form_env \<Rightarrow> jobj option \<Rightarrow> policy_editor \<Rightarrow> view" where
  "experimentalEditor_view env config st =
     section_card ''pages.experimental'' ''advanced.experimentalDescription''
       (case pe_object st of
          None \<Rightarrow> []
        | Some ob \<Rightarrow> [if isExperimentalStructureValid (Some (JObj ob)) then experimentalVisualEditor_view env config (pe_revision st) ob
            else alert_view True (tr ''advanced.invalidStructureTitle'') (tr ''advanced.invalidStructureDescription'')])
       ''advanced.experimentalJSON'' (pe_value st)
       (pe_object st \<noteq> None \<and> isExperimentalStructureValid (map_option JObj (pe_object st)) \<and> pe_invalid st = {})"

definition experimentalPage_view :: "form_env \<Rightarrow> jobj query_result \<Rightarrow> policy_editor \<Rightarrow> view" where
  "experimentalPage_view env query st = loaded_view query (\<lambda>config. experimentalEditor_view env (Some config) st)"

subsection \<open>Plain JSON\<close>

definition rawEditor_view :: "string \<Rightarrow> bool \<Rightarrow> confirm_action \<Rightarrow> view" where
  "rawEditor_view value pending confirm =
     El ''FieldGroup'' []
       [hidden_json ''advanced.rawJSON'' value,
        El ''Field'' [(''orientation'', Val ''horizontal'')]
          [button_view [(''variant'', Val ''outline'')] (tr ''advanced.reset''),
           confirmAction_view (button_view [(''disabled'', Flag (\<not> isValidJSON value \<or> pending))] (tr ''advanced.saveRaw''))
             (tr ''advanced.overwriteTitle'') (tr ''advanced.overwriteDescription'') (tr ''advanced.confirmOverwrite'') ''default'' confirm]]"

definition titled_card :: "label \<Rightarrow> label \<Rightarrow> view \<Rightarrow> view" where
  "titled_card title description content =
     El ''Card'' [] [El ''CardHeader'' [] [page_title title, text_el ''CardDescription'' description], El ''CardContent'' [] [content]]"

definition rawConfigPage_view :: "unit query_result \<Rightarrow> string \<Rightarrow> bool \<Rightarrow> confirm_action \<Rightarrow> view" where
  "rawConfigPage_view query value pending confirm =
     loaded_view query (\<lambda>_. titled_card (tr ''pages.rawConfig'') (tr ''advanced.rawDescription'') (rawEditor_view value pending confirm))"

definition sectionEditor_view :: "string \<Rightarrow> view" where
  "sectionEditor_view value =
     El ''FieldGroup'' []
       [hidden_json ''advanced.advancedJSON'' value,
        El ''Field'' [] [button_view [(''disabled'', Flag (\<not> isValidJSON value))] (tr ''advanced.save'')]]"

definition sectionConfigPage_view :: "unit query_result \<Rightarrow> label \<Rightarrow> label \<Rightarrow> string \<Rightarrow> view" where
  "sectionConfigPage_view query title description value = loaded_view query (\<lambda>_. titled_card title description (sectionEditor_view value))"

subsection \<open>Lemmas\<close>

lemma endpoint_fields_known: "list_all (field_texts_known ''advanced.endpoints'' False) (endpoint_sectionFields sec)"
  by (cases sec)
    (simp_all add: endpointIdentityFields_def wireGuardFields_def tailscaleFields_def endpointDialerFields_def field_texts_defs)

lemma experimental_fields_known:
  "list_all (field_texts_known ''advanced.experimental'' False) experimentalCacheFields"
  "list_all (field_texts_known ''advanced.experimental'' False) experimentalClashFields"
  "list_all (field_texts_known ''advanced.experimental'' False) experimentalV2RayFields"
  by (simp_all add: experimentalCacheFields_def experimentalClashFields_def experimentalV2RayFields_def field_texts_defs)

lemma endpointCard_translated [simp]: "translated (endpointCard_view st item)"
  by (auto simp: endpointCard_view_def Let_def split: option.splits json.splits)

lemma titled_card_translated [simp]:
  "translated (titled_card l m content) = (label_known l \<and> label_known m \<and> translated content)"
  by (simp add: titled_card_def)

lemma rawEditor_translated [simp]: "translated (rawEditor_view value pending confirm)"
  by (simp add: rawEditor_view_def)

lemma sectionEditor_translated [simp]: "translated (sectionEditor_view value)"
  by (simp add: sectionEditor_view_def)

lemma endpoints_translated:
  assumes sound: "exists_sound (fv_exists env)"
  shows "translated (endpointForm_view env config st sec)"
    and "known_text k [] \<Longrightarrow> translated (endpointEditorDialog_view env config st (tr k) shown)"
    and "translated (endpointsVisualEditor_view env config confirms selection items)"
    and "translated (endpointsPage_view env query confirms selection value)"
proof -
  show form [simp]: "translated (endpointForm_view env config st sec)" for config st sec
    using sound by (auto simp: endpointForm_view_def endpoint_fields_known intro!: policyForm_translated)
  show dialog: "known_text k [] \<Longrightarrow> translated (endpointEditorDialog_view env config st (tr k) shown)" for config st k shown
    by (simp add: endpointEditorDialog_view_def)
  show visual [simp]: "translated (endpointsVisualEditor_view env config confirms selection items)" for config items
    by (auto simp: endpointsVisualEditor_view_def intro!: dialog split: option.split)
  show "translated (endpointsPage_view env query confirms selection value)"
    by (auto simp: endpointsPage_view_def endpointsEditor_view_def intro!: advanced_parts_translated(5) split: option.split)
qed

lemma experimentalPage_translated:
  assumes sound: "exists_sound (fv_exists env)"
  shows "translated (experimentalPage_view env query st)"
proof -
  have "translated (policyFormFields_view (form_of env ''advanced.experimental'' revision ctx None) [] specs ob)"
    if "list_all (field_texts_known ''advanced.experimental'' False) specs" for revision ctx specs ob
    using sound that by (auto intro!: policyForm_translated)
  then have "translated (experimentalVisualEditor_view env config revision ob)" for config revision ob
    by (simp add: experimentalVisualEditor_view_def experimentalCard_view_def experimental_fields_known)
  then show ?thesis
    by (auto simp: experimentalPage_view_def experimentalEditor_view_def intro!: advanced_parts_translated(5) split: option.split)
qed

lemma json_pages_translated:
  "translated (rawConfigPage_view query value pending confirm)"
  "label_known l \<Longrightarrow> label_known m \<Longrightarrow> translated (sectionConfigPage_view query l m value)"
  by (auto simp: rawConfigPage_view_def sectionConfigPage_view_def intro!: advanced_parts_translated(5))

end
