(* ===== verification/Panel_Views.thy ===== *)
theory Panel_Views
  imports Kit Node_Views Advanced_Views
begin

text \<open>
  What the whole panel shows, \<open>App.tsx\<close> and \<open>app/router.tsx\<close>: the page of the route inside the shell, or the login page, a redirection, the
  screen shown while the code of a page is fetched, or the error boundary. Only the page of the route is mounted, so
  the state of the page is one constructor for each route.
\<close>

subsection \<open>The pages\<close>

record policy_page =
  pg_query :: "unit query_result"
  pg_editor :: policy_editor
  pg_config :: "jobj option"
  pg_deleting :: "selection_kind \<Rightarrow> nat \<Rightarrow> bool"
  pg_selection :: "editor_selection option"
  pg_dialog :: dialog_state

record subscriptions_page =
  su_rows :: "subscription_row list query_result"
  su_defaults :: "urltest_defaults query_result"
  su_confirms :: "string \<Rightarrow> confirm_action"
  su_nodeConfirms :: "string \<Rightarrow> confirm_action"
  su_nodes :: "outbound_node list query_result"
  su_imported :: imported_card
  su_dialogs :: imported_dialogs
  su_editing :: "(bool \<times> probe_field \<times> subscription_dialog) option"

datatype page =
    DashboardPage dashboard
  | InboundsPage proxy_page
  | OutboundsPage proxy_page
  | RoutePage policy_page route_queries route_rule_metadata
  | DNSPage policy_page
  | NodesPage "outbound_node list query_result" "(string \<times> by_type) list query_result" "string \<Rightarrow> bool" "node_section \<Rightarrow> bool"
  | SubscriptionsPage subscriptions_page
  | ConnectionsPage "connection_event stream_buffer" "closing option" confirm_action
  | LogsPage log_panel log_panel
  | EndpointsPage "jobj query_result" "nat \<Rightarrow> confirm_action" "(nat option \<times> endpoint_dialog) option" string
  | ExperimentalPage "jobj query_result" policy_editor
  | RawConfigPage "unit query_result" string bool confirm_action
  | SettingsPage "unit query list" settings_page

fun page_route :: "page \<Rightarrow> string" where
  "page_route (DashboardPage _) = ''/dashboard''"
| "page_route (InboundsPage _) = ''/proxy/inbounds''"
| "page_route (OutboundsPage _) = ''/proxy/outbounds''"
| "page_route (RoutePage _ _ _) = ''/policy/route''"
| "page_route (DNSPage _) = ''/policy/dns''"
| "page_route (NodesPage _ _ _ _) = ''/nodes''"
| "page_route (SubscriptionsPage _) = ''/subscriptions''"
| "page_route (ConnectionsPage _ _ _) = ''/observability/connections''"
| "page_route (LogsPage _ _) = ''/observability/logs''"
| "page_route (EndpointsPage _ _ _ _) = ''/advanced/endpoints''"
| "page_route (ExperimentalPage _ _) = ''/advanced/experimental''"
| "page_route (RawConfigPage _ _ _ _) = ''/advanced/raw''"
| "page_route (SettingsPage _ _) = ''/settings''"

text \<open>What all pages read besides: the clock, the browser's dates and URLs, the names React gives, the preferences and the forms' surroundings.\<close>

record browser =
  br_parse :: "string \<Rightarrow> jsnum"
  br_print :: "jsnum \<Rightarrow> string"
  br_printTime :: "jsnum \<Rightarrow> string"
  br_now :: jsnum
  br_url :: url_parser
  br_ids :: "string \<times> string"
  br_preferences :: preferences
  br_form :: form_env
  br_proxy :: proxy_env
  br_t :: translator
  br_date :: "string \<Rightarrow> string option"

primrec page_view :: "browser \<Rightarrow> page \<Rightarrow> view res" where
  "page_view b (DashboardPage d) =
     Inr (dashboardPage_view (br_parse b) (br_printTime b) (fst (br_ids b)) (snd (br_ids b)) (br_preferences b) d)"
| "page_view b (InboundsPage p) = inboundsPage_view (br_proxy b) p"
| "page_view b (OutboundsPage p) = outboundsPage_view (br_proxy b) p"
| "page_view b (RoutePage p queries details) =
     routePage_view (pg_query p) (pg_editor p) (br_form b) (br_t b) (br_date b) (pg_config p) queries (pg_deleting p) (pg_selection p)
       (pg_dialog p) details"
| "page_view b (DNSPage p) =
     dnsPage_view (pg_query p) (pg_editor p) (br_form b) (br_t b) (pg_config p) (pg_deleting p) (pg_selection p) (pg_dialog p)"
| "page_view b (NodesPage ns results pending testing) = Inr (nodesPage_view ns results pending testing)"
| "page_view b (SubscriptionsPage p) =
     Inr (subscriptionsPage_view (br_url b) (su_rows p) (su_defaults p) (su_confirms p)
       (importedNodesCard_view (su_nodes p) (su_nodeConfirms p) (su_imported p) (su_dialogs p)) (su_editing p))"
| "page_view b (ConnectionsPage st closingId confirm) = Inr (connectionsPage_view (br_parse b) (br_now b) st closingId confirm)"
| "page_view b (LogsPage kernelLogs appLogs) = Inr (logsPage_view (br_parse b) (br_print b) kernelLogs appLogs)"
| "page_view b (EndpointsPage query confirms selection value) = Inr (endpointsPage_view (br_form b) query confirms selection value)"
| "page_view b (ExperimentalPage query st) = Inr (experimentalPage_view (br_form b) query st)"
| "page_view b (RawConfigPage query value pending confirm) = Inr (rawConfigPage_view query value pending confirm)"
| "page_view b (SettingsPage queries p) = Inr (settingsPage_view (br_url b) queries p)"

subsection \<open>The panel\<close>

text \<open>
  \<open>fr_fetching\<close>: the page waits for its code, and the fallback is shown, which replaces the whole tree of routes. \<open>fr_login\<close> is what the
  login form shows.
\<close>

record frame =
  fr_sidebar :: sidebar
  fr_loggingOut :: bool
  fr_status :: "bool option"
  fr_login :: "string \<times> bool \<times> bool \<times> bool"
  fr_fetching :: bool
  fr_boundary :: error_boundary

definition redirect_view :: "(string \<times> attr) list \<Rightarrow> string \<Rightarrow> view" where
  "redirect_view state target = El ''Navigate'' ([(''to'', Val target), (''replace'', Flag True)] @ state) []"

definition shell_view :: "browser \<Rightarrow> frame \<Rightarrow> string \<Rightarrow> page \<Rightarrow> view res" where
  "shell_view b fr pathname p =
     (let around = appShell_view (fr_sidebar fr) (br_preferences b) (fr_loggingOut fr) (fr_status fr) pathname
      in if fr_status fr = Some True \<and> pathname \<noteq> ''/settings'' then Inr (around (redirect_view [] ''/settings''))
         else if fr_fetching fr then Inr routeLoading_view
         else bind_res (page_view b p) (\<lambda>v. Inr (around v)))"

definition routes_view ::
  "(string \<Rightarrow> string option) \<Rightarrow> browser \<Rightarrow> frame \<Rightarrow> session option \<Rightarrow> string \<Rightarrow> page \<Rightarrow> view res" where
  "routes_view matches b fr session pathname p =
     (case matches pathname of
        None \<Rightarrow> Inr (redirect_view [] ''/dashboard'')
      | Some r \<Rightarrow>
          if r = ''/login''
          then (case fr_login fr of (error, u, w, submitting) \<Rightarrow> Inr (loginPage_view (session \<noteq> None) error u w submitting))
          else if session = None then Inr (redirect_view [(''state.from'', Val pathname)] ''/login'')
          else shell_view b fr pathname p)"

text \<open>A page that throws puts the boundary into its error; \<open>told\<close> is the message of the error.\<close>

definition panel_view ::
  "(js_error \<Rightarrow> string) \<Rightarrow> (string \<Rightarrow> string option) \<Rightarrow> browser \<Rightarrow> frame \<Rightarrow> session option \<Rightarrow> string \<Rightarrow> page \<Rightarrow> view" where
  "panel_view told matches b fr session pathname p =
     (case eb_error (fr_boundary fr) of
        Some _ \<Rightarrow> errorBoundary_view (fr_boundary fr) (El ''Fragment'' [] [])
      | None \<Rightarrow>
          (case routes_view matches b fr session pathname p of
             Inr v \<Rightarrow> errorBoundary_view (fr_boundary fr) v
           | Inl e \<Rightarrow> errorBoundary_view (eb_step (fr_boundary fr) (Thrown (told e))) (El ''Fragment'' [] [])))"

subsection \<open>Lemmas\<close>

text \<open>Every route has its page, and every page a route.\<close>

lemma page_routes: "range page_route = set appRoutes"
proof
  show "range page_route \<subseteq> set appRoutes"
  proof
    fix r assume "r \<in> range page_route"
    then obtain p where "r = page_route p" by blast
    then show "r \<in> set appRoutes" by (cases p) (simp_all add: appRoutes_def)
  qed
  show "set appRoutes \<subseteq> range page_route"
    unfolding appRoutes_def list.set insert_subset by (intro conjI empty_subsetI; metis page_route.simps rangeI)
qed

lemma page_view_translated:
  assumes "exists_sound (fv_exists (br_form b))" and "exists_sound (pv_exists (br_proxy b))" and "page_view b p = Inr v"
  shows "translated v"
  using assms
  by (cases p)
    (auto simp: live_pages_translated nodes_pages_translated subscription_pages_translated settingsPage_translated json_pages_translated
      endpoints_translated experimentalPage_translated dest: policyPages_translated proxyPages_translated)

lemma redirect_translated [simp]: "translated (redirect_view [] target)" "translated (redirect_view [(''state.from'', Val s)] target)"
  by (simp_all add: redirect_view_def)

lemma routes_view_translated:
  assumes "exists_sound (fv_exists (br_form b))" and "exists_sound (pv_exists (br_proxy b))"
    and "routes_view matches b fr session pathname p = Inr v"
  shows "translated v"
  using assms(3) page_view_translated [OF assms(1,2)]
  by (auto simp: routes_view_def shell_view_def Let_def bind_res_eq_Inr frame_translated split: option.splits prod.splits if_splits)

subsection \<open>Where the panel leads\<close>

text \<open>The addresses the elements with a tag lead to.\<close>

definition targets :: "string \<Rightarrow> view \<Rightarrow> attr option list" where
  "targets tag v = map (\<lambda>(attrs, _). map_of attrs ''to'') (elements tag v)"

lemma targets_El: "targets tag (El t attrs vs) = (if t = tag then [map_of attrs ''to''] else []) @ concat (map (targets tag) vs)"
  "targets tag (Txt l) = []"
  by (simp_all add: targets_def [abs_def] map_concat o_def)

lemmas slot_defs = sidebarHeader_view_def sidebarFooter_view_def sidebarContent_view_def sidebarGroup_view_def sidebarGroupContent_view_def
  sidebarGroupLabel_view_def sidebarMenu_view_def sidebarMenuItem_view_def sidebarMenuButton_view_def rendered_def text_el_def slot_view_def Let_def spread_def
  when_view_def option_view_def

lemma navItems_targets:
  "targets ''Navigate'' (navItems_view st pathname items) = []"
  "targets ''NavLink'' (navItems_view st pathname items) = map (\<lambda>i. Some (Val (nv_to i))) items"
  by (induction items) (simp_all add: navItems_view_def targets_El slot_defs)

lemma navigation_targets:
  "map nv_to primaryItems @ concat (map (\<lambda>g. map nv_to (ng_items g)) navigationGroups) @ map nv_to footerItems = appRoutes"
  by (simp add: primaryItems_def navigationGroups_def footerItems_def appRoutes_def)

lemma appSidebar_targets:
  "targets ''Navigate'' (appSidebar_view st pathname out) = []"
  "targets ''NavLink'' (appSidebar_view st pathname out) = map (\<lambda>r. Some (Val r)) (''/dashboard'' # appRoutes)"
  unfolding navigation_targets [symmetric]
  by (auto simp: appSidebar_view_def navItems_targets targets_El sidebar_view_def slot_defs o_def map_concat)

lemma shell_targets:
  "targets ''Navigate'' (appShell_view st q out status pathname v) = targets ''Navigate'' (defaultPasswordGate_view status pathname v)"
  "targets ''NavLink'' (appShell_view st q out status pathname v)
     = map (\<lambda>r. Some (Val r)) (''/dashboard'' # appRoutes) @ targets ''NavLink'' (defaultPasswordGate_view status pathname v)"
  by (simp_all add: appShell_view_def appSidebar_targets targets_El appearanceMenu_view_def radio_item_def sidebarProvider_view_def
      sidebarInset_view_def sidebarTrigger_view_def text_el_def split: prod.split)

definition example_browser :: browser where
  "example_browser =
     \<lparr>br_parse = (\<lambda>_. NaN), br_print = (\<lambda>_. []), br_printTime = (\<lambda>_. []), br_now = Fin 0, br_url = (\<lambda>_. None), br_ids = (''rate'', ''total''),
      br_preferences = preference_defaults, br_form = example_env, br_proxy = example_proxy_env, br_t = (\<lambda>k vs. k), br_date = (\<lambda>_. None)\<rparr>"

definition example_frame :: "bool \<Rightarrow> frame" where
  "example_frame defaultPassword =
     \<lparr>fr_sidebar = sidebar_load \<lparr>sq_defaultOpen = True, sq_open = None, sq_handled = False\<rparr> None 1200, fr_loggingOut = False, fr_status = Some defaultPassword,
      fr_login = ([], False, False, False), fr_fetching = False, fr_boundary = \<lparr>eb_error = None\<rparr>\<rparr>"

definition example_match :: "string \<Rightarrow> string option" where
  "example_match p = (if p \<in> set (''/login'' # appRoutes) then Some p else None)"


end
