(* ===== verification/Spec2Isabelle.thy ===== *)
theory Spec2Isabelle
  imports Policy_Number Dns_Form Route_Form Inbound_Form Outbound_Form Proxy_Form
    Policy_Fields Policy_Dialogs Policy_Page Proxy_Fields Proxy_Dialogs Advanced Sse Api Well_Formed
    Live_Views Subscriptions Nodes Settings App_Shell Endpoints Config_Pages Item_Lists Panel
    Panel_Views
begin

text \<open>
  Boxd is a panel for a sing-box kernel: a Go server that owns the configuration and the process,
  and a web panel, \<open>ui/src\<close>, that edits the configuration and shows what the kernel does. This
  development models the panel. It talks to the server only through requests and event streams,
  so the server is a parameter of the model wherever its answers matter.

  The parts of the panel and how they interact. The server stores one configuration object, whose
  sections are edited by pages. A page reads its section, shows it as lists of cards and forms,
  and saves the section into the configuration. An item (a DNS server, a rule, a rule set, an
  inbound, an outbound, an endpoint) is edited in a dialog, which keeps the item as JSON text and
  as an object, lets a form of fields edit the object by paths, and passes the object back to the
  page. Which fields a form has depends on the type or action of the item; the form models say
  which fields survive a change of type. All requests go through one client, which adds the
  token of the session and clears the session on a 401; the live views read event streams.

  The theories, from the bottom up, with the files of \<open>ui/src\<close> they model.

  \<^item> \<open>Js_Prelude\<close>, \<open>Js_Number\<close>, \<open>Js_Arith\<close>, \<open>Json\<close>, \<open>Json_Text\<close>: what the code uses of the language. Strings,
    numbers as rationals with the special values and correct rounding to doubles, JSON values
    and objects, \<open>JSON.parse\<close> and \<open>JSON.stringify\<close>; \<open>json_parse_stringify\<close> is the round trip the dialogs
    rest on. The parser has fuel twice the length of the text plus one; \<open>parse_fuel\<close> shows that
    more changes nothing.
  \<^item> \<open>Path_Store\<close>: reading and writing an object by a dotted path, the common contract of the form
    models, as the locale \<open>path_store\<close>, with the laws of a store (\<open>get_put\<close>, \<open>get_put_indep\<close>) and, inside it, the
    pruning loop and its lemmas. It is interpreted twice, on the operations of the policy model
    (\<open>Policy_Form\<close>) and on those of the proxy model (\<open>Proxy_Form\<close>).
  \<^item> \<open>Policy_Form\<close>, \<open>Policy_Number\<close>, \<open>Policy_Fields\<close>: \<open>features/policy/policy-form-model.ts\<close>, the number
    fields, and the controls of the forms. Paths, visibility and pruning, which is shown to end at a
    fixed point; exact bounds of the integers accepted; what each edit does.
  \<^item> \<open>Policy_Tables\<close>, \<open>Dns_Cleanup\<close>, \<open>Dns_Form\<close>, \<open>Route_Form\<close>: the field tables of the DNS and route forms
    and the changes of server type, rule type and action, each with the exact set of fields that survive.
  \<^item> \<open>Policy_Dialogs\<close>, \<open>Policy_Page\<close>: the dialogs as states with edits, what they save; the pages, the
    lists of rules with their metadata (a refinement of one list of described rules), and what a save sends.
  \<^item> \<open>Proxy_Tables\<close>, \<open>Proxy_Form\<close>, \<open>Outbound_Form\<close>, \<open>Inbound_Form\<close>, \<open>Proxy_Fields\<close>, \<open>Proxy_Dialogs\<close>: the same for
    \<open>features/proxy\<close>; \<open>Proxy_Form\<close> shows that the copy of the form model there computes what the policy
    model does; \<open>Outbound_Form\<close> that no credential outlives a change of type.
  \<^item> \<open>Advanced_Tables\<close>, \<open>Advanced\<close>: endpoints, the experimental section and the JSON pages of
    \<open>features/advanced\<close>, and \<open>features/config/config-update.ts\<close>.
  \<^item> \<open>Sse\<close>: \<open>lib/api/sse.ts\<close>. The cutting of a stream into events, independent of how the network cuts the
    text, and the connection with its retries as a step relation over what the network, the timer
    and the caller do, with its safety, its bounds and its recovery.
  \<^item> \<open>Api\<close>: \<open>lib/api/client.ts\<close>, \<open>lib/session.ts\<close>, \<open>lib/storage.ts\<close>, \<open>features/auth/auth-context.tsx\<close>:
    the outcome of a request on every branch, the stored session and preferences, the invariant that
    the session of the application is the stored one, and the regrouping of test results.
  \<^item> \<open>Well_Formed\<close>: the type safety of all form models: each change turns a well formed object into one,
    and throws only for a name that objects inherit.
  \<^item> \<open>Live_Views\<close>: \<open>features/observability\<close> and \<open>features/dashboard\<close>. The buffer of a stream, fed by the
    connection of \<open>Sse\<close>, as the list of the last events; log filters, traffic rates and formats.
  \<^item> \<open>Subscriptions\<close>, \<open>Nodes\<close>: \<open>features/subscriptions\<close>, \<open>features/nodes\<close>, \<open>lib/urltest.ts\<close>, \<open>lib/speed-test-urls.ts\<close> and
    the components \<open>probe-url-field.tsx\<close>, \<open>confirm-action.tsx\<close>. Dialogs as states, what they send, and what
    becomes of a dialog whose second request fails; the grouping of nodes; the URL selector and the
    confirmation as reachable states with invariants.
  \<^item> \<open>Settings\<close>: \<open>features/settings\<close> and \<open>features/preferences\<close>. The preferences shown and stored, the account,
    the autostart switch with overlapping requests, durations and tolerances.
  \<^item> \<open>App_Shell\<close>: \<open>app/\<close> and \<open>features/auth/login-page.tsx\<close>. The routes with their guards always settle; the menu
    and the router agree; login and logout.
  \<^item> \<open>Endpoints\<close>: \<open>lib/api/endpoints.ts\<close>. Every request with its method, path and body; names in paths are
    encoded so that requests stay apart.
  \<^item> \<open>Config_Pages\<close>: \<open>features/config/config-hooks.ts\<close> and the saves and installations of the policy pages against
    a server that keeps a configuration, composed of \<open>Policy_Page\<close> and \<open>Endpoints\<close>.
  \<^item> \<open>Item_Lists\<close>: the lists of the sections as components with one contract, the locales \<open>item_list\<close> and \<open>item_lists\<close>,
    interpreted on the lists of the route, of the DNS section and of the configuration: operations on
    one list are operations on a plain list, whatever happens to its neighbour in between.
  \<^item> \<open>Panel\<close>: \<open>app/providers.tsx\<close>, the composition of \<open>Api\<close> and \<open>Settings\<close> over one storage. The locale \<open>storage_slot\<close>
    is what a value kept in the storage promises; the storage agrees with what the panel shows.

  \<^item> \<open>Locale_Texts\<close>, \<open>Locale_En\<close>, \<open>Locale_Zh\<close>, \<open>Locales\<close>, \<open>Text_Keys\<close>: \<open>i18n/\<close>. Every text of the panel in both languages, with its
    parameters; the languages have the same keys and parameters, and no text is blank. A text is \<open>known_text\<close> when
    every language has it and what it is given suffices. \<open>Text_Keys\<close> derives, group by group, the rewrite rules by which
    the theories of the views know their texts.
  \<^item> \<open>View\<close>: what a component shows, a tree of elements with attributes, with texts by key; \<open>translated\<close> says that every text
    of a tree is known.
  \<^item> \<open>Form_Views\<close>, \<open>Policy_Dialog_Views\<close>, \<open>Policy_Page_Views\<close>: the trees of the policy forms, dialogs, cards, editors and
    pages, composed as the code composes them, over the states of \<open>Policy_Fields\<close>, \<open>Policy_Dialogs\<close> and \<open>Policy_Page\<close>. The
    pages show known texts only; and the last part counts the hooks a render of the editor calls, which on the DNS page depend
    on the text typed.

  \<^item> \<open>Proxy_Form_Views\<close>, \<open>Runtime_Groups\<close>, \<open>Proxy_Views\<close>: the same for \<open>features/proxy\<close>, with the running groups of
    \<open>features/nodes/runtime-groups-card.tsx\<close>, their test and its answers.
  \<^item> \<open>Sidebar_Kit\<close>, \<open>Shell_Views\<close>: \<open>components/ui/sidebar.tsx\<close> and \<open>hooks/use-mobile.ts\<close>. The sidebar as reachable states with its cookie,
    its shortcut and the width of the window; the trees of its parts, of the shell, of the login page and of the boundary.
  \<^item> \<open>Charts\<close>, \<open>Live_Page_Views\<close>: \<open>components/ui/chart.tsx\<close> and \<open>features/dashboard/traffic-chart.tsx\<close>, with what the tooltip of a chart says;
    the trees of the dashboard, of the connections and of the logs.
  \<^item> \<open>Settings_Views\<close>, \<open>Node_Views\<close>, \<open>Advanced_Views\<close>: the trees of the settings, of the nodes and subscriptions with their dialogs, and of
    the advanced pages.
  \<^item> \<open>Kit\<close>: the rest of \<open>components/ui\<close>. What each component of the kit makes of its attributes and children; \<open>expand\<close> turns a tree of
    components into one of primitives, which keeps the texts, apart from the \<open>Close\<close> of dialogs, and the attributes.
  \<^item> \<open>Panel_Views\<close>: \<open>App.tsx\<close> and \<open>app/router.tsx\<close>, the composition of all of these. What the panel shows is a function of the session, the
    path, the frame and the state of the page of the route; it is always translated, it redirects where the routes of \<open>App_Shell\<close> do,
    and it links every page.

  Conventions. A value that may be \<open>undefined\<close> is an option; an operation that may throw has a sum
  type. A table indexed by a string of the configuration is a \<open>registry\<close>: an inherited key such as
  \<open>constructor\<close> yields a \<open>TypeError\<close>, as in the code. A React component is modelled by its state, what
  it shows and its handlers as functions on that state.

  Bounds and simplifications. Strings hold code units below 256. An object keeps its keys in the order
  of creation; that the language lists integer-like keys first is not modelled. Numbers are printed
  with at most seventeen digits, found by trying each precision in turn. The reading of a response
  is given as the decoded text of each read; the decoder itself is the platform's.

  Not modelled: the Go server; class names, icons, styles, toasts and the event handlers of the kit; the router and query libraries, of which
  the model has the matched path, the answers of the queries and the refetch of the configuration, but not the other caches; the
  code editor; \<open>main.tsx\<close>.
\<close>

end
